(* ===== verification/Prelude.thy ===== *)
theory Prelude
  imports Main "HOL-Library.Word" "HOL-Library.Signed_Division"
begin

text \<open>
  Shared ground of the development: the machine integer types of
  \<^verbatim>\<open>common/Pcsx2Defs.h\<close>, the views of a 128-bit register as lanes of 8, 16, 32
  and 64 bits (the union \<^verbatim>\<open>GPR_reg\<close> of \<^verbatim>\<open>pcsx2/R5900.h\<close>), the interface
  \<open>lane_view\<close> those views satisfy together with the lemmas every lane-wise
  instruction rests on, the C rules for signed division and clamping, and the outcome
  type of operations that may be abandoned by a long jump.
\<close>

unbundle bit_operations_syntax

type_synonym u8 = "8 word"
type_synonym u16 = "16 word"
type_synonym u32 = "32 word"
type_synonym u64 = "64 word"
type_synonym u128 = "128 word"

named_theorems lane_simps \<open>reading a lane of a register after a lane was written\<close>

section \<open>Lanes of a 128-bit register\<close>

definition lane :: "nat \<Rightarrow> u128 \<Rightarrow> 'a::len word" where
  "lane i w = ucast (drop_bit (i * LENGTH('a)) w)"

definition set_lane :: "nat \<Rightarrow> 'a::len word \<Rightarrow> u128 \<Rightarrow> u128" where
  "set_lane i v w =
     (w AND NOT (push_bit (i * LENGTH('a)) (mask LENGTH('a)))) OR push_bit (i * LENGTH('a)) (ucast v)"

definition UD :: "nat \<Rightarrow> u128 \<Rightarrow> u64" where "UD = lane"
definition UL :: "nat \<Rightarrow> u128 \<Rightarrow> u32" where "UL = lane"
definition US :: "nat \<Rightarrow> u128 \<Rightarrow> u16" where "US = lane"
definition UC :: "nat \<Rightarrow> u128 \<Rightarrow> u8" where "UC = lane"

definition setUD :: "nat \<Rightarrow> u64 \<Rightarrow> u128 \<Rightarrow> u128" where "setUD = set_lane"
definition setUL :: "nat \<Rightarrow> u32 \<Rightarrow> u128 \<Rightarrow> u128" where "setUL = set_lane"
definition setUS :: "nat \<Rightarrow> u16 \<Rightarrow> u128 \<Rightarrow> u128" where "setUS = set_lane"
definition setUC :: "nat \<Rightarrow> u8 \<Rightarrow> u128 \<Rightarrow> u128" where "setUC = set_lane"

lemmas lane_defs = UD_def UL_def US_def UC_def setUD_def setUL_def setUS_def setUC_def

lemma bit_lane:
  "bit (lane i w :: 'a::len word) k \<longleftrightarrow> k < LENGTH('a) \<and> bit w (i * LENGTH('a) + k)"
  unfolding lane_def by (auto simp: bit_simps)

lemma bit_set_lane:
  "bit (set_lane i (v :: 'a::len word) w) k \<longleftrightarrow>
     (if i * LENGTH('a) \<le> k \<and> k < i * LENGTH('a) + LENGTH('a)
      then k < 128 \<and> bit v (k - i * LENGTH('a)) else bit w k)"
  unfolding set_lane_def by (auto simp: bit_simps not_less not_le dest: bit_imp_le_length)

lemma lane_set_lane_same:
  "(i + 1) * LENGTH('a) \<le> 128 \<Longrightarrow> lane i (set_lane i (v :: 'a::len word) w) = v"
  by (rule bit_word_eqI) (auto simp: bit_lane bit_set_lane)

lemma lane_index_disjoint:
  fixes i j k n :: nat
  assumes "j \<noteq> i" "k < n"
  shows "\<not> (i * n \<le> j * n + k \<and> j * n + k < i * n + n)"
proof (cases "j < i")
  case True
  then have "j + 1 \<le> i" by simp
  then have "(j + 1) * n \<le> i * n" by (rule mult_le_mono1)
  with assms show ?thesis by (simp add: algebra_simps)
next
  case False
  with assms have "i + 1 \<le> j" by simp
  then have "(i + 1) * n \<le> j * n" by (rule mult_le_mono1)
  then show ?thesis by (simp add: algebra_simps)
qed

lemma lane_set_lane_other:
  assumes "j \<noteq> i"
  shows "(lane j (set_lane i (v :: 'a::len word) w) :: 'a word) = lane j w"
  by (rule bit_word_eqI) (use lane_index_disjoint [OF assms] in \<open>auto simp: bit_lane bit_set_lane\<close>)

lemma lane_ext:
  assumes "\<And>i. i < n \<Longrightarrow> (lane i v :: 'a::len word) = lane i w" and n: "n * LENGTH('a) = 128"
  shows "v = w"
proof (rule bit_word_eqI)
  fix k assume k: "k < LENGTH(128)"
  let ?i = "k div LENGTH('a)" and ?j = "k mod LENGTH('a)"
  from k n have "?i < n" by (simp add: less_mult_imp_div_less)
  then have "(lane ?i v :: 'a word) = lane ?i w" by (rule assms(1))
  then have "bit (lane ?i v :: 'a word) ?j = bit (lane ?i w :: 'a word) ?j" by simp
  then show "bit v k = bit w k" by (simp add: bit_lane mult.commute)
qed

section \<open>The interface of a lane view\<close>

text \<open>
  Everything the vector instructions need from a view of a register: a written lane reads
  back, the others are untouched, and the lanes determine the register. The lemmas proved
  here from those three laws cover the order in which lanes are written and the effect of
  a whole sequence of lane updates, including the case where the destination register is
  also a source.
\<close>

locale lane_view =
  fixes get :: "nat \<Rightarrow> 'v \<Rightarrow> 'l"
    and put :: "nat \<Rightarrow> 'l \<Rightarrow> 'v \<Rightarrow> 'v"
    and n :: nat
  assumes get_put_same: "i < n \<Longrightarrow> get i (put i x v) = x"
    and get_put_other: "j \<noteq> i \<Longrightarrow> get j (put i x v) = get j v"
    and ext: "(\<And>i. i < n \<Longrightarrow> get i v = get i w) \<Longrightarrow> v = w"
begin

lemma get_put: "i < n \<Longrightarrow> get j (put i x v) = (if j = i then x else get j v)"
  by (simp add: get_put_same get_put_other)

lemma put_put: "i < n \<Longrightarrow> put i x (put i y v) = put i x v"
  by (rule ext) (simp add: get_put)

lemma put_commute: "i < n \<Longrightarrow> j < n \<Longrightarrow> i \<noteq> j \<Longrightarrow> put i x (put j y v) = put j y (put i x v)"
  by (rule ext) (auto simp: get_put)

lemma put_get: "i < n \<Longrightarrow> put i (get i v) v = v"
  by (rule ext) (simp add: get_put)

lemma fold_put:
  assumes "distinct ks" "set ks \<subseteq> {..<n}"
  shows "get j (fold (\<lambda>i. put i (g i)) ks v) = (if j \<in> set ks then g j else get j v)"
  using assms by (induction ks arbitrary: v) (auto simp: get_put)

text \<open>
  One lane step on a register file: lane \<open>i\<close> of register \<open>d\<close> becomes a function of the
  same lane of registers \<open>a\<close> and \<open>b\<close>, all three read at the moment of the step.
\<close>

definition lane_step :: "('l \<Rightarrow> 'l \<Rightarrow> 'l) \<Rightarrow> 'r \<Rightarrow> 'r \<Rightarrow> 'r \<Rightarrow> nat \<Rightarrow> ('r \<Rightarrow> 'v) \<Rightarrow> ('r \<Rightarrow> 'v)" where
  "lane_step f d a b i R = R(d := put i (f (get i (R a)) (get i (R b))) (R d))"

lemma lane_step_get:
  "i < n \<Longrightarrow> get j (lane_step f d a b i R r) =
     (if r = d \<and> j = i then f (get i (R a)) (get i (R b)) else get j (R r))"
  by (simp add: lane_step_def get_put)

lemma fold_lane_step_get:
  assumes "distinct ks" "set ks \<subseteq> {..<n}"
  shows "get j (fold (lane_step f d a b) ks R r) =
     (if r = d \<and> j \<in> set ks then f (get j (R a)) (get j (R b)) else get j (R r))"
  using assms
proof (induction ks arbitrary: R)
  case (Cons i ks)
  let ?R = "lane_step f d a b i R"
  from Cons.prems have i: "i < n" and "distinct ks" "set ks \<subseteq> {..<n}" "i \<notin> set ks" by auto
  with Cons.IH [of ?R] have
    "get j (fold (lane_step f d a b) ks ?R r) =
       (if r = d \<and> j \<in> set ks then f (get j (?R a)) (get j (?R b)) else get j (?R r))" by simp
  with i \<open>i \<notin> set ks\<close> show ?case by (auto simp: lane_step_get)
qed simp

lemma fold_lane_step_other:
  assumes "distinct ks" "set ks \<subseteq> {..<n}" "r \<noteq> d"
  shows "fold (lane_step f d a b) ks R r = R r"
  by (rule ext) (simp add: fold_lane_step_get assms)

end

interpretation ud: lane_view UD setUD 2
  by unfold_locales
    (auto simp: lane_defs lane_set_lane_same lane_set_lane_other intro: lane_ext [where 'a = 64 and n = 2])

interpretation ul: lane_view UL setUL 4
  by unfold_locales
    (auto simp: lane_defs lane_set_lane_same lane_set_lane_other intro: lane_ext [where 'a = 32 and n = 4])

interpretation us: lane_view US setUS 8
  by unfold_locales
    (auto simp: lane_defs lane_set_lane_same lane_set_lane_other intro: lane_ext [where 'a = 16 and n = 8])

interpretation uc: lane_view UC setUC 16
  by unfold_locales
    (auto simp: lane_defs lane_set_lane_same lane_set_lane_other intro: lane_ext [where 'a = 8 and n = 16])

lemmas lane_get_put [lane_simps] = ud.get_put ul.get_put us.get_put uc.get_put

section \<open>Lanes of different widths\<close>

lemma UL_setUD [lane_simps]:
  "UL 0 (setUD 0 v w) = ucast v" "UL (Suc 0) (setUD 0 v w) = ucast (drop_bit 32 v)"
  "UL 2 (setUD 0 v w) = UL 2 w" "UL 3 (setUD 0 v w) = UL 3 w"
  "UL 0 (setUD (Suc 0) v w) = UL 0 w" "UL (Suc 0) (setUD (Suc 0) v w) = UL (Suc 0) w"
  "UL 2 (setUD (Suc 0) v w) = ucast v" "UL 3 (setUD (Suc 0) v w) = ucast (drop_bit 32 v)"
  by (rule bit_word_eqI; auto simp: lane_defs bit_lane bit_set_lane bit_simps)+

lemma UD_setUL [lane_simps]:
  "UD 0 (setUL 2 v w) = UD 0 w" "UD 0 (setUL 3 v w) = UD 0 w"
  "UD (Suc 0) (setUL 0 v w) = UD (Suc 0) w" "UD (Suc 0) (setUL (Suc 0) v w) = UD (Suc 0) w"
  by (rule bit_word_eqI; auto simp: lane_defs bit_lane bit_set_lane bit_simps)+

lemma UD_UL:
  "UD 0 w = ucast (UL 0 w) OR push_bit 32 (ucast (UL 1 w))"
  "UD (Suc 0) w = ucast (UL 2 w) OR push_bit 32 (ucast (UL 3 w))"
  by (rule bit_word_eqI; auto simp: lane_defs bit_lane bit_simps)+

lemma ucast_UD [lane_simps]:
  "ucast (UD 0 w) = UL 0 w" "ucast (UD (Suc 0) w) = UL 2 w"
  "ucast (drop_bit 32 (UD 0 w)) = UL (Suc 0) w" "ucast (drop_bit 32 (UD (Suc 0) w)) = UL 3 w"
  by (rule bit_word_eqI; auto simp: lane_defs bit_lane bit_simps)+

section \<open>Signed ranges and casts\<close>

text \<open>\<open>fits n k\<close>: the mathematical integer \<open>k\<close> is representable in \<open>n\<close>-bit two's complement.\<close>

definition fits :: "nat \<Rightarrow> int \<Rightarrow> bool" where
  "fits n k \<longleftrightarrow> - (2 ^ (n - 1)) \<le> k \<and> k < 2 ^ (n - 1)"

lemma fits_sint: "fits LENGTH('a) (sint (w :: 'a::len word))"
  using sint_ge [of w] sint_lt [of w] by (simp add: fits_def)

lemma sint_word_of_int_fits: "fits LENGTH('a) k \<Longrightarrow> sint (word_of_int k :: 'a::len word) = k"
  by (simp add: fits_def signed_of_int signed_take_bit_int_eq_self)

lemma sint_range32: "- (2^31) \<le> sint (x::u32) \<and> sint x < 2^31"
  using fits_sint [of x] by (simp add: fits_def)

lemma sint_range64: "- (2^63) \<le> sint (x::u64) \<and> sint x < 2^63"
  using fits_sint [of x] by (simp add: fits_def)

text \<open>A 64-bit register value is canonical when it is the sign extension of its low word, the
  form every 32-bit instruction of the architecture leaves.\<close>

definition canonical32 :: "u64 \<Rightarrow> bool" where
  "canonical32 v \<longleftrightarrow> v = scast (ucast v :: u32)"

lemma ucast_scast32 [simp]: "(ucast (scast w :: u64) :: u32) = w"
proof (rule bit_word_eqI)
  fix n assume "n < LENGTH(32)"
  then show "bit (ucast (scast w :: u64) :: u32) n = bit w n"
    by (cases "n = 31") (auto simp: bit_simps)
qed

lemma canonical32_scast [simp]: "canonical32 (scast (w :: u32))"
  by (simp add: canonical32_def)

lemma ucast_uminus: "(ucast (- x) :: u32) = - ucast (x :: u64)"
proof -
  have d: "is_down (ucast :: u64 \<Rightarrow> u32)" by (simp add: is_down)
  have "- x = word_of_int (- uint x)" by simp
  then have "(ucast (- x) :: u32) = word_of_int (- uint x)" by (simp only: ucast_down_wi [OF d])
  also have "\<dots> = - word_of_int (uint x)" by simp
  also have "(word_of_int (uint x) :: u32) = ucast x" by (rule ucast_eq [symmetric])
  finally show ?thesis .
qed

lemma sint_uminus:
  fixes b :: "'a::len word"
  assumes "sint b \<noteq> - (2 ^ (LENGTH('a) - 1))"
  shows "sint (- b) = - sint b"
proof -
  from assms have "fits LENGTH('a) (- sint b)" using fits_sint [of b] by (auto simp: fits_def)
  then have "sint (word_of_int (- sint b) :: 'a word) = - sint b" by (rule sint_word_of_int_fits)
  then show ?thesis by simp
qed

lemma sint_eq_min32: "sint (b :: u32) = - (2 ^ 31) \<longleftrightarrow> b = 0x80000000"
proof
  assume "sint b = - (2 ^ 31)"
  then have "sint b = sint (0x80000000 :: u32)" by simp
  then show "b = 0x80000000" by (simp only: signed_word_eqI)
qed simp

lemma sint_eq_min64: "sint (b :: u64) = - (2 ^ 63) \<longleftrightarrow> b = 0x8000000000000000"
proof
  assume "sint b = - (2 ^ 63)"
  then have "sint b = sint (0x8000000000000000 :: u64)" by simp
  then show "b = 0x8000000000000000" by (simp only: signed_word_eqI)
qed simp

lemma smod_sgn:
  fixes a b :: int
  assumes "b \<noteq> 0"
  shows "a smod b = 0 \<or> sgn (a smod b) = sgn a"
proof -
  have "0 \<le> \<bar>a\<bar> mod \<bar>b\<bar>" using assms by simp
  moreover have "a smod b = sgn a * (\<bar>a\<bar> mod \<bar>b\<bar>)" by (simp add: signed_modulo_int_def)
  ultimately show ?thesis by (auto simp: sgn_if)
qed

lemma smod_abs_less:
  fixes a b :: int
  assumes "b \<noteq> 0"
  shows "\<bar>a smod b\<bar> < \<bar>b\<bar>"
  using smod_int_range [OF assms, of a] by auto

lemma sint_scast32 [simp]: "sint (scast (w :: u32) :: u64) = sint w"
  by (simp add: sint_up_scast is_up)

lemma sint_signed_shift: "sint (signed_drop_bit n w) = sint w div 2 ^ n"
  by (simp add: sint_signed_drop_bit_eq drop_bit_eq_div)

lemma uint_shift_right: "uint (drop_bit n (w :: 'a::len word)) = uint w div 2 ^ n"
  unfolding unsigned_drop_bit_eq by (simp add: drop_bit_eq_div bintr_uint)

lemma uint_shift_left: "uint (push_bit n (w :: 'a::len word)) = uint w * 2 ^ n mod 2 ^ LENGTH('a)"
proof -
  have "uint (push_bit n w) = take_bit LENGTH('a) (push_bit n (uint w))" by transfer (simp add: take_bit_push_bit)
  then show ?thesis by (simp only: take_bit_eq_mod push_bit_eq_mult)
qed

section \<open>Saturation\<close>

text \<open>\<open>sat_s k\<close> and \<open>sat_u k\<close> are the representable signed and unsigned values nearest to \<open>k\<close>.\<close>

definition sat_s :: "int \<Rightarrow> 'a::len word" where
  "sat_s k = word_of_int (max (- (2 ^ (LENGTH('a) - 1))) (min (2 ^ (LENGTH('a) - 1) - 1) k))"

definition sat_u :: "int \<Rightarrow> 'a::len word" where
  "sat_u k = word_of_int (max 0 (min (2 ^ LENGTH('a) - 1) k))"

lemma fits_mono: "fits m k \<Longrightarrow> m \<le> n \<Longrightarrow> fits n k"
proof -
  assume "fits m k" "m \<le> n"
  moreover from \<open>m \<le> n\<close> have "(2::int) ^ (m - 1) \<le> 2 ^ (n - 1)" by (intro power_increasing) auto
  ultimately show ?thesis unfolding fits_def by linarith
qed

lemma fits_add: 
  assumes "fits m i" "fits m j" "0 < m"
  shows "fits (Suc m) (i + j)" "fits (Suc m) (i - j)"
proof -
  from \<open>0 < m\<close> have "(2::int) ^ m = 2 * 2 ^ (m - 1)" by (simp add: power_eq_if)
  with assms show "fits (Suc m) (i + j)" "fits (Suc m) (i - j)" by (auto simp: fits_def)
qed

lemma sint_wide:
  fixes a b :: "'a::len word"
  assumes "LENGTH('a) < LENGTH('b::len)"
  shows "sint (scast a + scast b :: 'b word) = sint a + sint b"
    "sint (scast a - scast b :: 'b word) = sint a - sint b"
proof -
  have "fits LENGTH('b) (sint a + sint b)" "fits LENGTH('b) (sint a - sint b)"
    using fits_add [OF fits_sint [of a] fits_sint [of b]] assms fits_mono [of "Suc LENGTH('a)" _ "LENGTH('b)"] by auto
  then have "sint (word_of_int (sint a + sint b) :: 'b word) = sint a + sint b"
    "sint (word_of_int (sint a - sint b) :: 'b word) = sint a - sint b" by (blast intro: sint_word_of_int_fits)+
  then show "sint (scast a + scast b :: 'b word) = sint a + sint b"
    "sint (scast a - scast b :: 'b word) = sint a - sint b" by simp_all
qed

lemma fits_uint: "LENGTH('a::len) < n \<Longrightarrow> fits n (uint (a :: 'a word))"
proof -
  assume "LENGTH('a) < n"
  then have "(2::int) ^ LENGTH('a) \<le> 2 ^ (n - 1)" by (intro power_increasing) auto
  moreover have "uint a < 2 ^ LENGTH('a)" "0 \<le> uint a" by (simp_all add: uint_lt2p)
  ultimately show ?thesis unfolding fits_def by linarith
qed

lemma uint_wide:
  fixes a b :: "'a::len word"
  assumes "Suc LENGTH('a) < LENGTH('b::len)"
  shows "sint (ucast a + ucast b :: 'b word) = uint a + uint b"
    "sint (ucast a - ucast b :: 'b word) = uint a - uint b"
proof -
  have "fits LENGTH('b) (uint a + uint b)" "fits LENGTH('b) (uint a - uint b)"
    using fits_add [OF fits_uint [of "Suc LENGTH('a)" a] fits_uint [of "Suc LENGTH('a)" b]] assms
      fits_mono [of "Suc (Suc LENGTH('a))" _ "LENGTH('b)"] by auto
  then have "sint (word_of_int (uint a + uint b) :: 'b word) = uint a + uint b"
    "sint (word_of_int (uint a - uint b) :: 'b word) = uint a - uint b" by (blast intro: sint_word_of_int_fits)+
  then show "sint (ucast a + ucast b :: 'b word) = uint a + uint b"
    "sint (ucast a - ucast b :: 'b word) = uint a - uint b" by simp_all
qed

lemma ucast_eq_sint:
  assumes "LENGTH('a::len) \<le> LENGTH('b::len)" shows "(ucast (w :: 'b word) :: 'a word) = word_of_int (sint w)"
proof -
  have d: "is_down (ucast :: 'b word \<Rightarrow> 'a word)" using assms by (simp add: is_down)
  have "w = word_of_int (sint w)" by simp
  then show ?thesis by (metis ucast_down_wi [OF d])
qed

lemma sat_s_fits: "fits LENGTH('a) k \<Longrightarrow> sat_s k = (word_of_int k :: 'a::len word)"
  by (auto simp: sat_s_def fits_def)

lemma sat_u_range: "0 \<le> k \<Longrightarrow> k < 2 ^ LENGTH('a) \<Longrightarrow> sat_u k = (word_of_int k :: 'a::len word)"
  by (auto simp: sat_u_def)

lemma sat_u_neg: "k \<le> 0 \<Longrightarrow> sat_u k = (0 :: 'a::len word)"
  by (auto simp: sat_u_def min_def)

section \<open>Operations that may be abandoned\<close>

text \<open>
  A memory access may abandon the current instruction: the handler of an unmapped page and the
  alignment checks leave through \<^verbatim>\<open>Cpu->CancelInstruction()\<close>, a long jump back to the
  interpreter loop that keeps the machine state. \<open>Ok v s\<close> is a normal return of the value
  \<open>v\<close> in state \<open>s\<close>, \<open>Cancelled s\<close> the long jump taken in state \<open>s\<close>.
\<close>

datatype ('v, 's) outcome = Ok 'v 's | Cancelled 's

primrec obind :: "('v, 's) outcome \<Rightarrow> ('v \<Rightarrow> 's \<Rightarrow> ('w, 's) outcome) \<Rightarrow> ('w, 's) outcome" where
  "obind (Ok v s) f = f v s"
| "obind (Cancelled s) f = Cancelled s"

primrec final :: "('v, 's) outcome \<Rightarrow> 's" where
  "final (Ok v s) = s"
| "final (Cancelled s) = s"

lemma obind_assoc: "obind (obind m f) g = obind m (\<lambda>v s. obind (f v s) g)"
  by (cases m) simp_all

lemma obind_Ok: "obind m Ok = m"
  by (cases m) simp_all

text \<open>An invariant of the state carried through a sequence of fallible operations.\<close>

lemma final_obind:
  assumes "P (final m)" "\<And>v s. m = Ok v s \<Longrightarrow> P s \<Longrightarrow> P (final (f v s))"
  shows "P (final (obind m f))"
  using assms by (cases m) simp_all

section \<open>Little-endian memory\<close>

text \<open>Host memory as bytes, read and written at the width of the word type, as the
  \<^verbatim>\<open>reinterpret_cast\<close> accesses and \<^verbatim>\<open>memcpy\<close> of the source do on a little-endian host.\<close>

definition hostLoad :: "(u64 \<Rightarrow> u8) \<Rightarrow> u64 \<Rightarrow> 'a::len word" where
  "hostLoad h a = fold (\<lambda>i w. w OR push_bit (8 * i) (ucast (h (a + of_nat i)))) [0..<LENGTH('a) div 8] 0"

definition hostStore :: "u64 \<Rightarrow> 'a::len word \<Rightarrow> (u64 \<Rightarrow> u8) \<Rightarrow> (u64 \<Rightarrow> u8)" where
  "hostStore a v h = fold (\<lambda>i h. h(a + of_nat i := ucast (drop_bit (8 * i) v))) [0..<LENGTH('a) div 8] h"

lemma bit_hostLoad_aux:
  fixes h :: "u64 \<Rightarrow> u8"
  shows "bit (fold (\<lambda>i w. w OR push_bit (8 * i) (ucast (h (a + of_nat i)))) [0..<m] (0 :: 'a::len word)) k \<longleftrightarrow>
     k < LENGTH('a) \<and> k div 8 < m \<and> bit (h (a + of_nat (k div 8))) (k mod 8)"
proof (induction m)
  case (Suc m)
  have "bit (push_bit (8 * m) (ucast (h (a + of_nat m))) :: 'a word) k \<longleftrightarrow>
      k < LENGTH('a) \<and> k div 8 = m \<and> bit (h (a + of_nat (k div 8))) (k mod 8)"
  proof (cases "k div 8 = m")
    case True
    then have "8 * m \<le> k" "k - 8 * m = k mod 8" by (auto simp: modulo_nat_def mult.commute)
    with True show ?thesis by (auto simp: bit_simps)
  next
    case False
    then have "k < 8 * m \<or> 8 \<le> k - 8 * m" by auto
    moreover have "\<not> bit (h (a + of_nat m)) (k - 8 * m)" if "8 \<le> k - 8 * m"
      using that bit_imp_le_length [of "h (a + of_nat m)" "k - 8 * m"] by auto
    ultimately show ?thesis using False by (auto simp: bit_simps)
  qed
  with Suc show ?case by (auto simp: bit_simps less_Suc_eq)
qed simp

lemma bit_hostLoad:
  assumes "8 dvd LENGTH('a)"
  shows "bit (hostLoad h a :: 'a::len word) k \<longleftrightarrow> k < LENGTH('a) \<and> bit (h (a + of_nat (k div 8))) (k mod 8)"
proof -
  from assms obtain m where "LENGTH('a) = 8 * m" ..
  then show ?thesis unfolding hostLoad_def bit_hostLoad_aux by auto
qed

lemma hostStore_aux:
  assumes "m \<le> 2 ^ 64" "i < m"
  shows "fold (\<lambda>i h. h(a + of_nat i := f i)) [0..<m] h (a + of_nat i :: u64) = f i"
  using assms
proof (induction m)
  case (Suc m)
  have "(of_nat i :: u64) = of_nat m \<longleftrightarrow> i = m" if "i < m"
    using that Suc.prems by (simp add: word_of_nat_eq_iff take_bit_nat_eq_self)
  then show ?case using Suc by (auto simp: less_Suc_eq)
qed simp

lemma hostStore_other:
  assumes "\<And>i. i < LENGTH('a) div 8 \<Longrightarrow> b \<noteq> a + of_nat i"
  shows "hostStore a (v :: 'a::len word) h b = h b"
proof -
  have "fold (\<lambda>i h. h(a + of_nat i := f i)) [0..<m] h b = h b" if "\<And>i. i < m \<Longrightarrow> b \<noteq> a + of_nat i" for f m
    using that by (induction m) auto
  then show ?thesis unfolding hostStore_def using assms .
qed

lemma hostStore_byte:
  assumes "LENGTH('a) \<le> 2 ^ 64" "i < LENGTH('a) div 8"
  shows "hostStore a (v :: 'a::len word) h (a + of_nat i) = ucast (drop_bit (8 * i) v)"
proof -
  have "LENGTH('a) div 8 \<le> 2 ^ 64" using assms(1) by (meson div_le_dividend le_trans)
  then show ?thesis unfolding hostStore_def using assms(2) by (intro hostStore_aux) auto
qed

lemma hostStore_at:
  assumes "8 dvd LENGTH('a::len)" "LENGTH('a) \<le> 128"
  shows "hostStore a (v :: 'a word) h b =
    (if unat (b - a) < LENGTH('a) div 8 then ucast (drop_bit (8 * unat (b - a)) v) else h b)"
proof (cases "unat (b - a) < LENGTH('a) div 8")
  case True
  have "a + of_nat (unat (b - a)) = b" by simp
  then show ?thesis using True hostStore_byte [of "unat (b - a)" a v h] assms by simp
next
  case False
  have "b \<noteq> a + of_nat i" if "i < LENGTH('a) div 8" for i
  proof
    assume "b = a + of_nat i"
    then have "unat (b - a) = i" using that assms by (simp add: unat_of_nat take_bit_nat_eq_self)
    then show False using False that by simp
  qed
  then show ?thesis using False hostStore_other [where v = v] by auto
qed

text \<open>What was stored is loaded back.\<close>

lemma hostLoad_hostStore:
  assumes "8 dvd LENGTH('a)" "LENGTH('a) \<le> 2 ^ 64"
  shows "hostLoad (hostStore a (v :: 'a::len word) h) a = v"
proof (rule bit_word_eqI)
  fix k assume k: "k < LENGTH('a)"
  from assms(1) obtain m where "LENGTH('a) = 8 * m" ..
  with k have "k div 8 < LENGTH('a) div 8" by auto
  from hostStore_byte [OF assms(2) this, of a v h] k show "bit (hostLoad (hostStore a v h) a :: 'a word) k = bit v k"
    by (simp add: bit_hostLoad [OF assms(1)] bit_simps)
qed

text \<open>Bits of a word as digits of the number it denotes.\<close>

lemma unat_drop_bit: "unat (drop_bit n (w :: 'a::len word)) = unat w div 2 ^ n"
  by (subst unsigned_drop_bit_eq) (simp add: drop_bit_eq_div unsigned_less take_bit_eq_mod)

lemma unat_take_bit: "unat (take_bit n (w :: 'a::len word)) = unat w mod 2 ^ n"
  by (subst unsigned_take_bit_eq) (rule take_bit_eq_mod)

lemma bit_unat: "bit (w :: 'a::len word) n \<longleftrightarrow> odd (unat w div 2 ^ n)"
  using bit_unsigned_iff [of w n, where 'a = nat] by (simp add: bit_iff_odd [where 'a = nat])

end
