(* ===== verification/EE_State.thy ===== *)
theory EE_State
  imports Prelude
begin

text \<open>
  The architectural state of the Emotion Engine core, \<^verbatim>\<open>struct cpuRegisters\<close> of
  \<^verbatim>\<open>pcsx2/R5900.h\<close>, and the instruction field macros of the same header. The 32
  general registers are 128 bits wide; lanes are read with \<open>UD\<close>, \<open>UL\<close>, \<open>US\<close>, \<open>UC\<close>
  and written with \<open>wUD\<close> and its kin, so \<^verbatim>\<open>cpuRegs.GPR.r[_Rd_].UL[n] = v\<close> reads
  \<open>wUL (fRd s) n v s\<close>. Signed members of the union (\<^verbatim>\<open>SD\<close>, \<^verbatim>\<open>SL\<close>, \<^verbatim>\<open>SS\<close>,
  \<^verbatim>\<open>SC\<close>) are the same bits: an assignment from a signed value is a \<open>scast\<close>, a comparison
  is \<open><s\<close> or goes through \<open>sint\<close>. The record is extensible: the machine with its
  memory extends it, and the register operations apply to the extension unchanged.
\<close>

record cpuRegisters =
  GPR :: "5 word \<Rightarrow> u128"
  HI :: u128
  LO :: u128
  CP0 :: "5 word \<Rightarrow> u32"
  sa :: u32
  IsDelaySlot :: u32
  pc :: u32
  code :: u32
  pccr :: u32
  pcr0 :: u32
  pcr1 :: u32
  eCycle :: "5 word \<Rightarrow> u32"
  sCycle :: "5 word \<Rightarrow> u64"
  cycle :: u64
  interrupt :: u32
  branch :: u32
  dmastall :: u32
  nextEventCycle :: u64
  lastEventCycle :: u64
  lastCOP0Cycle :: u64
  lastPERFCycle0 :: u64
  lastPERFCycle1 :: u64

text \<open>The registers after \<^verbatim>\<open>cpuReset\<close>: everything zero but the boot address, the
  configuration, status and processor-id registers of coprocessor 0 and the first event.\<close>

definition cpuReset :: cpuRegisters where
  "cpuReset = \<lparr>
     GPR = (\<lambda>_. 0), HI = 0, LO = 0,
     CP0 = (\<lambda>_. 0)(16 := 0x440, 12 := 0x70400004, 15 := 0x00002e20),
     sa = 0, IsDelaySlot = 0, pc = 0xbfc00000, code = 0, pccr = 0, pcr0 = 0, pcr1 = 0,
     eCycle = (\<lambda>_. 0), sCycle = (\<lambda>_. 0), cycle = 0, interrupt = 0, branch = 0, dmastall = 0,
     nextEventCycle = 0 + 4, lastEventCycle = 0, lastCOP0Cycle = 0, lastPERFCycle0 = 0, lastPERFCycle1 = 0\<rparr>"

section \<open>Instruction fields\<close>

definition fRd :: "'a cpuRegisters_scheme \<Rightarrow> 5 word" where
  "fRd s = ucast (drop_bit 11 (code s) AND 0x1F)"

definition fRt :: "'a cpuRegisters_scheme \<Rightarrow> 5 word" where
  "fRt s = ucast (drop_bit 16 (code s) AND 0x1F)"

definition fRs :: "'a cpuRegisters_scheme \<Rightarrow> 5 word" where
  "fRs s = ucast (drop_bit 21 (code s) AND 0x1F)"

definition fSa :: "'a cpuRegisters_scheme \<Rightarrow> nat" where
  "fSa s = unat (drop_bit 6 (code s) AND 0x1F)"

definition InstrucTarget :: "'a cpuRegisters_scheme \<Rightarrow> u32" where
  "InstrucTarget s = code s AND 0x03ffffff"

text \<open>\<open>Imm\<close> is the 16-bit immediate; where the code widens \<^verbatim>\<open>_Imm_\<close>, a signed
  16-bit value, the model widens it with \<open>scast\<close>.\<close>

definition Imm :: "'a cpuRegisters_scheme \<Rightarrow> u16" where
  "Imm s = ucast (code s)"

definition ImmU :: "'a cpuRegisters_scheme \<Rightarrow> u32" where
  "ImmU s = code s AND 0xffff"

definition JumpTarget :: "'a cpuRegisters_scheme \<Rightarrow> u32" where
  "JumpTarget s = push_bit 2 (InstrucTarget s) + (pc s AND 0xf0000000)"

definition BranchTarget :: "'a cpuRegisters_scheme \<Rightarrow> u32" where
  "BranchTarget s = scast (Imm s) * 4 + pc s"

lemmas field_defs = fRd_def fRt_def fRs_def fSa_def InstrucTarget_def Imm_def ImmU_def

lemma fSa_less [simp]: "fSa s < 32"
proof -
  have "drop_bit 6 (code s) AND 0x1F \<le> 0x1F" by (rule word_and_le1)
  then show ?thesis unfolding fSa_def word_le_nat_alt by simp
qed

section \<open>Writing registers\<close>

definition wGPR :: "5 word \<Rightarrow> u128 \<Rightarrow> 'a cpuRegisters_scheme \<Rightarrow> 'a cpuRegisters_scheme" where
  "wGPR r v s = s\<lparr>GPR := (GPR s)(r := v)\<rparr>"

definition wUD :: "5 word \<Rightarrow> nat \<Rightarrow> u64 \<Rightarrow> 'a cpuRegisters_scheme \<Rightarrow> 'a cpuRegisters_scheme" where
  "wUD r n v s = wGPR r (setUD n v (GPR s r)) s"

definition wUL :: "5 word \<Rightarrow> nat \<Rightarrow> u32 \<Rightarrow> 'a cpuRegisters_scheme \<Rightarrow> 'a cpuRegisters_scheme" where
  "wUL r n v s = wGPR r (setUL n v (GPR s r)) s"

definition wUS :: "5 word \<Rightarrow> nat \<Rightarrow> u16 \<Rightarrow> 'a cpuRegisters_scheme \<Rightarrow> 'a cpuRegisters_scheme" where
  "wUS r n v s = wGPR r (setUS n v (GPR s r)) s"

definition wUC :: "5 word \<Rightarrow> nat \<Rightarrow> u8 \<Rightarrow> 'a cpuRegisters_scheme \<Rightarrow> 'a cpuRegisters_scheme" where
  "wUC r n v s = wGPR r (setUC n v (GPR s r)) s"

definition wLO_UD :: "nat \<Rightarrow> u64 \<Rightarrow> 'a cpuRegisters_scheme \<Rightarrow> 'a cpuRegisters_scheme" where
  "wLO_UD n v s = s\<lparr>LO := setUD n v (LO s)\<rparr>"

definition wHI_UD :: "nat \<Rightarrow> u64 \<Rightarrow> 'a cpuRegisters_scheme \<Rightarrow> 'a cpuRegisters_scheme" where
  "wHI_UD n v s = s\<lparr>HI := setUD n v (HI s)\<rparr>"

definition wLO_UL :: "nat \<Rightarrow> u32 \<Rightarrow> 'a cpuRegisters_scheme \<Rightarrow> 'a cpuRegisters_scheme" where
  "wLO_UL n v s = s\<lparr>LO := setUL n v (LO s)\<rparr>"

definition wHI_UL :: "nat \<Rightarrow> u32 \<Rightarrow> 'a cpuRegisters_scheme \<Rightarrow> 'a cpuRegisters_scheme" where
  "wHI_UL n v s = s\<lparr>HI := setUL n v (HI s)\<rparr>"

definition wCP0 :: "5 word \<Rightarrow> u32 \<Rightarrow> 'a cpuRegisters_scheme \<Rightarrow> 'a cpuRegisters_scheme" where
  "wCP0 r v s = s\<lparr>CP0 := (CP0 s)(r := v)\<rparr>"

text \<open>The link register write \<^verbatim>\<open>_SetLink\<close>: the 32-bit address zero-extends.\<close>

definition SetLink :: "5 word \<Rightarrow> 'a cpuRegisters_scheme \<Rightarrow> 'a cpuRegisters_scheme" where
  "SetLink r s = wUD r 0 (ucast (pc s + 4)) s"

lemmas write_defs = wGPR_def wUD_def wUL_def wUS_def wUC_def
  wLO_UD_def wHI_UD_def wLO_UL_def wHI_UL_def wCP0_def SetLink_def

section \<open>What a write leaves alone\<close>

named_theorems frame \<open>fields an operation does not change\<close>

lemma wGPR_frame [frame, simp]:
  "HI (wGPR r v s) = HI s" "LO (wGPR r v s) = LO s" "CP0 (wGPR r v s) = CP0 s" "sa (wGPR r v s) = sa s"
  "pc (wGPR r v s) = pc s" "code (wGPR r v s) = code s" "branch (wGPR r v s) = branch s"
  "cycle (wGPR r v s) = cycle s" "cpuRegisters.more (wGPR r v s) = cpuRegisters.more s"
  by (simp_all add: wGPR_def)

lemma GPR_wGPR [simp]: "GPR (wGPR r v s) q = (if q = r then v else GPR s q)"
  by (simp add: wGPR_def)

lemma lane_write_frame [frame, simp]:
  "code (wUD r n v1 s) = code s" "code (wUL r n v2 s) = code s"
  "code (wUS r n v3 s) = code s" "code (wUC r n v4 s) = code s"
  "HI (wUD r n v1 s) = HI s" "HI (wUL r n v2 s) = HI s" "HI (wUS r n v3 s) = HI s" "HI (wUC r n v4 s) = HI s"
  "LO (wUD r n v1 s) = LO s" "LO (wUL r n v2 s) = LO s" "LO (wUS r n v3 s) = LO s" "LO (wUC r n v4 s) = LO s"
  "pc (wUD r n v1 s) = pc s" "pc (wUL r n v2 s) = pc s" "pc (wUS r n v3 s) = pc s" "pc (wUC r n v4 s) = pc s"
  "sa (wUD r n v1 s) = sa s" "sa (wUL r n v2 s) = sa s" "sa (wUS r n v3 s) = sa s" "sa (wUC r n v4 s) = sa s"
  "CP0 (wUD r n v1 s) = CP0 s" "CP0 (wUL r n v2 s) = CP0 s" "CP0 (wUS r n v3 s) = CP0 s" "CP0 (wUC r n v4 s) = CP0 s"
  "branch (wUD r n v1 s) = branch s" "branch (wUL r n v2 s) = branch s" "branch (wUS r n v3 s) = branch s" "branch (wUC r n v4 s) = branch s"
  "cycle (wUD r n v1 s) = cycle s" "cycle (wUL r n v2 s) = cycle s" "cycle (wUS r n v3 s) = cycle s" "cycle (wUC r n v4 s) = cycle s"
  "cpuRegisters.more (wUD r n v1 s) = cpuRegisters.more s" "cpuRegisters.more (wUL r n v2 s) = cpuRegisters.more s" "cpuRegisters.more (wUS r n v3 s) = cpuRegisters.more s" "cpuRegisters.more (wUC r n v4 s) = cpuRegisters.more s"
  by (simp_all add: wUD_def wUL_def wUS_def wUC_def)

lemma GPR_lane_write [simp]:
  "GPR (wUD r n v1 s) q = (if q = r then setUD n v1 (GPR s r) else GPR s q)"
  "GPR (wUL r n v2 s) q = (if q = r then setUL n v2 (GPR s r) else GPR s q)"
  "GPR (wUS r n v3 s) q = (if q = r then setUS n v3 (GPR s r) else GPR s q)"
  "GPR (wUC r n v4 s) q = (if q = r then setUC n v4 (GPR s r) else GPR s q)"
  by (simp_all add: wUD_def wUL_def wUS_def wUC_def)

lemma hilo_write_frame [frame, simp]:
  "GPR (wLO_UD n v s) = GPR s" "GPR (wHI_UD n v s) = GPR s"
  "GPR (wLO_UL n w s) = GPR s" "GPR (wHI_UL n w s) = GPR s"
  "code (wLO_UD n v s) = code s" "code (wHI_UD n v s) = code s"
  "code (wLO_UL n w s) = code s" "code (wHI_UL n w s) = code s"
  "LO (wLO_UD n v s) = setUD n v (LO s)" "HI (wHI_UD n v s) = setUD n v (HI s)"
  "LO (wLO_UL n w s) = setUL n w (LO s)" "HI (wHI_UL n w s) = setUL n w (HI s)"
  "HI (wLO_UD n v s) = HI s" "LO (wHI_UD n v s) = LO s"
  "HI (wLO_UL n w s) = HI s" "LO (wHI_UL n w s) = LO s"
  "GPR (wCP0 c w s) = GPR s" "code (wCP0 c w s) = code s" "CP0 (wCP0 c w s) = (CP0 s)(c := w)"
  "HI (wCP0 c w s) = HI s" "LO (wCP0 c w s) = LO s" "pc (wCP0 c w s) = pc s"
  "CP0 (wLO_UD n v s) = CP0 s" "CP0 (wHI_UD n v s) = CP0 s" "CP0 (wLO_UL n w s) = CP0 s" "CP0 (wHI_UL n w s) = CP0 s"
  "pc (wLO_UD n v s) = pc s" "pc (wHI_UD n v s) = pc s" "pc (wLO_UL n w s) = pc s" "pc (wHI_UL n w s) = pc s"
  "branch (wLO_UD n v s) = branch s" "branch (wHI_UD n v s) = branch s" "branch (wLO_UL n w s) = branch s" "branch (wHI_UL n w s) = branch s"
  "cycle (wLO_UD n v s) = cycle s" "cycle (wHI_UD n v s) = cycle s" "cycle (wLO_UL n w s) = cycle s" "cycle (wHI_UL n w s) = cycle s"
  "sa (wLO_UD n v s) = sa s" "sa (wHI_UD n v s) = sa s" "sa (wLO_UL n w s) = sa s" "sa (wHI_UL n w s) = sa s"
  "cpuRegisters.more (wLO_UD n v s) = cpuRegisters.more s" "cpuRegisters.more (wHI_UD n v s) = cpuRegisters.more s" "cpuRegisters.more (wLO_UL n w s) = cpuRegisters.more s" "cpuRegisters.more (wHI_UL n w s) = cpuRegisters.more s"
  by (simp_all add: write_defs)

lemma fields_cong:
  assumes "code s = code t"
  shows "fRd s = fRd t" "fRt s = fRt t" "fRs s = fRs t" "fSa s = fSa t" "Imm s = Imm t" "ImmU s = ImmU t"
  using assms by (simp_all add: field_defs)

lemma fields_write [simp]:
  "fRd (wUD r n v1 s) = fRd s" "fRd (wUL r n v2 s) = fRd s" "fRd (wUS r n v3 s) = fRd s" "fRd (wUC r n v4 s) = fRd s"
  "fRs (wUD r n v1 s) = fRs s" "fRs (wUL r n v2 s) = fRs s" "fRs (wUS r n v3 s) = fRs s" "fRs (wUC r n v4 s) = fRs s"
  "fRt (wUD r n v1 s) = fRt s" "fRt (wUL r n v2 s) = fRt s" "fRt (wUS r n v3 s) = fRt s" "fRt (wUC r n v4 s) = fRt s"
  "fRd (wLO_UD n v1 s) = fRd s" "fRd (wHI_UD n v1 s) = fRd s" "fRd (wLO_UL n v2 s) = fRd s" "fRd (wHI_UL n v2 s) = fRd s"
  "fRs (wLO_UD n v1 s) = fRs s" "fRs (wHI_UD n v1 s) = fRs s" "fRs (wLO_UL n v2 s) = fRs s" "fRs (wHI_UL n v2 s) = fRs s"
  "fRt (wLO_UD n v1 s) = fRt s" "fRt (wHI_UD n v1 s) = fRt s" "fRt (wLO_UL n v2 s) = fRt s" "fRt (wHI_UL n v2 s) = fRt s"
  by (rule fields_cong; simp)+

lemma wGPR_wGPR: "wGPR d v (wGPR d w s) = wGPR d v s"
  by (simp add: wGPR_def)

lemma wGPR_id: "v = GPR s d \<Longrightarrow> wGPR d v s = s"
  by (simp add: wGPR_def)

lemma fields_wGPR [simp]: "fRd (wGPR r v s) = fRd s" "fRs (wGPR r v s) = fRs s" "fRt (wGPR r v s) = fRt s"
  by (rule fields_cong; simp)+

section \<open>The zero register\<close>

text \<open>Register 0 always reads as zero: the invariant of the register file.\<close>

definition r0_zero :: "'a cpuRegisters_scheme \<Rightarrow> bool" where
  "r0_zero s \<longleftrightarrow> GPR s 0 = 0"

definition keeps_r0 :: "('a cpuRegisters_scheme \<Rightarrow> 'a cpuRegisters_scheme) \<Rightarrow> bool" where
  "keeps_r0 f \<longleftrightarrow> (\<forall>s. GPR (f s) 0 = GPR s 0)"

lemma keeps_r0I: "(\<And>s. GPR (f s) 0 = GPR s 0) \<Longrightarrow> keeps_r0 f"
  by (simp add: keeps_r0_def)

lemma keeps_r0D: "keeps_r0 f \<Longrightarrow> GPR (f s) 0 = GPR s 0"
  by (simp add: keeps_r0_def)

lemma keeps_r0_comp: "keeps_r0 f \<Longrightarrow> keeps_r0 g \<Longrightarrow> keeps_r0 (\<lambda>s. f (g s))"
  by (simp add: keeps_r0_def)

end
