(* ===== verification/EE_Exceptions.thy ===== *)
theory EE_Exceptions
  imports EE_State
begin

text \<open>
  Exceptions and cycle bookkeeping of the Emotion Engine core
  (\<^verbatim>\<open>pcsx2/R5900.cpp\<close>): entering an exception, TLB misses, and the arithmetic on the
  64-bit cycle counter that schedules the next event test. The status register bits are
  those of \<^verbatim>\<open>CP0regs\<close> in \<^verbatim>\<open>pcsx2/R5900.h\<close>. Console output is left out; it has
  no effect on the machine.
\<close>

abbreviation (input) Status_IE :: nat where "Status_IE \<equiv> 0"
abbreviation (input) Status_EXL :: nat where "Status_EXL \<equiv> 1"
abbreviation (input) Status_ERL :: nat where "Status_ERL \<equiv> 2"
abbreviation (input) Status_EIE :: nat where "Status_EIE \<equiv> 16"
abbreviation (input) Status_EDI :: nat where "Status_EDI \<equiv> 17"
abbreviation (input) Status_BEV :: nat where "Status_BEV \<equiv> 22"
abbreviation (input) Status_DEV :: nat where "Status_DEV \<equiv> 23"

text \<open>Register numbers of \<^verbatim>\<open>CP0regs\<close>, in the order of the struct.\<close>

abbreviation (input) Index :: "5 word" where "Index \<equiv> 0"
abbreviation (input) Random :: "5 word" where "Random \<equiv> 1"
abbreviation (input) EntryLo0 :: "5 word" where "EntryLo0 \<equiv> 2"
abbreviation (input) EntryLo1 :: "5 word" where "EntryLo1 \<equiv> 3"
abbreviation (input) Context :: "5 word" where "Context \<equiv> 4"
abbreviation (input) PageMask :: "5 word" where "PageMask \<equiv> 5"
abbreviation (input) BadVAddr :: "5 word" where "BadVAddr \<equiv> 8"
abbreviation (input) Count :: "5 word" where "Count \<equiv> 9"
abbreviation (input) EntryHi :: "5 word" where "EntryHi \<equiv> 10"
abbreviation (input) Compare :: "5 word" where "Compare \<equiv> 11"
abbreviation (input) Status :: "5 word" where "Status \<equiv> 12"
abbreviation (input) Cause :: "5 word" where "Cause \<equiv> 13"
abbreviation (input) EPC :: "5 word" where "EPC \<equiv> 14"
abbreviation (input) Config :: "5 word" where "Config \<equiv> 16"
abbreviation (input) TagLo :: "5 word" where "TagLo \<equiv> 28"
abbreviation (input) ErrorEPC :: "5 word" where "ErrorEPC \<equiv> 30"

section \<open>Entering an exception\<close>

text \<open>The second half of \<^verbatim>\<open>cpuException\<close>: save the return address unless an exception is
  already being handled, and go to the vector.\<close>

definition enter_vector :: "bool \<Rightarrow> u32 \<Rightarrow> u32 \<Rightarrow> 'a cpuRegisters_scheme \<Rightarrow> 'a cpuRegisters_scheme" where
  "enter_vector checkStatus offset bd s =
     (let (s, offset) =
        (if \<not> bit (CP0 s Status) Status_EXL
         then (let s = wCP0 Status (set_bit Status_EXL (CP0 s Status)) s in
               if bd \<noteq> 0
               then (wCP0 Cause (CP0 s Cause OR 0x80000000) (wCP0 EPC (pc s - 4) s), offset)
               else (wCP0 Cause (CP0 s Cause AND NOT 0x80000000) (wCP0 EPC (pc s) s), offset))
         else (s, 0x180))
      in s\<lparr>pc := (if checkStatus then 0x80000000 + offset else 0xBFC00200 + offset)\<rparr>)"

definition cpuException :: "u32 \<Rightarrow> u32 \<Rightarrow> 'a cpuRegisters_scheme \<Rightarrow> 'a cpuRegisters_scheme" where
  "cpuException excode bd s =
     (let s = wCP0 Cause (excode AND 0xffff) (s\<lparr>branch := 0\<rparr>) in
      if \<not> bit (CP0 s Status) Status_ERL
      then enter_vector (\<not> bit (CP0 s Status) Status_BEV)
             (if excode AND 0x7C \<ge> 0x8 \<and> excode AND 0x7C \<le> 0xC then 0x0
              else if excode AND 0x7C = 0x0 then 0x200 else 0x180) bd s
      else if excode AND 0x38000 \<le> 0x8000 then s\<lparr>pc := 0xBFC00000\<rparr>
      else enter_vector (\<not> bit (CP0 s Status) Status_DEV)
             (if excode AND 0x38000 = 0x10000 then 0x80
              else if excode AND 0x38000 = 0x18000 then 0x100 else 0) bd s)"

definition cpuTlbMiss :: "u32 \<Rightarrow> u32 \<Rightarrow> u32 \<Rightarrow> 'a cpuRegisters_scheme \<Rightarrow> 'a cpuRegisters_scheme" where
  "cpuTlbMiss addr bd excode s =
     (let s = wCP0 BadVAddr addr s;
          s = wCP0 Context (CP0 s Context AND 0xFF80000F) s;
          s = wCP0 Context (CP0 s Context OR (drop_bit 9 addr AND 0x007FFFF0)) s;
          s = wCP0 EntryHi ((addr AND 0xFFFFE000) OR (CP0 s EntryHi AND 0x1FFF)) s
      in cpuException excode bd (s\<lparr>pc := pc s - 4\<rparr>))"

definition cpuTlbMissR :: "u32 \<Rightarrow> u32 \<Rightarrow> 'a cpuRegisters_scheme \<Rightarrow> 'a cpuRegisters_scheme" where
  "cpuTlbMissR addr bd s = cpuTlbMiss addr bd 0x8 s"

definition cpuTlbMissW :: "u32 \<Rightarrow> u32 \<Rightarrow> 'a cpuRegisters_scheme \<Rightarrow> 'a cpuRegisters_scheme" where
  "cpuTlbMissW addr bd s = cpuTlbMiss addr bd 0xC s"

section \<open>Cycle arithmetic\<close>

definition cpuSetNextEvent :: "u64 \<Rightarrow> u32 \<Rightarrow> 'a cpuRegisters_scheme \<Rightarrow> 'a cpuRegisters_scheme" where
  "cpuSetNextEvent startCycle delta s =
     (if delta <s (ucast (nextEventCycle s - startCycle) :: u32)
      then s\<lparr>nextEventCycle := startCycle + scast delta\<rparr> else s)"

definition cpuSetNextEventDelta :: "u32 \<Rightarrow> 'a cpuRegisters_scheme \<Rightarrow> 'a cpuRegisters_scheme" where
  "cpuSetNextEventDelta delta s = cpuSetNextEvent (cycle s) delta s"

definition cpuTestCycle :: "u64 \<Rightarrow> u32 \<Rightarrow> 'a cpuRegisters_scheme \<Rightarrow> bool" where
  "cpuTestCycle startCycle delta s \<longleftrightarrow> delta \<le>s (ucast (cycle s - startCycle) :: u32)"

definition cpuSetEvent :: "'a cpuRegisters_scheme \<Rightarrow> 'a cpuRegisters_scheme" where
  "cpuSetEvent s = s\<lparr>nextEventCycle := cycle s\<rparr>"

definition cpuClearInt :: "nat \<Rightarrow> 'a cpuRegisters_scheme \<Rightarrow> 'a cpuRegisters_scheme" where
  "cpuClearInt i s = s\<lparr>interrupt := interrupt s AND NOT (push_bit i 1), dmastall := dmastall s AND NOT (push_bit i 1)\<rparr>"

definition cpuIntsEnabled :: "u32 \<Rightarrow> 'a cpuRegisters_scheme \<Rightarrow> bool" where
  "cpuIntsEnabled Interrupt s \<longleftrightarrow>
     CP0 s Status AND Interrupt \<noteq> 0 \<and> bit (CP0 s Status) Status_EIE \<and> bit (CP0 s Status) Status_IE \<and>
     \<not> bit (CP0 s Status) Status_EXL \<and> \<not> bit (CP0 s Status) Status_ERL"

definition cpuTestTIMR :: "'a cpuRegisters_scheme \<Rightarrow> 'a cpuRegisters_scheme" where
  "cpuTestTIMR s =
     (let s = wCP0 Count (CP0 s Count + ucast (cycle s - lastCOP0Cycle s)) s;
          s = s\<lparr>lastCOP0Cycle := cycle s\<rparr>
      in if CP0 s Status AND 0x8000 \<noteq> 0 \<and> CP0 s Compare \<le> CP0 s Count \<and> CP0 s Count < CP0 s Compare + 1000
         then cpuException 0x808000 (branch s) s else s)"

section \<open>Frame and vector lemmas\<close>

lemma wCP0_simps [simp]:
  "branch (wCP0 r v s) = branch s" "cycle (wCP0 r v s) = cycle s" "sa (wCP0 r v s) = sa s"
  "nextEventCycle (wCP0 r v s) = nextEventCycle s" "cpuRegisters.more (wCP0 r v s) = cpuRegisters.more s"
  by (simp_all add: wCP0_def)

lemma enter_vector_frame [frame, simp]:
  "GPR (enter_vector c f bd s) = GPR s" "code (enter_vector c f bd s) = code s"
  "HI (enter_vector c f bd s) = HI s" "LO (enter_vector c f bd s) = LO s" "sa (enter_vector c f bd s) = sa s"
  "branch (enter_vector c f bd s) = branch s" "cycle (enter_vector c f bd s) = cycle s"
  "cpuRegisters.more (enter_vector c f bd s) = cpuRegisters.more s"
  by (simp_all add: enter_vector_def Let_def)

lemma cpuException_frame [frame, simp]:
  "GPR (cpuException e bd s) = GPR s" "code (cpuException e bd s) = code s"
  "HI (cpuException e bd s) = HI s" "LO (cpuException e bd s) = LO s" "sa (cpuException e bd s) = sa s"
  "branch (cpuException e bd s) = 0" "cycle (cpuException e bd s) = cycle s"
  "cpuRegisters.more (cpuException e bd s) = cpuRegisters.more s"
  by (simp_all add: cpuException_def Let_def wCP0_def)

lemma cpuTlbMiss_frame [frame, simp]:
  "GPR (cpuTlbMiss a bd e s) = GPR s" "code (cpuTlbMiss a bd e s) = code s"
  "cpuRegisters.more (cpuTlbMiss a bd e s) = cpuRegisters.more s"
  by (simp_all add: cpuTlbMiss_def Let_def wCP0_def)

lemma cpuSetNextEvent_frame [frame, simp]:
  "GPR (cpuSetNextEvent c d s) = GPR s" "code (cpuSetNextEvent c d s) = code s" "CP0 (cpuSetNextEvent c d s) = CP0 s"
  "pc (cpuSetNextEvent c d s) = pc s" "cycle (cpuSetNextEvent c d s) = cycle s"
  "GPR (cpuSetNextEventDelta d s) = GPR s" "code (cpuSetNextEventDelta d s) = code s"
  "CP0 (cpuSetNextEventDelta d s) = CP0 s" "pc (cpuSetNextEventDelta d s) = pc s" "cycle (cpuSetNextEventDelta d s) = cycle s"
  by (simp_all add: cpuSetNextEvent_def cpuSetNextEventDelta_def)

lemma cpuException_level1:
  assumes "\<not> bit (CP0 s Status) Status_ERL" "\<not> bit (CP0 s Status) Status_EXL"
  shows "CP0 (cpuException e bd s) EPC = (if bd \<noteq> 0 then pc s - 4 else pc s)"
    and "CP0 (cpuException e bd s) Status = set_bit Status_EXL (CP0 s Status)"
    and "CP0 (cpuException e bd s) Cause = (if bd \<noteq> 0 then (e AND 0xffff) OR 0x80000000 else e AND 0xffff)"
proof -
  have m: "(e AND 0xFFFF) AND - 2147483649 = e AND (0xFFFF :: u32)"
    by (simp add: and.assoc)
  show "CP0 (cpuException e bd s) EPC = (if bd \<noteq> 0 then pc s - 4 else pc s)"
    and "CP0 (cpuException e bd s) Status = set_bit Status_EXL (CP0 s Status)"
    and "CP0 (cpuException e bd s) Cause = (if bd \<noteq> 0 then (e AND 0xffff) OR 0x80000000 else e AND 0xffff)"
    using assms by (auto simp: cpuException_def enter_vector_def Let_def m)
qed

end
