(* ===== verification/EE_ALU.thy ===== *)
theory EE_ALU
  imports EE_Exceptions
begin

text \<open>
  The integer instructions of the Emotion Engine interpreter that touch registers only
  (\<^verbatim>\<open>pcsx2/R5900OpcodeImpl.cpp\<close>): arithmetic with and without overflow exceptions,
  logic, comparisons, multiplication and division into HI and LO, shifts, conditional
  moves, the shift-amount register and the trap instructions. Each definition is one
  function of that file; \<open>wUD (fRd s) 0 v s\<close> is \<^verbatim>\<open>cpuRegs.GPR.r[_Rd_].UD[0] = v\<close>.
\<close>

section \<open>Addition with overflow detection\<close>

definition add64_Overflow :: "u64 \<Rightarrow> u64 \<Rightarrow> 'a cpuRegisters_scheme \<Rightarrow> u64 option \<times> 'a cpuRegisters_scheme" where
  "add64_Overflow x y s =
     (let result = x + y in
      if (NOT (x XOR y) AND (x XOR result)) <s 0
      then (None, cpuException 0x30 (branch s) s) else (Some result, s))"

definition add32_Overflow :: "u32 \<Rightarrow> u32 \<Rightarrow> 'a cpuRegisters_scheme \<Rightarrow> u64 option \<times> 'a cpuRegisters_scheme" where
  "add32_Overflow x y s =
     (let result = (scast x :: u64) + scast y in
      if drop_bit 31 (ucast result :: u32) \<noteq> (ucast (drop_bit 32 result) :: u32) AND 1
      then (None, cpuException 0x30 (branch s) s) else (Some result, s))"

text \<open>\<^verbatim>\<open>if (overflow || !_Rd_) return; cpuRegs.GPR.r[_Rd_].SD[0] = result;\<close>\<close>

definition store_checked :: "5 word \<Rightarrow> u64 option \<times> 'a cpuRegisters_scheme \<Rightarrow> 'a cpuRegisters_scheme" where
  "store_checked r p = (case p of (None, s) \<Rightarrow> s | (Some v, s) \<Rightarrow> if r = 0 then s else wUD r 0 v s)"

section \<open>Arithmetic with an immediate operand\<close>

definition ADDI :: "'a cpuRegisters_scheme \<Rightarrow> 'a cpuRegisters_scheme" where
  "ADDI s = store_checked (fRt s) (add32_Overflow (ucast (UD 0 (GPR s (fRs s)))) (scast (Imm s)) s)"

definition ADDIU :: "'a cpuRegisters_scheme \<Rightarrow> 'a cpuRegisters_scheme" where
  "ADDIU s = (if fRt s = 0 then s else wUD (fRt s) 0 (scast (UL 0 (GPR s (fRs s)) + scast (Imm s))) s)"

definition DADDI :: "'a cpuRegisters_scheme \<Rightarrow> 'a cpuRegisters_scheme" where
  "DADDI s = store_checked (fRt s) (add64_Overflow (UD 0 (GPR s (fRs s))) (scast (Imm s)) s)"

definition DADDIU :: "'a cpuRegisters_scheme \<Rightarrow> 'a cpuRegisters_scheme" where
  "DADDIU s = (if fRt s = 0 then s else wUD (fRt s) 0 (UD 0 (GPR s (fRs s)) + scast (Imm s)) s)"

definition ANDI :: "'a cpuRegisters_scheme \<Rightarrow> 'a cpuRegisters_scheme" where
  "ANDI s = (if fRt s = 0 then s else wUD (fRt s) 0 (UD 0 (GPR s (fRs s)) AND ucast (ImmU s)) s)"

definition ORI :: "'a cpuRegisters_scheme \<Rightarrow> 'a cpuRegisters_scheme" where
  "ORI s = (if fRt s = 0 then s else wUD (fRt s) 0 (UD 0 (GPR s (fRs s)) OR ucast (ImmU s)) s)"

definition XORI :: "'a cpuRegisters_scheme \<Rightarrow> 'a cpuRegisters_scheme" where
  "XORI s = (if fRt s = 0 then s else wUD (fRt s) 0 (UD 0 (GPR s (fRs s)) XOR ucast (ImmU s)) s)"

definition SLTI :: "'a cpuRegisters_scheme \<Rightarrow> 'a cpuRegisters_scheme" where
  "SLTI s = (if fRt s = 0 then s else
     wUD (fRt s) 0 (if UD 0 (GPR s (fRs s)) <s scast (Imm s) then 1 else 0) s)"

definition SLTIU :: "'a cpuRegisters_scheme \<Rightarrow> 'a cpuRegisters_scheme" where
  "SLTIU s = (if fRt s = 0 then s else
     wUD (fRt s) 0 (if UD 0 (GPR s (fRs s)) < scast (Imm s) then 1 else 0) s)"

section \<open>Register arithmetic\<close>

definition ADD :: "'a cpuRegisters_scheme \<Rightarrow> 'a cpuRegisters_scheme" where
  "ADD s = store_checked (fRd s)
     (add32_Overflow (ucast (UD 0 (GPR s (fRs s)))) (ucast (UD 0 (GPR s (fRt s)))) s)"

definition DADD :: "'a cpuRegisters_scheme \<Rightarrow> 'a cpuRegisters_scheme" where
  "DADD s = store_checked (fRd s) (add64_Overflow (UD 0 (GPR s (fRs s))) (UD 0 (GPR s (fRt s))) s)"

definition SUB :: "'a cpuRegisters_scheme \<Rightarrow> 'a cpuRegisters_scheme" where
  "SUB s = store_checked (fRd s)
     (add32_Overflow (ucast (UD 0 (GPR s (fRs s)))) (ucast (- UD 0 (GPR s (fRt s)))) s)"

definition DSUB :: "'a cpuRegisters_scheme \<Rightarrow> 'a cpuRegisters_scheme" where
  "DSUB s = store_checked (fRd s) (add64_Overflow (UD 0 (GPR s (fRs s))) (- UD 0 (GPR s (fRt s))) s)"

definition ADDU :: "'a cpuRegisters_scheme \<Rightarrow> 'a cpuRegisters_scheme" where
  "ADDU s = (if fRd s = 0 then s else wUD (fRd s) 0 (scast (UL 0 (GPR s (fRs s)) + UL 0 (GPR s (fRt s)))) s)"

definition DADDU :: "'a cpuRegisters_scheme \<Rightarrow> 'a cpuRegisters_scheme" where
  "DADDU s = (if fRd s = 0 then s else wUD (fRd s) 0 (UD 0 (GPR s (fRs s)) + UD 0 (GPR s (fRt s))) s)"

definition SUBU :: "'a cpuRegisters_scheme \<Rightarrow> 'a cpuRegisters_scheme" where
  "SUBU s = (if fRd s = 0 then s else wUD (fRd s) 0 (scast (UL 0 (GPR s (fRs s)) - UL 0 (GPR s (fRt s)))) s)"

definition DSUBU :: "'a cpuRegisters_scheme \<Rightarrow> 'a cpuRegisters_scheme" where
  "DSUBU s = (if fRd s = 0 then s else wUD (fRd s) 0 (UD 0 (GPR s (fRs s)) - UD 0 (GPR s (fRt s))) s)"

definition AND_op :: "'a cpuRegisters_scheme \<Rightarrow> 'a cpuRegisters_scheme" where
  "AND_op s = (if fRd s = 0 then s else wUD (fRd s) 0 (UD 0 (GPR s (fRs s)) AND UD 0 (GPR s (fRt s))) s)"

definition OR_op :: "'a cpuRegisters_scheme \<Rightarrow> 'a cpuRegisters_scheme" where
  "OR_op s = (if fRd s = 0 then s else wUD (fRd s) 0 (UD 0 (GPR s (fRs s)) OR UD 0 (GPR s (fRt s))) s)"

definition XOR_op :: "'a cpuRegisters_scheme \<Rightarrow> 'a cpuRegisters_scheme" where
  "XOR_op s = (if fRd s = 0 then s else wUD (fRd s) 0 (UD 0 (GPR s (fRs s)) XOR UD 0 (GPR s (fRt s))) s)"

definition NOR :: "'a cpuRegisters_scheme \<Rightarrow> 'a cpuRegisters_scheme" where
  "NOR s = (if fRd s = 0 then s else wUD (fRd s) 0 (NOT (UD 0 (GPR s (fRs s)) OR UD 0 (GPR s (fRt s)))) s)"

definition SLT :: "'a cpuRegisters_scheme \<Rightarrow> 'a cpuRegisters_scheme" where
  "SLT s = (if fRd s = 0 then s else
     wUD (fRd s) 0 (if UD 0 (GPR s (fRs s)) <s UD 0 (GPR s (fRt s)) then 1 else 0) s)"

definition SLTU :: "'a cpuRegisters_scheme \<Rightarrow> 'a cpuRegisters_scheme" where
  "SLTU s = (if fRd s = 0 then s else
     wUD (fRd s) 0 (if UD 0 (GPR s (fRs s)) < UD 0 (GPR s (fRt s)) then 1 else 0) s)"

section \<open>Multiplication and division\<close>

text \<open>The C operators \<^verbatim>\<open>/\<close> and \<^verbatim>\<open>%\<close> on \<^verbatim>\<open>s32\<close>, which truncate towards zero.\<close>

definition s32_div :: "u32 \<Rightarrow> u32 \<Rightarrow> u32" where
  "s32_div a b = word_of_int (sint a sdiv sint b)"

definition s32_mod :: "u32 \<Rightarrow> u32 \<Rightarrow> u32" where
  "s32_mod a b = word_of_int (sint a smod sint b)"

text \<open>The three branches of the signed division shared by \<^verbatim>\<open>DIV\<close>, \<^verbatim>\<open>DIV1\<close> and
  \<^verbatim>\<open>PDIVW\<close>: quotient and remainder as the 64-bit values stored.\<close>

definition div_signed :: "u32 \<Rightarrow> u32 \<Rightarrow> u64 \<times> u64" where
  "div_signed a b =
     (if a = 0x80000000 \<and> b = 0xffffffff then (scast (0x80000000 :: u32), 0)
      else if b \<noteq> 0 then (scast (s32_div a b), scast (s32_mod a b))
      else (if a <s 0 then 1 else - 1, scast a))"

definition div_unsigned :: "u32 \<Rightarrow> u32 \<Rightarrow> u64 \<times> u64" where
  "div_unsigned a b = (if b \<noteq> 0 then (scast (a div b), scast (a mod b)) else (- 1, scast a))"

definition DIV :: "'a cpuRegisters_scheme \<Rightarrow> 'a cpuRegisters_scheme" where
  "DIV s = (case div_signed (UL 0 (GPR s (fRs s))) (UL 0 (GPR s (fRt s))) of
     (q, r) \<Rightarrow> wHI_UD 0 r (wLO_UD 0 q s))"

definition DIVU :: "'a cpuRegisters_scheme \<Rightarrow> 'a cpuRegisters_scheme" where
  "DIVU s = (case div_unsigned (UL 0 (GPR s (fRs s))) (UL 0 (GPR s (fRt s))) of
     (q, r) \<Rightarrow> wHI_UD 0 r (wLO_UD 0 q s))"

text \<open>A 64-bit product or sum is split into LO and HI, each half sign-extended.\<close>

definition lo_half :: "u64 \<Rightarrow> u64" where
  "lo_half res = scast (ucast res :: u32)"

definition hi_half :: "u64 \<Rightarrow> u64" where
  "hi_half res = scast (ucast (drop_bit 32 res) :: u32)"

definition MULT :: "'a cpuRegisters_scheme \<Rightarrow> 'a cpuRegisters_scheme" where
  "MULT s =
     (let res = scast (UL 0 (GPR s (fRs s))) * scast (UL 0 (GPR s (fRt s))) :: u64;
          s = wHI_UD 0 (hi_half res) (wLO_UD 0 (lo_half res) s)
      in if fRd s \<noteq> 0 then wUD (fRd s) 0 (UD 0 (LO s)) s else s)"

definition MULTU :: "'a cpuRegisters_scheme \<Rightarrow> 'a cpuRegisters_scheme" where
  "MULTU s =
     (let res = ucast (UL 0 (GPR s (fRs s))) * ucast (UL 0 (GPR s (fRt s))) :: u64;
          s = wHI_UD 0 (hi_half res) (wLO_UD 0 (lo_half res) s)
      in if fRd s \<noteq> 0 then wUD (fRd s) 0 (UD 0 (LO s)) s else s)"

section \<open>Moves\<close>

definition LUI :: "'a cpuRegisters_scheme \<Rightarrow> 'a cpuRegisters_scheme" where
  "LUI s = (if fRt s = 0 then s else wUD (fRt s) 0 (scast (push_bit 16 (code s))) s)"

definition MFHI :: "'a cpuRegisters_scheme \<Rightarrow> 'a cpuRegisters_scheme" where
  "MFHI s = (if fRd s = 0 then s else wUD (fRd s) 0 (UD 0 (HI s)) s)"

definition MFLO :: "'a cpuRegisters_scheme \<Rightarrow> 'a cpuRegisters_scheme" where
  "MFLO s = (if fRd s = 0 then s else wUD (fRd s) 0 (UD 0 (LO s)) s)"

definition MTHI :: "'a cpuRegisters_scheme \<Rightarrow> 'a cpuRegisters_scheme" where
  "MTHI s = wHI_UD 0 (UD 0 (GPR s (fRs s))) s"

definition MTLO :: "'a cpuRegisters_scheme \<Rightarrow> 'a cpuRegisters_scheme" where
  "MTLO s = wLO_UD 0 (UD 0 (GPR s (fRs s))) s"

definition MOVZ :: "'a cpuRegisters_scheme \<Rightarrow> 'a cpuRegisters_scheme" where
  "MOVZ s = (if fRd s = 0 then s else
     if UD 0 (GPR s (fRt s)) = 0 then wUD (fRd s) 0 (UD 0 (GPR s (fRs s))) s else s)"

definition MOVN :: "'a cpuRegisters_scheme \<Rightarrow> 'a cpuRegisters_scheme" where
  "MOVN s = (if fRd s = 0 then s else
     if UD 0 (GPR s (fRt s)) \<noteq> 0 then wUD (fRd s) 0 (UD 0 (GPR s (fRs s))) s else s)"

definition MFSA :: "'a cpuRegisters_scheme \<Rightarrow> 'a cpuRegisters_scheme" where
  "MFSA s = (if fRd s = 0 then s else wUD (fRd s) 0 (ucast (sa s)) s)"

definition MTSA :: "'a cpuRegisters_scheme \<Rightarrow> 'a cpuRegisters_scheme" where
  "MTSA s = s\<lparr>sa := ucast (UD 0 (GPR s (fRs s)))\<rparr>"

definition MTSAB :: "'a cpuRegisters_scheme \<Rightarrow> 'a cpuRegisters_scheme" where
  "MTSAB s = s\<lparr>sa := (UL 0 (GPR s (fRs s)) AND 0xF) XOR (scast (Imm s) AND 0xF)\<rparr>"

definition MTSAH :: "'a cpuRegisters_scheme \<Rightarrow> 'a cpuRegisters_scheme" where
  "MTSAH s = s\<lparr>sa := push_bit 1 ((UL 0 (GPR s (fRs s)) AND 0x7) XOR (scast (Imm s) AND 0x7))\<rparr>"

section \<open>Shifts\<close>

definition SRA :: "'a cpuRegisters_scheme \<Rightarrow> 'a cpuRegisters_scheme" where
  "SRA s = (if fRd s = 0 then s else wUD (fRd s) 0 (scast (signed_drop_bit (fSa s) (UL 0 (GPR s (fRt s))))) s)"

definition SRL :: "'a cpuRegisters_scheme \<Rightarrow> 'a cpuRegisters_scheme" where
  "SRL s = (if fRd s = 0 then s else wUD (fRd s) 0 (scast (drop_bit (fSa s) (UL 0 (GPR s (fRt s))))) s)"

definition SLL :: "'a cpuRegisters_scheme \<Rightarrow> 'a cpuRegisters_scheme" where
  "SLL s = (if fRd s = 0 then s else wUD (fRd s) 0 (scast (push_bit (fSa s) (UL 0 (GPR s (fRt s))))) s)"

definition DSLL :: "'a cpuRegisters_scheme \<Rightarrow> 'a cpuRegisters_scheme" where
  "DSLL s = (if fRd s = 0 then s else wUD (fRd s) 0 (push_bit (fSa s) (UD 0 (GPR s (fRt s)))) s)"

definition DSLL32 :: "'a cpuRegisters_scheme \<Rightarrow> 'a cpuRegisters_scheme" where
  "DSLL32 s = (if fRd s = 0 then s else wUD (fRd s) 0 (push_bit (fSa s + 32) (UD 0 (GPR s (fRt s)))) s)"

definition DSRA :: "'a cpuRegisters_scheme \<Rightarrow> 'a cpuRegisters_scheme" where
  "DSRA s = (if fRd s = 0 then s else wUD (fRd s) 0 (signed_drop_bit (fSa s) (UD 0 (GPR s (fRt s)))) s)"

definition DSRA32 :: "'a cpuRegisters_scheme \<Rightarrow> 'a cpuRegisters_scheme" where
  "DSRA32 s = (if fRd s = 0 then s else wUD (fRd s) 0 (signed_drop_bit (fSa s + 32) (UD 0 (GPR s (fRt s)))) s)"

definition DSRL :: "'a cpuRegisters_scheme \<Rightarrow> 'a cpuRegisters_scheme" where
  "DSRL s = (if fRd s = 0 then s else wUD (fRd s) 0 (drop_bit (fSa s) (UD 0 (GPR s (fRt s)))) s)"

definition DSRL32 :: "'a cpuRegisters_scheme \<Rightarrow> 'a cpuRegisters_scheme" where
  "DSRL32 s = (if fRd s = 0 then s else wUD (fRd s) 0 (drop_bit (fSa s + 32) (UD 0 (GPR s (fRt s)))) s)"

definition SLLV :: "'a cpuRegisters_scheme \<Rightarrow> 'a cpuRegisters_scheme" where
  "SLLV s = (if fRd s = 0 then s else
     wUD (fRd s) 0 (scast (push_bit (unat (UL 0 (GPR s (fRs s)) AND 0x1f)) (UL 0 (GPR s (fRt s))))) s)"

definition SRAV :: "'a cpuRegisters_scheme \<Rightarrow> 'a cpuRegisters_scheme" where
  "SRAV s = (if fRd s = 0 then s else
     wUD (fRd s) 0 (scast (signed_drop_bit (unat (UL 0 (GPR s (fRs s)) AND 0x1f)) (UL 0 (GPR s (fRt s))))) s)"

definition SRLV :: "'a cpuRegisters_scheme \<Rightarrow> 'a cpuRegisters_scheme" where
  "SRLV s = (if fRd s = 0 then s else
     wUD (fRd s) 0 (scast (drop_bit (unat (UL 0 (GPR s (fRs s)) AND 0x1f)) (UL 0 (GPR s (fRt s))))) s)"

definition DSLLV :: "'a cpuRegisters_scheme \<Rightarrow> 'a cpuRegisters_scheme" where
  "DSLLV s = (if fRd s = 0 then s else
     wUD (fRd s) 0 (push_bit (unat (UL 0 (GPR s (fRs s)) AND 0x3f)) (UD 0 (GPR s (fRt s)))) s)"

definition DSRAV :: "'a cpuRegisters_scheme \<Rightarrow> 'a cpuRegisters_scheme" where
  "DSRAV s = (if fRd s = 0 then s else
     wUD (fRd s) 0 (signed_drop_bit (unat (UL 0 (GPR s (fRs s)) AND 0x3f)) (UD 0 (GPR s (fRt s)))) s)"

definition DSRLV :: "'a cpuRegisters_scheme \<Rightarrow> 'a cpuRegisters_scheme" where
  "DSRLV s = (if fRd s = 0 then s else
     wUD (fRd s) 0 (drop_bit (unat (UL 0 (GPR s (fRs s)) AND 0x3f)) (UD 0 (GPR s (fRt s)))) s)"

section \<open>Breakpoints and traps\<close>

definition BREAK :: "'a cpuRegisters_scheme \<Rightarrow> 'a cpuRegisters_scheme" where
  "BREAK s = (let s = s\<lparr>pc := pc s - 4\<rparr> in cpuException 0x24 (branch s) s)"

definition SYNC :: "'a cpuRegisters_scheme \<Rightarrow> 'a cpuRegisters_scheme" where
  "SYNC s = s"

definition PREF :: "'a cpuRegisters_scheme \<Rightarrow> 'a cpuRegisters_scheme" where
  "PREF s = s"

definition trap :: "'a cpuRegisters_scheme \<Rightarrow> 'a cpuRegisters_scheme" where
  "trap s = (let s = s\<lparr>pc := pc s - 4\<rparr> in cpuException 0x34 (branch s) s)"

definition TGE :: "'a cpuRegisters_scheme \<Rightarrow> 'a cpuRegisters_scheme" where
  "TGE s = (if UD 0 (GPR s (fRt s)) \<le>s UD 0 (GPR s (fRs s)) then trap s else s)"

definition TGEU :: "'a cpuRegisters_scheme \<Rightarrow> 'a cpuRegisters_scheme" where
  "TGEU s = (if UD 0 (GPR s (fRt s)) \<le> UD 0 (GPR s (fRs s)) then trap s else s)"

definition TLT :: "'a cpuRegisters_scheme \<Rightarrow> 'a cpuRegisters_scheme" where
  "TLT s = (if UD 0 (GPR s (fRs s)) <s UD 0 (GPR s (fRt s)) then trap s else s)"

definition TLTU :: "'a cpuRegisters_scheme \<Rightarrow> 'a cpuRegisters_scheme" where
  "TLTU s = (if UD 0 (GPR s (fRs s)) < UD 0 (GPR s (fRt s)) then trap s else s)"

definition TEQ :: "'a cpuRegisters_scheme \<Rightarrow> 'a cpuRegisters_scheme" where
  "TEQ s = (if UD 0 (GPR s (fRs s)) = UD 0 (GPR s (fRt s)) then trap s else s)"

definition TNE :: "'a cpuRegisters_scheme \<Rightarrow> 'a cpuRegisters_scheme" where
  "TNE s = (if UD 0 (GPR s (fRs s)) \<noteq> UD 0 (GPR s (fRt s)) then trap s else s)"

definition TGEI :: "'a cpuRegisters_scheme \<Rightarrow> 'a cpuRegisters_scheme" where
  "TGEI s = (if scast (Imm s) \<le>s UD 0 (GPR s (fRs s)) then trap s else s)"

definition TLTI :: "'a cpuRegisters_scheme \<Rightarrow> 'a cpuRegisters_scheme" where
  "TLTI s = (if UD 0 (GPR s (fRs s)) <s scast (Imm s) then trap s else s)"

definition TEQI :: "'a cpuRegisters_scheme \<Rightarrow> 'a cpuRegisters_scheme" where
  "TEQI s = (if UD 0 (GPR s (fRs s)) = scast (Imm s) then trap s else s)"

definition TNEI :: "'a cpuRegisters_scheme \<Rightarrow> 'a cpuRegisters_scheme" where
  "TNEI s = (if UD 0 (GPR s (fRs s)) \<noteq> scast (Imm s) then trap s else s)"

definition TGEIU :: "'a cpuRegisters_scheme \<Rightarrow> 'a cpuRegisters_scheme" where
  "TGEIU s = (if scast (Imm s) \<le> UD 0 (GPR s (fRs s)) then trap s else s)"

definition TLTIU :: "'a cpuRegisters_scheme \<Rightarrow> 'a cpuRegisters_scheme" where
  "TLTIU s = (if UD 0 (GPR s (fRs s)) < scast (Imm s) then trap s else s)"

section \<open>Overflow detection\<close>

lemma bit_iff_odd_div: "bit (k::int) n \<longleftrightarrow> odd (k div 2 ^ n)"
  by (simp add: bit_iff_odd)

lemma drop_top_bit: "drop_bit 31 (w :: u32) = of_bool (bit w 31)"
proof (rule bit_word_eqI)
  fix n assume "n < LENGTH(32)"
  have "bit w (31 + n) \<Longrightarrow> n = 0" by (drule bit_imp_le_length) simp
  then show "bit (drop_bit 31 w) n = bit (of_bool (bit w 31) :: u32) n" by (auto simp: bit_simps)
qed

lemma and_one_bit: "(w :: u32) AND 1 = of_bool (bit w 0)"
  by (simp add: and_one_eq bit_0 odd_iff_mod_2_eq_one)

lemma bits_31_32:
  assumes "- (2^32) \<le> (k::int)" "k < 2^32"
  shows "(bit k 31 \<noteq> bit k 32) \<longleftrightarrow> \<not> fits 32 k"
proof -
  have "k div 2^31 = -2 \<or> k div 2^31 = -1 \<or> k div 2^31 = 0 \<or> k div 2^31 = 1"
    using assms by auto
  moreover have "k div 2^32 = (if k < 0 then -1 else 0)" using assms by auto
  ultimately show ?thesis unfolding bit_iff_odd_div fits_def using assms by auto
qed

lemma top_bits_word_of_int:
  "drop_bit 31 (ucast (word_of_int k :: u64) :: u32) \<noteq> (ucast (drop_bit 32 (word_of_int k :: u64)) :: u32) AND 1
    \<longleftrightarrow> bit k 31 \<noteq> bit k 32"
  unfolding drop_top_bit and_one_bit by (simp add: bit_simps)

lemma add32_Overflow_cases:
  "add32_Overflow x y s =
    (if fits 32 (sint x + sint y) then (Some (word_of_int (sint x + sint y)), s)
     else (None, cpuException 0x30 (branch s) s))"
proof -
  let ?k = "sint x + sint y"
  have r: "(scast x :: u64) + scast y = word_of_int ?k" by simp
  have "drop_bit 31 (ucast (word_of_int ?k :: u64) :: u32) \<noteq> (ucast (drop_bit 32 (word_of_int ?k :: u64)) :: u32) AND 1
    \<longleftrightarrow> bit ?k 31 \<noteq> bit ?k 32"
    by (rule top_bits_word_of_int)
  also have "\<dots> \<longleftrightarrow> \<not> fits 32 ?k"
    by (rule bits_31_32) (use sint_range32 [of x] sint_range32 [of y] in auto)
  finally show ?thesis by (simp add: add32_Overflow_def Let_def r del: of_int_add)
qed

lemma neg_iff_bit: "(w::u64) <s 0 \<longleftrightarrow> bit w 63"
  using bit_last_iff [of w] by (simp add: word_sless_alt)

lemma add64_Overflow_cases:
  "add64_Overflow x y s =
    (if fits 64 (sint x + sint y) then (Some (x + y), s)
     else (None, cpuException 0x30 (branch s) s))"
proof -
  let ?k = "sint x + sint y"
  have r: "x + y = word_of_int ?k" by simp
  have sx: "bit x 63 \<longleftrightarrow> sint x < 0" and sy: "bit y 63 \<longleftrightarrow> sint y < 0"
    using bit_last_iff [of x] bit_last_iff [of y] by simp_all
  have br: "bit (x + y) 63 \<longleftrightarrow> odd (?k div 2^63)"
    unfolding r using bit_word_of_int_iff [of ?k 63, where 'a = 64] by (simp add: bit_iff_odd del: of_int_add)
  have "?k div 2^63 = -2 \<or> ?k div 2^63 = -1 \<or> ?k div 2^63 = 0 \<or> ?k div 2^63 = 1"
    using sint_range64 [of x] sint_range64 [of y] by auto
  then have "(NOT (x XOR y) AND (x XOR (x + y))) <s 0 \<longleftrightarrow> \<not> fits 64 ?k"
    unfolding neg_iff_bit fits_def using sint_range64 [of x] sint_range64 [of y]
    by (auto simp: bit_simps sx sy br)
  then show ?thesis by (simp add: add64_Overflow_def Let_def)
qed

text \<open>The effect of an addition or subtraction that checks for overflow: the mathematical
  result \<open>k\<close> is stored when \<open>n\<close> bits hold it, otherwise the overflow exception is taken
  and no register changes.\<close>

definition checked_result :: "nat \<Rightarrow> int \<Rightarrow> 5 word \<Rightarrow> 'a cpuRegisters_scheme \<Rightarrow> 'a cpuRegisters_scheme" where
  "checked_result n k r s =
     (if \<not> fits n k then cpuException 0x30 (branch s) s
      else if r = 0 then s else wUD r 0 (word_of_int k) s)"

lemma store_checked_add32: "store_checked r (add32_Overflow x y s) = checked_result 32 (sint x + sint y) r s"
  by (simp add: add32_Overflow_cases store_checked_def checked_result_def del: of_int_add)

lemma store_checked_add64: "store_checked r (add64_Overflow x y s) = checked_result 64 (sint x + sint y) r s"
  by (simp add: add64_Overflow_cases store_checked_def checked_result_def)

text \<open>
  The trapping additions are exact. \<^verbatim>\<open>ADD\<close>, \<^verbatim>\<open>ADDI\<close>, \<^verbatim>\<open>DADD\<close> and
  \<^verbatim>\<open>DADDI\<close> raise the overflow exception, leaving the destination unchanged, precisely when
  the mathematical sum of the signed operands does not fit in 32 (or 64) bits, and otherwise store
  that sum, sign-extended, unless the destination is register 0. The bit tests of
  \<^verbatim>\<open>_add32_Overflow\<close> and \<^verbatim>\<open>_add64_Overflow\<close> are thereby equivalent to a range check.
\<close>
lemma checked_additions_exact:
  "ADD s = checked_result 32 (sint (UL 0 (GPR s (fRs s))) + sint (UL 0 (GPR s (fRt s)))) (fRd s) s \<and>
   ADDI s = checked_result 32 (sint (UL 0 (GPR s (fRs s))) + sint (Imm s)) (fRt s) s \<and>
   DADD s = checked_result 64 (sint (UD 0 (GPR s (fRs s))) + sint (UD 0 (GPR s (fRt s)))) (fRd s) s \<and>
   DADDI s = checked_result 64 (sint (UD 0 (GPR s (fRs s))) + sint (Imm s)) (fRt s) s"
  by (simp add: ADD_def ADDI_def DADD_def DADDI_def store_checked_add32 store_checked_add64 lane_simps
      sint_up_scast is_up)

lemma sint_uminus32: "b \<noteq> 0x80000000 \<Longrightarrow> sint (- b) = - sint (b :: u32)"
  using sint_eq_min32 [of b] by (intro sint_uminus) auto

lemma sint_uminus64: "b \<noteq> 0x8000000000000000 \<Longrightarrow> sint (- b) = - sint (b :: u64)"
  using sint_eq_min64 [of b] by (intro sint_uminus) auto

lemma checked_subtractions_exact_parts:
  assumes "UL 0 (GPR s (fRt s)) \<noteq> 0x80000000"
    and "UD 0 (GPR s (fRt s)) \<noteq> 0x8000000000000000"
  shows "SUB s = checked_result 32 (sint (UL 0 (GPR s (fRs s))) - sint (UL 0 (GPR s (fRt s)))) (fRd s) s"
    and "DSUB s = checked_result 64 (sint (UD 0 (GPR s (fRs s))) - sint (UD 0 (GPR s (fRt s)))) (fRd s) s"
  using assms by (simp_all add: SUB_def DSUB_def store_checked_add32 store_checked_add64 lane_simps
      ucast_uminus sint_uminus32 sint_uminus64)

text \<open>
  The trapping subtractions, which negate the second operand and add, store the exact
  difference or raise the overflow exception exactly when it does not fit, for every second operand
  except the most negative value, the one whose negation is itself.
\<close>
lemma checked_subtractions_exact:
  assumes "UL 0 (GPR s (fRt s)) \<noteq> 0x80000000"
    and "UD 0 (GPR s (fRt s)) \<noteq> 0x8000000000000000"
  shows "SUB s = checked_result 32 (sint (UL 0 (GPR s (fRs s))) - sint (UL 0 (GPR s (fRt s)))) (fRd s) s \<and>
    DSUB s = checked_result 64 (sint (UD 0 (GPR s (fRs s))) - sint (UD 0 (GPR s (fRt s)))) (fRd s) s"
  using checked_subtractions_exact_parts [OF assms] by blast


lemma fits_min_inverted: "fits 32 (sint (a :: u32) - 2 ^ 31) \<longleftrightarrow> \<not> fits 32 (sint a + 2 ^ 31)"
  using sint_range32 [of a] by (auto simp: fits_def)

text \<open>
  With the most negative value as second operand the decision of \<^verbatim>\<open>SUB\<close> is inverted:
  the overflow exception is raised exactly when the true difference fits in 32 bits, and when it
  does not fit no exception is raised and the wrapped sum is stored.
\<close>
lemma SUB_most_negative_inverted:
  assumes "UL 0 (GPR s (fRt s)) = 0x80000000"
  shows "SUB s =
    (if fits 32 (sint (UL 0 (GPR s (fRs s))) - sint (UL 0 (GPR s (fRt s))))
     then cpuException 0x30 (branch s) s
     else if fRd s = 0 then s else wUD (fRd s) 0 (word_of_int (sint (UL 0 (GPR s (fRs s))) - 2 ^ 31)) s)"
  using assms fits_min_inverted [of "UL 0 (GPR s (fRs s))"]
  by (simp add: SUB_def store_checked_add32 checked_result_def lane_simps ucast_uminus)


section \<open>Division\<close>

lemma sint_0_32: "sint (b :: u32) = 0 \<longleftrightarrow> b = 0"
proof
  assume "sint b = 0"
  then have "sint b = sint (0 :: u32)" by simp
  then show "b = 0" by (simp only: signed_word_eqI)
qed simp

lemma sint_s32_mod: "b \<noteq> 0 \<Longrightarrow> sint (s32_mod a b) = sint a smod sint b"
proof -
  assume "b \<noteq> 0"
  then have "sint b \<noteq> 0" by (simp add: sint_0_32)
  from smod_abs_less [OF this, of "sint a"] have "fits LENGTH(32) (sint a smod sint b)"
    using sint_range32 [of b] by (auto simp: fits_def)
  then show ?thesis unfolding s32_mod_def by (rule sint_word_of_int_fits)
qed

lemma sint_s32_div:
  assumes "b \<noteq> 0" "\<not> (a = 0x80000000 \<and> b = 0xffffffff)"
  shows "sint (s32_div a b) = sint a sdiv sint b"
proof -
  have r: "- \<bar>sint a\<bar> \<le> sint a sdiv sint b" "sint a sdiv sint b \<le> \<bar>sint a\<bar>"
    using sdiv_int_range [of "sint a" "sint b"] by auto
  have "sint a sdiv sint b \<noteq> 2 ^ 31"
  proof
    assume q: "sint a sdiv sint b = 2 ^ 31"
    with r(2) sint_range32 [of a] have a: "sint a = - (2 ^ 31)" by linarith
    with q have "sint b = - 1" using int_sdiv_negated_is_minus1 [of "sint a" "sint b"] by simp
    then have "b = 0xffffffff" using signed_word_eqI [of b "0xffffffff"] by simp
    with a assms(2) show False unfolding sint_eq_min32 by blast
  qed
  then have "fits LENGTH(32) (sint a sdiv sint b)"
    using r sint_range32 [of a] by (auto simp: fits_def)
  then show ?thesis unfolding s32_div_def by (rule sint_word_of_int_fits)
qed

text \<open>What a signed 32-bit division leaves in LO and HI, over every input.\<close>

definition signed_div_spec :: "u32 \<Rightarrow> u32 \<Rightarrow> u32 \<Rightarrow> u32 \<Rightarrow> bool" where
  "signed_div_spec a b q r \<longleftrightarrow>
     (if b = 0 then q = (if sint a < 0 then 1 else - 1) \<and> r = a
      else if sint a = - (2 ^ 31) \<and> sint b = - 1 then sint q = - (2 ^ 31) \<and> r = 0
      else sint q * sint b + sint r = sint a \<and> \<bar>sint r\<bar> < \<bar>sint b\<bar> \<and> (r = 0 \<or> sgn (sint r) = sgn (sint a)))"

lemma minus_one_32: "(b :: u32) = 0xffffffff \<longleftrightarrow> sint b = - 1"
proof
  assume "sint b = - 1"
  then have "sint b = sint (0xffffffff :: u32)" by simp
  then show "b = 0xffffffff" by (simp only: signed_word_eqI)
qed simp

lemma s32_div_mod_spec:
  assumes "b \<noteq> 0" "\<not> (a = 0x80000000 \<and> b = 0xffffffff)"
  shows "signed_div_spec a b (s32_div a b) (s32_mod a b)"
proof -
  have b: "sint b \<noteq> 0" using assms(1) by (simp add: sint_0_32)
  have "\<not> (sint a = - (2 ^ 31) \<and> sint b = - 1)"
    using assms(2) unfolding sint_eq_min32 minus_one_32 .
  then show ?thesis
    using assms b smod_sgn [OF b, of "sint a"] smod_abs_less [OF b, of "sint a"]
      sdiv_mult_smod_eq [of "sint a" "sint b"] sint_s32_mod [OF assms(1), of a] sint_s32_div [OF assms]
    by (auto simp: signed_div_spec_def sint_0_32)
qed

lemma div_signed_cases:
  obtains q r where "div_signed a b = (scast q, scast r)" "signed_div_spec a b q r"
proof -
  consider "b = 0" | "a = 0x80000000 \<and> b = 0xffffffff" | "b \<noteq> 0" "\<not> (a = 0x80000000 \<and> b = 0xffffffff)" by blast
  then show thesis
  proof cases
    case 1
    then show thesis
      by (intro that [of "if sint a < 0 then 1 else - 1" a])
        (auto simp: div_signed_def signed_div_spec_def word_sless_alt)
  next
    case 2
    then show thesis by (intro that [of "0x80000000" 0]) (auto simp: div_signed_def signed_div_spec_def)
  next
    case 3
    then show thesis
      by (intro that [of "s32_div a b" "s32_mod a b"] s32_div_mod_spec) (auto simp: div_signed_def)
  qed
qed

text \<open>
  \<^verbatim>\<open>DIV\<close> meets its specification on every input: a quotient truncated towards zero in
  LO and a remainder of the dividend's sign in HI, both sign-extended; the quotient of the most
  negative value by -1 wraps to itself; a division by zero leaves the dividend in HI and 1 or -1 in
  LO. Nothing else changes.
\<close>
lemma DIV_spec:
  "signed_div_spec (UL 0 (GPR s (fRs s))) (UL 0 (GPR s (fRt s))) (UL 0 (LO (DIV s))) (UL 0 (HI (DIV s))) \<and>
   DIV s = s\<lparr>LO := setUD 0 (scast (UL 0 (LO (DIV s)))) (LO s), HI := setUD 0 (scast (UL 0 (HI (DIV s)))) (HI s)\<rparr>"
proof -
  obtain q r where d: "div_signed (UL 0 (GPR s (fRs s))) (UL 0 (GPR s (fRt s))) = (scast q, scast r)"
    and spec: "signed_div_spec (UL 0 (GPR s (fRs s))) (UL 0 (GPR s (fRt s))) q r"
    by (rule div_signed_cases)
  have "DIV s = s\<lparr>LO := setUD 0 (scast q) (LO s), HI := setUD 0 (scast r) (HI s)\<rparr>"
    by (simp add: DIV_def d write_defs)
  with spec show ?thesis by (simp add: lane_simps)
qed

definition unsigned_div_spec :: "u32 \<Rightarrow> u32 \<Rightarrow> u32 \<Rightarrow> u32 \<Rightarrow> bool" where
  "unsigned_div_spec a b q r \<longleftrightarrow>
     (if b = 0 then q = - 1 \<and> r = a else uint q * uint b + uint r = uint a \<and> r < b)"

text \<open>
  \<^verbatim>\<open>DIVU\<close> leaves the unsigned quotient and remainder in LO and HI, each sign-extended
  from 32 bits, and for a zero divisor all ones and the dividend. Nothing else changes.
\<close>
lemma DIVU_spec:
  "unsigned_div_spec (UL 0 (GPR s (fRs s))) (UL 0 (GPR s (fRt s))) (UL 0 (LO (DIVU s))) (UL 0 (HI (DIVU s))) \<and>
   DIVU s = s\<lparr>LO := setUD 0 (scast (UL 0 (LO (DIVU s)))) (LO s), HI := setUD 0 (scast (UL 0 (HI (DIVU s)))) (HI s)\<rparr>"
proof -
  define a b q r where ab: "a = UL 0 (GPR s (fRs s))" "b = UL 0 (GPR s (fRt s))"
    and qr: "q = UL 0 (LO (DIVU s))" "r = UL 0 (HI (DIVU s))"
  have d: "DIVU s = s\<lparr>LO := setUD 0 (scast (if b = 0 then - 1 else a div b)) (LO s),
      HI := setUD 0 (scast (if b = 0 then a else a mod b)) (HI s)\<rparr>"
    by (simp add: DIVU_def div_unsigned_def write_defs ab)
  then have q: "q = (if b = 0 then - 1 else a div b)" and r: "r = (if b = 0 then a else a mod b)"
    by (simp_all add: qr lane_simps)
  have "b \<noteq> 0 \<Longrightarrow> uint (a div b) * uint b + uint (a mod b) = uint a" by (simp add: uint_div uint_mod)
  moreover have "b \<noteq> 0 \<Longrightarrow> a mod b < b" by (simp add: word_mod_less_divisor word_gt_0)
  ultimately have "unsigned_div_spec a b q r" using q r by (auto simp: unsigned_div_spec_def)
  with d q r show ?thesis by (simp add: ab qr)
qed

text \<open>
  C24: the division instructions meet their specifications on every input. \<^verbatim>\<open>DIV\<close> leaves a
  quotient truncated towards zero in LO and a remainder of the dividend's sign in HI; the quotient of
  the most negative value by -1 wraps to itself; a division by zero leaves the dividend in HI and 1
  or -1 in LO. \<^verbatim>\<open>DIVU\<close> leaves the unsigned quotient and remainder, and for a zero divisor all
  ones and the dividend. Results are sign-extended from 32 bits and nothing else changes.
\<close>
theorem division_spec:
  "signed_div_spec (UL 0 (GPR s (fRs s))) (UL 0 (GPR s (fRt s))) (UL 0 (LO (DIV s))) (UL 0 (HI (DIV s))) \<and>
   DIV s = s\<lparr>LO := setUD 0 (scast (UL 0 (LO (DIV s)))) (LO s), HI := setUD 0 (scast (UL 0 (HI (DIV s)))) (HI s)\<rparr> \<and>
   unsigned_div_spec (UL 0 (GPR s (fRs s))) (UL 0 (GPR s (fRt s))) (UL 0 (LO (DIVU s))) (UL 0 (HI (DIVU s))) \<and>
   DIVU s = s\<lparr>LO := setUD 0 (scast (UL 0 (LO (DIVU s)))) (LO s), HI := setUD 0 (scast (UL 0 (HI (DIVU s)))) (HI s)\<rparr>"
  using DIV_spec [of s] DIVU_spec [of s] by blast

section \<open>Multiplication\<close>

lemma join_halves: "ucast (ucast (lo_half r) :: u32) OR push_bit 32 (ucast (ucast (hi_half r) :: u32)) = r"
proof (rule bit_word_eqI)
  fix n assume "n < LENGTH(64)"
  then show "bit (ucast (ucast (lo_half r) :: u32) OR push_bit 32 (ucast (ucast (hi_half r) :: u32)) :: u64) n = bit r n"
    unfolding lo_half_def hi_half_def ucast_scast32 by (cases "n < 32") (auto simp: bit_simps)
qed

text \<open>HI and LO read together as one 64-bit value.\<close>

definition HILO :: "'a cpuRegisters_scheme \<Rightarrow> u64" where
  "HILO s = ucast (UL 0 (LO s)) OR push_bit 32 (ucast (UL 0 (HI s)))"

lemma HILO_halves: "HI s = setUD 0 (hi_half r) h \<Longrightarrow> LO s = setUD 0 (lo_half r) l \<Longrightarrow> HILO s = r"
  using join_halves [of r] by (simp add: HILO_def lane_simps)

lemma sint_product: "sint (scast (a :: u32) * scast (b :: u32) :: u64) = sint a * sint b"
proof -
  have "\<bar>sint a\<bar> \<le> 2 ^ 31" "\<bar>sint b\<bar> \<le> 2 ^ 31" using sint_range32 [of a] sint_range32 [of b] by auto
  then have "\<bar>sint a\<bar> * \<bar>sint b\<bar> \<le> 2 ^ 31 * 2 ^ 31" by (intro mult_mono) auto
  then have "\<bar>sint a * sint b\<bar> \<le> 2 ^ 62" by (simp add: abs_mult)
  then have "fits LENGTH(64) (sint a * sint b)" by (auto simp: fits_def)
  from sint_word_of_int_fits [OF this] show ?thesis by simp
qed

lemma uint_product: "uint (ucast (a :: u32) * ucast (b :: u32) :: u64) = uint a * uint b"
proof -
  have "uint a < 2 ^ 32" "uint b < 2 ^ 32" using uint_lt2p [of a] uint_lt2p [of b] by simp_all
  then have "uint a * uint b < 2 ^ 32 * 2 ^ 32" by (intro mult_strict_mono) auto
  then have "take_bit 64 (uint a * uint b) = uint a * uint b" by (intro take_bit_int_eq_self) auto
  then show ?thesis by (simp add: uint_word_arith_bintrs unsigned_ucast_eq take_bit_mult)
qed

text \<open>
  HI and LO together hold the full 64-bit product after \<^verbatim>\<open>MULT\<close> (signed) and
  \<^verbatim>\<open>MULTU\<close> (unsigned): no bit of the mathematical product is lost.
\<close>
lemma mult_full_product:
  "sint (HILO (MULT s)) = sint (UL 0 (GPR s (fRs s))) * sint (UL 0 (GPR s (fRt s))) \<and>
   uint (HILO (MULTU s)) = uint (UL 0 (GPR s (fRs s))) * uint (UL 0 (GPR s (fRt s)))"
proof -
  have "HILO (MULT s) = scast (UL 0 (GPR s (fRs s))) * scast (UL 0 (GPR s (fRt s)))"
    by (rule HILO_halves [where h = "HI s" and l = "LO s"]) (simp_all add: MULT_def Let_def)
  moreover have "HILO (MULTU s) = ucast (UL 0 (GPR s (fRs s))) * ucast (UL 0 (GPR s (fRt s)))"
    by (rule HILO_halves [where h = "HI s" and l = "LO s"]) (simp_all add: MULTU_def Let_def)
  ultimately show ?thesis by (simp only: sint_product uint_product simp_thms)
qed

section \<open>Shifts\<close>

lemma shifts_arithmetic_parts:
  assumes "fRd s \<noteq> 0"
  shows "sint (UD 0 (GPR (SRA s) (fRd s))) = sint (UL 0 (GPR s (fRt s))) div 2 ^ fSa s"
    and "sint (UD 0 (GPR (DSRA s) (fRd s))) = sint (UD 0 (GPR s (fRt s))) div 2 ^ fSa s"
    and "sint (UD 0 (GPR (DSRA32 s) (fRd s))) = sint (UD 0 (GPR s (fRt s))) div 2 ^ (32 + fSa s)"
    and "uint (UD 0 (GPR (DSRL s) (fRd s))) = uint (UD 0 (GPR s (fRt s))) div 2 ^ fSa s"
    and "uint (UD 0 (GPR (DSRL32 s) (fRd s))) = uint (UD 0 (GPR s (fRt s))) div 2 ^ (32 + fSa s)"
    and "uint (UL 0 (GPR (SRL s) (fRd s))) = uint (UL 0 (GPR s (fRt s))) div 2 ^ fSa s"
    and "uint (UL 0 (GPR (SLL s) (fRd s))) = uint (UL 0 (GPR s (fRt s))) * 2 ^ fSa s mod 2 ^ 32"
    and "uint (UD 0 (GPR (DSLL s) (fRd s))) = uint (UD 0 (GPR s (fRt s))) * 2 ^ fSa s mod 2 ^ 64"
    and "canonical32 (UD 0 (GPR (SRL s) (fRd s)))" "canonical32 (UD 0 (GPR (SLL s) (fRd s)))"
  using assms
  by (simp_all add: SRA_def DSRA_def DSRA32_def DSRL_def DSRL32_def SRL_def SLL_def DSLL_def lane_simps
    sint_signed_shift uint_shift_right uint_shift_left add.commute)

text \<open>
  The shift instructions compute floor division and multiplication modulo the width: right
  arithmetic shifts divide the signed value, right logical shifts the unsigned value, and the
  32-bit shifts leave a sign-extended word.
\<close>
lemma shifts_arithmetic:
  assumes "fRd s \<noteq> 0"
  shows "sint (UD 0 (GPR (SRA s) (fRd s))) = sint (UL 0 (GPR s (fRt s))) div 2 ^ fSa s \<and>
    sint (UD 0 (GPR (DSRA s) (fRd s))) = sint (UD 0 (GPR s (fRt s))) div 2 ^ fSa s \<and>
    sint (UD 0 (GPR (DSRA32 s) (fRd s))) = sint (UD 0 (GPR s (fRt s))) div 2 ^ (32 + fSa s) \<and>
    uint (UD 0 (GPR (DSRL s) (fRd s))) = uint (UD 0 (GPR s (fRt s))) div 2 ^ fSa s \<and>
    uint (UD 0 (GPR (DSRL32 s) (fRd s))) = uint (UD 0 (GPR s (fRt s))) div 2 ^ (32 + fSa s) \<and>
    uint (UL 0 (GPR (SRL s) (fRd s))) = uint (UL 0 (GPR s (fRt s))) div 2 ^ fSa s \<and>
    uint (UL 0 (GPR (SLL s) (fRd s))) = uint (UL 0 (GPR s (fRt s))) * 2 ^ fSa s mod 2 ^ 32 \<and>
    uint (UD 0 (GPR (DSLL s) (fRd s))) = uint (UD 0 (GPR s (fRt s))) * 2 ^ fSa s mod 2 ^ 64 \<and>
    canonical32 (UD 0 (GPR (SRL s) (fRd s))) \<and>
    canonical32 (UD 0 (GPR (SLL s) (fRd s)))"
  using shifts_arithmetic_parts [OF assms] by blast


section \<open>The frame of the integer instructions\<close>

lemmas alu_defs = ADDI_def ADDIU_def DADDI_def DADDIU_def ANDI_def ORI_def XORI_def SLTI_def SLTIU_def
  ADD_def DADD_def SUB_def DSUB_def ADDU_def DADDU_def SUBU_def DSUBU_def AND_op_def
  OR_op_def XOR_op_def NOR_def SLT_def SLTU_def DIV_def DIVU_def MULT_def MULTU_def
  LUI_def MFHI_def MFLO_def MTHI_def MTLO_def MOVZ_def MOVN_def MFSA_def MTSA_def
  MTSAB_def MTSAH_def SRA_def SRL_def SLL_def DSLL_def DSLL32_def DSRA_def DSRA32_def
  DSRL_def DSRL32_def SLLV_def SRAV_def SRLV_def DSLLV_def DSRAV_def DSRLV_def BREAK_def
  SYNC_def PREF_def trap_def TGE_def TGEU_def TLT_def TLTU_def TEQ_def TNE_def
  TGEI_def TLTI_def TEQI_def TNEI_def TGEIU_def TLTIU_def

lemma store_checked_frame [simp]:
  "GPR (store_checked r (add32_Overflow x y s)) 0 = GPR s 0"
  "GPR (store_checked r (add64_Overflow u v s)) 0 = GPR s 0"
  "cpuRegisters.more (store_checked r (add32_Overflow x y s)) = cpuRegisters.more s"
  "cpuRegisters.more (store_checked r (add64_Overflow u v s)) = cpuRegisters.more s"
  by (auto simp: store_checked_add32 store_checked_add64 checked_result_def write_defs)

lemma alu_keeps_r0 [frame, simp]:
  "GPR (ADDI s) 0 = GPR s 0" "GPR (ADDIU s) 0 = GPR s 0" "GPR (DADDI s) 0 = GPR s 0" "GPR (DADDIU s) 0 = GPR s 0"
  "GPR (ANDI s) 0 = GPR s 0" "GPR (ORI s) 0 = GPR s 0" "GPR (XORI s) 0 = GPR s 0" "GPR (SLTI s) 0 = GPR s 0"
  "GPR (SLTIU s) 0 = GPR s 0" "GPR (ADD s) 0 = GPR s 0" "GPR (DADD s) 0 = GPR s 0" "GPR (SUB s) 0 = GPR s 0"
  "GPR (DSUB s) 0 = GPR s 0" "GPR (ADDU s) 0 = GPR s 0" "GPR (DADDU s) 0 = GPR s 0" "GPR (SUBU s) 0 = GPR s 0"
  "GPR (DSUBU s) 0 = GPR s 0" "GPR (AND_op s) 0 = GPR s 0" "GPR (OR_op s) 0 = GPR s 0" "GPR (XOR_op s) 0 = GPR s 0"
  "GPR (NOR s) 0 = GPR s 0" "GPR (SLT s) 0 = GPR s 0" "GPR (SLTU s) 0 = GPR s 0" "GPR (DIV s) 0 = GPR s 0"
  "GPR (DIVU s) 0 = GPR s 0" "GPR (MULT s) 0 = GPR s 0" "GPR (MULTU s) 0 = GPR s 0" "GPR (LUI s) 0 = GPR s 0"
  "GPR (MFHI s) 0 = GPR s 0" "GPR (MFLO s) 0 = GPR s 0" "GPR (MTHI s) 0 = GPR s 0" "GPR (MTLO s) 0 = GPR s 0"
  "GPR (MOVZ s) 0 = GPR s 0" "GPR (MOVN s) 0 = GPR s 0" "GPR (MFSA s) 0 = GPR s 0" "GPR (MTSA s) 0 = GPR s 0"
  "GPR (MTSAB s) 0 = GPR s 0" "GPR (MTSAH s) 0 = GPR s 0" "GPR (SRA s) 0 = GPR s 0" "GPR (SRL s) 0 = GPR s 0"
  "GPR (SLL s) 0 = GPR s 0" "GPR (DSLL s) 0 = GPR s 0" "GPR (DSLL32 s) 0 = GPR s 0" "GPR (DSRA s) 0 = GPR s 0"
  "GPR (DSRA32 s) 0 = GPR s 0" "GPR (DSRL s) 0 = GPR s 0" "GPR (DSRL32 s) 0 = GPR s 0" "GPR (SLLV s) 0 = GPR s 0"
  "GPR (SRAV s) 0 = GPR s 0" "GPR (SRLV s) 0 = GPR s 0" "GPR (DSLLV s) 0 = GPR s 0" "GPR (DSRAV s) 0 = GPR s 0"
  "GPR (DSRLV s) 0 = GPR s 0" "GPR (BREAK s) 0 = GPR s 0" "GPR (SYNC s) 0 = GPR s 0" "GPR (PREF s) 0 = GPR s 0"
  "GPR (trap s) 0 = GPR s 0" "GPR (TGE s) 0 = GPR s 0" "GPR (TGEU s) 0 = GPR s 0" "GPR (TLT s) 0 = GPR s 0"
  "GPR (TLTU s) 0 = GPR s 0" "GPR (TEQ s) 0 = GPR s 0" "GPR (TNE s) 0 = GPR s 0" "GPR (TGEI s) 0 = GPR s 0"
  "GPR (TLTI s) 0 = GPR s 0" "GPR (TEQI s) 0 = GPR s 0" "GPR (TNEI s) 0 = GPR s 0" "GPR (TGEIU s) 0 = GPR s 0"
  "GPR (TLTIU s) 0 = GPR s 0"
  by (simp_all add: alu_defs Let_def split_def)

lemma alu_keeps_more [frame, simp]:
  "cpuRegisters.more (ADDI s) = cpuRegisters.more s" "cpuRegisters.more (ADDIU s) = cpuRegisters.more s" "cpuRegisters.more (DADDI s) = cpuRegisters.more s"
  "cpuRegisters.more (DADDIU s) = cpuRegisters.more s" "cpuRegisters.more (ANDI s) = cpuRegisters.more s" "cpuRegisters.more (ORI s) = cpuRegisters.more s"
  "cpuRegisters.more (XORI s) = cpuRegisters.more s" "cpuRegisters.more (SLTI s) = cpuRegisters.more s" "cpuRegisters.more (SLTIU s) = cpuRegisters.more s"
  "cpuRegisters.more (ADD s) = cpuRegisters.more s" "cpuRegisters.more (DADD s) = cpuRegisters.more s" "cpuRegisters.more (SUB s) = cpuRegisters.more s"
  "cpuRegisters.more (DSUB s) = cpuRegisters.more s" "cpuRegisters.more (ADDU s) = cpuRegisters.more s" "cpuRegisters.more (DADDU s) = cpuRegisters.more s"
  "cpuRegisters.more (SUBU s) = cpuRegisters.more s" "cpuRegisters.more (DSUBU s) = cpuRegisters.more s" "cpuRegisters.more (AND_op s) = cpuRegisters.more s"
  "cpuRegisters.more (OR_op s) = cpuRegisters.more s" "cpuRegisters.more (XOR_op s) = cpuRegisters.more s" "cpuRegisters.more (NOR s) = cpuRegisters.more s"
  "cpuRegisters.more (SLT s) = cpuRegisters.more s" "cpuRegisters.more (SLTU s) = cpuRegisters.more s" "cpuRegisters.more (DIV s) = cpuRegisters.more s"
  "cpuRegisters.more (DIVU s) = cpuRegisters.more s" "cpuRegisters.more (MULT s) = cpuRegisters.more s" "cpuRegisters.more (MULTU s) = cpuRegisters.more s"
  "cpuRegisters.more (LUI s) = cpuRegisters.more s" "cpuRegisters.more (MFHI s) = cpuRegisters.more s" "cpuRegisters.more (MFLO s) = cpuRegisters.more s"
  "cpuRegisters.more (MTHI s) = cpuRegisters.more s" "cpuRegisters.more (MTLO s) = cpuRegisters.more s" "cpuRegisters.more (MOVZ s) = cpuRegisters.more s"
  "cpuRegisters.more (MOVN s) = cpuRegisters.more s" "cpuRegisters.more (MFSA s) = cpuRegisters.more s" "cpuRegisters.more (MTSA s) = cpuRegisters.more s"
  "cpuRegisters.more (MTSAB s) = cpuRegisters.more s" "cpuRegisters.more (MTSAH s) = cpuRegisters.more s" "cpuRegisters.more (SRA s) = cpuRegisters.more s"
  "cpuRegisters.more (SRL s) = cpuRegisters.more s" "cpuRegisters.more (SLL s) = cpuRegisters.more s" "cpuRegisters.more (DSLL s) = cpuRegisters.more s"
  "cpuRegisters.more (DSLL32 s) = cpuRegisters.more s" "cpuRegisters.more (DSRA s) = cpuRegisters.more s" "cpuRegisters.more (DSRA32 s) = cpuRegisters.more s"
  "cpuRegisters.more (DSRL s) = cpuRegisters.more s" "cpuRegisters.more (DSRL32 s) = cpuRegisters.more s" "cpuRegisters.more (SLLV s) = cpuRegisters.more s"
  "cpuRegisters.more (SRAV s) = cpuRegisters.more s" "cpuRegisters.more (SRLV s) = cpuRegisters.more s" "cpuRegisters.more (DSLLV s) = cpuRegisters.more s"
  "cpuRegisters.more (DSRAV s) = cpuRegisters.more s" "cpuRegisters.more (DSRLV s) = cpuRegisters.more s" "cpuRegisters.more (BREAK s) = cpuRegisters.more s"
  "cpuRegisters.more (SYNC s) = cpuRegisters.more s" "cpuRegisters.more (PREF s) = cpuRegisters.more s" "cpuRegisters.more (trap s) = cpuRegisters.more s"
  "cpuRegisters.more (TGE s) = cpuRegisters.more s" "cpuRegisters.more (TGEU s) = cpuRegisters.more s" "cpuRegisters.more (TLT s) = cpuRegisters.more s"
  "cpuRegisters.more (TLTU s) = cpuRegisters.more s" "cpuRegisters.more (TEQ s) = cpuRegisters.more s" "cpuRegisters.more (TNE s) = cpuRegisters.more s"
  "cpuRegisters.more (TGEI s) = cpuRegisters.more s" "cpuRegisters.more (TLTI s) = cpuRegisters.more s" "cpuRegisters.more (TEQI s) = cpuRegisters.more s"
  "cpuRegisters.more (TNEI s) = cpuRegisters.more s" "cpuRegisters.more (TGEIU s) = cpuRegisters.more s" "cpuRegisters.more (TLTIU s) = cpuRegisters.more s"
  by (simp_all add: alu_defs Let_def split_def)

end
