(* ===== verification/EE_MMI.thy ===== *)
theory EE_MMI
  imports EE_ALU
begin

text \<open>
  The multimedia instructions of the Emotion Engine (\<^verbatim>\<open>pcsx2/MMI.cpp\<close>): 128-bit
  registers treated as vectors of bytes, halfwords, words or doublewords, and the second
  multiply/divide pipeline on the upper halves of HI and LO. Where the source has a helper
  \<^verbatim>\<open>_PADDW(int n)\<close> for one lane, the model has \<open>PADDW_lane n\<close>, and the instruction
  calls it lane by lane in the order of the source, each call reading the registers the
  previous one left: with the destination also a source, the loop works in place.
\<close>

section \<open>The second multiply/divide pipeline\<close>

definition MADD :: "'a cpuRegisters_scheme \<Rightarrow> 'a cpuRegisters_scheme" where
  "MADD s =
     (let temp = (ucast (UL 0 (LO s)) OR push_bit 32 (ucast (UL 0 (HI s)))) + scast (UL 0 (GPR s (fRs s))) * scast (UL 0 (GPR s (fRt s))) :: u64;
          s = wHI_UD 0 (hi_half temp) (wLO_UD 0 (lo_half temp) s)
      in if fRd s \<noteq> 0 then wUD (fRd s) 0 (UD 0 (LO s)) s else s)"

definition MADDU :: "'a cpuRegisters_scheme \<Rightarrow> 'a cpuRegisters_scheme" where
  "MADDU s =
     (let temp = (ucast (UL 0 (LO s)) OR push_bit 32 (ucast (UL 0 (HI s)))) + ucast (UL 0 (GPR s (fRs s))) * ucast (UL 0 (GPR s (fRt s))) :: u64;
          s = wHI_UD 0 (hi_half temp) (wLO_UD 0 (lo_half temp) s)
      in if fRd s \<noteq> 0 then wUD (fRd s) 0 (UD 0 (LO s)) s else s)"

definition MADD1 :: "'a cpuRegisters_scheme \<Rightarrow> 'a cpuRegisters_scheme" where
  "MADD1 s =
     (let temp = (ucast (UL 2 (LO s)) OR push_bit 32 (ucast (UL 2 (HI s)))) + scast (UL 0 (GPR s (fRs s))) * scast (UL 0 (GPR s (fRt s))) :: u64;
          s = wHI_UD 1 (hi_half temp) (wLO_UD 1 (lo_half temp) s)
      in if fRd s \<noteq> 0 then wUD (fRd s) 0 (UD 1 (LO s)) s else s)"

definition MADDU1 :: "'a cpuRegisters_scheme \<Rightarrow> 'a cpuRegisters_scheme" where
  "MADDU1 s =
     (let temp = (ucast (UL 2 (LO s)) OR push_bit 32 (ucast (UL 2 (HI s)))) + ucast (UL 0 (GPR s (fRs s))) * ucast (UL 0 (GPR s (fRt s))) :: u64;
          s = wHI_UD 1 (hi_half temp) (wLO_UD 1 (lo_half temp) s)
      in if fRd s \<noteq> 0 then wUD (fRd s) 0 (UD 1 (LO s)) s else s)"

definition MFHI1 :: "'a cpuRegisters_scheme \<Rightarrow> 'a cpuRegisters_scheme" where
  "MFHI1 s =
     (if fRd s = 0 then s else wUD (fRd s) 0 (UD 1 (HI s)) s)"

definition MFLO1 :: "'a cpuRegisters_scheme \<Rightarrow> 'a cpuRegisters_scheme" where
  "MFLO1 s =
     (if fRd s = 0 then s else wUD (fRd s) 0 (UD 1 (LO s)) s)"

definition MTHI1 :: "'a cpuRegisters_scheme \<Rightarrow> 'a cpuRegisters_scheme" where
  "MTHI1 s =
     wHI_UD 1 (UD 0 (GPR s (fRs s))) s"

definition MTLO1 :: "'a cpuRegisters_scheme \<Rightarrow> 'a cpuRegisters_scheme" where
  "MTLO1 s =
     wLO_UD 1 (UD 0 (GPR s (fRs s))) s"

definition MULT1 :: "'a cpuRegisters_scheme \<Rightarrow> 'a cpuRegisters_scheme" where
  "MULT1 s =
     (let temp = scast (UL 0 (GPR s (fRs s))) * scast (UL 0 (GPR s (fRt s))) :: u64;
          s = wHI_UD 1 (hi_half temp) (wLO_UD 1 (lo_half temp) s)
      in if fRd s \<noteq> 0 then wUD (fRd s) 0 (UD 1 (LO s)) s else s)"

definition MULTU1 :: "'a cpuRegisters_scheme \<Rightarrow> 'a cpuRegisters_scheme" where
  "MULTU1 s =
     (let temp = ucast (UL 0 (GPR s (fRs s))) * ucast (UL 0 (GPR s (fRt s))) :: u64;
          s = wHI_UD 1 (hi_half temp) (wLO_UD 1 (lo_half temp) s)
      in if fRd s \<noteq> 0 then wUD (fRd s) 0 (UD 1 (LO s)) s else s)"

definition DIV1 :: "'a cpuRegisters_scheme \<Rightarrow> 'a cpuRegisters_scheme" where
  "DIV1 s =
     (case div_signed (UL 0 (GPR s (fRs s))) (UL 0 (GPR s (fRt s))) of (q, r) \<Rightarrow> wHI_UD 1 r (wLO_UD 1 q s))"

definition DIVU1 :: "'a cpuRegisters_scheme \<Rightarrow> 'a cpuRegisters_scheme" where
  "DIVU1 s =
     (case div_unsigned (UL 0 (GPR s (fRs s))) (UL 0 (GPR s (fRt s))) of (q, r) \<Rightarrow> wHI_UD 1 r (wLO_UD 1 q s))"

section \<open>Sequences of lane assignments\<close>

text \<open>\<open>wULs d [(i, v), ...]\<close> is the block of assignments
  \<^verbatim>\<open>cpuRegs.GPR.r[_Rd_].UL[i] = v; ...\<close> in that order.\<close>

definition wULs :: "5 word \<Rightarrow> (nat \<times> u32) list \<Rightarrow> 'a cpuRegisters_scheme \<Rightarrow> 'a cpuRegisters_scheme" where
  "wULs d vs s = fold (\<lambda>(i, v). wUL d i v) vs s"

definition wUSs :: "5 word \<Rightarrow> (nat \<times> u16) list \<Rightarrow> 'a cpuRegisters_scheme \<Rightarrow> 'a cpuRegisters_scheme" where
  "wUSs d vs s = fold (\<lambda>(i, v). wUS d i v) vs s"

definition wUCs :: "5 word \<Rightarrow> (nat \<times> u8) list \<Rightarrow> 'a cpuRegisters_scheme \<Rightarrow> 'a cpuRegisters_scheme" where
  "wUCs d vs s = fold (\<lambda>(i, v). wUC d i v) vs s"

section \<open>Leading bits, and moves between HI, LO and the registers\<close>

definition countl_zero :: "u32 \<Rightarrow> nat" where
  "countl_zero n = length (takeWhile Not (map (bit n) (rev [0..<32])))"

definition CountLeadingSignBits :: "u32 \<Rightarrow> nat" where
  "CountLeadingSignBits n =
     (let n = (if n <s 0 then NOT n else n) in if n = 0 then 32 else countl_zero n)"

definition PLZCW :: "'a cpuRegisters_scheme \<Rightarrow> 'a cpuRegisters_scheme" where
  "PLZCW s =
     (if fRd s = 0 then s else
      let s = wUL (fRd s) 0 (of_nat (CountLeadingSignBits (UL 0 (GPR s (fRs s)))) - 1) s
      in wUL (fRd s) 1 (of_nat (CountLeadingSignBits (UL 1 (GPR s (fRs s)))) - 1) s)"

definition PMFHL_CLAMP :: "u32 \<Rightarrow> u16" where
  "PMFHL_CLAMP src = (if 0x7fff <s src then 0x7fff else if src <s - 0x8000 then 0x8000 else ucast src)"

definition PMFHL_SLW :: "nat \<Rightarrow> 'a cpuRegisters_scheme \<Rightarrow> u64" where
  "PMFHL_SLW i s =
     (let TempS64 = push_bit 32 (ucast (UL i (HI s))) OR ucast (UL i (LO s)) :: u64 in
      if 0x000000007fffffff \<le>s TempS64 then 0x000000007fffffff
      else if TempS64 \<le>s - 0x80000000 then 0xffffffff80000000
      else scast (UL i (LO s)))"

definition PMFHL :: "'a cpuRegisters_scheme \<Rightarrow> 'a cpuRegisters_scheme" where
  "PMFHL s =
     (if fRd s = 0 then s else
      if fSa s = 0x00 then
        wULs (fRd s) [(0, UL 0 (LO s)), (1, UL 0 (HI s)), (2, UL 2 (LO s)), (3, UL 2 (HI s))] s
      else if fSa s = 0x01 then
        wULs (fRd s) [(0, UL 1 (LO s)), (1, UL 1 (HI s)), (2, UL 3 (LO s)), (3, UL 3 (HI s))] s
      else if fSa s = 0x02 then
        wUD (fRd s) 1 (PMFHL_SLW 2 s) (wUD (fRd s) 0 (PMFHL_SLW 0 s) s)
      else if fSa s = 0x03 then
        wUSs (fRd s) [(0, US 0 (LO s)), (1, US 2 (LO s)), (2, US 0 (HI s)), (3, US 2 (HI s)),
                      (4, US 4 (LO s)), (5, US 6 (LO s)), (6, US 4 (HI s)), (7, US 6 (HI s))] s
      else if fSa s = 0x04 then
        wUSs (fRd s)
          [(0, PMFHL_CLAMP (UL 0 (LO s))), (1, PMFHL_CLAMP (UL 1 (LO s))),
           (2, PMFHL_CLAMP (UL 0 (HI s))), (3, PMFHL_CLAMP (UL 1 (HI s))),
           (4, PMFHL_CLAMP (UL 2 (LO s))), (5, PMFHL_CLAMP (UL 3 (LO s))),
           (6, PMFHL_CLAMP (UL 2 (HI s))), (7, PMFHL_CLAMP (UL 3 (HI s)))] s
      else s)"

definition PMTHL :: "'a cpuRegisters_scheme \<Rightarrow> 'a cpuRegisters_scheme" where
  "PMTHL s =
     (if fSa s \<noteq> 0 then s else
      wHI_UL 2 (UL 3 (GPR s (fRs s))) (wLO_UL 2 (UL 2 (GPR s (fRs s))) (wHI_UL 0 (UL 1 (GPR s (fRs s))) (wLO_UL 0 (UL 0 (GPR s (fRs s))) s))))"

section \<open>Lane-wise shifts\<close>

definition PSLLH_lane :: "nat \<Rightarrow> 'a cpuRegisters_scheme \<Rightarrow> 'a cpuRegisters_scheme" where
  "PSLLH_lane n s = wUS (fRd s) n (push_bit (unat (of_nat (fSa s) AND 0xf :: u32)) (US n (GPR s (fRt s)))) s"

definition PSLLH :: "'a cpuRegisters_scheme \<Rightarrow> 'a cpuRegisters_scheme" where
  "PSLLH s = (if fRd s = 0 then s else fold PSLLH_lane [0, 1, 2, 3, 4, 5, 6, 7] s)"

definition PSRLH_lane :: "nat \<Rightarrow> 'a cpuRegisters_scheme \<Rightarrow> 'a cpuRegisters_scheme" where
  "PSRLH_lane n s = wUS (fRd s) n (drop_bit (unat (of_nat (fSa s) AND 0xf :: u32)) (US n (GPR s (fRt s)))) s"

definition PSRLH :: "'a cpuRegisters_scheme \<Rightarrow> 'a cpuRegisters_scheme" where
  "PSRLH s = (if fRd s = 0 then s else fold PSRLH_lane [0, 1, 2, 3, 4, 5, 6, 7] s)"

definition PSRAH_lane :: "nat \<Rightarrow> 'a cpuRegisters_scheme \<Rightarrow> 'a cpuRegisters_scheme" where
  "PSRAH_lane n s = wUS (fRd s) n (signed_drop_bit (unat (of_nat (fSa s) AND 0xf :: u32)) (US n (GPR s (fRt s)))) s"

definition PSRAH :: "'a cpuRegisters_scheme \<Rightarrow> 'a cpuRegisters_scheme" where
  "PSRAH s = (if fRd s = 0 then s else fold PSRAH_lane [0, 1, 2, 3, 4, 5, 6, 7] s)"

definition PSLLW_lane :: "nat \<Rightarrow> 'a cpuRegisters_scheme \<Rightarrow> 'a cpuRegisters_scheme" where
  "PSLLW_lane n s = wUL (fRd s) n (push_bit (fSa s) (UL n (GPR s (fRt s)))) s"

definition PSLLW :: "'a cpuRegisters_scheme \<Rightarrow> 'a cpuRegisters_scheme" where
  "PSLLW s = (if fRd s = 0 then s else fold PSLLW_lane [0, 1, 2, 3] s)"

definition PSRLW_lane :: "nat \<Rightarrow> 'a cpuRegisters_scheme \<Rightarrow> 'a cpuRegisters_scheme" where
  "PSRLW_lane n s = wUL (fRd s) n (drop_bit (fSa s) (UL n (GPR s (fRt s)))) s"

definition PSRLW :: "'a cpuRegisters_scheme \<Rightarrow> 'a cpuRegisters_scheme" where
  "PSRLW s = (if fRd s = 0 then s else fold PSRLW_lane [0, 1, 2, 3] s)"

definition PSRAW_lane :: "nat \<Rightarrow> 'a cpuRegisters_scheme \<Rightarrow> 'a cpuRegisters_scheme" where
  "PSRAW_lane n s = wUL (fRd s) n (signed_drop_bit (fSa s) (UL n (GPR s (fRt s)))) s"

definition PSRAW :: "'a cpuRegisters_scheme \<Rightarrow> 'a cpuRegisters_scheme" where
  "PSRAW s = (if fRd s = 0 then s else fold PSRAW_lane [0, 1, 2, 3] s)"

section \<open>MMI0\<close>

definition PADDW_lane :: "nat \<Rightarrow> 'a cpuRegisters_scheme \<Rightarrow> 'a cpuRegisters_scheme" where
  "PADDW_lane n s = wUL (fRd s) n (UL n (GPR s (fRs s)) + UL n (GPR s (fRt s))) s"

definition PADDW :: "'a cpuRegisters_scheme \<Rightarrow> 'a cpuRegisters_scheme" where
  "PADDW s = (if fRd s = 0 then s else fold PADDW_lane [0, 1, 2, 3] s)"

definition PSUBW_lane :: "nat \<Rightarrow> 'a cpuRegisters_scheme \<Rightarrow> 'a cpuRegisters_scheme" where
  "PSUBW_lane n s = wUL (fRd s) n (UL n (GPR s (fRs s)) - UL n (GPR s (fRt s))) s"

definition PSUBW :: "'a cpuRegisters_scheme \<Rightarrow> 'a cpuRegisters_scheme" where
  "PSUBW s = (if fRd s = 0 then s else fold PSUBW_lane [0, 1, 2, 3] s)"

definition PCGTW_lane :: "nat \<Rightarrow> 'a cpuRegisters_scheme \<Rightarrow> 'a cpuRegisters_scheme" where
  "PCGTW_lane n s = (if UL n (GPR s (fRt s)) <s UL n (GPR s (fRs s)) then wUL (fRd s) n 0xFFFFFFFF s else wUL (fRd s) n 0x00000000 s)"

definition PCGTW :: "'a cpuRegisters_scheme \<Rightarrow> 'a cpuRegisters_scheme" where
  "PCGTW s = (if fRd s = 0 then s else fold PCGTW_lane [0, 1, 2, 3] s)"

definition PMAXW_lane :: "nat \<Rightarrow> 'a cpuRegisters_scheme \<Rightarrow> 'a cpuRegisters_scheme" where
  "PMAXW_lane n s = (if UL n (GPR s (fRt s)) <s UL n (GPR s (fRs s)) then wUL (fRd s) n (UL n (GPR s (fRs s))) s else wUL (fRd s) n (UL n (GPR s (fRt s))) s)"

definition PMAXW :: "'a cpuRegisters_scheme \<Rightarrow> 'a cpuRegisters_scheme" where
  "PMAXW s = (if fRd s = 0 then s else fold PMAXW_lane [0, 1, 2, 3] s)"

definition PADDH_lane :: "nat \<Rightarrow> 'a cpuRegisters_scheme \<Rightarrow> 'a cpuRegisters_scheme" where
  "PADDH_lane n s = wUS (fRd s) n (US n (GPR s (fRs s)) + US n (GPR s (fRt s))) s"

definition PADDH :: "'a cpuRegisters_scheme \<Rightarrow> 'a cpuRegisters_scheme" where
  "PADDH s = (if fRd s = 0 then s else fold PADDH_lane [0, 1, 2, 3, 4, 5, 6, 7] s)"

definition PSUBH_lane :: "nat \<Rightarrow> 'a cpuRegisters_scheme \<Rightarrow> 'a cpuRegisters_scheme" where
  "PSUBH_lane n s = wUS (fRd s) n (US n (GPR s (fRs s)) - US n (GPR s (fRt s))) s"

definition PSUBH :: "'a cpuRegisters_scheme \<Rightarrow> 'a cpuRegisters_scheme" where
  "PSUBH s = (if fRd s = 0 then s else fold PSUBH_lane [0, 1, 2, 3, 4, 5, 6, 7] s)"

definition PCGTH_lane :: "nat \<Rightarrow> 'a cpuRegisters_scheme \<Rightarrow> 'a cpuRegisters_scheme" where
  "PCGTH_lane n s = (if US n (GPR s (fRt s)) <s US n (GPR s (fRs s)) then wUS (fRd s) n 0xFFFF s else wUS (fRd s) n 0x0000 s)"

definition PCGTH :: "'a cpuRegisters_scheme \<Rightarrow> 'a cpuRegisters_scheme" where
  "PCGTH s = (if fRd s = 0 then s else fold PCGTH_lane [0, 1, 2, 3, 4, 5, 6, 7] s)"

definition PMAXH_lane :: "nat \<Rightarrow> 'a cpuRegisters_scheme \<Rightarrow> 'a cpuRegisters_scheme" where
  "PMAXH_lane n s = (if US n (GPR s (fRt s)) <s US n (GPR s (fRs s)) then wUS (fRd s) n (US n (GPR s (fRs s))) s else wUS (fRd s) n (US n (GPR s (fRt s))) s)"

definition PMAXH :: "'a cpuRegisters_scheme \<Rightarrow> 'a cpuRegisters_scheme" where
  "PMAXH s = (if fRd s = 0 then s else fold PMAXH_lane [0, 1, 2, 3, 4, 5, 6, 7] s)"

definition PADDB_lane :: "nat \<Rightarrow> 'a cpuRegisters_scheme \<Rightarrow> 'a cpuRegisters_scheme" where
  "PADDB_lane n s = wUC (fRd s) n (UC n (GPR s (fRs s)) + UC n (GPR s (fRt s))) s"

definition PADDB :: "'a cpuRegisters_scheme \<Rightarrow> 'a cpuRegisters_scheme" where
  "PADDB s = (if fRd s = 0 then s else fold PADDB_lane [0..<16] s)"

definition PSUBB_lane :: "nat \<Rightarrow> 'a cpuRegisters_scheme \<Rightarrow> 'a cpuRegisters_scheme" where
  "PSUBB_lane n s = wUC (fRd s) n (UC n (GPR s (fRs s)) - UC n (GPR s (fRt s))) s"

definition PSUBB :: "'a cpuRegisters_scheme \<Rightarrow> 'a cpuRegisters_scheme" where
  "PSUBB s = (if fRd s = 0 then s else fold PSUBB_lane [0..<16] s)"

definition PCGTB_lane :: "nat \<Rightarrow> 'a cpuRegisters_scheme \<Rightarrow> 'a cpuRegisters_scheme" where
  "PCGTB_lane n s = (if UC n (GPR s (fRt s)) <s UC n (GPR s (fRs s)) then wUC (fRd s) n 0xFF s else wUC (fRd s) n 0x00 s)"

definition PCGTB :: "'a cpuRegisters_scheme \<Rightarrow> 'a cpuRegisters_scheme" where
  "PCGTB s = (if fRd s = 0 then s else fold PCGTB_lane [0..<16] s)"

definition PADDSW_lane :: "nat \<Rightarrow> 'a cpuRegisters_scheme \<Rightarrow> 'a cpuRegisters_scheme" where
  "PADDSW_lane n s = 
     (let sTemp = scast (UL n (GPR s (fRs s))) + scast (UL n (GPR s (fRt s))) :: u64 in
      if 0x7FFFFFFF <s sTemp then wUL (fRd s) n 0x7FFFFFFF s
      else if sTemp <s scast (0x80000000 :: u32) then wUL (fRd s) n 0x80000000 s
      else wUL (fRd s) n (ucast sTemp) s)"

definition PADDSW :: "'a cpuRegisters_scheme \<Rightarrow> 'a cpuRegisters_scheme" where
  "PADDSW s = (if fRd s = 0 then s else fold PADDSW_lane [0, 1, 2, 3] s)"

definition PSUBSW_lane :: "nat \<Rightarrow> 'a cpuRegisters_scheme \<Rightarrow> 'a cpuRegisters_scheme" where
  "PSUBSW_lane n s = 
     (let sTemp = scast (UL n (GPR s (fRs s))) - scast (UL n (GPR s (fRt s))) :: u64 in
      if 0x7FFFFFFF \<le>s sTemp then wUL (fRd s) n 0x7FFFFFFF s
      else if sTemp <s scast (0x80000000 :: u32) then wUL (fRd s) n 0x80000000 s
      else wUL (fRd s) n (ucast sTemp) s)"

definition PSUBSW :: "'a cpuRegisters_scheme \<Rightarrow> 'a cpuRegisters_scheme" where
  "PSUBSW s = (if fRd s = 0 then s else fold PSUBSW_lane [0, 1, 2, 3] s)"

definition PEXTLW :: "'a cpuRegisters_scheme \<Rightarrow> 'a cpuRegisters_scheme" where
  "PEXTLW s =
     (if fRd s = 0 then s else
      let Rs = GPR s (fRs s); Rt = GPR s (fRt s) in wULs (fRd s)
        [(0, UL 0 Rt), (1, UL 0 Rs), (2, UL 1 Rt), (3, UL 1 Rs)] s)"

definition PPACW :: "'a cpuRegisters_scheme \<Rightarrow> 'a cpuRegisters_scheme" where
  "PPACW s =
     (if fRd s = 0 then s else
      let Rs = GPR s (fRs s); Rt = GPR s (fRt s) in wULs (fRd s)
        [(0, UL 0 Rt), (1, UL 2 Rt), (2, UL 0 Rs), (3, UL 2 Rs)] s)"

definition PADDSH_lane :: "nat \<Rightarrow> 'a cpuRegisters_scheme \<Rightarrow> 'a cpuRegisters_scheme" where
  "PADDSH_lane n s = 
     (let sTemp = scast (US n (GPR s (fRs s))) + scast (US n (GPR s (fRt s))) :: u32 in
      if 0x7FFF <s sTemp then wUS (fRd s) n 0x7FFF s
      else if sTemp <s 0xffff8000 then wUS (fRd s) n 0x8000 s
      else wUS (fRd s) n (ucast sTemp) s)"

definition PADDSH :: "'a cpuRegisters_scheme \<Rightarrow> 'a cpuRegisters_scheme" where
  "PADDSH s = (if fRd s = 0 then s else fold PADDSH_lane [0, 1, 2, 3, 4, 5, 6, 7] s)"

definition PSUBSH_lane :: "nat \<Rightarrow> 'a cpuRegisters_scheme \<Rightarrow> 'a cpuRegisters_scheme" where
  "PSUBSH_lane n s = 
     (let sTemp = scast (US n (GPR s (fRs s))) - scast (US n (GPR s (fRt s))) :: u32 in
      if 0x7FFF \<le>s sTemp then wUS (fRd s) n 0x7FFF s
      else if sTemp <s 0xffff8000 then wUS (fRd s) n 0x8000 s
      else wUS (fRd s) n (ucast sTemp) s)"

definition PSUBSH :: "'a cpuRegisters_scheme \<Rightarrow> 'a cpuRegisters_scheme" where
  "PSUBSH s = (if fRd s = 0 then s else fold PSUBSH_lane [0, 1, 2, 3, 4, 5, 6, 7] s)"

definition PEXTLH :: "'a cpuRegisters_scheme \<Rightarrow> 'a cpuRegisters_scheme" where
  "PEXTLH s =
     (if fRd s = 0 then s else
      let Rs = GPR s (fRs s); Rt = GPR s (fRt s) in wUSs (fRd s)
        [(0, US 0 Rt), (1, US 0 Rs), (2, US 1 Rt), (3, US 1 Rs),
         (4, US 2 Rt), (5, US 2 Rs), (6, US 3 Rt), (7, US 3 Rs)] s)"

definition PPACH :: "'a cpuRegisters_scheme \<Rightarrow> 'a cpuRegisters_scheme" where
  "PPACH s =
     (if fRd s = 0 then s else
      let Rs = GPR s (fRs s); Rt = GPR s (fRt s) in wUSs (fRd s)
        [(0, US 0 Rt), (1, US 2 Rt), (2, US 4 Rt), (3, US 6 Rt),
         (4, US 0 Rs), (5, US 2 Rs), (6, US 4 Rs), (7, US 6 Rs)] s)"

definition PADDSB_lane :: "nat \<Rightarrow> 'a cpuRegisters_scheme \<Rightarrow> 'a cpuRegisters_scheme" where
  "PADDSB_lane n s = 
     (let sTemp = scast (UC n (GPR s (fRs s))) + scast (UC n (GPR s (fRt s))) :: u16 in
      if 0x7F <s sTemp then wUC (fRd s) n 0x7F s
      else if sTemp <s - 128 then wUC (fRd s) n 0x80 s
      else wUC (fRd s) n (ucast sTemp) s)"

definition PADDSB :: "'a cpuRegisters_scheme \<Rightarrow> 'a cpuRegisters_scheme" where
  "PADDSB s = (if fRd s = 0 then s else fold PADDSB_lane [0..<16] s)"

definition PSUBSB_lane :: "nat \<Rightarrow> 'a cpuRegisters_scheme \<Rightarrow> 'a cpuRegisters_scheme" where
  "PSUBSB_lane n s = 
     (let sTemp = scast (UC n (GPR s (fRs s))) - scast (UC n (GPR s (fRt s))) :: u16 in
      if 0x7F \<le>s sTemp then wUC (fRd s) n 0x7F s
      else if sTemp <s - 128 then wUC (fRd s) n 0x80 s
      else wUC (fRd s) n (ucast sTemp) s)"

definition PSUBSB :: "'a cpuRegisters_scheme \<Rightarrow> 'a cpuRegisters_scheme" where
  "PSUBSB s = (if fRd s = 0 then s else fold PSUBSB_lane [0..<16] s)"

definition PEXTLB :: "'a cpuRegisters_scheme \<Rightarrow> 'a cpuRegisters_scheme" where
  "PEXTLB s =
     (if fRd s = 0 then s else
      let Rs = GPR s (fRs s); Rt = GPR s (fRt s) in wUCs (fRd s)
        [(0, UC 0 Rt), (1, UC 0 Rs), (2, UC 1 Rt), (3, UC 1 Rs),
         (4, UC 2 Rt), (5, UC 2 Rs), (6, UC 3 Rt), (7, UC 3 Rs),
         (8, UC 4 Rt), (9, UC 4 Rs), (10, UC 5 Rt), (11, UC 5 Rs),
         (12, UC 6 Rt), (13, UC 6 Rs), (14, UC 7 Rt), (15, UC 7 Rs)] s)"

definition PPACB :: "'a cpuRegisters_scheme \<Rightarrow> 'a cpuRegisters_scheme" where
  "PPACB s =
     (if fRd s = 0 then s else
      let Rs = GPR s (fRs s); Rt = GPR s (fRt s) in wUCs (fRd s)
        [(0, UC 0 Rt), (1, UC 2 Rt), (2, UC 4 Rt), (3, UC 6 Rt),
         (4, UC 8 Rt), (5, UC 10 Rt), (6, UC 12 Rt), (7, UC 14 Rt),
         (8, UC 0 Rs), (9, UC 2 Rs), (10, UC 4 Rs), (11, UC 6 Rs),
         (12, UC 8 Rs), (13, UC 10 Rs), (14, UC 12 Rs), (15, UC 14 Rs)] s)"

definition PEXT5_lane :: "nat \<Rightarrow> 'a cpuRegisters_scheme \<Rightarrow> 'a cpuRegisters_scheme" where
  "PEXT5_lane n s = wUL (fRd s) n
     (push_bit 3 (UL n (GPR s (fRt s)) AND 0x0000001F) OR push_bit 6 (UL n (GPR s (fRt s)) AND 0x000003E0) OR
      push_bit 9 (UL n (GPR s (fRt s)) AND 0x00007C00) OR push_bit 16 (UL n (GPR s (fRt s)) AND 0x00008000)) s"

definition PEXT5 :: "'a cpuRegisters_scheme \<Rightarrow> 'a cpuRegisters_scheme" where
  "PEXT5 s = (if fRd s = 0 then s else fold PEXT5_lane [0, 1, 2, 3] s)"

definition PPAC5_lane :: "nat \<Rightarrow> 'a cpuRegisters_scheme \<Rightarrow> 'a cpuRegisters_scheme" where
  "PPAC5_lane n s = wUL (fRd s) n
     ((drop_bit 3 (UL n (GPR s (fRt s))) AND 0x0000001F) OR (drop_bit 6 (UL n (GPR s (fRt s))) AND 0x000003E0) OR
      (drop_bit 9 (UL n (GPR s (fRt s))) AND 0x00007C00) OR (drop_bit 16 (UL n (GPR s (fRt s))) AND 0x00008000)) s"

definition PPAC5 :: "'a cpuRegisters_scheme \<Rightarrow> 'a cpuRegisters_scheme" where
  "PPAC5 s = (if fRd s = 0 then s else fold PPAC5_lane [0, 1, 2, 3] s)"

section \<open>MMI1\<close>

definition PABSW_lane :: "nat \<Rightarrow> 'a cpuRegisters_scheme \<Rightarrow> 'a cpuRegisters_scheme" where
  "PABSW_lane n s = 
     (if UL n (GPR s (fRt s)) = 0x80000000 then wUL (fRd s) n 0x7fffffff s
      else if UL n (GPR s (fRt s)) <s 0 then wUL (fRd s) n (- (UL n (GPR s (fRt s)))) s
      else wUL (fRd s) n (UL n (GPR s (fRt s))) s)"

definition PABSW :: "'a cpuRegisters_scheme \<Rightarrow> 'a cpuRegisters_scheme" where
  "PABSW s = (if fRd s = 0 then s else fold PABSW_lane [0, 1, 2, 3] s)"

definition PCEQW_lane :: "nat \<Rightarrow> 'a cpuRegisters_scheme \<Rightarrow> 'a cpuRegisters_scheme" where
  "PCEQW_lane n s = (if UL n (GPR s (fRs s)) = UL n (GPR s (fRt s)) then wUL (fRd s) n 0xFFFFFFFF s else wUL (fRd s) n 0x00000000 s)"

definition PCEQW :: "'a cpuRegisters_scheme \<Rightarrow> 'a cpuRegisters_scheme" where
  "PCEQW s = (if fRd s = 0 then s else fold PCEQW_lane [0, 1, 2, 3] s)"

definition PMINW_lane :: "nat \<Rightarrow> 'a cpuRegisters_scheme \<Rightarrow> 'a cpuRegisters_scheme" where
  "PMINW_lane n s = (if UL n (GPR s (fRs s)) <s UL n (GPR s (fRt s)) then wUL (fRd s) n (UL n (GPR s (fRs s))) s else wUL (fRd s) n (UL n (GPR s (fRt s))) s)"

definition PMINW :: "'a cpuRegisters_scheme \<Rightarrow> 'a cpuRegisters_scheme" where
  "PMINW s = (if fRd s = 0 then s else fold PMINW_lane [0, 1, 2, 3] s)"

definition PADSBH :: "'a cpuRegisters_scheme \<Rightarrow> 'a cpuRegisters_scheme" where
  "PADSBH s = (if fRd s = 0 then s else fold PADDH_lane [4, 5, 6, 7] (fold PSUBH_lane [0, 1, 2, 3] s))"

definition PABSH_lane :: "nat \<Rightarrow> 'a cpuRegisters_scheme \<Rightarrow> 'a cpuRegisters_scheme" where
  "PABSH_lane n s = 
     (if US n (GPR s (fRt s)) = 0x8000 then wUS (fRd s) n 0x7fff s
      else if US n (GPR s (fRt s)) <s 0 then wUS (fRd s) n (- (US n (GPR s (fRt s)))) s
      else wUS (fRd s) n (US n (GPR s (fRt s))) s)"

definition PABSH :: "'a cpuRegisters_scheme \<Rightarrow> 'a cpuRegisters_scheme" where
  "PABSH s = (if fRd s = 0 then s else fold PABSH_lane [0, 1, 2, 3, 4, 5, 6, 7] s)"

definition PCEQH_lane :: "nat \<Rightarrow> 'a cpuRegisters_scheme \<Rightarrow> 'a cpuRegisters_scheme" where
  "PCEQH_lane n s = (if US n (GPR s (fRs s)) = US n (GPR s (fRt s)) then wUS (fRd s) n 0xFFFF s else wUS (fRd s) n 0x0000 s)"

definition PCEQH :: "'a cpuRegisters_scheme \<Rightarrow> 'a cpuRegisters_scheme" where
  "PCEQH s = (if fRd s = 0 then s else fold PCEQH_lane [0, 1, 2, 3, 4, 5, 6, 7] s)"

definition PMINH_lane :: "nat \<Rightarrow> 'a cpuRegisters_scheme \<Rightarrow> 'a cpuRegisters_scheme" where
  "PMINH_lane n s = (if US n (GPR s (fRs s)) <s US n (GPR s (fRt s)) then wUS (fRd s) n (US n (GPR s (fRs s))) s else wUS (fRd s) n (US n (GPR s (fRt s))) s)"

definition PMINH :: "'a cpuRegisters_scheme \<Rightarrow> 'a cpuRegisters_scheme" where
  "PMINH s = (if fRd s = 0 then s else fold PMINH_lane [0, 1, 2, 3, 4, 5, 6, 7] s)"

definition PCEQB_lane :: "nat \<Rightarrow> 'a cpuRegisters_scheme \<Rightarrow> 'a cpuRegisters_scheme" where
  "PCEQB_lane n s = (if UC n (GPR s (fRs s)) = UC n (GPR s (fRt s)) then wUC (fRd s) n 0xFF s else wUC (fRd s) n 0x00 s)"

definition PCEQB :: "'a cpuRegisters_scheme \<Rightarrow> 'a cpuRegisters_scheme" where
  "PCEQB s = (if fRd s = 0 then s else fold PCEQB_lane [0..<16] s)"

definition PADDUW_lane :: "nat \<Rightarrow> 'a cpuRegisters_scheme \<Rightarrow> 'a cpuRegisters_scheme" where
  "PADDUW_lane n s = 
     (let tmp = ucast (UL n (GPR s (fRs s))) + ucast (UL n (GPR s (fRt s))) :: u64 in
      if 0xffffffff <s tmp then wUL (fRd s) n 0xffffffff s else wUL (fRd s) n (ucast tmp) s)"

definition PADDUW :: "'a cpuRegisters_scheme \<Rightarrow> 'a cpuRegisters_scheme" where
  "PADDUW s = (if fRd s = 0 then s else fold PADDUW_lane [0, 1, 2, 3] s)"

definition PSUBUW_lane :: "nat \<Rightarrow> 'a cpuRegisters_scheme \<Rightarrow> 'a cpuRegisters_scheme" where
  "PSUBUW_lane n s = 
     (let sTemp = ucast (UL n (GPR s (fRs s))) - ucast (UL n (GPR s (fRt s))) :: u64 in
      if sTemp \<le>s 0x0 then wUL (fRd s) n 0x0 s else wUL (fRd s) n (ucast sTemp) s)"

definition PSUBUW :: "'a cpuRegisters_scheme \<Rightarrow> 'a cpuRegisters_scheme" where
  "PSUBUW s = (if fRd s = 0 then s else fold PSUBUW_lane [0, 1, 2, 3] s)"

definition PEXTUW :: "'a cpuRegisters_scheme \<Rightarrow> 'a cpuRegisters_scheme" where
  "PEXTUW s =
     (if fRd s = 0 then s else
      let Rs = GPR s (fRs s); Rt = GPR s (fRt s) in wULs (fRd s)
        [(0, UL 2 Rt), (1, UL 2 Rs), (2, UL 3 Rt), (3, UL 3 Rs)] s)"

definition PADDUH_lane :: "nat \<Rightarrow> 'a cpuRegisters_scheme \<Rightarrow> 'a cpuRegisters_scheme" where
  "PADDUH_lane n s = 
     (let tmp = ucast (US n (GPR s (fRs s))) + ucast (US n (GPR s (fRt s))) :: u32 in
      if 0xFFFF <s tmp then wUS (fRd s) n 0xFFFF s else wUS (fRd s) n (ucast tmp) s)"

definition PADDUH :: "'a cpuRegisters_scheme \<Rightarrow> 'a cpuRegisters_scheme" where
  "PADDUH s = (if fRd s = 0 then s else fold PADDUH_lane [0, 1, 2, 3, 4, 5, 6, 7] s)"

definition PSUBUH_lane :: "nat \<Rightarrow> 'a cpuRegisters_scheme \<Rightarrow> 'a cpuRegisters_scheme" where
  "PSUBUH_lane n s = 
     (let sTemp = ucast (US n (GPR s (fRs s))) - ucast (US n (GPR s (fRt s))) :: u32 in
      if sTemp \<le>s 0x0 then wUS (fRd s) n 0x0 s else wUS (fRd s) n (ucast sTemp) s)"

definition PSUBUH :: "'a cpuRegisters_scheme \<Rightarrow> 'a cpuRegisters_scheme" where
  "PSUBUH s = (if fRd s = 0 then s else fold PSUBUH_lane [0, 1, 2, 3, 4, 5, 6, 7] s)"

definition PEXTUH :: "'a cpuRegisters_scheme \<Rightarrow> 'a cpuRegisters_scheme" where
  "PEXTUH s =
     (if fRd s = 0 then s else
      let Rs = GPR s (fRs s); Rt = GPR s (fRt s) in wUSs (fRd s)
        [(0, US 4 Rt), (1, US 4 Rs), (2, US 5 Rt), (3, US 5 Rs),
         (4, US 6 Rt), (5, US 6 Rs), (6, US 7 Rt), (7, US 7 Rs)] s)"

definition PADDUB_lane :: "nat \<Rightarrow> 'a cpuRegisters_scheme \<Rightarrow> 'a cpuRegisters_scheme" where
  "PADDUB_lane n s = 
     (let tmp = ucast (UC n (GPR s (fRs s))) + ucast (UC n (GPR s (fRt s))) :: u16 in
      if 0xFF < tmp then wUC (fRd s) n 0xFF s else wUC (fRd s) n (ucast tmp) s)"

definition PADDUB :: "'a cpuRegisters_scheme \<Rightarrow> 'a cpuRegisters_scheme" where
  "PADDUB s = (if fRd s = 0 then s else fold PADDUB_lane [0..<16] s)"

definition PSUBUB_lane :: "nat \<Rightarrow> 'a cpuRegisters_scheme \<Rightarrow> 'a cpuRegisters_scheme" where
  "PSUBUB_lane n s = 
     (let sTemp = ucast (UC n (GPR s (fRs s))) - ucast (UC n (GPR s (fRt s))) :: u16 in
      if sTemp \<le>s 0x0 then wUC (fRd s) n 0x0 s else wUC (fRd s) n (ucast sTemp) s)"

definition PSUBUB :: "'a cpuRegisters_scheme \<Rightarrow> 'a cpuRegisters_scheme" where
  "PSUBUB s = (if fRd s = 0 then s else fold PSUBUB_lane [0..<16] s)"

definition PEXTUB :: "'a cpuRegisters_scheme \<Rightarrow> 'a cpuRegisters_scheme" where
  "PEXTUB s =
     (if fRd s = 0 then s else
      let Rs = GPR s (fRs s); Rt = GPR s (fRt s) in wUCs (fRd s)
        [(0, UC 8 Rt), (1, UC 8 Rs), (2, UC 9 Rt), (3, UC 9 Rs),
         (4, UC 10 Rt), (5, UC 10 Rs), (6, UC 11 Rt), (7, UC 11 Rs),
         (8, UC 12 Rt), (9, UC 12 Rs), (10, UC 13 Rt), (11, UC 13 Rs),
         (12, UC 14 Rt), (13, UC 14 Rs), (14, UC 15 Rt), (15, UC 15 Rs)] s)"

text \<open>
  The funnel shift. \<^verbatim>\<open>sa\<close> counts bytes; \<^verbatim>\<open>MTSAB\<close> and \<^verbatim>\<open>MTSAH\<close> leave it below 16.
  For larger values (possible after \<^verbatim>\<open>MTSA\<close>) the source shifts a 64-bit value by more than 63,
  which C++ leaves undefined; no theorem below speaks of that case.
\<close>

definition QFSRV :: "'a cpuRegisters_scheme \<Rightarrow> 'a cpuRegisters_scheme" where
  "QFSRV s =
     (if fRd s = 0 then s else
      let Rs = GPR s (fRs s); Rt = GPR s (fRt s); sa_amt = push_bit 3 (sa s) in
      if sa_amt = 0 then wUD (fRd s) 1 (UD 1 Rt) (wUD (fRd s) 0 (UD 0 Rt) s)
      else if sa_amt < 64 then
        wGPR (fRd s)
          (setUD 1 (drop_bit (unat sa_amt) (UD 1 Rt) OR push_bit (unat (64 - sa_amt)) (UD 0 Rs))
          (setUD 0 (drop_bit (unat sa_amt) (UD 0 Rt) OR push_bit (unat (64 - sa_amt)) (UD 1 Rt)) 0)) s
      else
        let d0 = drop_bit (unat (sa_amt - 64)) (UD 1 Rt); d1 = drop_bit (unat (sa_amt - 64)) (UD 0 Rs);
            d0 = (if sa_amt \<noteq> 64 then d0 OR push_bit (unat (128 - sa_amt)) (UD 0 Rs) else d0);
            d1 = (if sa_amt \<noteq> 64 then d1 OR push_bit (unat (128 - sa_amt)) (UD 1 Rs) else d1)
        in wGPR (fRd s) (setUD 1 d1 (setUD 0 d0 0)) s)"

section \<open>MMI2\<close>

text \<open>The C operator \<^verbatim>\<open>/\<close> on \<^verbatim>\<open>s64\<close>. Signed additions and subtractions of the source
  that may exceed their type are modelled as wrapping, as the compiled code does.\<close>

definition s64_div :: "u64 \<Rightarrow> u64 \<Rightarrow> u64" where
  "s64_div a b = word_of_int (sint a sdiv sint b)"

definition PMADDW_lane :: "nat \<Rightarrow> nat \<Rightarrow> 'a cpuRegisters_scheme \<Rightarrow> 'a cpuRegisters_scheme" where
  "PMADDW_lane dd ss s =
     (let temp = scast (UL ss (GPR s (fRs s))) * scast (UL ss (GPR s (fRt s))) :: u64;
          temp2 = temp + push_bit 32 (scast (UL ss (HI s)));
          temp2 = (if ss = 0 \<and> ((UL ss (GPR s (fRt s))) AND 0x7FFFFFFF = 0 \<or> (UL ss (GPR s (fRt s))) AND 0x7FFFFFFF = 0x7FFFFFFF) \<and> UL ss (GPR s (fRs s)) \<noteq> UL ss (GPR s (fRt s))
                   then temp2 + 0x70000000 else temp2);
          temp2 = scast (ucast (s64_div temp2 4294967295) :: u32) :: u64;
          s = wLO_UD dd (scast ((ucast (temp AND 0xffffffff) :: u32) + UL ss (LO s))) s;
          s = wHI_UD dd (scast (ucast temp2 :: u32)) s
      in if fRd s \<noteq> 0
         then wUL (fRd s) (dd * 2 + 1) (UL (dd * 2) (HI s)) (wUL (fRd s) (dd * 2) (UL (dd * 2) (LO s)) s)
         else s)"

definition PMADDW :: "'a cpuRegisters_scheme \<Rightarrow> 'a cpuRegisters_scheme" where
  "PMADDW s = PMADDW_lane 1 2 (PMADDW_lane 0 0 s)"

definition PSLLVW :: "'a cpuRegisters_scheme \<Rightarrow> 'a cpuRegisters_scheme" where
  "PSLLVW s =
     (if fRd s = 0 then s else
      let s = wUD (fRd s) 0 (scast (push_bit (unat (UL 0 (GPR s (fRs s)) AND 0x1F)) (UL 0 (GPR s (fRt s))))) s
      in wUD (fRd s) 1 (scast (push_bit (unat (UL 2 (GPR s (fRs s)) AND 0x1F)) (UL 2 (GPR s (fRt s))))) s)"

definition PSRLVW :: "'a cpuRegisters_scheme \<Rightarrow> 'a cpuRegisters_scheme" where
  "PSRLVW s =
     (if fRd s = 0 then s else
      let s = wUD (fRd s) 0 (scast (drop_bit (unat (UL 0 (GPR s (fRs s)) AND 0x1F)) (UL 0 (GPR s (fRt s))))) s
      in wUD (fRd s) 1 (scast (drop_bit (unat (UL 2 (GPR s (fRs s)) AND 0x1F)) (UL 2 (GPR s (fRt s))))) s)"

definition PMSUBW_lane :: "nat \<Rightarrow> nat \<Rightarrow> 'a cpuRegisters_scheme \<Rightarrow> 'a cpuRegisters_scheme" where
  "PMSUBW_lane dd ss s =
     (let temp = scast (UL ss (GPR s (fRs s))) * scast (UL ss (GPR s (fRt s))) :: u64;
          temp2 = push_bit 32 (scast (UL ss (HI s))) - temp;
          temp2 = scast (ucast (s64_div temp2 4294967295) :: u32) :: u64;
          s = wLO_UD dd (scast (UL ss (LO s) - (ucast (temp AND 0xffffffff) :: u32))) s;
          s = wHI_UD dd (scast (ucast temp2 :: u32)) s
      in if fRd s \<noteq> 0
         then wUL (fRd s) (dd * 2 + 1) (UL (dd * 2) (HI s)) (wUL (fRd s) (dd * 2) (UL (dd * 2) (LO s)) s)
         else s)"

definition PMSUBW :: "'a cpuRegisters_scheme \<Rightarrow> 'a cpuRegisters_scheme" where
  "PMSUBW s = PMSUBW_lane 1 2 (PMSUBW_lane 0 0 s)"

definition PMFHI :: "'a cpuRegisters_scheme \<Rightarrow> 'a cpuRegisters_scheme" where
  "PMFHI s =
     (if fRd s = 0 then s else wUD (fRd s) 1 (UD 1 (HI s)) (wUD (fRd s) 0 (UD 0 (HI s)) s))"

definition PMFLO :: "'a cpuRegisters_scheme \<Rightarrow> 'a cpuRegisters_scheme" where
  "PMFLO s =
     (if fRd s = 0 then s else wUD (fRd s) 1 (UD 1 (LO s)) (wUD (fRd s) 0 (UD 0 (LO s)) s))"

definition PINTH :: "'a cpuRegisters_scheme \<Rightarrow> 'a cpuRegisters_scheme" where
  "PINTH s =
     (if fRd s = 0 then s else
      let Rs = GPR s (fRs s); Rt = GPR s (fRt s) in wUSs (fRd s)
        [(0, US 0 Rt), (1, US 4 Rs), (2, US 1 Rt), (3, US 5 Rs),
         (4, US 2 Rt), (5, US 6 Rs), (6, US 3 Rt), (7, US 7 Rs)] s)"

definition PMULTW_lane :: "nat \<Rightarrow> nat \<Rightarrow> 'a cpuRegisters_scheme \<Rightarrow> 'a cpuRegisters_scheme" where
  "PMULTW_lane dd ss s =
     (let temp = scast (UL ss (GPR s (fRs s))) * scast (UL ss (GPR s (fRt s))) :: u64;
          s = wHI_UD dd (hi_half temp) (wLO_UD dd (lo_half temp) s)
      in if fRd s \<noteq> 0 then wUD (fRd s) dd temp s else s)"

definition PMULTW :: "'a cpuRegisters_scheme \<Rightarrow> 'a cpuRegisters_scheme" where
  "PMULTW s = PMULTW_lane 1 2 (PMULTW_lane 0 0 s)"

definition PDIVW_lane :: "nat \<Rightarrow> nat \<Rightarrow> 'a cpuRegisters_scheme \<Rightarrow> 'a cpuRegisters_scheme" where
  "PDIVW_lane dd ss s =
     (case div_signed (UL ss (GPR s (fRs s))) (UL ss (GPR s (fRt s))) of (q, r) \<Rightarrow> wHI_UD dd r (wLO_UD dd q s))"

definition PDIVW :: "'a cpuRegisters_scheme \<Rightarrow> 'a cpuRegisters_scheme" where
  "PDIVW s = PDIVW_lane 1 2 (PDIVW_lane 0 0 s)"

definition PCPYLD :: "'a cpuRegisters_scheme \<Rightarrow> 'a cpuRegisters_scheme" where
  "PCPYLD s =
     (if fRd s = 0 then s else
      let s = wUD (fRd s) 1 (UD 0 (GPR s (fRs s))) s in wUD (fRd s) 0 (UD 0 (GPR s (fRt s))) s)"

text \<open>The halfword multiplications name each assignment of the source \<open>PMADDH_LO i n\<close>
  (word \<open>i\<close> of LO from halfword \<open>n\<close>). The closing block of the halfword multiplications: the even words of LO and HI.\<close>

definition copy_even_words :: "'a cpuRegisters_scheme \<Rightarrow> 'a cpuRegisters_scheme" where
  "copy_even_words s =
     (if fRd s \<noteq> 0
      then wULs (fRd s) [(0, UL 0 (LO s)), (1, UL 0 (HI s)), (2, UL 2 (LO s)), (3, UL 2 (HI s))] s else s)"

definition PMADDH_LO :: "nat \<Rightarrow> nat \<Rightarrow> 'a cpuRegisters_scheme \<Rightarrow> 'a cpuRegisters_scheme" where
  "PMADDH_LO i n s = wLO_UL i (UL i (LO s) + scast (US n (GPR s (fRs s))) * scast (US n (GPR s (fRt s)))) s"

definition PMADDH_HI :: "nat \<Rightarrow> nat \<Rightarrow> 'a cpuRegisters_scheme \<Rightarrow> 'a cpuRegisters_scheme" where
  "PMADDH_HI i n s = wHI_UL i (UL i (HI s) + scast (US n (GPR s (fRs s))) * scast (US n (GPR s (fRt s)))) s"

definition PMADDH :: "'a cpuRegisters_scheme \<Rightarrow> 'a cpuRegisters_scheme" where
  "PMADDH s =
     copy_even_words
      (PMADDH_HI 3 7 (PMADDH_HI 2 6 (PMADDH_LO 3 5 (PMADDH_LO 2 4 (PMADDH_HI 1 3 (PMADDH_HI 0 2 (PMADDH_LO 1 1 (PMADDH_LO 0 0 s))))))))"

definition PHMADH_LO :: "nat \<Rightarrow> nat \<Rightarrow> 'a cpuRegisters_scheme \<Rightarrow> 'a cpuRegisters_scheme" where
  "PHMADH_LO dd n s =
     (let firsttemp = scast (US (n + 1) (GPR s (fRs s))) * scast (US (n + 1) (GPR s (fRt s))) :: u32;
          temp = firsttemp + scast (US n (GPR s (fRs s))) * scast (US n (GPR s (fRt s)))
      in wLO_UL (dd + 1) (firsttemp) (wLO_UL dd temp s))"

definition PHMADH_HI :: "nat \<Rightarrow> nat \<Rightarrow> 'a cpuRegisters_scheme \<Rightarrow> 'a cpuRegisters_scheme" where
  "PHMADH_HI dd n s =
     (let firsttemp = scast (US (n + 1) (GPR s (fRs s))) * scast (US (n + 1) (GPR s (fRt s))) :: u32;
          temp = firsttemp + scast (US n (GPR s (fRs s))) * scast (US n (GPR s (fRt s)))
      in wHI_UL (dd + 1) (firsttemp) (wHI_UL dd temp s))"

definition PHMADH :: "'a cpuRegisters_scheme \<Rightarrow> 'a cpuRegisters_scheme" where
  "PHMADH s = copy_even_words (PHMADH_HI 2 6 (PHMADH_LO 2 4 (PHMADH_HI 0 2 (PHMADH_LO 0 0 s))))"

definition PAND :: "'a cpuRegisters_scheme \<Rightarrow> 'a cpuRegisters_scheme" where
  "PAND s =
     (if fRd s = 0 then s else
      let s = wUD (fRd s) 0 (UD 0 (GPR s (fRs s)) AND UD 0 (GPR s (fRt s))) s
      in wUD (fRd s) 1 (UD 1 (GPR s (fRs s)) AND UD 1 (GPR s (fRt s))) s)"

definition PXOR :: "'a cpuRegisters_scheme \<Rightarrow> 'a cpuRegisters_scheme" where
  "PXOR s =
     (if fRd s = 0 then s else
      let s = wUD (fRd s) 0 (UD 0 (GPR s (fRs s)) XOR UD 0 (GPR s (fRt s))) s
      in wUD (fRd s) 1 (UD 1 (GPR s (fRs s)) XOR UD 1 (GPR s (fRt s))) s)"

definition PMSUBH_LO :: "nat \<Rightarrow> nat \<Rightarrow> 'a cpuRegisters_scheme \<Rightarrow> 'a cpuRegisters_scheme" where
  "PMSUBH_LO i n s = wLO_UL i (UL i (LO s) - scast (US n (GPR s (fRs s))) * scast (US n (GPR s (fRt s)))) s"

definition PMSUBH_HI :: "nat \<Rightarrow> nat \<Rightarrow> 'a cpuRegisters_scheme \<Rightarrow> 'a cpuRegisters_scheme" where
  "PMSUBH_HI i n s = wHI_UL i (UL i (HI s) - scast (US n (GPR s (fRs s))) * scast (US n (GPR s (fRt s)))) s"

definition PMSUBH :: "'a cpuRegisters_scheme \<Rightarrow> 'a cpuRegisters_scheme" where
  "PMSUBH s =
     copy_even_words
      (PMSUBH_HI 3 7 (PMSUBH_HI 2 6 (PMSUBH_LO 3 5 (PMSUBH_LO 2 4 (PMSUBH_HI 1 3 (PMSUBH_HI 0 2 (PMSUBH_LO 1 1 (PMSUBH_LO 0 0 s))))))))"

definition PHMSBH_LO :: "nat \<Rightarrow> nat \<Rightarrow> 'a cpuRegisters_scheme \<Rightarrow> 'a cpuRegisters_scheme" where
  "PHMSBH_LO dd n s =
     (let firsttemp = scast (US (n + 1) (GPR s (fRs s))) * scast (US (n + 1) (GPR s (fRt s))) :: u32;
          temp = firsttemp - scast (US n (GPR s (fRs s))) * scast (US n (GPR s (fRt s)))
      in wLO_UL (dd + 1) (NOT firsttemp) (wLO_UL dd temp s))"

definition PHMSBH_HI :: "nat \<Rightarrow> nat \<Rightarrow> 'a cpuRegisters_scheme \<Rightarrow> 'a cpuRegisters_scheme" where
  "PHMSBH_HI dd n s =
     (let firsttemp = scast (US (n + 1) (GPR s (fRs s))) * scast (US (n + 1) (GPR s (fRt s))) :: u32;
          temp = firsttemp - scast (US n (GPR s (fRs s))) * scast (US n (GPR s (fRt s)))
      in wHI_UL (dd + 1) (NOT firsttemp) (wHI_UL dd temp s))"

definition PHMSBH :: "'a cpuRegisters_scheme \<Rightarrow> 'a cpuRegisters_scheme" where
  "PHMSBH s = copy_even_words (PHMSBH_HI 2 6 (PHMSBH_LO 2 4 (PHMSBH_HI 0 2 (PHMSBH_LO 0 0 s))))"

definition PEXEH :: "'a cpuRegisters_scheme \<Rightarrow> 'a cpuRegisters_scheme" where
  "PEXEH s =
     (if fRd s = 0 then s else
      let Rt = GPR s (fRt s) in wUSs (fRd s)
        [(0, US 2 Rt), (1, US 1 Rt), (2, US 0 Rt), (3, US 3 Rt),
         (4, US 6 Rt), (5, US 5 Rt), (6, US 4 Rt), (7, US 7 Rt)] s)"

definition PREVH :: "'a cpuRegisters_scheme \<Rightarrow> 'a cpuRegisters_scheme" where
  "PREVH s =
     (if fRd s = 0 then s else
      let Rt = GPR s (fRt s) in wUSs (fRd s)
        [(0, US 3 Rt), (1, US 2 Rt), (2, US 1 Rt), (3, US 0 Rt),
         (4, US 7 Rt), (5, US 6 Rt), (6, US 5 Rt), (7, US 4 Rt)] s)"

definition PMULTH_LO :: "nat \<Rightarrow> nat \<Rightarrow> 'a cpuRegisters_scheme \<Rightarrow> 'a cpuRegisters_scheme" where
  "PMULTH_LO i n s = wLO_UL i (scast (US n (GPR s (fRs s))) * scast (US n (GPR s (fRt s)))) s"

definition PMULTH_HI :: "nat \<Rightarrow> nat \<Rightarrow> 'a cpuRegisters_scheme \<Rightarrow> 'a cpuRegisters_scheme" where
  "PMULTH_HI i n s = wHI_UL i (scast (US n (GPR s (fRs s))) * scast (US n (GPR s (fRt s)))) s"

definition PMULTH :: "'a cpuRegisters_scheme \<Rightarrow> 'a cpuRegisters_scheme" where
  "PMULTH s =
     copy_even_words
      (PMULTH_HI 3 7 (PMULTH_HI 2 6 (PMULTH_LO 3 5 (PMULTH_LO 2 4 (PMULTH_HI 1 3 (PMULTH_HI 0 2 (PMULTH_LO 1 1 (PMULTH_LO 0 0 s))))))))"

definition PDIVBW_lane :: "nat \<Rightarrow> 'a cpuRegisters_scheme \<Rightarrow> 'a cpuRegisters_scheme" where
  "PDIVBW_lane n s =
     (if UL n (GPR s (fRs s)) = 0x80000000 \<and> US 0 (GPR s (fRt s)) = 0xffff
      then wHI_UL n 0 (wLO_UL n 0x80000000 s)
      else if US 0 (GPR s (fRt s)) \<noteq> 0
      then let s = wLO_UL n (s32_div (UL n (GPR s (fRs s))) (scast (US 0 (GPR s (fRt s))))) s
           in wHI_UL n (s32_mod (UL n (GPR s (fRs s))) (scast (US 0 (GPR s (fRt s))))) s
      else wHI_UL n (UL n (GPR s (fRs s))) (wLO_UL n (if UL n (GPR s (fRs s)) <s 0 then 1 else - 1) s))"

definition PDIVBW :: "'a cpuRegisters_scheme \<Rightarrow> 'a cpuRegisters_scheme" where
  "PDIVBW s = fold PDIVBW_lane [0, 1, 2, 3] s"

definition PEXEW :: "'a cpuRegisters_scheme \<Rightarrow> 'a cpuRegisters_scheme" where
  "PEXEW s =
     (if fRd s = 0 then s else
      let Rt = GPR s (fRt s) in wULs (fRd s)
        [(0, UL 2 Rt), (1, UL 1 Rt), (2, UL 0 Rt), (3, UL 3 Rt)] s)"

definition PROT3W :: "'a cpuRegisters_scheme \<Rightarrow> 'a cpuRegisters_scheme" where
  "PROT3W s =
     (if fRd s = 0 then s else
      let Rt = GPR s (fRt s) in wULs (fRd s)
        [(0, UL 1 Rt), (1, UL 2 Rt), (2, UL 0 Rt), (3, UL 3 Rt)] s)"

section \<open>MMI3\<close>

definition PMADDUW_lane :: "nat \<Rightarrow> nat \<Rightarrow> 'a cpuRegisters_scheme \<Rightarrow> 'a cpuRegisters_scheme" where
  "PMADDUW_lane dd ss s =
     (let tempu = (ucast (UL ss (LO s)) OR push_bit 32 (ucast (UL ss (HI s)))) +
            ucast (UL ss (GPR s (fRs s))) * ucast (UL ss (GPR s (fRt s))) :: u64;
          s = wHI_UD dd (hi_half tempu) (wLO_UD dd (lo_half tempu) s)
      in if fRd s \<noteq> 0 then wUD (fRd s) dd tempu s else s)"

definition PMADDUW :: "'a cpuRegisters_scheme \<Rightarrow> 'a cpuRegisters_scheme" where
  "PMADDUW s = PMADDUW_lane 1 2 (PMADDUW_lane 0 0 s)"

definition PSRAVW :: "'a cpuRegisters_scheme \<Rightarrow> 'a cpuRegisters_scheme" where
  "PSRAVW s =
     (if fRd s = 0 then s else
      let s = wUD (fRd s) 0 (scast (signed_drop_bit (unat (UL 0 (GPR s (fRs s)) AND 0x1F)) (UL 0 (GPR s (fRt s))))) s
      in wUD (fRd s) 1 (scast (signed_drop_bit (unat (UL 2 (GPR s (fRs s)) AND 0x1F)) (UL 2 (GPR s (fRt s))))) s)"

definition PMTHI :: "'a cpuRegisters_scheme \<Rightarrow> 'a cpuRegisters_scheme" where
  "PMTHI s =
     wHI_UD 1 (UD 1 (GPR s (fRs s))) (wHI_UD 0 (UD 0 (GPR s (fRs s))) s)"

definition PMTLO :: "'a cpuRegisters_scheme \<Rightarrow> 'a cpuRegisters_scheme" where
  "PMTLO s =
     wLO_UD 1 (UD 1 (GPR s (fRs s))) (wLO_UD 0 (UD 0 (GPR s (fRs s))) s)"

definition PINTEH :: "'a cpuRegisters_scheme \<Rightarrow> 'a cpuRegisters_scheme" where
  "PINTEH s =
     (if fRd s = 0 then s else
      let Rs = GPR s (fRs s); Rt = GPR s (fRt s) in wUSs (fRd s)
        [(0, US 0 Rt), (1, US 0 Rs), (2, US 2 Rt), (3, US 2 Rs),
         (4, US 4 Rt), (5, US 4 Rs), (6, US 6 Rt), (7, US 6 Rs)] s)"

definition PMULTUW_lane :: "nat \<Rightarrow> nat \<Rightarrow> 'a cpuRegisters_scheme \<Rightarrow> 'a cpuRegisters_scheme" where
  "PMULTUW_lane dd ss s =
     (let tempu = ucast (UL ss (GPR s (fRs s))) * ucast (UL ss (GPR s (fRt s))) :: u64;
          s = wHI_UD dd (hi_half tempu) (wLO_UD dd (lo_half tempu) s)
      in if fRd s \<noteq> 0 then wUD (fRd s) dd tempu s else s)"

definition PMULTUW :: "'a cpuRegisters_scheme \<Rightarrow> 'a cpuRegisters_scheme" where
  "PMULTUW s = PMULTUW_lane 1 2 (PMULTUW_lane 0 0 s)"

definition PDIVUW_lane :: "nat \<Rightarrow> nat \<Rightarrow> 'a cpuRegisters_scheme \<Rightarrow> 'a cpuRegisters_scheme" where
  "PDIVUW_lane dd ss s =
     (case div_unsigned (UL ss (GPR s (fRs s))) (UL ss (GPR s (fRt s))) of (q, r) \<Rightarrow> wHI_UD dd r (wLO_UD dd q s))"

definition PDIVUW :: "'a cpuRegisters_scheme \<Rightarrow> 'a cpuRegisters_scheme" where
  "PDIVUW s = PDIVUW_lane 1 2 (PDIVUW_lane 0 0 s)"

definition PCPYUD :: "'a cpuRegisters_scheme \<Rightarrow> 'a cpuRegisters_scheme" where
  "PCPYUD s =
     (if fRd s = 0 then s else
      let s = wUD (fRd s) 0 (UD 1 (GPR s (fRs s))) s in wUD (fRd s) 1 (UD 1 (GPR s (fRt s))) s)"

definition POR :: "'a cpuRegisters_scheme \<Rightarrow> 'a cpuRegisters_scheme" where
  "POR s =
     (if fRd s = 0 then s else
      let s = wUD (fRd s) 0 (UD 0 (GPR s (fRs s)) OR UD 0 (GPR s (fRt s))) s
      in wUD (fRd s) 1 (UD 1 (GPR s (fRs s)) OR UD 1 (GPR s (fRt s))) s)"

definition PNOR :: "'a cpuRegisters_scheme \<Rightarrow> 'a cpuRegisters_scheme" where
  "PNOR s =
     (if fRd s = 0 then s else
      let s = wUD (fRd s) 0 (NOT (UD 0 (GPR s (fRs s)) OR UD 0 (GPR s (fRt s)))) s
      in wUD (fRd s) 1 (NOT (UD 1 (GPR s (fRs s)) OR UD 1 (GPR s (fRt s)))) s)"

definition PEXCH :: "'a cpuRegisters_scheme \<Rightarrow> 'a cpuRegisters_scheme" where
  "PEXCH s =
     (if fRd s = 0 then s else
      let Rt = GPR s (fRt s) in wUSs (fRd s)
        [(0, US 0 Rt), (1, US 2 Rt), (2, US 1 Rt), (3, US 3 Rt),
         (4, US 4 Rt), (5, US 6 Rt), (6, US 5 Rt), (7, US 7 Rt)] s)"

definition PCPYH :: "'a cpuRegisters_scheme \<Rightarrow> 'a cpuRegisters_scheme" where
  "PCPYH s =
     (if fRd s = 0 then s else
      let Rt = GPR s (fRt s) in wUSs (fRd s)
        [(0, US 0 Rt), (1, US 0 Rt), (2, US 0 Rt), (3, US 0 Rt),
         (4, US 4 Rt), (5, US 4 Rt), (6, US 4 Rt), (7, US 4 Rt)] s)"

definition PEXCW :: "'a cpuRegisters_scheme \<Rightarrow> 'a cpuRegisters_scheme" where
  "PEXCW s =
     (if fRd s = 0 then s else
      let Rt = GPR s (fRt s) in wULs (fRd s)
        [(0, UL 0 Rt), (1, UL 2 Rt), (2, UL 1 Rt), (3, UL 3 Rt)] s)"

section \<open>Saturation tests of the source\<close>

lemma clamp64:
  "(if 0x7FFFFFFF <s (t :: u64) then 0x7FFFFFFF
    else if t <s scast (0x80000000 :: u32) then 0x80000000 else ucast t) = (sat_s (sint t) :: u32)"
  "(if 0x7FFFFFFF \<le>s (t :: u64) then 0x7FFFFFFF
    else if t <s scast (0x80000000 :: u32) then 0x80000000 else ucast t) = (sat_s (sint t) :: u32)"
  by (auto simp: word_sless_alt word_sle_eq sat_s_def max_def min_def ucast_eq_sint)

lemma clamp32:
  "(if 0x7FFF <s (t :: u32) then 0x7FFF else if t <s 0xFFFF8000 then 0x8000 else ucast t) = (sat_s (sint t) :: u16)"
  "(if 0x7FFF \<le>s (t :: u32) then 0x7FFF else if t <s 0xFFFF8000 then 0x8000 else ucast t) = (sat_s (sint t) :: u16)"
  by (auto simp: word_sless_alt word_sle_eq sat_s_def max_def min_def ucast_eq_sint)

lemma clamp16:
  "(if 0x7F <s (t :: u16) then 0x7F else if t <s - 128 then 0x80 else ucast t) = (sat_s (sint t) :: u8)"
  "(if 0x7F \<le>s (t :: u16) then 0x7F else if t <s - 128 then 0x80 else ucast t) = (sat_s (sint t) :: u8)"
  by (auto simp: word_sless_alt word_sle_eq sat_s_def max_def min_def ucast_eq_sint)

lemmas clamp_signed = clamp64 clamp32 clamp16
  sint_wide [where 'a = 32 and 'b = 64, simplified] sint_wide [where 'a = 16 and 'b = 32, simplified]
  sint_wide [where 'a = 8 and 'b = 16, simplified]

section \<open>Vector instructions as simultaneous operations\<close>

text \<open>
  The interface of a lane helper: it changes one lane of the destination register to a function of
  the same lane of the two sources (and of the instruction word, for shift amounts). The laws of
  \<open>lane_view\<close> then give the effect of the whole instruction, destination aliasing included.
\<close>

locale vec_op = lane_view get put n
  for get :: "nat \<Rightarrow> u128 \<Rightarrow> 'l::len word" and put :: "nat \<Rightarrow> 'l word \<Rightarrow> u128 \<Rightarrow> u128" and n :: nat +
  fixes f :: "u32 \<Rightarrow> 'l word \<Rightarrow> 'l word \<Rightarrow> 'l word"
    and F :: "nat \<Rightarrow> 'a cpuRegisters_scheme \<Rightarrow> 'a cpuRegisters_scheme"
  assumes step: "F i s = wGPR (fRd s) (put i (f (code s) (get i (GPR s (fRs s))) (get i (GPR s (fRt s)))) (GPR s (fRd s))) s"
begin

lemma step_GPR: "F i s = s\<lparr>GPR := lane_step (f (code s)) (fRd s) (fRs s) (fRt s) i (GPR s)\<rparr>"
  by (simp add: step lane_step_def wGPR_def)

lemma fold_GPR:
  "fold F ks s = s\<lparr>GPR := fold (lane_step (f (code s)) (fRd s) (fRs s) (fRt s)) ks (GPR s)\<rparr>"
proof (induction ks arbitrary: s)
  case (Cons k ks)
  let ?s = "s\<lparr>GPR := lane_step (f (code s)) (fRd s) (fRs s) (fRt s) k (GPR s)\<rparr>"
  have c: "code ?s = code s" by simp
  have "fold F (k # ks) s = fold F ks ?s" by (simp only: fold_simps step_GPR)
  also have "\<dots> = ?s\<lparr>GPR := fold (lane_step (f (code ?s)) (fRd ?s) (fRs ?s) (fRt ?s)) ks (GPR ?s)\<rparr>" by (rule Cons)
  finally show ?case by (simp only: fields_cong [OF c] c) simp
qed simp

lemma fold_frame:
  assumes "fRd s \<noteq> 0" "distinct ks" "set ks \<subseteq> {..<n}"
  shows "GPR (fold F ks s) 0 = GPR s 0" and "cpuRegisters.more (fold F ks s) = cpuRegisters.more s"
  using assms by (simp_all add: fold_GPR fold_lane_step_other)

text \<open>The whole loop, in place, gives the register the simultaneous operation would give.\<close>

lemma whole:
  assumes ks: "distinct ks" "set ks = {..<n}"
    and v: "\<And>j. j < n \<Longrightarrow> get j v = f (code s) (get j (GPR s (fRs s))) (get j (GPR s (fRt s)))"
  shows "fold F ks s = wGPR (fRd s) v s"
proof -
  have "fold (lane_step (f (code s)) (fRd s) (fRs s) (fRt s)) ks (GPR s) = (GPR s)(fRd s := v)"
  proof
    fix r
    show "fold (lane_step (f (code s)) (fRd s) (fRs s) (fRt s)) ks (GPR s) r = ((GPR s)(fRd s := v)) r"
      by (rule ext) (use ks v in \<open>simp add: fold_lane_step_get\<close>)
  qed
  then show ?thesis by (simp add: fold_GPR wGPR_def)
qed

end

definition vmapUL :: "(u32 \<Rightarrow> u32 \<Rightarrow> u32) \<Rightarrow> u128 \<Rightarrow> u128 \<Rightarrow> u128" where
  "vmapUL f a b = fold (\<lambda>i. setUL i (f (UL i a) (UL i b))) [0..<4] 0"

definition vmapUS :: "(u16 \<Rightarrow> u16 \<Rightarrow> u16) \<Rightarrow> u128 \<Rightarrow> u128 \<Rightarrow> u128" where
  "vmapUS f a b = fold (\<lambda>i. setUS i (f (US i a) (US i b))) [0..<8] 0"

definition vmapUC :: "(u8 \<Rightarrow> u8 \<Rightarrow> u8) \<Rightarrow> u128 \<Rightarrow> u128 \<Rightarrow> u128" where
  "vmapUC f a b = fold (\<lambda>i. setUC i (f (UC i a) (UC i b))) [0..<16] 0"

lemma UL_vmapUL: "i < 4 \<Longrightarrow> UL i (vmapUL f a b) = f (UL i a) (UL i b)"
  unfolding vmapUL_def by (subst ul.fold_put) auto

lemma US_vmapUS: "i < 8 \<Longrightarrow> US i (vmapUS f a b) = f (US i a) (US i b)"
  unfolding vmapUS_def by (subst us.fold_put) auto

lemma UC_vmapUC: "i < 16 \<Longrightarrow> UC i (vmapUC f a b) = f (UC i a) (UC i b)"
  unfolding vmapUC_def by (subst uc.fold_put) auto

lemma lanes_4: "distinct [0, 1, 2, 3 :: nat]" "set [0, 1, 2, 3] = {..<4 :: nat}" by auto
lemma lanes_8: "distinct [0, 1, 2, 3, 4, 5, 6, 7 :: nat]" "set [0, 1, 2, 3, 4, 5, 6, 7] = {..<8 :: nat}" by auto
lemma lanes_16: "distinct [0..<16]" "set [0..<16] = {..<16}" by auto

locale vec_UL =
  fixes f :: "u32 \<Rightarrow> u32 \<Rightarrow> u32 \<Rightarrow> u32" and F :: "nat \<Rightarrow> 'a cpuRegisters_scheme \<Rightarrow> 'a cpuRegisters_scheme"
  assumes lane_law: "F i s = wUL (fRd s) i (f (code s) (UL i (GPR s (fRs s))) (UL i (GPR s (fRt s)))) s"

sublocale vec_UL \<subseteq> vec_op UL setUL 4 f F
  by unfold_locales (simp add: lane_law wUL_def)

context vec_UL
begin

lemma result: "fold F [0, 1, 2, 3] s = wGPR (fRd s) (vmapUL (f (code s)) (GPR s (fRs s)) (GPR s (fRt s))) s"
  by (rule whole [OF lanes_4]) (simp add: UL_vmapUL)

end

locale vec_US =
  fixes f :: "u32 \<Rightarrow> u16 \<Rightarrow> u16 \<Rightarrow> u16" and F :: "nat \<Rightarrow> 'a cpuRegisters_scheme \<Rightarrow> 'a cpuRegisters_scheme"
  assumes lane_law: "F i s = wUS (fRd s) i (f (code s) (US i (GPR s (fRs s))) (US i (GPR s (fRt s)))) s"

sublocale vec_US \<subseteq> vec_op US setUS 8 f F
  by unfold_locales (simp add: lane_law wUS_def)

context vec_US
begin

lemma result:
  "fold F [0, 1, 2, 3, 4, 5, 6, 7] s = wGPR (fRd s) (vmapUS (f (code s)) (GPR s (fRs s)) (GPR s (fRt s))) s"
  by (rule whole [OF lanes_8]) (simp add: US_vmapUS)

end

locale vec_UC =
  fixes f :: "u32 \<Rightarrow> u8 \<Rightarrow> u8 \<Rightarrow> u8" and F :: "nat \<Rightarrow> 'a cpuRegisters_scheme \<Rightarrow> 'a cpuRegisters_scheme"
  assumes lane_law: "F i s = wUC (fRd s) i (f (code s) (UC i (GPR s (fRs s))) (UC i (GPR s (fRt s)))) s"

sublocale vec_UC \<subseteq> vec_op UC setUC 16 f F
  by unfold_locales (simp add: lane_law wUC_def)

context vec_UC
begin

lemma result: "fold F [0..<16] s = wGPR (fRd s) (vmapUC (f (code s)) (GPR s (fRs s)) (GPR s (fRt s))) s"
  by (rule whole [OF lanes_16]) (simp add: UC_vmapUC)

end

definition code_sa :: "u32 \<Rightarrow> nat" where
  "code_sa c = unat (drop_bit 6 c AND 0x1F)"

lemma fSa_code: "fSa s = code_sa (code s)"
  by (simp add: fSa_def code_sa_def)

lemma unat_and_15: "k < 32 \<Longrightarrow> unat (of_nat k AND 0xf :: u32) = k mod 16"
proof -
  assume "k < 32"
  have "(0xf :: u32) = mask 4" by (simp add: mask_eq_exp_minus_1)
  then have "unat (of_nat k AND 0xf :: u32) = take_bit 4 (unat (of_nat k :: u32))"
    by (simp only: take_bit_eq_mask [symmetric] unsigned_take_bit_eq)
  also have "\<dots> = k mod 16" using \<open>k < 32\<close> by (simp add: take_bit_eq_mod unat_of_nat)
  finally show ?thesis .
qed

lemma if_write:
  "(if P then wUL r n x s else wUL r n y s) = wUL r n (if P then x else y) s"
  "(if P then wUS r n u s else wUS r n v s) = wUS r n (if P then u else v) s"
  "(if P then wUC r n i s else wUC r n j s) = wUC r n (if P then i else j) s"
  by simp_all

lemma signed_max: "(if (b :: 'a::len word) <s a then a else b) = word_of_int (max (sint a) (sint b))"
  by (simp add: word_sless_alt max_def)

lemma signed_min: "(if (a :: 'a::len word) <s b then a else b) = word_of_int (min (sint a) (sint b))"
  by (simp add: word_sless_alt min_def)

lemma abs_sat:
  fixes b :: "'a::len word"
  assumes "sint m = - (2 ^ (LENGTH('a) - 1))" "M = word_of_int (2 ^ (LENGTH('a) - 1) - 1)"
  shows "(if b = m then M else if b <s 0 then - b else b) = sat_s \<bar>sint b\<bar>"
proof (cases "b = m")
  case True
  then show ?thesis using assms by (auto simp: sat_s_def)
next
  case False
  then have "sint b \<noteq> sint m" using signed_word_eqI by blast
  with fits_sint [of b] assms have "fits LENGTH('a) \<bar>sint b\<bar>" by (auto simp: fits_def)
  with False show ?thesis by (simp add: sat_s_fits word_sless_alt abs_if)
qed

lemma abs_clamp:
  "(if (b :: u32) = 0x80000000 then 0x7fffffff else if b <s 0 then - b else b) = sat_s \<bar>sint b\<bar>"
  "(if (c :: u16) = 0x8000 then 0x7fff else if c <s 0 then - c else c) = sat_s \<bar>sint c\<bar>"
  by (rule abs_sat; simp)+

lemma uint_lt2p_sub: "uint (a :: 'a::len word) - uint (b :: 'a word) < 2 ^ LENGTH('a)"
  using uint_lt2p [of a] uint_ge_0 [of b] by linarith

lemma usub_clamp:
  fixes a b :: "'a::len word"
  assumes "Suc LENGTH('a) < LENGTH('b::len)"
  shows "(if (ucast a - ucast b :: 'b word) \<le>s 0 then 0 else ucast (ucast a - ucast b :: 'b word)) =
    (sat_u (uint a - uint b) :: 'a word)"
proof -
  have "(ucast (ucast a - ucast b :: 'b word) :: 'a word) = word_of_int (sint (ucast a - ucast b :: 'b word))"
    by (rule ucast_eq_sint) (use assms in simp)
  then have "(ucast (ucast a - ucast b :: 'b word) :: 'a word) = word_of_int (uint a - uint b)"
    by (simp only: uint_wide [OF assms])
  moreover have "(ucast a - ucast b :: 'b word) \<le>s 0 \<longleftrightarrow> uint a - uint b \<le> 0"
    using uint_wide [OF assms] by (simp add: word_sle_eq)
  ultimately show ?thesis using uint_lt2p_sub [of a b]
    by (cases "uint a - uint b \<le> 0") (simp_all add: sat_u_neg sat_u_range del: of_int_diff)
qed

lemma uadd_clamp:
  fixes a b :: "'a::len word" and t :: "'b::len word"
  assumes "Suc LENGTH('a) < LENGTH('b)"
  defines "t \<equiv> ucast a + ucast b"
  assumes P: "P \<longleftrightarrow> 2 ^ LENGTH('a) - 1 < sint t"
  assumes M: "M = (- 1 :: 'a word)"
  shows "(if P then M else ucast t) = (sat_u (uint a + uint b) :: 'a word)"
proof -
  have "sint t = uint a + uint b" using uint_wide [OF assms(1)] by (simp add: t_def)
  moreover have "(ucast t :: 'a word) = word_of_int (sint t)" using assms(1) by (simp add: ucast_eq_sint)
  moreover have "0 \<le> uint a + uint b" by simp
  ultimately show ?thesis unfolding P M by (auto simp: sat_u_def max_def min_def)
qed

lemma uadd_clamp_64:
  fixes a b :: u32
  shows "(if 0xffffffff <s (ucast a + ucast b :: u64) then 0xffffffff else ucast (ucast a + ucast b :: u64)) =
    (sat_u (uint a + uint b) :: u32)"
  by (rule uadd_clamp) (simp_all add: word_sless_alt)

lemma uadd_clamp_32:
  fixes a b :: u16
  shows "(if 0xFFFF <s (ucast a + ucast b :: u32) then 0xFFFF else ucast (ucast a + ucast b :: u32)) =
    (sat_u (uint a + uint b) :: u16)"
  by (rule uadd_clamp) (simp_all add: word_sless_alt)

lemma uadd_clamp_16:
  fixes a b :: u8
  shows "(if 0xFF < (ucast a + ucast b :: u16) then 0xFF else ucast (ucast a + ucast b :: u16)) =
    (sat_u (uint a + uint b) :: u8)"
proof -
  have "uint a < 256" "uint b < 256" using uint_lt2p [of a] uint_lt2p [of b] by simp_all
  then have "uint a + uint b < 65536" by linarith
  then have "uint (ucast a + ucast b :: u16) = uint a + uint b"
    by (simp add: uint_word_arith_bintrs unsigned_ucast_eq take_bit_add take_bit_int_eq_self)
  then have "0xFF < (ucast a + ucast b :: u16) \<longleftrightarrow> 2 ^ LENGTH(8) - 1 < sint (ucast a + ucast b :: u16)"
    using uint_wide(1) [of a b, where 'b = 16] by (simp add: word_less_alt)
  then show ?thesis by (intro uadd_clamp) simp_all
qed

lemmas clamp_unsigned = uadd_clamp_64 uadd_clamp_32 uadd_clamp_16
  usub_clamp [where 'a = 32 and 'b = 64, simplified] usub_clamp [where 'a = 16 and 'b = 32, simplified]
  usub_clamp [where 'a = 8 and 'b = 16, simplified]

lemma code_sa_less: "code_sa (code s) < 32"
  using fSa_less [of s] by (simp add: fSa_code)

interpretation PSLLH: vec_US "\<lambda>c a b. push_bit (code_sa c mod 16) b" PSLLH_lane
  by unfold_locales (simp add: PSLLH_lane_def fSa_code unat_and_15 code_sa_less)
interpretation PSRLH: vec_US "\<lambda>c a b. drop_bit (code_sa c mod 16) b" PSRLH_lane
  by unfold_locales (simp add: PSRLH_lane_def fSa_code unat_and_15 code_sa_less)
interpretation PSRAH: vec_US "\<lambda>c a b. signed_drop_bit (code_sa c mod 16) b" PSRAH_lane
  by unfold_locales (simp add: PSRAH_lane_def fSa_code unat_and_15 code_sa_less)
interpretation PSLLW: vec_UL "\<lambda>c a b. push_bit (code_sa c) b" PSLLW_lane
  by unfold_locales (simp add: PSLLW_lane_def fSa_code)
interpretation PSRLW: vec_UL "\<lambda>c a b. drop_bit (code_sa c) b" PSRLW_lane
  by unfold_locales (simp add: PSRLW_lane_def fSa_code)
interpretation PSRAW: vec_UL "\<lambda>c a b. signed_drop_bit (code_sa c) b" PSRAW_lane
  by unfold_locales (simp add: PSRAW_lane_def fSa_code)
interpretation PADDW: vec_UL "\<lambda>c a b. a + b" PADDW_lane
  by unfold_locales (simp add: PADDW_lane_def)
interpretation PSUBW: vec_UL "\<lambda>c a b. a - b" PSUBW_lane
  by unfold_locales (simp add: PSUBW_lane_def)
interpretation PCGTW: vec_UL "\<lambda>c a b. if b <s a then 0xFFFFFFFF else 0" PCGTW_lane
  by unfold_locales (simp add: PCGTW_lane_def)
interpretation PMAXW: vec_UL "\<lambda>c a b. word_of_int (max (sint a) (sint b))" PMAXW_lane
  by unfold_locales (simp only: PMAXW_lane_def if_write signed_max)
interpretation PADDH: vec_US "\<lambda>c a b. a + b" PADDH_lane
  by unfold_locales (simp add: PADDH_lane_def)
interpretation PSUBH: vec_US "\<lambda>c a b. a - b" PSUBH_lane
  by unfold_locales (simp add: PSUBH_lane_def)
interpretation PCGTH: vec_US "\<lambda>c a b. if b <s a then 0xFFFF else 0" PCGTH_lane
  by unfold_locales (simp add: PCGTH_lane_def)
interpretation PMAXH: vec_US "\<lambda>c a b. word_of_int (max (sint a) (sint b))" PMAXH_lane
  by unfold_locales (simp only: PMAXH_lane_def if_write signed_max)
interpretation PADDB: vec_UC "\<lambda>c a b. a + b" PADDB_lane
  by unfold_locales (simp add: PADDB_lane_def)
interpretation PSUBB: vec_UC "\<lambda>c a b. a - b" PSUBB_lane
  by unfold_locales (simp add: PSUBB_lane_def)
interpretation PCGTB: vec_UC "\<lambda>c a b. if b <s a then 0xFF else 0" PCGTB_lane
  by unfold_locales (simp add: PCGTB_lane_def)
interpretation PADDSW: vec_UL "\<lambda>c a b. sat_s (sint a + sint b)" PADDSW_lane
  by unfold_locales (simp only: PADDSW_lane_def Let_def if_write clamp_signed)
interpretation PSUBSW: vec_UL "\<lambda>c a b. sat_s (sint a - sint b)" PSUBSW_lane
  by unfold_locales (simp only: PSUBSW_lane_def Let_def if_write clamp_signed)
interpretation PADDSH: vec_US "\<lambda>c a b. sat_s (sint a + sint b)" PADDSH_lane
  by unfold_locales (simp only: PADDSH_lane_def Let_def if_write clamp_signed)
interpretation PSUBSH: vec_US "\<lambda>c a b. sat_s (sint a - sint b)" PSUBSH_lane
  by unfold_locales (simp only: PSUBSH_lane_def Let_def if_write clamp_signed)
interpretation PADDSB: vec_UC "\<lambda>c a b. sat_s (sint a + sint b)" PADDSB_lane
  by unfold_locales (simp only: PADDSB_lane_def Let_def if_write clamp_signed)
interpretation PSUBSB: vec_UC "\<lambda>c a b. sat_s (sint a - sint b)" PSUBSB_lane
  by unfold_locales (simp only: PSUBSB_lane_def Let_def if_write clamp_signed)
interpretation PEXT5: vec_UL "\<lambda>c a b. push_bit 3 (b AND 0x0000001F) OR push_bit 6 (b AND 0x000003E0) OR push_bit 9 (b AND 0x00007C00) OR push_bit 16 (b AND 0x00008000)" PEXT5_lane
  by unfold_locales (simp add: PEXT5_lane_def)
interpretation PPAC5: vec_UL "\<lambda>c a b. (drop_bit 3 b AND 0x0000001F) OR (drop_bit 6 b AND 0x000003E0) OR (drop_bit 9 b AND 0x00007C00) OR (drop_bit 16 b AND 0x00008000)" PPAC5_lane
  by unfold_locales (simp add: PPAC5_lane_def)
interpretation PABSW: vec_UL "\<lambda>c a b. sat_s \<bar>sint b\<bar>" PABSW_lane
  by unfold_locales (simp only: PABSW_lane_def if_write abs_clamp)
interpretation PCEQW: vec_UL "\<lambda>c a b. if a = b then 0xFFFFFFFF else 0" PCEQW_lane
  by unfold_locales (simp add: PCEQW_lane_def)
interpretation PMINW: vec_UL "\<lambda>c a b. word_of_int (min (sint a) (sint b))" PMINW_lane
  by unfold_locales (simp only: PMINW_lane_def if_write signed_min)
interpretation PABSH: vec_US "\<lambda>c a b. sat_s \<bar>sint b\<bar>" PABSH_lane
  by unfold_locales (simp only: PABSH_lane_def if_write abs_clamp)
interpretation PCEQH: vec_US "\<lambda>c a b. if a = b then 0xFFFF else 0" PCEQH_lane
  by unfold_locales (simp add: PCEQH_lane_def)
interpretation PMINH: vec_US "\<lambda>c a b. word_of_int (min (sint a) (sint b))" PMINH_lane
  by unfold_locales (simp only: PMINH_lane_def if_write signed_min)
interpretation PCEQB: vec_UC "\<lambda>c a b. if a = b then 0xFF else 0" PCEQB_lane
  by unfold_locales (simp add: PCEQB_lane_def)
interpretation PADDUW: vec_UL "\<lambda>c a b. sat_u (uint a + uint b)" PADDUW_lane
  by unfold_locales (simp only: PADDUW_lane_def Let_def if_write clamp_unsigned)
interpretation PSUBUW: vec_UL "\<lambda>c a b. sat_u (uint a - uint b)" PSUBUW_lane
  by unfold_locales (simp only: PSUBUW_lane_def Let_def if_write clamp_unsigned)
interpretation PADDUH: vec_US "\<lambda>c a b. sat_u (uint a + uint b)" PADDUH_lane
  by unfold_locales (simp only: PADDUH_lane_def Let_def if_write clamp_unsigned)
interpretation PSUBUH: vec_US "\<lambda>c a b. sat_u (uint a - uint b)" PSUBUH_lane
  by unfold_locales (simp only: PSUBUH_lane_def Let_def if_write clamp_unsigned)
interpretation PADDUB: vec_UC "\<lambda>c a b. sat_u (uint a + uint b)" PADDUB_lane
  by unfold_locales (simp only: PADDUB_lane_def Let_def if_write clamp_unsigned)
interpretation PSUBUB: vec_UC "\<lambda>c a b. sat_u (uint a - uint b)" PSUBUB_lane
  by unfold_locales (simp only: PSUBUB_lane_def Let_def if_write clamp_unsigned)

text \<open>A vector instruction as the simultaneous application of one function to all lanes.\<close>

definition vecUL :: "(u32 \<Rightarrow> u32 \<Rightarrow> u32) \<Rightarrow> 'a cpuRegisters_scheme \<Rightarrow> 'a cpuRegisters_scheme" where
  "vecUL f s = (if fRd s = 0 then s else wGPR (fRd s) (vmapUL f (GPR s (fRs s)) (GPR s (fRt s))) s)"

definition vecUS :: "(u16 \<Rightarrow> u16 \<Rightarrow> u16) \<Rightarrow> 'a cpuRegisters_scheme \<Rightarrow> 'a cpuRegisters_scheme" where
  "vecUS f s = (if fRd s = 0 then s else wGPR (fRd s) (vmapUS f (GPR s (fRs s)) (GPR s (fRt s))) s)"

definition vecUC :: "(u8 \<Rightarrow> u8 \<Rightarrow> u8) \<Rightarrow> 'a cpuRegisters_scheme \<Rightarrow> 'a cpuRegisters_scheme" where
  "vecUC f s = (if fRd s = 0 then s else wGPR (fRd s) (vmapUC f (GPR s (fRs s)) (GPR s (fRt s))) s)"

lemmas vec_defs = vecUL_def vecUS_def vecUC_def

text \<open>
  C31: the lane-wise instructions that wrap, compare, select or shift are the simultaneous
  application of one function to all lanes of the two source registers, also when the destination
  register is one of the sources: the lane-by-lane update in place never reads a lane it has
  already overwritten.
\<close>
theorem vector_elementwise:
  "PSLLH s = vecUS (\<lambda>a b. push_bit (fSa s mod 16) b) s \<and>
   PSRLH s = vecUS (\<lambda>a b. drop_bit (fSa s mod 16) b) s \<and>
   PSRAH s = vecUS (\<lambda>a b. signed_drop_bit (fSa s mod 16) b) s \<and>
   PSLLW s = vecUL (\<lambda>a b. push_bit (fSa s) b) s \<and>
   PSRLW s = vecUL (\<lambda>a b. drop_bit (fSa s) b) s \<and>
   PSRAW s = vecUL (\<lambda>a b. signed_drop_bit (fSa s) b) s \<and>
   PADDW s = vecUL (\<lambda>a b. a + b) s \<and>
   PSUBW s = vecUL (\<lambda>a b. a - b) s \<and>
   PCGTW s = vecUL (\<lambda>a b. if b <s a then 0xFFFFFFFF else 0) s \<and>
   PMAXW s = vecUL (\<lambda>a b. word_of_int (max (sint a) (sint b))) s \<and>
   PADDH s = vecUS (\<lambda>a b. a + b) s \<and>
   PSUBH s = vecUS (\<lambda>a b. a - b) s \<and>
   PCGTH s = vecUS (\<lambda>a b. if b <s a then 0xFFFF else 0) s \<and>
   PMAXH s = vecUS (\<lambda>a b. word_of_int (max (sint a) (sint b))) s \<and>
   PADDB s = vecUC (\<lambda>a b. a + b) s \<and>
   PSUBB s = vecUC (\<lambda>a b. a - b) s \<and>
   PCGTB s = vecUC (\<lambda>a b. if b <s a then 0xFF else 0) s \<and>
   PCEQW s = vecUL (\<lambda>a b. if a = b then 0xFFFFFFFF else 0) s \<and>
   PMINW s = vecUL (\<lambda>a b. word_of_int (min (sint a) (sint b))) s \<and>
   PCEQH s = vecUS (\<lambda>a b. if a = b then 0xFFFF else 0) s \<and>
   PMINH s = vecUS (\<lambda>a b. word_of_int (min (sint a) (sint b))) s \<and>
   PCEQB s = vecUC (\<lambda>a b. if a = b then 0xFF else 0) s"
  by (simp only: vec_defs fSa_code simp_thms
    PSLLH_def PSLLH.result PSRLH_def PSRLH.result PSRAH_def PSRAH.result PSLLW_def PSLLW.result PSRLW_def PSRLW.result PSRAW_def PSRAW.result PADDW_def PADDW.result PSUBW_def PSUBW.result PCGTW_def PCGTW.result PMAXW_def PMAXW.result PADDH_def PADDH.result PSUBH_def PSUBH.result PCGTH_def PCGTH.result PMAXH_def PMAXH.result PADDB_def PADDB.result PSUBB_def PSUBB.result PCGTB_def PCGTB.result PCEQW_def PCEQW.result PMINW_def PMINW.result PCEQH_def PCEQH.result PMINH_def PMINH.result PCEQB_def PCEQB.result)

text \<open>
  C21: the saturating instructions compute, in every lane, the representable value nearest to
  the exact sum, difference or absolute value, signed or unsigned, for words, halfwords and bytes,
  although the tests of the source differ in strictness from one instruction to the next.
\<close>
theorem vector_saturating:
  "PADDSW s = vecUL (\<lambda>a b. sat_s (sint a + sint b)) s \<and>
   PSUBSW s = vecUL (\<lambda>a b. sat_s (sint a - sint b)) s \<and>
   PADDSH s = vecUS (\<lambda>a b. sat_s (sint a + sint b)) s \<and>
   PSUBSH s = vecUS (\<lambda>a b. sat_s (sint a - sint b)) s \<and>
   PADDSB s = vecUC (\<lambda>a b. sat_s (sint a + sint b)) s \<and>
   PSUBSB s = vecUC (\<lambda>a b. sat_s (sint a - sint b)) s \<and>
   PABSW s = vecUL (\<lambda>a b. sat_s \<bar>sint b\<bar>) s \<and>
   PABSH s = vecUS (\<lambda>a b. sat_s \<bar>sint b\<bar>) s \<and>
   PADDUW s = vecUL (\<lambda>a b. sat_u (uint a + uint b)) s \<and>
   PSUBUW s = vecUL (\<lambda>a b. sat_u (uint a - uint b)) s \<and>
   PADDUH s = vecUS (\<lambda>a b. sat_u (uint a + uint b)) s \<and>
   PSUBUH s = vecUS (\<lambda>a b. sat_u (uint a - uint b)) s \<and>
   PADDUB s = vecUC (\<lambda>a b. sat_u (uint a + uint b)) s \<and>
   PSUBUB s = vecUC (\<lambda>a b. sat_u (uint a - uint b)) s"
  by (simp only: vec_defs simp_thms
    PADDSW_def PADDSW.result PSUBSW_def PSUBSW.result PADDSH_def PADDSH.result PSUBSH_def PSUBSH.result PADDSB_def PADDSB.result PSUBSB_def PSUBSB.result PABSW_def PABSW.result PABSH_def PABSH.result PADDUW_def PADDUW.result PSUBUW_def PSUBUW.result PADDUH_def PADDUH.result PSUBUH_def PSUBUH.result PADDUB_def PADDUB.result PSUBUB_def PSUBUB.result)


section \<open>Permutations, packing and the funnel shift\<close>

lemma less_4: "(i :: nat) < 4 \<longleftrightarrow>
   i = 3 \<or> i = 2 \<or> i = 1 \<or> i = 0" by arith
lemma less_8: "(i :: nat) < 8 \<longleftrightarrow>
   i = 7 \<or> i = 6 \<or> i = 5 \<or> i = 4 \<or> i = 3 \<or> i = 2 \<or> i = 1 \<or> i = 0" by arith
lemma less_16: "(i :: nat) < 16 \<longleftrightarrow>
   i = 15 \<or> i = 14 \<or> i = 13 \<or> i = 12 \<or> i = 11 \<or> i = 10 \<or> i = 9 \<or> i = 8 \<or> i = 7 \<or> i = 6 \<or> i = 5 \<or> i = 4 \<or> i = 3 \<or> i = 2 \<or> i = 1 \<or> i = 0" by arith

lemmas assign_defs = wULs_def wUSs_def wUCs_def

lemma unpack_pack_roundtrip_parts:
  assumes rd: "fRd l \<noteq> 0" "fRd h \<noteq> 0" "fRd p \<noteq> 0"
    and same: "GPR h (fRs h) = GPR l (fRs l)" "GPR h (fRt h) = GPR l (fRt l)"
  shows "GPR p (fRt p) = GPR (PEXTLW l) (fRd l) \<Longrightarrow> GPR p (fRs p) = GPR (PEXTUW h) (fRd h) \<Longrightarrow>
      GPR (PPACW p) (fRd p) = GPR l (fRt l)"
    and "GPR p (fRt p) = GPR (PEXTLH l) (fRd l) \<Longrightarrow> GPR p (fRs p) = GPR (PEXTUH h) (fRd h) \<Longrightarrow>
      GPR (PPACH p) (fRd p) = GPR l (fRt l)"
    and "GPR p (fRt p) = GPR (PEXTLB l) (fRd l) \<Longrightarrow> GPR p (fRs p) = GPR (PEXTUB h) (fRd h) \<Longrightarrow>
      GPR (PPACB p) (fRd p) = GPR l (fRt l)"
proof -
  assume "GPR p (fRt p) = GPR (PEXTLW l) (fRd l)" "GPR p (fRs p) = GPR (PEXTUW h) (fRd h)"
  then show "GPR (PPACW p) (fRd p) = GPR l (fRt l)"
    by (intro ul.ext) (use rd same in \<open>auto simp: less_4 PPACW_def PEXTLW_def PEXTUW_def assign_defs lane_simps Let_def\<close>)
next
  assume "GPR p (fRt p) = GPR (PEXTLH l) (fRd l)" "GPR p (fRs p) = GPR (PEXTUH h) (fRd h)"
  then show "GPR (PPACH p) (fRd p) = GPR l (fRt l)"
    by (intro us.ext) (use rd same in \<open>auto simp: less_8 PPACH_def PEXTLH_def PEXTUH_def assign_defs lane_simps Let_def\<close>)
next
  assume "GPR p (fRt p) = GPR (PEXTLB l) (fRd l)" "GPR p (fRs p) = GPR (PEXTUB h) (fRd h)"
  then show "GPR (PPACB p) (fRd p) = GPR l (fRt l)"
    by (intro uc.ext) (use rd same in \<open>auto simp: less_16 PPACB_def PEXTLB_def PEXTUB_def assign_defs lane_simps Let_def\<close>)
qed

text \<open>
  Unpacking two registers into interleaved low and high halves and packing the two results
  gives back the register whose elements were in the even positions, for words, halfwords and bytes.
\<close>
lemma unpack_pack_roundtrip:
  assumes "fRd l \<noteq> 0" "fRd h \<noteq> 0" "fRd p \<noteq> 0"
    and "GPR h (fRs h) = GPR l (fRs l)" "GPR h (fRt h) = GPR l (fRt l)"
  shows "(GPR p (fRt p) = GPR (PEXTLW l) (fRd l) \<longrightarrow> GPR p (fRs p) = GPR (PEXTUW h) (fRd h) \<longrightarrow>
      GPR (PPACW p) (fRd p) = GPR l (fRt l)) \<and>
    (GPR p (fRt p) = GPR (PEXTLH l) (fRd l) \<longrightarrow> GPR p (fRs p) = GPR (PEXTUH h) (fRd h) \<longrightarrow>
      GPR (PPACH p) (fRd p) = GPR l (fRt l)) \<and>
    (GPR p (fRt p) = GPR (PEXTLB l) (fRd l) \<longrightarrow> GPR p (fRs p) = GPR (PEXTUB h) (fRd h) \<longrightarrow>
      GPR (PPACB p) (fRd p) = GPR l (fRt l))"
  using unpack_pack_roundtrip_parts [OF assms] by blast


lemma assign_GPR:
  "wULs d vs s = wGPR d (fold (\<lambda>(i, v). setUL i v) vs (GPR s d)) s"
  "wUSs d us s = wGPR d (fold (\<lambda>(i, v). setUS i v) us (GPR s d)) s"
  "wUCs d cs s = wGPR d (fold (\<lambda>(i, v). setUC i v) cs (GPR s d)) s"
proof -
  show "wULs d vs s = wGPR d (fold (\<lambda>(i, v). setUL i v) vs (GPR s d)) s"
    unfolding wULs_def by (induction vs arbitrary: s) (auto simp: wUL_def wGPR_wGPR wGPR_id)
  show "wUSs d us s = wGPR d (fold (\<lambda>(i, v). setUS i v) us (GPR s d)) s"
    unfolding wUSs_def by (induction us arbitrary: s) (auto simp: wUS_def wGPR_wGPR wGPR_id)
  show "wUCs d cs s = wGPR d (fold (\<lambda>(i, v). setUC i v) cs (GPR s d)) s"
    unfolding wUCs_def by (induction cs arbitrary: s) (auto simp: wUC_def wGPR_wGPR wGPR_id)
qed

text \<open>
  In place (destination and source the same register), the exchange instructions are
  involutions of the whole processor state and the three-word rotation has order three.
\<close>
lemma exchange_involutions:
  assumes "fRd s = fRt s"
  shows "PEXEW (PEXEW s) = s \<and> PEXCW (PEXCW s) = s \<and> PROT3W (PROT3W (PROT3W s)) = s \<and>
    PEXEH (PEXEH s) = s \<and> PEXCH (PEXCH s) = s \<and> PREVH (PREVH s) = s"
proof -
  have "PEXEW (PEXEW s) = s" "PEXCW (PEXCW s) = s" "PROT3W (PROT3W (PROT3W s)) = s"
    using assms by (auto simp: PEXEW_def PEXCW_def PROT3W_def Let_def assign_GPR wGPR_wGPR less_4 lane_simps
      intro!: wGPR_id ul.ext)
  moreover have "PEXEH (PEXEH s) = s" "PEXCH (PEXCH s) = s" "PREVH (PREVH s) = s"
    using assms by (auto simp: PEXEH_def PEXCH_def PREVH_def Let_def assign_GPR wGPR_wGPR less_8 lane_simps
      intro!: wGPR_id us.ext)
  ultimately show ?thesis by blast
qed

definition funnel_shift :: "nat \<Rightarrow> u128 \<Rightarrow> u128 \<Rightarrow> u128" where
  "funnel_shift k hi lo = ucast (drop_bit k (ucast lo OR push_bit 128 (ucast hi) :: 256 word))"

lemma bit_funnel:
  "k < 128 \<Longrightarrow> n < 128 \<Longrightarrow>
   bit (funnel_shift k hi lo) n \<longleftrightarrow> (if n + k < 128 then bit lo (n + k) else bit hi (n + k - 128))"
  unfolding funnel_shift_def by (auto simp: bit_simps add.commute dest: bit_imp_le_length)

lemma bit_UD: "bit (UD i w) n \<longleftrightarrow> n < 64 \<and> bit w (i * 64 + n)"
  by (simp add: lane_defs bit_lane)

lemma setUD_halves: "setUD (Suc 0) (UD (Suc 0) w) (setUD 0 (UD 0 w) v) = w"
  by (rule ud.ext) (auto simp: less_2_cases_iff lane_simps)

lemma shifted_pair:
  assumes "0 < k" "k < 64"
    and r: "\<And>n. n < 64 \<Longrightarrow> bit (r :: u64) n = (if n + k < 64 then bit a (n + k) else bit b (n + k - 64))"
  shows "r = drop_bit k a OR push_bit (64 - k) b"
proof (rule bit_word_eqI)
  fix n assume "n < LENGTH(64)"
  then have n: "n < 64" by simp
  show "bit r n = bit (drop_bit k a OR push_bit (64 - k) b) n"
  proof (cases "n + k < 64")
    case True
    moreover from True have "\<not> 64 - k \<le> n" by arith
    ultimately show ?thesis using n r [OF n] by (simp add: bit_simps add.commute)
  next
    case False
    then have e: "n + k - 64 = n - (64 - k)" and le: "64 - k \<le> n" and "LENGTH(64) \<le> k + n"
      using assms(2) by auto
    from r [OF n] have "bit r n = bit b (n - (64 - k))" by (simp only: False if_False e)
    moreover from \<open>LENGTH(64) \<le> k + n\<close> have "\<not> bit a (k + n)" using bit_imp_le_length [of a "k + n"] by linarith
    ultimately show ?thesis using le n by (simp only: bit_or_iff bit_drop_bit_eq bit_push_bit_iff o_apply) simp
  qed
qed

lemma UD_funnel_low:
  assumes "0 < k" "k < 64"
  shows "UD 0 (funnel_shift k hi lo) = drop_bit k (UD 0 lo) OR push_bit (64 - k) (UD (Suc 0) lo)"
    "UD (Suc 0) (funnel_shift k hi lo) = drop_bit k (UD (Suc 0) lo) OR push_bit (64 - k) (UD 0 hi)"
  by (rule shifted_pair [OF assms]; use assms in \<open>auto simp: bit_UD bit_funnel add.assoc\<close>)+

lemma UD_funnel_high:
  assumes "64 < k" "k < 128"
  shows "UD 0 (funnel_shift k hi lo) = drop_bit (k - 64) (UD (Suc 0) lo) OR push_bit (64 - (k - 64)) (UD 0 hi)"
    "UD (Suc 0) (funnel_shift k hi lo) = drop_bit (k - 64) (UD 0 hi) OR push_bit (64 - (k - 64)) (UD (Suc 0) hi)"
  by (rule shifted_pair; use assms in \<open>auto simp: bit_UD bit_funnel\<close>)+

lemma UD_funnel_whole:
  "UD 0 (funnel_shift 64 hi lo) = UD (Suc 0) lo" "UD (Suc 0) (funnel_shift 64 hi lo) = UD 0 hi"
  "funnel_shift 0 hi lo = lo"
  by (auto intro!: bit_word_eqI simp: bit_UD bit_funnel bit_simps add.commute)

text \<open>
  For the shift amounts the setting instructions produce (below 16 bytes),
  \<^verbatim>\<open>QFSRV\<close> is the funnel shift: the low 128 bits of the 256-bit concatenation of the two
  source registers shifted right by eight times the shift-amount register.
\<close>
lemma QFSRV_funnel:
  assumes "sa s < 16" 
  shows "QFSRV s = (if fRd s = 0 then s else 
    wGPR (fRd s) (funnel_shift (8 * unat (sa s)) (GPR s (fRs s)) (GPR s (fRt s))) s)"
proof -
  let ?a = "push_bit 3 (sa s)" and ?k = "8 * unat (sa s)"
  have k: "?k < 128" using assms by (simp add: word_less_nat_alt)
  then have u: "unat ?a = ?k" by (simp add: push_bit_eq_mult unat_word_ariths)
  have d: "?k < 64 \<Longrightarrow> unat (64 - ?a) = 64 - ?k" "64 \<le> ?k \<Longrightarrow> unat (?a - 64) = ?k - 64" "unat (128 - ?a) = 128 - ?k"
    using u k by (simp_all add: unat_sub word_le_nat_alt)
  have c: "?a = 0 \<longleftrightarrow> ?k = 0" "?a < 64 \<longleftrightarrow> ?k < 64" "?a = 64 \<longleftrightarrow> ?k = 64"
    using u by (simp_all add: word_less_nat_alt unat_eq_0 [symmetric] word_unat_eq_iff)
  consider "?k = 0" | "0 < ?k" "?k < 64" | "?k = 64" | "64 < ?k" by linarith
  then show ?thesis
  proof cases
    case 1
    then show ?thesis using c by (simp add: QFSRV_def wUD_def wGPR_wGPR UD_funnel_whole setUD_halves)
  next
    case 2
    with c d u show ?thesis
      using setUD_halves [of "funnel_shift ?k (GPR s (fRs s)) (GPR s (fRt s))" 0, unfolded UD_funnel_low [OF 2]]
      by (simp add: QFSRV_def Let_def)
  next
    case 3
    with c d u show ?thesis
      using setUD_halves [of "funnel_shift 64 (GPR s (fRs s)) (GPR s (fRt s))" 0, unfolded UD_funnel_whole]
      by (simp add: QFSRV_def Let_def)
  next
    case 4
    with c d u k show ?thesis
      using setUD_halves [of "funnel_shift ?k (GPR s (fRs s)) (GPR s (fRt s))" 0, unfolded UD_funnel_high [OF 4 k]]
      by (simp add: QFSRV_def Let_def)
  qed
qed


section \<open>Leading sign bits, pixels and accumulation\<close>

lemma rev_bits_nth: "i < 32 \<Longrightarrow> map (bit (n :: u32)) (rev [0..<32]) ! i = bit n (31 - i)"
  by (simp add: rev_nth)

lemma countl_zero_above: "31 < countl_zero n + j \<Longrightarrow> j < 32 \<Longrightarrow> \<not> bit (n :: u32) j"
proof -
  assume j: "31 < countl_zero n + j" "j < 32"
  let ?xs = "map (bit n) (rev [0..<32])"
  have i: "31 - j < length (takeWhile Not ?xs)" using j unfolding countl_zero_def by linarith
  then have "takeWhile Not ?xs ! (31 - j) \<in> set (takeWhile Not ?xs)" by (rule nth_mem)
  then have "\<not> takeWhile Not ?xs ! (31 - j)" using set_takeWhileD by fastforce
  moreover have "takeWhile Not ?xs ! (31 - j) = ?xs ! (31 - j)" using i by (rule takeWhile_nth)
  moreover have "31 - (31 - j) = j" using j by simp
  ultimately show ?thesis using rev_bits_nth [of "31 - j" n] j by simp
qed

lemma countl_zero_at: 
  assumes "(n :: u32) \<noteq> 0"
  shows "countl_zero n < 32 \<and> bit n (31 - countl_zero n)"
proof -
  let ?xs = "map (bit n) (rev [0..<32])"
  have le: "length (takeWhile Not ?xs) \<le> 32" using length_takeWhile_le [of Not ?xs] by simp
  obtain k where k: "bit n k"
  proof (rule ccontr)
    assume "\<not> thesis"
    then have "n = 0" using that by (intro bit_word_eqI) auto
    with assms show False ..
  qed
  then have "k < 32" using bit_imp_le_length [OF k] by simp
  then have "length (takeWhile Not ?xs) \<noteq> 32" using k countl_zero_above [of n k] by (auto simp: countl_zero_def)
  with le have lt: "length (takeWhile Not ?xs) < 32" by simp
  then have "?xs ! length (takeWhile Not ?xs)" using nth_length_takeWhile [of Not ?xs] by simp
  then have "bit n (31 - length (takeWhile Not ?xs))" by (simp only: rev_bits_nth [OF lt])
  with lt show ?thesis by (simp add: countl_zero_def)
qed

text \<open>\<open>sign_run v c\<close>: exactly \<open>c\<close> bits below the sign bit repeat it.\<close>

definition sign_run :: "u32 \<Rightarrow> nat \<Rightarrow> bool" where
  "sign_run v c \<longleftrightarrow> c \<le> 31 \<and> (\<forall>j \<in> {31 - c..<32}. bit v j = bit v 31) \<and> (c < 31 \<longrightarrow> bit v (30 - c) \<noteq> bit v 31)"

lemma sign_flip_bit: "j < 32 \<Longrightarrow> bit (if (v :: u32) <s 0 then NOT v else v) j \<longleftrightarrow> bit v j \<noteq> bit v 31"
  using bit_last_iff [of v] by (auto simp: word_sless_alt bit_simps)

lemma CountLeadingSignBits_run:
  "0 < CountLeadingSignBits v \<and> CountLeadingSignBits v \<le> 32 \<and> sign_run v (CountLeadingSignBits v - 1)"
proof -
  let ?n = "if v <s 0 then NOT v else v"
  show ?thesis
  proof (cases "?n = 0")
    case True
    then have "CountLeadingSignBits v = 32" unfolding CountLeadingSignBits_def Let_def by (simp only: True refl if_True)
    moreover have same: "bit v j = bit v 31" if "j < 32" for j
      using sign_flip_bit [OF that, of v] unfolding True by simp
    have "sign_run v 31" unfolding sign_run_def
    proof (intro conjI ballI impI)
      fix j :: nat assume "j \<in> {31 - 31..<32}"
      then show "bit v j = bit v 31" by (intro same) simp
    qed simp_all
    ultimately show ?thesis by simp
  next
    case False
    then have C: "CountLeadingSignBits v = countl_zero ?n" by (simp only: CountLeadingSignBits_def Let_def if_False)
    let ?C = "countl_zero ?n"
    from countl_zero_at [OF False] have lt: "?C < 32" and at: "bit ?n (31 - ?C)" by auto
    have pos: "0 < ?C" using at sign_flip_bit [of 31 v] by (cases "?C = 0") auto
    have same: "bit v j = bit v 31" if "31 - (?C - 1) \<le> j" "j < 32" for j
    proof -
      have "31 < ?C + j" using that pos by linarith
      from countl_zero_above [OF this that(2)] sign_flip_bit [OF that(2), of v] show ?thesis by blast
    qed
    have i: "30 - (?C - 1) = 31 - ?C" using pos by linarith
    have other: "bit v (30 - (?C - 1)) \<noteq> bit v 31"
      unfolding i using at sign_flip_bit [of "31 - ?C" v] by linarith
    have "sign_run v (?C - 1)" unfolding sign_run_def
    proof (intro conjI ballI impI)
      show "?C - 1 \<le> 31" using lt by linarith
      show "bit v j = bit v 31" if "j \<in> {31 - (?C - 1)..<32}" for j using that by (intro same) simp_all
    qed (rule other)
    with lt pos show ?thesis unfolding C by simp
  qed
qed

text \<open>
  \<^verbatim>\<open>PLZCW\<close> counts, in each of the two low words, exactly how many bits below the sign
  bit repeat it, and leaves the upper doubleword of the destination alone.
\<close>
lemma PLZCW_counts:
  assumes "fRd s \<noteq> 0"
  shows "sign_run (UL 0 (GPR s (fRs s))) (unat (UL 0 (GPR (PLZCW s) (fRd s)))) \<and>
    sign_run (UL 1 (GPR s (fRs s))) (unat (UL 1 (GPR (PLZCW s) (fRd s)))) \<and>
    UD 1 (GPR (PLZCW s) (fRd s)) = UD 1 (GPR s (fRd s))"
proof -
  have u: "unat (of_nat (CountLeadingSignBits v) - 1 :: u32) = CountLeadingSignBits v - 1" for v
    using CountLeadingSignBits_run [of v] by (simp add: unat_sub word_le_nat_alt unat_of_nat)
  have r: "sign_run v (CountLeadingSignBits v - 1)" for v using CountLeadingSignBits_run by blast
  show ?thesis using assms r u by (simp add: PLZCW_def Let_def lane_simps)
qed


lemma pext5_ppac5:
  fixes b :: u32
  defines "e \<equiv> push_bit 3 (b AND 0x1F) OR push_bit 6 (b AND 0x3E0) OR push_bit 9 (b AND 0x7C00) OR push_bit 16 (b AND 0x8000)"
  shows "(drop_bit 3 e AND 0x1F) OR (drop_bit 6 e AND 0x3E0) OR (drop_bit 9 e AND 0x7C00) OR (drop_bit 16 e AND 0x8000) = b AND 0xFFFF"
proof -
  have "\<forall>n \<in> set [0..<32]. bit ((drop_bit 3 e AND 0x1F) OR (drop_bit 6 e AND 0x3E0) OR (drop_bit 9 e AND 0x7C00) OR (drop_bit 16 e AND 0x8000)) n = bit (b AND 0xFFFF) n"
    unfolding e_def by (simp add: upt_conv_Cons bit_simps del: set_upt)
  then show ?thesis by (intro bit_word_eqI) auto
qed

text \<open>
  Expanding 1-5-5-5 pixels to words and packing them again returns the pixels.
\<close>
lemma PEXT5_PPAC5_roundtrip:
  assumes "fRd s \<noteq> 0" "fRd t \<noteq> 0" "GPR t (fRt t) = GPR (PEXT5 s) (fRd s)" "i < 4"
  shows "UL i (GPR (PPAC5 t) (fRd t)) = UL i (GPR s (fRt s)) AND 0xFFFF"
  using assms pext5_ppac5 by (simp only: PEXT5_def PPAC5_def PEXT5.result PPAC5.result if_False GPR_wGPR if_True refl UL_vmapUL)


definition HILO1 :: "'a cpuRegisters_scheme \<Rightarrow> u64" where
  "HILO1 s = ucast (UL 2 (LO s)) OR push_bit 32 (ucast (UL 2 (HI s)))"

lemma HILO1_halves: "HI s = setUD (Suc 0) (hi_half r) h \<Longrightarrow> LO s = setUD (Suc 0) (lo_half r) l \<Longrightarrow> HILO1 s = r"
  using join_halves [of r] by (simp add: HILO1_def lane_simps)

lemma word_of_int_product:
  "(word_of_int (sint (a :: u32) * sint (b :: u32)) :: u64) = scast a * scast b"
  "(word_of_int (uint (a :: u32) * uint (b :: u32)) :: u64) = ucast a * ucast b"
  by simp_all

text \<open>
  The multiply-accumulate instructions add the full product to the 64-bit accumulator made
  of HI and LO, modulo \<open>2 ^ 64\<close>; the two pipelines do not disturb each other.
\<close>
lemma multiply_accumulate:
  "HILO (MADD s) = HILO s + word_of_int (sint (UL 0 (GPR s (fRs s))) * sint (UL 0 (GPR s (fRt s)))) \<and>
   HILO (MADDU s) = HILO s + word_of_int (uint (UL 0 (GPR s (fRs s))) * uint (UL 0 (GPR s (fRt s)))) \<and>
   HILO1 (MADD1 s) = HILO1 s + word_of_int (sint (UL 0 (GPR s (fRs s))) * sint (UL 0 (GPR s (fRt s)))) \<and>
   HILO1 (MADDU1 s) = HILO1 s + word_of_int (uint (UL 0 (GPR s (fRs s))) * uint (UL 0 (GPR s (fRt s)))) \<and>
   HILO (MADD1 s) = HILO s \<and> HILO (MADDU1 s) = HILO s \<and> HILO1 (MADD s) = HILO1 s \<and> HILO1 (MADDU s) = HILO1 s"
proof -
  have "HILO (MADD s) = HILO s + scast (UL 0 (GPR s (fRs s))) * scast (UL 0 (GPR s (fRt s)))"
    by (rule HILO_halves [where h = "HI s" and l = "LO s"]) (simp_all add: MADD_def Let_def HILO_def)
  moreover have "HILO (MADDU s) = HILO s + ucast (UL 0 (GPR s (fRs s))) * ucast (UL 0 (GPR s (fRt s)))"
    by (rule HILO_halves [where h = "HI s" and l = "LO s"]) (simp_all add: MADDU_def Let_def HILO_def)
  moreover have "HILO1 (MADD1 s) = HILO1 s + scast (UL 0 (GPR s (fRs s))) * scast (UL 0 (GPR s (fRt s)))"
    by (rule HILO1_halves [where h = "HI s" and l = "LO s"]) (simp_all add: MADD1_def Let_def HILO1_def)
  moreover have "HILO1 (MADDU1 s) = HILO1 s + ucast (UL 0 (GPR s (fRs s))) * ucast (UL 0 (GPR s (fRt s)))"
    by (rule HILO1_halves [where h = "HI s" and l = "LO s"]) (simp_all add: MADDU1_def Let_def HILO1_def)
  moreover have "HILO (MADD1 s) = HILO s" "HILO (MADDU1 s) = HILO s"
    by (simp_all add: HILO_def MADD1_def MADDU1_def Let_def lane_simps)
  moreover have "HILO1 (MADD s) = HILO1 s" "HILO1 (MADDU s) = HILO1 s"
    by (simp_all add: HILO1_def MADD_def MADDU_def Let_def lane_simps)
  ultimately show ?thesis by (simp only: word_of_int_product simp_thms)
qed

text \<open>
  HI and LO together hold the full 64-bit product after \<^verbatim>\<open>MULT\<close> (signed) and \<^verbatim>\<open>MULTU\<close>
  (unsigned), and the multiply-accumulate instructions add the full product to the 64-bit accumulator
  made of HI and LO, modulo \<open>2 ^ 64\<close>; the two pipelines do not disturb each other.
\<close>
lemma multiply_spec:
  "sint (HILO (MULT s)) = sint (UL 0 (GPR s (fRs s))) * sint (UL 0 (GPR s (fRt s))) \<and>
   uint (HILO (MULTU s)) = uint (UL 0 (GPR s (fRs s))) * uint (UL 0 (GPR s (fRt s))) \<and>
   HILO (MADD s) = HILO s + word_of_int (sint (UL 0 (GPR s (fRs s))) * sint (UL 0 (GPR s (fRt s)))) \<and>
   HILO (MADDU s) = HILO s + word_of_int (uint (UL 0 (GPR s (fRs s))) * uint (UL 0 (GPR s (fRt s)))) \<and>
   HILO1 (MADD1 s) = HILO1 s + word_of_int (sint (UL 0 (GPR s (fRs s))) * sint (UL 0 (GPR s (fRt s)))) \<and>
   HILO1 (MADDU1 s) = HILO1 s + word_of_int (uint (UL 0 (GPR s (fRs s))) * uint (UL 0 (GPR s (fRt s)))) \<and>
   HILO (MADD1 s) = HILO s \<and> HILO (MADDU1 s) = HILO s \<and> HILO1 (MADD s) = HILO1 s \<and> HILO1 (MADDU s) = HILO1 s"
  using mult_full_product [of s] multiply_accumulate [of s] by blast
section \<open>The frame of the multimedia instructions\<close>

lemmas vector_defs = PSLLH_def PSLLH.result PSRLH_def PSRLH.result PSRAH_def PSRAH.result PSLLW_def PSLLW.result
  PSRLW_def PSRLW.result PSRAW_def PSRAW.result PADDW_def PADDW.result PSUBW_def PSUBW.result
  PCGTW_def PCGTW.result PMAXW_def PMAXW.result PADDH_def PADDH.result PSUBH_def PSUBH.result
  PCGTH_def PCGTH.result PMAXH_def PMAXH.result PADDB_def PADDB.result PSUBB_def PSUBB.result
  PCGTB_def PCGTB.result PADDSW_def PADDSW.result PSUBSW_def PSUBSW.result PADDSH_def PADDSH.result
  PSUBSH_def PSUBSH.result PADDSB_def PADDSB.result PSUBSB_def PSUBSB.result PEXT5_def PEXT5.result
  PPAC5_def PPAC5.result PABSW_def PABSW.result PCEQW_def PCEQW.result PMINW_def PMINW.result
  PABSH_def PABSH.result PCEQH_def PCEQH.result PMINH_def PMINH.result PCEQB_def PCEQB.result
  PADDUW_def PADDUW.result PSUBUW_def PSUBUW.result PADDUH_def PADDUH.result PSUBUH_def PSUBUH.result
  PADDUB_def PADDUB.result PSUBUB_def PSUBUB.result

lemma vector_keeps_r0 [frame, simp]:
  "GPR (PSLLH s) 0 = GPR s 0" "GPR (PSRLH s) 0 = GPR s 0" "GPR (PSRAH s) 0 = GPR s 0" "GPR (PSLLW s) 0 = GPR s 0"
  "GPR (PSRLW s) 0 = GPR s 0" "GPR (PSRAW s) 0 = GPR s 0" "GPR (PADDW s) 0 = GPR s 0" "GPR (PSUBW s) 0 = GPR s 0"
  "GPR (PCGTW s) 0 = GPR s 0" "GPR (PMAXW s) 0 = GPR s 0" "GPR (PADDH s) 0 = GPR s 0" "GPR (PSUBH s) 0 = GPR s 0"
  "GPR (PCGTH s) 0 = GPR s 0" "GPR (PMAXH s) 0 = GPR s 0" "GPR (PADDB s) 0 = GPR s 0" "GPR (PSUBB s) 0 = GPR s 0"
  "GPR (PCGTB s) 0 = GPR s 0" "GPR (PADDSW s) 0 = GPR s 0" "GPR (PSUBSW s) 0 = GPR s 0" "GPR (PADDSH s) 0 = GPR s 0"
  "GPR (PSUBSH s) 0 = GPR s 0" "GPR (PADDSB s) 0 = GPR s 0" "GPR (PSUBSB s) 0 = GPR s 0" "GPR (PEXT5 s) 0 = GPR s 0"
  "GPR (PPAC5 s) 0 = GPR s 0" "GPR (PABSW s) 0 = GPR s 0" "GPR (PCEQW s) 0 = GPR s 0" "GPR (PMINW s) 0 = GPR s 0"
  "GPR (PABSH s) 0 = GPR s 0" "GPR (PCEQH s) 0 = GPR s 0" "GPR (PMINH s) 0 = GPR s 0" "GPR (PCEQB s) 0 = GPR s 0"
  "GPR (PADDUW s) 0 = GPR s 0" "GPR (PSUBUW s) 0 = GPR s 0" "GPR (PADDUH s) 0 = GPR s 0" "GPR (PSUBUH s) 0 = GPR s 0"
  "GPR (PADDUB s) 0 = GPR s 0" "GPR (PSUBUB s) 0 = GPR s 0"
  by (simp_all only: vector_defs) simp_all

lemma vector_keeps_more [frame, simp]:
  "cpuRegisters.more (PSLLH s) = cpuRegisters.more s" "cpuRegisters.more (PSRLH s) = cpuRegisters.more s" "cpuRegisters.more (PSRAH s) = cpuRegisters.more s"
  "cpuRegisters.more (PSLLW s) = cpuRegisters.more s" "cpuRegisters.more (PSRLW s) = cpuRegisters.more s" "cpuRegisters.more (PSRAW s) = cpuRegisters.more s"
  "cpuRegisters.more (PADDW s) = cpuRegisters.more s" "cpuRegisters.more (PSUBW s) = cpuRegisters.more s" "cpuRegisters.more (PCGTW s) = cpuRegisters.more s"
  "cpuRegisters.more (PMAXW s) = cpuRegisters.more s" "cpuRegisters.more (PADDH s) = cpuRegisters.more s" "cpuRegisters.more (PSUBH s) = cpuRegisters.more s"
  "cpuRegisters.more (PCGTH s) = cpuRegisters.more s" "cpuRegisters.more (PMAXH s) = cpuRegisters.more s" "cpuRegisters.more (PADDB s) = cpuRegisters.more s"
  "cpuRegisters.more (PSUBB s) = cpuRegisters.more s" "cpuRegisters.more (PCGTB s) = cpuRegisters.more s" "cpuRegisters.more (PADDSW s) = cpuRegisters.more s"
  "cpuRegisters.more (PSUBSW s) = cpuRegisters.more s" "cpuRegisters.more (PADDSH s) = cpuRegisters.more s" "cpuRegisters.more (PSUBSH s) = cpuRegisters.more s"
  "cpuRegisters.more (PADDSB s) = cpuRegisters.more s" "cpuRegisters.more (PSUBSB s) = cpuRegisters.more s" "cpuRegisters.more (PEXT5 s) = cpuRegisters.more s"
  "cpuRegisters.more (PPAC5 s) = cpuRegisters.more s" "cpuRegisters.more (PABSW s) = cpuRegisters.more s" "cpuRegisters.more (PCEQW s) = cpuRegisters.more s"
  "cpuRegisters.more (PMINW s) = cpuRegisters.more s" "cpuRegisters.more (PABSH s) = cpuRegisters.more s" "cpuRegisters.more (PCEQH s) = cpuRegisters.more s"
  "cpuRegisters.more (PMINH s) = cpuRegisters.more s" "cpuRegisters.more (PCEQB s) = cpuRegisters.more s" "cpuRegisters.more (PADDUW s) = cpuRegisters.more s"
  "cpuRegisters.more (PSUBUW s) = cpuRegisters.more s" "cpuRegisters.more (PADDUH s) = cpuRegisters.more s" "cpuRegisters.more (PSUBUH s) = cpuRegisters.more s"
  "cpuRegisters.more (PADDUB s) = cpuRegisters.more s" "cpuRegisters.more (PSUBUB s) = cpuRegisters.more s"
  by (simp_all only: vector_defs) simp_all

lemma helper_keeps [frame, simp]:
  "GPR (PMADDW_lane d n s) 0 = GPR s 0" "GPR (PMSUBW_lane d n s) 0 = GPR s 0" "GPR (PMULTW_lane d n s) 0 = GPR s 0"
  "GPR (PDIVW_lane d n s) 0 = GPR s 0" "GPR (PMADDUW_lane d n s) 0 = GPR s 0" "GPR (PMULTUW_lane d n s) 0 = GPR s 0"
  "GPR (PDIVUW_lane d n s) 0 = GPR s 0" "GPR (PHMADH_LO d n s) 0 = GPR s 0" "GPR (PHMADH_HI d n s) 0 = GPR s 0"
  "GPR (PHMSBH_LO d n s) 0 = GPR s 0" "GPR (PHMSBH_HI d n s) 0 = GPR s 0" "GPR (PMADDH_LO d n s) 0 = GPR s 0"
  "GPR (PMADDH_HI d n s) 0 = GPR s 0" "GPR (PMSUBH_LO d n s) 0 = GPR s 0" "GPR (PMSUBH_HI d n s) 0 = GPR s 0"
  "GPR (PMULTH_LO d n s) 0 = GPR s 0" "GPR (PMULTH_HI d n s) 0 = GPR s 0"
  "cpuRegisters.more (PMADDW_lane d n s) = cpuRegisters.more s" "cpuRegisters.more (PMSUBW_lane d n s) = cpuRegisters.more s" "cpuRegisters.more (PMULTW_lane d n s) = cpuRegisters.more s"
  "cpuRegisters.more (PDIVW_lane d n s) = cpuRegisters.more s" "cpuRegisters.more (PMADDUW_lane d n s) = cpuRegisters.more s" "cpuRegisters.more (PMULTUW_lane d n s) = cpuRegisters.more s"
  "cpuRegisters.more (PDIVUW_lane d n s) = cpuRegisters.more s" "cpuRegisters.more (PHMADH_LO d n s) = cpuRegisters.more s" "cpuRegisters.more (PHMADH_HI d n s) = cpuRegisters.more s"
  "cpuRegisters.more (PHMSBH_LO d n s) = cpuRegisters.more s" "cpuRegisters.more (PHMSBH_HI d n s) = cpuRegisters.more s" "cpuRegisters.more (PMADDH_LO d n s) = cpuRegisters.more s"
  "cpuRegisters.more (PMADDH_HI d n s) = cpuRegisters.more s" "cpuRegisters.more (PMSUBH_LO d n s) = cpuRegisters.more s" "cpuRegisters.more (PMSUBH_HI d n s) = cpuRegisters.more s"
  "cpuRegisters.more (PMULTH_LO d n s) = cpuRegisters.more s" "cpuRegisters.more (PMULTH_HI d n s) = cpuRegisters.more s"
  "GPR (PDIVBW_lane n s) = GPR s" "cpuRegisters.more (PDIVBW_lane n s) = cpuRegisters.more s"
  "GPR (copy_even_words s) 0 = GPR s 0" "cpuRegisters.more (copy_even_words s) = cpuRegisters.more s"
  by (simp_all add: PMADDW_lane_def PMSUBW_lane_def PMULTW_lane_def PDIVW_lane_def PMADDUW_lane_def PMULTUW_lane_def
  PDIVUW_lane_def PHMADH_LO_def PHMADH_HI_def PHMSBH_LO_def PHMSBH_HI_def PMADDH_LO_def
  PMADDH_HI_def PMSUBH_LO_def PMSUBH_HI_def PMULTH_LO_def PMULTH_HI_def
    PDIVBW_lane_def copy_even_words_def assign_GPR Let_def split_def)

lemmas mmi_defs = MADD_def MADDU_def MADD1_def MADDU1_def MFHI1_def MFLO1_def
  MTHI1_def MTLO1_def MULT1_def MULTU1_def DIV1_def DIVU1_def
  PLZCW_def PMFHL_def PMTHL_def PEXTLW_def PPACW_def PEXTLH_def
  PPACH_def PEXTLB_def PPACB_def PEXTUW_def PEXTUH_def PEXTUB_def
  QFSRV_def PMADDW_def PSLLVW_def PSRLVW_def PMSUBW_def PMFHI_def
  PMFLO_def PINTH_def PMULTW_def PDIVW_def PCPYLD_def PMADDH_def
  PHMADH_def PAND_def PXOR_def PMSUBH_def PHMSBH_def PEXEH_def
  PREVH_def PMULTH_def PDIVBW_def PEXEW_def PROT3W_def PMADDUW_def
  PSRAVW_def PMTHI_def PMTLO_def PINTEH_def PMULTUW_def PDIVUW_def
  PCPYUD_def POR_def PNOR_def PEXCH_def PCPYH_def PEXCW_def assign_GPR

lemma mmi_keeps_r0 [frame, simp]:
  "GPR (MADD s) 0 = GPR s 0" "GPR (MADDU s) 0 = GPR s 0" "GPR (MADD1 s) 0 = GPR s 0" "GPR (MADDU1 s) 0 = GPR s 0"
  "GPR (MFHI1 s) 0 = GPR s 0" "GPR (MFLO1 s) 0 = GPR s 0" "GPR (MTHI1 s) 0 = GPR s 0" "GPR (MTLO1 s) 0 = GPR s 0"
  "GPR (MULT1 s) 0 = GPR s 0" "GPR (MULTU1 s) 0 = GPR s 0" "GPR (DIV1 s) 0 = GPR s 0" "GPR (DIVU1 s) 0 = GPR s 0"
  "GPR (PLZCW s) 0 = GPR s 0" "GPR (PMFHL s) 0 = GPR s 0" "GPR (PMTHL s) 0 = GPR s 0" "GPR (PEXTLW s) 0 = GPR s 0"
  "GPR (PPACW s) 0 = GPR s 0" "GPR (PEXTLH s) 0 = GPR s 0" "GPR (PPACH s) 0 = GPR s 0" "GPR (PEXTLB s) 0 = GPR s 0"
  "GPR (PPACB s) 0 = GPR s 0" "GPR (PEXTUW s) 0 = GPR s 0" "GPR (PEXTUH s) 0 = GPR s 0" "GPR (PEXTUB s) 0 = GPR s 0"
  "GPR (QFSRV s) 0 = GPR s 0" "GPR (PMADDW s) 0 = GPR s 0" "GPR (PSLLVW s) 0 = GPR s 0" "GPR (PSRLVW s) 0 = GPR s 0"
  "GPR (PMSUBW s) 0 = GPR s 0" "GPR (PMFHI s) 0 = GPR s 0" "GPR (PMFLO s) 0 = GPR s 0" "GPR (PINTH s) 0 = GPR s 0"
  "GPR (PMULTW s) 0 = GPR s 0" "GPR (PDIVW s) 0 = GPR s 0" "GPR (PCPYLD s) 0 = GPR s 0" "GPR (PMADDH s) 0 = GPR s 0"
  "GPR (PHMADH s) 0 = GPR s 0" "GPR (PAND s) 0 = GPR s 0" "GPR (PXOR s) 0 = GPR s 0" "GPR (PMSUBH s) 0 = GPR s 0"
  "GPR (PHMSBH s) 0 = GPR s 0" "GPR (PEXEH s) 0 = GPR s 0" "GPR (PREVH s) 0 = GPR s 0" "GPR (PMULTH s) 0 = GPR s 0"
  "GPR (PDIVBW s) 0 = GPR s 0" "GPR (PEXEW s) 0 = GPR s 0" "GPR (PROT3W s) 0 = GPR s 0" "GPR (PMADDUW s) 0 = GPR s 0"
  "GPR (PSRAVW s) 0 = GPR s 0" "GPR (PMTHI s) 0 = GPR s 0" "GPR (PMTLO s) 0 = GPR s 0" "GPR (PINTEH s) 0 = GPR s 0"
  "GPR (PMULTUW s) 0 = GPR s 0" "GPR (PDIVUW s) 0 = GPR s 0" "GPR (PCPYUD s) 0 = GPR s 0" "GPR (POR s) 0 = GPR s 0"
  "GPR (PNOR s) 0 = GPR s 0" "GPR (PEXCH s) 0 = GPR s 0" "GPR (PCPYH s) 0 = GPR s 0" "GPR (PEXCW s) 0 = GPR s 0"
  by (simp_all add: mmi_defs Let_def split_def)

lemma mmi_keeps_more [frame, simp]:
  "cpuRegisters.more (MADD s) = cpuRegisters.more s" "cpuRegisters.more (MADDU s) = cpuRegisters.more s" "cpuRegisters.more (MADD1 s) = cpuRegisters.more s"
  "cpuRegisters.more (MADDU1 s) = cpuRegisters.more s" "cpuRegisters.more (MFHI1 s) = cpuRegisters.more s" "cpuRegisters.more (MFLO1 s) = cpuRegisters.more s"
  "cpuRegisters.more (MTHI1 s) = cpuRegisters.more s" "cpuRegisters.more (MTLO1 s) = cpuRegisters.more s" "cpuRegisters.more (MULT1 s) = cpuRegisters.more s"
  "cpuRegisters.more (MULTU1 s) = cpuRegisters.more s" "cpuRegisters.more (DIV1 s) = cpuRegisters.more s" "cpuRegisters.more (DIVU1 s) = cpuRegisters.more s"
  "cpuRegisters.more (PLZCW s) = cpuRegisters.more s" "cpuRegisters.more (PMFHL s) = cpuRegisters.more s" "cpuRegisters.more (PMTHL s) = cpuRegisters.more s"
  "cpuRegisters.more (PEXTLW s) = cpuRegisters.more s" "cpuRegisters.more (PPACW s) = cpuRegisters.more s" "cpuRegisters.more (PEXTLH s) = cpuRegisters.more s"
  "cpuRegisters.more (PPACH s) = cpuRegisters.more s" "cpuRegisters.more (PEXTLB s) = cpuRegisters.more s" "cpuRegisters.more (PPACB s) = cpuRegisters.more s"
  "cpuRegisters.more (PEXTUW s) = cpuRegisters.more s" "cpuRegisters.more (PEXTUH s) = cpuRegisters.more s" "cpuRegisters.more (PEXTUB s) = cpuRegisters.more s"
  "cpuRegisters.more (QFSRV s) = cpuRegisters.more s" "cpuRegisters.more (PMADDW s) = cpuRegisters.more s" "cpuRegisters.more (PSLLVW s) = cpuRegisters.more s"
  "cpuRegisters.more (PSRLVW s) = cpuRegisters.more s" "cpuRegisters.more (PMSUBW s) = cpuRegisters.more s" "cpuRegisters.more (PMFHI s) = cpuRegisters.more s"
  "cpuRegisters.more (PMFLO s) = cpuRegisters.more s" "cpuRegisters.more (PINTH s) = cpuRegisters.more s" "cpuRegisters.more (PMULTW s) = cpuRegisters.more s"
  "cpuRegisters.more (PDIVW s) = cpuRegisters.more s" "cpuRegisters.more (PCPYLD s) = cpuRegisters.more s" "cpuRegisters.more (PMADDH s) = cpuRegisters.more s"
  "cpuRegisters.more (PHMADH s) = cpuRegisters.more s" "cpuRegisters.more (PAND s) = cpuRegisters.more s" "cpuRegisters.more (PXOR s) = cpuRegisters.more s"
  "cpuRegisters.more (PMSUBH s) = cpuRegisters.more s" "cpuRegisters.more (PHMSBH s) = cpuRegisters.more s" "cpuRegisters.more (PEXEH s) = cpuRegisters.more s"
  "cpuRegisters.more (PREVH s) = cpuRegisters.more s" "cpuRegisters.more (PMULTH s) = cpuRegisters.more s" "cpuRegisters.more (PDIVBW s) = cpuRegisters.more s"
  "cpuRegisters.more (PEXEW s) = cpuRegisters.more s" "cpuRegisters.more (PROT3W s) = cpuRegisters.more s" "cpuRegisters.more (PMADDUW s) = cpuRegisters.more s"
  "cpuRegisters.more (PSRAVW s) = cpuRegisters.more s" "cpuRegisters.more (PMTHI s) = cpuRegisters.more s" "cpuRegisters.more (PMTLO s) = cpuRegisters.more s"
  "cpuRegisters.more (PINTEH s) = cpuRegisters.more s" "cpuRegisters.more (PMULTUW s) = cpuRegisters.more s" "cpuRegisters.more (PDIVUW s) = cpuRegisters.more s"
  "cpuRegisters.more (PCPYUD s) = cpuRegisters.more s" "cpuRegisters.more (POR s) = cpuRegisters.more s" "cpuRegisters.more (PNOR s) = cpuRegisters.more s"
  "cpuRegisters.more (PEXCH s) = cpuRegisters.more s" "cpuRegisters.more (PCPYH s) = cpuRegisters.more s" "cpuRegisters.more (PEXCW s) = cpuRegisters.more s"
  by (simp_all add: mmi_defs Let_def split_def)

lemma PADSBH_frame [frame, simp]:
  "GPR (PADSBH s) 0 = GPR s 0 \<and> cpuRegisters.more (PADSBH s) = cpuRegisters.more s"
proof (cases "fRd s = 0")
  case False
  let ?t = "fold PSUBH_lane [0, 1, 2, 3] s"
  have "code ?t = code s" by (simp only: PSUBH.fold_GPR) simp
  then have "fRd ?t \<noteq> 0" using False fields_cong(1) by metis
  then have "GPR (fold PADDH_lane [4, 5, 6, 7] ?t) 0 = GPR ?t 0 \<and>
      cpuRegisters.more (fold PADDH_lane [4, 5, 6, 7] ?t) = cpuRegisters.more ?t"
    by (intro conjI PADDH.fold_frame) auto
  moreover have "GPR ?t 0 = GPR s 0 \<and> cpuRegisters.more ?t = cpuRegisters.more s"
    using False by (intro conjI PSUBH.fold_frame) auto
  ultimately show ?thesis using False by (simp only: PADSBH_def if_False)
qed (simp add: PADSBH_def)

end
