(* ===== verification/EE_Machine.thy ===== *)
theory EE_Machine
  imports EE_Exceptions
begin

text \<open>
  The state of the Emotion Engine side as one record: the processor registers extended with the
  page tables and host memory (\<^verbatim>\<open>pcsx2/vtlb.h\<close>), the TLB and the arrays of its cached entries
  (\<^verbatim>\<open>pcsx2/R5900.h\<close>), the data cache (\<^verbatim>\<open>pcsx2/Cache.cpp\<close>), the counters of the interpreter, the
  floating-point registers (\<^verbatim>\<open>struct fpuRegisters\<close>) and a field for the devices; and the packed words of the page tables.
\<close>

section \<open>The machine\<close>

text \<open>A TLB entry (\<^verbatim>\<open>struct tlbs\<close>): four 32-bit registers.\<close>

record tlbs =
  tPageMask :: u32
  tEntryHi :: u32
  tEntryLo0 :: u32
  tEntryLo1 :: u32

text \<open>\<^verbatim>\<open>cachedTlbs_t\<close>: the cached entries as parallel arrays of 48 elements.\<close>

record cachedTlbs_t =
  count :: nat
  PageMasks :: "nat \<Rightarrow> u32"
  PFN1s :: "nat \<Rightarrow> u32"
  CacheEnabled1 :: "nat \<Rightarrow> u32"
  PFN0s :: "nat \<Rightarrow> u32"
  CacheEnabled0 :: "nat \<Rightarrow> u32"

text \<open>The data cache: two ways in each of 64 sets, a tag word and 64 bytes each
  (\<^verbatim>\<open>struct CacheSet\<close>, \<^verbatim>\<open>struct Cache\<close> of \<^verbatim>\<open>pcsx2/Cache.cpp\<close>).\<close>

type_synonym CacheTag = u64
type_synonym CacheData = "6 word \<Rightarrow> u8"

record CacheSet =
  tags :: "1 word \<Rightarrow> CacheTag"
  lineData :: "1 word \<Rightarrow> CacheData"

record 'd machine = cpuRegisters +
  vmap :: "20 word \<Rightarrow> u64"
  pmap :: "17 word \<Rightarrow> u64"
  ppmap :: "(20 word \<Rightarrow> u32) option"
  host :: "u64 \<Rightarrow> u8"
  Scratch :: u64
  tlb :: "nat \<Rightarrow> tlbs"
  cachedTlbs :: cachedTlbs_t
  cache :: "6 word \<Rightarrow> CacheSet"
  cpuBlockCycles :: u32
  intLastBranchTo :: u32
  fpr :: "5 word \<Rightarrow> u32"
  fprc :: "5 word \<Rightarrow> u32"
  ACC :: u32
  dev :: 'd

section \<open>Packed table entries\<close>

definition POINTER_SIGN_BIT :: u64 where
  "POINTER_SIGN_BIT = push_bit 63 1"

definition fromPointer :: "u64 \<Rightarrow> u64" where
  "fromPointer ptr = ptr"

definition fromHandler :: "u8 \<Rightarrow> u64" where
  "fromHandler handler = ucast handler OR POINTER_SIGN_BIT"

definition phys_isHandler :: "u64 \<Rightarrow> bool" where
  "phys_isHandler v \<longleftrightarrow> v <s 0"

definition phys_assumeHandler :: "u64 \<Rightarrow> u8" where
  "phys_assumeHandler v = ucast v"

definition VTLBVirtual :: "u64 \<Rightarrow> u32 \<Rightarrow> u32 \<Rightarrow> u64" where
  "VTLBVirtual phys paddr vaddr =
     (if phys_isHandler phys then phys + ucast paddr - ucast vaddr else phys - ucast vaddr)"

definition virt_isHandler :: "u64 \<Rightarrow> u32 \<Rightarrow> bool" where
  "virt_isHandler v vaddr \<longleftrightarrow> v + ucast vaddr <s 0"

definition assumePtr :: "u64 \<Rightarrow> u32 \<Rightarrow> u64" where
  "assumePtr v vaddr = v + ucast vaddr"

definition assumeHandlerGetID :: "u64 \<Rightarrow> u8" where
  "assumeHandlerGetID v = ucast v"

definition assumeHandlerGetPAddr :: "u64 \<Rightarrow> u32 \<Rightarrow> u32" where
  "assumeHandlerGetPAddr v vaddr =
     ucast ((v + ucast vaddr - ucast (assumeHandlerGetID v)) AND NOT POINTER_SIGN_BIT)"

text \<open>Index of the page of an address in the virtual and the physical table.\<close>

definition vpage :: "u32 \<Rightarrow> 20 word" where
  "vpage a = ucast (drop_bit 12 a)"

definition ppage :: "u32 \<Rightarrow> 17 word" where
  "ppage a = ucast (drop_bit 12 a)"

text \<open>Handlers are numbered in the order \<^verbatim>\<open>vtlb_Init\<close> registers them.\<close>

abbreviation (input) UnmappedVirtHandler :: u8 where "UnmappedVirtHandler \<equiv> 0"
abbreviation (input) UnmappedPhyHandler :: u8 where "UnmappedPhyHandler \<equiv> 1"
abbreviation (input) DefaultPhyHandler :: u8 where "DefaultPhyHandler \<equiv> 2"

definition VTLB_PMAP_SZ :: u32 where
  "VTLB_PMAP_SZ = 0x20000000"

end
