(* ===== verification/EE_Cache.thy ===== *)
theory EE_Cache
  imports EE_Machine
begin

text \<open>
  The data cache of the Emotion Engine (\<^verbatim>\<open>pcsx2/Cache.cpp\<close>): two ways of 64 sets, write back, with
  the least recently filled way replaced. Tags hold host addresses, so a line is written back to the
  host memory it was filled from. The theory models the tag flags, the line operations, lookup and
  replacement, the accesses of every width and the \<^verbatim>\<open>CACHE\<close> instruction; log messages are left out.
  The lemmas show that, seen through \<open>cache_view\<close>, the cached machine is flat memory.
\<close>

section \<open>Tags\<close>

definition CacheTag_flags :: "CacheTag \<Rightarrow> u32" where
  "CacheTag_flags t = ucast (t AND 0x7FF)"

definition isValid :: "CacheTag \<Rightarrow> bool" where
  "isValid t \<longleftrightarrow> t AND 0x20 \<noteq> 0"

definition lrf :: "CacheTag \<Rightarrow> bool" where
  "lrf t \<longleftrightarrow> t AND 0x10 \<noteq> 0"

definition isLocked :: "CacheTag \<Rightarrow> bool" where
  "isLocked t \<longleftrightarrow> t AND 0x8 \<noteq> 0"

definition isDirtyAndValid :: "CacheTag \<Rightarrow> bool" where
  "isDirtyAndValid t \<longleftrightarrow> t AND (0x40 OR 0x20) = 0x40 OR 0x20"

definition setValid :: "CacheTag \<Rightarrow> CacheTag" where
  "setValid t = t OR 0x20"

definition setDirty :: "CacheTag \<Rightarrow> CacheTag" where
  "setDirty t = t OR 0x40"

definition clearDirty :: "CacheTag \<Rightarrow> CacheTag" where
  "clearDirty t = t AND NOT 0x40"

definition toggleLRF :: "CacheTag \<Rightarrow> CacheTag" where
  "toggleLRF t = t XOR 0x10"

definition tag_addr :: "CacheTag \<Rightarrow> u64" where
  "tag_addr t = t AND NOT 0xFFF"

definition setAddr :: "u64 \<Rightarrow> CacheTag \<Rightarrow> CacheTag" where
  "setAddr a t = (t AND 0xFFF) OR (a AND NOT 0xFFF)"

definition tag_matches :: "u64 \<Rightarrow> CacheTag \<Rightarrow> bool" where
  "tag_matches other t \<longleftrightarrow> isValid t \<and> tag_addr t = other AND NOT 0xFFF"

definition tag_clear :: "CacheTag \<Rightarrow> CacheTag" where
  "tag_clear t = t AND 0x10"

definition isValidPFN :: "CacheTag \<Rightarrow> bool" where
  "isValidPFN t \<longleftrightarrow> t AND 0x800 \<noteq> 0"

definition setValidPFN :: "bool \<Rightarrow> CacheTag \<Rightarrow> CacheTag" where
  "setValidPFN valid t = (if valid then t OR 0x800 else t AND NOT 0x800)"

section \<open>Lines\<close>

text \<open>A line is named by its set and way; assigning through its references updates the cache.\<close>

definition lineTag :: "6 word \<Rightarrow> 1 word \<Rightarrow> 'd machine \<Rightarrow> CacheTag" where
  "lineTag i w s = tags (cache s i) w"

definition lineBytes :: "6 word \<Rightarrow> 1 word \<Rightarrow> 'd machine \<Rightarrow> CacheData" where
  "lineBytes i w s = lineData (cache s i) w"

definition updTag :: "6 word \<Rightarrow> 1 word \<Rightarrow> (CacheTag \<Rightarrow> CacheTag) \<Rightarrow> 'd machine \<Rightarrow> 'd machine" where
  "updTag i w f s = s\<lparr>cache := (cache s)(i := (cache s i)\<lparr>tags := (tags (cache s i))(w := f (lineTag i w s))\<rparr>)\<rparr>"

definition updBytes :: "6 word \<Rightarrow> 1 word \<Rightarrow> (CacheData \<Rightarrow> CacheData) \<Rightarrow> 'd machine \<Rightarrow> 'd machine" where
  "updBytes i w f s =
     s\<lparr>cache := (cache s)(i := (cache s i)\<lparr>lineData := (lineData (cache s i))(w := f (lineBytes i w s))\<rparr>)\<rparr>"

definition line_addr :: "6 word \<Rightarrow> CacheTag \<Rightarrow> u64" where
  "line_addr i t = tag_addr t OR push_bit 6 (ucast i)"

definition writeBackIfNeeded :: "6 word \<Rightarrow> 1 word \<Rightarrow> 'd machine \<Rightarrow> 'd machine" where
  "writeBackIfNeeded i w s =
     (if \<not> isDirtyAndValid (lineTag i w s) then s
      else let target = line_addr i (lineTag i w s);
               s = (if isValidPFN (lineTag i w s)
                    then s\<lparr>host := (\<lambda>q. if q - target < 64 then lineBytes i w s (ucast (q - target)) else host s q)\<rparr>
                    else s)
           in updTag i w clearDirty s)"

definition line_load :: "6 word \<Rightarrow> 1 word \<Rightarrow> u64 \<Rightarrow> 'd machine \<Rightarrow> 'd machine" where
  "line_load i w ppf s =
     (let s = updTag i w (setAddr ppf) s;
          s = (if \<not> isValidPFN (lineTag i w s) then updBytes i w (\<lambda>_ _. 0) s
               else updBytes i w (\<lambda>_ k. host s ((ppf AND NOT 0x3F) + ucast k)) s)
      in updTag i w clearDirty (updTag i w setValid s))"

definition line_clear :: "6 word \<Rightarrow> 1 word \<Rightarrow> 'd machine \<Rightarrow> 'd machine" where
  "line_clear i w s = updBytes i w (\<lambda>_ _. 0) (updTag i w tag_clear s)"

definition setIdxFor :: "u32 \<Rightarrow> 6 word" where
  "setIdxFor vaddr = ucast (drop_bit 6 vaddr)"

definition resetCache :: "'d machine \<Rightarrow> 'd machine" where
  "resetCache s = s\<lparr>cache := (\<lambda>_. \<lparr>tags = (\<lambda>_. 0), lineData = (\<lambda>_ _. 0)\<rparr>)\<rparr>"

definition writebackCache :: "'d machine \<Rightarrow> 'd machine" where
  "writebackCache s =
     fold (\<lambda>i s. fold (\<lambda>j. writeBackIfNeeded (of_nat i) (of_nat j)) [0..<2] s) [0..<64] s"

section \<open>Lookup, replacement and accesses\<close>

definition findInCache :: "CacheSet \<Rightarrow> u64 \<Rightarrow> 1 word option" where
  "findInCache cs ppf =
     (if tag_matches ppf (tags cs 0) then Some 0
      else if tag_matches ppf (tags cs 1) then Some 1 else None)"

text \<open>The way that was filled less recently, as the exclusive or of the two flags.\<close>

definition lrf_way :: "CacheSet \<Rightarrow> 1 word" where
  "lrf_way cs = (if lrf (tags cs 0) \<noteq> lrf (tags cs 1) then 1 else 0)"

definition getFreeCache :: "u32 \<Rightarrow> bool \<Rightarrow> 'd machine \<Rightarrow> (6 word \<times> 1 word) \<times> 'd machine" where
  "getFreeCache mem validPFN s =
     (let setIdx = setIdxFor mem; cs = cache s setIdx; ppf = assumePtr (vmap s (vpage mem)) mem
      in case findInCache cs ppf of
           Some way \<Rightarrow>
             let way = (if isLocked (tags cs way)
                        then if isLocked (tags cs (way XOR 1)) then way else way XOR 1
                        else way)
             in ((setIdx, way), s)
         | None \<Rightarrow>
             let newWay = lrf_way cs;
                 newWay = (if isLocked (tags cs newWay) then newWay XOR 1 else newWay);
                 s = writeBackIfNeeded setIdx newWay s;
                 s = updTag setIdx newWay (setValidPFN validPFN) s;
                 s = line_load setIdx newWay ppf s;
                 s = updTag setIdx newWay toggleLRF s
             in ((setIdx, newWay), s))"

definition prepareCacheAccess :: "bool \<Rightarrow> nat \<Rightarrow> u32 \<Rightarrow> bool \<Rightarrow> 'd machine \<Rightarrow> (6 word \<times> 1 word \<times> 6 word) \<times> 'd machine" where
  "prepareCacheAccess write bytes mem validPFN s =
     (case getFreeCache mem validPFN s of
        ((idx, way), s) \<Rightarrow>
          let s = (if write then updTag idx way setDirty s else s);
              aligned = mem AND NOT (of_nat bytes - 1)
          in ((idx, way, ucast aligned), s))"

text \<open>Reading and writing an integer inside a line.\<close>

definition bytesLoad :: "CacheData \<Rightarrow> 6 word \<Rightarrow> 'a::len word" where
  "bytesLoad d off = hostLoad (\<lambda>a. d (ucast a)) (ucast off)"

definition bytesStore :: "6 word \<Rightarrow> 'a::len word \<Rightarrow> CacheData \<Rightarrow> CacheData" where
  "bytesStore off v d = (\<lambda>k. hostStore (ucast off) v (\<lambda>a. d (ucast a)) (ucast k))"

definition writeCache :: "u32 \<Rightarrow> 'a::len word \<Rightarrow> bool \<Rightarrow> 'd machine \<Rightarrow> 'd machine" where
  "writeCache mem v validPFN s =
     (case prepareCacheAccess True (LENGTH('a) div 8) mem validPFN s of
        ((idx, way, addr), s) \<Rightarrow> updBytes idx way (bytesStore addr v) s)"

definition readCache :: "u32 \<Rightarrow> bool \<Rightarrow> 'd machine \<Rightarrow> 'a::len word \<times> 'd machine" where
  "readCache mem validPFN s =
     (case prepareCacheAccess False (LENGTH('a) div 8) mem validPFN s of
        ((idx, way, addr), s) \<Rightarrow> (bytesLoad (lineBytes idx way s) addr, s))"

section \<open>The CACHE instruction\<close>

definition doCacheHitOp :: "u32 \<Rightarrow> (6 word \<Rightarrow> 1 word \<Rightarrow> 'd machine \<Rightarrow> 'd machine) \<Rightarrow> 'd machine \<Rightarrow> 'd machine" where
  "doCacheHitOp addr f s =
     (let index = setIdxFor addr; ppf = assumePtr (vmap s (vpage addr)) addr
      in case findInCache (cache s index) ppf of None \<Rightarrow> s | Some way \<Rightarrow> f index way s)"

definition CACHE :: "'d machine \<Rightarrow> 'd machine" where
  "CACHE s =
     (let addr = UL 0 (GPR s (fRs s)) + scast (Imm s);
          index = setIdxFor addr; way = ucast (addr AND 0x1); word = ucast (addr AND 0x3C)
      in if fRt s = 0x1a then doCacheHitOp addr line_clear s
         else if fRt s = 0x18 then doCacheHitOp addr (\<lambda>i w s. line_clear i w (writeBackIfNeeded i w s)) s
         else if fRt s = 0x1c then doCacheHitOp addr writeBackIfNeeded s
         else if fRt s = 0x16 then line_clear index way s
         else if fRt s = 0x11 then wCP0 TagLo (bytesLoad (lineBytes index way s) word) s
         else if fRt s = 0x10 then
           (let s = writeBackIfNeeded index way s in wCP0 TagLo (CacheTag_flags (lineTag index way s)) s)
         else if fRt s = 0x13 then updBytes index way (bytesStore word (CP0 s TagLo)) s
         else if fRt s = 0x12 then
           updTag index way (\<lambda>t. (setAddr (ucast (CP0 s TagLo)) t AND NOT 0x7FF) OR (ucast (CP0 s TagLo) AND 0x7FF)) s
         else if fRt s = 0x14 then line_clear index way (writeBackIfNeeded index way s)
         else s)"

section \<open>Addresses and lines\<close>

text \<open>The set of a host address.\<close>

definition hostIdx :: "u64 \<Rightarrow> 6 word" where
  "hostIdx q = ucast (drop_bit 6 q)"

lemma bit_hostIdx: "bit (hostIdx q) n \<longleftrightarrow> n < 6 \<and> bit q (6 + n)"
  by (auto simp: hostIdx_def bit_simps dest: bit_imp_le_length)

lemma bit_page: "bit (q AND - 0x1000 :: u64) n \<longleftrightarrow> 12 \<le> n \<and> bit q n" "bit (q AND NOT 0xFFF :: u64) n \<longleftrightarrow> 12 \<le> n \<and> bit q n"
proof -
  have "(- 0x1000 :: u64) = NOT (mask 12)" by (simp add: mask_eq_exp_minus_1)
  then show "bit (q AND - 0x1000) n \<longleftrightarrow> 12 \<le> n \<and> bit q n"
    by (auto simp only: bit_and_iff bit_not_iff bit_mask_iff dest: bit_imp_possible_bit)
  then show "bit (q AND NOT 0xFFF) n \<longleftrightarrow> 12 \<le> n \<and> bit q n" by simp
qed

lemma bit_line: "bit (q AND - 0x40 :: u64) n \<longleftrightarrow> 6 \<le> n \<and> bit q n" "bit (q AND NOT 0x3F :: u64) n \<longleftrightarrow> 6 \<le> n \<and> bit q n"
proof -
  have "(- 0x40 :: u64) = NOT (mask 6)" by (simp add: mask_eq_exp_minus_1)
  then show "bit (q AND - 0x40) n \<longleftrightarrow> 6 \<le> n \<and> bit q n"
    by (auto simp only: bit_and_iff bit_not_iff bit_mask_iff dest: bit_imp_possible_bit)
  then show "bit (q AND NOT 0x3F) n \<longleftrightarrow> 6 \<le> n \<and> bit q n" by simp
qed

lemma bit_line_addr: "bit (line_addr i t) n \<longleftrightarrow> (if n < 12 then 6 \<le> n \<and> bit i (n - 6) else bit t n)"
  using bit_imp_le_length [of t n] bit_imp_le_length [of i "n - 6"]
  by (auto simp: line_addr_def tag_addr_def bit_or_iff bit_page bit_push_bit_iff bit_unsigned_iff)

lemma line_add: "line_addr i t + ucast (k :: 6 word) = line_addr i t OR ucast k"
proof (rule disjunctive_add_eq_or, rule bit_word_eqI)
  fix n
  show "bit (line_addr i t AND ucast k) n = bit (0 :: u64) n"
    using bit_imp_le_length [of k n] by (auto simp: bit_and_iff bit_line_addr bit_unsigned_iff)
qed

lemma line_split:
  "q = line_addr i t + ucast (k :: 6 word) \<longleftrightarrow>
    q AND NOT 0xFFF = tag_addr t \<and> hostIdx q = i \<and> ucast q = k"
proof
  have b: "bit (line_addr i t + ucast k) n \<longleftrightarrow> (if n < 6 then bit k n else if n < 12 then bit i (n - 6) else bit t n)" for n
    using bit_imp_le_length [of k n] by (auto simp: line_add bit_or_iff bit_line_addr bit_unsigned_iff)
  assume q: "q = line_addr i t + ucast k"
  have "q AND NOT 0xFFF = tag_addr t"
    unfolding tag_addr_def q by (rule bit_word_eqI) (auto simp: bit_page b)
  moreover have "hostIdx q = i" unfolding q by (rule bit_word_eqI) (simp add: bit_hostIdx b)
  moreover have "ucast q = k" unfolding q by (rule bit_word_eqI) (simp add: bit_unsigned_iff b)
  ultimately show "q AND NOT 0xFFF = tag_addr t \<and> hostIdx q = i \<and> ucast q = k" by blast
next
  assume *: "q AND NOT 0xFFF = tag_addr t \<and> hostIdx q = i \<and> ucast q = k"
  have t: "bit q n = bit t n" if "12 \<le> n" "n < 64" for n
    using that arg_cong [where f = "\<lambda>w. bit w n", OF conjunct1 [OF *]] by (simp add: tag_addr_def bit_page)
  have i: "bit i (n - 6) = bit q n" if "6 \<le> n" "n < 12" for n
    using that bit_hostIdx [of q "n - 6"] * by auto
  have k: "bit k n = bit q n" if "n < 6" for n using that * by (auto simp: bit_unsigned_iff)
  show "q = line_addr i t + ucast k"
    unfolding line_add
  proof (rule bit_word_eqI)
    fix n assume "n < LENGTH(64)"
    then show "bit q n = bit (line_addr i t OR ucast k) n"
      using t [of n] i [of n] k [of n] bit_imp_le_length [of k n] by (cases "n < 6"; cases "n < 12") (auto simp: bit_or_iff bit_line_addr bit_unsigned_iff)
  qed
qed

lemma line_mask: "p AND NOT 0x3F = line_addr (hostIdx p) p"
  by (rule bit_word_eqI) (auto simp: bit_line bit_line_addr bit_hostIdx)

lemma small_ucast: "unat (ucast (k :: 6 word) :: u64) = unat k" "(ucast k :: u64) < 64"
proof -
  have k: "unat k < 64" using unsigned_less [of k, where 'a = nat] by simp
  then show *: "unat (ucast k :: u64) = unat k" by (simp add: unsigned_ucast_eq take_bit_nat_eq_self)
  show "(ucast k :: u64) < 64" using k by (simp add: word_less_nat_alt *)
qed

lemma ucast_small: "d < 64 \<Longrightarrow> ucast (ucast d :: 6 word) = (d :: u64)"
proof (rule word_unat_eq_iff [THEN iffD2])
  assume "d < 64"
  then have "unat d < 64" by (simp add: word_less_nat_alt)
  then have "unat (ucast d :: 6 word) = unat d" by (simp add: unsigned_ucast_eq take_bit_nat_eq_self)
  then show "unat (ucast (ucast d :: 6 word) :: u64) = unat d" by (simp only: small_ucast(1))
qed

lemma in_line:
  "q - line_addr i t < 64 \<longleftrightarrow> q AND NOT 0xFFF = tag_addr t \<and> hostIdx q = i"
  "q - line_addr i t < 64 \<Longrightarrow> (ucast (q - line_addr i t) :: 6 word) = ucast q"
proof -
  let ?k = "ucast (q - line_addr i t) :: 6 word"
  have *: "q AND NOT 0xFFF = tag_addr t \<and> hostIdx q = i \<and> ucast q = ?k" if "q - line_addr i t < 64"
  proof -
    have "q = line_addr i t + ucast ?k" unfolding ucast_small [OF that] by simp
    then show ?thesis by (rule line_split [THEN iffD1])
  qed
  have "q - line_addr i t < 64" if "q AND NOT 0xFFF = tag_addr t" "hostIdx q = i"
  proof -
    have "q = line_addr i t + ucast (ucast q :: 6 word)" using that by (intro line_split [THEN iffD2]) simp
    then have "q - line_addr i t = ucast (ucast q :: 6 word)" by (metis add_diff_cancel_left')
    then show ?thesis by (simp only: small_ucast(2))
  qed
  then show "q - line_addr i t < 64 \<longleftrightarrow> q AND NOT 0xFFF = tag_addr t \<and> hostIdx q = i" using * by blast
  show "q - line_addr i t < 64 \<Longrightarrow> ?k = ucast q" using * by simp
qed

section \<open>Tag flags\<close>

lemma flag_bits:
  "isValid t \<longleftrightarrow> bit t 5" "lrf t \<longleftrightarrow> bit t 4" "isLocked t \<longleftrightarrow> bit t 3" "isValidPFN t \<longleftrightarrow> bit t 11"
  "isDirtyAndValid t \<longleftrightarrow> bit t 6 \<and> bit t 5"
proof -
  have e: "t AND 2 ^ n \<noteq> 0 \<longleftrightarrow> bit t n" for n
    by (simp add: and_exp_eq_0_iff_not_bit)
  show "isValid t \<longleftrightarrow> bit t 5" "lrf t \<longleftrightarrow> bit t 4" "isLocked t \<longleftrightarrow> bit t 3" "isValidPFN t \<longleftrightarrow> bit t 11"
    using e [of 5] e [of 4] e [of 3] e [of 11] by (simp_all add: isValid_def lrf_def isLocked_def isValidPFN_def)
  have "t AND 0x60 = 0x60 \<longleftrightarrow> bit t 6 \<and> bit t 5"
  proof
    assume "t AND 0x60 = 0x60"
    then have "bit (t AND 0x60) 6 \<and> bit (t AND 0x60) 5" by (simp only:) simp
    then show "bit t 6 \<and> bit t 5" by (simp add: bit_and_iff)
  next
    assume *: "bit t 6 \<and> bit t 5"
    have "bit (0x60 :: u64) n \<longleftrightarrow> n = 5 \<or> n = 6" for n
    proof -
      have "(0x60 :: u64) = push_bit 5 (mask 2)" by (simp add: mask_eq_exp_minus_1 push_bit_eq_mult)
      then show ?thesis by (auto simp only: bit_push_bit_iff bit_mask_iff possible_bit_def) auto
    qed
    then have "bit (t AND 0x60) n = bit (0x60 :: u64) n" for n using * by (auto simp only: bit_and_iff)
    then show "t AND 0x60 = 0x60" by (intro bit_word_eqI)
  qed
  then show "isDirtyAndValid t \<longleftrightarrow> bit t 6 \<and> bit t 5" by (simp add: isDirtyAndValid_def)
qed

lemmas tag_ops = setValid_def setDirty_def clearDirty_def toggleLRF_def setValidPFN_def setAddr_def

lemma tag_flags [simp]:
  "isValid (setValid t)" "isValid (setDirty t) = isValid t" "isValid (clearDirty t) = isValid t"
  "isValid (toggleLRF t) = isValid t" "isValid (setValidPFN v t) = isValid t" "isValid (setAddr a t) = isValid t"
  "isLocked (setValid t) = isLocked t" "isLocked (setDirty t) = isLocked t" "isLocked (clearDirty t) = isLocked t"
  "isLocked (toggleLRF t) = isLocked t" "isLocked (setValidPFN v t) = isLocked t" "isLocked (setAddr a t) = isLocked t"
  "lrf (setValid t) = lrf t" "lrf (setDirty t) = lrf t" "lrf (clearDirty t) = lrf t"
  "lrf (toggleLRF t) = (\<not> lrf t)" "lrf (setValidPFN v t) = lrf t" "lrf (setAddr a t) = lrf t"
  "isValidPFN (setValid t) = isValidPFN t" "isValidPFN (setDirty t) = isValidPFN t" "isValidPFN (clearDirty t) = isValidPFN t"
  "isValidPFN (toggleLRF t) = isValidPFN t" "isValidPFN (setValidPFN v t) = v" "isValidPFN (setAddr a t) = isValidPFN t"
  "\<not> isDirtyAndValid (clearDirty t)" "isDirtyAndValid (toggleLRF t) = isDirtyAndValid t"
  "isDirtyAndValid (setDirty t) = isValid t" "isDirtyAndValid (setAddr a t) = isDirtyAndValid t"
  by (simp_all add: flag_bits tag_ops bit_or_iff bit_and_iff bit_xor_iff)


lemma bit_one_flag:
  "bit (0x40 :: u64) n \<longleftrightarrow> n = 6" "bit (0x20 :: u64) n \<longleftrightarrow> n = 5" "bit (0x10 :: u64) n \<longleftrightarrow> n = 4" "bit (0x800 :: u64) n \<longleftrightarrow> n = 11"
proof -
  have "bit (2 ^ m :: u64) n \<longleftrightarrow> n = m" if "m < 64" for m using that by (auto simp: bit_exp_iff possible_bit_def)
  from this [of 6] this [of 5] this [of 4] this [of 11]
  show "bit (0x40 :: u64) n \<longleftrightarrow> n = 6" "bit (0x20 :: u64) n \<longleftrightarrow> n = 5" "bit (0x10 :: u64) n \<longleftrightarrow> n = 4" "bit (0x800 :: u64) n \<longleftrightarrow> n = 11"
    by simp_all
qed

lemma bit_clear_flag:
  "bit (t AND NOT 0x40 :: u64) n \<longleftrightarrow> bit t n \<and> n \<noteq> 6" "bit (t AND NOT 0x800 :: u64) n \<longleftrightarrow> bit t n \<and> n \<noteq> 11"
  unfolding bit_and_iff bit_not_iff bit_one_flag by (auto dest: bit_imp_possible_bit)

lemma tag_addr_simps [simp]:
  "tag_addr (setValid t) = tag_addr t" "tag_addr (setDirty t) = tag_addr t" "tag_addr (clearDirty t) = tag_addr t"
  "tag_addr (toggleLRF t) = tag_addr t" "tag_addr (setValidPFN v t) = tag_addr t" "tag_addr (setAddr a t) = tag_addr a"
proof -
  have eq: "tag_addr a = tag_addr b" if "\<And>n. 12 \<le> n \<Longrightarrow> bit a n = bit b n" for a b
    unfolding tag_addr_def by (rule bit_word_eqI) (auto simp: bit_page that)
  show "tag_addr (setValid t) = tag_addr t" "tag_addr (setDirty t) = tag_addr t" "tag_addr (toggleLRF t) = tag_addr t"
    by (rule eq; simp only: tag_ops bit_or_iff bit_xor_iff bit_one_flag; simp)+
  show "tag_addr (clearDirty t) = tag_addr t" "tag_addr (setValidPFN v t) = tag_addr t"
    by (rule eq; simp only: tag_ops bit_clear_flag bit_or_iff bit_one_flag split: if_split; simp)+
  show "tag_addr (setAddr a t) = tag_addr a"
  proof (rule eq)
    fix n :: nat assume "12 \<le> n"
    then have "\<not> bit (t AND 0xFFF) n" using bit_page(2) [of "t AND 0xFFF" n] by (auto simp: and.assoc)
    then show "bit (setAddr a t) n = bit a n" using \<open>12 \<le> n\<close> by (simp only: setAddr_def bit_or_iff bit_page) simp
  qed
qed

lemma line_addr_cong: "tag_addr a = tag_addr b \<Longrightarrow> line_addr i a = line_addr i b"
  by (simp add: line_addr_def)


section \<open>The cached machine as flat memory\<close>

text \<open>What a program sees at a host address: the line that holds it, or host memory.\<close>

definition cache_view :: "'d machine \<Rightarrow> u64 \<Rightarrow> u8" where
  "cache_view s q =
     (case findInCache (cache s (hostIdx q)) q of
        Some w \<Rightarrow> lineBytes (hostIdx q) w s (ucast q)
      | None \<Rightarrow> host s q)"

text \<open>Every valid line stands for host memory, clean lines agree with it, no line is locked, and
  the two ways of a set hold different lines.\<close>

definition line_ok :: "6 word \<Rightarrow> 1 word \<Rightarrow> 'd machine \<Rightarrow> bool" where
  "line_ok i w s \<longleftrightarrow>
     (let t = lineTag i w s in
      \<not> isLocked t \<and>
      (isValid t \<longrightarrow> isValidPFN t \<and> (isDirtyAndValid t \<or> (\<forall>k. lineBytes i w s k = host s (line_addr i t + ucast k)))))"

definition cache_ok :: "'d machine \<Rightarrow> bool" where
  "cache_ok s \<longleftrightarrow>
     (\<forall>i w. line_ok i w s) \<and>
     (\<forall>i. isValid (lineTag i 0 s) \<and> isValid (lineTag i 1 s) \<longrightarrow> tag_addr (lineTag i 0 s) \<noteq> tag_addr (lineTag i 1 s))"

lemma way_cases: "(w :: 1 word) = 0 \<or> w = 1"
proof -
  have "unat w < 2" using unsigned_less [of w, where 'a = nat] by simp
  then have "unat w = 0 \<or> unat w = 1" by linarith
  then show ?thesis by (metis unat_eq_0 unat_1 word_unat_eq_iff)
qed

lemma upd_simps [simp]:
  "lineTag j v (updTag i w f s) = (if j = i \<and> v = w then f (lineTag i w s) else lineTag j v s)"
  "lineBytes j v (updTag i w f s) = lineBytes j v s"
  "lineTag j v (updBytes i w g s) = lineTag j v s"
  "lineBytes j v (updBytes i w g s) = (if j = i \<and> v = w then g (lineBytes i w s) else lineBytes j v s)"
  "lineTag j v (s\<lparr>host := h\<rparr>) = lineTag j v s" "lineBytes j v (s\<lparr>host := h\<rparr>) = lineBytes j v s"
  "host (updTag i w f s) = host s" "host (updBytes i w g s) = host s"
  "vmap (updTag i w f s) = vmap s" "vmap (updBytes i w g s) = vmap s"
  by (auto simp: lineTag_def lineBytes_def updTag_def updBytes_def)

lemma find_tag: "findInCache (cache s i) q =
    (if tag_matches q (lineTag i 0 s) then Some 0 else if tag_matches q (lineTag i 1 s) then Some 1 else None)"
  by (simp add: findInCache_def lineTag_def)

lemma find_Some: "findInCache (cache s i) q = Some w \<Longrightarrow> tag_matches q (lineTag i w s)"
  by (auto simp: find_tag split: if_splits)

lemma find_None: "findInCache (cache s i) q = None \<longleftrightarrow> (\<forall>w. \<not> tag_matches q (lineTag i w s))"
  by (simp add: find_tag) (metis way_cases)

text \<open>With different lines in the two ways, lookup finds the line that matches.\<close>

lemma cache_ok_distinct:
  assumes "cache_ok s" "tag_matches q (lineTag i w s)" "tag_matches q (lineTag i v s)"
  shows "v = w"
  using assms way_cases [of w] way_cases [of v] by (auto simp: cache_ok_def tag_matches_def)

lemma find_iff: "cache_ok s \<Longrightarrow> findInCache (cache s i) q = Some w \<longleftrightarrow> tag_matches q (lineTag i w s)"
  using cache_ok_distinct [of s q i] way_cases [of w] by (auto simp: find_tag)

lemma view_line:
  assumes "cache_ok s" "isValid (lineTag i w s)"
  shows "cache_view s (line_addr i (lineTag i w s) + ucast k) = lineBytes i w s k"
proof -
  let ?q = "line_addr i (lineTag i w s) + ucast k"
  have "?q AND NOT 0xFFF = tag_addr (lineTag i w s)" "hostIdx ?q = i" "ucast ?q = k"
    using line_split by blast+
  then show ?thesis using assms by (simp add: cache_view_def tag_matches_def find_iff [THEN iffD2])
qed


text \<open>Two states show the same memory when they agree line by line and on the host bytes outside
  the lines.\<close>

lemma host_in_line: "h (line_addr (hostIdx q) t + ucast (ucast q :: 6 word)) = h q" if "tag_addr t = q AND NOT 0xFFF"
proof -
  have "q = line_addr (hostIdx q) t + ucast (ucast q :: 6 word)" using that by (intro line_split [THEN iffD2]) simp
  then show ?thesis by simp
qed

lemma writeBack_frame:
  "lineTag j v (writeBackIfNeeded i w s) = (if j = i \<and> v = w \<and> isDirtyAndValid (lineTag i w s) then clearDirty (lineTag i w s) else lineTag j v s)"
  "lineBytes j v (writeBackIfNeeded i w s) = lineBytes j v s"
  "vmap (writeBackIfNeeded i w s) = vmap s"
  by (auto simp: writeBackIfNeeded_def Let_def)

lemma writeBack_matches: "tag_matches q (lineTag j v (writeBackIfNeeded i w s)) = tag_matches q (lineTag j v s)"
  by (simp add: writeBack_frame tag_matches_def)

lemma writeBack_host:
  assumes "line_ok i w s"
  shows "host (writeBackIfNeeded i w s) q =
    (if isDirtyAndValid (lineTag i w s) \<and> hostIdx q = i \<and> tag_matches q (lineTag i w s) then lineBytes i w s (ucast q) else host s q)"
proof (cases "isDirtyAndValid (lineTag i w s)")
  case True
  then have "isValid (lineTag i w s)" by (simp add: flag_bits)
  moreover from this assms have "isValidPFN (lineTag i w s)" by (simp add: line_ok_def Let_def)
  ultimately show ?thesis
    using True in_line [of q i "lineTag i w s"] by (auto simp: writeBackIfNeeded_def Let_def tag_matches_def)
qed (simp add: writeBackIfNeeded_def)

lemma writeBack_view:
  assumes "cache_ok s"
  shows "cache_view (writeBackIfNeeded i w s) = cache_view s"
proof
  fix q
  have ok: "line_ok i w s" using assms by (simp add: cache_ok_def)
  have "findInCache (cache (writeBackIfNeeded i w s) (hostIdx q)) q = findInCache (cache s (hostIdx q)) q"
    by (simp add: find_tag writeBack_matches)
  then show "cache_view (writeBackIfNeeded i w s) q = cache_view s q"
    using find_None [of s "hostIdx q" q]
    by (auto simp: cache_view_def writeBack_frame writeBack_host [OF ok] split: option.split)
qed

lemma writeBack_ok:
  assumes "cache_ok s"
  shows "cache_ok (writeBackIfNeeded i w s)" and "\<not> isDirtyAndValid (lineTag i w (writeBackIfNeeded i w s))"
proof -
  have ok: "line_ok j v s" for j v using assms by (simp add: cache_ok_def)
  have "line_ok j v (writeBackIfNeeded i w s)" for j v
  proof (cases "isDirtyAndValid (lineTag i w s)")
    case True
    note ok [of j v, unfolded line_ok_def Let_def]
    moreover have "host (writeBackIfNeeded i w s) (line_addr j (lineTag j v s) + ucast k) =
        (if j = i \<and> v = w then lineBytes i w s k else host s (line_addr j (lineTag j v s) + ucast k))"
      if "isValid (lineTag j v s)" for k
    proof -
      let ?q = "line_addr j (lineTag j v s) + ucast k"
      have q: "?q AND NOT 0xFFF = tag_addr (lineTag j v s)" "hostIdx ?q = j" "ucast ?q = k"
        using line_split by blast+
      then have "tag_matches ?q (lineTag j v s)" using that by (simp add: tag_matches_def)
      moreover have "tag_matches ?q (lineTag i w s) \<and> j = i \<longleftrightarrow> j = i \<and> v = w"
        using calculation cache_ok_distinct [OF assms, of ?q i w v] by auto
      ultimately show ?thesis using q True by (auto simp: writeBack_host [OF ok])
    qed
    ultimately show ?thesis
      by (auto simp: line_ok_def Let_def writeBack_frame line_addr_cong [of "clearDirty t" t for t])
  qed (use ok in \<open>simp add: writeBackIfNeeded_def\<close>)
  then show "cache_ok (writeBackIfNeeded i w s)" using assms by (auto simp: cache_ok_def writeBack_frame)
  show "\<not> isDirtyAndValid (lineTag i w (writeBackIfNeeded i w s))" by (simp add: writeBack_frame)
qed


lemma matches_iff: "tag_matches q t \<longleftrightarrow> isValid t \<and> tag_addr t = tag_addr q"
  by (simp add: tag_matches_def tag_addr_def)

text \<open>Filling a line that is not dirty from mapped memory that no line of its set holds.\<close>

definition fill_line :: "6 word \<Rightarrow> 1 word \<Rightarrow> u64 \<Rightarrow> 'd machine \<Rightarrow> 'd machine" where
  "fill_line i w ppf s = updTag i w toggleLRF (line_load i w ppf (updTag i w (setValidPFN True) s))"

lemma fill_frame:
  "lineTag j v (fill_line i w p s) =
    (if j = i \<and> v = w then toggleLRF (clearDirty (setValid (setAddr p (setValidPFN True (lineTag i w s))))) else lineTag j v s)"
  "lineBytes j v (fill_line i w p s) = (if j = i \<and> v = w then (\<lambda>k. host s ((p AND NOT 0x3F) + ucast k)) else lineBytes j v s)"
  "host (fill_line i w p s) = host s" "vmap (fill_line i w p s) = vmap s"
  by (auto simp: fill_line_def line_load_def Let_def)

lemma fill_matches:
  "tag_matches q (lineTag j v (fill_line i w p s)) =
    (if j = i \<and> v = w then tag_addr p = tag_addr q else tag_matches q (lineTag j v s))"
  by (simp add: fill_frame matches_iff)

lemma fill_ok:
  assumes "cache_ok s" "\<not> isDirtyAndValid (lineTag i w s)" "findInCache (cache s i) p = None" "hostIdx p = i"
  shows "cache_ok (fill_line i w p s)" and "cache_view (fill_line i w p s) = cache_view s"
proof -
  let ?s = "fill_line i w p s"
  have no: "\<not> tag_matches p (lineTag i v s)" for v using assms(3) by (simp add: find_None)
  have ok: "line_ok j v s" for j v using assms(1) by (simp add: cache_ok_def)
  have "line_ok j v ?s" for j v
  proof (cases "j = i \<and> v = w")
    case True
    then show ?thesis
      using ok [of i w] line_mask [of p] assms(4) line_addr_cong [of "toggleLRF (clearDirty (setValid (setAddr p (setValidPFN True (lineTag i w s)))))" p i]
      by (simp add: line_ok_def fill_frame Let_def)
  next
    case False
    then have "lineTag j v ?s = lineTag j v s" "lineBytes j v ?s = lineBytes j v s" by (auto simp: fill_frame)
    then show ?thesis using ok [of j v] by (simp add: line_ok_def Let_def fill_frame(3))
  qed
  moreover have "tag_addr (lineTag j 0 ?s) \<noteq> tag_addr (lineTag j 1 ?s)"
    if "isValid (lineTag j 0 ?s)" "isValid (lineTag j 1 ?s)" for j
    using that no [of 0] no [of 1] assms(1) way_cases [of w]
    by (auto simp: fill_frame cache_ok_def matches_iff split: if_splits)
  ultimately show ok': "cache_ok ?s" by (simp add: cache_ok_def)
  show "cache_view ?s = cache_view s"
  proof
    fix q
    show "cache_view ?s q = cache_view s q"
    proof (cases "findInCache (cache ?s (hostIdx q)) q")
      case None
      then have n: "\<not> tag_matches q (lineTag (hostIdx q) v ?s)" for v by (simp add: find_None)
      show ?thesis
      proof (cases "findInCache (cache s (hostIdx q)) q")
        case (Some v)
        then have m: "tag_matches q (lineTag (hostIdx q) v s)" by (rule find_Some)
        then have v: "hostIdx q = i" "v = w" using n [of v] by (auto simp: fill_matches split: if_splits)
        then have "lineBytes i w s (ucast q) = host s (line_addr i (lineTag i w s) + ucast (ucast q :: 6 word))"
          using ok [of i w] assms(2) m by (auto simp: line_ok_def Let_def tag_matches_def)
        also have "\<dots> = host s q" using host_in_line [of "lineTag i w s" q "host s"] m v by (simp add: tag_matches_def)
        finally show ?thesis using Some None v by (simp add: cache_view_def fill_frame(3))
      qed (use None in \<open>simp add: cache_view_def fill_frame(3)\<close>)
    next
      case (Some v)
      then have m: "tag_matches q (lineTag (hostIdx q) v ?s)" by (rule find_Some)
      show ?thesis
      proof (cases "hostIdx q = i \<and> v = w")
        case True
        then have p: "tag_addr p = tag_addr q" using m by (simp add: fill_matches)
        then have "findInCache (cache s i) q = None" using no by (simp add: find_None matches_iff)
        moreover have "host s ((p AND NOT 0x3F) + ucast (ucast q :: 6 word)) = host s q"
          using host_in_line [of p q "host s"] p assms(4) True line_mask [of p] by (simp add: tag_addr_def)
        ultimately show ?thesis using Some True by (simp add: cache_view_def fill_frame)
      next
        case False
        then have "tag_matches q (lineTag (hostIdx q) v s)" using m by (auto simp: fill_matches split: if_splits)
        then have "findInCache (cache s (hostIdx q)) q = Some v" by (simp add: find_iff [OF assms(1)])
        then show ?thesis using Some False by (auto simp: cache_view_def fill_frame)
      qed
    qed
  qed
qed

text \<open>A page table entry maps a page to a page: the offset of an address is that of its host address.\<close>

lemma page_offset_parts:
  assumes "p AND 0xFFF = ucast (a AND 0xFFF :: u32)"
  shows "hostIdx p = setIdxFor a" and "(ucast p :: 6 word) = ucast a"
proof -
  have m: "(0xFFF :: u64) = mask 12" "(0xFFF :: u32) = mask 12" by (simp_all add: mask_eq_exp_minus_1)
  have b: "bit p n = bit a n" if "n < 12" for n
    using arg_cong [OF assms, of "\<lambda>w. bit w n"] that
    by (simp only: m bit_and_iff bit_mask_iff bit_unsigned_iff possible_bit_def) (use that in \<open>auto dest: bit_imp_le_length\<close>)
  show "hostIdx p = setIdxFor a"
  proof (rule bit_word_eqI)
    fix n assume "n < LENGTH(6)"
    then show "bit (hostIdx p) n = bit (setIdxFor a) n" using b [of "6 + n"] by (simp add: bit_hostIdx setIdxFor_def bit_simps)
  qed
  show "(ucast p :: 6 word) = ucast a"
    by (rule bit_word_eqI) (use b in \<open>auto simp: bit_simps\<close>)
qed

lemma getFreeCache_ok:
  assumes "cache_ok s" "assumePtr (vmap s (vpage a)) a = p" "p AND 0xFFF = ucast (a AND 0xFFF :: u32)"
    and "getFreeCache a True s = ((i, w), t)"
  shows "i = hostIdx p" "cache_ok t" "cache_view t = cache_view s" "vmap t = vmap s" "tag_matches p (lineTag i w t)"
proof -
  have i: "setIdxFor a = hostIdx p" using page_offset_parts(1) [OF assms(3)] by simp
  have nl: "\<not> isLocked (tags (cache s j) v)" for j v
    using assms(1) by (simp add: cache_ok_def line_ok_def Let_def lineTag_def)
  let ?i = "hostIdx p" and ?w = "lrf_way (cache s (hostIdx p))"
  let ?u = "writeBackIfNeeded ?i ?w s"
  have "i = hostIdx p \<and> cache_ok t \<and> cache_view t = cache_view s \<and> vmap t = vmap s \<and> tag_matches p (lineTag i w t)"
  proof (cases "findInCache (cache s ?i) p")
    case None
    have "getFreeCache a True s = ((?i, ?w), fill_line ?i ?w p ?u)"
      using None nl by (simp add: getFreeCache_def Let_def i assms(2) fill_line_def)
    then have t: "i = ?i" "w = ?w" "t = fill_line ?i ?w p ?u" using assms(4) by simp_all
    have f: "findInCache (cache ?u ?i) p = None" using None by (simp add: find_None writeBack_matches)
    note wb = writeBack_ok [OF assms(1), of ?i ?w]
    show ?thesis
      using fill_ok [OF wb f refl] writeBack_view [OF assms(1), of ?i ?w] t by (simp add: fill_frame(4) writeBack_frame(3) fill_matches)
  next
    case (Some v)
    have "getFreeCache a True s = ((?i, v), s)" using Some nl by (simp add: getFreeCache_def Let_def i assms(2))
    then have "i = ?i" "w = v" "t = s" using assms(4) by simp_all
    then show "i = hostIdx p \<and> cache_ok t \<and> cache_view t = cache_view s \<and> vmap t = vmap s \<and> tag_matches p (lineTag i w t)"
      using assms(1) find_Some [OF Some] by simp
  qed
  then show "i = hostIdx p" "cache_ok t" "cache_view t = cache_view s" "vmap t = vmap s" "tag_matches p (lineTag i w t)"
    by blast+
qed


text \<open>A naturally aligned integer lies inside one line.\<close>

lemma aligned_in_line:
  assumes "n \<in> {1, 2, 4, 8, 16 :: nat}" "(a :: u32) AND (of_nat n - 1) = 0"
  shows "a AND NOT (of_nat n - 1) = a" "unat (ucast a :: 6 word) + n \<le> 64"
proof -
  obtain k where k: "n = 2 ^ k" "k \<le> 4"
    using assms(1) by (auto intro: that [of 0] that [of 1] that [of 2] that [of 3] that [of 4])
  have m: "(of_nat n - 1 :: u32) = mask k" using k by (simp add: mask_eq_exp_minus_1)
  show "a AND NOT (of_nat n - 1) = a"
  proof -
    have "a = (a AND mask k) OR (a AND NOT (mask k))" by (simp flip: bit.conj_disj_distrib)
    then show ?thesis using assms(2) m by simp
  qed
  have "unat a mod 2 ^ k = 0" using assms(2) unat_take_bit [of k a] by (simp add: m take_bit_eq_mask)
  moreover have "unat (ucast a :: 6 word) = unat a mod 2 ^ 6" by (simp add: unsigned_ucast_eq take_bit_eq_mod)
  moreover have "(2 :: nat) ^ k dvd 2 ^ 6" using k by (intro le_imp_power_dvd) simp
  ultimately have d: "n dvd unat (ucast a :: 6 word)" "n dvd 64" using k by (auto simp: mod_eq_0_iff_dvd dvd_mod)
  moreover have "unat (ucast a :: 6 word) < 64" using unsigned_less [of "ucast a :: 6 word", where 'a = nat] by simp
  ultimately obtain k l where kl: "unat (ucast a :: 6 word) = n * k" "64 = n * l" "n * k < n * l" by (metis dvdE)
  then have "k < l" by (simp only: mult_less_cancel1)
  then have "n * Suc k \<le> n * l" by (intro mult_le_mono2) simp
  then show "unat (ucast a :: 6 word) + n \<le> 64" using kl by simp
qed

lemma ucast_add6: "unat (off :: 6 word) + j < 64 \<Longrightarrow> ucast (off + of_nat j) = (ucast off + of_nat j :: u64)"
proof -
  assume *: "unat off + j < 64"
  have "unat (ucast (off + of_nat j) :: u64) = unat (off + of_nat j)" by (rule small_ucast)
  also have "\<dots> = unat off + j" using * by (simp add: unat_word_ariths unat_of_nat take_bit_nat_eq_self)
  also have "\<dots> = unat (ucast off + of_nat j :: u64)"
    using * by (simp add: unat_word_ariths unat_of_nat take_bit_nat_eq_self small_ucast)
  finally show ?thesis by (simp add: word_unat_eq_iff)
qed

lemma ucast_back: "ucast (ucast (k :: 6 word) :: u64) = k"
  by (rule bit_word_eqI) (auto simp: bit_simps)

lemma bytesLoad_view:
  assumes "cache_ok s" "tag_matches p (lineTag (hostIdx p) w s)" "8 dvd LENGTH('a)"
    and "unat (ucast p :: 6 word) + LENGTH('a) div 8 \<le> 64"
  shows "(bytesLoad (lineBytes (hostIdx p) w s) (ucast p) :: 'a::len word) = hostLoad (cache_view s) p"
proof (rule bit_word_eqI)
  fix k assume k: "k < LENGTH('a)"
  let ?o = "ucast p :: 6 word" and ?A = "line_addr (hostIdx p) (lineTag (hostIdx p) w s)"
  have j: "unat ?o + k div 8 < 64" using k assms(3,4) by (auto elim!: dvdE)
  have "p = ?A + ucast ?o" using assms(2) by (intro line_split [THEN iffD2]) (simp add: tag_matches_def)
  then have "p + of_nat (k div 8) = ?A + ucast (?o + of_nat (k div 8))" by (simp add: ucast_add6 [OF j])
  then have "cache_view s (p + of_nat (k div 8)) = lineBytes (hostIdx p) w s (?o + of_nat (k div 8))"
    using view_line [OF assms(1), of "hostIdx p" w] assms(2) by (simp add: tag_matches_def)
  moreover have "ucast (ucast ?o + of_nat (k div 8) :: u64) = ?o + of_nat (k div 8)"
    by (simp only: ucast_back flip: ucast_add6 [OF j])
  ultimately show "bit (bytesLoad (lineBytes (hostIdx p) w s) ?o :: 'a word) k = bit (hostLoad (cache_view s) p :: 'a word) k"
    by (simp add: bytesLoad_def bit_hostLoad [OF assms(3)])
qed


lemma store_view:
  fixes v :: "'a::len word"
  assumes "cache_ok s" "tag_matches p (lineTag (hostIdx p) w s)" "isDirtyAndValid (lineTag (hostIdx p) w s)"
    and "8 dvd LENGTH('a)" "LENGTH('a) \<le> 128" "unat (ucast p :: 6 word) + LENGTH('a) div 8 \<le> 64"
  defines "t \<equiv> updBytes (hostIdx p) w (bytesStore (ucast p) v) s"
  shows "cache_ok t" and "cache_view t = hostStore p v (cache_view s)"
proof -
  show ok: "cache_ok t"
    using assms(1,3) by (auto simp: cache_ok_def line_ok_def Let_def t_def)
  show "cache_view t = hostStore p v (cache_view s)"
  proof
    fix q
    let ?o = "ucast p :: 6 word" and ?i = "hostIdx p"
    have f: "findInCache (cache t j) q = findInCache (cache s j) q" for j
      unfolding find_tag t_def upd_simps ..
    note at = hostStore_at [OF assms(4,5)]
    have p: "p = line_addr ?i (lineTag ?i w s) + ucast ?o"
      using assms(2) by (intro line_split [THEN iffD2]) (simp add: tag_matches_def)
    show "cache_view t q = hostStore p v (cache_view s) q"
    proof (cases "hostIdx q = ?i \<and> tag_matches q (lineTag ?i w s)")
      case True
      then have q: "q = line_addr ?i (lineTag ?i w s) + ucast (ucast q :: 6 word)"
        by (intro line_split [THEN iffD2]) (simp add: tag_matches_def)
      then have d: "q - p = ucast (ucast q :: 6 word) - ucast ?o" using p by (metis add_diff_cancel_left)
      have "findInCache (cache s ?i) q = Some w" using True by (simp add: find_iff [OF assms(1)])
      then show ?thesis
        using True unfolding cache_view_def f at by (simp add: t_def bytesStore_def at d ucast_back)
    next
      case False
      have "\<not> unat (q - p) < LENGTH('a) div 8"
      proof
        assume *: "unat (q - p) < LENGTH('a) div 8"
        obtain j where j: "q = p + of_nat j" "unat ?o + j < 64"
          using * assms(6) by (intro that [of "unat (q - p)"]) simp_all
        have "q = p + of_nat j" by (rule j(1))
        also have "\<dots> = line_addr ?i (lineTag ?i w s) + (ucast ?o + of_nat j)" by (subst (1) p) simp
        also have "ucast ?o + of_nat j = (ucast (?o + of_nat j) :: u64)" by (rule ucast_add6 [OF j(2), symmetric])
        finally show False using False assms(2) line_split [of q ?i "lineTag ?i w s"] by (auto simp: tag_matches_def)
      qed
      moreover have "cache_view t q = cache_view s q"
      proof (cases "findInCache (cache s (hostIdx q)) q")
        case (Some v)
        then have "\<not> (hostIdx q = ?i \<and> v = w)" using find_Some False by fastforce
        then show ?thesis using Some unfolding cache_view_def f by (auto simp: t_def)
      next
        case None
        then show ?thesis unfolding cache_view_def f by (simp add: t_def)
      qed
      ultimately show ?thesis by (simp add: at)
    qed
  qed
qed

text \<open>One access at a time: reads see the view and keep it, writes update it.\<close>

lemma cached_access:
  assumes "cache_ok s" "assumePtr (vmap s (vpage a)) a = p" "p AND 0xFFF = ucast (a AND 0xFFF :: u32)"
    and "LENGTH('a) \<in> {8, 16, 32, 64, 128}" "a AND (of_nat (LENGTH('a::len) div 8) - 1) = 0"
  shows "\<exists>t. readCache a True s = (hostLoad (cache_view s) p :: 'a word, t) \<and>
      cache_ok t \<and> cache_view t = cache_view s \<and> vmap t = vmap s" (is ?R)
    and "cache_ok (writeCache a (v :: 'a word) True s)" (is ?O)
    and "cache_view (writeCache a v True s) = hostStore p v (cache_view s)" (is ?V)
    and "vmap (writeCache a v True s) = vmap s" (is ?M)
proof -
  obtain i w t where g: "getFreeCache a True s = ((i, w), t)" by (metis surj_pair)
  note ok = getFreeCache_ok [OF assms(1-3) g]
  have n: "LENGTH('a) div 8 \<in> {1, 2, 4, 8, 16}" "8 dvd LENGTH('a)" "LENGTH('a) \<le> 128" using assms(4) by auto
  note al = aligned_in_line [OF n(1) assms(5)]
  have o: "ucast p = (ucast a :: 6 word)" by (rule page_offset_parts(2) [OF assms(3)])
  have "readCache a True s = (bytesLoad (lineBytes i w t) (ucast p) :: 'a word, t)"
    by (simp add: readCache_def prepareCacheAccess_def g al(1) o)
  then show ?R using bytesLoad_view [OF ok(2), of p w, where 'a = 'a] ok n(2) al(2) o by simp
  let ?u = "updTag i w setDirty t"
  have u: "writeCache a v True s = updBytes i w (bytesStore (ucast p) v) ?u"
    by (simp add: writeCache_def prepareCacheAccess_def g al(1) o)
  have m: "tag_matches p (lineTag i w ?u)" "isDirtyAndValid (lineTag i w ?u)"
    using ok(5) by (simp_all add: matches_iff)
  have fu: "findInCache (cache ?u j) q = findInCache (cache t j) q" for j q
    by (cases "j = i"; cases "w = 0"; cases "w = 1") (simp_all add: find_tag matches_iff)
  have "line_ok j x ?u" for j x
    using ok(2) unfolding cache_ok_def line_ok_def Let_def by (cases "j = i \<and> x = w") auto
  moreover have "cache_view ?u = cache_view t"
    unfolding cache_view_def fu by (rule ext) (simp split: option.split)
  ultimately have k: "cache_ok ?u" "cache_view ?u = cache_view s"
    using ok(2,3) by (auto simp: cache_ok_def)
  note st = store_view [of ?u p w, where v = v, OF k(1) _ _ n(2,3)]
  show ?O ?V using st m ok(1) al(2) o k(2) u by simp_all
  show ?M using u ok(4) by simp
qed


text \<open>Writing everything back leaves the view in host memory.\<close>

lemma writeBack_all:
  fixes s :: "'d machine" and xs :: "nat list"
  defines "f \<equiv> \<lambda>i (s :: 'd machine). writeBackIfNeeded (of_nat i) 1 (writeBackIfNeeded (of_nat i) 0 s)"
  assumes "cache_ok s"
  shows "cache_ok (fold f xs s) \<and> cache_view (fold f xs s) = cache_view s \<and>
    (\<forall>i w. i \<in> of_nat ` set xs \<or> \<not> isDirtyAndValid (lineTag i w s) \<longrightarrow> \<not> isDirtyAndValid (lineTag i w (fold f xs s)))"
  using assms(2)
proof (induction xs arbitrary: s)
  case (Cons x xs)
  have ok: "cache_ok (f x s)" "cache_view (f x s) = cache_view s"
    by (simp_all add: f_def writeBack_ok(1) writeBack_view Cons.prems)
  have "\<not> isDirtyAndValid (lineTag i w (f x s))" if "i = of_nat x \<or> \<not> isDirtyAndValid (lineTag i w s)" for i w
    using that way_cases [of w] by (auto simp: f_def writeBack_frame)
  then show ?case using Cons.IH [OF ok(1)] ok(2) by auto
qed simp

lemma clean_view:
  assumes "cache_ok s" "\<And>i w. \<not> isDirtyAndValid (lineTag i w s)"
  shows "cache_view s = host s"
proof
  fix q
  show "cache_view s q = host s q"
  proof (cases "findInCache (cache s (hostIdx q)) q")
    case (Some w)
    then have m: "isValid (lineTag (hostIdx q) w s)" "tag_addr (lineTag (hostIdx q) w s) = q AND NOT 0xFFF"
      using find_Some by (auto simp: tag_matches_def)
    then have "lineBytes (hostIdx q) w s (ucast q) = host s q"
      using assms host_in_line [OF m(2), of "host s"] by (auto simp: cache_ok_def line_ok_def Let_def)
    then show ?thesis using Some by (simp add: cache_view_def)
  qed (simp add: cache_view_def)
qed

lemma writebackCache_flushes:
  assumes "cache_ok s"
  shows "cache_ok (writebackCache s)" "cache_view (writebackCache s) = cache_view s" "host (writebackCache s) = cache_view s"
proof -
  have "i \<in> of_nat ` set [0..<64]" for i :: "6 word"
  proof
    show "i = of_nat (unat i)" by simp
    show "unat i \<in> set [0..<64]" using unsigned_less [of i, where 'a = nat] by simp
  qed
  then have *: "cache_ok (writebackCache s)" "cache_view (writebackCache s) = cache_view s"
      "\<not> isDirtyAndValid (lineTag i w (writebackCache s))" for i w
    using writeBack_all [OF assms, of "[0..<64]"] by (simp_all add: writebackCache_def upt_rec [of _ 2] del: upt.simps)
  then show "cache_ok (writebackCache s)" "cache_view (writebackCache s) = cache_view s" "host (writebackCache s) = cache_view s"
    using clean_view [OF *(1,3)] by simp_all
qed

lemma resetCache_ok: "cache_ok (resetCache s)" "cache_view (resetCache s) = host s"
proof -
  have t: "lineTag i w (resetCache s) = 0" for i w by (simp add: lineTag_def resetCache_def)
  then have "line_ok i w (resetCache s)" for i w by (simp add: line_ok_def flag_bits)
  then show ok: "cache_ok (resetCache s)" by (simp add: cache_ok_def t flag_bits)
  show "cache_view (resetCache s) = host s"
    using clean_view [OF ok] t by (simp add: flag_bits resetCache_def)
qed

text \<open>Replacement: a miss fills the way that was filled less recently, which is then the other one.\<close>

lemma lrf_way_other:
  assumes "findInCache (cache s (setIdxFor a)) (assumePtr (vmap s (vpage a)) a) = None" "cache_ok s"
    and "getFreeCache a True s = ((i, w), t)"
  shows "w = lrf_way (cache s i)" "lrf_way (cache t i) = w XOR 1"
    and "(j, v) \<noteq> (i, w) \<Longrightarrow> lineTag j v t = lineTag j v s \<and> lineBytes j v t = lineBytes j v s"
proof -
  have nl: "\<not> isLocked (tags (cache s j) v)" for j v
    using assms(2) by (simp add: cache_ok_def line_ok_def Let_def lineTag_def)
  let ?i = "setIdxFor a" and ?w = "lrf_way (cache s (setIdxFor a))"
  have "getFreeCache a True s = ((?i, ?w), fill_line ?i ?w (assumePtr (vmap s (vpage a)) a) (writeBackIfNeeded ?i ?w s))"
    using assms(1) nl by (simp add: getFreeCache_def Let_def fill_line_def)
  then have t: "i = ?i" "w = ?w" "t = fill_line i w (assumePtr (vmap s (vpage a)) a) (writeBackIfNeeded i w s)"
    using assms(3) by simp_all
  then show "w = lrf_way (cache s i)" by simp
  show "(j, v) \<noteq> (i, w) \<Longrightarrow> lineTag j v t = lineTag j v s \<and> lineBytes j v t = lineBytes j v s"
    unfolding t(3) by (auto simp: fill_frame writeBack_frame)
  have lrf: "lrf (lineTag i v t) = (if v = w then \<not> lrf (lineTag i v s) else lrf (lineTag i v s))" for v
    unfolding t(3) by (auto simp: fill_frame writeBack_frame)
  have way: "lrf_way (cache r i) = (if lrf (lineTag i 0 r) \<noteq> lrf (lineTag i 1 r) then 1 else 0)" for r :: "'a machine"
    by (simp add: lrf_way_def lineTag_def)
  show "lrf_way (cache t i) = w XOR 1"
    using t(2) way_cases [of w] unfolding t(1) [symmetric] way lrf by auto
qed

text \<open>A hit on a locked line: the other way is used although it holds another line.\<close>

lemma locked_hit_reads_other_way:
  assumes "findInCache (cache s (setIdxFor a)) (assumePtr (vmap s (vpage a)) a) = Some w"
    and "isLocked (lineTag (setIdxFor a) w s)" "\<not> isLocked (lineTag (setIdxFor a) (w XOR 1) s)"
    and "a AND (of_nat (LENGTH('a::len) div 8) - 1) = 0" "LENGTH('a) \<in> {8, 16, 32, 64, 128}"
  shows "readCache a True s = (bytesLoad (lineBytes (setIdxFor a) (w XOR 1) s) (ucast a) :: 'a word, s)"
proof -
  have "LENGTH('a) div 8 \<in> {1, 2, 4, 8, 16}" using assms(5) by auto
  note al = aligned_in_line(1) [OF this assms(4)]
  show ?thesis
    using assms(1-3) by (simp add: readCache_def prepareCacheAccess_def getFreeCache_def Let_def lineTag_def al)
qed

lemma DXSTG_tag:
  assumes "fRt s = 0x12" "i = setIdxFor (UL 0 (GPR s (fRs s)) + scast (Imm s))" "w = ucast ((UL 0 (GPR s (fRs s)) + scast (Imm s)) AND 0x1)"
  shows "tag_addr (lineTag i w (CACHE s)) = tag_addr (ucast (CP0 s TagLo))"
    and "isDirtyAndValid (lineTag i w (CACHE s)) \<longleftrightarrow> bit (CP0 s TagLo) 6 \<and> bit (CP0 s TagLo) 5"
    and "isValidPFN (lineTag i w (CACHE s)) = isValidPFN (lineTag i w s)"
    and "lineBytes i w (CACHE s) = lineBytes i w s" "host (CACHE s) = host s"
proof -
  let ?v = "ucast (CP0 s TagLo) :: u64" and ?t = "lineTag i w s"
  let ?n = "(setAddr ?v ?t AND NOT 0x7FF) OR (?v AND 0x7FF)"
  have c: "CACHE s = updTag i w (\<lambda>t. (setAddr ?v t AND NOT 0x7FF) OR (?v AND 0x7FF)) s"
    by (simp add: CACHE_def Let_def assms)
  have b: "bit ?n n \<longleftrightarrow> (if n < 11 then bit ?v n else if n = 11 then bit ?t n else bit ?v n)" for n
  proof -
    have m: "(0x7FF :: u64) = mask 11" "(0xFFF :: u64) = mask 12" by (simp_all add: mask_eq_exp_minus_1)
    show ?thesis
    proof (cases "n < 64")
      case True
      then have "possible_bit TYPE(u64) n" by (simp add: possible_bit_def)
      then show ?thesis
        unfolding setAddr_def m bit_or_iff bit_and_iff bit_not_iff bit_mask_iff
        by (cases "n < 11"; cases "n = 11") auto
    next
      case False
      then have "\<not> bit x n" for x :: u64 using bit_imp_le_length [of x n] by auto
      then show ?thesis using False by simp
    qed
  qed
  have n: "lineTag i w (CACHE s) = ?n" by (simp only: c upd_simps) simp
  show "tag_addr (lineTag i w (CACHE s)) = tag_addr ?v"
    unfolding tag_addr_def n by (rule bit_word_eqI) (auto simp only: bit_page(2) b split: if_splits)
  show "isDirtyAndValid (lineTag i w (CACHE s)) \<longleftrightarrow> bit (CP0 s TagLo) 6 \<and> bit (CP0 s TagLo) 5"
    "isValidPFN (lineTag i w (CACHE s)) = isValidPFN (lineTag i w s)"
    unfolding n flag_bits b by (simp_all add: bit_unsigned_iff)
  show "lineBytes i w (CACHE s) = lineBytes i w s" "host (CACHE s) = host s" by (simp_all add: c)
qed

text \<open>The processor registers are not touched.\<close>

lemma cache_frame [simp]:
  "GPR (updTag i w f s) = GPR s" "GPR (updBytes i w g s) = GPR s" "code (updTag i w f s) = code s" "code (updBytes i w g s) = code s"
  "GPR (writeBackIfNeeded i w s) = GPR s" "code (writeBackIfNeeded i w s) = code s"
  "GPR (line_load i w p s) = GPR s" "code (line_load i w p s) = code s"
  "GPR (line_clear i w s) = GPR s" "GPR (CACHE s) = GPR s"
  by (simp_all add: updTag_def updBytes_def writeBackIfNeeded_def line_load_def line_clear_def doCacheHitOp_def CACHE_def Let_def
    split: option.split)

lemma getFreeCache_frame [simp]: "GPR (snd (getFreeCache a v s)) = GPR s" "code (snd (getFreeCache a v s)) = code s"
  by (simp_all add: getFreeCache_def Let_def split: option.split)

lemma access_frame [simp]:
  "GPR (snd (readCache a v s)) = GPR s" "code (snd (readCache a v s)) = code s"
  "GPR (writeCache a x v s) = GPR s" "code (writeCache a x v s) = code s"
  using getFreeCache_frame [of a v s]
  by (cases "getFreeCache a v s"; force simp: readCache_def writeCache_def prepareCacheAccess_def Let_def split: prod.split)+

end
