(* ===== verification/VTLB.thy ===== *)
theory VTLB
  imports "HOL-Library.Multiset" EE_Cache
begin

text \<open>
  The virtual memory of the Emotion Engine (\<^verbatim>\<open>pcsx2/vtlb.h\<close>, \<^verbatim>\<open>pcsx2/vtlb.cpp\<close>) as
  the interpreter uses it. A page table of one 64-bit word per 4 KiB page holds either a host
  pointer or a handler number and physical address, biased by the virtual address so that one
  addition resolves an access. The theory models the packing, the mapping operations on the
  physical and virtual tables, the accessors, the handlers of unmapped pages, and the page-wise
  block copies; it shows that the packed table implements an abstract page table.

  Device handlers are reached through \<open>mem_env\<close>, an argument of the accessors; the data cache, an
  option of the emulator, is that of theory \<open>EE_Cache\<close>.
  The fastmem mirror of the tables serves only the recompilers and is left out, as are console
  messages. Pages are counted by \<open>size div 4096\<close>: the source asserts that sizes are multiples of
  the page size, and \<open>vtlb_VMap_loop_returns\<close> relates that to its loop.
\<close>

section \<open>The environment of the accessors\<close>

text \<open>What the accessors call: whether the data cache is on, and the device handlers registered for a
  handler number. Values are carried in 128 bits.\<close>

record 'd mem_env =
  CHECK_CACHE :: bool
  hw_read :: "nat \<Rightarrow> u8 \<Rightarrow> u32 \<Rightarrow> 'd machine \<Rightarrow> (u128, 'd machine) outcome"
  hw_write :: "nat \<Rightarrow> u8 \<Rightarrow> u32 \<Rightarrow> u128 \<Rightarrow> 'd machine \<Rightarrow> (unit, 'd machine) outcome"

section \<open>Mapping operations\<close>

text \<open>The addresses of the pages a range of \<open>size\<close> bytes covers, in ascending order.\<close>

definition pages :: "u32 \<Rightarrow> u32 list" where
  "pages sz = map (\<lambda>i. of_nat i * 0x1000) [0..<unat sz div 0x1000]"

definition vtlb_MapHandler :: "u8 \<Rightarrow> u32 \<Rightarrow> u32 \<Rightarrow> 'd machine \<Rightarrow> 'd machine" where
  "vtlb_MapHandler handler start sz s =
     fold (\<lambda>o1 s. s\<lparr>pmap := (pmap s)(ppage (start + o1) := fromHandler handler)\<rparr>) (pages sz) s"

text \<open>The block repeats: page \<open>o1\<close> of the range shows page \<open>o1 mod blocksize\<close> of the buffer.\<close>

definition vtlb_MapBlock :: "u64 \<Rightarrow> u32 \<Rightarrow> u32 \<Rightarrow> u32 \<Rightarrow> 'd machine \<Rightarrow> 'd machine" where
  "vtlb_MapBlock base start sz blocksize s =
     (let blocksize = (if blocksize = 0 then sz else blocksize) in
      fold (\<lambda>o1 s. s\<lparr>pmap := (pmap s)(ppage (start + o1) := fromPointer (base + ucast (o1 mod blocksize)))\<rparr>)
        (pages sz) s)"

definition vtlb_Mirror :: "u32 \<Rightarrow> u32 \<Rightarrow> u32 \<Rightarrow> 'd machine \<Rightarrow> 'd machine" where
  "vtlb_Mirror new_region start sz s =
     fold (\<lambda>o1 s. s\<lparr>pmap := (pmap s)(ppage (start + o1) := pmap s (ppage (new_region + o1)))\<rparr>) (pages sz) s"

definition vtlb_GetPhyPtr :: "u32 \<Rightarrow> 'd machine \<Rightarrow> u64 option" where
  "vtlb_GetPhyPtr paddr s =
     (if VTLB_PMAP_SZ \<le> paddr \<or> phys_isHandler (pmap s (ppage paddr)) then None
      else Some (pmap s (ppage paddr) + ucast (paddr AND 0xFFF)))"

definition vtlb_V2P :: "u32 \<Rightarrow> (20 word \<Rightarrow> u32) \<Rightarrow> u32" where
  "vtlb_V2P vaddr pp = pp (vpage vaddr) OR (vaddr AND 0xFFF)"

text \<open>One iteration of the loop of \<^verbatim>\<open>vtlb_VMap\<close>.\<close>

definition vtlb_VMap_page :: "u32 \<Rightarrow> u32 \<Rightarrow> 'd machine \<Rightarrow> 'd machine" where
  "vtlb_VMap_page vaddr paddr s =
     (let vmv = (if VTLB_PMAP_SZ \<le> paddr then VTLBVirtual (fromHandler UnmappedPhyHandler) paddr vaddr
                 else VTLBVirtual (pmap s (ppage paddr)) paddr vaddr);
          s = s\<lparr>vmap := (vmap s)(vpage vaddr := vmv)\<rparr>
      in case ppmap s of
           None \<Rightarrow> s
         | Some pp \<Rightarrow> if vaddr AND 0x80000000 = 0
                      then s\<lparr>ppmap := Some (pp(vpage vaddr := paddr AND NOT 0xFFF))\<rparr> else s)"

definition vtlb_VMap :: "u32 \<Rightarrow> u32 \<Rightarrow> u32 \<Rightarrow> 'd machine \<Rightarrow> 'd machine" where
  "vtlb_VMap vaddr paddr sz s = fold (\<lambda>o1. vtlb_VMap_page (vaddr + o1) (paddr + o1)) (pages sz) s"

partial_function (option) vtlb_VMap_loop :: "u32 \<Rightarrow> u32 \<Rightarrow> u32 \<Rightarrow> 'd machine \<Rightarrow> 'd machine option" where
  "vtlb_VMap_loop vaddr paddr sz s =
     (if sz = 0 then Some s
      else vtlb_VMap_loop (vaddr + 0x1000) (paddr + 0x1000) (sz - 0x1000) (vtlb_VMap_page vaddr paddr s))"

definition vtlb_VMapBuffer :: "u32 \<Rightarrow> u64 \<Rightarrow> u32 \<Rightarrow> 'd machine \<Rightarrow> 'd machine" where
  "vtlb_VMapBuffer vaddr buffer sz s =
     fold (\<lambda>o1 s. s\<lparr>vmap := (vmap s)(vpage (vaddr + o1) :=
       VTLBVirtual (fromPointer (buffer + ucast o1)) 0 (vaddr + o1))\<rparr>) (pages sz) s"

definition vtlb_VMapUnmap :: "u32 \<Rightarrow> u32 \<Rightarrow> 'd machine \<Rightarrow> 'd machine" where
  "vtlb_VMapUnmap vaddr sz s =
     fold (\<lambda>o1 s. s\<lparr>vmap := (vmap s)(vpage (vaddr + o1) :=
       VTLBVirtual (fromHandler UnmappedVirtHandler) (vaddr + o1) (vaddr + o1))\<rparr>) (pages sz) s"

text \<open>\<^verbatim>\<open>memSetPageAddr\<close> and \<^verbatim>\<open>memClearPageAddr\<close> of \<^verbatim>\<open>pcsx2/Memory.cpp\<close>.\<close>

definition memSetPageAddr :: "u32 \<Rightarrow> u32 \<Rightarrow> 'd machine \<Rightarrow> 'd machine" where
  "memSetPageAddr vaddr paddr s = vtlb_VMap vaddr paddr 0x1000 s"

definition memClearPageAddr :: "u32 \<Rightarrow> 'd machine \<Rightarrow> 'd machine" where
  "memClearPageAddr vaddr s = vtlb_VMapUnmap vaddr 0x1000 s"

text \<open>The table part of \<^verbatim>\<open>vtlb_Init\<close>: default handler on the physical side, everything
  unmapped on the virtual side.\<close>

definition vtlb_Init :: "'d machine \<Rightarrow> 'd machine" where
  "vtlb_Init s =
     vtlb_VMapUnmap 0xFFFFF000 0x1000 (vtlb_VMapUnmap 0 0xFFFFF000 (vtlb_MapHandler DefaultPhyHandler 0 VTLB_PMAP_SZ s))"

section \<open>The TLB cache of one game\<close>

text \<open>A game fix reads a table the game keeps in main memory, which starts at host address \<open>Main\<close>:
  150 entries of nine words each (\<^verbatim>\<open>struct GoemonTlb\<close>).\<close>

record GoemonTlb =
  gtValid :: u32
  gtLow :: u32
  gtPhysical :: u32
  gtHigh :: u32
  gtKey :: u32

definition goemon_entry :: "u64 \<Rightarrow> nat \<Rightarrow> u64" where
  "goemon_entry Main i = Main + 0x3d5580 + 36 * of_nat i"

definition goemon_load :: "u64 \<Rightarrow> nat \<Rightarrow> 'd machine \<Rightarrow> GoemonTlb" where
  "goemon_load Main i s =
     (let a = goemon_entry Main i; w = (\<lambda>n. hostLoad (host s) (a + 4 * n) :: u32) in
      \<lparr>gtValid = w 0, gtLow = w 3, gtPhysical = w 4, gtHigh = w 6, gtKey = w 7\<rparr>)"

definition GoemonPreloadTlb :: "u64 \<Rightarrow> 'd machine \<Rightarrow> 'd machine" where
  "GoemonPreloadTlb Main s =
     fold (\<lambda>i s. let t = goemon_load Main i s in
       if gtValid t = 0x1 \<and> gtLow t \<noteq> gtHigh t then
         (let size = gtHigh t - gtLow t; vaddr = gtLow t; paddr = gtPhysical t; vmv = vmap s (vpage vaddr) in
          if virt_isHandler vmv vaddr \<and> assumeHandlerGetID vmv = 0
          then vtlb_VMap (0x20000000 OR vaddr) paddr size (vtlb_VMap vaddr paddr size s)
          else s)
       else s) [0..<150] s"

definition GoemonUnloadTlb :: "u64 \<Rightarrow> u32 \<Rightarrow> 'd machine \<Rightarrow> 'd machine" where
  "GoemonUnloadTlb Main key s =
     fold (\<lambda>i s. let t = goemon_load Main i s; a = goemon_entry Main i in
       if gtKey t = key \<and> gtValid t = 0x1 then
         (let size = gtHigh t - gtLow t; vaddr = gtLow t;
              s = vtlb_VMapUnmap (0x20000000 OR vaddr) size (vtlb_VMapUnmap vaddr size s)
          in s\<lparr>host := hostStore (a + 24) (0xFEFEFEFE :: u32) (hostStore (a + 12) (0xFEFEFEFE :: u32)
               (hostStore (a + 28) (0xFEFEFEFE :: u32) (hostStore a (0 :: u32) (host s))))\<rparr>)
       else s) [0..<150] s"

section \<open>Is an address in a cached TLB page?\<close>

text \<open>
  The vector part of \<^verbatim>\<open>CheckCache\<close> examines four entries at a time. The address vector is built by
  \<^verbatim>\<open>GSVector4i::load(int)\<close>, which fills lane 0 and zeroes the others; comparisons are signed;
  the upper bound of the even page is taken from the odd page. All three are modelled as written.
\<close>

definition CheckCache_lane :: "cachedTlbs_t \<Rightarrow> u32 \<Rightarrow> nat \<Rightarrow> nat \<Rightarrow> bool" where
  "CheckCache_lane c addr i l =
     (let a = (if l = 0 then addr else 0); k = i + l;
          cmp1 = (PFN1s c k \<le>s a \<and> a \<le>s PFN1s c k + PageMasks c k);
          cmp0 = (PFN0s c k \<le>s a \<and> a \<le>s PFN1s c k + PageMasks c k)
      in (cmp1 \<and> CacheEnabled1 c k \<noteq> 0) \<or> (cmp0 \<and> CacheEnabled0 c k \<noteq> 0))"

definition CheckCache_scalar :: "cachedTlbs_t \<Rightarrow> u32 \<Rightarrow> nat \<Rightarrow> bool" where
  "CheckCache_scalar c addr i =
     (let msk = PageMasks c i in
      (CacheEnabled1 c i \<noteq> 0 \<and> PFN1s c i \<le> addr \<and> addr \<le> PFN1s c i + msk) \<or>
      (CacheEnabled0 c i \<noteq> 0 \<and> PFN0s c i \<le> addr \<and> addr \<le> PFN0s c i + msk))"

definition CheckCache :: "u32 \<Rightarrow> 'd machine \<Rightarrow> bool" where
  "CheckCache addr s \<longleftrightarrow>
     drop_bit 16 (CP0 s Config) AND 0x1 \<noteq> 0 \<and>
     (let c = cachedTlbs s; blocks = count c div 4 in
      (\<exists>b \<in> set [0..<blocks]. \<exists>l \<in> set [0, 1, 2, 3]. CheckCache_lane c addr (4 * b) l) \<or>
      (\<exists>i \<in> set [4 * blocks..<count c]. CheckCache_scalar c addr i))"

section \<open>Unmapped pages and device handlers\<close>

text \<open>\<^verbatim>\<open>vtlb_Miss\<close> under the interpreter: take the TLB refill exception and abandon the
  instruction. A bus error only reports; the read then gives zero, or the cached value.\<close>

definition vtlb_Miss :: "u32 \<Rightarrow> bool \<Rightarrow> 'd machine \<Rightarrow> 'd machine" where
  "vtlb_Miss addr mode s =
     (if mode then cpuTlbMissW addr (branch s) s else cpuTlbMissR addr (branch s) s)"

definition vtlbUnmappedPRead :: "'d mem_env \<Rightarrow> nat \<Rightarrow> u32 \<Rightarrow> 'd machine \<Rightarrow> u128 \<times> 'd machine" where
  "vtlbUnmappedPRead E bits addr s =
     (if CHECK_CACHE E \<and> CheckCache addr s
      then if bits = 8 then map_prod ucast id (readCache addr False s :: u8 \<times> 'd machine)
           else if bits = 16 then map_prod ucast id (readCache addr False s :: u16 \<times> 'd machine)
           else if bits = 32 then map_prod ucast id (readCache addr False s :: u32 \<times> 'd machine)
           else if bits = 64 then map_prod ucast id (readCache addr False s :: u64 \<times> 'd machine)
           else readCache addr False s
      else (0, s))"

definition vtlbUnmappedPWrite :: "'d mem_env \<Rightarrow> nat \<Rightarrow> u32 \<Rightarrow> u128 \<Rightarrow> 'd machine \<Rightarrow> 'd machine" where
  "vtlbUnmappedPWrite E bits addr data s =
     (if CHECK_CACHE E \<and> CheckCache addr s
      then if bits = 8 then writeCache addr (ucast data :: u8) False s
           else if bits = 16 then writeCache addr (ucast data :: u16) False s
           else if bits = 32 then writeCache addr (ucast data :: u32) False s
           else if bits = 64 then writeCache addr (ucast data :: u64) False s
           else writeCache addr data False s
      else s)"

definition call_read :: "'d mem_env \<Rightarrow> nat \<Rightarrow> u8 \<Rightarrow> u32 \<Rightarrow> 'd machine \<Rightarrow> (u128, 'd machine) outcome" where
  "call_read E bits hand paddr s =
     (if hand = UnmappedVirtHandler then Cancelled (vtlb_Miss paddr False s)
      else if hand = UnmappedPhyHandler then (case vtlbUnmappedPRead E bits paddr s of (v, s) \<Rightarrow> Ok v s)
      else if hand = DefaultPhyHandler then Ok 0 s
      else hw_read E bits hand paddr s)"

definition call_write :: "'d mem_env \<Rightarrow> nat \<Rightarrow> u8 \<Rightarrow> u32 \<Rightarrow> u128 \<Rightarrow> 'd machine \<Rightarrow> (unit, 'd machine) outcome" where
  "call_write E bits hand paddr data s =
     (if hand = UnmappedVirtHandler then Cancelled (vtlb_Miss paddr True s)
      else if hand = UnmappedPhyHandler then Ok () (vtlbUnmappedPWrite E bits paddr data s)
      else if hand = DefaultPhyHandler then Ok () s
      else hw_write E bits hand paddr data s)"

section \<open>Accessors\<close>

definition vtlb_memRead :: "'d mem_env \<Rightarrow> u32 \<Rightarrow> 'd machine \<Rightarrow> ('a::len word, 'd machine) outcome" where
  "vtlb_memRead E addr s =
     (let vmv = vmap s (vpage addr) in
      if \<not> virt_isHandler vmv addr
      then if CHECK_CACHE E \<and> CheckCache addr s
           then (case readCache addr True s of (v, s) \<Rightarrow> Ok v s)
           else Ok (hostLoad (host s) (assumePtr vmv addr)) s
      else obind (call_read E LENGTH('a) (assumeHandlerGetID vmv) (assumeHandlerGetPAddr vmv addr) s)
             (\<lambda>v s. Ok (ucast v) s))"

definition vtlb_memWrite :: "'d mem_env \<Rightarrow> u32 \<Rightarrow> 'a::len word \<Rightarrow> 'd machine \<Rightarrow> (unit, 'd machine) outcome" where
  "vtlb_memWrite E addr data s =
     (let vmv = vmap s (vpage addr) in
      if \<not> virt_isHandler vmv addr
      then if CHECK_CACHE E \<and> CheckCache addr s
           then Ok () (writeCache addr data True s)
           else Ok () (s\<lparr>host := hostStore (assumePtr vmv addr) data (host s)\<rparr>)
      else call_write E LENGTH('a) (assumeHandlerGetID vmv) (assumeHandlerGetPAddr vmv addr) (ucast data) s)"

definition vtlb_memRead128 :: "'d mem_env \<Rightarrow> u32 \<Rightarrow> 'd machine \<Rightarrow> (u128, 'd machine) outcome" where
  "vtlb_memRead128 E mem s = vtlb_memRead E mem s"

definition vtlb_memWrite128 :: "'d mem_env \<Rightarrow> u32 \<Rightarrow> u128 \<Rightarrow> 'd machine \<Rightarrow> (unit, 'd machine) outcome" where
  "vtlb_memWrite128 E mem v s = vtlb_memWrite E mem v s"

text \<open>The accessors for tools, which never call a handler.\<close>

definition vtlb_ramRead :: "u32 \<Rightarrow> 'd machine \<Rightarrow> 'a::len word option" where
  "vtlb_ramRead addr s =
     (let vmv = vmap s (vpage addr) in
      if virt_isHandler vmv addr then None else Some (hostLoad (host s) (assumePtr vmv addr)))"

definition vtlb_ramWrite :: "u32 \<Rightarrow> 'a::len word \<Rightarrow> 'd machine \<Rightarrow> 'd machine option" where
  "vtlb_ramWrite addr data s =
     (let vmv = vmap s (vpage addr) in
      if virt_isHandler vmv addr then None
      else Some (s\<lparr>host := hostStore (assumePtr vmv addr) data (host s)\<rparr>))"

definition remaining_in_page :: "u32 \<Rightarrow> nat \<Rightarrow> nat" where
  "remaining_in_page mem n = min (0x1000 - unat (mem AND 0xFFF)) n"

lemma page_offset_less: "unat ((mem :: u32) AND 0xFFF) < 0x1000"
proof -
  have "mem AND 0xFFF \<le> 0xFFF" by (rule word_and_le1)
  then have "unat (mem AND 0xFFF) \<le> unat (0xFFF :: u32)" by (simp add: word_le_nat_alt)
  then show ?thesis by simp
qed

lemma remaining_pos: "0 < n \<Longrightarrow> 0 < remaining_in_page mem n" "remaining_in_page mem n \<le> n"
  using page_offset_less [of mem] by (auto simp: remaining_in_page_def)

function vtlb_memSafeReadBytes :: "u32 \<Rightarrow> nat \<Rightarrow> 'd machine \<Rightarrow> u8 list option" where
  "vtlb_memSafeReadBytes mem n s =
     (if n = 0 then Some []
      else let vmv = vmap s (vpage mem) in
        if virt_isHandler vmv mem then None
        else let r = remaining_in_page mem n;
                 chunk = map (\<lambda>i. host s (assumePtr vmv mem + of_nat i)) [0..<r]
             in map_option ((@) chunk) (vtlb_memSafeReadBytes (mem + of_nat r) (n - r) s))"
  by pat_completeness auto
termination
  by (relation "measure (\<lambda>(mem, n, s). n)") (use remaining_pos in auto)

text \<open>The write stops at the first unmapped page; what was copied before stays.\<close>

definition poke :: "u64 \<Rightarrow> u8 list \<Rightarrow> (u64 \<Rightarrow> u8) \<Rightarrow> (u64 \<Rightarrow> u8)" where
  "poke a bs h = fold (\<lambda>i h. h(a + of_nat i := bs ! i)) [0..<length bs] h"

function vtlb_memSafeWriteBytes :: "u32 \<Rightarrow> u8 list \<Rightarrow> 'd machine \<Rightarrow> bool \<times> 'd machine" where
  "vtlb_memSafeWriteBytes mem src s =
     (if src = [] then (True, s)
      else let vmv = vmap s (vpage mem) in
        if virt_isHandler vmv mem then (False, s)
        else let r = remaining_in_page mem (length src)
             in vtlb_memSafeWriteBytes (mem + of_nat r) (drop r src)
                  (s\<lparr>host := poke (assumePtr vmv mem) (take r src) (host s)\<rparr>))"
  by pat_completeness auto
termination
  by (relation "measure (\<lambda>(mem, src, s). length src)") (use remaining_pos in auto)

section \<open>What a packed entry means\<close>

text \<open>An access goes to a host address, or to a handler with a physical address.\<close>

datatype target = Ptr u64 | Handler u8 u32

definition resolve :: "u64 \<Rightarrow> u32 \<Rightarrow> target" where
  "resolve v addr =
     (if virt_isHandler v addr then Handler (assumeHandlerGetID v) (assumeHandlerGetPAddr v addr)
      else Ptr (assumePtr v addr))"

definition aligned :: "u32 \<Rightarrow> bool" where
  "aligned a \<longleftrightarrow> a AND 0xFFF = 0"

text \<open>Entries the mapping functions put in the physical table: a handler number, or a host
  pointer low enough that the page does not reach the sign bit.\<close>

definition wf_phys :: "u64 \<Rightarrow> bool" where
  "wf_phys p \<longleftrightarrow> (if phys_isHandler p then p = fromHandler (phys_assumeHandler p) else p \<le> 0x7FFFFFFFFFFFF000)"

lemma mask_12: "(0xFFF :: u32) = mask 12" by (simp add: mask_eq_exp_minus_1)

lemma bit_offset: "bit ((a :: u32) AND 0xFFF) n \<longleftrightarrow> n < 12 \<and> bit a n"
  unfolding mask_12 by (auto simp: bit_simps dest: bit_imp_le_length)

lemma aligned_bit: "aligned a \<Longrightarrow> n < 12 \<Longrightarrow> \<not> bit a n"
  unfolding aligned_def using bit_offset [of a n] by auto

lemma vpage_bit: "vpage a = vpage b \<Longrightarrow> 12 \<le> n \<Longrightarrow> bit a n = bit b n"
proof -
  assume *: "vpage a = vpage b" "12 \<le> n"
  have "bit (vpage c) (n - 12) \<longleftrightarrow> bit c n" for c :: u32
    using \<open>12 \<le> n\<close> bit_imp_le_length [of c n] by (auto simp: vpage_def bit_simps)
  with * show ?thesis by metis
qed

lemma split_addr:
  assumes "aligned v" "vpage a = vpage v"
  shows "a = v + (a AND 0xFFF)" and "(ucast a :: u64) = ucast v + ucast (a AND 0xFFF)"
proof -
  have d: "v AND (a AND 0xFFF) = 0"
  proof (rule bit_word_eqI)
    fix n
    show "bit (v AND (a AND 0xFFF)) n = bit (0 :: u32) n"
      unfolding bit_and_iff [of v "a AND 0xFFF"] bit_offset using aligned_bit [OF assms(1)] by auto
  qed
  have o: "a = v OR (a AND 0xFFF)"
  proof (rule bit_word_eqI)
    fix n assume "n < LENGTH(32)"
    show "bit a n = bit (v OR (a AND 0xFFF)) n"
      using aligned_bit [OF assms(1), of n] vpage_bit [OF assms(2), of n]
      by (cases "n < 12") (auto simp: bit_or_iff bit_offset)
  qed
  then show "a = v + (a AND 0xFFF)" using disjunctive_add_eq_or [OF d] by simp
  have "(ucast v :: u64) AND ucast (a AND 0xFFF) = 0"
    unfolding unsigned_and_eq [symmetric] d by simp
  then have "(ucast v :: u64) + ucast (a AND 0xFFF) = ucast v OR ucast (a AND 0xFFF)"
    by (rule disjunctive_add_eq_or)
  also have "\<dots> = ucast (v OR (a AND 0xFFF))" by (rule unsigned_or_eq [symmetric])
  finally show "(ucast a :: u64) = ucast v + ucast (a AND 0xFFF)" using o by simp
qed

lemma bit_sign: "bit POINTER_SIGN_BIT n \<longleftrightarrow> n = 63"
proof -
  have "bit (push_bit 63 1 :: u64) n \<longleftrightarrow> 63 \<le> n \<and> n < 64 \<and> n - 63 = 0"
    by (simp only: bit_push_bit_iff bit_1_iff) auto
  then show ?thesis unfolding POINTER_SIGN_BIT_def by auto
qed

lemma fromHandler_add: "fromHandler h = ucast h + 0x8000000000000000"
proof -
  have "(ucast h :: u64) AND POINTER_SIGN_BIT = 0"
  proof (rule bit_word_eqI)
    fix n
    show "bit ((ucast h :: u64) AND POINTER_SIGN_BIT) n = bit (0 :: u64) n"
      unfolding bit_and_iff bit_sign using bit_imp_le_length [of h n] by (auto simp: bit_simps)
  qed
  then show ?thesis unfolding fromHandler_def by (simp add: disjunctive_add_eq_or [symmetric] POINTER_SIGN_BIT_def)
qed

lemma unat_ucast_up: "LENGTH('a::len) \<le> LENGTH('b::len) \<Longrightarrow> unat (ucast (w :: 'a word) :: 'b word) = unat w"
proof -
  assume "LENGTH('a) \<le> LENGTH('b)"
  then have "(2 :: nat) ^ LENGTH('a) \<le> 2 ^ LENGTH('b)" by (intro power_increasing) auto
  then have "unat w < 2 ^ LENGTH('b)" using unsigned_less [of w, where 'a = nat] by linarith
  then show ?thesis by (simp add: unsigned_ucast_eq take_bit_nat_eq_self)
qed

lemma handler_unat:
  assumes "unat off < 0x1000"
  shows "unat (fromHandler h + ucast (p :: u32) + ucast (off :: u32)) = 2 ^ 63 + unat h + unat p + unat off"
proof -
  have "unat h < 256" "unat p < 4294967296" using unsigned_less [of h, where 'a = nat] unsigned_less [of p, where 'a = nat] by simp_all
  then have "2 ^ 63 + unat h + unat p + unat off < 2 ^ 64" using assms by simp
  then show ?thesis by (simp add: fromHandler_add unat_word_ariths unat_ucast_up)
qed

lemma neg_iff_unat: "(w :: u64) <s 0 \<longleftrightarrow> 2 ^ 63 \<le> unat w"
proof -
  have "w <s 0 \<longleftrightarrow> bit w 63" using bit_last_iff [of w] by (simp add: word_sless_alt)
  also have "\<dots> \<longleftrightarrow> bit (unat w) 63" by (simp add: bit_unsigned_iff)
  also have "\<dots> \<longleftrightarrow> odd (unat w div 2 ^ 63)" by (rule bit_iff_odd)
  also have "\<dots> \<longleftrightarrow> 2 ^ 63 \<le> unat w"
  proof -
    have "unat w < 2 ^ 64" using unsigned_less [of w, where 'a = nat] by simp
    then have "unat w div 2 ^ 63 = 0 \<or> unat w div 2 ^ 63 = 1" by auto
    then show ?thesis by (auto simp: div_eq_0_iff)
  qed
  finally show ?thesis .
qed

lemma aligned_ucast: "aligned a \<Longrightarrow> (ucast a :: u8) = 0"
  by (rule bit_word_eqI) (use aligned_bit [of a] in \<open>auto simp: bit_simps\<close>)

lemma ucast_down_arith:
  fixes x y :: "'a::len word"
  assumes "LENGTH('b::len) \<le> LENGTH('a)"
  shows "(ucast (x + y) :: 'b word) = ucast x + ucast y" "(ucast (x - y) :: 'b word) = ucast x - ucast y"
proof -
  have d: "is_down (ucast :: 'a word \<Rightarrow> 'b word)" using assms by (simp add: is_down)
  have "x + y = word_of_int (uint x + uint y)" "x - y = word_of_int (uint x - uint y)" by simp_all
  then have "(ucast (x + y) :: 'b word) = word_of_int (uint x + uint y)" "(ucast (x - y) :: 'b word) = word_of_int (uint x - uint y)"
    by (simp_all only: ucast_down_wi [OF d])
  then show "(ucast (x + y) :: 'b word) = ucast x + ucast y" "(ucast (x - y) :: 'b word) = ucast x - ucast y"
    by (simp_all only: of_int_add of_int_diff ucast_eq)
qed

lemma ucast_u64_u32 [simp]: "(ucast (ucast (x :: u32) :: u64) :: u8) = ucast x" "(ucast (ucast (x :: u32) :: u64) :: u32) = x"
  by (rule bit_word_eqI; auto simp: bit_simps)+

lemma resolve_packed:
  assumes "aligned vaddr" "aligned paddr" "vpage addr = vpage vaddr" "wf_phys p"
  shows "resolve (VTLBVirtual p paddr vaddr) addr =
    (if phys_isHandler p then Handler (phys_assumeHandler p) (paddr + (addr AND 0xFFF))
     else Ptr (p + ucast (addr AND 0xFFF)))"
proof -
  let ?off = "addr AND 0xFFF"
  have off: "unat ?off < 0x1000" by (rule page_offset_less)
  have a: "(ucast addr :: u64) = ucast vaddr + ucast ?off" using split_addr [OF assms(1,3)] by simp
  show ?thesis
  proof (cases "phys_isHandler p")
    case True
    let ?h = "phys_assumeHandler p" and ?v = "VTLBVirtual p paddr vaddr"
    from True assms(4) have p: "p = fromHandler ?h" by (simp add: wf_phys_def)
    have v: "?v = p + ucast paddr - ucast vaddr" using True by (simp add: VTLBVirtual_def)
    have sum: "?v + ucast addr = fromHandler ?h + ucast paddr + ucast ?off" unfolding v a using p by simp
    have h: "virt_isHandler ?v addr"
      unfolding virt_isHandler_def sum neg_iff_unat handler_unat [OF off] by simp
    have i: "assumeHandlerGetID ?v = ?h" 
      using aligned_ucast [OF assms(1)] aligned_ucast [OF assms(2)]
      by (simp add: assumeHandlerGetID_def v ucast_down_arith phys_assumeHandler_def)
    have strip: "(ucast (w AND NOT POINTER_SIGN_BIT) :: u32) = ucast w" for w
      by (rule bit_word_eqI) (auto simp: bit_simps bit_sign)
    have "assumeHandlerGetPAddr ?v addr = ucast (0x8000000000000000 + ucast paddr + ucast ?off :: u64)"
      unfolding assumeHandlerGetPAddr_def i sum strip by (simp add: fromHandler_add add.assoc)
    then have pa: "assumeHandlerGetPAddr ?v addr = paddr + ?off"
      by (simp add: ucast_down_arith)
    show ?thesis using True by (simp add: resolve_def h i pa)
  next
    case False
    then have le: "unat p \<le> 0x7FFFFFFFFFFFF000" using assms(4) by (simp add: wf_phys_def word_le_nat_alt)
    have v: "VTLBVirtual p paddr vaddr + ucast addr = p + ucast ?off" using False by (simp add: VTLBVirtual_def a)
    have "unat (p + ucast ?off) = unat p + unat ?off" using le off by (simp add: unat_word_ariths unat_ucast_up)
    then have "\<not> virt_isHandler (VTLBVirtual p paddr vaddr) addr"
      unfolding virt_isHandler_def v neg_iff_unat using le off by simp
    then show ?thesis using False by (simp add: resolve_def assumePtr_def v)
  qed
qed

text \<open>
  C23: packing and resolving are inverse. For page-aligned addresses and a well-formed physical
  entry, the packed virtual entry resolves every address of the page to the same handler with the
  physical address of the access, or to the host byte at the same offset: adding the access
  address to the biased word never confuses a pointer with a handler.
\<close>
theorem VTLBVirtual_roundtrip:
  assumes "aligned vaddr" "aligned paddr" "vpage addr = vpage vaddr" "wf_phys p"
  shows "resolve (VTLBVirtual p paddr vaddr) addr =
    (if phys_isHandler p then Handler (phys_assumeHandler p) (paddr + (addr AND 0xFFF))
     else Ptr (p + ucast (addr AND 0xFFF)))"
  using assms by (rule resolve_packed)

theorem VTLBVirtual_roundtrip_witness:
  "resolve (VTLBVirtual (fromHandler 5) 0x10000000 0xB0000000) 0xB0000123 = Handler 5 0x10000123"
  using VTLBVirtual_roundtrip [of "0xB0000000" "0x10000000" "0xB0000123" "fromHandler 5"]
  by (simp add: aligned_def vpage_def wf_phys_def fromHandler_def POINTER_SIGN_BIT_def phys_isHandler_def
      phys_assumeHandler_def word_sless_alt)

section \<open>Page arithmetic\<close>

lemma aligned_zero [simp]: "aligned 0" by (simp add: aligned_def)

lemma unat_offset: "unat ((a :: u32) AND 0xFFF) = unat a mod 0x1000"
proof -
  have "unat (a AND 0xFFF) = unat (take_bit 12 a)" unfolding mask_12 take_bit_eq_mask by simp
  also have "\<dots> = take_bit 12 (unat a)" by (rule unsigned_take_bit_eq)
  finally show ?thesis by (simp add: take_bit_eq_mod)
qed

lemma aligned_iff_mod: "aligned a \<longleftrightarrow> unat a mod 0x1000 = 0"
  unfolding aligned_def unat_offset [symmetric] by (simp add: unat_eq_0)

lemma aligned_add: "aligned a \<Longrightarrow> aligned b \<Longrightarrow> aligned (a + b)"
  by (auto simp: aligned_iff_mod unat_word_ariths mod_mod_cancel mod_add_eq dvd_eq_mod_eq_0 [symmetric])

lemma aligned_page: "aligned (of_nat i * 0x1000)"
  by (simp add: aligned_iff_mod unat_word_ariths mod_mod_cancel)

lemma aligned_page_add: "aligned v \<Longrightarrow> aligned (v + of_nat i * 0x1000)"
  by (rule aligned_add [OF _ aligned_page])

lemma small_offset: "unat (d :: u32) < 0x1000 \<Longrightarrow> d AND 0xFFF = d"
  by (rule unsigned_word_eqI [where 'a = nat]) (simp only: unat_offset mod_less)

lemma page_add:
  assumes "aligned b" "unat d < 0x1000"
  shows "(b + d) AND 0xFFF = d" "drop_bit 12 (b + d) = drop_bit 12 b"
proof -
  have d: "d AND 0xFFF = d" using assms(2) by (rule small_offset)
  have z: "b AND d = 0"
  proof (rule bit_word_eqI)
    fix n
    show "bit (b AND d) n = bit (0 :: u32) n"
      using aligned_bit [OF assms(1), of n] bit_offset [of d n] unfolding bit_and_iff d by auto
  qed
  have e: "b + d = b OR d" by (rule disjunctive_add_eq_or [OF z])
  show "(b + d) AND 0xFFF = d"
  proof (rule bit_word_eqI)
    fix n
    show "bit ((b + d) AND 0xFFF) n = bit d n"
      using aligned_bit [OF assms(1), of n] bit_offset [of d n] unfolding e bit_offset bit_or_iff d by auto
  qed
  show "drop_bit 12 (b + d) = drop_bit 12 b"
  proof (rule bit_word_eqI)
    fix n
    show "bit (drop_bit 12 (b + d)) n = bit (drop_bit 12 b) n"
      using bit_offset [of d "12 + n"] unfolding e d by (auto simp: bit_simps)
  qed
qed

lemma page_eq_iff: "aligned b \<Longrightarrow> vpage a = vpage b \<longleftrightarrow> unat (a - b) < 0x1000"
proof
  assume "aligned b" "vpage a = vpage b"
  then have "a = b + (a AND 0xFFF)" by (rule split_addr)
  then have "a - b = a AND 0xFFF" by (simp add: algebra_simps)
  then show "unat (a - b) < 0x1000" by (simp add: page_offset_less)
next
  assume "aligned b" "unat (a - b) < 0x1000"
  from page_add(2) [OF this] show "vpage a = vpage b" by (simp add: vpage_def)
qed

lemma page_index:
  assumes "aligned v" "i < 0x100000"
  shows "vpage a = vpage (v + of_nat i * 0x1000) \<longleftrightarrow> unat (a - v) div 0x1000 = i"
proof -
  let ?d = "a - v" and ?k = "of_nat i * 0x1000 :: u32"
  have k: "unat ?k = i * 0x1000" using assms(2) by (simp add: unat_word_ariths unat_of_nat)
  have "vpage a = vpage (v + ?k) \<longleftrightarrow> unat (?d - ?k) < 0x1000"
    unfolding page_eq_iff [OF aligned_page_add [OF assms(1)]] by (simp add: algebra_simps)
  also have "\<dots> \<longleftrightarrow> unat ?d div 0x1000 = i"
  proof (cases "?k \<le> ?d")
    case True
    then have "unat (?d - ?k) = unat ?d - i * 0x1000" "i * 0x1000 \<le> unat ?d" using k by (simp_all add: unat_sub word_le_nat_alt)
    then show ?thesis by auto
  next
    case False
    then have l: "unat ?d < i * 0x1000" using k by (simp add: word_le_nat_alt)
    have "unat (?d - ?k) = 2 ^ 32 + unat ?d - i * 0x1000"
      using l k unsigned_less [of ?k, where 'a = nat] by (simp add: unat_sub_if')
    then show ?thesis using l assms(2) by auto
  qed
  finally show ?thesis .
qed

section \<open>Loops over pages\<close>

text \<open>
  The interface of a loop that writes a table page by page: writing a page changes what is looked
  up at the addresses of that page and nowhere else. Then the whole loop changes exactly the
  addresses of the range, whatever is written.
\<close>

locale page_writer =
  fixes W :: "u32 \<Rightarrow> 's \<Rightarrow> 's"
    and look :: "'s \<Rightarrow> u32 \<Rightarrow> 't"
    and tgt :: "u32 \<Rightarrow> 't"
    and I :: "'s \<Rightarrow> bool"
  assumes keep: "I s \<Longrightarrow> I (W v s)"
    and write_page: "I s \<Longrightarrow> aligned v \<Longrightarrow> look (W v s) a = (if vpage a = vpage v then tgt a else look s a)"
begin

lemma range_aux:
  assumes "m \<le> 0x100000" "I s" "aligned base"
  shows "I (fold (\<lambda>o1. W (base + o1)) (map (\<lambda>i. of_nat i * 0x1000) [0..<m]) s) \<and>
    look (fold (\<lambda>o1. W (base + o1)) (map (\<lambda>i. of_nat i * 0x1000) [0..<m]) s) a =
     (if unat (a - base) div 0x1000 < m then tgt a else look s a)"
  using assms
proof (induction m)
  case (Suc m)
  let ?t = "fold (\<lambda>o1. W (base + o1)) (map (\<lambda>i. of_nat i * 0x1000) [0..<m]) s"
  from Suc have t: "I ?t" and look: "look ?t a = (if unat (a - base) div 0x1000 < m then tgt a else look s a)" by auto
  have "vpage a = vpage (base + of_nat m * 0x1000) \<longleftrightarrow> unat (a - base) div 0x1000 = m"
    using Suc.prems by (intro page_index) auto
  then have "look (W (base + of_nat m * 0x1000) ?t) a = (if unat (a - base) div 0x1000 < Suc m then tgt a else look s a)"
    using write_page [OF t aligned_page_add [OF Suc.prems(3)]] look by (auto simp: less_Suc_eq)
  with keep [OF t] show ?case by simp
qed simp

lemma range:
  assumes "I s" "aligned base"
  shows "look (fold (\<lambda>o1. W (base + o1)) (pages sz) s) a =
     (if unat (a - base) div 0x1000 < unat sz div 0x1000 then tgt a else look s a)"
proof -
  have "unat sz < 2 ^ 32" using unsigned_less [of sz, where 'a = nat] by simp
  then have "unat sz div 0x1000 \<le> 0x100000" by auto
  from range_aux [OF this assms] show ?thesis unfolding pages_def by blast
qed

end
section \<open>The abstract page table\<close>

text \<open>\<open>translate\<close> is the abstraction of the packed table: where an access at each address goes.
  \<open>phys_target\<close> is what the physical table says of a physical address.\<close>

definition translate :: "'d machine \<Rightarrow> u32 \<Rightarrow> target" where
  "translate s a = resolve (vmap s (vpage a)) a"

definition phys_target :: "(17 word \<Rightarrow> u64) \<Rightarrow> u32 \<Rightarrow> target" where
  "phys_target pm q =
     (if VTLB_PMAP_SZ \<le> q then Handler UnmappedPhyHandler q
      else let p = pm (ppage q) in
        if phys_isHandler p then Handler (phys_assumeHandler p) q else Ptr (p + ucast (q AND 0xFFF)))"

definition wf_pmap :: "(17 word \<Rightarrow> u64) \<Rightarrow> bool" where
  "wf_pmap pm \<longleftrightarrow> (\<forall>i. wf_phys (pm i))"

lemma phys_assumeHandler_fromHandler [simp]: "phys_assumeHandler (fromHandler h) = h"
  unfolding phys_assumeHandler_def fromHandler_def
  by (rule bit_word_eqI) (auto simp: bit_simps bit_sign)

lemma isHandler_fromHandler [simp]: "phys_isHandler (fromHandler h)"
  unfolding phys_isHandler_def neg_iff_unat using handler_unat [of 0 h 0] by simp

lemma wf_fromHandler [simp]: "wf_phys (fromHandler h)"
  by (simp add: wf_phys_def)

lemma resolve_handler:
  assumes "aligned v" "aligned p" "vpage a = vpage v"
  shows "resolve (VTLBVirtual (fromHandler h) p v) a = Handler h (p + (a - v))"
proof -
  have "a - v = a AND 0xFFF" using split_addr(1) [OF assms(1,3)] by (simp add: algebra_simps)
  then show ?thesis using resolve_packed [OF assms wf_fromHandler [of h]] by simp
qed

lemma same_page_diff: "aligned v \<Longrightarrow> vpage a = vpage v \<Longrightarrow> a - v = a AND 0xFFF"
  using split_addr(1) [of v a] by (simp add: algebra_simps)

lemma resolve_pointer:
  assumes "aligned v" "vpage a = vpage v" "p \<le> 0x7FFFFFFFFFFFF000"
  shows "resolve (VTLBVirtual (fromPointer p) 0 v) a = Ptr (p + ucast (a - v))"
proof -
  have "\<not> phys_isHandler p" using assms(3) unfolding phys_isHandler_def neg_iff_unat by (simp add: word_le_nat_alt)
  then show ?thesis
    using resolve_packed [OF assms(1) aligned_zero assms(2), of p] assms(3) same_page_diff [OF assms(1,2)]
    by (simp add: wf_phys_def fromPointer_def)
qed

interpretation unmap: page_writer
  "\<lambda>v s. s\<lparr>vmap := (vmap s)(vpage v := VTLBVirtual (fromHandler UnmappedVirtHandler) v v)\<rparr>"
  translate "Handler UnmappedVirtHandler" "\<lambda>_. True"
  by unfold_locales (simp_all add: translate_def resolve_handler)

interpretation buf: page_writer
  "\<lambda>v s. s\<lparr>vmap := (vmap s)(vpage v := VTLBVirtual (fromPointer (buffer + ucast (v - vaddr))) 0 v)\<rparr>"
  translate "\<lambda>a. resolve (VTLBVirtual (fromPointer (buffer + ucast ((a - (a AND 0xFFF)) - vaddr))) 0 (a - (a AND 0xFFF))) a" "\<lambda>_. True"
  for buffer vaddr
  by unfold_locales (simp_all add: translate_def same_page_diff [symmetric])

lemma ppage_same: "drop_bit 12 a = drop_bit 12 b \<Longrightarrow> ppage a = ppage b"
  by (simp add: ppage_def)

lemma unat_page_add:
  assumes "aligned P" "unat d < 0x1000"
  shows "unat (P + d) = unat P + unat d"
proof -
  obtain k where k: "unat P = 0x1000 * k" using assms(1) by (auto simp: aligned_iff_mod mod_eq_0_iff_dvd elim: dvdE)
  moreover have "unat P < 2 ^ 32" using unsigned_less [of P, where 'a = nat] by simp
  ultimately show ?thesis using assms(2) by (simp add: unat_word_ariths)
qed

lemma phys_target_page:
  assumes "aligned P" "unat d < 0x1000" "wf_pmap pm" "aligned v" "vpage a = vpage v" "a AND 0xFFF = d"
  shows "resolve (if VTLB_PMAP_SZ \<le> P then VTLBVirtual (fromHandler UnmappedPhyHandler) P v
      else VTLBVirtual (pm (ppage P)) P v) a = phys_target pm (P + d)"
proof -
  obtain k where "unat P = 0x1000 * k" using assms(1) by (auto simp: aligned_iff_mod mod_eq_0_iff_dvd elim: dvdE)
  with unat_page_add [OF assms(1,2)] assms(2) have "VTLB_PMAP_SZ \<le> P + d \<longleftrightarrow> VTLB_PMAP_SZ \<le> P"
    by (auto simp: VTLB_PMAP_SZ_def word_le_nat_alt)
  moreover have "ppage (P + d) = ppage P" by (rule ppage_same) (rule page_add [OF assms(1,2)])
  ultimately show ?thesis
    using resolve_packed [OF assms(4,1,5), of "pm (ppage P)"] resolve_packed [OF assms(4,1,5), of "fromHandler 1"]
      assms(3,6) page_add(1) [OF assms(1,2)]
    by (auto simp: phys_target_def Let_def wf_pmap_def)
qed

lemma VMap_page_fields:
  "vmap (vtlb_VMap_page v P s) = (vmap s)(vpage v :=
     (if VTLB_PMAP_SZ \<le> P then VTLBVirtual (fromHandler UnmappedPhyHandler) P v
      else VTLBVirtual (pmap s (ppage P)) P v))"
  "pmap (vtlb_VMap_page v P s) = pmap s" "host (vtlb_VMap_page v P s) = host s"
  by (auto simp: vtlb_VMap_page_def Let_def split: option.splits)

lemma aligned_diff: "aligned a \<Longrightarrow> aligned b \<Longrightarrow> aligned (a - b)"
proof -
  assume "aligned a" "aligned b"
  then have "0x1000 dvd unat a" "0x1000 dvd unat b" by (auto simp: aligned_iff_mod mod_eq_0_iff_dvd)
  moreover have "(0x1000 :: nat) dvd 2 ^ 32" by simp
  ultimately have "0x1000 dvd (if unat b \<le> unat a then unat a - unat b else unat a + 2 ^ 32 - unat b)"
    by (auto intro: dvd_diff_nat)
  then show ?thesis by (simp add: aligned_iff_mod mod_eq_0_iff_dvd unat_sub_if' split: if_splits)
qed

interpretation vm: page_writer
  "\<lambda>v s. vtlb_VMap_page v (paddr + (v - vaddr)) s" translate
  "\<lambda>a. phys_target pm (paddr + (a - vaddr))" "\<lambda>s. pmap s = pm \<and> wf_pmap pm \<and> aligned paddr \<and> aligned vaddr"
  for paddr vaddr pm
proof (unfold_locales, goal_cases)
  case (2 s v a)
  then have P: "aligned (paddr + (v - vaddr))" by (intro aligned_add aligned_diff) auto
  have "translate (vtlb_VMap_page v (paddr + (v - vaddr)) s) a = phys_target pm (paddr + (a - vaddr))" if "vpage a = vpage v"
  proof -
    have d: "a AND 0xFFF = a - v" using same_page_diff [OF 2(2) that] by simp
    have "unat (a - v) < 0x1000" using page_offset_less [of a] unfolding d .
    moreover have "paddr + (v - vaddr) + (a - v) = paddr + (a - vaddr)" by simp
    ultimately show ?thesis
      using phys_target_page [OF P _ _ 2(2) that d, of pm] 2(1) that
      by (simp only: translate_def VMap_page_fields fun_upd_same)
  qed
  then show ?case by (simp add: translate_def VMap_page_fields)
qed (simp add: VMap_page_fields)

text \<open>Addresses of a range of whole pages; the range may wrap around the address space.\<close>

definition in_range :: "u32 \<Rightarrow> u32 \<Rightarrow> u32 \<Rightarrow> bool" where
  "in_range base sz a \<longleftrightarrow> unat (a - base) div 0x1000 < unat sz div 0x1000"

lemma vtlb_VMap_translate:
  assumes "aligned vaddr" "aligned paddr" "wf_pmap (pmap s)"
  shows "translate (vtlb_VMap vaddr paddr sz s) a =
    (if in_range vaddr sz a then phys_target (pmap s) (paddr + (a - vaddr)) else translate s a)"
  using vm.range [where s = s and pm = "pmap s" and paddr = paddr and vaddr = vaddr and base = vaddr and sz = sz and a = a] assms by (simp add: vtlb_VMap_def in_range_def)

lemma vtlb_VMapUnmap_translate:
  assumes "aligned vaddr"
  shows "translate (vtlb_VMapUnmap vaddr sz s) a =
    (if in_range vaddr sz a then Handler UnmappedVirtHandler a else translate s a)"
  using unmap.range [where s = s and base = vaddr and sz = sz and a = a] assms by (simp add: vtlb_VMapUnmap_def in_range_def)

lemma page_base: "aligned (a - (a AND 0xFFF))" "vpage a = vpage (a - (a AND 0xFFF))"
proof -
  have u: "unat (a - (a AND 0xFFF)) = unat a - unat a mod 0x1000"
    by (simp add: unat_sub unat_offset word_le_nat_alt)
  have "0x1000 dvd unat a - unat a mod 0x1000" by (rule dvd_minus_mod)
  then show "aligned (a - (a AND 0xFFF))" by (simp only: aligned_iff_mod u mod_eq_0_iff_dvd)
  from page_eq_iff [OF this, of a] show "vpage a = vpage (a - (a AND 0xFFF))"
    by (simp add: page_offset_less)
qed

lemma vtlb_VMapBuffer_translate:
  assumes "aligned vaddr" "unat buffer + unat sz \<le> 0x7FFFFFFFFFFFF000"
  shows "translate (vtlb_VMapBuffer vaddr buffer sz s) a =
    (if in_range vaddr sz a then Ptr (buffer + ucast (a - vaddr)) else translate s a)"
proof -
  let ?b = "a - (a AND 0xFFF)"
  have "resolve (VTLBVirtual (fromPointer (buffer + ucast (?b - vaddr))) 0 ?b) a = Ptr (buffer + ucast (a - vaddr))" if "in_range vaddr sz a"
  proof -
    have al: "aligned (?b - vaddr)" by (intro aligned_diff page_base assms)
    have sum: "a - vaddr = (?b - vaddr) + (a AND 0xFFF)" by simp
    have "vpage (a - vaddr) = vpage (?b - vaddr)"
      by (subst sum) (simp only: vpage_def page_add(2) [OF al page_offset_less])
    from split_addr(2) [OF al this]
    have "(ucast (a - vaddr) :: u64) = ucast (?b - vaddr) + ucast ((a - vaddr) AND 0xFFF)" .
    moreover have "(a - vaddr) AND 0xFFF = a - ?b"
      by (subst sum) (simp only: page_add(1) [OF al page_offset_less] diff_diff_eq2 add_diff_cancel_left')
    ultimately have c: "(ucast (a - vaddr) :: u64) = ucast (?b - vaddr) + ucast (a - ?b)" by (simp only:)
    have "unat (?b - vaddr) \<le> unat (a - vaddr)"
      by (subst sum) (simp only: unat_page_add [OF al page_offset_less] le_add1)
    also have "\<dots> < unat sz" using that unfolding in_range_def by (metis div_le_mono leD leI)
    finally have "unat (?b - vaddr) < unat sz" .
    then have "buffer + ucast (?b - vaddr) \<le> 0x7FFFFFFFFFFFF000"
      using assms(2) by (simp add: word_le_nat_alt unat_word_ariths unat_ucast_up)
    from resolve_pointer [OF page_base(1) page_base(2) this] show ?thesis by (simp add: c add.assoc)
  qed
  then show ?thesis
    using buf.range [where s = s and buffer = buffer and vaddr = vaddr and base = vaddr and sz = sz and a = a] assms(1)
    by (simp add: vtlb_VMapBuffer_def in_range_def)
qed
lemma mapping_refines_page_table_parts:
  assumes "aligned vaddr" "aligned paddr" "wf_pmap (pmap s)" "unat buffer + unat sz \<le> 0x7FFFFFFFFFFFF000"
  shows "translate (vtlb_VMap vaddr paddr sz s) a =
      (if in_range vaddr sz a then phys_target (pmap s) (paddr + (a - vaddr)) else translate s a)"
    and "translate (vtlb_VMapBuffer vaddr buffer sz s) a =
      (if in_range vaddr sz a then Ptr (buffer + ucast (a - vaddr)) else translate s a)"
    and "translate (vtlb_VMapUnmap vaddr sz s) a =
      (if in_range vaddr sz a then Handler UnmappedVirtHandler a else translate s a)"
  using assms by (simp_all add: vtlb_VMap_translate vtlb_VMapBuffer_translate vtlb_VMapUnmap_translate)

text \<open>
  C1: the mapping operations refine updates of an abstract page table. Mapping a range of virtual
  pages sends each of its addresses where the physical table sends the corresponding physical
  address (bus error handler beyond the physical space), mapping a buffer sends them to
  consecutive host bytes, unmapping sends them to the TLB miss handler with the address itself;
  every address outside the range keeps its translation.
\<close>
theorem mapping_refines_page_table:
  assumes "aligned vaddr" "aligned paddr" "wf_pmap (pmap s)" "unat buffer + unat sz \<le> 0x7FFFFFFFFFFFF000"
  shows "translate (vtlb_VMap vaddr paddr sz s) a =
      (if in_range vaddr sz a then phys_target (pmap s) (paddr + (a - vaddr)) else translate s a) \<and>
    translate (vtlb_VMapBuffer vaddr buffer sz s) a =
      (if in_range vaddr sz a then Ptr (buffer + ucast (a - vaddr)) else translate s a) \<and>
    translate (vtlb_VMapUnmap vaddr sz s) a =
      (if in_range vaddr sz a then Handler UnmappedVirtHandler a else translate s a)"
  using mapping_refines_page_table_parts [OF assms] by blast

text \<open>A machine after reset with empty host memory and no devices, used to exhibit instances of
  the theorems.\<close>

definition machine_reset :: "unit machine" where
  "machine_reset = cpuRegisters.extend cpuReset
     (machine.fields (\<lambda>_. 0) (\<lambda>_. fromHandler 2) None (\<lambda>_. 0) 0x100000
       (\<lambda>_. \<lparr>tPageMask = 0, tEntryHi = 0, tEntryLo0 = 0, tEntryLo1 = 0\<rparr>)
       \<lparr>count = 0, PageMasks = (\<lambda>_. 0), PFN1s = (\<lambda>_. 0), CacheEnabled1 = (\<lambda>_. 0), PFN0s = (\<lambda>_. 0), CacheEnabled0 = (\<lambda>_. 0)\<rparr>
       (\<lambda>_. \<lparr>tags = (\<lambda>_. 0), lineData = (\<lambda>_ _. 0)\<rparr>) 0 0 (\<lambda>_. 0) ((\<lambda>_. 0)(0 := 0x00002e30, 31 := 0x01000001)) 0 ())"

lemma machine_reset_fields [simp]: 
  "pmap machine_reset = (\<lambda>_. fromHandler 2)" "GPR machine_reset = (\<lambda>_. 0)" "branch machine_reset = 0"
  "count (cachedTlbs machine_reset) = 0" "host machine_reset = (\<lambda>_. 0)"
  by (simp_all add: machine_reset_def cpuRegisters.extend_def machine.fields_def cpuReset_def)

theorem mapping_refines_page_table_witness:
  "translate (vtlb_VMapBuffer 0x70000000 0x100000 0x4000 machine_reset) 0x70003FFC = Ptr 0x103FFC"
  using mapping_refines_page_table [of "0x70000000" 0 machine_reset "0x100000" "0x4000" "0x70003FFC"]
  by (simp add: aligned_def wf_pmap_def in_range_def)

lemma vtlb_VMap_loop_aux:
  "unat sz = m * 0x1000 \<Longrightarrow>
    vtlb_VMap_loop vaddr paddr sz s =
      Some (fold (\<lambda>o1. vtlb_VMap_page (vaddr + o1) (paddr + o1)) (map (\<lambda>i. of_nat i * 0x1000) [0..<m]) s)"
proof (induction m arbitrary: sz vaddr paddr s)
  case 0
  then have "sz = 0" by (simp add: unat_eq_0)
  then show ?case by (simp add: vtlb_VMap_loop.simps)
next
  case (Suc m)
  then have nz: "sz \<noteq> 0" by auto
  have "unat (sz - 0x1000) = m * 0x1000" using Suc.prems by (simp add: unat_sub word_le_nat_alt)
  note IH = Suc.IH [OF this, of "vaddr + 0x1000" "paddr + 0x1000" "vtlb_VMap_page vaddr paddr s"]
  have "map (\<lambda>i. of_nat i * 0x1000 :: u32) [0..<Suc m] = 0 # map (\<lambda>i. 0x1000 + of_nat i * 0x1000) [0..<m]"
    by (simp only: upt_conv_Cons zero_less_Suc list.map map_Suc_upt [symmetric] map_map o_def) (simp add: algebra_simps)
  then show ?case using nz IH
    by (subst vtlb_VMap_loop.simps) (simp add: fold_map o_def add.assoc)
qed

text \<open>
  C34: the mapping loop terminates for every size that is a multiple of the page size and has
  then mapped exactly the pages of the range.
\<close>
theorem vtlb_VMap_loop_returns:
  assumes "aligned sz"
  shows "vtlb_VMap_loop vaddr paddr sz s = Some (vtlb_VMap vaddr paddr sz s)"
proof -
  have "unat sz = unat sz div 0x1000 * 0x1000" using assms by (auto simp: aligned_iff_mod)
  from vtlb_VMap_loop_aux [OF this] show ?thesis by (simp add: vtlb_VMap_def pages_def)
qed

lemma fold_field: "(\<And>k s. g (f k s) = g s) \<Longrightarrow> g (fold f ks s) = g s"
  by (induction ks arbitrary: s) auto

lemma vmap_only [simp]:
  "pmap (vtlb_VMapUnmap v sz s) = pmap s" "pmap (vtlb_VMapBuffer v b sz s) = pmap s"
  "pmap (vtlb_VMap v p sz s) = pmap s"
  by (simp_all add: vtlb_VMapUnmap_def vtlb_VMapBuffer_def vtlb_VMap_def fold_field [where g = pmap] VMap_page_fields)

lemma pmap_MapHandler:
  "pmap (vtlb_MapHandler h start sz s) i =
     (if \<exists>o1 \<in> set (pages sz). i = ppage (start + o1) then fromHandler h else pmap s i)"
proof -
  have "pmap (fold (\<lambda>o1 s. s\<lparr>pmap := (pmap s)(ppage (start + o1) := fromHandler h)\<rparr>) ks s) i =
     (if \<exists>o1 \<in> set ks. i = ppage (start + o1) then fromHandler h else pmap s i)" for ks and s :: "'a machine"
    by (induction ks arbitrary: s) auto
  then show ?thesis unfolding vtlb_MapHandler_def .
qed

lemma wf_MapHandler: "wf_pmap (pmap s) \<Longrightarrow> wf_pmap (pmap (vtlb_MapHandler h start sz s))"
  by (auto simp: wf_pmap_def pmap_MapHandler)

lemma ppage_surj: "\<exists>o1 \<in> set (pages VTLB_PMAP_SZ). i = ppage (0 + o1)"
proof -
  let ?o = "of_nat (unat i) * 0x1000 :: u32"
  have "unat i < 2 ^ 17" using unsigned_less [of i, where 'a = nat] by simp
  then have "?o \<in> set (pages VTLB_PMAP_SZ)" by (auto simp: pages_def VTLB_PMAP_SZ_def intro!: image_eqI [of _ _ "unat i"])
  moreover have "i = ppage (0 + ?o)"
  proof -
    have "?o = push_bit 12 (ucast i)" by (simp add: push_bit_eq_mult mult.commute)
    then show ?thesis by (auto intro!: bit_word_eqI simp: ppage_def bit_simps dest: bit_imp_le_length)
  qed
  ultimately show ?thesis by blast
qed

lemma vtlb_Init_tables:
  "translate (vtlb_Init s) a = Handler UnmappedVirtHandler a \<and> wf_pmap (pmap (vtlb_Init s))"
proof
  have "in_range 0xFFFFF000 0x1000 a \<or> in_range 0 0xFFFFF000 a"
  proof (cases "unat a div 0x1000 < 0xFFFFF")
    case True
    then show ?thesis by (simp add: in_range_def)
  next
    case False
    then have le: "0xFFFFF000 \<le> unat a" by auto
    moreover have "unat a < 2 ^ 32" using unsigned_less [of a, where 'a = nat] by simp
    ultimately have "unat (a - 0xFFFFF000) < 0x1000" by (simp add: unat_sub word_le_nat_alt)
    then show ?thesis by (simp add: in_range_def)
  qed
  then show "translate (vtlb_Init s) a = Handler UnmappedVirtHandler a"
    by (auto simp: vtlb_Init_def vtlb_VMapUnmap_translate aligned_def)
  show "wf_pmap (pmap (vtlb_Init s))"
    unfolding wf_pmap_def vtlb_Init_def using ppage_surj by (simp add: pmap_MapHandler)
qed

text \<open>
  After initialisation every virtual address of the 4 GiB space resolves to the TLB miss
  handler with its own full address, and the physical table is well formed.
\<close>
lemma vtlb_Init_unmapped:
  "translate (vtlb_Init s) a = Handler UnmappedVirtHandler a \<and> wf_pmap (pmap (vtlb_Init s))"
  by (rule vtlb_Init_tables)

section \<open>Reading what was written\<close>

lemma read_ptr:
  assumes "translate s a = Ptr p" "\<not> CHECK_CACHE E"
  shows "vtlb_memRead E a s = Ok (hostLoad (host s) p) s"
  using assms by (auto simp: vtlb_memRead_def translate_def resolve_def Let_def split: if_splits)

lemma write_ptr:
  assumes "translate s a = Ptr p" "\<not> CHECK_CACHE E"
  shows "vtlb_memWrite E a v s = Ok () (s\<lparr>host := hostStore p v (host s)\<rparr>)"
  using assms by (auto simp: vtlb_memWrite_def translate_def resolve_def Let_def split: if_splits)

lemma translate_host [simp]: "translate (s\<lparr>host := h\<rparr>) a = translate s a"
  by (simp add: translate_def)

lemma memory_read_after_write_parts:
  assumes "translate s a = Ptr p" "\<not> CHECK_CACHE E" "8 dvd LENGTH('a::len)" "LENGTH('a) \<le> 128"
  shows "obind (vtlb_memWrite E a (v :: 'a word) s) (\<lambda>_. vtlb_memRead E a) =
      Ok v (s\<lparr>host := hostStore p v (host s)\<rparr>)"
    and "translate s b = Ptr q \<Longrightarrow> (\<And>i j. i < LENGTH('a) div 8 \<Longrightarrow> j < LENGTH('b::len) div 8 \<Longrightarrow> q + of_nat j \<noteq> p + of_nat i) \<Longrightarrow>
      8 dvd LENGTH('b) \<Longrightarrow>
      obind (vtlb_memWrite E a v s) (\<lambda>_. vtlb_memRead E b) =
      Ok (hostLoad (host s) q :: 'b word) (s\<lparr>host := hostStore p v (host s)\<rparr>)"
proof -
  show "obind (vtlb_memWrite E a (v :: 'a word) s) (\<lambda>_. vtlb_memRead E a) =
      Ok v (s\<lparr>host := hostStore p v (host s)\<rparr>)"
    using assms by (simp add: write_ptr read_ptr hostLoad_hostStore)
next
  assume q: "translate s b = Ptr q" and dis: "\<And>i j. i < LENGTH('a) div 8 \<Longrightarrow> j < LENGTH('b) div 8 \<Longrightarrow> q + of_nat j \<noteq> p + of_nat i"
    and b: "8 dvd LENGTH('b)"
  have "hostStore p v (host s) (q + of_nat j) = host s (q + of_nat j)" if "j < LENGTH('b) div 8" for j
    using dis [OF _ that] by (intro hostStore_other) auto
  then have "(hostLoad (hostStore p v (host s)) q :: 'b word) = hostLoad (host s) q"
    by (intro bit_word_eqI) (auto simp: bit_hostLoad [OF b] less_mult_imp_div_less b)
  then show "obind (vtlb_memWrite E a v s) (\<lambda>_. vtlb_memRead E b) =
      Ok (hostLoad (host s) q :: 'b word) (s\<lparr>host := hostStore p v (host s)\<rparr>)"
    using assms q by (simp add: write_ptr read_ptr)
qed
definition no_env :: "unit mem_env" where
  "no_env = \<lparr>CHECK_CACHE = False, hw_read = (\<lambda>_ _ _ s. Ok 0 s), hw_write = (\<lambda>_ _ _ _ s. Ok () s)\<rparr>"

text \<open>
  C4: guest memory behaves as memory. With the EE cache off, a value of any width written to a
  mapped address is read back from it, and a read of host bytes disjoint from those written gives
  what it gave before; neither access changes anything else.
\<close>
theorem memory_read_after_write:
  assumes "translate s a = Ptr p" "\<not> CHECK_CACHE E" "8 dvd LENGTH('a::len)" "LENGTH('a) \<le> 128"
  shows "obind (vtlb_memWrite E a (v :: 'a word) s) (\<lambda>_. vtlb_memRead E a) =
      Ok v (s\<lparr>host := hostStore p v (host s)\<rparr>) \<and>
    (\<forall>b q. translate s b = Ptr q \<longrightarrow> 8 dvd LENGTH('b::len) \<longrightarrow>
      (\<forall>i j. i < LENGTH('a) div 8 \<longrightarrow> j < LENGTH('b) div 8 \<longrightarrow> q + of_nat j \<noteq> p + of_nat i) \<longrightarrow>
      obind (vtlb_memWrite E a v s) (\<lambda>_. vtlb_memRead E b) =
      Ok (hostLoad (host s) q :: 'b word) (s\<lparr>host := hostStore p v (host s)\<rparr>))"
  using memory_read_after_write_parts [OF assms] by blast

theorem vtlb_VMap_loop_returns_witness:
  "vtlb_VMap_loop 0 0 0x2000 machine_reset = Some (vtlb_VMap 0 0 0x2000 machine_reset)"
  using vtlb_VMap_loop_returns [of "0x2000" 0 0 machine_reset] by (simp add: aligned_def)

definition machine_ram :: "unit machine" where
  "machine_ram = machine_reset\<lparr>vmap := (\<lambda>_. VTLBVirtual (fromPointer 0x100000) 0 0)\<rparr>"

lemma machine_ram_translate: "translate machine_ram 0x10 = Ptr 0x100010"
  by (simp add: machine_ram_def translate_def resolve_def virt_isHandler_def assumePtr_def VTLBVirtual_def
      fromPointer_def phys_isHandler_def word_sless_alt)

theorem memory_read_after_write_witness:
  "obind (vtlb_memWrite no_env 0x10 (0xDEADBEEF :: u32) machine_ram) (\<lambda>_. vtlb_memRead no_env 0x10) =
   Ok (0xDEADBEEF :: u32) (machine_ram\<lparr>host := hostStore 0x100010 (0xDEADBEEF :: u32) (host machine_ram)\<rparr>)"
  using memory_read_after_write [where 'b = 32, OF machine_ram_translate, of no_env "0xDEADBEEF :: u32"] by (simp add: no_env_def)

lemma unmapped_access_misses_parts:
  assumes "translate s a = Handler UnmappedVirtHandler q"
  shows "vtlb_memRead E a s = (Cancelled (cpuTlbMissR q (branch s) s) :: ('a::len word, 'd machine) outcome)"
    and "vtlb_memWrite E a (v :: 'a word) s = Cancelled (cpuTlbMissW q (branch s) s)"
  using assms
  by (auto simp: vtlb_memRead_def vtlb_memWrite_def call_read_def call_write_def vtlb_Miss_def translate_def resolve_def Let_def split: if_splits)

text \<open>The TLB refill exception in one piece: the address is in \<open>BadVAddr\<close> and its page number in \<open>Context\<close> and \<open>EntryHi\<close>, whose other
  fields stay; the cause holds the code and, unless an exception was being handled already, whether the instruction is in a
  delay slot, and \<open>EPC\<close> is the instruction or the branch before it; execution goes on at the refill vector, or at the general one
  within a handler.\<close>

definition tlb_refill :: "u32 \<Rightarrow> u32 \<Rightarrow> 'a cpuRegisters_scheme \<Rightarrow> 'a cpuRegisters_scheme" where
  "tlb_refill excode a s =
     (let EXL = bit (CP0 s Status) Status_EXL; BEV = bit (CP0 s Status) Status_BEV; slot = (branch s \<noteq> 0) in
      s\<lparr>branch := 0,
        CP0 := (CP0 s)
          (BadVAddr := a,
           Context := (CP0 s Context AND 0xFF80000F) OR (drop_bit 9 a AND 0x007FFFF0),
           EntryHi := (a AND 0xFFFFE000) OR (CP0 s EntryHi AND 0x1FFF),
           Cause := excode OR (if \<not> EXL \<and> slot then 0x80000000 else 0),
           EPC := (if EXL then CP0 s EPC else if slot then pc s - 8 else pc s - 4),
           Status := set_bit Status_EXL (CP0 s Status)),
        pc := (if BEV then 0xBFC00200 else 0x80000000) + (if EXL then 0x180 else 0)\<rparr>)"

lemma cpuTlbMiss_refill:
  assumes "excode \<in> {0x8, 0xC}" "\<not> bit (CP0 s Status) Status_ERL"
  shows "cpuTlbMiss a (branch s) excode s = tlb_refill excode a s"
proof -
  have x: "set_bit Status_EXL w = w" if "bit w Status_EXL" for w :: u32
    using that by (auto intro!: bit_word_eqI simp: bit_simps)
  have e: "excode AND 0xffff = excode" "0x8 \<le> excode AND 0x7C" "excode AND 0x7C \<le> 0xC" "excode AND - 2147483649 = excode"
    using assms(1) by auto
  have triv: "(CP0 s)(8 := a, 13 := excode, 12 := CP0 s 12, 14 := CP0 s 14, 10 := y, 4 := z) = (CP0 s)(8 := a, 13 := excode, 10 := y, 4 := z)" for y z
    by (simp add: fun_eq_iff)
  show ?thesis
    using assms(2) x [of "CP0 s Status"]
    by (cases "bit (CP0 s Status) Status_EXL")
      (simp_all add: cpuTlbMiss_def cpuException_def enter_vector_def tlb_refill_def Let_def wCP0_def e fun_upd_twist triv)
qed

lemma Unmap_frame: "CP0 (vtlb_VMapUnmap v sz s) = CP0 s"
  by (simp add: vtlb_VMapUnmap_def fold_field [where g = CP0])

text \<open>
  C32: after a range of pages is unmapped, a load or a store of any width at any address in it, outside
  error level, abandons its instruction with the TLB refill exception: the access's own address in \<open>BadVAddr\<close> and
  its page number in \<open>Context\<close> and \<open>EntryHi\<close>, the cause of a load or of a store, \<open>EPC\<close> at the instruction or, in a
  delay slot, at its branch, the level raised, and the program counter at the vector. Nothing else changes: memory,
  general registers and the other registers of coprocessor 0 stay as they were.
\<close>
theorem unmapped_access_misses:
  assumes "aligned vaddr" "in_range vaddr sz a" "\<not> bit (CP0 s Status) Status_ERL"
  defines "u \<equiv> vtlb_VMapUnmap vaddr sz s"
  shows "vtlb_memRead E a u = (Cancelled (tlb_refill 0x8 a u) :: ('a::len word, 'd machine) outcome) \<and>
    vtlb_memWrite E a (v :: 'a word) u = Cancelled (tlb_refill 0xC a u)"
proof -
  have t: "translate u a = Handler UnmappedVirtHandler a" using vtlb_VMapUnmap_translate [OF assms(1), of sz s a] assms(2) by (simp add: u_def)
  have "\<not> bit (CP0 u Status) Status_ERL" using assms(3) by (simp add: u_def Unmap_frame)
  then show ?thesis
    using cpuTlbMiss_refill [of "0x8" u a] cpuTlbMiss_refill [of "0xC" u a]
    by (simp add: unmapped_access_misses_parts [OF t] cpuTlbMissR_def cpuTlbMissW_def)
qed

theorem unmapped_access_misses_witness:
  "\<exists>t. vtlb_memWrite no_env 0x1234 (7 :: u8) (vtlb_VMapUnmap 0x1000 0x2000 (machine_ram\<lparr>CP0 := (CP0 machine_ram)(Status := 0), pc := 0x80020008, branch := 1\<rparr>)) = Cancelled t \<and>
     CP0 t BadVAddr = 0x1234 \<and> CP0 t EPC = 0x80020000 \<and> CP0 t Cause = 0x8000000C \<and> pc t = 0x80000000"
proof -
  let ?s = "machine_ram\<lparr>CP0 := (CP0 machine_ram)(Status := 0), pc := 0x80020008, branch := 1\<rparr>"
  let ?u = "vtlb_VMapUnmap 0x1000 0x2000 ?s"
  have h: "aligned 0x1000" "in_range 0x1000 0x2000 0x1234" "\<not> bit (CP0 ?s Status) Status_ERL" by (simp_all add: aligned_def in_range_def)
  have f: "CP0 ?u = CP0 ?s" "pc ?u = pc ?s" "branch ?u = branch ?s"
    by (simp_all add: vtlb_VMapUnmap_def fold_field [where g = CP0] fold_field [where g = pc] fold_field [where g = branch])
  show ?thesis using unmapped_access_misses [OF h, of no_env, where v = "7 :: u8"] by (simp add: tlb_refill_def Let_def f)
qed

section \<open>Block copies\<close>

text \<open>The reference for a block read: byte by byte.\<close>

definition read_bytes :: "u32 \<Rightarrow> nat \<Rightarrow> 'd machine \<Rightarrow> u8 list option" where
  "read_bytes mem n s = those (map (\<lambda>i. vtlb_ramRead (mem + of_nat i) s) [0..<n])"

lemma hostLoad_u8: "(hostLoad h a :: u8) = h a"
  by (simp add: hostLoad_def)

lemma those_append: "those (xs @ ys) = (case those xs of None \<Rightarrow> None | Some as \<Rightarrow> map_option (\<lambda>bs. as @ bs) (those ys))"
proof (induction xs)
  case (Cons x xs)
  then show ?case by (cases x; cases "those xs"; cases "those ys") auto
qed (cases "those ys"; simp)

lemma those_map_Some: "those (map (\<lambda>x. Some (f x)) xs) = Some (map f xs)"
  by (induction xs) auto

text \<open>Within a page the kind of an entry does not change with the offset; every operation of
  this theory writes such entries.\<close>

definition wf_vmap :: "'d machine \<Rightarrow> bool" where
  "wf_vmap s \<longleftrightarrow> (\<forall>a b. vpage a = vpage b \<longrightarrow> virt_isHandler (vmap s (vpage a)) a = virt_isHandler (vmap s (vpage b)) b)"

lemma page_walk:
  assumes "i < 0x1000 - unat (mem AND 0xFFF)"
  shows "vpage (mem + of_nat i) = vpage mem" "(ucast (mem + of_nat i) :: u64) = ucast mem + of_nat i"
proof -
  let ?b = "mem - (mem AND 0xFFF)" and ?o = "mem AND 0xFFF"
  have i: "i < 0x1000" "unat (of_nat i :: u32) = i" using assms by (auto simp: unat_of_nat)
  have o: "unat (?o + of_nat i) = unat ?o + i" using i assms page_offset_less [of mem] by (simp add: unat_word_ariths)
  have sum: "mem + of_nat i = ?b + (?o + of_nat i)" by simp
  have lt: "unat (?o + of_nat i) < 0x1000" using o assms by simp
  show "vpage (mem + of_nat i) = vpage mem"
    unfolding page_base(2) [of mem] by (subst sum) (simp only: vpage_def page_add(2) [OF page_base(1) lt])
  have "unat (mem + of_nat i) = unat mem + i"
    using unat_page_add [OF page_base(1) [of mem] lt] unat_page_add [OF page_base(1) [of mem] page_offset_less [of mem]] o by simp
  moreover have "unat mem < 2 ^ 32" using unsigned_less [of mem, where 'a = nat] by simp
  ultimately show "(ucast (mem + of_nat i) :: u64) = ucast mem + of_nat i"
    using i(1) by (intro unsigned_word_eqI [where 'a = nat])
      (simp add: unat_ucast_up unat_word_ariths(1) [of "ucast mem :: u64"] unat_of_nat)
qed

lemma ramRead_walk:
  assumes "wf_vmap s" "i < 0x1000 - unat (mem AND 0xFFF)"
  shows "(vtlb_ramRead (mem + of_nat i) s :: u8 option) =
    (if virt_isHandler (vmap s (vpage mem)) mem then None
     else Some (host s (assumePtr (vmap s (vpage mem)) mem + of_nat i)))"
proof -
  have "virt_isHandler (vmap s (vpage (mem + of_nat i))) (mem + of_nat i) = virt_isHandler (vmap s (vpage mem)) mem"
    using assms(1) page_walk(1) [OF assms(2)] unfolding wf_vmap_def by blast
  then show ?thesis
    using page_walk [OF assms(2)] by (simp add: vtlb_ramRead_def Let_def hostLoad_u8 assumePtr_def add.assoc)
qed

text \<open>
  Reading a block page by page gives exactly the bytes that reading it byte by byte gives,
  and fails exactly when one of those bytes is unmapped, for any start address and length.
\<close>
lemma memSafeReadBytes_bytewise:
  assumes "wf_vmap s"
  shows "vtlb_memSafeReadBytes mem n s = read_bytes mem n s"
  using assms
proof (induction mem n s rule: vtlb_memSafeReadBytes.induct)
  case (1 mem n s)
  let ?v = "vmap s (vpage mem)" and ?r = "remaining_in_page mem n"
  show ?case
  proof (cases "n = 0")
    case False
    have r: "0 < ?r" "?r \<le> n" "\<And>i. i < ?r \<Longrightarrow> i < 0x1000 - unat (mem AND 0xFFF)"
      using remaining_pos(1) [where n = n and mem = mem] remaining_pos(2) [where n = n and mem = mem] False by (auto simp: remaining_in_page_def)
    have split: "[0..<n] = [0..<?r] @ map (\<lambda>i. ?r + i) [0..<n - ?r]"
      using r(2) upt_add_eq_append [of 0 ?r "n - ?r"] by (simp add: map_add_upt add.commute)
    have low: "map (\<lambda>i. vtlb_ramRead (mem + of_nat i) s :: u8 option) [0..<?r] =
        map (\<lambda>i. if virt_isHandler ?v mem then None else Some (host s (assumePtr ?v mem + of_nat i))) [0..<?r]"
      using r(3) ramRead_walk [OF 1(2)] by (intro map_cong) auto
    show ?thesis
    proof (cases "virt_isHandler ?v mem")
      case True
      have "[0..<n] = 0 # [1..<n]" using False by (simp add: upt_conv_Cons)
      moreover have "(vtlb_ramRead mem s :: u8 option) = None" using True by (simp add: vtlb_ramRead_def)
      ultimately have "read_bytes mem n s = None" unfolding read_bytes_def by simp
      with True False show ?thesis by (subst vtlb_memSafeReadBytes.simps) simp
    next
      case nh: False
      have "read_bytes mem n s = map_option (\<lambda>bs. map (\<lambda>i. host s (assumePtr ?v mem + of_nat i)) [0..<?r] @ bs)
          (read_bytes (mem + of_nat ?r) (n - ?r) s)"
        unfolding read_bytes_def
        by (subst split) (simp add: those_append low nh those_map_Some o_def add.assoc)
      with nh False 1(1) [OF False refl _ refl refl] 1(2) show ?thesis
        by (subst vtlb_memSafeReadBytes.simps) (simp add: Let_def)
    qed
  qed (simp add: read_bytes_def)
qed


section \<open>The vector path of CheckCache\<close>

text \<open>
  C35: with four cached entries whose pages lie in the positive half of the address space above
  zero, \<^verbatim>\<open>CheckCache\<close> consults only the first of them: the address vector has the address
  in lane 0 and zero elsewhere, so an access to a page of the second, third or fourth entry is not
  recognised as cached.
\<close>
theorem CheckCache_vector_ignores_lanes:
  assumes "count (cachedTlbs s) = 4" "bit (CP0 s Config) 16"
    and "\<And>k. k \<in> {1, 2, 3} \<Longrightarrow> 0 <s PFN0s (cachedTlbs s) k \<and> 0 <s PFN1s (cachedTlbs s) k"
  shows "CheckCache a s \<longleftrightarrow> CheckCache_lane (cachedTlbs s) a 0 0"
proof -
  have "drop_bit 16 (CP0 s Config) AND 1 \<noteq> 0"
    using assms(2) by (simp add: and_one_eq odd_iff_mod_2_eq_one [symmetric] bit_0 [symmetric] bit_drop_bit_eq)
  moreover have "\<not> CheckCache_lane (cachedTlbs s) a 0 k" if "k \<in> {1, 2, 3}" for k
    using assms(3) [OF that] that by (auto simp: CheckCache_lane_def Let_def word_sless_alt word_sle_eq)
  ultimately show ?thesis using assms(1) by (auto simp: CheckCache_def Let_def)
qed

definition machine_4pages :: "unit machine" where
  "machine_4pages = machine_reset\<lparr>CP0 := (\<lambda>_. 0)(16 := 0x10440), cachedTlbs :=
     \<lparr>count = 4, PageMasks = (\<lambda>_. 0xFFF), PFN1s = (\<lambda>k. (of_nat k + 1) * 0x2000), CacheEnabled1 = (\<lambda>_. - 1),
      PFN0s = (\<lambda>k. (of_nat k + 1) * 0x2000), CacheEnabled0 = (\<lambda>_. - 1)\<rparr>\<rparr>"

theorem CheckCache_vector_ignores_lanes_witness:
  "CheckCache_scalar (cachedTlbs machine_4pages) 0x4000 1 \<and> \<not> CheckCache 0x4000 machine_4pages"
proof
  show "CheckCache_scalar (cachedTlbs machine_4pages) 0x4000 1"
    by (simp add: machine_4pages_def CheckCache_scalar_def)
  have "CheckCache 0x4000 machine_4pages \<longleftrightarrow> CheckCache_lane (cachedTlbs machine_4pages) 0x4000 0 0"
    by (rule CheckCache_vector_ignores_lanes) (auto simp: machine_4pages_def word_sless_alt)
  then show "\<not> CheckCache 0x4000 machine_4pages"
    by (simp add: machine_4pages_def CheckCache_lane_def Let_def word_sle_eq)
qed
section \<open>Memory through the data cache\<close>

text \<open>
  C5: with the data cache on, a cached page is flat memory. Through the accessors, a naturally
  aligned read of any width gives the bytes of the view (the cached line where there is one, host
  memory elsewhere) and keeps the view, whatever line it evicts; a write changes the view at exactly
  the bytes written; the cache stays well formed; and writing the whole cache back leaves the view
  in host memory. The page table maps the page to host memory with the page offset of the address.
\<close>
theorem cached_memory_is_flat:
  fixes v :: "'a::len word"
  assumes "cache_ok s" "CHECK_CACHE E" "CheckCache a s"
    and "translate s a = Ptr p" "p AND 0xFFF = ucast (a AND 0xFFF)"
    and "LENGTH('a) \<in> {8, 16, 32, 64, 128}" "a AND (of_nat (LENGTH('a) div 8) - 1) = 0"
  shows "(\<exists>t. vtlb_memRead E a s = Ok (hostLoad (cache_view s) p :: 'a word) t \<and>
        cache_ok t \<and> cache_view t = cache_view s \<and> vmap t = vmap s) \<and>
      (\<exists>t. vtlb_memWrite E a v s = Ok () t \<and>
        cache_ok t \<and> cache_view t = hostStore p v (cache_view s) \<and> vmap t = vmap s) \<and>
      host (writebackCache s) = cache_view s \<and> cache_view (writebackCache s) = cache_view s \<and> cache_ok (writebackCache s)"
proof -
  have p: "\<not> virt_isHandler (vmap s (vpage a)) a" "assumePtr (vmap s (vpage a)) a = p"
    using assms(4) by (auto simp: translate_def resolve_def split: if_splits)
  note acc = cached_access [OF assms(1) p(2) assms(5-7)]
  show ?thesis
    using acc(1) acc(2-4) [of v] p(1) assms(2,3) writebackCache_flushes [OF assms(1)]
    by (auto simp: vtlb_memRead_def vtlb_memWrite_def)
qed

definition machine_cached :: "unit machine" where
  "machine_cached = resetCache (machine_ram\<lparr>CP0 := (\<lambda>_. 0)(16 := 0x10000),
     cachedTlbs := (cachedTlbs machine_ram)\<lparr>count := 1, CacheEnabled0 := (\<lambda>_. - 1), PFN0s := (\<lambda>_. 0), PageMasks := (\<lambda>_. 0xFFF)\<rparr>\<rparr>)"

theorem cached_memory_is_flat_witness:
  "\<exists>t. vtlb_memWrite (no_env\<lparr>CHECK_CACHE := True\<rparr>) 0x10 (0x12345678 :: u32) machine_cached = Ok () t \<and>
    cache_view t = hostStore 0x100010 (0x12345678 :: u32) (cache_view machine_cached)"
proof -
  have "translate machine_cached 0x10 = Ptr 0x100010"
    using machine_ram_translate by (simp add: machine_cached_def translate_def resetCache_def)
  moreover have "CheckCache 0x10 machine_cached"
    by (simp add: CheckCache_def CheckCache_scalar_def machine_cached_def resetCache_def machine_ram_def)
  moreover have "cache_ok machine_cached" unfolding machine_cached_def by (rule resetCache_ok)
  ultimately show ?thesis
    using cached_memory_is_flat [of machine_cached "no_env\<lparr>CHECK_CACHE := True\<rparr>" "0x10" "0x100010" "0x12345678 :: u32"]
    by auto
qed

text \<open>
  C37: a hit on a locked line goes to the wrong line. When the line that holds an address is locked
  and the other way of its set is not, a cached read returns the bytes of the other way, at any
  width: \<^verbatim>\<open>getFreeCache\<close> moves to the unlocked way also when the address was found, and not only
  when a way has to be replaced.
\<close>
theorem locked_hit_reads_other_line:
  assumes "CHECK_CACHE E" "CheckCache a s" "translate s a = Ptr p"
    and "findInCache (cache s (setIdxFor a)) p = Some w"
    and "isLocked (lineTag (setIdxFor a) w s)" "\<not> isLocked (lineTag (setIdxFor a) (w XOR 1) s)"
    and "LENGTH('a::len) \<in> {8, 16, 32, 64, 128}" "a AND (of_nat (LENGTH('a) div 8) - 1) = 0"
  shows "vtlb_memRead E a s = Ok (bytesLoad (lineBytes (setIdxFor a) (w XOR 1) s) (ucast a) :: 'a word) s"
proof -
  have p: "\<not> virt_isHandler (vmap s (vpage a)) a" "assumePtr (vmap s (vpage a)) a = p"
    using assms(3) by (auto simp: translate_def resolve_def split: if_splits)
  then show ?thesis
    using locked_hit_reads_other_way [of s a w, where 'a = 'a] assms by (simp add: vtlb_memRead_def)
qed

theorem locked_hit_reads_other_line_witness:
  "vtlb_memRead (no_env\<lparr>CHECK_CACHE := True\<rparr>) 0x10
     (machine_cached\<lparr>cache := (\<lambda>_. \<lparr>tags = (\<lambda>w. if w = 0 then 0x100828 else 0), lineData = (\<lambda>w _. if w = 0 then 0x11 else 0x22)\<rparr>)\<rparr>) =
   Ok (0x22 :: u8) (machine_cached\<lparr>cache := (\<lambda>_. \<lparr>tags = (\<lambda>w. if w = 0 then 0x100828 else 0), lineData = (\<lambda>w _. if w = 0 then 0x11 else 0x22)\<rparr>)\<rparr>)"
  (is "vtlb_memRead _ _ ?s = _")
proof -
  have "translate ?s 0x10 = Ptr 0x100010"
    using machine_ram_translate by (simp add: machine_cached_def translate_def resetCache_def)
  moreover have "CheckCache 0x10 ?s"
    by (simp add: CheckCache_def CheckCache_scalar_def machine_cached_def resetCache_def machine_ram_def)
  moreover have "findInCache (cache ?s (setIdxFor 0x10)) 0x100010 = Some 0"
    by (simp add: findInCache_def tag_matches_def isValid_def tag_addr_def)
  ultimately show ?thesis
    using locked_hit_reads_other_line [of "no_env\<lparr>CHECK_CACHE := True\<rparr>" "0x10" ?s "0x100010" 0, where 'a = 8]
    by (simp add: lineTag_def lineBytes_def isLocked_def bytesLoad_def hostLoad_def)
qed

text \<open>
  C40: a tag stored by the guest becomes a host address. After the index store tag operation of
  \<^verbatim>\<open>CACHE\<close> with the valid and dirty bits set in \<open>TagLo\<close>, on a line whose page was mapped, writing the
  line back stores its 64 bytes at the host address that the guest's \<open>TagLo\<close> spells, whether or
  not that is guest memory: the tags hold host addresses, and only their flags are checked.
\<close>
theorem stored_tag_writes_host:
  assumes "fRt s = 0x12" "i = setIdxFor (UL 0 (GPR s (fRs s)) + scast (Imm s))"
    and "w = ucast ((UL 0 (GPR s (fRs s)) + scast (Imm s)) AND 0x1)"
    and "bit (CP0 s TagLo) 6" "bit (CP0 s TagLo) 5" "isValidPFN (lineTag i w s)"
  shows "host (writeBackIfNeeded i w (CACHE s)) (line_addr i (ucast (CP0 s TagLo)) + ucast k) = lineBytes i w s k"
proof -
  have l: "line_addr i (lineTag i w (CACHE s)) = line_addr i (ucast (CP0 s TagLo))"
    by (rule line_addr_cong) (rule DXSTG_tag(1) [OF assms(1-3)])
  have "ucast (ucast k :: u64) = k" "(ucast k :: u64) < 64" by (rule ucast_back, rule small_ucast)
  then show ?thesis
    using DXSTG_tag(2-5) [OF assms(1-3)] assms(4-6) by (simp add: writeBackIfNeeded_def Let_def l)
qed

theorem stored_tag_writes_host_witness:
  "host (writeBackIfNeeded 0 0 (CACHE (machine_cached\<lparr>code := 0xBC120000, CP0 := (\<lambda>_. 0)(28 := 0xDEAD0060),
     cache := (\<lambda>_. \<lparr>tags = (\<lambda>_. 0x800), lineData = (\<lambda>_ _. 0x55)\<rparr>)\<rparr>))) 0xDEAD0003 = 0x55"
  (is "host (writeBackIfNeeded 0 0 (CACHE ?s)) _ = _")
proof -
  have g: "GPR ?s = (\<lambda>_. 0)" by (simp add: machine_cached_def resetCache_def machine_ram_def)
  show ?thesis
    using stored_tag_writes_host [of ?s 0 0 3]
    by (simp add: g fRt_def fRs_def Imm_def setIdxFor_def UL_def lane_def lineTag_def lineBytes_def isValidPFN_def line_addr_def tag_addr_def)
qed

end
