(* ===== verification/EE_COP0.thy ===== *)
theory EE_COP0
  imports EE_ALU VTLB
begin

text \<open>
  Coprocessor 0 of the Emotion Engine (\<^verbatim>\<open>pcsx2/COP0.cpp\<close>): the status and configuration
  registers, the performance counters, the TLB with its effect on the page table, moves to and
  from the coprocessor, return from exceptions and interrupt enabling. \<^verbatim>\<open>Cpu->Clear\<close> does
  nothing under the interpreter and is left out, and so is \<^verbatim>\<open>intSetBranch\<close>, whose flag
  \<^verbatim>\<open>branch2\<close> nothing reads. The branches on the coprocessor condition are in
  \<open>EE_Interp\<close> with the other branches.
\<close>

section \<open>Performance counters, status and configuration\<close>

definition PERF_ShouldCountEvent :: "u32 \<Rightarrow> bool" where
  "PERF_ShouldCountEvent evt \<longleftrightarrow> evt \<in> {1, 2, 3, 12, 13, 14, 15}"

text \<open>The bit fields of \<^verbatim>\<open>pccr\<close> and the KSU field of the status register.\<close>

definition pccr_Event0 :: "u32 \<Rightarrow> u32" where "pccr_Event0 v = drop_bit 5 v AND 0x1F"
definition pccr_Event1 :: "u32 \<Rightarrow> u32" where "pccr_Event1 v = drop_bit 15 v AND 0x1F"
definition Status_KSU :: "u32 \<Rightarrow> nat" where "Status_KSU v = unat (drop_bit 3 v AND 0x3)"

definition perf_incr :: "u64 \<Rightarrow> u64 \<Rightarrow> u32" where
  "perf_incr now last1 = (let incr = ucast (now - last1) in if incr = 0 then incr + 1 else incr)"

definition COP0_UpdatePCCR :: "'a cpuRegisters_scheme \<Rightarrow> 'a cpuRegisters_scheme" where
  "COP0_UpdatePCCR s =
     (if bit (CP0 s Status) Status_ERL \<or> \<not> bit (pccr s) 31
      then s\<lparr>lastPERFCycle0 := cycle s, lastPERFCycle1 := cycle s\<rparr>
      else
        let ksu = Status_KSU (CP0 s Status); exl = (if bit (CP0 s Status) Status_EXL then 1 else 0 :: u32);
            s = (if pccr s AND (push_bit (ksu + 2) 1 OR push_bit 1 exl) \<noteq> 0 \<and> PERF_ShouldCountEvent (pccr_Event0 (pccr s))
                 then s\<lparr>pcr0 := pcr0 s + perf_incr (cycle s) (lastPERFCycle0 s)\<rparr> else s);
            s = (if pccr s AND (push_bit (ksu + 12) 1 OR push_bit 11 exl) \<noteq> 0 \<and> PERF_ShouldCountEvent (pccr_Event1 (pccr s))
                 then s\<lparr>pcr1 := pcr1 s + perf_incr (cycle s) (lastPERFCycle1 s)\<rparr> else s)
        in s\<lparr>lastPERFCycle0 := cycle s, lastPERFCycle1 := cycle s\<rparr>)"

definition WriteCP0Status :: "u32 \<Rightarrow> 'a cpuRegisters_scheme \<Rightarrow> 'a cpuRegisters_scheme" where
  "WriteCP0Status value s = cpuSetNextEventDelta 4 (wCP0 Status value (COP0_UpdatePCCR s))"

definition WriteCP0Config :: "u32 \<Rightarrow> 'a cpuRegisters_scheme \<Rightarrow> 'a cpuRegisters_scheme" where
  "WriteCP0Config value s =
     (let s = wCP0 Config (value AND NOT 0xFC0) s in wCP0 Config (CP0 s Config OR 0x440) s)"

section \<open>TLB entries\<close>

definition tMask :: "tlbs \<Rightarrow> u32" where "tMask t = drop_bit 13 (tPageMask t) AND 0xFFF"
definition EntryLo_PFN :: "u32 \<Rightarrow> u32" where "EntryLo_PFN lo = drop_bit 6 lo AND 0xFFFFF"
definition EntryLo_C :: "u32 \<Rightarrow> u32" where "EntryLo_C lo = drop_bit 3 lo AND 0x7"
definition set_EntryLo_C :: "u32 \<Rightarrow> u32 \<Rightarrow> u32" where "set_EntryLo_C c lo = (lo AND NOT 0x38) OR push_bit 3 c"
definition isCached :: "u32 \<Rightarrow> bool" where "isCached lo \<longleftrightarrow> EntryLo_C lo = 0x3"
definition isValidCacheMode :: "u32 \<Rightarrow> bool" where
  "isValidCacheMode lo \<longleftrightarrow> EntryLo_C lo = 0x2 \<or> EntryLo_C lo = 0x3 \<or> EntryLo_C lo = 0x7"

definition PFN0 :: "tlbs \<Rightarrow> u32" where "PFN0 t = push_bit 12 (EntryLo_PFN (tEntryLo0 t) AND NOT (tMask t))"
definition PFN1 :: "tlbs \<Rightarrow> u32" where "PFN1 t = push_bit 12 (EntryLo_PFN (tEntryLo1 t) AND NOT (tMask t))"
definition VPN2 :: "tlbs \<Rightarrow> u32" where
  "VPN2 t = push_bit 13 ((drop_bit 13 (tEntryHi t) AND 0x7FFFF) AND NOT (tMask t))"
definition isGlobal :: "tlbs \<Rightarrow> bool" where "isGlobal t \<longleftrightarrow> bit (tEntryLo0 t) 0 \<and> bit (tEntryLo1 t) 0"
definition isSPR :: "tlbs \<Rightarrow> bool" where "isSPR t \<longleftrightarrow> bit (tEntryLo0 t) 31"

text \<open>\<^verbatim>\<open>std::popcount(PageMask >> 13)\<close>, the bits set.\<close>

definition popcount :: "u32 \<Rightarrow> nat" where
  "popcount w = length (filter (bit w) [0..<32])"

definition ConvertPageMask :: "u32 \<Rightarrow> u32" where
  "ConvertPageMask pm = push_bit (12 + popcount (drop_bit 13 pm)) 1 - 1"

section \<open>Mapping and unmapping a TLB entry\<close>

text \<open>\<^verbatim>\<open>for (addr = saddr; addr < eaddr; addr++)\<close>\<close>

function for_addr :: "u32 \<Rightarrow> u32 \<Rightarrow> (u32 \<Rightarrow> 's \<Rightarrow> 's) \<Rightarrow> 's \<Rightarrow> 's" where
  "for_addr addr eaddr f s = (if addr < eaddr then for_addr (addr + 1) eaddr f (f addr s) else s)"
  by pat_completeness auto
termination
proof (relation "measure (\<lambda>(addr, eaddr, f, s). unat eaddr - unat addr)", simp)
  fix addr eaddr :: u32 and f :: "u32 \<Rightarrow> 's \<Rightarrow> 's" and s
  assume l: "addr < eaddr"
  have "unat eaddr < 2 ^ 32" using unsigned_less [of eaddr, where 'a = nat] by simp
  with l have "unat (addr + 1) = unat addr + 1" by (simp add: word_less_nat_alt unat_word_ariths)
  with l show "((addr + 1, eaddr, f, f addr s), (addr, eaddr, f, s)) \<in> measure (\<lambda>(addr, eaddr, f, s). unat eaddr - unat addr)"
    by (simp add: word_less_nat_alt)
qed

definition tlb_pages :: "tlbs \<Rightarrow> u32 \<Rightarrow> (u32 \<Rightarrow> 's \<Rightarrow> 's) \<Rightarrow> 's \<Rightarrow> 's" where
  "tlb_pages t saddr f s =
     (let msk = push_bit 1 (NOT (tMask t)) AND 0xfffff; eaddr = saddr + tMask t + 1 in
      for_addr saddr eaddr
        (\<lambda>addr s. if addr AND msk = drop_bit 12 (VPN2 t) AND msk then f addr s else s) s)"

definition MapTLB :: "tlbs \<Rightarrow> 'd machine \<Rightarrow> 'd machine" where
  "MapTLB t s =
     (if isSPR t then vtlb_VMapBuffer (VPN2 t) (Scratch s) 0x4000 s
      else
        let s = (if bit (tEntryLo0 t) 1
                 then let saddr = drop_bit 12 (VPN2 t)
                      in tlb_pages t saddr (\<lambda>addr. memSetPageAddr (push_bit 12 addr) (PFN0 t + push_bit 12 (addr - saddr))) s
                 else s)
        in if bit (tEntryLo1 t) 1
           then let saddr = drop_bit 12 (VPN2 t) + tMask t + 1
                in tlb_pages t saddr (\<lambda>addr. memSetPageAddr (push_bit 12 addr) (PFN1 t + push_bit 12 (addr - saddr))) s
           else s)"

text \<open>Removing element \<open>i\<close> of the parallel arrays: the later elements move down by one.\<close>

definition shift_down :: "nat \<Rightarrow> nat \<Rightarrow> (nat \<Rightarrow> u32) \<Rightarrow> (nat \<Rightarrow> u32)" where
  "shift_down i n a = fold (\<lambda>j a. a(j := a (j + 1))) [i..<n - 1] a"

definition cached_remove :: "nat \<Rightarrow> cachedTlbs_t \<Rightarrow> cachedTlbs_t" where
  "cached_remove i c =
     c\<lparr>CacheEnabled0 := shift_down i (count c) (CacheEnabled0 c),
       CacheEnabled1 := shift_down i (count c) (CacheEnabled1 c),
       PFN0s := shift_down i (count c) (PFN0s c),
       PFN1s := shift_down i (count c) (PFN1s c),
       PageMasks := shift_down i (count c) (PageMasks c),
       count := count c - 1\<rparr>"

definition cached_match :: "tlbs \<Rightarrow> cachedTlbs_t \<Rightarrow> nat \<Rightarrow> bool" where
  "cached_match t c i \<longleftrightarrow>
     PFN0s c i = PFN0 t \<and> PFN1s c i = PFN1 t \<and> PageMasks c i = ConvertPageMask (tPageMask t)"

definition UnmapTLB :: "tlbs \<Rightarrow> 'd machine \<Rightarrow> 'd machine" where
  "UnmapTLB t s =
     (if isSPR t then vtlb_VMapUnmap (VPN2 t) 0x4000 s
      else
        let s = (if bit (tEntryLo0 t) 1
                 then tlb_pages t (drop_bit 12 (VPN2 t)) (\<lambda>addr. memClearPageAddr (push_bit 12 addr)) s else s);
            s = (if bit (tEntryLo1 t) 1
                 then tlb_pages t (drop_bit 12 (VPN2 t) + tMask t + 1) (\<lambda>addr. memClearPageAddr (push_bit 12 addr)) s
                 else s)
        in case List.find (cached_match t (cachedTlbs s)) [0..<count (cachedTlbs s)] of
             None \<Rightarrow> s
           | Some i \<Rightarrow> s\<lparr>cachedTlbs := cached_remove i (cachedTlbs s)\<rparr>)"

text \<open>The entry \<^verbatim>\<open>WriteTLB\<close> stores: the coprocessor registers with the cache mode made valid.\<close>

definition tlb_from_CP0 :: "(5 word \<Rightarrow> u32) \<Rightarrow> tlbs" where
  "tlb_from_CP0 c =
     (let t = \<lparr>tPageMask = c PageMask, tEntryHi = c EntryHi, tEntryLo0 = c EntryLo0, tEntryLo1 = c EntryLo1\<rparr> in
      if isSPR t
      then t\<lparr>tEntryLo0 := set_EntryLo_C 3 (tEntryLo0 t), tEntryLo1 := set_EntryLo_C 3 (tEntryLo1 t)\<rparr>
      else
        let t = (if \<not> isValidCacheMode (tEntryLo0 t) then t\<lparr>tEntryLo0 := set_EntryLo_C 2 (tEntryLo0 t)\<rparr> else t)
        in if \<not> isValidCacheMode (tEntryLo1 t) then t\<lparr>tEntryLo1 := set_EntryLo_C 2 (tEntryLo1 t)\<rparr> else t)"

definition cached_entry :: "tlbs \<Rightarrow> bool" where
  "cached_entry t \<longleftrightarrow> \<not> isSPR t \<and>
     ((bit (tEntryLo0 t) 1 \<and> isCached (tEntryLo0 t)) \<or> (bit (tEntryLo1 t) 1 \<and> isCached (tEntryLo1 t)))"

definition cached_add :: "tlbs \<Rightarrow> cachedTlbs_t \<Rightarrow> cachedTlbs_t" where
  "cached_add t c =
     (let idx = count c in
      c\<lparr>CacheEnabled0 := (CacheEnabled0 c)(idx := (if isCached (tEntryLo0 t) then - 1 else 0)),
        CacheEnabled1 := (CacheEnabled1 c)(idx := (if isCached (tEntryLo1 t) then - 1 else 0)),
        PFN1s := (PFN1s c)(idx := PFN1 t),
        PFN0s := (PFN0s c)(idx := PFN0 t),
        PageMasks := (PageMasks c)(idx := ConvertPageMask (tPageMask t)),
        count := count c + 1\<rparr>)"

definition WriteTLB :: "nat \<Rightarrow> 'd machine \<Rightarrow> 'd machine" where
  "WriteTLB i s =
     (let t = tlb_from_CP0 (CP0 s);
          s = s\<lparr>tlb := (tlb s)(i := t)\<rparr>;
          s = (if cached_entry t then s\<lparr>cachedTlbs := cached_add t (cachedTlbs s)\<rparr> else s)
      in MapTLB t s)"

text \<open>\<^verbatim>\<open>vtlb_Reset\<close> of \<^verbatim>\<open>vtlb.cpp\<close>.\<close>

definition vtlb_Reset :: "'d machine \<Rightarrow> 'd machine" where
  "vtlb_Reset s = fold (\<lambda>i s. UnmapTLB (tlb s i) s) [0..<48] s"

section \<open>TLB instructions\<close>

definition TLBR :: "'d machine \<Rightarrow> 'd machine" where
  "TLBR s =
     (let i = unat (CP0 s Index AND 0x3f) in
      if 47 < i then s
      else
        let t = tlb s i;
            g = (tEntryLo0 t AND 1) AND (tEntryLo1 t AND 1);
            s = wCP0 PageMask (push_bit 13 (tMask t)) s;
            s = wCP0 EntryHi (tEntryHi t AND NOT (push_bit 13 (tMask t) OR 0x1f00)) s;
            s = wCP0 EntryLo0 (tEntryLo0 t AND NOT 0xFC000000 AND NOT 1) s;
            s = wCP0 EntryLo1 (tEntryLo1 t AND NOT 0x7C000000 AND NOT 1) s;
            s = wCP0 EntryLo0 (CP0 s EntryLo0 OR g) s
        in wCP0 EntryLo1 (CP0 s EntryLo1 OR g) s)"

definition TLBWI :: "'d machine \<Rightarrow> 'd machine" where
  "TLBWI s =
     (let j = unat (CP0 s Index AND 0x3f) in
      if 47 < j then s else WriteTLB j (UnmapTLB (tlb s j) s))"

definition TLBWR :: "'d machine \<Rightarrow> 'd machine" where
  "TLBWR s =
     (let j = unat (CP0 s Random AND 0x3f) in
      if 47 < j then s else WriteTLB j (UnmapTLB (tlb s j) s))"

definition TLBP :: "'d machine \<Rightarrow> 'd machine" where
  "TLBP s =
     (let hi = CP0 s EntryHi; vpn2 = hi AND 0x7FFFF; asid = drop_bit 24 hi;
          hit = (\<lambda>i. let t = tlb s i in
            VPN2 t = NOT (tMask t) AND vpn2 \<and> (isGlobal t \<or> tEntryHi t AND 0xFF = asid));
          s = wCP0 Index 0xFFFFFFFF s;
          s = (case List.find hit [0..<48] of Some i \<Rightarrow> wCP0 Index (of_nat i) s | None \<Rightarrow> s)
      in if CP0 s Index = 0xFFFFFFFF then wCP0 Index 0x80000000 s else s)"

section \<open>Moves, exception return, interrupt enabling\<close>

definition MFC0 :: "'a cpuRegisters_scheme \<Rightarrow> 'a cpuRegisters_scheme" where
  "MFC0 s =
     (if fRd s \<noteq> 9 \<and> fRt s = 0 then s
      else if fRd s = 12 then wUD (fRt s) 0 (scast (CP0 s (fRd s) AND 0xf0c79c1f)) s
      else if fRd s = 25 then
        if \<not> bit (Imm s) 0 then wUD (fRt s) 0 (scast (pccr s)) s
        else if \<not> bit (Imm s) 1 then let s = COP0_UpdatePCCR s in wUD (fRt s) 0 (scast (pcr0 s)) s
        else let s = COP0_UpdatePCCR s in wUD (fRt s) 0 (scast (pcr1 s)) s
      else if fRd s = 24 then s
      else if fRd s = 9 then
        let incr = cycle s - lastCOP0Cycle s;
            incr = (if incr = 0 then incr + 1 else incr);
            s = wCP0 Count (CP0 s Count + ucast incr) s;
            s = s\<lparr>lastCOP0Cycle := cycle s\<rparr>
        in if fRt s = 0 then s else wUD (fRt s) 0 (scast (CP0 s (fRd s))) s
      else wUD (fRt s) 0 (scast (CP0 s (fRd s))) s)"

definition MTC0 :: "'a cpuRegisters_scheme \<Rightarrow> 'a cpuRegisters_scheme" where
  "MTC0 s =
     (let v = UL 0 (GPR s (fRt s)) in
      if fRd s = 9 then wCP0 9 v (s\<lparr>lastCOP0Cycle := cycle s\<rparr>)
      else if fRd s = 12 then WriteCP0Status v s
      else if fRd s = 16 then WriteCP0Config v s
      else if fRd s = 24 then s
      else if fRd s = 25 then
        if \<not> bit (Imm s) 0 then
          if Imm s AND 0x3E \<noteq> 0 then s else (COP0_UpdatePCCR s)\<lparr>pccr := v\<rparr>
        else if \<not> bit (Imm s) 1 then s\<lparr>pcr0 := v, lastPERFCycle0 := cycle s\<rparr>
        else s\<lparr>pcr1 := v, lastPERFCycle1 := cycle s\<rparr>
      else wCP0 (fRd s) v s)"

definition ERET :: "'a cpuRegisters_scheme \<Rightarrow> 'a cpuRegisters_scheme" where
  "ERET s =
     (let s = (if bit (CP0 s Status) Status_ERL
               then wCP0 Status (unset_bit Status_ERL (CP0 s Status)) (s\<lparr>pc := CP0 s ErrorEPC\<rparr>)
               else wCP0 Status (unset_bit Status_EXL (CP0 s Status)) (s\<lparr>pc := CP0 s EPC\<rparr>))
      in cpuSetNextEventDelta 4 s)"

definition may_switch_interrupts :: "u32 \<Rightarrow> bool" where
  "may_switch_interrupts st \<longleftrightarrow>
     bit st Status_EDI \<or> bit st Status_EXL \<or> bit st Status_ERL \<or> Status_KSU st = 0"

definition DI :: "'a cpuRegisters_scheme \<Rightarrow> 'a cpuRegisters_scheme" where
  "DI s =
     (if may_switch_interrupts (CP0 s Status)
      then wCP0 Status (unset_bit Status_EIE (CP0 s Status)) s else s)"

definition EI :: "'a cpuRegisters_scheme \<Rightarrow> 'a cpuRegisters_scheme" where
  "EI s =
     (if may_switch_interrupts (CP0 s Status)
      then cpuSetNextEventDelta 4 (wCP0 Status (set_bit Status_EIE (CP0 s Status)) s) else s)"

section \<open>Status, configuration, moves and exception return\<close>

lemma UpdatePCCR_frame [frame, simp]:
  "GPR (COP0_UpdatePCCR s) = GPR s" "CP0 (COP0_UpdatePCCR s) = CP0 s" "pc (COP0_UpdatePCCR s) = pc s"
  "code (COP0_UpdatePCCR s) = code s" "cycle (COP0_UpdatePCCR s) = cycle s"
  "cpuRegisters.more (COP0_UpdatePCCR s) = cpuRegisters.more s"
  by (simp_all add: COP0_UpdatePCCR_def Let_def)

lemma set_unset: "\<not> bit (w :: u32) n \<Longrightarrow> unset_bit n (set_bit n w) = w"
  by (rule bit_word_eqI) (auto simp: bit_simps)

lemma bit_set_other: "m \<noteq> n \<Longrightarrow> bit (set_bit n w :: u32) m = bit w m"
  by (auto simp: bit_simps)

lemma exception_return_parts:
  assumes "\<not> bit (CP0 s Status) Status_ERL" "\<not> bit (CP0 s Status) Status_EXL"
  shows "pc (ERET (cpuException e bd s)) = (if bd \<noteq> 0 then pc s - 4 else pc s)"
    and "CP0 (ERET (cpuException e bd s)) Status = CP0 s Status"
    and "GPR (ERET (cpuException e bd s)) = GPR s"
proof -
  have st: "CP0 (cpuException e bd s) Status = set_bit Status_EXL (CP0 s Status)"
    and epc: "CP0 (cpuException e bd s) EPC = (if bd \<noteq> 0 then pc s - 4 else pc s)"
    by (rule cpuException_level1 [OF assms])+
  have erl: "\<not> bit (set_bit Status_EXL (CP0 s Status)) Status_ERL" using assms(1) bit_set_other [of 2 1] by simp
  show "pc (ERET (cpuException e bd s)) = (if bd \<noteq> 0 then pc s - 4 else pc s)"
    and "CP0 (ERET (cpuException e bd s)) Status = CP0 s Status"
    and "GPR (ERET (cpuException e bd s)) = GPR s"
    using set_unset [OF assms(2)] erl st epc by (simp_all add: ERET_def)
qed

text \<open>
  C33: outside exception level, raising any exception and returning from it with ERET resumes at the
  interrupted instruction (at the branch when the instruction was in its delay slot), restores the
  status register and keeps the general registers.
\<close>
theorem exception_return:
  assumes "\<not> bit (CP0 s Status) Status_ERL" "\<not> bit (CP0 s Status) Status_EXL"
  shows "pc (ERET (cpuException e bd s)) = (if bd \<noteq> 0 then pc s - 4 else pc s) \<and>
    CP0 (ERET (cpuException e bd s)) Status = CP0 s Status \<and>
    GPR (ERET (cpuException e bd s)) = GPR s"
  using exception_return_parts [OF assms] by blast

theorem exception_return_witness:
  "pc (ERET (cpuException 0x20 1 (wCP0 Status 0 cpuReset))) = 0xbfbffffc"
  using exception_return [of "wCP0 Status 0 cpuReset" "0x20" 1] by (simp add: cpuReset_def)

lemma protected_bits:
  fixes v m k :: u32
  assumes "k AND m = k"
  shows "((v AND NOT m) OR k) AND m = k" "((v AND NOT m) OR k) AND NOT m = v AND NOT m"
proof -
  have k: "bit k n \<Longrightarrow> bit m n" for n using assms by (metis bit_and_iff)
  show "((v AND NOT m) OR k) AND m = k" "((v AND NOT m) OR k) AND NOT m = v AND NOT m"
    by (rule bit_word_eqI; use k in \<open>auto simp: bit_simps\<close>)+
qed

text \<open>
  Whatever is written to the configuration register, the read-only cache size fields keep the
  hardware's values and every other bit is the one written.
\<close>
lemma config_protected:
  "CP0 (WriteCP0Config v s) Config = (v AND NOT 0xFC0) OR 0x440 \<and>
   CP0 (WriteCP0Config v s) Config AND 0xFC0 = 0x440 \<and>
   CP0 (WriteCP0Config v s) Config AND NOT 0xFC0 = v AND NOT 0xFC0"
proof -
  have "CP0 (WriteCP0Config v s) Config = (v AND NOT 0xFC0) OR 0x440" by (simp add: WriteCP0Config_def Let_def)
  then show ?thesis using protected_bits [of "0x440" "0xFC0" v] by (simp only: simp_thms) simp
qed

text \<open>
  A coprocessor register written by MTC0 and read by a later MFC0 that finds the coprocessor
  registers as MTC0 left them gives the sign extension of the low word that was written, for every
  register without a write or read of its own (Count, Status, Config, the breakpoint and the
  performance registers).
\<close>
lemma MTC0_MFC0:
  assumes "fRd s = fRd t" "fRd s \<notin> {9, 12, 16, 24, 25}" "fRt t \<noteq> 0" "CP0 t = CP0 (MTC0 s)"
  shows "UD 0 (GPR (MFC0 t) (fRt t)) = scast (UL 0 (GPR s (fRt s)))"
  using assms by (auto simp: MFC0_def MTC0_def Let_def lane_simps)

section \<open>The arrays of cached entries\<close>

text \<open>An element of the arrays is known by its frames and page mask; the arrays hold a sub-multiset of
  what the valid, cached entries of the TLB would give.\<close>

definition cached_key :: "tlbs \<Rightarrow> u32 \<times> u32 \<times> u32" where
  "cached_key t = (PFN0 t, PFN1 t, ConvertPageMask (tPageMask t))"

definition array_key :: "cachedTlbs_t \<Rightarrow> nat \<Rightarrow> u32 \<times> u32 \<times> u32" where
  "array_key c i = (PFN0s c i, PFN1s c i, PageMasks c i)"

definition array_keys :: "cachedTlbs_t \<Rightarrow> (u32 \<times> u32 \<times> u32) multiset" where
  "array_keys c = mset (map (array_key c) [0..<count c])"

definition entry_keys :: "(nat \<Rightarrow> tlbs) \<Rightarrow> nat list \<Rightarrow> (u32 \<times> u32 \<times> u32) multiset" where
  "entry_keys T is1 = mset (map (\<lambda>i. cached_key (T i)) (filter (\<lambda>i. cached_entry (T i)) is1))"

definition tlb_inv :: "'d machine \<Rightarrow> bool" where
  "tlb_inv s \<longleftrightarrow> array_keys (cachedTlbs s) \<subseteq># entry_keys (tlb s) [0..<48]"

lemma size_entry_keys: "size (entry_keys T is1) \<le> length is1"
  unfolding entry_keys_def size_mset length_map by (rule length_filter_le)

lemma tlb_inv_count: "tlb_inv s \<Longrightarrow> count (cachedTlbs s) \<le> 48"
proof -
  assume "tlb_inv s"
  then have "size (array_keys (cachedTlbs s)) \<le> size (entry_keys (tlb s) [0..<48])"
    unfolding tlb_inv_def by (rule size_mset_mono)
  also have "\<dots> \<le> 48" using size_entry_keys [of "tlb s" "[0..<48]"] by simp
  finally show ?thesis by (simp add: array_keys_def)
qed

lemma shift_down_nth:
  "shift_down i n a k = (if i \<le> k \<and> k + 1 < n then a (k + 1) else a k)"
proof -
  have "fold (\<lambda>j a. a(j := a (j + 1))) [i..<m] a k = (if i \<le> k \<and> k < m then a (k + 1) else a k)" for m k
    by (induction m arbitrary: k) (auto simp: less_Suc_eq)
  then show ?thesis unfolding shift_down_def by (auto simp: less_diff_conv)
qed

lemma array_keys_remove:
  assumes "i < count c"
  shows "array_keys (cached_remove i c) = array_keys c - {#array_key c i#}"
proof -
  let ?n = "count c"
  have key: "array_key (cached_remove i c) k = (if i \<le> k \<and> k + 1 < ?n then array_key c (k + 1) else array_key c k)" for k
    by (simp add: array_key_def cached_remove_def shift_down_nth)
  have "map (array_key (cached_remove i c)) [0..<?n - 1] = map (array_key c) [0..<i] @ map (array_key c) [i + 1..<?n]"
    using assms by (intro nth_equalityI) (auto simp: key nth_append)
  moreover have "[0..<?n] = [0..<i] @ i # [i + 1..<?n]" using assms
    by (metis Suc_eq_plus1 less_imp_add_positive upt_add_eq_append upt_conv_Cons zero_le)
  ultimately show ?thesis by (simp add: array_keys_def cached_remove_def)
qed

lemma for_addr_field: "(\<And>a s. g (f a s) = g s) \<Longrightarrow> g (for_addr b e f s) = g s"
  by (induction b e f s rule: for_addr.induct) (subst for_addr.simps, auto)

lemma tlb_pages_field: "(\<And>a s. g (f a s) = g s) \<Longrightarrow> g (tlb_pages t b f s) = g s"
  unfolding tlb_pages_def Let_def by (rule for_addr_field) simp

lemma vtlb_tlb_frame [simp]:
  "tlb (vtlb_VMapUnmap v sz s) = tlb s" "cachedTlbs (vtlb_VMapUnmap v sz s) = cachedTlbs s" "CP0 (vtlb_VMapUnmap v sz s) = CP0 s"
  "tlb (vtlb_VMapBuffer v b sz s) = tlb s" "cachedTlbs (vtlb_VMapBuffer v b sz s) = cachedTlbs s" "CP0 (vtlb_VMapBuffer v b sz s) = CP0 s"
  "GPR (vtlb_VMapUnmap v sz s) = GPR s" "GPR (vtlb_VMapBuffer v b sz s) = GPR s"
  by (simp_all add: vtlb_VMapUnmap_def vtlb_VMapBuffer_def fold_field)

lemma VMap_page_frame [simp]:
  "tlb (vtlb_VMap_page v p s) = tlb s" "cachedTlbs (vtlb_VMap_page v p s) = cachedTlbs s"
  "CP0 (vtlb_VMap_page v p s) = CP0 s" "GPR (vtlb_VMap_page v p s) = GPR s" "Scratch (vtlb_VMap_page v p s) = Scratch s"
  by (simp_all add: vtlb_VMap_page_def Let_def split: option.splits)

lemma VMap_frame [simp]:
  "tlb (vtlb_VMap v p sz s) = tlb s" "cachedTlbs (vtlb_VMap v p sz s) = cachedTlbs s"
  "CP0 (vtlb_VMap v p sz s) = CP0 s" "GPR (vtlb_VMap v p sz s) = GPR s"
  by (simp_all add: vtlb_VMap_def fold_field)

lemma MapTLB_frame [frame, simp]:
  "tlb (MapTLB t s) = tlb s" "cachedTlbs (MapTLB t s) = cachedTlbs s" "CP0 (MapTLB t s) = CP0 s"
  "GPR (MapTLB t s) = GPR s" "pmap (MapTLB t s) = pmap s"
  by (simp_all add: MapTLB_def Let_def memSetPageAddr_def tlb_pages_field)

lemma UnmapTLB_frame [frame, simp]:
  "tlb (UnmapTLB t s) = tlb s" "CP0 (UnmapTLB t s) = CP0 s" "GPR (UnmapTLB t s) = GPR s" "pmap (UnmapTLB t s) = pmap s"
  by (simp_all add: UnmapTLB_def Let_def memClearPageAddr_def tlb_pages_field split: option.splits)

lemma UnmapTLB_cached:
  "cachedTlbs (UnmapTLB t s) =
    (if isSPR t then cachedTlbs s else
     case List.find (cached_match t (cachedTlbs s)) [0..<count (cachedTlbs s)] of
       None \<Rightarrow> cachedTlbs s | Some i \<Rightarrow> cached_remove i (cachedTlbs s))"
  by (simp add: UnmapTLB_def Let_def memClearPageAddr_def tlb_pages_field split: option.splits)

lemma cached_match_key: "cached_match t c i \<longleftrightarrow> array_key c i = cached_key t"
  by (auto simp: cached_match_def array_key_def cached_key_def)


lemma array_key_in: "i < count c \<Longrightarrow> array_key c i \<in># array_keys c"
  by (auto simp: array_keys_def)

lemma UnmapTLB_keys:
  "array_keys (cachedTlbs (UnmapTLB t s)) =
    (if isSPR t then array_keys (cachedTlbs s) else array_keys (cachedTlbs s) - {#cached_key t#})"
proof (cases "List.find (cached_match t (cachedTlbs s)) [0..<count (cachedTlbs s)]")
  case None
  then have "cached_key t \<notin># array_keys (cachedTlbs s)"
    unfolding find_None_iff cached_match_key by (auto simp: array_keys_def)
  then show ?thesis by (simp add: UnmapTLB_cached None diff_single_trivial)
next
  case (Some i)
  then have "i < count (cachedTlbs s)" "array_key (cachedTlbs s) i = cached_key t"
    unfolding find_Some_iff cached_match_key by auto
  then show ?thesis by (simp add: UnmapTLB_cached Some array_keys_remove)
qed

lemma cached_add_keys: "array_keys (cached_add t c) = add_mset (cached_key t) (array_keys c)"
proof -
  have "map (array_key (cached_add t c)) [0..<count c] = map (array_key c) [0..<count c]"
    by (auto simp: array_key_def cached_add_def Let_def)
  moreover have "array_key (cached_add t c) (count c) = cached_key t"
    by (simp add: array_key_def cached_add_def Let_def cached_key_def)
  moreover have "count (cached_add t c) = Suc (count c)" by (simp add: cached_add_def Let_def)
  ultimately show ?thesis by (simp add: array_keys_def del: map_eq_conv)
qed

lemma entry_keys_update:
  assumes "j < n"
  shows "entry_keys (T(j := t)) [0..<n] =
    (if cached_entry t then {#cached_key t#} else {#}) +
    (entry_keys T [0..<n] - (if cached_entry (T j) then {#cached_key (T j)#} else {#}))"
proof -
  have split: "[0..<n] = [0..<j] @ j # [j + 1..<n]" using assms
    by (metis Suc_eq_plus1 less_imp_add_positive upt_add_eq_append upt_conv_Cons zero_le)
  have other: "j \<notin> set xs \<Longrightarrow> entry_keys (T(j := t)) xs = entry_keys T xs" for xs
    unfolding entry_keys_def by (intro arg_cong [where f = mset] map_cong filter_cong) auto
  have app: "entry_keys U (xs @ i # ys) = (if cached_entry (U i) then {#cached_key (U i)#} else {#}) + (entry_keys U xs + entry_keys U ys)"
    for U xs i ys by (simp add: entry_keys_def)
  show ?thesis unfolding split app by (simp add: other)
qed

lemma WriteTLB_parts:
  "tlb (WriteTLB j s) = (tlb s)(j := tlb_from_CP0 (CP0 s))"
  "array_keys (cachedTlbs (WriteTLB j s)) =
    (if cached_entry (tlb_from_CP0 (CP0 s)) then {#cached_key (tlb_from_CP0 (CP0 s))#} else {#}) + array_keys (cachedTlbs s)"
  "CP0 (WriteTLB j s) = CP0 s" "GPR (WriteTLB j s) = GPR s" "pmap (WriteTLB j s) = pmap s"
  by (simp_all add: WriteTLB_def Let_def cached_add_keys)

lemma UnmapTLB_rest:
  assumes "tlb_inv s"
  shows "array_keys (cachedTlbs (UnmapTLB (tlb s j) s)) \<subseteq>#
    entry_keys (tlb s) [0..<48] - (if cached_entry (tlb s j) then {#cached_key (tlb s j)#} else {#})"
proof -
  let ?E = "entry_keys (tlb s) [0..<48]" and ?A = "array_keys (cachedTlbs s)" and ?t = "tlb s j"
  have sub: "?A \<subseteq># ?E" using assms by (simp add: tlb_inv_def)
  then have mono: "?A - K \<subseteq># ?E - K" for K by (simp add: subseteq_mset_def diff_le_mono)
  show ?thesis
    using mono [of "{#cached_key ?t#}"] sub subset_mset.order_trans [OF diff_subset_eq_self sub, of "{#cached_key ?t#}"]
    by (simp add: UnmapTLB_keys cached_entry_def)
qed

lemma WriteTLB_inv:
  assumes "tlb_inv s" "j < 48"
  shows "tlb_inv (WriteTLB j (UnmapTLB (tlb s j) s))"
  using UnmapTLB_rest [OF assms(1), of j]
  by (simp add: tlb_inv_def WriteTLB_parts entry_keys_update [OF assms(2)] subset_mset.add_left_mono)

section \<open>The loops over the pages of an entry\<close>

text \<open>\<open>f\<close> sends one page, given by its number, to \<open>T\<close> and leaves every other page alone.\<close>

locale addr_writer =
  fixes f :: "u32 \<Rightarrow> 'd machine \<Rightarrow> 'd machine" and T :: "u32 \<Rightarrow> target" and Q :: "'d machine \<Rightarrow> bool"
  assumes keep: "Q s \<Longrightarrow> Q (f addr s)"
    and wr_page: "Q s \<Longrightarrow> unat addr < 0x100000 \<Longrightarrow>
      translate (f addr s) a = (if drop_bit 12 a = addr then T a else translate s a)"
begin

lemma run_if:
  assumes "Q s" "unat eaddr \<le> 0x100000" "\<And>x. saddr \<le> x \<Longrightarrow> x < eaddr \<Longrightarrow> c x"
  shows "translate (for_addr saddr eaddr (\<lambda>addr s. if c addr then f addr s else s) s) a =
    (if saddr \<le> drop_bit 12 a \<and> drop_bit 12 a < eaddr then T a else translate s a)
    \<and> Q (for_addr saddr eaddr (\<lambda>addr s. if c addr then f addr s else s) s)"
  using assms
proof (induction saddr eaddr "\<lambda>addr s. if c addr then f addr s else s" s rule: for_addr.induct)
  case (1 saddr eaddr s)
  show ?case
  proof (cases "saddr < eaddr")
    case True
    then have up: "unat (saddr + 1) = unat saddr + 1" and lt: "unat saddr < 0x100000"
      using 1(3) by (simp_all add: word_less_nat_alt unat_word_ariths)
    have "c saddr" using 1(4) True by simp
    moreover have "c x" if "saddr + 1 \<le> x" "x < eaddr" for x
      using 1(4) [of x] that up by (simp add: word_le_nat_alt)
    moreover have "(saddr + 1 \<le> x \<and> x < eaddr) \<longleftrightarrow> (saddr \<le> x \<and> x < eaddr \<and> x \<noteq> saddr)" for x
      using up by (auto simp: word_le_nat_alt word_less_nat_alt word_unat_eq_iff)
    ultimately show ?thesis
      using True 1(1) [OF True] 1(2,3) keep [OF 1(2)] wr_page [OF 1(2) lt]
      by (subst (1 2) for_addr.simps) auto
  next
    case False
    then show ?thesis using 1(2) by (subst (1 2) for_addr.simps) auto
  qed
qed

end

lemma aligned_push: "aligned (push_bit 12 w)"
  using aligned_page [of "unat w"] by (simp add: push_bit_eq_mult)

lemma page_addr:
  assumes "unat (addr :: u32) < 0x100000"
  shows "aligned (push_bit 12 addr)" "in_range (push_bit 12 addr) 0x1000 a \<longleftrightarrow> drop_bit 12 a = addr"
proof -
  have u: "unat (push_bit 12 addr) = unat addr * 0x1000"
    using assms by (simp add: push_bit_eq_mult unat_word_ariths)
  show al: "aligned (push_bit 12 addr)" by (rule aligned_push)
  have "vpage a = vpage (push_bit 12 addr + of_nat 0 * 0x1000) \<longleftrightarrow> unat (a - push_bit 12 addr) div 0x1000 = 0"
    using al by (intro page_index) auto
  moreover have "drop_bit 12 (push_bit 12 addr) = addr"
    by (rule word_unat_eq_iff [THEN iffD2]) (simp add: unat_drop_bit u)
  moreover have "unat (vpage b) = unat (drop_bit 12 b)" for b
    using unsigned_less [of b, where 'a = nat] by (simp add: vpage_def unsigned_ucast_eq take_bit_eq_mod unat_drop_bit)
  then have "vpage a = vpage b \<longleftrightarrow> drop_bit 12 a = drop_bit 12 b" for b
    by (simp add: word_unat_eq_iff)
  ultimately show "in_range (push_bit 12 addr) 0x1000 a \<longleftrightarrow> drop_bit 12 a = addr"
    by (simp add: in_range_def)
qed

interpretation unmap_addr: addr_writer "\<lambda>addr. memClearPageAddr (push_bit 12 addr)" "Handler UnmappedVirtHandler" "\<lambda>_. True"
  by unfold_locales (simp_all add: memClearPageAddr_def vtlb_VMapUnmap_translate page_addr)

interpretation map_addr: addr_writer "\<lambda>addr. memSetPageAddr (push_bit 12 addr) (P + push_bit 12 (addr - saddr))"
  "\<lambda>a. phys_target pm (P + (a - push_bit 12 saddr))" "\<lambda>s. pmap s = pm \<and> wf_pmap pm \<and> aligned P"
  for P saddr pm
proof (unfold_locales, goal_cases)
  case (2 s addr a)
  have "aligned (P + push_bit 12 (addr - saddr))" using 2 by (intro aligned_add aligned_push) auto
  moreover have "P + push_bit 12 (addr - saddr) + (a - push_bit 12 addr) = P + (a - push_bit 12 saddr)"
    by (simp add: push_bit_eq_mult algebra_simps)
  ultimately show ?case using 2 vtlb_VMap_translate [OF page_addr(1), of addr "P + push_bit 12 (addr - saddr)" s "0x1000" a]
    by (simp only: memSetPageAddr_def page_addr)
qed (simp add: memSetPageAddr_def vtlb_VMap_def fold_field VMap_page_fields)

text \<open>The architecture's view of an entry whose page mask covers \<open>2 ^ e\<close> pages of 4 KiB: the
  bits of an address above the pair select the entry, the next bit selects the even or the odd
  frame, the rest is the offset.\<close>

definition tlb_lookup :: "tlbs \<Rightarrow> nat \<Rightarrow> u32 \<Rightarrow> u32 option" where
  "tlb_lookup t e a =
     (if drop_bit (13 + e) a \<noteq> drop_bit (13 + e) (tEntryHi t) then None
      else if bit a (12 + e)
        then if bit (tEntryLo1 t) 1 then Some (PFN1 t OR take_bit (12 + e) a) else None
        else if bit (tEntryLo0 t) 1 then Some (PFN0 t OR take_bit (12 + e) a) else None)"

lemma bit_tMask: "tMask t = mask e \<Longrightarrow> bit (tMask t) n \<longleftrightarrow> n < e \<and> n < 32"
  by (auto simp: bit_simps)

lemma bit_VPN2:
  assumes "tMask t = mask e" "e \<le> 12"
  shows "bit (VPN2 t) n \<longleftrightarrow> 13 + e \<le> n \<and> bit (tEntryHi t) n"
proof -
  have m: "(0x7FFFF :: u32) = mask 19" by (simp add: mask_eq_decr_exp)
  show ?thesis unfolding VPN2_def m assms(1) using bit_imp_le_length [of "tEntryHi t" n]
    by (auto simp: bit_simps)
qed

lemma bit_PFN:
  assumes "tMask t = mask e" "e \<le> 12"
  shows "bit (PFN0 t) n \<Longrightarrow> 12 + e \<le> n" "bit (PFN1 t) n \<Longrightarrow> 12 + e \<le> n"
  unfolding PFN0_def PFN1_def assms(1) by (auto simp: bit_simps)

lemma masks_agree:
  fixes a b m :: u32
  assumes "drop_bit k a = drop_bit k b" "\<And>n. n < k \<Longrightarrow> \<not> bit m n"
  shows "a AND m = b AND m"
proof (rule bit_word_eqI)
  fix n
  show "bit (a AND m) n = bit (b AND m) n"
  proof (cases "n < k")
    case False
    then have "bit a n = bit (drop_bit k a) (n - k)" "bit b n = bit (drop_bit k b) (n - k)" by (simp_all add: bit_simps)
    then show ?thesis using assms(1) by (simp add: bit_simps)
  qed (use assms(2) in \<open>simp add: bit_simps\<close>)
qed

text \<open>The pages of each half, as the loop bounds and as bits of an address.\<close>

lemma tlb_halves:
  assumes "tMask t = mask e" "e \<le> 12"
  defines "b \<equiv> drop_bit 12 (VPN2 t)"
  shows "unat (b + tMask t + 1) = unat b + 2 ^ e" "unat (b + tMask t + 1 + tMask t + 1) = unat b + 2 ^ (e + 1)"
    "unat b + 2 ^ (e + 1) \<le> 0x100000" "2 ^ (e + 1) dvd unat b"
    "push_bit 12 b = VPN2 t" "unat (VPN2 t) = unat b * 0x1000"
proof -
  have low: "take_bit (13 + e) (VPN2 t) = 0"
    by (rule bit_word_eqI) (simp add: bit_simps bit_VPN2 [OF assms(1,2)])
  have dv: "2 ^ (13 + e) dvd unat (VPN2 t)"
    using arg_cong [OF low, of unat] by (simp add: unat_take_bit dvd_eq_mod_eq_0)
  then obtain q where q: "unat (VPN2 t) = 2 ^ (13 + e) * q" by (elim dvdE)
  have ub: "unat b = 2 ^ (e + 1) * q" unfolding b_def unat_drop_bit q by (simp add: power_add)
  have "2 ^ (13 + e) * q < 2 ^ 32" using unsigned_less [of "VPN2 t", where 'a = nat] q by simp
  moreover have "(2 :: nat) ^ 32 = 2 ^ (13 + e) * 2 ^ (19 - e)" using assms(2) by (simp flip: power_add)
  ultimately have "2 ^ (13 + e) * q < 2 ^ (13 + e) * 2 ^ (19 - e)" by (simp only:)
  then have "q < 2 ^ (19 - e)" by (simp only: mult_less_cancel1)
  then have "q + 1 \<le> 2 ^ (19 - e)" by simp
  then have "2 ^ (e + 1) * (q + 1) \<le> 2 ^ (e + 1) * 2 ^ (19 - e)" by (rule mult_le_mono2)
  also have "\<dots> = 0x100000" using assms(2) by (simp add: power_add [symmetric])
  finally show le: "unat b + 2 ^ (e + 1) \<le> 0x100000" by (simp add: ub)
  show "2 ^ (e + 1) dvd unat b" by (simp add: ub)
  show v: "unat (VPN2 t) = unat b * 0x1000" by (simp add: ub q power_add)
  have "unat b < 0x100000" using le zero_less_power [of "2 :: nat" "e + 1"] by linarith
  then show "push_bit 12 b = VPN2 t"
    by (intro word_unat_eq_iff [THEN iffD2]) (simp add: push_bit_eq_mult unat_word_ariths v)
  have w: "tMask t + 1 = 2 ^ e" by (simp add: assms(1) mask_eq_decr_exp)
  have e: "(2 :: nat) ^ e \<le> 2 ^ 12" using assms(2) by (rule power_increasing) simp
  have "unat (of_nat (2 ^ e) :: u32) = 2 ^ e" using e by (simp only: unat_of_nat) (simp add: take_bit_eq_mod)
  then have pe: "unat (2 ^ e :: u32) = 2 ^ e" by simp
  have "unat (b + 2 ^ e) = unat b + 2 ^ e" using le e by (simp add: unat_word_ariths pe)
  moreover have "unat (b + 2 ^ e + 2 ^ e) = unat b + 2 ^ e + 2 ^ e" using le e by (simp add: unat_word_ariths pe)
  ultimately show "unat (b + tMask t + 1) = unat b + 2 ^ e" "unat (b + tMask t + 1 + tMask t + 1) = unat b + 2 ^ (e + 1)"
    by (simp_all add: add.assoc w)
qed

lemma VPN2_index:
  assumes "tMask t = mask e" "e \<le> 12"
  shows "unat (drop_bit 12 (VPN2 t)) = 2 ^ e * (2 * unat (drop_bit (13 + e) (tEntryHi t)))"
proof -
  have "drop_bit (e + 1) (drop_bit 12 (VPN2 t)) = drop_bit (13 + e) (tEntryHi t)"
    by (rule bit_word_eqI) (auto simp: bit_simps bit_VPN2 [OF assms] ac_simps)
  then have "unat (drop_bit 12 (VPN2 t)) div 2 ^ (e + 1) = unat (drop_bit (13 + e) (tEntryHi t))"
    by (metis unat_drop_bit)
  then show ?thesis using tlb_halves(4) [OF assms] by (metis dvd_mult_div_cancel mult.assoc power_add power_one_right)
qed

text \<open>Whether a page number lies in the even or the odd half of a pair, by bits of the address.\<close>

lemma half_bits:
  fixes a :: u32 and t :: tlbs
  assumes "tMask t = mask e" "e \<le> 12"
  defines "b \<equiv> drop_bit 12 (VPN2 t)" and "same \<equiv> drop_bit (13 + e) a = drop_bit (13 + e) (tEntryHi t)"
  shows "b \<le> drop_bit 12 a \<and> drop_bit 12 a < b + tMask t + 1 \<longleftrightarrow> same \<and> \<not> bit a (12 + e)"
    and "b + tMask t + 1 \<le> drop_bit 12 a \<and> drop_bit 12 a < b + tMask t + 1 + tMask t + 1 \<longleftrightarrow> same \<and> bit a (12 + e)"
proof -
  let ?x = "unat (drop_bit 12 a)" and ?q = "unat (drop_bit (13 + e) (tEntryHi t))"
  note h = tlb_halves [OF assms(1,2), folded b_def] and i = VPN2_index [OF assms(1,2), folded b_def]
  have bit: "bit a (12 + e) \<longleftrightarrow> odd (?x div 2 ^ e)"
    unfolding bit_unat by (simp add: unat_drop_bit div_mult2_eq [symmetric] power_add)
  have "unat (drop_bit (13 + e) a) = ?x div 2 ^ e div 2"
    by (simp add: unat_drop_bit div_mult2_eq [symmetric]) (simp add: power_add ac_simps)
  then have same: "same \<longleftrightarrow> ?x div 2 ^ e div 2 = ?q" by (simp add: same_def word_unat_eq_iff)
  have "2 ^ e * k \<le> ?x \<and> ?x < 2 ^ e * k + 2 ^ e \<longleftrightarrow> ?x div 2 ^ e = k" for k
    using div_nat_eqI [of "2 ^ e" k ?x] dividend_less_times_div [of "2 ^ e" ?x] by (auto simp: ac_simps)
  note this [of "2 * ?q"] this [of "2 * ?q + 1"]
  then show "b \<le> drop_bit 12 a \<and> drop_bit 12 a < b + tMask t + 1 \<longleftrightarrow> same \<and> \<not> bit a (12 + e)"
    and "b + tMask t + 1 \<le> drop_bit 12 a \<and> drop_bit 12 a < b + tMask t + 1 + tMask t + 1 \<longleftrightarrow> same \<and> bit a (12 + e)"
    unfolding same bit word_le_nat_alt word_less_nat_alt h i by (auto simp: algebra_simps)
qed

lemma half_match:
  fixes t :: tlbs
  assumes "tMask t = mask e" "e \<le> 12" and x: "drop_bit 12 (VPN2 t) \<le> x" "x < drop_bit 12 (VPN2 t) + tMask t + 1 + tMask t + 1"
  shows "x AND (push_bit 1 (NOT (tMask t)) AND 0xfffff) = drop_bit 12 (VPN2 t) AND (push_bit 1 (NOT (tMask t)) AND 0xfffff)"
proof (rule masks_agree [of "e + 1"])
  let ?b = "drop_bit 12 (VPN2 t)"
  obtain k where k: "unat ?b = 2 ^ (e + 1) * k" using tlb_halves(4) [OF assms(1,2)] by (elim dvdE)
  moreover have "unat ?b \<le> unat x" "unat x < unat ?b + 2 ^ (e + 1)"
    using x tlb_halves(2) [OF assms(1,2)] by (simp_all add: word_le_nat_alt word_less_nat_alt)
  ultimately have "unat x div 2 ^ (e + 1) = k" by (intro div_nat_eqI) (simp_all add: ac_simps)
  moreover have "unat ?b div 2 ^ (e + 1) = k" by (simp add: k)
  ultimately show "drop_bit (e + 1) x = drop_bit (e + 1) ?b"
    by (simp only: word_unat_eq_iff unat_drop_bit [of "e + 1"])
qed (auto simp only: bit_and_iff bit_push_bit_iff bit_not_iff bit_mask_iff assms(1))

context addr_writer begin

lemma first_half:
  fixes t :: tlbs
  assumes "Q s" "tMask t = mask e" "e \<le> 12"
  shows "translate (tlb_pages t (drop_bit 12 (VPN2 t)) f s) a =
      (if drop_bit (13 + e) a = drop_bit (13 + e) (tEntryHi t) \<and> \<not> bit a (12 + e) then T a else translate s a)
    \<and> Q (tlb_pages t (drop_bit 12 (VPN2 t)) f s)"
  unfolding half_bits(1) [OF assms(2,3), symmetric] tlb_pages_def Let_def
proof (rule run_if [OF assms(1)])
  note h = tlb_halves [OF assms(2,3)]
  show "unat (drop_bit 12 (VPN2 t) + tMask t + 1) \<le> 0x100000" using h(1,3) by simp
  fix x
  assume x: "drop_bit 12 (VPN2 t) \<le> x" "x < drop_bit 12 (VPN2 t) + tMask t + 1"
  then have "x < drop_bit 12 (VPN2 t) + tMask t + 1 + tMask t + 1"
    unfolding word_less_nat_alt h(1,2) by simp
  with x(1) show "x AND (push_bit 1 (NOT (tMask t)) AND 0xfffff) = drop_bit 12 (VPN2 t) AND (push_bit 1 (NOT (tMask t)) AND 0xfffff)"
    by (rule half_match [OF assms(2,3)])
qed

lemma second_half:
  fixes t :: tlbs
  assumes "Q s" "tMask t = mask e" "e \<le> 12"
  shows "translate (tlb_pages t (drop_bit 12 (VPN2 t) + tMask t + 1) f s) a =
      (if drop_bit (13 + e) a = drop_bit (13 + e) (tEntryHi t) \<and> bit a (12 + e) then T a else translate s a)
    \<and> Q (tlb_pages t (drop_bit 12 (VPN2 t) + tMask t + 1) f s)"
  unfolding half_bits(2) [OF assms(2,3), symmetric] tlb_pages_def Let_def
proof (rule run_if [OF assms(1)])
  note h = tlb_halves [OF assms(2,3)]
  show "unat (drop_bit 12 (VPN2 t) + tMask t + 1 + tMask t + 1) \<le> 0x100000" using h(2,3) by simp
  fix x
  assume x: "drop_bit 12 (VPN2 t) + tMask t + 1 \<le> x" "x < drop_bit 12 (VPN2 t) + tMask t + 1 + tMask t + 1"
  then have "drop_bit 12 (VPN2 t) \<le> x" unfolding word_le_nat_alt h(1) by simp
  then show "x AND (push_bit 1 (NOT (tMask t)) AND 0xfffff) = drop_bit 12 (VPN2 t) AND (push_bit 1 (NOT (tMask t)) AND 0xfffff)"
    using x(2) by (rule half_match [OF assms(2,3)])
qed

end


lemma half_offset:
  fixes t :: tlbs
  assumes "tMask t = mask e" "e \<le> 12" "drop_bit (13 + e) a = drop_bit (13 + e) (tEntryHi t)"
  shows "\<not> bit a (12 + e) \<Longrightarrow> PFN0 t + (a - push_bit 12 (drop_bit 12 (VPN2 t))) = PFN0 t OR take_bit (12 + e) a"
    and "bit a (12 + e) \<Longrightarrow> PFN1 t + (a - push_bit 12 (drop_bit 12 (VPN2 t) + tMask t + 1)) = PFN1 t OR take_bit (12 + e) a"
proof -
  have same: "bit a n = bit (tEntryHi t) n" if "13 + e \<le> n" for n
    using arg_cong [OF assms(3), of "\<lambda>w. bit w (n - (13 + e))"] that by (simp add: bit_simps)
  have disj: "P + take_bit (12 + e) a = P OR take_bit (12 + e) a" if "\<And>n. bit P n \<Longrightarrow> 12 + e \<le> n" for P :: u32
    by (rule disjunctive_add) (auto simp: bit_simps dest: that)
  have off: "x - VPN2 t = take_bit (12 + e) x" if "\<not> bit x (12 + e)" "\<And>n. 13 + e \<le> n \<Longrightarrow> bit x n = bit (tEntryHi t) n" for x
  proof -
    have "VPN2 t + take_bit (12 + e) x = VPN2 t OR take_bit (12 + e) x"
      by (rule disjunctive_add) (auto simp: bit_simps bit_VPN2 [OF assms(1,2)])
    also have "\<dots> = x"
    proof (rule bit_word_eqI)
      fix n
      show "bit (VPN2 t OR take_bit (12 + e) x) n = bit x n"
        using that(1) that(2) [of n] by (cases "n = 12 + e") (auto simp: bit_simps bit_VPN2 [OF assms(1,2)])
    qed
    finally show ?thesis by (metis add_diff_cancel_left')
  qed
  show "PFN0 t + (a - push_bit 12 (drop_bit 12 (VPN2 t))) = PFN0 t OR take_bit (12 + e) a" if "\<not> bit a (12 + e)"
    using disj [OF bit_PFN(1) [OF assms(1,2)]] off [OF that same] by (simp only: tlb_halves(5) [OF assms(1,2)])
  assume odd: "bit a (12 + e)"
  let ?x = "unset_bit (12 + e) a"
  have "push_bit 12 (drop_bit 12 (VPN2 t) + tMask t + 1) = push_bit 12 (drop_bit 12 (VPN2 t)) + 2 ^ (12 + e)"
    by (simp add: assms(1) mask_eq_decr_exp push_bit_eq_mult power_add algebra_simps)
  moreover have "a = ?x + 2 ^ (12 + e)"
    by (rule sym, subst disjunctive_add; use odd in \<open>auto intro!: bit_word_eqI simp: bit_simps\<close>)
  moreover have "?x - VPN2 t = take_bit (12 + e) ?x" by (rule off) (auto simp: bit_simps same)
  moreover have "take_bit (12 + e) ?x = take_bit (12 + e) a" by (rule bit_word_eqI) (auto simp: bit_simps)
  ultimately have "a - push_bit 12 (drop_bit 12 (VPN2 t) + tMask t + 1) = take_bit (12 + e) a"
    unfolding tlb_halves(5) [OF assms(1,2)] by (metis add_diff_cancel_right)
  then show "PFN1 t + (a - push_bit 12 (drop_bit 12 (VPN2 t) + tMask t + 1)) = PFN1 t OR take_bit (12 + e) a"
    using disj [OF bit_PFN(2) [OF assms(1,2)]] by simp
qed

lemma PFN_aligned: "aligned (PFN0 t)" "aligned (PFN1 t)"
  unfolding PFN0_def PFN1_def by (rule aligned_push)+

lemma UnmapTLB_translate:
  assumes "\<not> isSPR t" "tMask t = mask e" "e \<le> 12"
  shows "translate (UnmapTLB t s) a = (if tlb_lookup t e a = None then translate s a else Handler UnmappedVirtHandler a)"
proof -
  have c: "translate (s\<lparr>cachedTlbs := c\<rparr>) a = translate s a" for s :: "'a machine" and c by (simp add: translate_def)
  show ?thesis
    using assms(1) by (auto simp: UnmapTLB_def Let_def tlb_lookup_def c unmap_addr.first_half [OF TrueI assms(2,3)]
        unmap_addr.second_half [OF TrueI assms(2,3)] split: option.splits)
qed

lemma MapTLB_translate:
  assumes "\<not> isSPR t" "tMask t = mask e" "e \<le> 12" "wf_pmap (pmap s)"
  shows "translate (MapTLB t s) a = (case tlb_lookup t e a of None \<Rightarrow> translate s a | Some p \<Rightarrow> phys_target (pmap s) p)"
proof -
  let ?b = "drop_bit 12 (VPN2 t)"
  define s1 where "s1 = (if bit (tEntryLo0 t) 1
    then tlb_pages t ?b (\<lambda>addr. memSetPageAddr (push_bit 12 addr) (PFN0 t + push_bit 12 (addr - ?b))) s else s)"
  note h1 = map_addr.first_half [where s = s and pm = "pmap s" and P = "PFN0 t" and saddr = ?b, OF _ assms(2,3)]
  have pm: "pmap s1 = pmap s" unfolding s1_def using h1 assms(4) PFN_aligned by simp
  have t1: "translate s1 a = (if bit (tEntryLo0 t) 1 \<and> drop_bit (13 + e) a = drop_bit (13 + e) (tEntryHi t) \<and> \<not> bit a (12 + e)
      then phys_target (pmap s) (PFN0 t OR take_bit (12 + e) a) else translate s a)"
    unfolding s1_def using h1 assms(4) PFN_aligned half_offset(1) [OF assms(2,3)] by auto
  note h2 = map_addr.second_half [where s = s1 and pm = "pmap s" and P = "PFN1 t" and saddr = "?b + tMask t + 1", OF _ assms(2,3)]
  have "translate (MapTLB t s) a = (if bit (tEntryLo1 t) 1 \<and> drop_bit (13 + e) a = drop_bit (13 + e) (tEntryHi t) \<and> bit a (12 + e)
      then phys_target (pmap s) (PFN1 t OR take_bit (12 + e) a) else translate s1 a)"
    unfolding MapTLB_def Let_def s1_def [symmetric] using assms(1) h2 pm assms(4) PFN_aligned half_offset(2) [OF assms(2,3)]
    by auto
  then show ?thesis unfolding t1 tlb_lookup_def by auto
qed


section \<open>Reachable TLB states\<close>

inductive tlb_reach :: "'d machine \<Rightarrow> bool" where
  start: "count (cachedTlbs s) = 0 \<Longrightarrow> tlb_reach s"
| tlbwi: "tlb_reach s \<Longrightarrow> tlb_reach (TLBWI s)"
| tlbwr: "tlb_reach s \<Longrightarrow> tlb_reach (TLBWR s)"
| reset: "tlb_reach s \<Longrightarrow> tlb_reach (vtlb_Reset s)"
| other: "tlb_reach s \<Longrightarrow> tlb s' = tlb s \<Longrightarrow> cachedTlbs s' = cachedTlbs s \<Longrightarrow> tlb_reach s'"

lemma UnmapTLB_inv: "tlb_inv s \<Longrightarrow> tlb_inv (UnmapTLB t s)"
  by (auto simp: tlb_inv_def UnmapTLB_keys intro: subset_mset.order_trans [OF diff_subset_eq_self])

lemma vtlb_Reset_inv: "tlb_inv s \<Longrightarrow> tlb_inv (vtlb_Reset s)"
proof -
  have "tlb_inv s \<Longrightarrow> tlb_inv (fold (\<lambda>i s. UnmapTLB (tlb s i) s) is1 s)" for is1
    by (induction is1 arbitrary: s) (simp_all add: UnmapTLB_inv)
  then show "tlb_inv s \<Longrightarrow> tlb_inv (vtlb_Reset s)" by (simp add: vtlb_Reset_def)
qed

lemma tlb_reach_inv: "tlb_reach s \<Longrightarrow> tlb_inv s"
proof (induction rule: tlb_reach.induct)
  case (start s)
  then show ?case by (simp add: tlb_inv_def array_keys_def)
next
  case (other s s')
  then show ?case by (simp add: tlb_inv_def)
qed (simp_all add: TLBWI_def TLBWR_def Let_def WriteTLB_inv vtlb_Reset_inv)

lemma UnmapTLB_room:
  assumes "tlb_inv s" "j < 48"
  shows "count (cachedTlbs (UnmapTLB (tlb s j) s)) < 48"
proof -
  let ?d = "\<lparr>tPageMask = 0, tEntryHi = 0, tEntryLo0 = 0, tEntryLo1 = 0\<rparr> :: tlbs"
  let ?E = "entry_keys ((tlb s)(j := ?d)) [0..<48]"
  have d: "\<not> cached_entry ?d" by (simp add: cached_entry_def)
  then have "array_keys (cachedTlbs (UnmapTLB (tlb s j) s)) \<subseteq># ?E"
    using UnmapTLB_rest [OF assms(1), of j] by (simp add: entry_keys_update [OF assms(2)])
  then have "count (cachedTlbs (UnmapTLB (tlb s j) s)) \<le> size ?E"
    using size_mset_mono by (fastforce simp: array_keys_def)
  also have "size ?E < length [0..<48]" unfolding entry_keys_def size_mset length_map
    by (rule length_filter_less [of j]) (use d assms(2) in auto)
  finally show ?thesis by simp
qed

lemma cached_tlbs_within_arrays_parts:
  assumes "tlb_reach s"
  shows "count (cachedTlbs s) \<le> 48"
    and "j < 48 \<Longrightarrow> count (cachedTlbs (UnmapTLB (tlb s j) s)) < 48"
    and "i < count (cachedTlbs s) \<Longrightarrow>
      \<exists>j<48. cached_entry (tlb s j) \<and> PFN0s (cachedTlbs s) i = PFN0 (tlb s j) \<and> PFN1s (cachedTlbs s) i = PFN1 (tlb s j) \<and>
        PageMasks (cachedTlbs s) i = ConvertPageMask (tPageMask (tlb s j))"
proof -
  note inv = tlb_reach_inv [OF assms]
  show "count (cachedTlbs s) \<le> 48" by (rule tlb_inv_count [OF inv])
  show "j < 48 \<Longrightarrow> count (cachedTlbs (UnmapTLB (tlb s j) s)) < 48" by (rule UnmapTLB_room [OF inv])
  assume "i < count (cachedTlbs s)"
  then have "array_key (cachedTlbs s) i \<in># entry_keys (tlb s) [0..<48]"
    using inv array_key_in unfolding tlb_inv_def by (meson mset_subset_eqD)
  then show "\<exists>j<48. cached_entry (tlb s j) \<and> PFN0s (cachedTlbs s) i = PFN0 (tlb s j) \<and> PFN1s (cachedTlbs s) i = PFN1 (tlb s j) \<and>
        PageMasks (cachedTlbs s) i = ConvertPageMask (tPageMask (tlb s j))"
    unfolding entry_keys_def array_key_def cached_key_def by auto
qed

text \<open>
  C3: in every state reachable by TLB writes, resets and steps that leave the TLB alone, the cached
  entry arrays (48 elements) hold at most 48 elements, the element that WriteTLB stores after
  UnmapTLB lies inside the arrays, and every element describes the frames and page mask of a TLB
  entry that is valid and cached.
\<close>
theorem cached_tlbs_within_arrays:
  assumes "tlb_reach s"
  shows "count (cachedTlbs s) \<le> 48 \<and>
    (j < 48 \<longrightarrow> count (cachedTlbs (UnmapTLB (tlb s j) s)) < 48) \<and>
    (i < count (cachedTlbs s) \<longrightarrow>
      (\<exists>j<48. cached_entry (tlb s j) \<and> PFN0s (cachedTlbs s) i = PFN0 (tlb s j) \<and> PFN1s (cachedTlbs s) i = PFN1 (tlb s j) \<and>
        PageMasks (cachedTlbs s) i = ConvertPageMask (tPageMask (tlb s j))))"
  using cached_tlbs_within_arrays_parts [OF assms] by blast

definition machine_tlb :: "unit machine" where
  "machine_tlb = wCP0 EntryHi 0x20000000 (wCP0 EntryLo0 0x49E (wCP0 EntryLo1 0x1096 (wCP0 PageMask 0 (wCP0 Index 0 machine_reset))))"

lemma machine_tlb_parts [simp]:
  "CP0 machine_tlb Index = 0" "tlb machine_tlb = tlb machine_reset" "cachedTlbs machine_tlb = cachedTlbs machine_reset"
  "pmap machine_tlb = pmap machine_reset"
  "tlb_from_CP0 (CP0 machine_tlb) = \<lparr>tPageMask = 0, tEntryHi = 0x20000000, tEntryLo0 = 0x49E, tEntryLo1 = 0x1096\<rparr>"
  by (simp_all add: machine_tlb_def tlb_from_CP0_def Let_def isSPR_def isValidCacheMode_def EntryLo_C_def drop_bit_eq_div wCP0_def)

theorem cached_tlbs_within_arrays_witness:
  "tlb_reach (TLBWI machine_tlb) \<and> count (cachedTlbs (TLBWI machine_tlb)) \<le> 48 \<and>
   count (cachedTlbs (UnmapTLB (tlb (TLBWI machine_tlb) 0) (TLBWI machine_tlb))) < 48 \<and> tEntryHi (tlb (TLBWI machine_tlb) 0) = 0x20000000"
proof -
  have r: "tlb_reach (TLBWI machine_tlb)" by (intro tlb_reach.tlbwi tlb_reach.start) simp
  moreover have "tEntryHi (tlb (TLBWI machine_tlb) 0) = 0x20000000"
    by (simp add: TLBWI_def Let_def WriteTLB_parts)
  ultimately show ?thesis using cached_tlbs_within_arrays [OF r] by simp
qed

section \<open>The page table after a TLB write\<close>

lemma WriteTLB_translate:
  assumes "\<not> isSPR (tlb_from_CP0 (CP0 s))" "tMask (tlb_from_CP0 (CP0 s)) = mask e" "e \<le> 12" "wf_pmap (pmap s)"
  shows "translate (WriteTLB j s) a =
    (case tlb_lookup (tlb_from_CP0 (CP0 s)) e a of None \<Rightarrow> translate s a | Some p \<Rightarrow> phys_target (pmap s) p)"
proof -
  let ?t = "tlb_from_CP0 (CP0 s)" and ?s = "s\<lparr>tlb := (tlb s)(j := tlb_from_CP0 (CP0 s))\<rparr>"
  define s' where "s' = (if cached_entry ?t then ?s\<lparr>cachedTlbs := cached_add ?t (cachedTlbs s)\<rparr> else ?s)"
  have "WriteTLB j s = MapTLB ?t s'" by (simp add: WriteTLB_def Let_def s'_def)
  moreover have "translate s' a = translate s a" "pmap s' = pmap s" by (simp_all add: s'_def translate_def)
  ultimately show ?thesis using MapTLB_translate [OF assms(1-3), of s' a] assms(4)
    by (simp split: option.split)
qed

text \<open>
  C2: TLBWI keeps the page table in step with the TLB. For page masks of \<open>2 ^ e\<close> pages, the
  addresses the new entry covers go where the architecture's lookup sends them (even or odd frame
  by the bit above the offset), the addresses only the overwritten entry covered miss, and every
  other address keeps its translation.
\<close>
theorem TLBWI_translation:
  fixes s :: "'d machine"
  defines "j \<equiv> unat (CP0 s Index AND 0x3f)"
  defines "old \<equiv> tlb s j" and "new \<equiv> tlb_from_CP0 (CP0 s)"
  assumes "j \<le> 47" "\<not> isSPR old" "\<not> isSPR new" "tMask old = mask d" "d \<le> 12" "tMask new = mask e" "e \<le> 12"
    "wf_pmap (pmap s)"
  shows "translate (TLBWI s) a =
    (case tlb_lookup new e a of
       Some p \<Rightarrow> phys_target (pmap s) p
     | None \<Rightarrow> if tlb_lookup old d a = None then translate s a else Handler UnmappedVirtHandler a)"
  using assms WriteTLB_translate [where e = e and j = j and s = "UnmapTLB old s" and a = a] UnmapTLB_translate [where e = d and t = old and s = s and a = a]
  by (simp add: TLBWI_def Let_def split: option.split)

theorem TLBWI_translation_witness:
  "translate (TLBWI machine_tlb) 0x20001ABC = Handler 2 0x00042ABC \<and>
   translate (TLBWI machine_tlb) 0x20000004 = Handler 2 0x00012004"
proof -
  let ?t = "\<lparr>tPageMask = 0, tEntryHi = 0x20000000, tEntryLo0 = 0x49E, tEntryLo1 = 0x1096\<rparr> :: tlbs"
  have m: "\<not> isSPR ?t" "tMask ?t = mask 0" by (simp_all add: isSPR_def tMask_def)
  have o1: "\<not> isSPR (tlb machine_reset 0)" "tMask (tlb machine_reset 0) = mask 0"
    by (simp_all add: machine_reset_def machine.fields_def cpuRegisters.extend_def isSPR_def tMask_def)
  have l: "tlb_lookup ?t 0 0x20001ABC = Some 0x00042ABC" "tlb_lookup ?t 0 0x20000004 = Some 0x00012004"
    by (simp_all add: tlb_lookup_def PFN0_def PFN1_def EntryLo_PFN_def tMask_def take_bit_eq_mask mask_eq_exp_minus_1 drop_bit_eq_div)
  show ?thesis
    using TLBWI_translation [where s = machine_tlb and d = 0 and e = 0 and a = "0x20001ABC"]
      TLBWI_translation [where s = machine_tlb and d = 0 and e = 0 and a = "0x20000004"] m o1 l
    by (simp add: phys_target_def wf_pmap_def VTLB_PMAP_SZ_def)
qed

lemma tlb_from_CP0_regular:
  assumes "\<not> bit (c EntryLo0) 31" "isValidCacheMode (c EntryLo0)" "isValidCacheMode (c EntryLo1)"
  shows "tlb_from_CP0 c = \<lparr>tPageMask = c PageMask, tEntryHi = c EntryHi, tEntryLo0 = c EntryLo0, tEntryLo1 = c EntryLo1\<rparr>"
  using assms by (simp add: tlb_from_CP0_def Let_def isSPR_def)

lemma TLBR_regs:
  assumes "unat (CP0 s Index AND 0x3f) \<le> 47"
  defines "t \<equiv> tlb s (unat (CP0 s Index AND 0x3f))"
  shows "CP0 (TLBR s) PageMask = push_bit 13 (tMask t)"
    and "CP0 (TLBR s) EntryHi = tEntryHi t AND NOT (push_bit 13 (tMask t) OR 0x1f00)"
    and "CP0 (TLBR s) EntryLo0 = tEntryLo0 t AND NOT 0xFC000000 AND NOT 1 OR (tEntryLo0 t AND 1) AND (tEntryLo1 t AND 1)"
    and "CP0 (TLBR s) EntryLo1 = tEntryLo1 t AND NOT 0x7C000000 AND NOT 1 OR (tEntryLo0 t AND 1) AND (tEntryLo1 t AND 1)"
  using assms(1) by (simp_all add: TLBR_def Let_def t_def)

lemma TLB_write_read_parts:
  assumes "\<not> bit (CP0 s EntryLo0) 31" "isValidCacheMode (CP0 s EntryLo0)" "isValidCacheMode (CP0 s EntryLo1)"
    "unat (CP0 s Index AND 0x3f) \<le> 47"
  shows "CP0 (TLBR (TLBWI s)) PageMask = CP0 s PageMask AND 0x01FFE000"
    and "CP0 (TLBR (TLBWI s)) EntryHi = CP0 s EntryHi AND NOT (CP0 s PageMask AND 0x01FFE000 OR 0x1F00)"
    and "CP0 (TLBR (TLBWI s)) EntryLo0 = CP0 s EntryLo0 AND 0x03FFFFFE OR (CP0 s EntryLo0 AND CP0 s EntryLo1 AND 1)"
    and "CP0 (TLBR (TLBWI s)) EntryLo1 = CP0 s EntryLo1 AND 0x83FFFFFE OR (CP0 s EntryLo0 AND CP0 s EntryLo1 AND 1)"
proof -
  let ?c = "CP0 s"
  have t: "tlb (TLBWI s) (unat (?c Index AND 0x3f)) =
      \<lparr>tPageMask = ?c PageMask, tEntryHi = ?c EntryHi, tEntryLo0 = ?c EntryLo0, tEntryLo1 = ?c EntryLo1\<rparr>" "CP0 (TLBWI s) = ?c"
    using assms(4) tlb_from_CP0_regular [OF assms(1-3)] by (simp_all add: TLBWI_def Let_def WriteTLB_parts)
  have "(0xFFF :: u32) = mask 12" "(0x01FFE000 :: u32) = push_bit 13 (mask 12)" by (simp_all add: mask_eq_decr_exp)
  then have m: "push_bit 13 (drop_bit 13 w AND 0xFFF) = w AND 0x01FFE000" for w :: u32
    by (simp only:) (rule bit_word_eqI, auto simp only: bit_simps o_def le_add_diff_inverse)
  have k: "NOT 0xFC000000 AND NOT 1 = (0x03FFFFFE :: u32)" "NOT 0x7C000000 AND NOT 1 = (0x83FFFFFE :: u32)" by simp_all
  have g: "(v AND 1) AND (w AND 1) = v AND w AND 1" for v w :: u32 by (simp add: ac_simps)
  show "CP0 (TLBR (TLBWI s)) PageMask = ?c PageMask AND 0x01FFE000"
    and "CP0 (TLBR (TLBWI s)) EntryHi = ?c EntryHi AND NOT (?c PageMask AND 0x01FFE000 OR 0x1F00)"
    and "CP0 (TLBR (TLBWI s)) EntryLo0 = ?c EntryLo0 AND 0x03FFFFFE OR (?c EntryLo0 AND ?c EntryLo1 AND 1)"
    and "CP0 (TLBR (TLBWI s)) EntryLo1 = ?c EntryLo1 AND 0x83FFFFFE OR (?c EntryLo0 AND ?c EntryLo1 AND 1)"
    using assms(4) by (simp_all only: TLBR_regs t tlbs.select_convs tMask_def m k g)
qed

text \<open>
  TLBR after TLBWI at the same index reads back what was written, less the bits the hardware
  does not store, with the global bit set in both halves only when it was written in both.
\<close>
lemma TLB_write_read:
  assumes "\<not> bit (CP0 s EntryLo0) 31" "isValidCacheMode (CP0 s EntryLo0)" "isValidCacheMode (CP0 s EntryLo1)"
    "unat (CP0 s Index AND 0x3f) \<le> 47"
  shows "CP0 (TLBR (TLBWI s)) PageMask = CP0 s PageMask AND 0x01FFE000 \<and>
    CP0 (TLBR (TLBWI s)) EntryHi = CP0 s EntryHi AND NOT (CP0 s PageMask AND 0x01FFE000 OR 0x1F00) \<and>
    CP0 (TLBR (TLBWI s)) EntryLo0 = CP0 s EntryLo0 AND 0x03FFFFFE OR (CP0 s EntryLo0 AND CP0 s EntryLo1 AND 1) \<and>
    CP0 (TLBR (TLBWI s)) EntryLo1 = CP0 s EntryLo1 AND 0x83FFFFFE OR (CP0 s EntryLo0 AND CP0 s EntryLo1 AND 1)"
  using TLB_write_read_parts [OF assms] by blast


text \<open>A loop over the entries finds nothing.\<close>

lemma VPN2_low: "take_bit 13 (VPN2 t) = 0"
  unfolding VPN2_def by (rule bit_word_eqI) (auto simp: bit_simps)

text \<open>
  C36: TLBP compares the page number of an entry, which is shifted to its place in the address, with
  the low 19 bits of EntryHi. So when every entry maps an address of at least 0x80000 the probe
  reports a miss whatever EntryHi is, also for an address that an entry matches.
\<close>
theorem TLBP_misses_high_pages:
  assumes "\<And>i. i < 48 \<Longrightarrow> 0x80000 \<le> VPN2 (tlb s i)"
  shows "TLBP s = wCP0 Index 0x80000000 s"
proof -
  have "\<not> VPN2 (tlb s i) = NOT m AND (hi AND 0x7FFFF)" if "i < 48" for i m hi
  proof
    assume v: "VPN2 (tlb s i) = NOT m AND (hi AND 0x7FFFF)"
    also have "\<dots> = (NOT m AND hi) AND 0x7FFFF" by (simp add: ac_simps)
    also have "\<dots> \<le> 0x7FFFF" by (rule word_and_le1)
    finally show False using assms [OF that] by (simp add: word_le_nat_alt)
  qed
  then have "List.find (\<lambda>i. VPN2 (tlb s i) = NOT (tMask (tlb s i)) AND (CP0 s EntryHi AND 0x7FFFF) \<and>
      (isGlobal (tlb s i) \<or> tEntryHi (tlb s i) AND 0xFF = drop_bit 24 (CP0 s EntryHi))) [0..<48] = None"
    unfolding find_None_iff by (metis atLeastLessThan_iff set_upt)
  then show ?thesis by (simp add: TLBP_def Let_def wCP0_def)
qed

theorem TLBP_misses_high_pages_witness:
  "CP0 (TLBP (wCP0 EntryHi 0x20000000 (machine_reset\<lparr>tlb := (\<lambda>_. \<lparr>tPageMask = 0, tEntryHi = 0x20000000, tEntryLo0 = 7, tEntryLo1 = 7\<rparr>)\<rparr>))) Index
   = 0x80000000"
  by (subst TLBP_misses_high_pages)
    (simp_all add: wCP0_def VPN2_def tMask_def drop_bit_eq_div)

text \<open>
  The cached entry arrays are searched by frames and page mask only, so unmapping an uncached
  entry removes the element of a cached entry with the same frames, which stays in the TLB.
\<close>
lemma UnmapTLB_drops_alias: 
  assumes "\<not> isSPR u" "\<not> cached_entry u" "cached_entry t" "cached_key u = cached_key t"
  shows "array_keys (cachedTlbs (UnmapTLB u (s\<lparr>cachedTlbs := cached_add t (cachedTlbs s)\<rparr>))) = array_keys (cachedTlbs s)"
  using assms by (simp add: UnmapTLB_keys cached_add_keys)


end
