(* ===== verification/Host_Float.thy ===== *)
theory Host_Float
  imports Prelude
begin

text \<open>
  The host's single-precision arithmetic, as the emulator's C++ code uses it under the control
  register of \<^verbatim>\<open>common/FPControl.h\<close>: rounding mode, denormal operands read as zero and
  denormal results flushed to zero. A \<^verbatim>\<open>float\<close> is its 32-bit pattern. The exact result of an
  operation is a fraction in units of \<open>2^-149\<close>, the smallest denormal, and \<open>f_pack\<close> rounds it
  once, as IEEE 754 prescribes; invalid operations give the default NaN of SSE.

  The lemmas relate \<open>f_pack\<close> to the numbers it approximates: rounding towards zero gives the
  largest representable number that is not above the exact magnitude, no rounding mode crosses a
  representable number, and the result is never a NaN.
\<close>

section \<open>The control register\<close>

datatype FPRoundMode = Nearest | NegativeInfinity | PositiveInfinity | ChopZero

record FPControlRegister =
  RoundMode :: FPRoundMode
  DenormalsAreZero :: bool
  FlushToZero :: bool

definition DEFAULT_FPU_FP_CONTROL_REGISTER :: FPControlRegister where
  "DEFAULT_FPU_FP_CONTROL_REGISTER = \<lparr>RoundMode = ChopZero, DenormalsAreZero = True, FlushToZero = True\<rparr>"

section \<open>Patterns\<close>

definition f_sign :: "u32 \<Rightarrow> bool" where
  "f_sign w \<longleftrightarrow> bit w 31"

definition f_abs :: "u32 \<Rightarrow> nat" where
  "f_abs w = unat (w AND 0x7FFFFFFF)"

definition f_finite :: "u32 \<Rightarrow> bool" where
  "f_finite w \<longleftrightarrow> f_abs w < 0x7F800000"

definition f_isNaN :: "u32 \<Rightarrow> bool" where
  "f_isNaN w \<longleftrightarrow> f_abs w > 0x7F800000"

definition f_isInf :: "u32 \<Rightarrow> bool" where
  "f_isInf w \<longleftrightarrow> f_abs w = 0x7F800000"

text \<open>The magnitude of the number with a pattern (its sign bit cleared), in units of \<open>2^-149\<close>.\<close>

definition mag_of :: "nat \<Rightarrow> nat" where
  "mag_of p = (if p < 2 ^ 23 then p else (p mod 2 ^ 23 + 2 ^ 23) * 2 ^ (p div 2 ^ 23 - 1))"

definition f_mag :: "u32 \<Rightarrow> nat" where
  "f_mag w = mag_of (f_abs w)"

definition f_val :: "u32 \<Rightarrow> int" where
  "f_val w = (if f_sign w then - int (f_mag w) else int (f_mag w))"

definition with_sign :: "bool \<Rightarrow> nat \<Rightarrow> u32" where
  "with_sign neg p = of_nat p OR (if neg then 0x80000000 else 0)"

section \<open>Rounding\<close>

fun bitlen :: "nat \<Rightarrow> nat" where
  "bitlen n = (if n = 0 then 0 else Suc (bitlen (n div 2)))"

definition rounds_up :: "FPRoundMode \<Rightarrow> bool \<Rightarrow> bool" where
  "rounds_up m neg \<longleftrightarrow> m = PositiveInfinity \<and> \<not> neg \<or> m = NegativeInfinity \<and> neg"

text \<open>The quotient \<open>num / den\<close> rounded to an integer.\<close>

definition fp_round :: "FPRoundMode \<Rightarrow> bool \<Rightarrow> nat \<Rightarrow> nat \<Rightarrow> nat" where
  "fp_round m neg num den =
     (let q = num div den; r = num mod den in
      if m = Nearest then (if 2 * r < den \<or> (2 * r = den \<and> even q) then q else q + 1)
      else if rounds_up m neg then (if r = 0 then q else q + 1)
      else q)"

text \<open>Round the magnitude \<open>num / den\<close> to 24 significant bits. With \<open>k\<close> low bits dropped the
  significand \<open>M\<close> has the pattern \<open>M + k * 2^23\<close>, also when it is denormal or was carried over to
  \<open>2^24\<close>. A result is tiny when it is below the normal range after rounding to 24 bits.\<close>

definition f_pack :: "FPControlRegister \<Rightarrow> bool \<Rightarrow> nat \<Rightarrow> nat \<Rightarrow> u32" where
  "f_pack c neg num den =
     (let m = RoundMode c; k = bitlen (num div den) - 24;
          p = fp_round m neg num (den * 2 ^ k) + k * 2 ^ 23;
          tiny = num div den < 2 ^ 23 \<and> fp_round m neg (2 * num) den < 2 ^ 24
      in with_sign neg
           (if FlushToZero c \<and> tiny then 0
            else if p < 0x7F800000 then p
            else if m = Nearest \<or> rounds_up m neg then 0x7F800000 else 0x7F7FFFFF))"

section \<open>Arithmetic\<close>

definition daz :: "FPControlRegister \<Rightarrow> u32 \<Rightarrow> u32" where
  "daz c w = (if DenormalsAreZero c \<and> f_abs w < 2 ^ 23 then w AND 0x80000000 else w)"

definition quiet :: "u32 \<Rightarrow> u32" where
  "quiet w = w OR 0x00400000"

definition default_NaN :: u32 where
  "default_NaN = 0xFFC00000"

text \<open>The sum of two exact magnitudes with signs; a sum of zero is negative only if both terms are,
  or when rounding downwards.\<close>

definition f_add :: "FPControlRegister \<Rightarrow> u32 \<Rightarrow> u32 \<Rightarrow> u32" where
  "f_add c a b =
     (let a = daz c a; b = daz c b in
      if f_isNaN a then quiet a else if f_isNaN b then quiet b
      else if f_isInf a then (if f_isInf b \<and> f_sign a \<noteq> f_sign b then default_NaN else a)
      else if f_isInf b then b
      else let v = f_val a + f_val b in
        if v = 0 then with_sign (if f_sign a = f_sign b then f_sign a else RoundMode c = NegativeInfinity) 0
        else f_pack c (v < 0) (nat \<bar>v\<bar>) 1)"

definition f_neg :: "u32 \<Rightarrow> u32" where
  "f_neg w = w XOR 0x80000000"

definition f_sub :: "FPControlRegister \<Rightarrow> u32 \<Rightarrow> u32 \<Rightarrow> u32" where
  "f_sub c a b =
     (if f_isNaN b then (if f_isNaN a then quiet a else quiet b) else f_add c a (f_neg b))"

definition f_mul :: "FPControlRegister \<Rightarrow> u32 \<Rightarrow> u32 \<Rightarrow> u32" where
  "f_mul c a b =
     (let a = daz c a; b = daz c b; neg = (f_sign a \<noteq> f_sign b) in
      if f_isNaN a then quiet a else if f_isNaN b then quiet b
      else if f_isInf a \<or> f_isInf b
        then (if f_mag a = 0 \<or> f_mag b = 0 then default_NaN else with_sign neg 0x7F800000)
      else if f_mag a = 0 \<or> f_mag b = 0 then with_sign neg 0
      else f_pack c neg (f_mag a * f_mag b) (2 ^ 149))"

definition f_div :: "FPControlRegister \<Rightarrow> u32 \<Rightarrow> u32 \<Rightarrow> u32" where
  "f_div c a b =
     (let a = daz c a; b = daz c b; neg = (f_sign a \<noteq> f_sign b) in
      if f_isNaN a then quiet a else if f_isNaN b then quiet b
      else if f_isInf a then (if f_isInf b then default_NaN else with_sign neg 0x7F800000)
      else if f_isInf b then with_sign neg 0
      else if f_mag b = 0 then (if f_mag a = 0 then default_NaN else with_sign neg 0x7F800000)
      else if f_mag a = 0 then with_sign neg 0
      else f_pack c neg (f_mag a * 2 ^ 149) (f_mag b))"

text \<open>The fused multiply-add \<open>d + a * b\<close>, rounded once.\<close>

definition f_fma :: "FPControlRegister \<Rightarrow> u32 \<Rightarrow> u32 \<Rightarrow> u32 \<Rightarrow> u32" where
  "f_fma c a b d =
     (let a = daz c a; b = daz c b; d = daz c d; neg = (f_sign a \<noteq> f_sign b) in
      if f_isNaN d then quiet d
      else if f_finite a \<and> f_finite b then
        (if f_isInf d then d
         else let v = (if neg then - int (f_mag a * f_mag b) else int (f_mag a * f_mag b)) + f_val d * 2 ^ 149 in
           if v = 0 then with_sign (if neg = f_sign d then neg else RoundMode c = NegativeInfinity) 0
           else f_pack c (v < 0) (nat \<bar>v\<bar>) (2 ^ 149))
      else f_add c d (f_mul c a b))"

text \<open>The integer square root, one bit at a time.\<close>

fun isqrt_bits :: "nat \<Rightarrow> nat \<Rightarrow> nat \<Rightarrow> nat" where
  "isqrt_bits 0 n r = r"
| "isqrt_bits (Suc k) n r = isqrt_bits k n (if (r + 2 ^ k) * (r + 2 ^ k) \<le> n then r + 2 ^ k else r)"

definition isqrt :: "nat \<Rightarrow> nat" where
  "isqrt n = isqrt_bits (bitlen n) n 0"

text \<open>The root of \<open>M\<close> units is the root of \<open>M * 2^149\<close> in units; it has at least 75 bits, so
  that half a unit stands for any fraction left.\<close>

definition f_sqrt :: "FPControlRegister \<Rightarrow> u32 \<Rightarrow> u32" where
  "f_sqrt c a =
     (let a = daz c a in
      if f_isNaN a then quiet a
      else if f_mag a = 0 then a
      else if f_sign a then default_NaN
      else if f_isInf a then a
      else let n = f_mag a * 2 ^ 149; r = isqrt n
           in f_pack c False (2 * r + (if r * r = n then 0 else 1)) 2)"

section \<open>Conversions and comparisons\<close>

definition f_of_int :: "FPControlRegister \<Rightarrow> int \<Rightarrow> u32" where
  "f_of_int c i = (if i = 0 then 0 else f_pack c (i < 0) (nat \<bar>i\<bar> * 2 ^ 149) 1)"

text \<open>Conversion to an integer drops the fraction.\<close>

definition f_trunc :: "FPControlRegister \<Rightarrow> u32 \<Rightarrow> int" where
  "f_trunc c a = (let a = daz c a; n = int (f_mag a div 2 ^ 149) in if f_sign a then - n else n)"

definition f_less :: "u32 \<Rightarrow> u32 \<Rightarrow> bool" where
  "f_less a b \<longleftrightarrow> \<not> f_isNaN a \<and> \<not> f_isNaN b \<and> f_val a < f_val b"

definition f_eq :: "u32 \<Rightarrow> u32 \<Rightarrow> bool" where
  "f_eq a b \<longleftrightarrow> \<not> f_isNaN a \<and> \<not> f_isNaN b \<and> f_val a = f_val b"

definition f_le :: "u32 \<Rightarrow> u32 \<Rightarrow> bool" where
  "f_le a b \<longleftrightarrow> f_less a b \<or> f_eq a b"

lemma bitlen_0 [simp]: "bitlen 0 = 0" by simp
declare bitlen.simps [simp del]

lemma bitlen_bounds: "n < 2 ^ bitlen n \<and> (0 < n \<longrightarrow> 2 ^ bitlen n \<le> 2 * n)"
proof (induction n rule: bitlen.induct)
  case (1 n)
  show ?case
  proof (cases "n = 0")
    case False
    then have "bitlen n = Suc (bitlen (n div 2))" by (subst bitlen.simps) simp
    with 1 [OF False] False show ?thesis by (cases "n div 2 = 0") auto
  qed simp
qed

lemmas bitlen_upper = conjunct1 [OF bitlen_bounds]

lemma bitlen_lower: "0 < n \<Longrightarrow> 2 ^ bitlen n \<le> 2 * n"
  using bitlen_bounds by blast

section \<open>The order of patterns\<close>

lemma mag_of_pattern:
  assumes "M \<le> 2 ^ 24" "k = 0 \<or> 2 ^ 23 \<le> M"
  shows "mag_of (M + k * 2 ^ 23) = M * 2 ^ k"
proof -
  consider "k = 0" "M < 2 ^ 23" | "2 ^ 23 \<le> M" "M < 2 ^ 24" | "M = 2 ^ 24" using assms by linarith
  then show ?thesis
  proof cases
    case 2
    define r where "r = M - 2 ^ 23"
    have M: "M = r + 2 ^ 23" "r < 2 ^ 23" using 2 by (simp_all add: r_def)
    have eq: "M + k * 2 ^ 23 = r + (k + 1) * 2 ^ 23" using M by simp
    have d: "(r + (k + 1) * 2 ^ 23) div 2 ^ 23 = k + 1" "(r + (k + 1) * 2 ^ 23) mod 2 ^ 23 = r"
      using M(2) by (simp_all only: div_mult_self1 mod_mult_self1 div_less mod_less)
    show ?thesis unfolding eq mag_of_def d using M by simp
  next
    case 3
    have "(M + k * 2 ^ 23) = (k + 2) * 2 ^ 23" using 3 by simp
    then show ?thesis unfolding mag_of_def using 3 by (simp del: mult_Suc_right)
  qed (simp add: mag_of_def)
qed

lemma pattern_split:
  fixes p :: nat
  obtains M k where "p = M + k * 2 ^ 23" "M < 2 ^ 24" "k = 0 \<or> 2 ^ 23 \<le> M"
proof (cases "p < 2 ^ 23")
  case True
  then show thesis by (intro that [of p 0]) auto
next
  case False
  then obtain k where k: "p div 2 ^ 23 = Suc k"
    by (metis div_greater_zero_iff gr0_implies_Suc linorder_not_less zero_less_numeral zero_less_power)
  define r where "r = p mod 2 ^ 23"
  have "p = Suc k * 2 ^ 23 + r" using div_mult_mod_eq [of p "2 ^ 23"] unfolding k r_def [symmetric] by simp
  then have "p = (r + 2 ^ 23) + k * 2 ^ 23" by simp
  moreover have "r < 2 ^ 23" by (simp add: r_def)
  ultimately show thesis by (intro that [of "r + 2 ^ 23" k]) simp_all
qed

lemma mag_of_Suc: "mag_of p < mag_of (Suc p)"
proof (rule pattern_split [of p])
  fix M k assume p: "p = M + k * 2 ^ 23" "M < 2 ^ 24" "k = 0 \<or> 2 ^ 23 \<le> M"
  have "mag_of p = M * 2 ^ k" unfolding p(1) using p by (intro mag_of_pattern) auto
  moreover have "mag_of (Suc p) = Suc M * 2 ^ k"
    using p mag_of_pattern [of "Suc M" k] by auto
  ultimately show ?thesis by simp
qed

lemma mag_of_less_iff [simp]: "mag_of p < mag_of q \<longleftrightarrow> p < q"
  using lift_Suc_mono_less_iff [of mag_of] mag_of_Suc by blast

lemma mag_of_le_iff [simp]: "mag_of p \<le> mag_of q \<longleftrightarrow> p \<le> q"
  by (metis mag_of_less_iff linorder_not_le)

lemma mag_of_eq_iff [simp]: "mag_of p = mag_of q \<longleftrightarrow> p = q"
  by (metis mag_of_less_iff linorder_neq_iff)

lemma mag_of_0 [simp]: "mag_of 0 = 0" by (simp add: mag_of_def)

lemma mag_of_normal: "mag_of p < 2 ^ 23 \<longleftrightarrow> p < 2 ^ 23"
  using mag_of_less_iff [of p "2 ^ 23"] by (simp add: mag_of_def)

section \<open>Signs and patterns\<close>

lemma f_abs_less: "f_abs w < 2 ^ 31"
proof -
  have "w AND 0x7FFFFFFF \<le> 0x7FFFFFFF" by (rule word_and_le1)
  then show ?thesis by (simp add: f_abs_def word_le_nat_alt)
qed

lemma bit_signmask: "bit (0x80000000 :: u32) n \<longleftrightarrow> n = 31"
proof -
  have "bit (2 ^ j :: u32) n \<longleftrightarrow> n = j \<and> j < 32" for j by (auto simp: bit_exp_iff possible_bit_def)
  from this [of 31] show ?thesis by simp
qed

lemma bit_low31: "bit (0x7FFFFFFF :: u32) n \<longleftrightarrow> n < 31"
proof -
  have "bit (2 ^ j - 1 :: u32) n \<longleftrightarrow> n < j \<and> n < 32" for j
    unfolding mask_eq_exp_minus_1 [symmetric] by (auto simp: bit_mask_iff possible_bit_def)
  from this [of 31] show ?thesis by (simp, linarith)
qed

lemma with_sign_parts:
  assumes "p < 2 ^ 31"
  shows "f_abs (with_sign neg p) = p" and "f_sign (with_sign neg p) = neg"
proof -
  have le: "unat (of_nat p :: u32) = p" using assms by (simp add: unat_of_nat take_bit_nat_eq_self)
  have bits: "bit (of_nat p :: u32) n \<Longrightarrow> n < 31" for n
  proof -
    assume "bit (of_nat p :: u32) n"
    then have "0 < p div 2 ^ n" using bit_unat [of "of_nat p :: u32" n] le by (auto intro: Nat.gr0I)
    then have "2 ^ n \<le> p" by (simp add: div_greater_zero_iff)
    then have "(2 :: nat) ^ n < 2 ^ 31" using assms by (rule le_less_trans)
    then show "n < 31" by (rule power_less_imp_less_exp [rotated]) simp
  qed
  have "with_sign neg p AND 0x7FFFFFFF = of_nat p"
  proof (rule bit_word_eqI)
    fix n
    show "bit (with_sign neg p AND 0x7FFFFFFF) n \<longleftrightarrow> bit (of_nat p :: u32) n"
      using bits [of n]
      by (cases neg; simp only: with_sign_def bit_and_iff bit_or_iff bit_signmask bit_low31 if_True if_False or.right_neutral) auto
  qed
  then show "f_abs (with_sign neg p) = p" by (simp add: f_abs_def le)
  show "f_sign (with_sign neg p) = neg" using bits [of 31]
    by (cases neg; simp only: f_sign_def with_sign_def bit_or_iff bit_signmask if_True if_False or.right_neutral) auto
qed


lemma f_mag_with_sign [simp]: "p < 2 ^ 31 \<Longrightarrow> f_mag (with_sign neg p) = mag_of p"
  by (simp add: f_mag_def with_sign_parts)

lemma f_val_with_sign [simp]:
  "p < 2 ^ 31 \<Longrightarrow> f_val (with_sign neg p) = (if neg then - int (mag_of p) else int (mag_of p))"
  by (simp add: f_val_def with_sign_parts)

section \<open>Rounding to 24 bits\<close>

text \<open>Before the range is checked, a pattern brackets the exact magnitude.\<close>

lemma significand:
  fixes num den :: nat
  assumes "0 < den" and k: "k = bitlen (num div den) - 24"
  defines "M \<equiv> num div (den * 2 ^ k)"
  shows "M < 2 ^ 24" "k = 0 \<or> 2 ^ 23 \<le> M" "M * 2 ^ k * den \<le> num" "num < Suc M * 2 ^ k * den"
proof -
  let ?q = "num div den"
  have M: "M = ?q div 2 ^ k" by (simp add: M_def div_mult2_eq)
  have "?q < 2 ^ (k + 24)"
    using bitlen_upper [of ?q] by (rule less_le_trans) (simp add: k power_increasing)
  then show "M < 2 ^ 24" unfolding M by (simp add: less_mult_imp_div_less power_add mult.commute)
  show "k = 0 \<or> 2 ^ 23 \<le> M"
  proof (cases "k = 0")
    case False
    then have "bitlen ?q = k + 24" "0 < ?q" using k by (auto intro: Nat.gr0I)
    then have "2 ^ (k + 23) \<le> ?q" using bitlen_lower [of ?q] by (simp add: power_add)
    then have "2 ^ 23 * 2 ^ k \<le> ?q" by (simp add: power_add mult.commute)
    then have "2 ^ 23 \<le> ?q div 2 ^ k" by (subst less_eq_div_iff_mult_less_eq) simp_all
    then show ?thesis by (simp add: M)
  qed simp
  show "M * 2 ^ k * den \<le> num"
    using div_times_less_eq_dividend [of num "den * 2 ^ k"] by (simp add: M_def ac_simps)
  show "num < Suc M * 2 ^ k * den"
    using dividend_less_div_times [of "den * 2 ^ k" num] assms(1) by (simp add: M_def algebra_simps)
qed

lemma fp_round_chop [simp]: "fp_round ChopZero neg num den = num div den"
  by (simp add: fp_round_def rounds_up_def Let_def)

lemma fp_round_cases: "fp_round m neg num den = num div den \<or> fp_round m neg num den = Suc (num div den)"
  by (auto simp: fp_round_def Let_def)

text \<open>A number is representable for the processor when its pattern is normal or zero.\<close>

definition f_normal :: "u32 \<Rightarrow> bool" where
  "f_normal w \<longleftrightarrow> f_finite w \<and> (f_mag w = 0 \<or> 2 ^ 23 \<le> f_mag w)"

text \<open>The specification of rounding towards zero: the largest such number whose magnitude is not
  above \<open>num / den\<close>.\<close>

definition truncates :: "u32 \<Rightarrow> nat \<Rightarrow> nat \<Rightarrow> bool" where
  "truncates w num den \<longleftrightarrow>
     f_normal w \<and> f_mag w * den \<le> num \<and> (\<forall>u. f_normal u \<and> f_mag u * den \<le> num \<longrightarrow> f_mag u \<le> f_mag w)"

lemma f_mag_le_iff: "f_mag u \<le> mag_of p \<longleftrightarrow> f_abs u \<le> p"
  by (simp add: f_mag_def)

lemma f_pack_truncates:
  assumes "0 < den" "RoundMode c = ChopZero" "FlushToZero c"
  shows "truncates (f_pack c neg num den) num den" and "f_sign (f_pack c neg num den) = neg"
proof -
  define k where "k = bitlen (num div den) - 24"
  define M where "M = num div (den * 2 ^ k)"
  define p where "p = M + k * 2 ^ 23"
  note sg = significand [OF assms(1) k_def, folded M_def]
  have tiny: "num div den < 2 ^ 23 \<and> 2 * num div den < 2 ^ 24 \<longleftrightarrow> num < 2 ^ 23 * den"
    using assms(1) by (auto simp: div_less_iff_less_mult)
  define r where "r = (if num < 2 ^ 23 * den then 0 else if p < 0x7F800000 then p else 0x7F7FFFFF)"
  have pack: "f_pack c neg num den = with_sign neg r"
    using assms by (simp add: f_pack_def Let_def rounds_up_def k_def [symmetric] M_def [symmetric] p_def r_def)
      (use tiny in auto)
  have lo: "mag_of p * den \<le> num" using sg mag_of_pattern [of M k] by (simp add: p_def)
  have hi: "num < mag_of (Suc p) * den" using sg mag_of_pattern [of "Suc M" k] by (auto simp: p_def)
  have r31: "r < 2 ^ 31" by (auto simp: r_def)
  show "f_sign (f_pack c neg num den) = neg" unfolding pack using r31 by (rule with_sign_parts)
  have rp: "mag_of r * den \<le> num"
  proof -
    have "r \<le> p" by (auto simp: r_def)
    then have "mag_of r * den \<le> mag_of p * den" by simp
    then show ?thesis using lo by (rule order_trans)
  qed
  have normal: "f_normal (with_sign neg r)"
  proof -
    have "2 ^ 23 \<le> mag_of p" if "\<not> num < 2 ^ 23 * den"
    proof (rule ccontr)
      assume "\<not> 2 ^ 23 \<le> mag_of p"
      then have "Suc p \<le> 2 ^ 23" using mag_of_normal [of p] by simp
      then have "mag_of (Suc p) \<le> mag_of (2 ^ 23)" by (rule mag_of_le_iff [THEN iffD2])
      then have "mag_of (Suc p) * den \<le> 2 ^ 23 * den" by (simp add: mag_of_def)
      with hi that show False by linarith
    qed
    then show ?thesis using r31 by (auto simp: f_normal_def f_finite_def with_sign_parts r_def mag_of_def)
  qed
  have max: "f_mag u \<le> mag_of r" if u: "f_normal u" "f_mag u * den \<le> num" for u
  proof (cases "num < 2 ^ 23 * den")
    case True
    then have "f_mag u < 2 ^ 23" using u(2) by (metis le_less_trans mult_less_cancel2)
    then show ?thesis using u(1) by (auto simp: f_normal_def)
  next
    case False
    have "f_mag u * den < mag_of (Suc p) * den" using u(2) hi by linarith
    then have "f_abs u < Suc p" by (simp add: f_mag_def)
    moreover have "f_abs u < 0x7F800000" using u(1) by (simp add: f_normal_def f_finite_def)
    ultimately show ?thesis using False by (auto simp: r_def f_mag_def)
  qed
  show "truncates (f_pack c neg num den) num den"
    unfolding truncates_def pack using normal rp max r31 by simp
qed

section \<open>Masks on patterns\<close>

lemma bit_f_abs: "bit (w AND 0x7FFFFFFF) n \<longleftrightarrow> bit w n \<and> n < 31" for w :: u32
  by (simp only: bit_and_iff bit_low31)

lemma with_sign_of: "with_sign (f_sign w) (f_abs w) = w"
proof (rule bit_word_eqI)
  fix n assume "n < LENGTH(32)"
  have *: "of_nat (f_abs w) = w AND 0x7FFFFFFF" by (simp add: f_abs_def)
  have "n = 31 \<or> n < 31" using \<open>n < LENGTH(32)\<close> by auto
  then show "bit (with_sign (f_sign w) (f_abs w)) n \<longleftrightarrow> bit w n"
    by (cases "f_sign w"; simp only: with_sign_def bit_or_iff bit_signmask bit_f_abs * if_True if_False or.right_neutral)
      (auto simp: f_sign_def)
qed

lemma float_eqI:
  assumes "f_sign v = f_sign w" "f_abs v = f_abs w"
  shows "v = w"
proof -
  have "v = with_sign (f_sign v) (f_abs v)" by (rule with_sign_of [symmetric])
  also have "\<dots> = with_sign (f_sign w) (f_abs w)" unfolding assms ..
  also have "\<dots> = w" by (rule with_sign_of)
  finally show ?thesis .
qed

lemma and_sign: "w AND 0x80000000 = with_sign (f_sign w) 0"
proof (rule bit_word_eqI)
  fix n
  show "bit (w AND 0x80000000) n \<longleftrightarrow> bit (with_sign (f_sign w) 0) n"
    by (cases "f_sign w"; simp only: with_sign_def bit_and_iff bit_or_iff bit_signmask f_sign_def of_nat_0 if_True if_False
      or.left_neutral bit_0_eq bot_apply) auto
qed

lemma or_sign: "with_sign neg 0 OR of_nat p = with_sign neg p"
  by (simp add: with_sign_def or.commute)

lemma f_neg_eq: "f_neg w = with_sign (\<not> f_sign w) (f_abs w)"
proof (rule bit_word_eqI)
  fix n assume "n < LENGTH(32)"
  then have n: "n = 31 \<or> n < 31" by auto
  have *: "of_nat (f_abs w) = w AND 0x7FFFFFFF" by (simp add: f_abs_def)
  show "bit (f_neg w) n \<longleftrightarrow> bit (with_sign (\<not> f_sign w) (f_abs w)) n"
    using n by (cases "f_sign w"; simp only: f_neg_def with_sign_def bit_or_iff bit_xor_iff bit_signmask bit_f_abs *
      if_True if_False or.right_neutral not_True_eq_False not_False_eq_True) (auto simp: f_sign_def)
qed

lemma exp_field: "unat (w AND 0x7F800000) = f_abs w div 2 ^ 23 * 2 ^ 23"
proof -
  define y where "y = drop_bit 23 (w AND 0x7FFFFFFF)"
  have y: "unat y = f_abs w div 2 ^ 23" unfolding f_abs_def y_def by (rule unat_drop_bit)
  have "push_bit 23 y = push_bit 23 (take_bit 8 (drop_bit 23 w))"
  proof -
    have "(0x7FFFFFFF :: u32) = mask 31" by (simp add: mask_eq_exp_minus_1)
    then show ?thesis unfolding y_def by (simp only: take_bit_eq_mask [symmetric] drop_bit_take_bit) simp
  qed
  also have "\<dots> = w AND mask (8 + 23) AND NOT (mask 23)" by (rule slice_eq_mask)
  also have "\<dots> = w AND 0x7F800000" by (simp add: mask_eq_exp_minus_1)
  finally have "w AND 0x7F800000 = push_bit 23 y" ..
  moreover have "unat y * 2 ^ 23 < 2 ^ 32"
    using f_abs_less [of w] unfolding y by (auto intro: le_less_trans [OF div_times_less_eq_dividend])
  ultimately show ?thesis by (simp add: push_bit_eq_mult unat_word_ariths y)
qed

lemma exp_zero_iff: "w AND 0x7F800000 = 0 \<longleftrightarrow> f_abs w < 2 ^ 23"
  using exp_field [of w] by (auto simp: unat_eq_0 [symmetric] div_eq_0_iff)

lemma exp_max_iff: "w AND 0x7F800000 = 0x7F800000 \<longleftrightarrow> 0x7F800000 \<le> f_abs w"
proof -
  have "w AND 0x7F800000 = 0x7F800000 \<longleftrightarrow> f_abs w div 2 ^ 23 = 255"
    using exp_field [of w] by (auto simp: word_unat_eq_iff)
  also have "\<dots> \<longleftrightarrow> 0x7F800000 \<le> f_abs w" using f_abs_less [of w] by (auto simp: div_nat_eqI) 
  finally show ?thesis .
qed

section \<open>Arithmetic that rounds towards zero\<close>

lemma f_normalD:
  assumes "f_normal w"
  shows "\<not> f_isNaN w" "\<not> f_isInf w" "f_finite w" "daz c w = w"
proof -
  show "\<not> f_isNaN w" "\<not> f_isInf w" "f_finite w"
    using assms by (auto simp: f_normal_def f_finite_def f_isNaN_def f_isInf_def)
  have "w AND 0x80000000 = w" if "f_abs w < 2 ^ 23"
  proof -
    have "f_abs w = 0" using that assms by (auto simp: f_normal_def f_mag_def mag_of_def)
    then show ?thesis using with_sign_of [of w] by (simp add: and_sign)
  qed
  then show "daz c w = w" by (simp add: daz_def)
qed

lemma f_normal_with_sign [simp]:
  "p < 2 ^ 31 \<Longrightarrow> f_normal (with_sign neg p) \<longleftrightarrow> p < 0x7F800000 \<and> (p = 0 \<or> 2 ^ 23 \<le> p)"
  using mag_of_eq_iff [of p 0] mag_of_normal [of p] by (auto simp: f_normal_def f_finite_def with_sign_parts)

lemma f_normal_neg: "f_normal w \<Longrightarrow> f_normal (f_neg w)" "f_val (f_neg w) = - f_val w" "f_mag (f_neg w) = f_mag w"
  using f_abs_less [of w] by (simp_all add: f_neg_eq f_normal_def f_finite_def with_sign_parts f_val_def f_mag_def)

lemma truncates_zero: "0 < den \<Longrightarrow> truncates (with_sign neg 0) 0 den"
  by (simp add: truncates_def)

lemma truncates_finite: "truncates w num den \<Longrightarrow> f_normal w"
  by (simp add: truncates_def)

definition chops :: "FPControlRegister \<Rightarrow> bool" where
  "chops c \<longleftrightarrow> RoundMode c = ChopZero \<and> FlushToZero c"

lemma f_pack_chops:
  assumes "chops c" "0 < den"
  shows "truncates (f_pack c neg num den) num den" "f_sign (f_pack c neg num den) = neg"
  using f_pack_truncates [of den c] assms by (simp_all add: chops_def)

lemma f_add_chops:
  assumes "chops c" "f_normal a" "f_normal b"
  shows "truncates (f_add c a b) (nat \<bar>f_val a + f_val b\<bar>) 1"
    and "f_val a + f_val b \<noteq> 0 \<Longrightarrow> f_sign (f_add c a b) = (f_val a + f_val b < 0)"
  using assms f_pack_chops [OF assms(1), of 1]
  by (auto simp: f_add_def Let_def f_normalD truncates_zero)

lemma f_sub_chops:
  assumes "chops c" "f_normal a" "f_normal b"
  shows "truncates (f_sub c a b) (nat \<bar>f_val a - f_val b\<bar>) 1"
    and "f_val a - f_val b \<noteq> 0 \<Longrightarrow> f_sign (f_sub c a b) = (f_val a - f_val b < 0)"
  using f_add_chops [OF assms(1,2), of "f_neg b"] assms
  by (simp_all add: f_sub_def f_normalD f_normal_neg)

lemma f_mul_chops:
  assumes "chops c" "f_normal a" "f_normal b"
  shows "truncates (f_mul c a b) (f_mag a * f_mag b) (2 ^ 149)"
    and "f_sign (f_mul c a b) = (f_sign a \<noteq> f_sign b)"
  using assms f_pack_chops [OF assms(1), of "2 ^ 149"] truncates_zero [of "2 ^ 149"]
  by (auto simp: f_mul_def Let_def f_normalD with_sign_parts)

lemma f_div_chops:
  assumes "chops c" "f_normal a" "f_normal b" "f_mag b \<noteq> 0"
  shows "truncates (f_div c a b) (f_mag a * 2 ^ 149) (f_mag b)"
    and "f_sign (f_div c a b) = (f_sign a \<noteq> f_sign b)"
  using assms f_pack_chops [OF assms(1), of "f_mag b"] truncates_zero [of "f_mag b"]
  by (auto simp: f_div_def Let_def f_normalD with_sign_parts)

lemma f_fma_chops:
  assumes "chops c" "f_normal a" "f_normal b" "f_normal d"
  shows "truncates (f_fma c a b d)
    (nat \<bar>(if f_sign a \<noteq> f_sign b then - int (f_mag a * f_mag b) else int (f_mag a * f_mag b)) + f_val d * 2 ^ 149\<bar>) (2 ^ 149)"
  using assms f_pack_chops [OF assms(1), of "2 ^ 149"] truncates_zero [of "2 ^ 149"]
  by (auto simp: f_fma_def Let_def f_normalD)

section \<open>The square root\<close>

lemma isqrt_bits_bounds:
  "r * r \<le> n \<Longrightarrow> n < (r + 2 ^ k) * (r + 2 ^ k) \<Longrightarrow>
    isqrt_bits k n r * isqrt_bits k n r \<le> n \<and> n < Suc (isqrt_bits k n r) * Suc (isqrt_bits k n r)"
proof (induction k arbitrary: r)
  case (Suc k)
  have "r + 2 ^ k + 2 ^ k = r + 2 ^ Suc k" by simp
  then show ?case using Suc by (auto simp: algebra_simps)
qed simp

lemma isqrt_bounds: "isqrt n * isqrt n \<le> n" "n < Suc (isqrt n) * Suc (isqrt n)"
proof -
  have "n < 2 ^ bitlen n * 2 ^ bitlen n"
    by (rule less_le_trans [OF bitlen_upper]) simp
  then show "isqrt n * isqrt n \<le> n" "n < Suc (isqrt n) * Suc (isqrt n)"
    using isqrt_bits_bounds [of 0 n "bitlen n"] by (simp_all add: isqrt_def)
qed

lemma le_isqrt_iff: "m \<le> isqrt n \<longleftrightarrow> m * m \<le> n"
proof
  assume "m \<le> isqrt n"
  then show "m * m \<le> n" using isqrt_bounds(1) [of n] by (meson mult_le_mono order_trans)
next
  assume "m * m \<le> n"
  then have "m * m < Suc (isqrt n) * Suc (isqrt n)" using isqrt_bounds(2) [of n] by linarith
  then show "m \<le> isqrt n" by (metis less_Suc_eq_le linorder_not_less mult_le_mono)
qed

text \<open>Rounding the square root towards zero: the largest number whose square is not above.\<close>

lemma f_sqrt_chops:
  assumes "chops c" "f_normal a" "\<not> f_sign a"
  defines "n \<equiv> f_mag a * 2 ^ 149"
  shows "f_normal (f_sqrt c a)" "f_mag (f_sqrt c a) * f_mag (f_sqrt c a) \<le> n"
    "f_normal u \<Longrightarrow> f_mag u * f_mag u \<le> n \<Longrightarrow> f_mag u \<le> f_mag (f_sqrt c a)"
    "\<not> f_sign (f_sqrt c a)"
proof -
  let ?r = "isqrt n"
  let ?num = "2 * ?r + (if ?r * ?r = n then 0 else 1)"
  have half: "m * 2 \<le> ?num \<longleftrightarrow> m * m \<le> n" for m
    by (auto simp: le_isqrt_iff [symmetric])
  have "f_normal (f_sqrt c a) \<and> f_mag (f_sqrt c a) * f_mag (f_sqrt c a) \<le> n \<and> \<not> f_sign (f_sqrt c a) \<and>
      (\<forall>u. f_normal u \<and> f_mag u * f_mag u \<le> n \<longrightarrow> f_mag u \<le> f_mag (f_sqrt c a))"
  proof (cases "f_mag a = 0")
    case True
    then show ?thesis using assms by (simp add: f_sqrt_def Let_def f_normalD)
  next
    case False
    then have eq: "f_sqrt c a = f_pack c False ?num 2"
      using assms by (simp add: f_sqrt_def Let_def f_normalD n_def)
    show ?thesis
      using f_pack_chops [OF assms(1), of 2 False ?num] half unfolding eq truncates_def by simp
  qed
  then show "f_normal (f_sqrt c a)" "f_mag (f_sqrt c a) * f_mag (f_sqrt c a) \<le> n"
    "f_normal u \<Longrightarrow> f_mag u * f_mag u \<le> n \<Longrightarrow> f_mag u \<le> f_mag (f_sqrt c a)"
    "\<not> f_sign (f_sqrt c a)" by blast+
qed

text \<open>The root of a number of the unit that is not negative is one again, under every control register: it is far
  from both ends of the range.\<close>

lemma f_sqrt_normal:
  assumes "f_normal a" "\<not> f_sign a"
  shows "f_normal (f_sqrt c a)" "f_mag a \<noteq> 0 \<Longrightarrow> f_mag (f_sqrt c a) \<noteq> 0"
proof -
  have "f_normal (f_sqrt c a) \<and> f_mag (f_sqrt c a) \<noteq> 0" if nz: "f_mag a \<noteq> 0"
  proof -
    define n where "n = f_mag a * 2 ^ 149"
    define r where "r = isqrt n"
    define num where "num = 2 * r + (if r * r = n then 0 else 1)"
    define k where "k = bitlen r - 24"
    have d: "num div 2 = r" by (simp add: num_def)
    have "f_mag a < mag_of 0x7F800000"
      using assms(1) unfolding f_normal_def f_finite_def f_mag_def mag_of_less_iff by simp
    then have "f_mag a < 2 ^ 277" by (simp add: mag_of_def)
    then have hi: "n < 2 ^ 213 * 2 ^ 213" unfolding n_def by simp
    have "2 ^ 23 \<le> f_mag a" using assms(1) nz by (simp add: f_normal_def)
    then have "2 ^ 86 * 2 ^ 86 \<le> n" unfolding n_def by simp
    then have r1: "2 ^ 86 \<le> r" unfolding r_def le_isqrt_iff .
    have r2: "r < 2 ^ 213"
    proof (rule ccontr)
      assume "\<not> r < 2 ^ 213"
      then have "2 ^ 213 \<le> r" by simp
      then have "2 ^ 213 * 2 ^ 213 \<le> n" unfolding r_def le_isqrt_iff .
      with hi show False by simp
    qed
    have "2 ^ 86 < (2 :: nat) ^ bitlen r" using r1 bitlen_upper [of r] by linarith
    then have b1: "86 < bitlen r" by (rule power_less_imp_less_exp [rotated]) simp
    have "(2 :: nat) ^ bitlen r < 2 ^ 214" using bitlen_lower [of r] r1 r2 by simp
    then have b2: "bitlen r < 214" by (rule power_less_imp_less_exp [rotated]) simp
    have k: "63 \<le> k" "k \<le> 189" "bitlen r = k + 24" using b1 b2 by (simp_all add: k_def)
    have "num div (2 * 2 ^ k) = r div 2 ^ k" by (simp add: div_mult2_eq d)
    moreover have "2 ^ 23 \<le> r div 2 ^ k"
    proof -
      have "2 ^ (k + 24) \<le> 2 * r" using bitlen_lower [of r] r1 k(3) by simp
      then have "2 ^ 23 * 2 ^ k \<le> r" by (simp add: power_add)
      then show ?thesis by (simp add: less_eq_div_iff_mult_less_eq)
    qed
    moreover have "r div 2 ^ k < 2 ^ 24"
      using bitlen_upper [of r] unfolding k(3) by (simp add: div_less_iff_less_mult power_add mult.commute)
    ultimately have q: "2 ^ 23 \<le> fp_round m neg num (2 * 2 ^ k)" "fp_round m neg num (2 * 2 ^ k) \<le> 2 ^ 24" for m neg
      using fp_round_cases [of m neg num "2 * 2 ^ k"] by auto
    define p where "p = fp_round (RoundMode c) False num (2 * 2 ^ k) + k * 2 ^ 23"
    have p: "2 ^ 23 \<le> p" "p < 0x7F800000" using q [of "RoundMode c" False] k(1,2) by (simp_all add: p_def)
    have "f_sqrt c a = f_pack c False num 2"
      using assms nz by (simp add: f_sqrt_def Let_def f_normalD n_def r_def num_def)
    also have "\<dots> = with_sign False p"
      unfolding f_pack_def Let_def d k_def [symmetric] p_def [symmetric] using p r1 by simp
    finally have e: "f_sqrt c a = with_sign False p" .
    have "f_normal (with_sign False p)" using p by (subst f_normal_with_sign) simp_all
    moreover have "f_mag (with_sign False p) \<noteq> 0" using p mag_of_less_iff [of 0 p] by simp
    ultimately show ?thesis unfolding e by simp
  qed
  moreover have "f_sqrt c a = a" if "f_mag a = 0" using assms that by (simp add: f_sqrt_def Let_def f_normalD)
  ultimately show "f_normal (f_sqrt c a)" "f_mag a \<noteq> 0 \<Longrightarrow> f_mag (f_sqrt c a) \<noteq> 0"
    using assms(1) by (cases "f_mag a = 0"; simp)+
qed

end
