(* ===== verification/EE_LoadStore.thy ===== *)
theory EE_LoadStore
  imports EE_COP0 Host_Float
begin

text \<open>
  Cycle accounting of the interpreter (\<^verbatim>\<open>intUpdateCPUCycles\<close> of \<^verbatim>\<open>pcsx2/Interpreter.cpp\<close>)
  and the loads and stores of \<^verbatim>\<open>pcsx2/R5900OpcodeImpl.cpp\<close>. An address error or a TLB miss
  abandons the instruction (\<open>Cancelled\<close>). The lemmas show that aligned and unaligned pairs move
  the right bytes, that a misaligned access changes nothing, and what loads into register 0 do.
\<close>

section \<open>The environment of the interpreter\<close>

text \<open>
  What the interpreter reads or calls outside the processor: the memory environment, configuration
  (the cycle rate, the floating-point control register, whether the compiler fused multiplications
  and additions, the wait-loop speed hack, whether the interpreter runs on its own or as the
  fallback of a recompiler, a game fix and the host address of main memory), the event test (timers, interrupts, the other processors), the DMA controller's status fields, the
  console calls of \<^verbatim>\<open>SYSCALL\<close> (their result tells whether the call returns without raising the
  exception), and the instructions of VU0, by instruction word; they may run a delay slot with the
  interpreter they are given, and may not return.
\<close>

record 'd ee_env =
  eeMem :: "'d mem_env"
  EECycleRate :: int
  FPUFPCR :: FPControlRegister
  FPContract :: bool
  WaitLoop :: bool
  CpuIsInt :: bool
  GoemonTlbHack :: bool
  MainMem :: u64
  EventTest :: "'d machine \<Rightarrow> (unit, 'd machine) outcome"
  dmac_CIS :: "'d machine \<Rightarrow> u32"
  dmac_CPC :: "'d machine \<Rightarrow> u32"
  syscall_hle :: "'d machine \<Rightarrow> (bool, 'd machine) outcome"
  coprocessor_op :: "('d machine \<Rightarrow> (unit, 'd machine) outcome option) \<Rightarrow> 'd machine \<Rightarrow> (unit, 'd machine) outcome option"

section \<open>Cycle accounting\<close>

text \<open>The division by \<^verbatim>\<open>1.3f\<close> is done in single precision.\<close>

definition div_1_3f :: "FPControlRegister \<Rightarrow> u32 \<Rightarrow> u32" where
  "div_1_3f c v = word_of_int (f_trunc c (f_div c (f_of_int c (uint v)) 0x3FA66666))"

definition scale_cycles :: "'d ee_env \<Rightarrow> u32 \<Rightarrow> u32" where
  "scale_cycles E blk =
     (let rate = EECycleRate E in
      if rate = 0 \<or> blk \<le> 40 \<or> rate < - 99 \<or> rate > 3 then drop_bit 3 blk
      else if rate > 1 then drop_bit (nat (2 + rate)) blk
      else if rate = 1 then div_1_3f (FPUFPCR E) (drop_bit 3 blk)
      else if rate = - 1 then (if blk \<le> 80 \<or> blk > 168 then 5 else 7) * blk div 32
      else drop_bit 5 (word_of_int (5 + (- 2 * (rate + 1))) * blk))"

definition intUpdateCPUCycles :: "'d ee_env \<Rightarrow> 'd machine \<Rightarrow> 'd machine" where
  "intUpdateCPUCycles E s =
     (let blk = cpuBlockCycles s; sc = scale_cycles E blk;
          s = s\<lparr>cycle := cycle s + ucast (if sc < 1 then 1 else sc)\<rparr>
      in if EECycleRate E > 1
         then s\<lparr>cpuBlockCycles := blk AND (push_bit (nat (EECycleRate E + 2)) 1 - 1)\<rparr>
         else s\<lparr>cpuBlockCycles := blk AND 0x7\<rparr>)"

section \<open>Aligned loads\<close>

type_synonym 'd instr = "'d machine \<Rightarrow> (unit, 'd machine) outcome"

definition eff_addr :: "'a cpuRegisters_scheme \<Rightarrow> u32" where
  "eff_addr s = UL 0 (GPR s (fRs s)) + scast (Imm s)"

text \<open>\<^verbatim>\<open>RaiseAddressError\<close> reports and cancels the instruction.\<close>

definition RaiseAddressError :: "'d machine \<Rightarrow> (unit, 'd machine) outcome" where
  "RaiseAddressError s = Cancelled s"

definition check_aligned :: "u32 \<Rightarrow> u32 \<Rightarrow> 'd machine \<Rightarrow> (unit, 'd machine) outcome" where
  "check_aligned m addr s = (if addr AND m \<noteq> 0 then RaiseAddressError s else Ok () s)"

text \<open>Reading an EE hardware register forces an event test.\<close>

definition sync_after_read :: "'d ee_env \<Rightarrow> u32 \<Rightarrow> 'd instr" where
  "sync_after_read E addr s =
     (if addr AND 0xFFFFE000 = 0x10000000 then EventTest E (intUpdateCPUCycles E s) else Ok () s)"

definition LB :: "'d ee_env \<Rightarrow> 'd instr" where
  "LB E s =
     (let addr = eff_addr s in
      obind (vtlb_memRead (eeMem E) addr s) (\<lambda>temp :: u8. \<lambda>s.
        if fRt s = 0 then Ok () s
        else sync_after_read E addr (wUD (fRt s) 0 (scast temp) s)))"

definition LBU :: "'d ee_env \<Rightarrow> 'd instr" where
  "LBU E s =
     (let addr = eff_addr s in
      obind (vtlb_memRead (eeMem E) addr s) (\<lambda>temp :: u8. \<lambda>s.
        if fRt s = 0 then Ok () s
        else sync_after_read E addr (wUD (fRt s) 0 (ucast temp) s)))"

definition LH :: "'d ee_env \<Rightarrow> 'd instr" where
  "LH E s =
     (let addr = eff_addr s in
      obind (check_aligned 1 addr s) (\<lambda>_ s.
      obind (vtlb_memRead (eeMem E) addr s) (\<lambda>temp :: u16. \<lambda>s.
        if fRt s = 0 then Ok () s
        else sync_after_read E addr (wUD (fRt s) 0 (scast temp) s))))"

definition LHU :: "'d ee_env \<Rightarrow> 'd instr" where
  "LHU E s =
     (let addr = eff_addr s in
      obind (check_aligned 1 addr s) (\<lambda>_ s.
      obind (vtlb_memRead (eeMem E) addr s) (\<lambda>temp :: u16. \<lambda>s.
        if fRt s = 0 then Ok () s
        else sync_after_read E addr (wUD (fRt s) 0 (ucast temp) s))))"

definition LW :: "'d ee_env \<Rightarrow> 'd instr" where
  "LW E s =
     (let addr = eff_addr s in
      obind (check_aligned 3 addr s) (\<lambda>_ s.
      obind (vtlb_memRead (eeMem E) addr s) (\<lambda>temp :: u32. \<lambda>s.
        if fRt s = 0 then Ok () s
        else sync_after_read E addr (wUD (fRt s) 0 (scast temp) s))))"

definition LWU :: "'d ee_env \<Rightarrow> 'd instr" where
  "LWU E s =
     (let addr = eff_addr s in
      obind (check_aligned 3 addr s) (\<lambda>_ s.
      obind (vtlb_memRead (eeMem E) addr s) (\<lambda>temp :: u32. \<lambda>s.
        if fRt s = 0 then Ok () s else Ok () (wUD (fRt s) 0 (ucast temp) s))))"

definition LD :: "'d ee_env \<Rightarrow> 'd instr" where
  "LD E s =
     (let addr = eff_addr s in
      obind (check_aligned 7 addr s) (\<lambda>_ s.
        if fRt s = 0 then Ok () s
        else obind (vtlb_memRead (eeMem E) addr s) (\<lambda>temp :: u64. \<lambda>s. Ok () (wUD (fRt s) 0 temp s))))"

text \<open>The destination is chosen before the access; register 0 is replaced by a dummy.\<close>

definition LQ :: "'d ee_env \<Rightarrow> 'd instr" where
  "LQ E s =
     (let addr = eff_addr s; rt = fRt s in
      obind (vtlb_memRead128 (eeMem E) (addr AND NOT 0xf) s) (\<lambda>v s.
        Ok () (if rt = 0 then s else wGPR rt v s)))"

section \<open>Aligned stores\<close>

definition SB :: "'d ee_env \<Rightarrow> 'd instr" where
  "SB E s = vtlb_memWrite (eeMem E) (eff_addr s) (UC 0 (GPR s (fRt s))) s"

definition SH :: "'d ee_env \<Rightarrow> 'd instr" where
  "SH E s =
     (let addr = eff_addr s in
      obind (check_aligned 1 addr s) (\<lambda>_ s. vtlb_memWrite (eeMem E) addr (US 0 (GPR s (fRt s))) s))"

definition SW :: "'d ee_env \<Rightarrow> 'd instr" where
  "SW E s =
     (let addr = eff_addr s in
      obind (check_aligned 3 addr s) (\<lambda>_ s. vtlb_memWrite (eeMem E) addr (UL 0 (GPR s (fRt s))) s))"

definition SD :: "'d ee_env \<Rightarrow> 'd instr" where
  "SD E s =
     (let addr = eff_addr s in
      obind (check_aligned 7 addr s) (\<lambda>_ s. vtlb_memWrite (eeMem E) addr (UD 0 (GPR s (fRt s))) s))"

definition SQ :: "'d ee_env \<Rightarrow> 'd instr" where
  "SQ E s = vtlb_memWrite128 (eeMem E) (eff_addr s AND NOT 0xf) (GPR s (fRt s)) s"

section \<open>Unaligned loads and stores\<close>

definition LWL_MASK :: "u32 list" where "LWL_MASK = [0xffffff, 0x0000ffff, 0x000000ff, 0x00000000]"
definition LWR_MASK :: "u32 list" where "LWR_MASK = [0x000000, 0xff000000, 0xffff0000, 0xffffff00]"
definition LWL_SHIFT :: "nat list" where "LWL_SHIFT = [24, 16, 8, 0]"
definition LWR_SHIFT :: "nat list" where "LWR_SHIFT = [0, 8, 16, 24]"
definition SWL_MASK :: "u32 list" where "SWL_MASK = [0xffffff00, 0xffff0000, 0xff000000, 0x00000000]"
definition SWR_MASK :: "u32 list" where "SWR_MASK = [0x00000000, 0x000000ff, 0x0000ffff, 0x00ffffff]"
definition SWR_SHIFT :: "nat list" where "SWR_SHIFT = [0, 8, 16, 24]"
definition SWL_SHIFT :: "nat list" where "SWL_SHIFT = [24, 16, 8, 0]"

definition LDL_MASK :: "u64 list" where
  "LDL_MASK = [0x00ffffffffffffff, 0x0000ffffffffffff, 0x000000ffffffffff, 0x00000000ffffffff,
               0x0000000000ffffff, 0x000000000000ffff, 0x00000000000000ff, 0x0000000000000000]"
definition LDR_MASK :: "u64 list" where
  "LDR_MASK = [0x0000000000000000, 0xff00000000000000, 0xffff000000000000, 0xffffff0000000000,
               0xffffffff00000000, 0xffffffffff000000, 0xffffffffffff0000, 0xffffffffffffff00]"
definition LDR_SHIFT :: "nat list" where "LDR_SHIFT = [0, 8, 16, 24, 32, 40, 48, 56]"
definition LDL_SHIFT :: "nat list" where "LDL_SHIFT = [56, 48, 40, 32, 24, 16, 8, 0]"
definition SDL_MASK :: "u64 list" where
  "SDL_MASK = [0xffffffffffffff00, 0xffffffffffff0000, 0xffffffffff000000, 0xffffffff00000000,
               0xffffff0000000000, 0xffff000000000000, 0xff00000000000000, 0x0000000000000000]"
definition SDR_MASK :: "u64 list" where
  "SDR_MASK = [0x0000000000000000, 0x00000000000000ff, 0x000000000000ffff, 0x0000000000ffffff,
               0x00000000ffffffff, 0x000000ffffffffff, 0x0000ffffffffffff, 0x00ffffffffffffff]"
definition SDL_SHIFT :: "nat list" where "SDL_SHIFT = [56, 48, 40, 32, 24, 16, 8, 0]"
definition SDR_SHIFT :: "nat list" where "SDR_SHIFT = [0, 8, 16, 24, 32, 40, 48, 56]"

definition LWL :: "'d ee_env \<Rightarrow> 'd instr" where
  "LWL E s =
     (let addr = eff_addr s; shift = unat (addr AND 3) in
      obind (vtlb_memRead (eeMem E) (addr AND NOT 3) s) (\<lambda>m :: u32. \<lambda>s.
        if fRt s = 0 then Ok () s
        else Ok () (wUD (fRt s) 0
          (scast ((UL 0 (GPR s (fRt s)) AND LWL_MASK ! shift) OR push_bit (LWL_SHIFT ! shift) m)) s)))"

definition LWR :: "'d ee_env \<Rightarrow> 'd instr" where
  "LWR E s =
     (let addr = eff_addr s; shift = unat (addr AND 3) in
      obind (vtlb_memRead (eeMem E) (addr AND NOT 3) s) (\<lambda>m :: u32. \<lambda>s.
        if fRt s = 0 then Ok () s
        else
          let m = (UL 0 (GPR s (fRt s)) AND LWR_MASK ! shift) OR drop_bit (LWR_SHIFT ! shift) m
          in Ok () (if shift = 0 then wUD (fRt s) 0 (scast m) s else wUL (fRt s) 0 m s)))"

definition LDL :: "'d ee_env \<Rightarrow> 'd instr" where
  "LDL E s =
     (let addr = eff_addr s; shift = unat (addr AND 7) in
      obind (vtlb_memRead (eeMem E) (addr AND NOT 7) s) (\<lambda>m :: u64. \<lambda>s.
        if fRt s = 0 then Ok () s
        else Ok () (wUD (fRt s) 0
          ((UD 0 (GPR s (fRt s)) AND LDL_MASK ! shift) OR push_bit (LDL_SHIFT ! shift) m) s)))"

definition LDR :: "'d ee_env \<Rightarrow> 'd instr" where
  "LDR E s =
     (let addr = eff_addr s; shift = unat (addr AND 7) in
      obind (vtlb_memRead (eeMem E) (addr AND NOT 7) s) (\<lambda>m :: u64. \<lambda>s.
        if fRt s = 0 then Ok () s
        else Ok () (wUD (fRt s) 0
          ((UD 0 (GPR s (fRt s)) AND LDR_MASK ! shift) OR drop_bit (LDR_SHIFT ! shift) m) s)))"

definition SWL :: "'d ee_env \<Rightarrow> 'd instr" where
  "SWL E s =
     (let addr = eff_addr s; shift = unat (addr AND 3) in
      obind (vtlb_memRead (eeMem E) (addr AND NOT 3) s) (\<lambda>m :: u32. \<lambda>s.
        vtlb_memWrite (eeMem E) (addr AND NOT 3)
          (drop_bit (SWL_SHIFT ! shift) (UL 0 (GPR s (fRt s))) OR (m AND SWL_MASK ! shift)) s))"

definition SWR :: "'d ee_env \<Rightarrow> 'd instr" where
  "SWR E s =
     (let addr = eff_addr s; shift = unat (addr AND 3) in
      obind (vtlb_memRead (eeMem E) (addr AND NOT 3) s) (\<lambda>m :: u32. \<lambda>s.
        vtlb_memWrite (eeMem E) (addr AND NOT 3)
          (push_bit (SWR_SHIFT ! shift) (UL 0 (GPR s (fRt s))) OR (m AND SWR_MASK ! shift)) s))"

definition SDL :: "'d ee_env \<Rightarrow> 'd instr" where
  "SDL E s =
     (let addr = eff_addr s; shift = unat (addr AND 7) in
      obind (vtlb_memRead (eeMem E) (addr AND NOT 7) s) (\<lambda>m :: u64. \<lambda>s.
        vtlb_memWrite (eeMem E) (addr AND NOT 7)
          (drop_bit (SDL_SHIFT ! shift) (UD 0 (GPR s (fRt s))) OR (m AND SDL_MASK ! shift)) s))"

definition SDR :: "'d ee_env \<Rightarrow> 'd instr" where
  "SDR E s =
     (let addr = eff_addr s; shift = unat (addr AND 7) in
      obind (vtlb_memRead (eeMem E) (addr AND NOT 7) s) (\<lambda>m :: u64. \<lambda>s.
        vtlb_memWrite (eeMem E) (addr AND NOT 7)
          (push_bit (SDR_SHIFT ! shift) (UD 0 (GPR s (fRt s))) OR (m AND SDR_MASK ! shift)) s))"

section \<open>Correctness of loads, stores and cycle accounting\<close>

lemma machine_write [simp]:
  "vmap (wGPR r v s) = vmap s" "host (wGPR r v s) = host s" "vmap (wUD r n w s) = vmap s" "host (wUD r n w s) = host s"
  "vmap (wUL r n x s) = vmap s" "host (wUL r n x s) = host s" "pmap (wUD r n w s) = pmap s"
  by (simp_all add: write_defs)

lemma translate_code [simp]: "translate (s\<lparr>code := c\<rparr>) a = translate s a"
  by (simp add: translate_def)

lemma translate_write [simp]:
  "translate (wUD r n w s) a = translate s a" "translate (wUL r n x s) a = translate s a" "translate (wGPR r v s) a = translate s a"
  by (simp_all add: translate_def)

lemma field_code_cong:
  "fRt (s\<lparr>host := h\<rparr>) = fRt s" "fRs (s\<lparr>host := h\<rparr>) = fRs s" "Imm (s\<lparr>host := h\<rparr>) = Imm s" "eff_addr (s\<lparr>host := h\<rparr>) = eff_addr s"
  by (simp_all add: field_defs eff_addr_def)

lemma code_host: "s\<lparr>host := h\<rparr>\<lparr>code := c\<rparr> = s\<lparr>code := c\<rparr>\<lparr>host := h\<rparr>"
  by simp

section \<open>Instances\<close>

text \<open>An environment without devices and memory that maps every page, to exhibit instances.\<close>

definition ee_plain :: "unit ee_env" where
  "ee_plain = \<lparr>eeMem = no_env, EECycleRate = 0, FPUFPCR = DEFAULT_FPU_FP_CONTROL_REGISTER, FPContract = False, WaitLoop = False, CpuIsInt = True, GoemonTlbHack = False, MainMem = 0x100000, EventTest = (\<lambda>s. Ok () s),
     dmac_CIS = (\<lambda>_. 0), dmac_CPC = (\<lambda>_. 0), syscall_hle = (\<lambda>s. Ok False s), coprocessor_op = (\<lambda>x s. Some (Ok () s))\<rparr>"

lemma ee_plain_cache [simp]: "\<not> CHECK_CACHE (eeMem ee_plain)"
  by (simp add: ee_plain_def no_env_def)

lemma ram_translate: "translate machine_ram a = Ptr (0x100000 + ucast a)"
proof -
  have "unat (0x100000 + ucast a :: u64) = 0x100000 + unat a"
    using unsigned_less [of a, where 'a = nat] by (simp add: unat_word_ariths unat_ucast_up)
  then have "\<not> 0x100000 + (ucast a :: u64) <s 0"
    using unsigned_less [of a, where 'a = nat] by (simp add: neg_iff_unat)
  then show ?thesis
    by (simp add: machine_ram_def translate_def resolve_def virt_isHandler_def assumePtr_def VTLBVirtual_def
      fromPointer_def phys_isHandler_def)
qed

lemma ram_parts [simp]: "GPR machine_ram = (\<lambda>_. 0)" "host machine_ram = (\<lambda>_. 0)"
  by (simp_all add: machine_ram_def)

section \<open>Address errors\<close>

text \<open>
  A halfword, word or doubleword access at an address that is not a multiple of its size abandons
  the instruction and changes nothing: no register, no memory, no cycle count.
\<close>
lemma misaligned_access_abandoned:
  "(eff_addr s AND 1 \<noteq> 0 \<longrightarrow> LH E s = Cancelled s \<and> LHU E s = Cancelled s \<and> SH E s = Cancelled s) \<and>
   (eff_addr s AND 3 \<noteq> 0 \<longrightarrow> LW E s = Cancelled s \<and> LWU E s = Cancelled s \<and> SW E s = Cancelled s) \<and>
   (eff_addr s AND 7 \<noteq> 0 \<longrightarrow> LD E s = Cancelled s \<and> SD E s = Cancelled s)"
  by (simp add: LH_def LHU_def SH_def LW_def LWU_def SW_def LD_def SD_def check_aligned_def RaiseAddressError_def Let_def)

text \<open>What each aligned load and store does at an address backed by host memory.\<close>

lemma loads_ptr:
  assumes "\<not> CHECK_CACHE (eeMem E)" "translate s (eff_addr s) = Ptr p" "eff_addr s AND 0xFFFFE000 \<noteq> 0x10000000"
  shows "LB E s = Ok () (if fRt s = 0 then s else wUD (fRt s) 0 (scast (hostLoad (host s) p :: u8)) s)"
    and "LBU E s = Ok () (if fRt s = 0 then s else wUD (fRt s) 0 (ucast (hostLoad (host s) p :: u8)) s)"
    and "eff_addr s AND 1 = 0 \<Longrightarrow> LH E s = Ok () (if fRt s = 0 then s else wUD (fRt s) 0 (scast (hostLoad (host s) p :: u16)) s)"
    and "eff_addr s AND 1 = 0 \<Longrightarrow> LHU E s = Ok () (if fRt s = 0 then s else wUD (fRt s) 0 (ucast (hostLoad (host s) p :: u16)) s)"
    and "eff_addr s AND 3 = 0 \<Longrightarrow> LW E s = Ok () (if fRt s = 0 then s else wUD (fRt s) 0 (scast (hostLoad (host s) p :: u32)) s)"
    and "eff_addr s AND 3 = 0 \<Longrightarrow> LWU E s = Ok () (if fRt s = 0 then s else wUD (fRt s) 0 (ucast (hostLoad (host s) p :: u32)) s)"
    and "eff_addr s AND 7 = 0 \<Longrightarrow> LD E s = Ok () (if fRt s = 0 then s else wUD (fRt s) 0 (hostLoad (host s) p) s)"
  using assms by (simp_all add: LB_def LBU_def LH_def LHU_def LW_def LWU_def LD_def check_aligned_def sync_after_read_def Let_def read_ptr)

lemma LQ_ptr:
  assumes "\<not> CHECK_CACHE (eeMem E)" "translate s (eff_addr s AND NOT 0xf) = Ptr p"
  shows "LQ E s = Ok () (if fRt s = 0 then s else wGPR (fRt s) (hostLoad (host s) p) s)"
  using assms by (simp add: LQ_def vtlb_memRead128_def Let_def read_ptr)

lemma stores_ptr:
  assumes "\<not> CHECK_CACHE (eeMem E)" "translate s (eff_addr s) = Ptr p"
  shows "SB E s = Ok () (s\<lparr>host := hostStore p (UC 0 (GPR s (fRt s))) (host s)\<rparr>)"
    and "eff_addr s AND 1 = 0 \<Longrightarrow> SH E s = Ok () (s\<lparr>host := hostStore p (US 0 (GPR s (fRt s))) (host s)\<rparr>)"
    and "eff_addr s AND 3 = 0 \<Longrightarrow> SW E s = Ok () (s\<lparr>host := hostStore p (UL 0 (GPR s (fRt s))) (host s)\<rparr>)"
    and "eff_addr s AND 7 = 0 \<Longrightarrow> SD E s = Ok () (s\<lparr>host := hostStore p (UD 0 (GPR s (fRt s))) (host s)\<rparr>)"
  using assms by (simp_all add: SB_def SH_def SW_def SD_def check_aligned_def Let_def write_ptr)

lemma SQ_ptr:
  assumes "\<not> CHECK_CACHE (eeMem E)" "translate s (eff_addr s AND NOT 0xf) = Ptr p"
  shows "SQ E s = Ok () (s\<lparr>host := hostStore p (GPR s (fRt s)) (host s)\<rparr>)"
  using assms by (simp add: SQ_def vtlb_memWrite128_def write_ptr)

lemma stored_state:
  fixes s t :: "'d machine"
  assumes "t = s\<lparr>code := c\<rparr>" "eff_addr t = eff_addr s"
  shows "fRt (s\<lparr>host := h\<rparr>\<lparr>code := c\<rparr>) = fRt t" "eff_addr (s\<lparr>host := h\<rparr>\<lparr>code := c\<rparr>) = eff_addr s"
    "translate (s\<lparr>host := h\<rparr>\<lparr>code := c\<rparr>) a = translate s a" "host (s\<lparr>host := h\<rparr>\<lparr>code := c\<rparr>) = h"
  using assms by (simp_all add: field_defs eff_addr_def translate_def)

lemma stored_loads:
  fixes s t :: "'d machine"
  assumes "t = s\<lparr>code := c\<rparr>" "eff_addr t = eff_addr s" "fRt t \<noteq> 0" "\<not> CHECK_CACHE (eeMem E)"
    "translate s (eff_addr s) = Ptr p" "translate s (eff_addr s AND NOT 0xf) = Ptr q" "eff_addr s AND 0xFFFFE000 \<noteq> 0x10000000"
  defines "u h \<equiv> s\<lparr>host := h\<rparr>\<lparr>code := c\<rparr>"
  shows "LB E (u h) = Ok () (wUD (fRt t) 0 (scast (hostLoad h p :: u8)) (u h))"
    "LBU E (u h) = Ok () (wUD (fRt t) 0 (ucast (hostLoad h p :: u8)) (u h))"
    "eff_addr s AND 1 = 0 \<Longrightarrow> LH E (u h) = Ok () (wUD (fRt t) 0 (scast (hostLoad h p :: u16)) (u h))"
    "eff_addr s AND 1 = 0 \<Longrightarrow> LHU E (u h) = Ok () (wUD (fRt t) 0 (ucast (hostLoad h p :: u16)) (u h))"
    "eff_addr s AND 3 = 0 \<Longrightarrow> LW E (u h) = Ok () (wUD (fRt t) 0 (scast (hostLoad h p :: u32)) (u h))"
    "eff_addr s AND 3 = 0 \<Longrightarrow> LWU E (u h) = Ok () (wUD (fRt t) 0 (ucast (hostLoad h p :: u32)) (u h))"
    "eff_addr s AND 7 = 0 \<Longrightarrow> LD E (u h) = Ok () (wUD (fRt t) 0 (hostLoad h p) (u h))"
    "LQ E (u h) = Ok () (wGPR (fRt t) (hostLoad h q) (u h))"
proof -
  note st = stored_state [OF assms(1,2), of h, folded u_def]
  have l: "translate (u h) (eff_addr (u h)) = Ptr p" "translate (u h) (eff_addr (u h) AND NOT 0xf) = Ptr q"
    "eff_addr (u h) AND 0xFFFFE000 \<noteq> 0x10000000"
    unfolding st using assms by simp_all
  note r = loads_ptr [OF assms(4) l(1,3), unfolded st] LQ_ptr [OF assms(4) l(2), unfolded st]
  show "LB E (u h) = Ok () (wUD (fRt t) 0 (scast (hostLoad h p :: u8)) (u h))"
    "LBU E (u h) = Ok () (wUD (fRt t) 0 (ucast (hostLoad h p :: u8)) (u h))"
    "eff_addr s AND 1 = 0 \<Longrightarrow> LH E (u h) = Ok () (wUD (fRt t) 0 (scast (hostLoad h p :: u16)) (u h))"
    "eff_addr s AND 1 = 0 \<Longrightarrow> LHU E (u h) = Ok () (wUD (fRt t) 0 (ucast (hostLoad h p :: u16)) (u h))"
    "eff_addr s AND 3 = 0 \<Longrightarrow> LW E (u h) = Ok () (wUD (fRt t) 0 (scast (hostLoad h p :: u32)) (u h))"
    "eff_addr s AND 3 = 0 \<Longrightarrow> LWU E (u h) = Ok () (wUD (fRt t) 0 (ucast (hostLoad h p :: u32)) (u h))"
    "eff_addr s AND 7 = 0 \<Longrightarrow> LD E (u h) = Ok () (wUD (fRt t) 0 (hostLoad h p) (u h))"
    "LQ E (u h) = Ok () (wGPR (fRt t) (hostLoad h q) (u h))"
    using assms(3) by (simp_all add: r)
qed

lemma store_load_parts:
  fixes s t :: "'d machine"
  assumes "t = s\<lparr>code := c\<rparr>" "eff_addr t = eff_addr s" "fRt t \<noteq> 0" "\<not> CHECK_CACHE (eeMem E)"
    "translate s (eff_addr s) = Ptr p" "translate s (eff_addr s AND NOT 0xf) = Ptr q" "eff_addr s AND 0xFFFFE000 \<noteq> 0x10000000"
  defines "v \<equiv> GPR s (fRt s)"
  shows "obind (SB E s) (\<lambda>_ s. LB E (s\<lparr>code := c\<rparr>)) =
      Ok () (wUD (fRt t) 0 (scast (UC 0 v)) (s\<lparr>host := hostStore p (UC 0 v) (host s)\<rparr>\<lparr>code := c\<rparr>))"
    and "obind (SB E s) (\<lambda>_ s. LBU E (s\<lparr>code := c\<rparr>)) =
      Ok () (wUD (fRt t) 0 (ucast (UC 0 v)) (s\<lparr>host := hostStore p (UC 0 v) (host s)\<rparr>\<lparr>code := c\<rparr>))"
    and "eff_addr s AND 1 = 0 \<Longrightarrow> obind (SH E s) (\<lambda>_ s. LH E (s\<lparr>code := c\<rparr>)) =
      Ok () (wUD (fRt t) 0 (scast (US 0 v)) (s\<lparr>host := hostStore p (US 0 v) (host s)\<rparr>\<lparr>code := c\<rparr>))"
    and "eff_addr s AND 1 = 0 \<Longrightarrow> obind (SH E s) (\<lambda>_ s. LHU E (s\<lparr>code := c\<rparr>)) =
      Ok () (wUD (fRt t) 0 (ucast (US 0 v)) (s\<lparr>host := hostStore p (US 0 v) (host s)\<rparr>\<lparr>code := c\<rparr>))"
    and "eff_addr s AND 3 = 0 \<Longrightarrow> obind (SW E s) (\<lambda>_ s. LW E (s\<lparr>code := c\<rparr>)) =
      Ok () (wUD (fRt t) 0 (scast (UL 0 v)) (s\<lparr>host := hostStore p (UL 0 v) (host s)\<rparr>\<lparr>code := c\<rparr>))"
    and "eff_addr s AND 3 = 0 \<Longrightarrow> obind (SW E s) (\<lambda>_ s. LWU E (s\<lparr>code := c\<rparr>)) =
      Ok () (wUD (fRt t) 0 (ucast (UL 0 v)) (s\<lparr>host := hostStore p (UL 0 v) (host s)\<rparr>\<lparr>code := c\<rparr>))"
    and "eff_addr s AND 7 = 0 \<Longrightarrow> obind (SD E s) (\<lambda>_ s. LD E (s\<lparr>code := c\<rparr>)) =
      Ok () (wUD (fRt t) 0 (UD 0 v) (s\<lparr>host := hostStore p (UD 0 v) (host s)\<rparr>\<lparr>code := c\<rparr>))"
    and "obind (SQ E s) (\<lambda>_ s. LQ E (s\<lparr>code := c\<rparr>)) =
      Ok () (wGPR (fRt t) v (s\<lparr>host := hostStore q v (host s)\<rparr>\<lparr>code := c\<rparr>))"
  unfolding v_def
  by (simp_all only: stores_ptr [OF assms(4,5)] SQ_ptr [OF assms(4,6)] obind.simps stored_loads [OF assms(1-7)])
    (simp_all add: hostLoad_hostStore)


text \<open>
  What a store writes, the load of the same width and address reads: SB, SH, SW, SD and SQ
  followed by the signed and unsigned loads leave the low part of the stored register, extended as
  the load says, in the destination, for every address backed by memory and aligned as required;
  the quadword pair aligns its address silently.
\<close>
lemma store_load_roundtrip:
  fixes s t :: "'d machine"
  assumes "t = s\<lparr>code := c\<rparr>" "eff_addr t = eff_addr s" "fRt t \<noteq> 0" "\<not> CHECK_CACHE (eeMem E)"
    "translate s (eff_addr s) = Ptr p" "translate s (eff_addr s AND NOT 0xf) = Ptr q" "eff_addr s AND 0xFFFFE000 \<noteq> 0x10000000"
  defines "v \<equiv> GPR s (fRt s)"
  shows "obind (SB E s) (\<lambda>_ s. LB E (s\<lparr>code := c\<rparr>)) =
      Ok () (wUD (fRt t) 0 (scast (UC 0 v)) (s\<lparr>host := hostStore p (UC 0 v) (host s)\<rparr>\<lparr>code := c\<rparr>)) \<and>
    obind (SB E s) (\<lambda>_ s. LBU E (s\<lparr>code := c\<rparr>)) =
      Ok () (wUD (fRt t) 0 (ucast (UC 0 v)) (s\<lparr>host := hostStore p (UC 0 v) (host s)\<rparr>\<lparr>code := c\<rparr>)) \<and>
    (eff_addr s AND 1 = 0 \<longrightarrow>
     obind (SH E s) (\<lambda>_ s. LH E (s\<lparr>code := c\<rparr>)) =
      Ok () (wUD (fRt t) 0 (scast (US 0 v)) (s\<lparr>host := hostStore p (US 0 v) (host s)\<rparr>\<lparr>code := c\<rparr>)) \<and>
     obind (SH E s) (\<lambda>_ s. LHU E (s\<lparr>code := c\<rparr>)) =
      Ok () (wUD (fRt t) 0 (ucast (US 0 v)) (s\<lparr>host := hostStore p (US 0 v) (host s)\<rparr>\<lparr>code := c\<rparr>))) \<and>
    (eff_addr s AND 3 = 0 \<longrightarrow>
     obind (SW E s) (\<lambda>_ s. LW E (s\<lparr>code := c\<rparr>)) =
      Ok () (wUD (fRt t) 0 (scast (UL 0 v)) (s\<lparr>host := hostStore p (UL 0 v) (host s)\<rparr>\<lparr>code := c\<rparr>)) \<and>
     obind (SW E s) (\<lambda>_ s. LWU E (s\<lparr>code := c\<rparr>)) =
      Ok () (wUD (fRt t) 0 (ucast (UL 0 v)) (s\<lparr>host := hostStore p (UL 0 v) (host s)\<rparr>\<lparr>code := c\<rparr>))) \<and>
    (eff_addr s AND 7 = 0 \<longrightarrow> obind (SD E s) (\<lambda>_ s. LD E (s\<lparr>code := c\<rparr>)) =
      Ok () (wUD (fRt t) 0 (UD 0 v) (s\<lparr>host := hostStore p (UD 0 v) (host s)\<rparr>\<lparr>code := c\<rparr>))) \<and>
    obind (SQ E s) (\<lambda>_ s. LQ E (s\<lparr>code := c\<rparr>)) =
      Ok () (wGPR (fRt t) v (s\<lparr>host := hostStore q v (host s)\<rparr>\<lparr>code := c\<rparr>))"
  unfolding v_def using store_load_parts [OF assms(1-7)] by blast


lemma read_miss:
  assumes "translate s a = Handler UnmappedVirtHandler q"
  shows "(vtlb_memRead E a s :: ('a::len word, 'd machine) outcome) = Cancelled (vtlb_Miss q False s)"
  using assms by (auto simp: translate_def resolve_def vtlb_memRead_def call_read_def Let_def split: if_splits)

lemma and_7_3: "(a :: u32) AND 7 = 0 \<Longrightarrow> a AND 3 = 0"
proof -
  have "a AND 3 = (a AND 7) AND 3" by (simp add: and.assoc)
  then show "a AND 7 = 0 \<Longrightarrow> a AND 3 = 0" by simp
qed

text \<open>
  A doubleword load into register 0 from an unmapped page does nothing, whereas the word load
  takes the TLB miss: LD returns before it accesses memory.
\<close>
lemma LD_into_r0_skips_memory:
  assumes "fRt s = 0" "eff_addr s AND 7 = 0" "translate s (eff_addr s) = Handler UnmappedVirtHandler a"
  shows "LD E s = Ok () s \<and> LW E s = Cancelled (vtlb_Miss a False s)"
  using assms and_7_3 [OF assms(2)]
  by (simp add: LD_def LW_def check_aligned_def Let_def read_miss)


section \<open>Unaligned pairs\<close>

lemma hostLoad_unaligned:
  fixes h :: "u64 \<Rightarrow> u8"
  assumes "LENGTH('a::len) = 8 * n" "0 < k" "k < n"
  shows "push_bit (LENGTH('a) - 8 * k) (hostLoad h (p + of_nat n)) OR drop_bit (8 * k) (hostLoad h p) = (hostLoad h (p + of_nat k) :: 'a word)"
proof (rule bit_word_eqI)
  have dv: "8 dvd LENGTH('a)" using assms(1) by simp
  fix i assume i: "i < LENGTH('a)"
  show "bit (push_bit (LENGTH('a) - 8 * k) (hostLoad h (p + of_nat n)) OR drop_bit (8 * k) (hostLoad h p) :: 'a word) i =
      bit (hostLoad h (p + of_nat k) :: 'a word) i"
  proof (cases "i < LENGTH('a) - 8 * k")
    case True
    have "(8 * k + i) div 8 = k + i div 8" "(8 * k + i) mod 8 = i mod 8" by simp_all
    moreover have "8 * k + i < LENGTH('a)" using True by simp
    ultimately show ?thesis using True i by (simp add: bit_simps bit_hostLoad [OF dv] add.assoc)
  next
    case False
    define j where "j = i - (LENGTH('a) - 8 * k)"
    have j: "i = 8 * (n - k) + j" "j < 8 * k" using False i assms by (auto simp: j_def algebra_simps)
    have "i div 8 = (n - k) + j div 8" "i mod 8 = j mod 8" unfolding j(1) by simp_all
    moreover have "p + of_nat n + of_nat (j div 8) = p + of_nat k + of_nat ((n - k) + j div 8)"
      using assms by (simp add: of_nat_diff)
    moreover have "j < LENGTH('a)" using j(2) assms by simp
    ultimately have "bit (hostLoad h (p + of_nat n) :: 'a word) j = bit (hostLoad h (p + of_nat k) :: 'a word) i"
      using i by (simp only: bit_hostLoad [OF dv] simp_thms)
    moreover have "bit (push_bit (LENGTH('a) - 8 * k) (hostLoad h (p + of_nat n)) :: 'a word) i = bit (hostLoad h (p + of_nat n) :: 'a word) j"
      using False i by (simp add: bit_simps j_def)
    moreover have "\<not> bit (drop_bit (8 * k) (hostLoad h p) :: 'a word) i"
      using False i by (auto simp: bit_simps dest!: bit_imp_le_length)
    ultimately show ?thesis by (simp add: bit_or_iff)
  qed
qed

lemma LW_tables:
  assumes "0 < k" "k < 4"
  shows "LWL_MASK ! (k - 1) = mask (32 - 8 * k)" "LWL_SHIFT ! (k - 1) = 32 - 8 * k"
    "LWR_MASK ! k = NOT (mask (32 - 8 * k))" "LWR_SHIFT ! k = 8 * k"
proof -
  have "k \<in> {1, 2, 3}" using assms by auto
  then show "LWL_MASK ! (k - 1) = mask (32 - 8 * k)" "LWL_SHIFT ! (k - 1) = 32 - 8 * k"
    "LWR_MASK ! k = NOT (mask (32 - 8 * k))" "LWR_SHIFT ! k = 8 * k"
    by (auto simp: LWL_MASK_def LWL_SHIFT_def LWR_MASK_def LWR_SHIFT_def mask_eq_decr_exp)
qed

lemma LD_tables:
  assumes "0 < k" "k < 8"
  shows "LDL_MASK ! (k - 1) = mask (64 - 8 * k)" "LDL_SHIFT ! (k - 1) = 64 - 8 * k"
    "LDR_MASK ! k = NOT (mask (64 - 8 * k))" "LDR_SHIFT ! k = 8 * k"
proof -
  have "k \<in> {1, 2, 3, 4, 5, 6, 7}" using assms by auto
  then show "LDL_MASK ! (k - 1) = mask (64 - 8 * k)" "LDL_SHIFT ! (k - 1) = 64 - 8 * k"
    "LDR_MASK ! k = NOT (mask (64 - 8 * k))" "LDR_SHIFT ! k = 8 * k"
    by (auto simp: LDL_MASK_def LDL_SHIFT_def LDR_MASK_def LDR_SHIFT_def mask_eq_decr_exp)
qed

lemma merge_pair:
  fixes r w v :: "'a::len word"
  shows "((r AND mask m) OR push_bit m w) AND NOT (mask m) OR v = push_bit m w OR v"
  by (rule bit_word_eqI) (auto simp: bit_simps)

lemma mask_split: "(x AND m) + (x AND NOT m) = (x :: 'a::len word)"
proof -
  have "(x AND m) + (x AND NOT m) = (x AND m) OR (x AND NOT m)" by (rule disjunctive_add) (auto simp: bit_simps)
  also have "\<dots> = x" by (rule bit_word_eqI) (auto simp: bit_simps)
  finally show ?thesis .
qed

lemma low_part:
  fixes b d :: u32
  assumes "take_bit m b = 0" "take_bit m d = d"
  shows "(b + d) AND mask m = d" "(b + d) AND NOT (mask m) = b"
proof -
  have b: "\<not> bit b n" if "n < m" for n using arg_cong [OF assms(1), of "\<lambda>w. bit w n"] that by (simp add: bit_simps)
  have d: "n < m" if "bit d n" for n using arg_cong [OF assms(2), of "\<lambda>w. bit w n"] that by (simp add: bit_simps)
  have "b + d = b OR d" by (rule disjunctive_add) (use b d in blast)
  then show "(b + d) AND mask m = d" "(b + d) AND NOT (mask m) = b"
    by (simp_all only:) (rule bit_word_eqI; use b d in \<open>auto simp: bit_simps\<close>)+
qed

text \<open>The two aligned words around an unaligned address: the left instruction addresses the last
  byte, the right one the first.\<close>

lemma pair_addresses:
  fixes a :: u32
  assumes "k = unat (a AND mask m)" "m \<le> 31"
  shows "k = 0 \<Longrightarrow> (a + mask m) AND NOT (mask m) = a AND NOT (mask m)"
    and "0 < k \<Longrightarrow> (a + mask m) AND NOT (mask m) = (a AND NOT (mask m)) + 2 ^ m"
    and "0 < k \<Longrightarrow> unat ((a + mask m) AND mask m) = k - 1"
    and "k = 0 \<Longrightarrow> (a + mask m) AND mask m = mask m"
proof -
  define b where "b = a AND NOT (mask m)"
  define d where "d = a AND mask m"
  have ab: "a = b + d" unfolding b_def d_def by (subst add.commute) (rule mask_split [symmetric])
  have b: "take_bit m b = 0" unfolding b_def by (rule bit_word_eqI) (auto simp: bit_simps)
  have d: "take_bit m d = d" unfolding d_def by (rule bit_word_eqI) (auto simp: bit_simps)
  have mm: "take_bit m (mask m :: u32) = mask m" by (rule bit_word_eqI) (auto simp: bit_simps)
  { assume "k = 0"
    then have "d = 0" using assms(1) by (simp add: d_def unat_eq_0)
    then have "a + mask m = b + mask m" by (simp add: ab)
    with low_part [OF b mm] show "(a + mask m) AND NOT (mask m) = a AND NOT (mask m)" "(a + mask m) AND mask m = mask m"
      unfolding b_def by simp_all }
  assume k: "0 < k"
  have pos: "d \<noteq> 0" using k assms(1) by (auto simp: d_def)
  have pm: "unat (2 ^ m :: u32) = 2 ^ m"
    using assms(2) power_strict_increasing [of m 32 "2 :: nat"] unat_of_nat [of "2 ^ m", where 'a = 32]
    by (simp add: take_bit_eq_mod)
  have "(2 :: nat) ^ m dvd 2 ^ 32" using assms(2) by (intro le_imp_power_dvd) simp
  moreover have "unat b mod 2 ^ m = 0" using arg_cong [OF b, of unat] by (simp add: unat_take_bit)
  ultimately have "unat (b + 2 ^ m) mod 2 ^ m = 0" by (simp add: unat_word_ariths pm mod_mod_cancel)
  then have b2: "take_bit m (b + 2 ^ m) = 0" by (simp add: unat_take_bit flip: unat_eq_0)
  have "unat d = unat d mod 2 ^ m" using arg_cong [OF d, of unat] by (simp add: unat_take_bit)
  also have "\<dots> < 2 ^ m" by simp
  finally have "unat d < 2 ^ m" .
  then have "unat (d - 1) < 2 ^ m" using pos by (simp add: unat_minus_one)
  then have "take_bit m (d - 1) = d - 1" by (intro word_unat_eq_iff [THEN iffD2]) (simp add: unat_take_bit)
  moreover have "a + mask m = (b + 2 ^ m) + (d - 1)" by (simp add: ab mask_eq_decr_exp)
  ultimately have "(a + mask m) AND NOT (mask m) = b + 2 ^ m" "(a + mask m) AND mask m = d - 1"
    using low_part [OF b2, of "d - 1"] by simp_all
  then show "(a + mask m) AND NOT (mask m) = (a AND NOT (mask m)) + 2 ^ m" "unat ((a + mask m) AND mask m) = k - 1"
    using pos assms(1) by (simp_all add: b_def unat_minus_one d_def)
qed

lemma load_pair_reg:
  assumes "bit (x :: u32) 31 = bit y 31"
  shows "setUL 0 y (setUD 0 (scast x) g) = setUD 0 (scast y) g"
proof (rule bit_word_eqI)
  fix k
  show "bit (setUL 0 y (setUD 0 (scast x) g)) k = bit (setUD 0 (scast y) g) k"
    using assms by (cases "k = 31") (auto simp: lane_defs bit_set_lane bit_simps min_def)
qed

text \<open>Each load with its address split: what the left and the right instruction leave.\<close>

lemma LWL_ptr:
  assumes "\<not> CHECK_CACHE (eeMem E)" "translate s (eff_addr s AND NOT 3) = Ptr p" "fRt s \<noteq> 0"
  defines "k \<equiv> unat (eff_addr s AND 3)"
  shows "LWL E s = Ok () (wUD (fRt s) 0
    (scast ((UL 0 (GPR s (fRt s)) AND LWL_MASK ! k) OR push_bit (LWL_SHIFT ! k) (hostLoad (host s) p))) s)"
  using assms by (simp add: LWL_def Let_def read_ptr)

lemma LWR_ptr:
  assumes "\<not> CHECK_CACHE (eeMem E)" "translate s (eff_addr s AND NOT 3) = Ptr p" "fRt s \<noteq> 0"
  defines "k \<equiv> unat (eff_addr s AND 3)"
  defines "m \<equiv> (UL 0 (GPR s (fRt s)) AND LWR_MASK ! k) OR drop_bit (LWR_SHIFT ! k) (hostLoad (host s) p)"
  shows "LWR E s = Ok () (if k = 0 then wUD (fRt s) 0 (scast m) s else wUL (fRt s) 0 m s)"
  using assms by (simp add: LWR_def Let_def read_ptr)

lemma LDL_ptr:
  assumes "\<not> CHECK_CACHE (eeMem E)" "translate s (eff_addr s AND NOT 7) = Ptr p" "fRt s \<noteq> 0"
  defines "k \<equiv> unat (eff_addr s AND 7)"
  shows "LDL E s = Ok () (wUD (fRt s) 0
    ((UD 0 (GPR s (fRt s)) AND LDL_MASK ! k) OR push_bit (LDL_SHIFT ! k) (hostLoad (host s) p)) s)"
  using assms by (simp add: LDL_def Let_def read_ptr)

lemma LDR_ptr:
  assumes "\<not> CHECK_CACHE (eeMem E)" "translate s (eff_addr s AND NOT 7) = Ptr p" "fRt s \<noteq> 0"
  defines "k \<equiv> unat (eff_addr s AND 7)"
  shows "LDR E s = Ok () (wUD (fRt s) 0
    ((UD 0 (GPR s (fRt s)) AND LDR_MASK ! k) OR drop_bit (LDR_SHIFT ! k) (hostLoad (host s) p)) s)"
  using assms by (simp add: LDR_def Let_def read_ptr)

text \<open>The left instruction at \<open>c1\<close> addresses the last byte of the unaligned datum, the right one at
  \<open>c2\<close> its first byte; both name the same register, which is not the base of the second.\<close>

definition unaligned_pair :: "u32 \<Rightarrow> 'd ee_env \<Rightarrow> u32 \<Rightarrow> u32 \<Rightarrow> 'd machine \<Rightarrow> bool" where
  "unaligned_pair m E c1 c2 s \<longleftrightarrow>
     \<not> CHECK_CACHE (eeMem E) \<and> fRt (s\<lparr>code := c1\<rparr>) = fRt (s\<lparr>code := c2\<rparr>) \<and> fRt (s\<lparr>code := c2\<rparr>) \<noteq> 0 \<and>
     fRs (s\<lparr>code := c2\<rparr>) \<noteq> fRt (s\<lparr>code := c2\<rparr>) \<and> eff_addr (s\<lparr>code := c1\<rparr>) = eff_addr (s\<lparr>code := c2\<rparr>) + m"

lemma pair_second:
  assumes "fRs (s\<lparr>code := c2\<rparr>) \<noteq> r"
  shows "(wUD r 0 v (s\<lparr>code := c1\<rparr>))\<lparr>code := c2\<rparr> = wUD r 0 v (s\<lparr>code := c2\<rparr>)"
    "eff_addr (wUD r 0 v (s\<lparr>code := c2\<rparr>)) = eff_addr (s\<lparr>code := c2\<rparr>)"
  using assms by (simp_all add: write_defs eff_addr_def field_defs)

lemma wUD_twice: "wUD r 0 v (wUD r 0 w s) = wUD r 0 v s"
  by (simp add: wUD_def wGPR_wGPR ud.put_put)

lemma word_masks: "(3 :: u32) = mask 2" "(4 :: u32) = 2 ^ 2" "(7 :: u32) = mask 3" "(8 :: u32) = 2 ^ 3"
  by (simp_all add: mask_eq_decr_exp)

lemma unaligned_load_word:
  fixes s :: "'d machine"
  assumes "unaligned_pair 3 E c1 c2 s" "a = eff_addr (s\<lparr>code := c2\<rparr>)"
    "translate s (a AND NOT 3) = Ptr p" "translate s ((a AND NOT 3) + 4) = Ptr (p + 4)"
  shows "obind (LWL E (s\<lparr>code := c1\<rparr>)) (\<lambda>_ s. LWR E (s\<lparr>code := c2\<rparr>)) =
    Ok () (wUD (fRt (s\<lparr>code := c2\<rparr>)) 0 (scast (hostLoad (host s) (p + ucast (a AND 3)) :: u32)) (s\<lparr>code := c2\<rparr>))"
proof -
  let ?t = "s\<lparr>code := c2\<rparr>" and ?k = "unat (a AND 3)" and ?h = "host s"
  define r where "r = fRt ?t"
  have E: "\<not> CHECK_CACHE (eeMem E)" and rt: "fRt (s\<lparr>code := c1\<rparr>) = r" "r \<noteq> 0" "fRs ?t \<noteq> r"
    and ea: "eff_addr (s\<lparr>code := c1\<rparr>) = a + 3"
    using assms(1,2) by (auto simp: unaligned_pair_def r_def)
  have k4: "?k < 4" using word_and_le1 [of a 3] by (simp add: word_le_nat_alt)
  have addr: "?k = 0 \<Longrightarrow> (a + 3) AND NOT 3 = a AND NOT 3" "0 < ?k \<Longrightarrow> (a + 3) AND NOT 3 = (a AND NOT 3) + 4"
    "0 < ?k \<Longrightarrow> unat ((a + 3) AND 3) = ?k - 1" "?k = 0 \<Longrightarrow> unat ((a + 3) AND 3) = 3"
    using pair_addresses [of ?k a 2] unfolding word_masks(1,2)[symmetric] by simp_all
  define x where "x = (UL 0 (GPR s r) AND LWL_MASK ! unat ((a + 3) AND 3)) OR
    push_bit (LWL_SHIFT ! unat ((a + 3) AND 3)) (hostLoad ?h (if ?k = 0 then p else p + 4) :: u32)"
  have l: "LWL E (s\<lparr>code := c1\<rparr>) = Ok () (wUD r 0 (scast x) (s\<lparr>code := c1\<rparr>))"
    using LWL_ptr [OF E, of "s\<lparr>code := c1\<rparr>" "if ?k = 0 then p else p + 4"] assms(3,4) addr(1,2) rt
    by (simp add: ea x_def)
  let ?u = "wUD r 0 (scast x) ?t"
  define y where "y = (x AND LWR_MASK ! ?k) OR drop_bit (LWR_SHIFT ! ?k) (hostLoad ?h p :: u32)"
  have "LWR E ?u = Ok () (if ?k = 0 then wUD r 0 (scast y) ?u else wUL r 0 y ?u)"
    using LWR_ptr [OF E, of ?u p] assms(2,3) rt
    by (simp add: pair_second(2) [OF rt(3)] r_def [symmetric] y_def lane_simps)
  also have "(if ?k = 0 then wUD r 0 (scast y) ?u else wUL r 0 y ?u) = wUD r 0 (scast (hostLoad ?h (p + ucast (a AND 3)) :: u32)) ?t"
  proof (cases "?k = 0")
    case True
    then have "y = hostLoad ?h p" by (simp add: y_def LWR_MASK_def LWR_SHIFT_def)
    then show ?thesis using True by (simp add: wUD_twice unat_eq_0)
  next
    case False
    then have t: "x = (UL 0 (GPR s r) AND mask (32 - 8 * ?k)) OR push_bit (32 - 8 * ?k) (hostLoad ?h (p + of_nat 4) :: u32)"
      "y = (x AND NOT (mask (32 - 8 * ?k))) OR drop_bit (8 * ?k) (hostLoad ?h p)"
      using addr(3) LW_tables [of ?k] k4 by (simp_all add: x_def y_def)
    then have "y = push_bit (LENGTH(32) - 8 * ?k) (hostLoad ?h (p + of_nat 4) :: u32) OR drop_bit (8 * ?k) (hostLoad ?h p)"
      by (simp only: merge_pair) simp
    then have y: "y = hostLoad ?h (p + of_nat ?k)" using hostLoad_unaligned [where 'a = 32 and n = 4 and k = ?k] False k4 by simp
    have "bit x 31 = bit y 31" using False unfolding t
      by (auto simp: bit_simps dest: bit_imp_le_length)
    then show ?thesis using False by (simp add: wUL_def load_pair_reg wUD_def wGPR_wGPR y)
  qed
  finally show ?thesis by (simp only: l obind.simps pair_second(1) [OF rt(3)] r_def [symmetric])
qed

lemma unaligned_load_doubleword:
  fixes s :: "'d machine"
  assumes "unaligned_pair 7 E c1 c2 s" "a = eff_addr (s\<lparr>code := c2\<rparr>)"
    "translate s (a AND NOT 7) = Ptr p" "translate s ((a AND NOT 7) + 8) = Ptr (p + 8)"
  shows "obind (LDL E (s\<lparr>code := c1\<rparr>)) (\<lambda>_ s. LDR E (s\<lparr>code := c2\<rparr>)) =
    Ok () (wUD (fRt (s\<lparr>code := c2\<rparr>)) 0 (hostLoad (host s) (p + ucast (a AND 7))) (s\<lparr>code := c2\<rparr>))"
proof -
  let ?t = "s\<lparr>code := c2\<rparr>" and ?k = "unat (a AND 7)" and ?h = "host s"
  define r where "r = fRt ?t"
  have E: "\<not> CHECK_CACHE (eeMem E)" and rt: "fRt (s\<lparr>code := c1\<rparr>) = r" "r \<noteq> 0" "fRs ?t \<noteq> r"
    and ea: "eff_addr (s\<lparr>code := c1\<rparr>) = a + 7"
    using assms(1,2) by (auto simp: unaligned_pair_def r_def)
  have k8: "?k < 8" using word_and_le1 [of a 7] by (simp add: word_le_nat_alt)
  have addr: "?k = 0 \<Longrightarrow> (a + 7) AND NOT 7 = a AND NOT 7" "0 < ?k \<Longrightarrow> (a + 7) AND NOT 7 = (a AND NOT 7) + 8"
    "0 < ?k \<Longrightarrow> unat ((a + 7) AND 7) = ?k - 1"
    using pair_addresses [of ?k a 3] unfolding word_masks(3,4)[symmetric] by simp_all
  define x where "x = (UD 0 (GPR s r) AND LDL_MASK ! unat ((a + 7) AND 7)) OR
    push_bit (LDL_SHIFT ! unat ((a + 7) AND 7)) (hostLoad ?h (if ?k = 0 then p else p + 8) :: u64)"
  have l: "LDL E (s\<lparr>code := c1\<rparr>) = Ok () (wUD r 0 x (s\<lparr>code := c1\<rparr>))"
    using LDL_ptr [OF E, of "s\<lparr>code := c1\<rparr>" "if ?k = 0 then p else p + 8"] assms(3,4) addr(1,2) rt
    by (simp add: ea x_def)
  let ?u = "wUD r 0 x ?t"
  have "LDR E ?u = Ok () (wUD r 0 ((x AND LDR_MASK ! ?k) OR drop_bit (LDR_SHIFT ! ?k) (hostLoad ?h p)) ?u)"
    using LDR_ptr [OF E, of ?u p] assms(2,3) rt
    by (simp add: pair_second(2) [OF rt(3)] r_def [symmetric] lane_simps)
  also have "(x AND LDR_MASK ! ?k) OR drop_bit (LDR_SHIFT ! ?k) (hostLoad ?h p) = hostLoad ?h (p + ucast (a AND 7))"
  proof (cases "?k = 0")
    case True
    then show ?thesis by (simp add: LDR_MASK_def LDR_SHIFT_def unat_eq_0)
  next
    case False
    then have "(x AND LDR_MASK ! ?k) OR drop_bit (LDR_SHIFT ! ?k) (hostLoad ?h p) =
        push_bit (LENGTH(64) - 8 * ?k) (hostLoad ?h (p + of_nat 8) :: u64) OR drop_bit (8 * ?k) (hostLoad ?h p)"
      using addr(3) LD_tables [of ?k] k8 by (simp add: x_def merge_pair)
    then show ?thesis using hostLoad_unaligned [where 'a = 64 and n = 8 and k = ?k] False k8 by simp
  qed
  finally show ?thesis by (simp only: l obind.simps pair_second(1) [OF rt(3)] wUD_twice r_def [symmetric])
qed

lemma unat_diff_add:
  fixes b p :: u64
  assumes "unat (b - p) = d" "k < 16"
  shows "unat (b - (p + of_nat k)) = (if k \<le> d then d - k else 2 ^ 64 + d - k)"
proof -
  have u: "unat (of_nat k :: u64) = k" using assms(2) by (simp add: unat_of_nat take_bit_nat_eq_self)
  have e: "b - (p + of_nat k) = (b - p) - of_nat k" by simp
  have d: "d < 2 ^ 64" using unsigned_less [of "b - p", where 'a = nat] assms(1) by simp
  show ?thesis
  proof (cases "k \<le> d")
    case True
    then show ?thesis unfolding e using assms u by (subst unat_sub) (simp_all add: word_le_nat_alt)
  next
    case False
    then show ?thesis unfolding e using assms u d by (simp add: unat_word_ariths(2) unat_sub_if' word_le_nat_alt)
  qed
qed

lemma byte_hostLoad:
  assumes "8 dvd LENGTH('a::len)" "d < LENGTH('a) div 8" "j < 8"
  shows "bit (hostLoad h p :: 'a word) (8 * d + j) = bit (h (p + of_nat d)) j"
  using assms by (auto simp: bit_hostLoad)

lemma hostStore_pair:
  fixes v :: "'a::len word" and p :: u64 and h :: "u64 \<Rightarrow> u8"
  assumes n: "LENGTH('a) = 8 * n" "n \<le> 8" and k: "0 < k" "k < n"
  defines "h1 \<equiv> hostStore (p + of_nat n) (drop_bit (8 * n - 8 * k) v OR (hostLoad h (p + of_nat n) AND NOT (mask (8 * k)))) h"
  shows "hostStore p (push_bit (8 * k) v OR (hostLoad h1 p AND mask (8 * k))) h1 = hostStore (p + of_nat k) v h"
proof
  fix b
  have dv: "8 dvd LENGTH('a)" "LENGTH('a) \<le> 128" "LENGTH('a) div 8 = n" using n by simp_all
  note at = hostStore_at [OF dv(1,2)]
  define d where "d = unat (b - p)"
  have un: "unat (b - (p + of_nat n)) = (if n \<le> d then d - n else 2 ^ 64 + d - n)"
    "unat (b - (p + of_nat k)) = (if k \<le> d then d - k else 2 ^ 64 + d - k)"
    using unat_diff_add [of b p d] n k by (simp_all add: d_def)
  have b: "b = p + of_nat d" by (simp add: d_def)
  have low: "hostLoad h1 p = (hostLoad h p :: 'a word)"
  proof (rule bit_word_eqI)
    fix i assume i: "i < LENGTH('a)"
    have "unat ((p + of_nat (i div 8)) - p) = i div 8" using i n by (simp add: unat_of_nat take_bit_nat_eq_self)
    then have "unat ((p + of_nat (i div 8)) - (p + of_nat n)) \<ge> n"
      using unat_diff_add [of "p + of_nat (i div 8)" p "i div 8" n] n i by auto
    then have "h1 (p + of_nat (i div 8)) = h (p + of_nat (i div 8))" by (simp add: h1_def at dv)
    then show "bit (hostLoad h1 p :: 'a word) i = bit (hostLoad h p :: 'a word) i" by (simp add: bit_hostLoad [OF dv(1)])
  qed
  have reg: "k \<le> e \<Longrightarrow> 8 * (e - k) + j = 8 * e + j - 8 * k" for e j by (simp add: diff_mult_distrib2)
  show "hostStore p (push_bit (8 * k) v OR (hostLoad h1 p AND mask (8 * k))) h1 b = hostStore (p + of_nat k) v h b"
  proof (rule bit_word_eqI)
    fix j assume j: "j < LENGTH(8)"
    consider "d < k" | "k \<le> d" "d < n" | "n \<le> d" "d < n + k" | "n + k \<le> d" by linarith
    then show "bit (hostStore p (push_bit (8 * k) v OR (hostLoad h1 p AND mask (8 * k))) h1 b) j =
        bit (hostStore (p + of_nat k) v h b) j"
    proof cases
      case 1
      moreover have "bit (hostLoad h p :: 'a word) (8 * d + j) = bit (h b) j"
        using byte_hostLoad [OF dv(1), of d j h p] 1 j k dv(3) b by simp
      ultimately show ?thesis using j n k by (auto simp: at dv d_def [symmetric] un low bit_simps)
    next
      case 2
      then show ?thesis using j n k by (auto simp: at dv d_def [symmetric] un low bit_simps reg)
    next
      case 3
      then have "8 * (d - k) + j = 8 * n - 8 * k + (8 * (d - n) + j)" using k by (simp add: diff_mult_distrib2)
      then show ?thesis using 3 j n k by (auto simp: at dv d_def [symmetric] un h1_def bit_simps ac_simps)
    next
      case 4
      then have "h1 b = h b"
      proof (cases "d - n < n")
        case True
        have "p + of_nat n + of_nat (d - n) = b" using 4 b by (simp add: of_nat_diff)
        then have byte: "i < 8 \<Longrightarrow> bit (hostLoad h (p + of_nat n) :: 'a word) (8 * (d - n) + i) = bit (h b) i" for i
          using byte_hostLoad [OF dv(1), of "d - n" i h "p + of_nat n"] True dv(3) by simp
        have "\<not> bit v (8 * n - 8 * k + (8 * (d - n) + i))" for i
          using 4 n k bit_imp_le_length [of v "8 * n - 8 * k + (8 * (d - n) + i)"] by auto
        then show ?thesis using True 4 n k
          by (intro bit_word_eqI) (auto simp: h1_def at dv un bit_simps byte)
      qed (use 4 n k in \<open>simp add: h1_def at dv un\<close>)
      moreover have "\<not> d - k < n" using 4 by simp
      ultimately show ?thesis using 4 j n k by (simp add: at dv d_def [symmetric] un)
    qed
  qed
qed

lemma SW_tables:
  assumes "0 < k" "k < 4"
  shows "SWL_MASK ! (k - 1) = NOT (mask (8 * k))" "SWL_SHIFT ! (k - 1) = 8 * 4 - 8 * k"
    "SWR_MASK ! k = mask (8 * k)" "SWR_SHIFT ! k = 8 * k"
proof -
  have "k \<in> {1, 2, 3}" using assms by auto
  then show "SWL_MASK ! (k - 1) = NOT (mask (8 * k))" "SWL_SHIFT ! (k - 1) = 8 * 4 - 8 * k"
    "SWR_MASK ! k = mask (8 * k)" "SWR_SHIFT ! k = 8 * k"
    by (auto simp: SWL_MASK_def SWL_SHIFT_def SWR_MASK_def SWR_SHIFT_def mask_eq_decr_exp)
qed

lemma SD_tables:
  assumes "0 < k" "k < 8"
  shows "SDL_MASK ! (k - 1) = NOT (mask (8 * k))" "SDL_SHIFT ! (k - 1) = 8 * 8 - 8 * k"
    "SDR_MASK ! k = mask (8 * k)" "SDR_SHIFT ! k = 8 * k"
proof -
  have "k \<in> {1, 2, 3, 4, 5, 6, 7}" using assms by auto
  then show "SDL_MASK ! (k - 1) = NOT (mask (8 * k))" "SDL_SHIFT ! (k - 1) = 8 * 8 - 8 * k"
    "SDR_MASK ! k = mask (8 * k)" "SDR_SHIFT ! k = 8 * k"
    by (auto simp: SDL_MASK_def SDL_SHIFT_def SDR_MASK_def SDR_SHIFT_def mask_eq_decr_exp)
qed

lemma unaligned_stores_ptr:
  assumes "\<not> CHECK_CACHE (eeMem E)"
  shows "translate s (eff_addr s AND NOT 3) = Ptr p \<Longrightarrow> SWL E s = Ok () (s\<lparr>host := hostStore p
      (drop_bit (SWL_SHIFT ! unat (eff_addr s AND 3)) (UL 0 (GPR s (fRt s))) OR (hostLoad (host s) p AND SWL_MASK ! unat (eff_addr s AND 3))) (host s)\<rparr>)"
    and "translate s (eff_addr s AND NOT 3) = Ptr p \<Longrightarrow> SWR E s = Ok () (s\<lparr>host := hostStore p
      (push_bit (SWR_SHIFT ! unat (eff_addr s AND 3)) (UL 0 (GPR s (fRt s))) OR (hostLoad (host s) p AND SWR_MASK ! unat (eff_addr s AND 3))) (host s)\<rparr>)"
    and "translate s (eff_addr s AND NOT 7) = Ptr p \<Longrightarrow> SDL E s = Ok () (s\<lparr>host := hostStore p
      (drop_bit (SDL_SHIFT ! unat (eff_addr s AND 7)) (UD 0 (GPR s (fRt s))) OR (hostLoad (host s) p AND SDL_MASK ! unat (eff_addr s AND 7))) (host s)\<rparr>)"
    and "translate s (eff_addr s AND NOT 7) = Ptr p \<Longrightarrow> SDR E s = Ok () (s\<lparr>host := hostStore p
      (push_bit (SDR_SHIFT ! unat (eff_addr s AND 7)) (UD 0 (GPR s (fRt s))) OR (hostLoad (host s) p AND SDR_MASK ! unat (eff_addr s AND 7))) (host s)\<rparr>)"
  using assms by (simp_all add: SWL_def SWR_def SDL_def SDR_def Let_def read_ptr write_ptr)

lemma hostStore_twice: "8 dvd LENGTH('a::len) \<Longrightarrow> LENGTH('a) \<le> 128 \<Longrightarrow> hostStore a (v :: 'a word) (hostStore a (w :: 'a word) h) = hostStore a v h"
  by (rule ext) (simp add: hostStore_at)

lemma unaligned_store_word:
  fixes s :: "'d machine"
  assumes "unaligned_pair 3 E c1 c2 s" "a = eff_addr (s\<lparr>code := c2\<rparr>)"
    "translate s (a AND NOT 3) = Ptr p" "translate s ((a AND NOT 3) + 4) = Ptr (p + 4)"
  shows "obind (SWL E (s\<lparr>code := c1\<rparr>)) (\<lambda>_ s. SWR E (s\<lparr>code := c2\<rparr>)) =
    Ok () (s\<lparr>code := c2, host := hostStore (p + ucast (a AND 3)) (UL 0 (GPR s (fRt (s\<lparr>code := c2\<rparr>)))) (host s)\<rparr>)"
proof -
  let ?k = "unat (a AND 3)" and ?h = "host s" and ?v = "UL 0 (GPR s (fRt (s\<lparr>code := c2\<rparr>)))"
  have E: "\<not> CHECK_CACHE (eeMem E)" and rt: "fRt (s\<lparr>code := c1\<rparr>) = fRt (s\<lparr>code := c2\<rparr>)"
    and ea: "eff_addr (s\<lparr>code := c1\<rparr>) = a + 3"
    using assms(1,2) by (auto simp: unaligned_pair_def)
  have k4: "?k < 4" using word_and_le1 [of a 3] by (simp add: word_le_nat_alt)
  have addr: "?k = 0 \<Longrightarrow> (a + 3) AND NOT 3 = a AND NOT 3" "0 < ?k \<Longrightarrow> (a + 3) AND NOT 3 = (a AND NOT 3) + 4"
    "0 < ?k \<Longrightarrow> unat ((a + 3) AND 3) = ?k - 1" "?k = 0 \<Longrightarrow> (a + 3) AND 3 = 3"
    using pair_addresses [of ?k a 2] unfolding word_masks(1,2)[symmetric] by simp_all
  define h1 where "h1 = hostStore (if ?k = 0 then p else p + 4) (drop_bit (SWL_SHIFT ! unat ((a + 3) AND 3)) ?v OR
    (hostLoad ?h (if ?k = 0 then p else p + 4) AND SWL_MASK ! unat ((a + 3) AND 3))) ?h"
  have l: "SWL E (s\<lparr>code := c1\<rparr>) = Ok () (s\<lparr>code := c1\<rparr>\<lparr>host := h1\<rparr>)"
    using unaligned_stores_ptr(1) [OF E, of "s\<lparr>code := c1\<rparr>" "if ?k = 0 then p else p + 4"] assms(3,4) addr(1,2)
    by (simp add: ea rt h1_def)
  have t: "s\<lparr>code := c1\<rparr>\<lparr>host := h1\<rparr>\<lparr>code := c2\<rparr> = s\<lparr>code := c2\<rparr>\<lparr>host := h1\<rparr>" by simp
  have "SWR E (s\<lparr>code := c2\<rparr>\<lparr>host := h1\<rparr>) = Ok () (s\<lparr>code := c2\<rparr>\<lparr>host := h1\<rparr>\<lparr>host := hostStore p
      (push_bit (SWR_SHIFT ! ?k) ?v OR (hostLoad h1 p AND SWR_MASK ! ?k)) h1\<rparr>)"
    using unaligned_stores_ptr(2) [OF E, of "s\<lparr>code := c2\<rparr>\<lparr>host := h1\<rparr>" p] assms(2,3)
    by (simp add: field_code_cong del: unsigned_and_eq)
  moreover have "hostStore p (push_bit (SWR_SHIFT ! ?k) ?v OR (hostLoad h1 p AND SWR_MASK ! ?k)) h1 = hostStore (p + ucast (a AND 3)) ?v ?h"
  proof (cases "?k = 0")
    case True
    then have "a AND 3 = 0" by (simp add: unat_eq_0)
    then show ?thesis using addr(4) True by (simp add: h1_def SWL_MASK_def SWL_SHIFT_def SWR_MASK_def SWR_SHIFT_def hostStore_twice)
  next
    case False
    then have "h1 = hostStore (p + of_nat 4) (drop_bit (8 * 4 - 8 * ?k) ?v OR (hostLoad ?h (p + of_nat 4) AND NOT (mask (8 * ?k)))) ?h"
      using addr(3) SW_tables [of ?k] k4 by (simp add: h1_def)
    then show ?thesis using hostStore_pair [of 4 ?k p ?v ?h] SW_tables [of ?k] False k4 by simp
  qed
  ultimately show ?thesis unfolding l obind.simps t by simp
qed

lemma unaligned_store_doubleword:
  fixes s :: "'d machine"
  assumes "unaligned_pair 7 E c1 c2 s" "a = eff_addr (s\<lparr>code := c2\<rparr>)"
    "translate s (a AND NOT 7) = Ptr p" "translate s ((a AND NOT 7) + 8) = Ptr (p + 8)"
  shows "obind (SDL E (s\<lparr>code := c1\<rparr>)) (\<lambda>_ s. SDR E (s\<lparr>code := c2\<rparr>)) =
    Ok () (s\<lparr>code := c2, host := hostStore (p + ucast (a AND 7)) (UD 0 (GPR s (fRt (s\<lparr>code := c2\<rparr>)))) (host s)\<rparr>)"
proof -
  let ?k = "unat (a AND 7)" and ?h = "host s" and ?v = "UD 0 (GPR s (fRt (s\<lparr>code := c2\<rparr>)))"
  have E: "\<not> CHECK_CACHE (eeMem E)" and rt: "fRt (s\<lparr>code := c1\<rparr>) = fRt (s\<lparr>code := c2\<rparr>)"
    and ea: "eff_addr (s\<lparr>code := c1\<rparr>) = a + 7"
    using assms(1,2) by (auto simp: unaligned_pair_def)
  have k4: "?k < 8" using word_and_le1 [of a 7] by (simp add: word_le_nat_alt)
  have addr: "?k = 0 \<Longrightarrow> (a + 7) AND NOT 7 = a AND NOT 7" "0 < ?k \<Longrightarrow> (a + 7) AND NOT 7 = (a AND NOT 7) + 8"
    "0 < ?k \<Longrightarrow> unat ((a + 7) AND 7) = ?k - 1" "?k = 0 \<Longrightarrow> (a + 7) AND 7 = 7"
    using pair_addresses [of ?k a 3] unfolding word_masks(3,4)[symmetric] by simp_all
  define h1 where "h1 = hostStore (if ?k = 0 then p else p + 8) (drop_bit (SDL_SHIFT ! unat ((a + 7) AND 7)) ?v OR
    (hostLoad ?h (if ?k = 0 then p else p + 8) AND SDL_MASK ! unat ((a + 7) AND 7))) ?h"
  have l: "SDL E (s\<lparr>code := c1\<rparr>) = Ok () (s\<lparr>code := c1\<rparr>\<lparr>host := h1\<rparr>)"
    using unaligned_stores_ptr(3) [OF E, of "s\<lparr>code := c1\<rparr>" "if ?k = 0 then p else p + 8"] assms(3,4) addr(1,2)
    by (simp add: ea rt h1_def)
  have t: "s\<lparr>code := c1\<rparr>\<lparr>host := h1\<rparr>\<lparr>code := c2\<rparr> = s\<lparr>code := c2\<rparr>\<lparr>host := h1\<rparr>" by simp
  have "SDR E (s\<lparr>code := c2\<rparr>\<lparr>host := h1\<rparr>) = Ok () (s\<lparr>code := c2\<rparr>\<lparr>host := h1\<rparr>\<lparr>host := hostStore p
      (push_bit (SDR_SHIFT ! ?k) ?v OR (hostLoad h1 p AND SDR_MASK ! ?k)) h1\<rparr>)"
    using unaligned_stores_ptr(4) [OF E, of "s\<lparr>code := c2\<rparr>\<lparr>host := h1\<rparr>" p] assms(2,3)
    by (simp add: field_code_cong del: unsigned_and_eq)
  moreover have "hostStore p (push_bit (SDR_SHIFT ! ?k) ?v OR (hostLoad h1 p AND SDR_MASK ! ?k)) h1 = hostStore (p + ucast (a AND 7)) ?v ?h"
  proof (cases "?k = 0")
    case True
    then have "a AND 7 = 0" by (simp add: unat_eq_0)
    then show ?thesis using addr(4) True by (simp add: h1_def SDL_MASK_def SDL_SHIFT_def SDR_MASK_def SDR_SHIFT_def hostStore_twice)
  next
    case False
    then have "h1 = hostStore (p + of_nat 8) (drop_bit (8 * 8 - 8 * ?k) ?v OR (hostLoad ?h (p + of_nat 8) AND NOT (mask (8 * ?k)))) ?h"
      using addr(3) SD_tables [of ?k] k4 by (simp add: h1_def)
    then show ?thesis using hostStore_pair [of 8 ?k p ?v ?h] SD_tables [of ?k] False k4 by simp
  qed
  ultimately show ?thesis unfolding l obind.simps t by simp
qed

text \<open>
  The unaligned load pairs assemble the datum at any byte address: LWL at the last byte and LWR
  at the first leave the sign extension of the unaligned little-endian word in the register, LDL and
  LDR the unaligned doubleword, and nothing else changes.
\<close>
lemma unaligned_loads:
  fixes s :: "'d machine"
  assumes "a = eff_addr (s\<lparr>code := c2\<rparr>)"
  shows "(unaligned_pair 3 E c1 c2 s \<longrightarrow> translate s (a AND NOT 3) = Ptr p \<longrightarrow> translate s ((a AND NOT 3) + 4) = Ptr (p + 4) \<longrightarrow>
     obind (LWL E (s\<lparr>code := c1\<rparr>)) (\<lambda>_ s. LWR E (s\<lparr>code := c2\<rparr>)) =
       Ok () (wUD (fRt (s\<lparr>code := c2\<rparr>)) 0 (scast (hostLoad (host s) (p + ucast (a AND 3)) :: u32)) (s\<lparr>code := c2\<rparr>))) \<and>
    (unaligned_pair 7 E c1 c2 s \<longrightarrow> translate s (a AND NOT 7) = Ptr p \<longrightarrow> translate s ((a AND NOT 7) + 8) = Ptr (p + 8) \<longrightarrow>
     obind (LDL E (s\<lparr>code := c1\<rparr>)) (\<lambda>_ s. LDR E (s\<lparr>code := c2\<rparr>)) =
       Ok () (wUD (fRt (s\<lparr>code := c2\<rparr>)) 0 (hostLoad (host s) (p + ucast (a AND 7))) (s\<lparr>code := c2\<rparr>)))"
  using unaligned_load_word [OF _ assms] unaligned_load_doubleword [OF _ assms] by blast


text \<open>
  The unaligned store pairs write exactly the bytes of the register's low word or doubleword at
  any byte address: after SWL at the last byte and SWR at the first (SDL and SDR for doublewords)
  host memory is what one unaligned store leaves, every other byte unchanged.
\<close>
lemma unaligned_stores:
  fixes s :: "'d machine"
  assumes "a = eff_addr (s\<lparr>code := c2\<rparr>)"
  shows "(unaligned_pair 3 E c1 c2 s \<longrightarrow> translate s (a AND NOT 3) = Ptr p \<longrightarrow> translate s ((a AND NOT 3) + 4) = Ptr (p + 4) \<longrightarrow>
     obind (SWL E (s\<lparr>code := c1\<rparr>)) (\<lambda>_ s. SWR E (s\<lparr>code := c2\<rparr>)) =
       Ok () (s\<lparr>code := c2, host := hostStore (p + ucast (a AND 3)) (UL 0 (GPR s (fRt (s\<lparr>code := c2\<rparr>)))) (host s)\<rparr>)) \<and>
    (unaligned_pair 7 E c1 c2 s \<longrightarrow> translate s (a AND NOT 7) = Ptr p \<longrightarrow> translate s ((a AND NOT 7) + 8) = Ptr (p + 8) \<longrightarrow>
     obind (SDL E (s\<lparr>code := c1\<rparr>)) (\<lambda>_ s. SDR E (s\<lparr>code := c2\<rparr>)) =
       Ok () (s\<lparr>code := c2, host := hostStore (p + ucast (a AND 7)) (UD 0 (GPR s (fRt (s\<lparr>code := c2\<rparr>)))) (host s)\<rparr>))"
  using unaligned_store_word [OF _ assms] unaligned_store_doubleword [OF _ assms] by blast


section \<open>Cycle accounting\<close>

lemma unat_and_7: "unat ((w :: u32) AND 7) = unat w mod 8"
proof -
  have "w AND 7 = take_bit 3 w" by (simp add: take_bit_eq_mask mask_eq_decr_exp)
  then show ?thesis by (simp add: unat_take_bit)
qed

text \<open>
  Every update of the cycle counter advances it by at least one cycle, whatever the configured
  rate. At the default rate no time is lost or invented: the fixed-point count that goes in equals
  eight times the cycles added plus the fraction kept, once a whole cycle has accrued.
\<close>
lemma cycles_advance:
  "1 \<le> unat (cycle (intUpdateCPUCycles E s) - cycle s) \<and>
   (EECycleRate E = 0 \<longrightarrow> 8 \<le> cpuBlockCycles s \<longrightarrow>
     8 * unat (cycle (intUpdateCPUCycles E s) - cycle s) + unat (cpuBlockCycles (intUpdateCPUCycles E s)) = unat (cpuBlockCycles s)) \<and>
   (EECycleRate E \<le> 1 \<longrightarrow> cpuBlockCycles (intUpdateCPUCycles E s) < 8)"
proof -
  let ?b = "cpuBlockCycles s" and ?n = "if scale_cycles E (cpuBlockCycles s) < 1 then 1 else scale_cycles E (cpuBlockCycles s)"
  have d: "cycle (intUpdateCPUCycles E s) - cycle s = ucast ?n" by (simp add: intUpdateCPUCycles_def Let_def)
  have n: "unat (ucast ?n :: u64) = unat ?n" by (rule unat_ucast_up) simp
  have "1 \<le> unat ?n" by (simp add: word_less_nat_alt)
  moreover have r: "cpuBlockCycles (intUpdateCPUCycles E s) = ?b AND 7" if "EECycleRate E \<le> 1"
    using that by (simp add: intUpdateCPUCycles_def Let_def)
  moreover have "8 * unat ?n + unat (?b AND 7) = unat ?b" if "EECycleRate E = 0" "8 \<le> ?b"
  proof -
    have u: "unat (scale_cycles E ?b) = unat ?b div 8" using that(1) by (simp add: scale_cycles_def Let_def unat_drop_bit)
    have "8 \<le> unat ?b" using that(2) by (simp add: word_le_nat_alt)
    then have "unat ?n = unat ?b div 8" using u by (auto simp: word_less_nat_alt)
    then show ?thesis by (simp add: unat_and_7)
  qed
  moreover have "?b AND 7 < 8" by (simp add: word_less_nat_alt unat_and_7)
  ultimately show ?thesis using d n by simp
qed


end
