(* ===== verification/EE_FPU.thy ===== *)
theory EE_FPU
  imports EE_LoadStore
begin

text \<open>
  The floating-point unit of the Emotion Engine (\<^verbatim>\<open>pcsx2/FPU.cpp\<close>), interpreted with the
  host's single-precision arithmetic of \<open>Host_Float\<close>. The unit has no infinities, NaNs or
  denormals: operands pass through \<open>fpuDouble\<close>, which clamps them, and results through
  \<open>checkOverflow\<close> and \<open>checkUnderflow\<close>, which also keep the flags of the control register.
  Where the code writes a register through a reference and then clamps it in place, the model
  computes the clamped value and writes it once. The conditional branches are with the other
  branches, in \<open>EE_Interp\<close>.

  The lemmas show that the instructions deliver the exact result truncated to the nearest number
  towards zero under the default control register, that registers written by arithmetic and the
  accumulator stay normal or zero, that the pattern comparisons of \<open>MAX_S\<close> and \<open>MIN_S\<close> order the
  numbers, and that the overflow and underflow flags are never raised under the default
  configuration.
\<close>

section \<open>Operands and flags\<close>

definition fFt :: "'a cpuRegisters_scheme \<Rightarrow> 5 word" where
  "fFt s = ucast (drop_bit 16 (code s) AND 0x1F)"

definition fFs :: "'a cpuRegisters_scheme \<Rightarrow> 5 word" where
  "fFs s = ucast (drop_bit 11 (code s) AND 0x1F)"

definition fFd :: "'a cpuRegisters_scheme \<Rightarrow> 5 word" where
  "fFd s = ucast (drop_bit 6 (code s) AND 0x1F)"

definition FtVal :: "'d machine \<Rightarrow> u32" where "FtVal s = fpr s (fFt s)"
definition FsVal :: "'d machine \<Rightarrow> u32" where "FsVal s = fpr s (fFs s)"

definition wFd :: "u32 \<Rightarrow> 'd machine \<Rightarrow> 'd machine" where
  "wFd v s = s\<lparr>fpr := (fpr s)(fFd s := v)\<rparr>"

definition ContVal :: "'d machine \<Rightarrow> u32" where
  "ContVal s = fprc s 31"

definition wCont :: "u32 \<Rightarrow> 'd machine \<Rightarrow> 'd machine" where
  "wCont v s = s\<lparr>fprc := (fprc s)(31 := v)\<rparr>"

definition FPUflagC :: u32 where "FPUflagC = 0x00800000"
definition FPUflagI :: u32 where "FPUflagI = 0x00020000"
definition FPUflagD :: u32 where "FPUflagD = 0x00010000"
definition FPUflagO :: u32 where "FPUflagO = 0x00008000"
definition FPUflagU :: u32 where "FPUflagU = 0x00004000"
definition FPUflagSI :: u32 where "FPUflagSI = 0x00000040"
definition FPUflagSD :: u32 where "FPUflagSD = 0x00000020"
definition FPUflagSO :: u32 where "FPUflagSO = 0x00000010"
definition FPUflagSU :: u32 where "FPUflagSU = 0x00000008"
definition posFmax :: u32 where "posFmax = 0x7F7FFFFF"
definition PosInfinity :: u32 where "PosInfinity = 0x7f800000"

definition clearFPUFlags :: "u32 \<Rightarrow> 'd machine \<Rightarrow> 'd machine" where
  "clearFPUFlags flags s = wCont (ContVal s AND NOT flags) s"

definition setFPUFlags :: "u32 \<Rightarrow> 'd machine \<Rightarrow> 'd machine" where
  "setFPUFlags flags s = wCont (ContVal s OR flags) s"

section \<open>Clamping\<close>

text \<open>The checks return whether they applied, the register they were given, and the machine with
  its control register.\<close>

definition checkOverflow :: "u32 \<Rightarrow> u32 \<Rightarrow> 'd machine \<Rightarrow> bool \<times> u32 \<times> 'd machine" where
  "checkOverflow xReg cFlagsToSet s =
     (if xReg AND NOT 0x80000000 = PosInfinity
      then (True, (xReg AND 0x80000000) OR posFmax, setFPUFlags cFlagsToSet s)
      else (False, xReg, if cFlagsToSet AND FPUflagO \<noteq> 0 then clearFPUFlags FPUflagO s else s))"

definition checkUnderflow :: "u32 \<Rightarrow> u32 \<Rightarrow> 'd machine \<Rightarrow> bool \<times> u32 \<times> 'd machine" where
  "checkUnderflow xReg cFlagsToSet s =
     (if xReg AND 0x7F800000 = 0 \<and> xReg AND 0x007FFFFF \<noteq> 0
      then (True, xReg AND 0x80000000, setFPUFlags cFlagsToSet s)
      else (False, xReg, if cFlagsToSet AND FPUflagU \<noteq> 0 then clearFPUFlags FPUflagU s else s))"

text \<open>The two checks as every arithmetic instruction ends with them.\<close>

definition clampResult :: "u32 \<Rightarrow> u32 \<Rightarrow> u32 \<Rightarrow> 'd machine \<Rightarrow> u32 \<times> 'd machine" where
  "clampResult flagsO flagsU x s =
     (case checkOverflow x flagsO s of
        (True, x, s) \<Rightarrow> (x, s)
      | (False, x, s) \<Rightarrow> (case checkUnderflow x flagsU s of (_, x, s) \<Rightarrow> (x, s)))"

definition checkDivideByZero :: "u32 \<Rightarrow> u32 \<Rightarrow> u32 \<Rightarrow> u32 \<Rightarrow> 'd machine \<Rightarrow> (u32 \<times> 'd machine) option" where
  "checkDivideByZero yDivisorReg zDividendReg cFlagsToSet1 cFlagsToSet2 s =
     (if yDivisorReg AND 0x7F800000 = 0
      then Some (((yDivisorReg XOR zDividendReg) AND 0x80000000) OR posFmax,
                 setFPUFlags (if zDividendReg AND 0x7F800000 = 0 then cFlagsToSet2 else cFlagsToSet1) s)
      else None)"

definition fp_max :: "u32 \<Rightarrow> u32 \<Rightarrow> u32" where
  "fp_max a b = (if a <s 0 \<and> b <s 0 then (if b <s a then b else a) else (if a <s b then b else a))"

definition fp_min :: "u32 \<Rightarrow> u32 \<Rightarrow> u32" where
  "fp_min a b = (if a <s 0 \<and> b <s 0 then (if a <s b then b else a) else (if b <s a then b else a))"

definition fpuDouble :: "u32 \<Rightarrow> u32" where
  "fpuDouble f =
     (if f AND 0x7f800000 = 0 then f AND 0x80000000
      else if f AND 0x7f800000 = 0x7f800000 then (f AND 0x80000000) OR 0x7f7fffff
      else f)"

section \<open>Arithmetic instructions\<close>

abbreviation flagsO :: u32 where "flagsO \<equiv> FPUflagO OR FPUflagSO"
abbreviation flagsU :: u32 where "flagsU \<equiv> FPUflagU OR FPUflagSU"

definition put_Fd :: "u32 \<times> 'd machine \<Rightarrow> 'd machine" where
  "put_Fd = (\<lambda>(x, s). wFd x s)"

definition put_FA :: "u32 \<times> 'd machine \<Rightarrow> 'd machine" where
  "put_FA = (\<lambda>(x, s). s\<lparr>ACC := x\<rparr>)"

definition ABS_S :: "'d machine \<Rightarrow> 'd machine" where
  "ABS_S s = clearFPUFlags (FPUflagO OR FPUflagU) (wFd (FsVal s AND 0x7fffffff) s)"

definition ADD_S :: "'d ee_env \<Rightarrow> 'd machine \<Rightarrow> 'd machine" where
  "ADD_S E s = put_Fd (clampResult flagsO flagsU (f_add (FPUFPCR E) (fpuDouble (FsVal s)) (fpuDouble (FtVal s))) s)"

definition ADDA_S :: "'d ee_env \<Rightarrow> 'd machine \<Rightarrow> 'd machine" where
  "ADDA_S E s = put_FA (clampResult flagsO flagsU (f_add (FPUFPCR E) (fpuDouble (FsVal s)) (fpuDouble (FtVal s))) s)"

definition C_cond :: "bool \<Rightarrow> 'd machine \<Rightarrow> 'd machine" where
  "C_cond c s = wCont (if c then ContVal s OR FPUflagC else ContVal s AND NOT FPUflagC) s"

definition C_EQ :: "'d machine \<Rightarrow> 'd machine" where
  "C_EQ s = C_cond (f_eq (fpuDouble (FsVal s)) (fpuDouble (FtVal s))) s"

definition C_F :: "'d machine \<Rightarrow> 'd machine" where
  "C_F s = clearFPUFlags FPUflagC s"

definition C_LE :: "'d machine \<Rightarrow> 'd machine" where
  "C_LE s = C_cond (f_le (fpuDouble (FsVal s)) (fpuDouble (FtVal s))) s"

definition C_LT :: "'d machine \<Rightarrow> 'd machine" where
  "C_LT s = C_cond (f_less (fpuDouble (FsVal s)) (fpuDouble (FtVal s))) s"

definition CFC1 :: "'d machine \<Rightarrow> 'd machine" where
  "CFC1 s =
     (if fRt s = 0 then s
      else if fFs s = 31 then wUD (fRt s) 0 (scast (fprc s 31)) s
      else if fFs s = 0 then wUD (fRt s) 0 0x2E00 s
      else wUD (fRt s) 0 0 s)"

definition CTC1 :: "'d machine \<Rightarrow> 'd machine" where
  "CTC1 s = (if fFs s \<noteq> 31 then s else s\<lparr>fprc := (fprc s)(fFs s := UL 0 (GPR s (fRt s)))\<rparr>)"

definition CVT_S :: "'d ee_env \<Rightarrow> 'd machine \<Rightarrow> 'd machine" where
  "CVT_S E s = wFd (f_of_int (FPUFPCR E) (sint (FsVal s))) s"

definition CVT_W :: "'d ee_env \<Rightarrow> 'd machine \<Rightarrow> 'd machine" where
  "CVT_W E s =
     (if FsVal s AND 0x7F800000 \<le> 0x4E800000 then wFd (word_of_int (f_trunc (FPUFPCR E) (FsVal s))) s
      else if FsVal s AND 0x80000000 = 0 then wFd 0x7fffffff s
      else wFd 0x80000000 s)"

definition DIV_S :: "'d ee_env \<Rightarrow> 'd machine \<Rightarrow> 'd machine" where
  "DIV_S E s =
     (case checkDivideByZero (FtVal s) (FsVal s) (FPUflagD OR FPUflagSD) (FPUflagI OR FPUflagSI) s of
        Some r \<Rightarrow> put_Fd r
      | None \<Rightarrow> put_Fd (clampResult 0 0 (f_div (FPUFPCR E) (fpuDouble (FsVal s)) (fpuDouble (FtVal s))) s))"

definition MADD_S :: "'d ee_env \<Rightarrow> 'd machine \<Rightarrow> 'd machine" where
  "MADD_S E s =
     (let temp = f_mul (FPUFPCR E) (fpuDouble (FsVal s)) (fpuDouble (FtVal s)) in
      put_Fd (clampResult flagsO flagsU (f_add (FPUFPCR E) (fpuDouble (ACC s)) (fpuDouble temp)) s))"

text \<open>The product and the sum of \<open>MADDA_S\<close> and \<open>MSUBA_S\<close> are one expression, which the compiler
  may fuse.\<close>

definition MADDA_S :: "'d ee_env \<Rightarrow> 'd machine \<Rightarrow> 'd machine" where
  "MADDA_S E s =
     (let c = FPUFPCR E; a = fpuDouble (FsVal s); b = fpuDouble (FtVal s) in
      put_FA (clampResult flagsO flagsU
        (if FPContract E then f_fma c a b (ACC s) else f_add c (ACC s) (f_mul c a b)) s))"

definition MAX_S :: "'d machine \<Rightarrow> 'd machine" where
  "MAX_S s = clearFPUFlags (FPUflagO OR FPUflagU) (wFd (fp_max (FsVal s) (FtVal s)) s)"

definition MFC1 :: "'d machine \<Rightarrow> 'd machine" where
  "MFC1 s = (if fRt s = 0 then s else wUD (fRt s) 0 (scast (FsVal s)) s)"

definition MIN_S :: "'d machine \<Rightarrow> 'd machine" where
  "MIN_S s = clearFPUFlags (FPUflagO OR FPUflagU) (wFd (fp_min (FsVal s) (FtVal s)) s)"

definition MOV_S :: "'d machine \<Rightarrow> 'd machine" where
  "MOV_S s = wFd (FsVal s) s"

definition MSUB_S :: "'d ee_env \<Rightarrow> 'd machine \<Rightarrow> 'd machine" where
  "MSUB_S E s =
     (let temp = f_mul (FPUFPCR E) (fpuDouble (FsVal s)) (fpuDouble (FtVal s)) in
      put_Fd (clampResult flagsO flagsU (f_sub (FPUFPCR E) (fpuDouble (ACC s)) (fpuDouble temp)) s))"

definition MSUBA_S :: "'d ee_env \<Rightarrow> 'd machine \<Rightarrow> 'd machine" where
  "MSUBA_S E s =
     (let c = FPUFPCR E; a = fpuDouble (FsVal s); b = fpuDouble (FtVal s) in
      put_FA (clampResult flagsO flagsU
        (if FPContract E then f_fma c (f_neg a) b (ACC s) else f_sub c (ACC s) (f_mul c a b)) s))"

definition MTC1 :: "'d machine \<Rightarrow> 'd machine" where
  "MTC1 s = s\<lparr>fpr := (fpr s)(fFs s := UL 0 (GPR s (fRt s)))\<rparr>"

definition MUL_S :: "'d ee_env \<Rightarrow> 'd machine \<Rightarrow> 'd machine" where
  "MUL_S E s = put_Fd (clampResult flagsO flagsU (f_mul (FPUFPCR E) (fpuDouble (FsVal s)) (fpuDouble (FtVal s))) s)"

definition MULA_S :: "'d ee_env \<Rightarrow> 'd machine \<Rightarrow> 'd machine" where
  "MULA_S E s = put_FA (clampResult flagsO flagsU (f_mul (FPUFPCR E) (fpuDouble (FsVal s)) (fpuDouble (FtVal s))) s)"

definition NEG_S :: "'d machine \<Rightarrow> 'd machine" where
  "NEG_S s = clearFPUFlags (FPUflagO OR FPUflagU) (wFd (FsVal s XOR 0x80000000) s)"

text \<open>\<^verbatim>\<open>sqrt\<close> and \<^verbatim>\<open>fabs\<close> are the overloads for \<^verbatim>\<open>float\<close>.\<close>

definition f_fabs :: "u32 \<Rightarrow> u32" where
  "f_fabs w = w AND 0x7fffffff"

definition RSQRT_S :: "'d ee_env \<Rightarrow> 'd machine \<Rightarrow> 'd machine" where
  "RSQRT_S E s =
     (let c = FPUFPCR E; s = clearFPUFlags (FPUflagD OR FPUflagI) s in
      if FtVal s AND 0x7F800000 = 0
      then wFd ((FtVal s AND 0x80000000) OR posFmax) (setFPUFlags (FPUflagD OR FPUflagSD) s)
      else if FtVal s AND 0x80000000 \<noteq> 0
      then (let s = setFPUFlags (FPUflagI OR FPUflagSI) s;
                temp = f_sqrt c (f_fabs (fpuDouble (FtVal s)))
            in put_Fd (clampResult 0 0 (f_div c (fpuDouble (FsVal s)) (fpuDouble temp)) s))
      else put_Fd (clampResult 0 0 (f_div c (fpuDouble (FsVal s)) (f_sqrt c (fpuDouble (FtVal s)))) s))"

definition SQRT_S :: "'d ee_env \<Rightarrow> 'd machine \<Rightarrow> 'd machine" where
  "SQRT_S E s =
     (let c = FPUFPCR E; s = clearFPUFlags (FPUflagI OR FPUflagD) s in
      if FtVal s AND 0x7F800000 = 0 then wFd (FtVal s AND 0x80000000) s
      else if FtVal s AND 0x80000000 \<noteq> 0
      then wFd (f_sqrt c (f_fabs (fpuDouble (FtVal s)))) (setFPUFlags (FPUflagI OR FPUflagSI) s)
      else wFd (f_sqrt c (fpuDouble (FtVal s))) s)"

definition SUB_S :: "'d ee_env \<Rightarrow> 'd machine \<Rightarrow> 'd machine" where
  "SUB_S E s = put_Fd (clampResult flagsO flagsU (f_sub (FPUFPCR E) (fpuDouble (FsVal s)) (fpuDouble (FtVal s))) s)"

definition SUBA_S :: "'d ee_env \<Rightarrow> 'd machine \<Rightarrow> 'd machine" where
  "SUBA_S E s = put_FA (clampResult flagsO flagsU (f_sub (FPUFPCR E) (fpuDouble (FsVal s)) (fpuDouble (FtVal s))) s)"

section \<open>Loads and stores\<close>

text \<open>A misaligned address is reported and the instruction does nothing.\<close>

definition LWC1 :: "'d ee_env \<Rightarrow> 'd instr" where
  "LWC1 E s =
     (let addr = eff_addr s; rt = fRt s in
      if addr AND 0x00000003 \<noteq> 0 then Ok () s
      else obind (vtlb_memRead (eeMem E) addr s) (\<lambda>v :: u32. \<lambda>s. Ok () (s\<lparr>fpr := (fpr s)(rt := v)\<rparr>)))"

definition SWC1 :: "'d ee_env \<Rightarrow> 'd instr" where
  "SWC1 E s =
     (let addr = eff_addr s in
      if addr AND 0x00000003 \<noteq> 0 then Ok () s
      else vtlb_memWrite (eeMem E) addr (fpr s (fRt s)) s)"

section \<open>Clamping keeps to the numbers of the unit\<close>

lemma fpuDouble_cases:
  "fpuDouble w = (if f_abs w < 2 ^ 23 then with_sign (f_sign w) 0
     else if 0x7F800000 \<le> f_abs w then with_sign (f_sign w) 0x7F7FFFFF else w)"
  using or_sign [of "f_sign w" "0x7F7FFFFF"] by (simp only: fpuDouble_def exp_zero_iff exp_max_iff and_sign) simp

lemma fpuDouble_normal [simp]: "f_normal (fpuDouble w)"
proof -
  have "f_normal w" if "\<not> f_abs w < 2 ^ 23" "\<not> 0x7F800000 \<le> f_abs w"
    using that f_normal_with_sign [OF f_abs_less, of "f_sign w" w] by (simp add: with_sign_of)
  then show ?thesis by (simp add: fpuDouble_cases)
qed

lemma fpuDouble_id: "f_normal w \<Longrightarrow> fpuDouble w = w"
  using f_normal_with_sign [OF f_abs_less, of "f_sign w" w] with_sign_of [of w]
  by (auto simp: fpuDouble_cases)

lemma overflow_iff: "w AND NOT 0x80000000 = PosInfinity \<longleftrightarrow> f_abs w = 0x7F800000"
proof -
  have "NOT (0x80000000 :: u32) = 0x7FFFFFFF"
    by (rule bit_word_eqI) (simp only: bit_not_iff bit_signmask bit_low31 possible_bit_word, auto)
  then have "w AND NOT 0x80000000 = PosInfinity \<longleftrightarrow> w AND 0x7FFFFFFF = 0x7F800000"
    by (simp only: PosInfinity_def)
  then show ?thesis by (simp only: f_abs_def word_unat_eq_iff) simp
qed

lemma underflow_iff: "w AND 0x7F800000 = 0 \<and> w AND 0x007FFFFF \<noteq> 0 \<longleftrightarrow> 0 < f_abs w \<and> f_abs w < 2 ^ 23"
proof -
  have "w AND 0x007FFFFF = (w AND 0x7FFFFFFF) AND 0x007FFFFF" by (simp add: and.assoc)
  moreover have "w AND 0x7FFFFFFF = (w AND 0x7F800000) OR (w AND 0x007FFFFF)"
    by (simp only: bit.conj_disj_distrib [symmetric]) simp
  ultimately show ?thesis unfolding exp_zero_iff [symmetric]
    by (auto simp: f_abs_def word_neq_0_conv [symmetric] unat_gt_0)
qed

lemma checkOverflow_cases:
  "checkOverflow x fl s =
     (if f_abs x = 0x7F800000 then (True, with_sign (f_sign x) 0x7F7FFFFF, setFPUFlags fl s)
      else (False, x, if fl AND FPUflagO \<noteq> 0 then clearFPUFlags FPUflagO s else s))"
  using or_sign [of "f_sign x" "0x7F7FFFFF"] unfolding checkOverflow_def overflow_iff and_sign posFmax_def by simp

lemma checkUnderflow_cases:
  "checkUnderflow x fl s =
     (if 0 < f_abs x \<and> f_abs x < 2 ^ 23 then (True, with_sign (f_sign x) 0, setFPUFlags fl s)
      else (False, x, if fl AND FPUflagU \<noteq> 0 then clearFPUFlags FPUflagU s else s))"
  unfolding checkUnderflow_def underflow_iff and_sign ..

lemma clampResult_cases:
  "fst (clampResult fO fU x s) =
     (if f_abs x = 0x7F800000 then with_sign (f_sign x) 0x7F7FFFFF
      else if f_abs x < 2 ^ 23 then with_sign (f_sign x) 0 else x)"
proof -
  have "with_sign (f_sign x) 0 = x" if "f_abs x = 0"
    using with_sign_of [of x] that by simp
  then show ?thesis by (auto simp: clampResult_def checkOverflow_cases checkUnderflow_cases)
qed

lemma clampResult_normal: "\<not> f_isNaN x \<Longrightarrow> f_normal (fst (clampResult fO fU x s))"
  using f_normal_with_sign [OF f_abs_less, of "f_sign x" x]
  by (auto simp: clampResult_cases f_isNaN_def with_sign_of)

lemma clampResult_chops:
  assumes "f_normal x"
  shows "clampResult flagsO flagsU x s = (x, clearFPUFlags (FPUflagO OR FPUflagU) s)"
    and "clampResult 0 0 x s = (x, s)"
proof -
  have *: "f_abs x \<noteq> 0x7F800000" "\<not> (0 < f_abs x \<and> f_abs x < 2 ^ 23)"
    using f_normal_with_sign [OF f_abs_less, of "f_sign x" x] assms by (auto simp: with_sign_of)
  have "wCont (ContVal (clearFPUFlags FPUflagO s) AND NOT FPUflagU) (clearFPUFlags FPUflagO s) = clearFPUFlags (FPUflagO OR FPUflagU) s"
    by (simp add: clearFPUFlags_def wCont_def ContVal_def and.assoc)
  moreover have "flagsO AND FPUflagO \<noteq> 0" "flagsU AND FPUflagU \<noteq> 0"
    by (simp_all add: FPUflagO_def FPUflagSO_def FPUflagU_def FPUflagSU_def)
  ultimately show "clampResult flagsO flagsU x s = (x, clearFPUFlags (FPUflagO OR FPUflagU) s)"
    "clampResult 0 0 x s = (x, s)"
    using * by (auto simp: clampResult_def checkOverflow_cases checkUnderflow_cases clearFPUFlags_def [of FPUflagU])
qed


lemma fpu_write [simp]:
  "fpr (wFd v s) = (fpr s)(fFd s := v)" "ACC (wFd v s) = ACC s" "fprc (wFd v s) = fprc s"
  "fpr (wCont w s) = fpr s" "ACC (wCont w s) = ACC s" "code (wCont w s) = code s" "fprc (wCont w s) = (fprc s)(31 := w)"
  by (simp_all add: wFd_def wCont_def)

lemma fpu_fields [simp]: "fFd (wCont w s) = fFd s" "fFs (wCont w s) = fFs s" "fFt (wCont w s) = fFt s"
  "FsVal (wCont w s) = FsVal s" "FtVal (wCont w s) = FtVal s"
  by (simp_all add: fFd_def fFs_def fFt_def FsVal_def FtVal_def)

lemmas flag_write = clearFPUFlags_def setFPUFlags_def

text \<open>What an arithmetic instruction stores, under every control register.\<close>

lemma clampResult_frame [simp]:
  "fpr (snd (clampResult fO fU x s)) = fpr s" "ACC (snd (clampResult fO fU x s)) = ACC s"
  "fFd (snd (clampResult fO fU x s)) = fFd s"
  by (auto simp: clampResult_def checkOverflow_cases checkUnderflow_cases flag_write)

lemma put_clamped [simp]:
  "fpr (put_Fd (clampResult fO fU x s)) = (fpr s)(fFd s := fst (clampResult fO fU x s))"
  "ACC (put_Fd (clampResult fO fU x s)) = ACC s"
  "ACC (put_FA (clampResult fO fU x s)) = fst (clampResult fO fU x s)"
  "fpr (put_FA (clampResult fO fU x s)) = fpr s"
  using clampResult_frame [of fO fU x s] by (simp_all add: put_Fd_def put_FA_def case_prod_beta)

section \<open>Exact results truncated\<close>

lemma put_truncated:
  assumes "truncates x num den"
  shows "fpr (put_Fd (clampResult flagsO flagsU x s)) (fFd s) = x" "fpr (put_Fd (clampResult 0 0 x s)) (fFd s) = x"
    "ACC (put_FA (clampResult flagsO flagsU x s)) = x"
  by (simp_all add: clampResult_chops [OF truncates_finite [OF assms]] put_Fd_def put_FA_def flag_write)

lemma fpuDouble_mag: "f_mag (fpuDouble w) = 0 \<longleftrightarrow> w AND 0x7F800000 = 0"
proof -
  have "f_mag (fpuDouble w) = 0 \<longleftrightarrow> f_abs w < 2 ^ 23"
    using mag_of_eq_iff [of "f_abs w" 0] by (auto simp: fpuDouble_cases f_mag_def with_sign_parts mag_of_def)
  then show ?thesis by (simp only: exp_zero_iff)
qed

lemma arithmetic_results:
  fixes s :: "'d machine"
  assumes "chops (FPUFPCR E)"
  defines "a \<equiv> fpuDouble (FsVal s)" and "b \<equiv> fpuDouble (FtVal s)"
  shows "fpr (ADD_S E s) (fFd s) = f_add (FPUFPCR E) a b" "fpr (SUB_S E s) (fFd s) = f_sub (FPUFPCR E) a b"
    "fpr (MUL_S E s) (fFd s) = f_mul (FPUFPCR E) a b"
    "f_mag b \<noteq> 0 \<Longrightarrow> fpr (DIV_S E s) (fFd s) = f_div (FPUFPCR E) a b"
    "ACC (ADDA_S E s) = f_add (FPUFPCR E) a b" "ACC (SUBA_S E s) = f_sub (FPUFPCR E) a b"
    "ACC (MULA_S E s) = f_mul (FPUFPCR E) a b"
proof -
  have n: "f_normal a" "f_normal b" by (simp_all add: a_def b_def)
  note add = put_truncated [OF f_add_chops(1) [OF assms(1) n], where 'a = 'd] 
    and sub = put_truncated [OF f_sub_chops(1) [OF assms(1) n], where 'a = 'd]
    and mul = put_truncated [OF f_mul_chops(1) [OF assms(1) n], where 'a = 'd]
  show "fpr (ADD_S E s) (fFd s) = f_add (FPUFPCR E) a b" "ACC (ADDA_S E s) = f_add (FPUFPCR E) a b"
    using add [of s] by (simp_all add: ADD_S_def ADDA_S_def a_def b_def)
  show "fpr (SUB_S E s) (fFd s) = f_sub (FPUFPCR E) a b" "ACC (SUBA_S E s) = f_sub (FPUFPCR E) a b"
    using sub [of s] by (simp_all add: SUB_S_def SUBA_S_def a_def b_def)
  show "fpr (MUL_S E s) (fFd s) = f_mul (FPUFPCR E) a b" "ACC (MULA_S E s) = f_mul (FPUFPCR E) a b"
    using mul [of s] by (simp_all add: MUL_S_def MULA_S_def a_def b_def)
  show "fpr (DIV_S E s) (fFd s) = f_div (FPUFPCR E) a b" if "f_mag b \<noteq> 0"
    using put_truncated(2) [OF f_div_chops(1) [OF assms(1) n that], of s] that
    by (simp add: DIV_S_def checkDivideByZero_def fpuDouble_mag a_def b_def)
qed

lemma f_fabs_double: "f_fabs (fpuDouble w) = with_sign False (f_abs (fpuDouble w))"
  by (simp add: f_fabs_def with_sign_def f_abs_def)

lemma SQRT_S_result:
  assumes "chops (FPUFPCR E)"
  shows "let r = fpr (SQRT_S E s) (fFd s); n = f_mag (fpuDouble (FtVal s)) * 2 ^ 149 in
    f_normal r \<and> f_mag r * f_mag r \<le> n \<and> (\<forall>u. f_normal u \<and> f_mag u * f_mag u \<le> n \<longrightarrow> f_mag u \<le> f_mag r)"
proof -
  let ?b = "fpuDouble (FtVal s)"
  have sqrt: "f_normal (f_sqrt (FPUFPCR E) w) \<and> f_mag (f_sqrt (FPUFPCR E) w) * f_mag (f_sqrt (FPUFPCR E) w) \<le> f_mag w * 2 ^ 149 \<and>
      (\<forall>u. f_normal u \<and> f_mag u * f_mag u \<le> f_mag w * 2 ^ 149 \<longrightarrow> f_mag u \<le> f_mag (f_sqrt (FPUFPCR E) w))"
    if "f_normal w" "\<not> f_sign w" for w
    using f_sqrt_chops [OF assms that] by blast
  have fabs: "f_normal (f_fabs ?b)" "\<not> f_sign (f_fabs ?b)" "f_mag (f_fabs ?b) = f_mag ?b"
    using fpuDouble_normal [of "FtVal s"] f_abs_less [of ?b]
    by (simp_all add: f_fabs_double with_sign_parts f_normal_def f_finite_def f_mag_def)
  have sign: "FtVal s AND 0x80000000 \<noteq> 0 \<longleftrightarrow> f_sign (FtVal s)" for s :: "'d machine"
    unfolding and_sign by (auto simp: with_sign_def)
  have pos: "\<not> f_sign ?b" if "\<not> f_sign (FtVal s)"
    using that by (simp add: fpuDouble_cases with_sign_parts)
  show ?thesis
    using sqrt [OF fabs(1,2)] sqrt [of ?b] pos fabs(3) fpuDouble_mag [of "FtVal s"] sign [of s]
    by (auto simp: SQRT_S_def Let_def flag_write and_sign)
qed

text \<open>
  C15: on an interpreter whose host rounds towards zero and flushes denormals, addition, subtraction and
  multiplication of the floating-point unit, into a register or into the accumulator, store the exact result on
  the clamped operands, truncated to the nearest number of the unit towards zero, with the sign of the exact result;
  numbers too large become the largest one.
\<close>
theorem fpu_arithmetic_truncates:
  assumes "chops (FPUFPCR E)"
  shows "let a = fpuDouble (FsVal s); b = fpuDouble (FtVal s); d = fFd s in
    (\<forall>r \<in> {fpr (ADD_S E s) d, ACC (ADDA_S E s)}.
       truncates r (nat \<bar>f_val a + f_val b\<bar>) 1 \<and> (f_val a + f_val b \<noteq> 0 \<longrightarrow> f_sign r = (f_val a + f_val b < 0))) \<and>
    (\<forall>r \<in> {fpr (SUB_S E s) d, ACC (SUBA_S E s)}.
       truncates r (nat \<bar>f_val a - f_val b\<bar>) 1 \<and> (f_val a - f_val b \<noteq> 0 \<longrightarrow> f_sign r = (f_val a - f_val b < 0))) \<and>
    (\<forall>r \<in> {fpr (MUL_S E s) d, ACC (MULA_S E s)}.
       truncates r (f_mag a * f_mag b) (2 ^ 149) \<and> f_sign r = (f_sign a \<noteq> f_sign b))"
  unfolding Let_def arithmetic_results [OF assms]
  by (simp add: f_add_chops [OF assms, simplified] f_sub_chops [OF assms, simplified] f_mul_chops [OF assms, simplified])

theorem fpu_arithmetic_truncates_witness:
  "truncates (fpr (MUL_S ee_plain (machine_ram\<lparr>code := 0x46020842, fpr := (\<lambda>_. 0)(1 := 0x3FA66666, 2 := 0x40000000)\<rparr>)) 1)
     (f_mag 0x3FA66666 * f_mag 0x40000000) (2 ^ 149)"
  using fpu_arithmetic_truncates [of ee_plain "machine_ram\<lparr>code := 0x46020842, fpr := (\<lambda>_. 0)(1 := 0x3FA66666, 2 := 0x40000000)\<rparr>"]
  by (simp add: ee_plain_def chops_def DEFAULT_FPU_FP_CONTROL_REGISTER_def Let_def fFd_def FsVal_def FtVal_def fFs_def fFt_def fpuDouble_def)

text \<open>Division runs under the same control register in the interpreter, although the configuration has one of its
  own for it, which the recompilers load; the recompilers also take square roots to the nearest number.\<close>

lemma DIV_S_truncates:
  assumes "chops (FPUFPCR E)"
  shows "let a = fpuDouble (FsVal s); b = fpuDouble (FtVal s); r = fpr (DIV_S E s) (fFd s) in
    f_mag b \<noteq> 0 \<longrightarrow> truncates r (f_mag a * 2 ^ 149) (f_mag b) \<and> f_sign r = (f_sign a \<noteq> f_sign b)"
  unfolding Let_def using arithmetic_results(4) [OF assms, of s] f_div_chops [OF assms] by simp

section \<open>No infinities, NaNs or denormals\<close>

lemma f_pack_not_NaN: "\<not> f_isNaN (f_pack c neg num den)"
  by (simp add: f_pack_def Let_def f_isNaN_def with_sign_parts)

lemma zero_not_NaN [simp]: "\<not> f_isNaN (with_sign neg 0)" "\<not> f_isNaN (with_sign neg 0x7F800000)"
  by (simp_all add: f_isNaN_def with_sign_parts)

lemma daz_not_NaN: "\<not> f_isNaN w \<Longrightarrow> \<not> f_isNaN (daz c w)"
  by (auto simp: daz_def and_sign)

lemma arith_not_NaN:
  assumes "f_normal a" "f_normal b"
  shows "\<not> f_isNaN (f_mul c a b)" "f_mag b \<noteq> 0 \<Longrightarrow> \<not> f_isNaN (f_div c a b)" "f_normal d \<Longrightarrow> \<not> f_isNaN (f_fma c a b d)"
  using assms by (simp_all add: f_mul_def f_div_def f_fma_def Let_def f_normalD f_pack_not_NaN)

lemma add_not_NaN:
  assumes "f_normal a" "\<not> f_isNaN b"
  shows "\<not> f_isNaN (f_add c a b)" "\<not> f_isNaN (f_sub c a b)"
proof -
  have add: "\<not> f_isNaN (f_add c a b)" if "\<not> f_isNaN b" for b
    using assms(1) daz_not_NaN [OF that, of c] by (simp add: f_add_def Let_def f_normalD f_pack_not_NaN)
  have "\<not> f_isNaN (f_neg b)" using assms(2) f_abs_less [of b] by (simp add: f_neg_eq f_isNaN_def with_sign_parts)
  then show "\<not> f_isNaN (f_add c a b)" "\<not> f_isNaN (f_sub c a b)" using add assms(2) by (simp_all add: f_sub_def)
qed

lemma normal_not_NaN: "f_normal w \<Longrightarrow> \<not> f_isNaN w"
  by (rule f_normalD)

lemma f_fabs_normal: "f_normal w \<Longrightarrow> f_normal (f_fabs w)" "\<not> f_sign (f_fabs w)" "f_mag (f_fabs w) = f_mag w"
proof -
  have e: "f_fabs w = with_sign False (f_abs w)" by (simp add: f_fabs_def with_sign_def f_abs_def)
  show "f_normal w \<Longrightarrow> f_normal (f_fabs w)" "\<not> f_sign (f_fabs w)" "f_mag (f_fabs w) = f_mag w"
    using f_abs_less [of w] unfolding e by (simp_all add: with_sign_parts f_normal_def f_finite_def f_mag_def)
qed

lemma roots_normal:
  "f_normal (fpr (SQRT_S E s) (fFd s))" "f_normal (fpr (RSQRT_S E s) (fFd s))"
proof -
  let ?b = "fpuDouble (FtVal s)" and ?c = "FPUFPCR E"
  have sign: "\<not> f_sign ?b" if "FtVal s AND 0x80000000 = 0"
  proof -
    have "\<not> f_sign (FtVal s)" using that unfolding and_sign by (auto simp: with_sign_def)
    then show ?thesis by (simp add: fpuDouble_cases with_sign_parts)
  qed
  note pos = f_sqrt_normal [where c = ?c and a = ?b, OF fpuDouble_normal sign]
    and neg = f_sqrt_normal [where c = ?c and a = "f_fabs ?b", OF f_fabs_normal(1) [OF fpuDouble_normal] f_fabs_normal(2), unfolded f_fabs_normal(3)]
  have z: "f_mag ?b \<noteq> 0" if "FtVal s AND 0x7F800000 \<noteq> 0" using that by (simp add: fpuDouble_mag)
  show "f_normal (fpr (SQRT_S E s) (fFd s))"
    using pos neg by (simp add: SQRT_S_def Let_def flag_write and_sign)
  show "f_normal (fpr (RSQRT_S E s) (fFd s))"
    using pos neg z or_sign [of "f_sign (FtVal s)" "0x7F7FFFFF"]
    by (simp add: RSQRT_S_def Let_def flag_write and_sign posFmax_def clampResult_normal arith_not_NaN fpuDouble_id)
qed

text \<open>
  C26: for every control register the accumulator is never infinite, a NaN or denormal once it is a
  number of the unit, as it is after reset, and the destination of ADD, SUB, MUL, MADD, MSUB, DIV, SQRT and RSQRT
  is such a number whatever the operand registers hold. (Moves, conversions to integers, ABS, NEG, MAX and MIN
  copy or form patterns and are no arithmetic in this sense.)
\<close>
theorem fpu_results_normal:
  assumes "f_normal (ACC s)"
  shows "f_normal (ACC (ADDA_S E s)) \<and> f_normal (ACC (SUBA_S E s)) \<and> f_normal (ACC (MULA_S E s)) \<and>
    f_normal (ACC (MADDA_S E s)) \<and> f_normal (ACC (MSUBA_S E s)) \<and>
    f_normal (fpr (ADD_S E s) (fFd s)) \<and> f_normal (fpr (SUB_S E s) (fFd s)) \<and> f_normal (fpr (MUL_S E s) (fFd s)) \<and>
    f_normal (fpr (MADD_S E s) (fFd s)) \<and> f_normal (fpr (MSUB_S E s) (fFd s)) \<and> f_normal (fpr (DIV_S E s) (fFd s)) \<and>
    f_normal (fpr (SQRT_S E s) (fFd s)) \<and> f_normal (fpr (RSQRT_S E s) (fFd s))"
proof -
  have div: "f_normal (fpr (DIV_S E s) (fFd s))"
  proof (cases "FtVal s AND 0x7F800000 = 0")
    case True
    then show ?thesis
      using or_sign [of "f_sign (FtVal s XOR FsVal s)" "0x7F7FFFFF"]
      by (simp add: DIV_S_def checkDivideByZero_def put_Fd_def setFPUFlags_def and_sign posFmax_def)
  next
    case False
    then show ?thesis using fpuDouble_mag [of "FtVal s"]
      by (simp add: DIV_S_def checkDivideByZero_def clampResult_normal arith_not_NaN)
  qed
  show ?thesis
    using assms div roots_normal [of E s]
    by (simp add: ADDA_S_def SUBA_S_def MULA_S_def MADDA_S_def MSUBA_S_def ADD_S_def SUB_S_def MUL_S_def MADD_S_def MSUB_S_def
      Let_def clampResult_normal arith_not_NaN add_not_NaN normal_not_NaN f_normal_neg)
qed

theorem fpu_results_normal_witness:
  "f_normal (ACC (MADDA_S (ee_plain\<lparr>FPUFPCR := \<lparr>RoundMode = Nearest, DenormalsAreZero = False, FlushToZero = False\<rparr>\<rparr>)
     (machine_ram\<lparr>fpr := (\<lambda>_. 0x7FFFFFFF)\<rparr>)))"
  using fpu_results_normal [of "machine_ram\<lparr>fpr := (\<lambda>_. 0x7FFFFFFF)\<rparr>"]
  by (simp add: machine_ram_def machine_reset_def cpuRegisters.extend_def machine.fields_def f_normal_def f_finite_def f_mag_def f_abs_def)

section \<open>The flags\<close>

text \<open>
  When the host rounds towards zero and flushes denormals, as it does by default, no arithmetic
  instruction raises the overflow or the underflow flag or their sticky copies: the checks
  look for an infinity or a denormal in the result, which this rounding never delivers. The
  instructions only clear the two cause flags.
\<close>
lemma fpu_flags_never_raised:
  assumes "chops (FPUFPCR E)"
  shows "\<forall>op \<in> {ADD_S E, SUB_S E, MUL_S E, MADD_S E, MSUB_S E, ADDA_S E, SUBA_S E, MULA_S E}.
    ContVal (op s) = ContVal s AND NOT (FPUflagO OR FPUflagU)"
proof -
  note n = truncates_finite [OF f_add_chops(1) [OF assms]] truncates_finite [OF f_sub_chops(1) [OF assms]]
    truncates_finite [OF f_mul_chops(1) [OF assms]]
  show ?thesis
    by (simp add: ADD_S_def SUB_S_def MUL_S_def MADD_S_def MSUB_S_def ADDA_S_def SUBA_S_def MULA_S_def Let_def
      clampResult_chops n put_Fd_def put_FA_def flag_write) (simp add: ContVal_def)
qed


section \<open>The order of numbers\<close>

lemma sint_float: "sint w = (if f_sign w then int (f_abs w) - 2 ^ 31 else int (f_abs w))"
proof -
  have *: "unat w = f_abs w + (if f_sign w then 2 ^ 31 else 0)"
  proof -
    have "unat w mod 2 ^ 31 = f_abs w"
    proof -
      have "w AND 0x7FFFFFFF = take_bit 31 w" by (simp add: take_bit_eq_mask mask_eq_exp_minus_1)
      then show ?thesis by (simp only: f_abs_def unat_take_bit)
    qed
    moreover have "f_sign w \<longleftrightarrow> odd (unat w div 2 ^ 31)" by (simp only: f_sign_def bit_unat)
    moreover have "unat w div 2 ^ 31 < 2" using unsigned_less [of w, where 'a = nat] by (simp add: div_less_iff_less_mult)
    ultimately show ?thesis using div_mult_mod_eq [of "unat w" "2 ^ 31"]
      by (cases "unat w div 2 ^ 31 = 0") auto
  qed
  have "sint w = int (unat w) - (if f_sign w then 2 ^ 32 else 0)"
    using unsigned_less [of w, where 'a = int]
    by (simp add: sint_uint signed_take_bit_eq_take_bit_minus bit_uint_iff f_sign_def take_bit_int_eq_self)
  then show ?thesis using * by simp
qed

lemma zero_pattern [simp]: "\<not> f_sign 0" "f_abs 0 = 0"
  by (simp_all add: f_sign_def f_abs_def)

lemma float_sless: "a <s b \<longleftrightarrow> f_sign a \<and> \<not> f_sign b \<or> f_sign a = f_sign b \<and> f_abs a < f_abs b"
  using f_abs_less [of a] f_abs_less [of b] by (auto simp: word_sless_alt sint_float)

lemma f_val_mono: "f_val a < f_val b \<longleftrightarrow>
    (if f_sign a then (if f_sign b then f_abs b < f_abs a else f_abs a \<noteq> 0 \<or> f_abs b \<noteq> 0) else \<not> f_sign b \<and> f_abs a < f_abs b)"
proof -
  have "0 < f_mag w \<longleftrightarrow> f_abs w \<noteq> 0" for w using mag_of_less_iff [of 0 "f_abs w"] by (simp add: f_mag_def del: mag_of_less_iff)
  from this [of a] this [of b] show ?thesis using mag_of_less_iff [of "f_abs a" "f_abs b"] mag_of_less_iff [of "f_abs b" "f_abs a"]
    by (auto simp: f_val_def f_mag_def)
qed

lemma fp_max_value: "f_val (fp_max a b) = max (f_val a) (f_val b)" and fp_min_value: "f_val (fp_min a b) = min (f_val a) (f_val b)"
proof -
  have z: "x <s 0 \<longleftrightarrow> f_sign x" for x by (simp add: float_sless)
  show "f_val (fp_max a b) = max (f_val a) (f_val b)"
    using f_val_mono [of a b] f_val_mono [of b a] by (auto simp: fp_max_def z float_sless max_def split: if_splits)
  show "f_val (fp_min a b) = min (f_val a) (f_val b)"
    using f_val_mono [of a b] f_val_mono [of b a] by (auto simp: fp_min_def z float_sless min_def split: if_splits)
qed

text \<open>
  The maximum and the minimum, which the code takes on the patterns as integers, are those of the
  numbers, and the comparisons set the condition flag exactly when the clamped operands compare so
  as numbers.
\<close>
lemma fpu_order:
  "f_val (fpr (MAX_S s) (fFd s)) = max (f_val (FsVal s)) (f_val (FtVal s)) \<and>
   f_val (fpr (MIN_S s) (fFd s)) = min (f_val (FsVal s)) (f_val (FtVal s)) \<and>
   (bit (ContVal (C_LT s)) 23 \<longleftrightarrow> f_val (fpuDouble (FsVal s)) < f_val (fpuDouble (FtVal s))) \<and>
   (bit (ContVal (C_LE s)) 23 \<longleftrightarrow> f_val (fpuDouble (FsVal s)) \<le> f_val (fpuDouble (FtVal s))) \<and>
   (bit (ContVal (C_EQ s)) 23 \<longleftrightarrow> f_val (fpuDouble (FsVal s)) = f_val (fpuDouble (FtVal s)))"
proof -
  have C: "bit (ContVal (C_cond c s)) 23 \<longleftrightarrow> c" for c
    by (simp add: C_cond_def ContVal_def FPUflagC_def bit_or_iff bit_and_iff bit_not_iff)
  have nan: "\<not> f_isNaN (fpuDouble w)" for w by (rule normal_not_NaN) simp
  show ?thesis
    by (auto simp: MAX_S_def MIN_S_def C_LT_def C_LE_def C_EQ_def C fp_max_value fp_min_value flag_write f_less_def f_le_def f_eq_def nan)
qed

end
