(* ===== verification/EE_Interp.thy ===== *)
theory EE_Interp
  imports EE_MMI EE_FPU
begin

text \<open>
  The interpreter of the Emotion Engine: fetch, decode and dispatch, jumps and branches with
  their delay slots (\<^verbatim>\<open>pcsx2/Interpreter.cpp\<close>, \<^verbatim>\<open>pcsx2/R5900OpcodeTables.cpp\<close>), the branches
  of the coprocessors (\<^verbatim>\<open>COP0.cpp\<close>, \<^verbatim>\<open>FPU.cpp\<close>) and the end of \<^verbatim>\<open>SYSCALL\<close>.

  A taken branch executes the instruction in its delay slot by calling \<open>execI\<close> again, and that
  instruction may be a branch itself, so an instruction may fail to return. The branches take the
  interpreter as an argument, \<open>execI\<close> counts the nested calls with fuel, and \<open>None\<close> says that the
  fuel ran out; \<open>execI_returns\<close> shows how much is enough. \<open>Cancelled\<close> is the long jump back to the
  main loop. The write-only variable \<^verbatim>\<open>branch2\<close> and breakpoints (development builds) are left out.
\<close>

section \<open>Instructions that run others\<close>

type_synonym 'd run = "'d machine \<Rightarrow> (unit, 'd machine) outcome option"

fun run_bind :: "('v, 's) outcome option \<Rightarrow> ('v \<Rightarrow> 's \<Rightarrow> ('w, 's) outcome option) \<Rightarrow> ('w, 's) outcome option" where
  "run_bind None f = None"
| "run_bind (Some (Ok v s)) f = f v s"
| "run_bind (Some (Cancelled s)) f = Some (Cancelled s)"

definition intEventTest :: "'d ee_env \<Rightarrow> 'd run" where
  "intEventTest E s = Some (EventTest E s)"

section \<open>Taking a branch\<close>

text \<open>\<^verbatim>\<open>PSM\<close>: the host address of a guest address, seen through the physical map.\<close>

definition PSM :: "u32 \<Rightarrow> 'd machine \<Rightarrow> u64 option" where
  "PSM mem s = vtlb_GetPhyPtr (mem AND 0x1fffffff) s"

text \<open>The scan of a short loop for words that are not zero. After \<open>2^30\<close> steps the address has
  come round, so that \<open>None\<close> means that the scan does not end.\<close>

fun scan_loop :: "nat \<Rightarrow> u32 \<Rightarrow> 'd machine \<Rightarrow> bool option" where
  "scan_loop n i s =
     (if \<not> i < pc s then Some True
      else if PSM i s \<noteq> None then Some False
      else if n = 0 then None else scan_loop (n - 1) (i + 4) s)"

declare scan_loop.simps [simp del]

definition can_skip :: "u32 \<Rightarrow> 'd machine \<Rightarrow> bool option" where
  "can_skip tar s =
     (if tar \<noteq> 0x81fc0
      then (if pc s - tar < 4 * 10 then scan_loop (2 ^ 30) tar s else Some False)
      else Some True)"

definition skip_to_event :: "'d machine \<Rightarrow> 'd machine" where
  "skip_to_event s =
     (if 0 <s nextEventCycle s - cycle s then s\<lparr>cycle := nextEventCycle s\<rparr> else s\<lparr>nextEventCycle := cycle s\<rparr>)"

definition doBranch_shared :: "'d ee_env \<Rightarrow> 'd run \<Rightarrow> u32 \<Rightarrow> 'd run" where
  "doBranch_shared E x tar s =
     run_bind (x (s\<lparr>branch := 1\<rparr>)) (\<lambda>_ s.
       if branch s \<noteq> 0 then
         (case (if CpuIsInt E \<and> intLastBranchTo s = tar \<and> WaitLoop E
                then (let s = intUpdateCPUCycles E s in
                      case can_skip tar s of
                        None \<Rightarrow> None
                      | Some skip \<Rightarrow> Some (if skip then skip_to_event s else s))
                else Some s) of
            None \<Rightarrow> None
          | Some s \<Rightarrow> Some (Ok () (s\<lparr>intLastBranchTo := tar, pc := tar, branch := 0\<rparr>)))
       else Some (Ok () s))"

definition doBranch :: "'d ee_env \<Rightarrow> 'd run \<Rightarrow> u32 \<Rightarrow> 'd run" where
  "doBranch E x target s =
     run_bind (doBranch_shared E x target s) (\<lambda>_ s. intEventTest E (intUpdateCPUCycles E s))"

definition intDoBranch :: "'d ee_env \<Rightarrow> 'd run \<Rightarrow> u32 \<Rightarrow> 'd run" where
  "intDoBranch E x target s =
     run_bind (doBranch_shared E x target s) (\<lambda>_ s.
       if CpuIsInt E then intEventTest E (intUpdateCPUCycles E s) else Some (Ok () s))"

section \<open>Jumps and branches\<close>

definition J :: "'d ee_env \<Rightarrow> 'd run \<Rightarrow> 'd run" where
  "J E x s = doBranch E x (JumpTarget s) s"

definition JAL :: "'d ee_env \<Rightarrow> 'd run \<Rightarrow> 'd run" where
  "JAL E x s =
     (let s = (if GoemonTlbHack E \<and> JumpTarget s = 0x3563b8
               then GoemonUnloadTlb (MainMem E) (UL 0 (GPR s 4)) s else s);
          s = SetLink 31 s
      in doBranch E x (JumpTarget s) s)"

definition BEQ :: "'d ee_env \<Rightarrow> 'd run \<Rightarrow> 'd run" where
  "BEQ E x s =
     (if UD 0 (GPR s (fRs s)) = UD 0 (GPR s (fRt s)) then doBranch E x (BranchTarget s) s else intEventTest E s)"

definition BNE :: "'d ee_env \<Rightarrow> 'd run \<Rightarrow> 'd run" where
  "BNE E x s =
     (if UD 0 (GPR s (fRs s)) \<noteq> UD 0 (GPR s (fRt s)) then doBranch E x (BranchTarget s) s else intEventTest E s)"

definition BGEZ :: "'d ee_env \<Rightarrow> 'd run \<Rightarrow> 'd run" where
  "BGEZ E x s =
     (if 0 \<le>s UD 0 (GPR s (fRs s)) then doBranch E x (BranchTarget s) s else Some (Ok () s))"

definition BGEZAL :: "'d ee_env \<Rightarrow> 'd run \<Rightarrow> 'd run" where
  "BGEZAL E x s =
     (let s = SetLink 31 s in
      if 0 \<le>s UD 0 (GPR s (fRs s)) then doBranch E x (BranchTarget s) s else Some (Ok () s))"

definition BGTZ :: "'d ee_env \<Rightarrow> 'd run \<Rightarrow> 'd run" where
  "BGTZ E x s =
     (if 0 <s UD 0 (GPR s (fRs s)) then doBranch E x (BranchTarget s) s else Some (Ok () s))"

definition BLEZ :: "'d ee_env \<Rightarrow> 'd run \<Rightarrow> 'd run" where
  "BLEZ E x s =
     (if UD 0 (GPR s (fRs s)) \<le>s 0 then doBranch E x (BranchTarget s) s else Some (Ok () s))"

definition BLTZ :: "'d ee_env \<Rightarrow> 'd run \<Rightarrow> 'd run" where
  "BLTZ E x s =
     (if UD 0 (GPR s (fRs s)) <s 0 then doBranch E x (BranchTarget s) s else Some (Ok () s))"

definition BLTZAL :: "'d ee_env \<Rightarrow> 'd run \<Rightarrow> 'd run" where
  "BLTZAL E x s =
     (let s = SetLink 31 s in
      if UD 0 (GPR s (fRs s)) <s 0 then doBranch E x (BranchTarget s) s else Some (Ok () s))"

definition BEQL :: "'d ee_env \<Rightarrow> 'd run \<Rightarrow> 'd run" where
  "BEQL E x s =
     (if UD 0 (GPR s (fRs s)) = UD 0 (GPR s (fRt s)) then doBranch E x (BranchTarget s) s
      else intEventTest E (s\<lparr>pc := pc s + 4\<rparr>))"

definition BNEL :: "'d ee_env \<Rightarrow> 'd run \<Rightarrow> 'd run" where
  "BNEL E x s =
     (if UD 0 (GPR s (fRs s)) \<noteq> UD 0 (GPR s (fRt s)) then doBranch E x (BranchTarget s) s
      else intEventTest E (s\<lparr>pc := pc s + 4\<rparr>))"

definition BLEZL :: "'d ee_env \<Rightarrow> 'd run \<Rightarrow> 'd run" where
  "BLEZL E x s =
     (if UD 0 (GPR s (fRs s)) \<le>s 0 then doBranch E x (BranchTarget s) s
      else intEventTest E (s\<lparr>pc := pc s + 4\<rparr>))"

definition BGTZL :: "'d ee_env \<Rightarrow> 'd run \<Rightarrow> 'd run" where
  "BGTZL E x s =
     (if 0 <s UD 0 (GPR s (fRs s)) then doBranch E x (BranchTarget s) s
      else intEventTest E (s\<lparr>pc := pc s + 4\<rparr>))"

definition BLTZL :: "'d ee_env \<Rightarrow> 'd run \<Rightarrow> 'd run" where
  "BLTZL E x s =
     (if UD 0 (GPR s (fRs s)) <s 0 then doBranch E x (BranchTarget s) s
      else intEventTest E (s\<lparr>pc := pc s + 4\<rparr>))"

definition BGEZL :: "'d ee_env \<Rightarrow> 'd run \<Rightarrow> 'd run" where
  "BGEZL E x s =
     (if 0 \<le>s UD 0 (GPR s (fRs s)) then doBranch E x (BranchTarget s) s
      else intEventTest E (s\<lparr>pc := pc s + 4\<rparr>))"

definition BLTZALL :: "'d ee_env \<Rightarrow> 'd run \<Rightarrow> 'd run" where
  "BLTZALL E x s =
     (let s = SetLink 31 s in
      if UD 0 (GPR s (fRs s)) <s 0 then doBranch E x (BranchTarget s) s
      else intEventTest E (s\<lparr>pc := pc s + 4\<rparr>))"

definition BGEZALL :: "'d ee_env \<Rightarrow> 'd run \<Rightarrow> 'd run" where
  "BGEZALL E x s =
     (let s = SetLink 31 s in
      if 0 \<le>s UD 0 (GPR s (fRs s)) then doBranch E x (BranchTarget s) s
      else intEventTest E (s\<lparr>pc := pc s + 4\<rparr>))"

definition JR :: "'d ee_env \<Rightarrow> 'd run \<Rightarrow> 'd run" where
  "JR E x s =
     (let add = UL 0 (GPR s (fRs s));
          s = (if GoemonTlbHack E \<and> (add = 0x33ad48 \<or> add = 0x35060c) then GoemonPreloadTlb (MainMem E) s else s)
      in doBranch E x (UL 0 (GPR s (fRs s))) s)"

definition JALR :: "'d ee_env \<Rightarrow> 'd run \<Rightarrow> 'd run" where
  "JALR E x s =
     (let temp = UL 0 (GPR s (fRs s));
          s = (if fRd s \<noteq> 0 then SetLink (fRd s) s else s)
      in doBranch E x temp s)"

section \<open>Coprocessor branches\<close>

definition CPCOND0 :: "'d ee_env \<Rightarrow> 'd machine \<Rightarrow> bool" where
  "CPCOND0 E s \<longleftrightarrow> (dmac_CIS E s OR NOT (dmac_CPC E s)) AND 0x3FF = 0x3ff"

definition BC0F :: "'d ee_env \<Rightarrow> 'd run \<Rightarrow> 'd run" where
  "BC0F E x s =
     (if \<not> CPCOND0 E s then intDoBranch E x (BranchTarget s) s else Some (Ok () s))"

definition BC0T :: "'d ee_env \<Rightarrow> 'd run \<Rightarrow> 'd run" where
  "BC0T E x s =
     (if CPCOND0 E s then intDoBranch E x (BranchTarget s) s else Some (Ok () s))"

definition BC0FL :: "'d ee_env \<Rightarrow> 'd run \<Rightarrow> 'd run" where
  "BC0FL E x s =
     (if \<not> CPCOND0 E s then intDoBranch E x (BranchTarget s) s else Some (Ok () (s\<lparr>pc := pc s + 4\<rparr>)))"

definition BC0TL :: "'d ee_env \<Rightarrow> 'd run \<Rightarrow> 'd run" where
  "BC0TL E x s =
     (if CPCOND0 E s then intDoBranch E x (BranchTarget s) s else Some (Ok () (s\<lparr>pc := pc s + 4\<rparr>)))"

definition BC1F :: "'d ee_env \<Rightarrow> 'd run \<Rightarrow> 'd run" where
  "BC1F E x s =
     (if ContVal s AND FPUflagC = 0 then intDoBranch E x (BranchTarget s) s else Some (Ok () s))"

definition BC1T :: "'d ee_env \<Rightarrow> 'd run \<Rightarrow> 'd run" where
  "BC1T E x s =
     (if ContVal s AND FPUflagC \<noteq> 0 then intDoBranch E x (BranchTarget s) s else Some (Ok () s))"

definition BC1FL :: "'d ee_env \<Rightarrow> 'd run \<Rightarrow> 'd run" where
  "BC1FL E x s =
     (if ContVal s AND FPUflagC = 0 then intDoBranch E x (BranchTarget s) s else Some (Ok () (s\<lparr>pc := pc s + 4\<rparr>)))"

definition BC1TL :: "'d ee_env \<Rightarrow> 'd run \<Rightarrow> 'd run" where
  "BC1TL E x s =
     (if ContVal s AND FPUflagC \<noteq> 0 then intDoBranch E x (BranchTarget s) s else Some (Ok () (s\<lparr>pc := pc s + 4\<rparr>)))"

section \<open>System calls\<close>

text \<open>The calls the emulator patches or logs are in \<open>syscall_hle\<close>; it tells whether one of them
  was done without entering the kernel.\<close>

definition SYSCALL :: "'d ee_env \<Rightarrow> 'd instr" where
  "SYSCALL E s =
     obind (syscall_hle E s) (\<lambda>handled s.
       if handled then Ok () s
       else let s = s\<lparr>pc := pc s - 4\<rparr> in Ok () (cpuException 0x20 (branch s) s))"

section \<open>Opcode tables\<close>

text \<open>An opcode is an instruction with its cycles, or a class that selects another table. Of its
  flags the model keeps \<^verbatim>\<open>IS_BRANCH\<close>; the others describe it to the recompilers and the debugger.\<close>

datatype 'd OPCODE =
  Opcode (opcode_cycles: u8) (opcode_is_branch: bool) (opcode_interpret: "'d run")
| OpcodeClass (getsubclass: "u32 \<Rightarrow> 'd OPCODE")

abbreviation Cycles_Default :: u8 where "Cycles_Default \<equiv> 9"
abbreviation Cycles_Branch :: u8 where "Cycles_Branch \<equiv> 11"
abbreviation Cycles_CopDefault :: u8 where "Cycles_CopDefault \<equiv> 7"
abbreviation Cycles_Mult :: u8 where "Cycles_Mult \<equiv> 16"
abbreviation Cycles_Div :: u8 where "Cycles_Div \<equiv> 112"
abbreviation Cycles_MMI_Mult :: u8 where "Cycles_MMI_Mult \<equiv> 24"
abbreviation Cycles_MMI_Div :: u8 where "Cycles_MMI_Div \<equiv> 176"
abbreviation Cycles_MMI_Default :: u8 where "Cycles_MMI_Default \<equiv> 14"
abbreviation Cycles_FPU_Mult :: u8 where "Cycles_FPU_Mult \<equiv> 32"
abbreviation Cycles_Store :: u8 where "Cycles_Store \<equiv> 14"
abbreviation Cycles_Load :: u8 where "Cycles_Load \<equiv> 14"

definition MakeOpcode :: "u8 \<Rightarrow> ('d machine \<Rightarrow> 'd machine) \<Rightarrow> 'd OPCODE" where
  "MakeOpcode c f = Opcode c False (\<lambda>s. Some (Ok () (f s)))"

definition MakeOpcodeMem :: "u8 \<Rightarrow> 'd instr \<Rightarrow> 'd OPCODE" where
  "MakeOpcodeMem c f = Opcode c False (\<lambda>s. Some (f s))"

definition MakeOpcodeRun :: "u8 \<Rightarrow> 'd run \<Rightarrow> 'd OPCODE" where
  "MakeOpcodeRun c f = Opcode c False f"

definition MakeBranch :: "u8 \<Rightarrow> 'd run \<Rightarrow> 'd OPCODE" where
  "MakeBranch c f = Opcode c True f"

text \<open>Unknown opcodes of every class are logged and do nothing.\<close>

definition UnknownOp :: "'d OPCODE" where
  "UnknownOp = MakeOpcode Cycles_Default (\<lambda>s. s)"

definition tbl_COP0_BC0 :: "'d ee_env \<Rightarrow> 'd run \<Rightarrow> 'd OPCODE list" where
  "tbl_COP0_BC0 E x =
     [MakeBranch Cycles_Branch (BC0F E x), MakeBranch Cycles_Branch (BC0T E x),
      MakeBranch Cycles_Branch (BC0FL E x), MakeBranch Cycles_Branch (BC0TL E x)] @
     replicate 28 UnknownOp"

definition Class_COP0_BC0 :: "'d ee_env \<Rightarrow> 'd run \<Rightarrow> u32 \<Rightarrow> 'd OPCODE" where
  "Class_COP0_BC0 E x op = tbl_COP0_BC0 E x ! unat (drop_bit 16 op AND 0x03)"

definition tbl_COP0_C0 :: "'d ee_env \<Rightarrow> 'd run \<Rightarrow> 'd OPCODE list" where
  "tbl_COP0_C0 E x =
     [UnknownOp, MakeOpcode Cycles_CopDefault TLBR, MakeOpcode Cycles_CopDefault TLBWI, UnknownOp,
      UnknownOp, UnknownOp, MakeOpcode Cycles_CopDefault TLBWR, UnknownOp,
      MakeOpcode Cycles_CopDefault TLBP] @
     replicate 15 UnknownOp @
     [MakeBranch Cycles_CopDefault (\<lambda>s. Some (Ok () (ERET s)))] @
     replicate 31 UnknownOp @
     [MakeOpcode Cycles_CopDefault EI, MakeOpcode Cycles_CopDefault DI] @
     replicate 6 UnknownOp"

definition Class_COP0_C0 :: "'d ee_env \<Rightarrow> 'd run \<Rightarrow> u32 \<Rightarrow> 'd OPCODE" where
  "Class_COP0_C0 E x op = tbl_COP0_C0 E x ! unat (op AND 0x3F)"

definition tbl_COP1_BC1 :: "'d ee_env \<Rightarrow> 'd run \<Rightarrow> 'd OPCODE list" where
  "tbl_COP1_BC1 E x =
     [MakeBranch Cycles_Branch (BC1F E x), MakeBranch Cycles_Branch (BC1T E x),
      MakeBranch Cycles_Branch (BC1FL E x), MakeBranch Cycles_Branch (BC1TL E x)] @
     replicate 28 UnknownOp"

definition Class_COP1_BC1 :: "'d ee_env \<Rightarrow> 'd run \<Rightarrow> u32 \<Rightarrow> 'd OPCODE" where
  "Class_COP1_BC1 E x op = tbl_COP1_BC1 E x ! unat (drop_bit 16 op AND 0x1F)"

definition tbl_COP1_S :: "'d ee_env \<Rightarrow> 'd run \<Rightarrow> 'd OPCODE list" where
  "tbl_COP1_S E x =
     [MakeOpcode Cycles_CopDefault (ADD_S E), MakeOpcode Cycles_CopDefault (SUB_S E),
      MakeOpcode Cycles_FPU_Mult (MUL_S E), MakeOpcode 48 (DIV_S E), MakeOpcode 48 (SQRT_S E),
      MakeOpcode Cycles_CopDefault ABS_S, MakeOpcode Cycles_CopDefault MOV_S,
      MakeOpcode Cycles_CopDefault NEG_S] @
     replicate 14 UnknownOp @
     [MakeOpcode 64 (RSQRT_S E), UnknownOp, MakeOpcode Cycles_CopDefault (ADDA_S E),
      MakeOpcode Cycles_CopDefault (SUBA_S E), MakeOpcode Cycles_FPU_Mult (MULA_S E), UnknownOp,
      MakeOpcode Cycles_FPU_Mult (MADD_S E), MakeOpcode Cycles_FPU_Mult (MSUB_S E),
      MakeOpcode Cycles_FPU_Mult (MADDA_S E), MakeOpcode Cycles_FPU_Mult (MSUBA_S E), UnknownOp,
      UnknownOp, UnknownOp, UnknownOp, MakeOpcode Cycles_CopDefault (CVT_W E), UnknownOp,
      UnknownOp, UnknownOp, MakeOpcode Cycles_CopDefault MAX_S, MakeOpcode Cycles_CopDefault MIN_S] @
     replicate 6 UnknownOp @
     [MakeOpcode Cycles_CopDefault C_F, UnknownOp, MakeOpcode Cycles_CopDefault C_EQ, UnknownOp,
      MakeOpcode Cycles_CopDefault C_LT, UnknownOp, MakeOpcode Cycles_CopDefault C_LE] @
     replicate 9 UnknownOp"

definition Class_COP1_S :: "'d ee_env \<Rightarrow> 'd run \<Rightarrow> u32 \<Rightarrow> 'd OPCODE" where
  "Class_COP1_S E x op = tbl_COP1_S E x ! unat (op AND 0x3F)"

definition tbl_COP1_W :: "'d ee_env \<Rightarrow> 'd run \<Rightarrow> 'd OPCODE list" where
  "tbl_COP1_W E x =
     replicate 32 UnknownOp @
     [MakeOpcode Cycles_CopDefault (CVT_S E)] @
     replicate 31 UnknownOp"

definition Class_COP1_W :: "'d ee_env \<Rightarrow> 'd run \<Rightarrow> u32 \<Rightarrow> 'd OPCODE" where
  "Class_COP1_W E x op = tbl_COP1_W E x ! unat (op AND 0x3F)"

definition tbl_MMI0 :: "'d ee_env \<Rightarrow> 'd run \<Rightarrow> 'd OPCODE list" where
  "tbl_MMI0 E x =
     [MakeOpcode Cycles_MMI_Default PADDW, MakeOpcode Cycles_MMI_Default PSUBW,
      MakeOpcode Cycles_MMI_Default PCGTW, MakeOpcode Cycles_MMI_Default PMAXW,
      MakeOpcode Cycles_MMI_Default PADDH, MakeOpcode Cycles_MMI_Default PSUBH,
      MakeOpcode Cycles_MMI_Default PCGTH, MakeOpcode Cycles_MMI_Default PMAXH,
      MakeOpcode Cycles_MMI_Default PADDB, MakeOpcode Cycles_MMI_Default PSUBB,
      MakeOpcode Cycles_MMI_Default PCGTB, UnknownOp, UnknownOp, UnknownOp, UnknownOp, UnknownOp,
      MakeOpcode Cycles_MMI_Default PADDSW, MakeOpcode Cycles_MMI_Default PSUBSW,
      MakeOpcode Cycles_MMI_Default PEXTLW, MakeOpcode Cycles_MMI_Default PPACW,
      MakeOpcode Cycles_MMI_Default PADDSH, MakeOpcode Cycles_MMI_Default PSUBSH,
      MakeOpcode Cycles_MMI_Default PEXTLH, MakeOpcode Cycles_MMI_Default PPACH,
      MakeOpcode Cycles_MMI_Default PADDSB, MakeOpcode Cycles_MMI_Default PSUBSB,
      MakeOpcode Cycles_MMI_Default PEXTLB, MakeOpcode Cycles_MMI_Default PPACB, UnknownOp,
      UnknownOp, MakeOpcode Cycles_MMI_Default PEXT5, MakeOpcode Cycles_MMI_Default PPAC5]"

definition Class_MMI0 :: "'d ee_env \<Rightarrow> 'd run \<Rightarrow> u32 \<Rightarrow> 'd OPCODE" where
  "Class_MMI0 E x op = tbl_MMI0 E x ! unat (drop_bit 6 op AND 0x1F)"

definition tbl_MMI1 :: "'d ee_env \<Rightarrow> 'd run \<Rightarrow> 'd OPCODE list" where
  "tbl_MMI1 E x =
     [UnknownOp, MakeOpcode Cycles_MMI_Default PABSW, MakeOpcode Cycles_MMI_Default PCEQW,
      MakeOpcode Cycles_MMI_Default PMINW, MakeOpcode Cycles_MMI_Default PADSBH,
      MakeOpcode Cycles_MMI_Default PABSH, MakeOpcode Cycles_MMI_Default PCEQH,
      MakeOpcode Cycles_MMI_Default PMINH, UnknownOp, UnknownOp,
      MakeOpcode Cycles_MMI_Default PCEQB, UnknownOp, UnknownOp, UnknownOp, UnknownOp, UnknownOp,
      MakeOpcode Cycles_MMI_Default PADDUW, MakeOpcode Cycles_MMI_Default PSUBUW,
      MakeOpcode Cycles_MMI_Default PEXTUW, UnknownOp, MakeOpcode Cycles_MMI_Default PADDUH,
      MakeOpcode Cycles_MMI_Default PSUBUH, MakeOpcode Cycles_MMI_Default PEXTUH, UnknownOp,
      MakeOpcode Cycles_MMI_Default PADDUB, MakeOpcode Cycles_MMI_Default PSUBUB,
      MakeOpcode Cycles_MMI_Default PEXTUB, MakeOpcode Cycles_MMI_Default QFSRV, UnknownOp,
      UnknownOp, UnknownOp, UnknownOp]"

definition Class_MMI1 :: "'d ee_env \<Rightarrow> 'd run \<Rightarrow> u32 \<Rightarrow> 'd OPCODE" where
  "Class_MMI1 E x op = tbl_MMI1 E x ! unat (drop_bit 6 op AND 0x1F)"

definition tbl_MMI2 :: "'d ee_env \<Rightarrow> 'd run \<Rightarrow> 'd OPCODE list" where
  "tbl_MMI2 E x =
     [MakeOpcode Cycles_MMI_Mult PMADDW, UnknownOp, MakeOpcode Cycles_MMI_Default PSLLVW,
      MakeOpcode Cycles_MMI_Default PSRLVW, MakeOpcode Cycles_MMI_Mult PMSUBW, UnknownOp,
      UnknownOp, UnknownOp, MakeOpcode Cycles_MMI_Mult PMFHI, MakeOpcode Cycles_MMI_Mult PMFLO,
      MakeOpcode Cycles_MMI_Default PINTH, UnknownOp, MakeOpcode Cycles_MMI_Mult PMULTW,
      MakeOpcode Cycles_MMI_Div PDIVW, MakeOpcode Cycles_MMI_Default PCPYLD, UnknownOp,
      MakeOpcode Cycles_MMI_Mult PMADDH, MakeOpcode Cycles_MMI_Mult PHMADH,
      MakeOpcode Cycles_MMI_Default PAND, MakeOpcode Cycles_MMI_Default PXOR,
      MakeOpcode Cycles_MMI_Mult PMSUBH, MakeOpcode Cycles_MMI_Mult PHMSBH, UnknownOp, UnknownOp,
      UnknownOp, UnknownOp, MakeOpcode Cycles_MMI_Default PEXEH,
      MakeOpcode Cycles_MMI_Default PREVH, MakeOpcode Cycles_MMI_Mult PMULTH,
      MakeOpcode Cycles_MMI_Div PDIVBW, MakeOpcode Cycles_MMI_Default PEXEW,
      MakeOpcode Cycles_MMI_Default PROT3W]"

definition Class_MMI2 :: "'d ee_env \<Rightarrow> 'd run \<Rightarrow> u32 \<Rightarrow> 'd OPCODE" where
  "Class_MMI2 E x op = tbl_MMI2 E x ! unat (drop_bit 6 op AND 0x1F)"

definition tbl_MMI3 :: "'d ee_env \<Rightarrow> 'd run \<Rightarrow> 'd OPCODE list" where
  "tbl_MMI3 E x =
     [MakeOpcode Cycles_MMI_Mult PMADDUW, UnknownOp, UnknownOp,
      MakeOpcode Cycles_MMI_Default PSRAVW, UnknownOp, UnknownOp, UnknownOp, UnknownOp,
      MakeOpcode Cycles_MMI_Default PMTHI, MakeOpcode Cycles_MMI_Default PMTLO,
      MakeOpcode Cycles_MMI_Default PINTEH, UnknownOp, MakeOpcode Cycles_MMI_Mult PMULTUW,
      MakeOpcode Cycles_MMI_Div PDIVUW, MakeOpcode Cycles_MMI_Default PCPYUD, UnknownOp, UnknownOp,
      UnknownOp, MakeOpcode Cycles_MMI_Default POR, MakeOpcode Cycles_MMI_Default PNOR] @
     replicate 6 UnknownOp @
     [MakeOpcode Cycles_MMI_Default PEXCH, MakeOpcode Cycles_MMI_Default PCPYH, UnknownOp,
      UnknownOp, MakeOpcode Cycles_MMI_Default PEXCW, UnknownOp]"

definition Class_MMI3 :: "'d ee_env \<Rightarrow> 'd run \<Rightarrow> u32 \<Rightarrow> 'd OPCODE" where
  "Class_MMI3 E x op = tbl_MMI3 E x ! unat (drop_bit 6 op AND 0x1F)"

definition tbl_COP0 :: "'d ee_env \<Rightarrow> 'd run \<Rightarrow> 'd OPCODE list" where
  "tbl_COP0 E x =
     [MakeOpcode Cycles_CopDefault MFC0, UnknownOp, UnknownOp, UnknownOp,
      MakeOpcode Cycles_CopDefault MTC0, UnknownOp, UnknownOp, UnknownOp,
      OpcodeClass (Class_COP0_BC0 E x)] @
     replicate 7 UnknownOp @
     [OpcodeClass (Class_COP0_C0 E x)] @
     replicate 15 UnknownOp"

definition Class_COP0 :: "'d ee_env \<Rightarrow> 'd run \<Rightarrow> u32 \<Rightarrow> 'd OPCODE" where
  "Class_COP0 E x op = tbl_COP0 E x ! unat (drop_bit 21 op AND 0x1F)"

definition tbl_COP1 :: "'d ee_env \<Rightarrow> 'd run \<Rightarrow> 'd OPCODE list" where
  "tbl_COP1 E x =
     [MakeOpcode Cycles_CopDefault MFC1, UnknownOp, MakeOpcode Cycles_CopDefault CFC1, UnknownOp,
      MakeOpcode Cycles_CopDefault MTC1, UnknownOp, MakeOpcode Cycles_CopDefault CTC1, UnknownOp,
      OpcodeClass (Class_COP1_BC1 E x)] @
     replicate 7 UnknownOp @
     [OpcodeClass (Class_COP1_S E x), UnknownOp, UnknownOp, UnknownOp,
      OpcodeClass (Class_COP1_W E x)] @
     replicate 11 UnknownOp"

definition Class_COP1 :: "'d ee_env \<Rightarrow> 'd run \<Rightarrow> u32 \<Rightarrow> 'd OPCODE" where
  "Class_COP1 E x op = tbl_COP1 E x ! unat (drop_bit 21 op AND 0x1F)"

definition tbl_MMI :: "'d ee_env \<Rightarrow> 'd run \<Rightarrow> 'd OPCODE list" where
  "tbl_MMI E x =
     [MakeOpcode Cycles_Mult MADD, MakeOpcode Cycles_Mult MADDU, UnknownOp, UnknownOp,
      MakeOpcode Cycles_MMI_Default PLZCW, UnknownOp, UnknownOp, UnknownOp,
      OpcodeClass (Class_MMI0 E x), OpcodeClass (Class_MMI2 E x)] @
     replicate 6 UnknownOp @
     [MakeOpcode Cycles_Default MFHI1, MakeOpcode Cycles_Default MTHI1,
      MakeOpcode Cycles_Default MFLO1, MakeOpcode Cycles_Default MTLO1, UnknownOp, UnknownOp,
      UnknownOp, UnknownOp, MakeOpcode Cycles_Mult MULT1, MakeOpcode Cycles_Mult MULTU1,
      MakeOpcode Cycles_Div DIV1, MakeOpcode Cycles_Div DIVU1, UnknownOp, UnknownOp, UnknownOp,
      UnknownOp, MakeOpcode Cycles_Mult MADD1, MakeOpcode Cycles_Mult MADDU1] @
     replicate 6 UnknownOp @
     [OpcodeClass (Class_MMI1 E x), OpcodeClass (Class_MMI3 E x)] @
     replicate 6 UnknownOp @
     [MakeOpcode Cycles_MMI_Default PMFHL, MakeOpcode Cycles_MMI_Default PMTHL, UnknownOp,
      UnknownOp, MakeOpcode Cycles_MMI_Default PSLLH, UnknownOp,
      MakeOpcode Cycles_MMI_Default PSRLH, MakeOpcode Cycles_MMI_Default PSRAH, UnknownOp,
      UnknownOp, UnknownOp, UnknownOp, MakeOpcode Cycles_MMI_Default PSLLW, UnknownOp,
      MakeOpcode Cycles_MMI_Default PSRLW, MakeOpcode Cycles_MMI_Default PSRAW]"

definition Class_MMI :: "'d ee_env \<Rightarrow> 'd run \<Rightarrow> u32 \<Rightarrow> 'd OPCODE" where
  "Class_MMI E x op = tbl_MMI E x ! unat (op AND 0x3F)"

definition tbl_RegImm :: "'d ee_env \<Rightarrow> 'd run \<Rightarrow> 'd OPCODE list" where
  "tbl_RegImm E x =
     [MakeBranch Cycles_Branch (BLTZ E x), MakeBranch Cycles_Branch (BGEZ E x),
      MakeBranch Cycles_Branch (BLTZL E x), MakeBranch Cycles_Branch (BGEZL E x), UnknownOp,
      UnknownOp, UnknownOp, UnknownOp, MakeOpcode Cycles_Branch TGEI,
      MakeOpcode Cycles_Branch TGEIU, MakeOpcode Cycles_Branch TLTI,
      MakeOpcode Cycles_Branch TLTIU, MakeOpcode Cycles_Branch TEQI, UnknownOp,
      MakeOpcode Cycles_Branch TNEI, UnknownOp, MakeBranch Cycles_Branch (BLTZAL E x),
      MakeBranch Cycles_Branch (BGEZAL E x), MakeBranch Cycles_Branch (BLTZALL E x),
      MakeBranch Cycles_Branch (BGEZALL E x), UnknownOp, UnknownOp, UnknownOp, UnknownOp,
      MakeOpcode Cycles_Default MTSAB, MakeOpcode Cycles_Default MTSAH] @
     replicate 6 UnknownOp"

definition Class_REGIMM :: "'d ee_env \<Rightarrow> 'd run \<Rightarrow> u32 \<Rightarrow> 'd OPCODE" where
  "Class_REGIMM E x op = tbl_RegImm E x ! unat (drop_bit 16 op AND 0x1F)"

definition tbl_Special :: "'d ee_env \<Rightarrow> 'd run \<Rightarrow> 'd OPCODE list" where
  "tbl_Special E x =
     [MakeOpcode Cycles_Default SLL, UnknownOp, MakeOpcode Cycles_Default SRL,
      MakeOpcode Cycles_Default SRA, MakeOpcode Cycles_Default SLLV, UnknownOp,
      MakeOpcode Cycles_Default SRLV, MakeOpcode Cycles_Default SRAV,
      MakeBranch Cycles_Default (JR E x), MakeBranch Cycles_Default (JALR E x),
      MakeOpcode Cycles_Default MOVZ, MakeOpcode Cycles_Default MOVN,
      MakeBranch Cycles_Default (\<lambda>s. Some (SYSCALL E s)), MakeOpcode Cycles_Default BREAK,
      UnknownOp, MakeOpcode Cycles_Default SYNC, MakeOpcode Cycles_Default MFHI,
      MakeOpcode Cycles_Default MTHI, MakeOpcode Cycles_Default MFLO,
      MakeOpcode Cycles_Default MTLO, MakeOpcode Cycles_Default DSLLV, UnknownOp,
      MakeOpcode Cycles_Default DSRLV, MakeOpcode Cycles_Default DSRAV,
      MakeOpcode Cycles_Mult MULT, MakeOpcode Cycles_Mult MULTU, MakeOpcode Cycles_Div DIV,
      MakeOpcode Cycles_Div DIVU, UnknownOp, UnknownOp, UnknownOp, UnknownOp,
      MakeOpcode Cycles_Default ADD, MakeOpcode Cycles_Default ADDU, MakeOpcode Cycles_Default SUB,
      MakeOpcode Cycles_Default SUBU, MakeOpcode Cycles_Default AND_op,
      MakeOpcode Cycles_Default OR_op, MakeOpcode Cycles_Default XOR_op,
      MakeOpcode Cycles_Default NOR, MakeOpcode Cycles_Default MFSA,
      MakeOpcode Cycles_Default MTSA, MakeOpcode Cycles_Default SLT,
      MakeOpcode Cycles_Default SLTU, MakeOpcode Cycles_Default DADD,
      MakeOpcode Cycles_Default DADDU, MakeOpcode Cycles_Default DSUB,
      MakeOpcode Cycles_Default DSUBU, MakeOpcode Cycles_Branch TGE, MakeOpcode Cycles_Branch TGEU,
      MakeOpcode Cycles_Branch TLT, MakeOpcode Cycles_Branch TLTU, MakeOpcode Cycles_Branch TEQ,
      UnknownOp, MakeOpcode Cycles_Branch TNE, UnknownOp, MakeOpcode Cycles_Default DSLL,
      UnknownOp, MakeOpcode Cycles_Default DSRL, MakeOpcode Cycles_Default DSRA,
      MakeOpcode Cycles_Default DSLL32, UnknownOp, MakeOpcode Cycles_Default DSRL32,
      MakeOpcode Cycles_Default DSRA32]"

definition Class_SPECIAL :: "'d ee_env \<Rightarrow> 'd run \<Rightarrow> u32 \<Rightarrow> 'd OPCODE" where
  "Class_SPECIAL E x op = tbl_Special E x ! unat (op AND 0x3F)"

definition tbl_Standard :: "'d ee_env \<Rightarrow> 'd run \<Rightarrow> 'd OPCODE list" where
  "tbl_Standard E x =
     [OpcodeClass (Class_SPECIAL E x), OpcodeClass (Class_REGIMM E x),
      MakeBranch Cycles_Default (J E x), MakeBranch Cycles_Default (JAL E x),
      MakeBranch Cycles_Branch (BEQ E x), MakeBranch Cycles_Branch (BNE E x),
      MakeBranch Cycles_Branch (BLEZ E x), MakeBranch Cycles_Branch (BGTZ E x),
      MakeOpcode Cycles_Default ADDI, MakeOpcode Cycles_Default ADDIU,
      MakeOpcode Cycles_Default SLTI, MakeOpcode Cycles_Default SLTIU,
      MakeOpcode Cycles_Default ANDI, MakeOpcode Cycles_Default ORI,
      MakeOpcode Cycles_Default XORI, MakeOpcode Cycles_Default LUI, OpcodeClass (Class_COP0 E x),
      OpcodeClass (Class_COP1 E x), MakeOpcodeRun Cycles_Default (coprocessor_op E x), UnknownOp,
      MakeBranch Cycles_Branch (BEQL E x), MakeBranch Cycles_Branch (BNEL E x),
      MakeBranch Cycles_Branch (BLEZL E x), MakeBranch Cycles_Branch (BGTZL E x),
      MakeOpcode Cycles_Default DADDI, MakeOpcode Cycles_Default DADDIU,
      MakeOpcodeMem Cycles_Load (LDL E), MakeOpcodeMem Cycles_Load (LDR E),
      OpcodeClass (Class_MMI E x), UnknownOp, MakeOpcodeMem Cycles_Load (LQ E),
      MakeOpcodeMem Cycles_Store (SQ E), MakeOpcodeMem Cycles_Load (LB E),
      MakeOpcodeMem Cycles_Load (LH E), MakeOpcodeMem Cycles_Load (LWL E),
      MakeOpcodeMem Cycles_Load (LW E), MakeOpcodeMem Cycles_Load (LBU E),
      MakeOpcodeMem Cycles_Load (LHU E), MakeOpcodeMem Cycles_Load (LWR E),
      MakeOpcodeMem Cycles_Load (LWU E), MakeOpcodeMem Cycles_Store (SB E),
      MakeOpcodeMem Cycles_Store (SH E), MakeOpcodeMem Cycles_Store (SWL E),
      MakeOpcodeMem Cycles_Store (SW E), MakeOpcodeMem Cycles_Store (SDL E),
      MakeOpcodeMem Cycles_Store (SDR E), MakeOpcodeMem Cycles_Store (SWR E),
      MakeOpcode Cycles_Default CACHE, UnknownOp,
      MakeOpcodeMem Cycles_Load (LWC1 E), UnknownOp, MakeOpcode Cycles_Default PREF, UnknownOp,
      UnknownOp, MakeOpcodeRun Cycles_Load (coprocessor_op E x), MakeOpcodeMem Cycles_Load (LD E),
      UnknownOp, MakeOpcodeMem Cycles_Store (SWC1 E), UnknownOp, UnknownOp, UnknownOp, UnknownOp,
      MakeOpcodeRun Cycles_Store (coprocessor_op E x), MakeOpcodeMem Cycles_Store (SD E)]"

section \<open>Fetch, decode, execute\<close>

primrec resolveClass :: "'d OPCODE \<Rightarrow> u32 \<Rightarrow> 'd OPCODE" where
  "resolveClass (Opcode c b f) = (\<lambda>op. Opcode c b f)"
| "resolveClass (OpcodeClass g) = (\<lambda>op. (resolveClass \<circ> g) op op)"

definition GetInstruction :: "'d ee_env \<Rightarrow> 'd run \<Rightarrow> u32 \<Rightarrow> 'd OPCODE" where
  "GetInstruction E x op = resolveClass (tbl_Standard E x ! unat (drop_bit 26 op)) op"

definition charge_cycles :: "u8 \<Rightarrow> 'd machine \<Rightarrow> 'd machine" where
  "charge_cycles c s =
     s\<lparr>cpuBlockCycles := cpuBlockCycles s + ucast c * (2 - (drop_bit 18 (CP0 s Config) AND 0x1))\<rparr>"

definition exec_with :: "'d ee_env \<Rightarrow> 'd run \<Rightarrow> 'd run" where
  "exec_with E x s =
     (let thispc = pc s; s = s\<lparr>pc := pc s + 4\<rparr> in
      run_bind (Some (vtlb_memRead (eeMem E) thispc s)) (\<lambda>op :: u32. \<lambda>s.
        let s = s\<lparr>code := op\<rparr>; opcode = GetInstruction E x (code s);
            s = charge_cycles (opcode_cycles opcode) s
        in opcode_interpret opcode s))"

primrec execI :: "'d ee_env \<Rightarrow> nat \<Rightarrow> 'd run" where
  "execI E 0 = (\<lambda>s. None)"
| "execI E (Suc n) = exec_with E (execI E n)"

text \<open>The fallback of the recompilers: one instruction, then the cycle count is flushed.\<close>

definition intExecuteOneInst :: "'d ee_env \<Rightarrow> nat \<Rightarrow> 'd run" where
  "intExecuteOneInst E n s = run_bind (execI E n s) (\<lambda>_ s. Some (Ok () (intUpdateCPUCycles E s)))"

text \<open>The main loop \<^verbatim>\<open>intExecute\<close> executes instruction after instruction; a cancelled one
  comes back to it with the state it left.\<close>

inductive intExecute :: "'d ee_env \<Rightarrow> 'd machine \<Rightarrow> 'd machine \<Rightarrow> bool" for E where
  start: "intExecute E s s"
| step: "intExecute E s t \<Longrightarrow> execI E n t = Some r \<Longrightarrow> intExecute E s (final r)"

section \<open>The zero register across instructions\<close>

lemma cop0_keeps_r0 [frame, simp]:
  "GPR (TLBR s) = GPR s" "GPR (TLBP s) = GPR s" "GPR (TLBWI s) = GPR s" "GPR (TLBWR s) = GPR s"
  by (simp_all add: TLBR_def TLBP_def TLBWI_def TLBWR_def WriteTLB_def Let_def split: option.splits)

lemma fRt_UpdatePCCR [simp]: "fRt (COP0_UpdatePCCR t) = fRt t"
  by (rule fields_cong) simp

lemma cop0_moves_keep_r0 [frame, simp]:
  "GPR (MFC0 t) 0 = GPR t 0" "GPR (MTC0 t) = GPR t" "GPR (ERET t) = GPR t" "GPR (EI t) = GPR t" "GPR (DI t) = GPR t"
  by (simp_all add: MFC0_def MTC0_def ERET_def EI_def DI_def Let_def WriteCP0Status_def WriteCP0Config_def cpuSetNextEventDelta_def)

lemma GPR_of_fold: "(\<And>i s. GPR (f i s) = GPR s) \<Longrightarrow> GPR (fold f xs s) = GPR s"
  by (induction xs arbitrary: s) simp_all

lemma Goemon_frame [simp]: "GPR (GoemonPreloadTlb M s) = GPR s" "GPR (GoemonUnloadTlb M k s) = GPR s"
  unfolding GoemonPreloadTlb_def GoemonUnloadTlb_def by (rule GPR_of_fold; simp add: Let_def)+

lemma fpu_base_frame [simp]:
  "GPR (wFd v s) = GPR s" "GPR (wCont w s) = GPR s" "GPR (snd (clampResult fO fU x s)) = GPR s"
  by (auto simp: wFd_def wCont_def clampResult_def checkOverflow_def checkUnderflow_def flag_write)

lemma put_frame [simp]: "GPR (put_Fd p) = GPR (snd p)" "GPR (put_FA p) = GPR (snd p)"
  by (simp_all add: put_Fd_def put_FA_def split_def)

lemma fpu_keeps_r0 [frame, simp]:
  "GPR (ABS_S s) = GPR s" "GPR (ADD_S E s) = GPR s" "GPR (ADDA_S E s) = GPR s" "GPR (C_EQ s) = GPR s"
  "GPR (C_F s) = GPR s" "GPR (C_LE s) = GPR s" "GPR (C_LT s) = GPR s" "GPR (CFC1 s) 0 = GPR s 0"
  "GPR (CTC1 s) = GPR s" "GPR (CVT_S E s) = GPR s" "GPR (CVT_W E s) = GPR s" "GPR (DIV_S E s) = GPR s"
  "GPR (MADD_S E s) = GPR s" "GPR (MADDA_S E s) = GPR s" "GPR (MAX_S s) = GPR s" "GPR (MFC1 s) 0 = GPR s 0"
  "GPR (MIN_S s) = GPR s" "GPR (MOV_S s) = GPR s" "GPR (MSUB_S E s) = GPR s" "GPR (MSUBA_S E s) = GPR s"
  "GPR (MTC1 s) = GPR s" "GPR (MUL_S E s) = GPR s" "GPR (MULA_S E s) = GPR s" "GPR (NEG_S s) = GPR s"
  "GPR (RSQRT_S E s) = GPR s" "GPR (SQRT_S E s) = GPR s" "GPR (SUB_S E s) = GPR s" "GPR (SUBA_S E s) = GPR s"
  by (simp_all add: ABS_S_def ADD_S_def ADDA_S_def C_EQ_def C_F_def C_LE_def C_LT_def CFC1_def CTC1_def CVT_S_def CVT_W_def
    DIV_S_def MADD_S_def MADDA_S_def MAX_S_def MFC1_def MIN_S_def MOV_S_def MSUB_S_def MSUBA_S_def MTC1_def MUL_S_def
    MULA_S_def NEG_S_def RSQRT_S_def SQRT_S_def SUB_S_def SUBA_S_def Let_def flag_write C_cond_def checkDivideByZero_def)

text \<open>The same for instructions that run others, and for opcodes.\<close>

definition run_r0 :: "'d run \<Rightarrow> bool" where
  "run_r0 x \<longleftrightarrow> (\<forall>s r. x s = Some r \<longrightarrow> GPR (final r) 0 = GPR s 0)"

primrec opcode_all :: "(bool \<Rightarrow> 'd run \<Rightarrow> bool) \<Rightarrow> 'd OPCODE \<Rightarrow> bool" where
  "opcode_all P (Opcode c b f) \<longleftrightarrow> P b f"
| "opcode_all P (OpcodeClass g) \<longleftrightarrow> All (opcode_all P \<circ> g)"

lemma opcode_all_class: "opcode_all P (OpcodeClass g) \<longleftrightarrow> (\<forall>op. opcode_all P (g op))"
  by (simp add: comp_def)

declare opcode_all.simps(2) [simp del]

lemma resolveClass_all: "opcode_all P oc \<Longrightarrow> opcode_all P (resolveClass oc op)"
  by (induction oc arbitrary: op) (simp_all add: opcode_all_class)

lemma resolveClass_Opcode: "\<exists>c b f. resolveClass oc op = Opcode c b f"
  by (induction oc arbitrary: op) simp_all

lemma run_r0D: "run_r0 x \<Longrightarrow> x s = Some r \<Longrightarrow> GPR (final r) 0 = GPR s 0"
  by (simp add: run_r0_def)

lemma run_bind_r0:
  assumes "run_bind m f = Some r" "\<And>q. m = Some q \<Longrightarrow> GPR (final q) 0 = g"
    "\<And>v t. m = Some (Ok v t) \<Longrightarrow> GPR t 0 = g \<Longrightarrow> f v t = Some r \<Longrightarrow> GPR (final r) 0 = g"
  shows "GPR (final r) 0 = g"
  using assms by (cases "(m, f)" rule: run_bind.cases) auto

text \<open>Every index lies inside its table.\<close>

lemma index_bounds:
  "unat (op AND 0x3F) < 64" "unat (op AND 0x1F) < 32" "unat (op AND 0x03) < 4" "unat (drop_bit 26 op) < 64" for op :: u32
proof -
  have "unat (op AND m) \<le> unat m" for m using word_and_le1 [of op m] by (simp add: word_le_nat_alt)
  from this [of "0x3F"] this [of "0x1F"] this [of "0x03"]
  show "unat (op AND 0x3F) < 64" "unat (op AND 0x1F) < 32" "unat (op AND 0x03) < 4" by simp_all
  show "unat (drop_bit 26 op) < 64"
    using unsigned_less [of op, where 'a = nat] by (simp add: unat_drop_bit div_less_iff_less_mult)
qed

lemma table_lengths:
  "length (tbl_COP0_BC0 E x) = 32" "length (tbl_COP0_C0 E x) = 64" "length (tbl_COP1_BC1 E x) = 32" "length (tbl_COP1_S E x) = 64"
  "length (tbl_COP1_W E x) = 64" "length (tbl_MMI0 E x) = 32" "length (tbl_MMI1 E x) = 32" "length (tbl_MMI2 E x) = 32"
  "length (tbl_MMI3 E x) = 32" "length (tbl_COP0 E x) = 32" "length (tbl_COP1 E x) = 32" "length (tbl_MMI E x) = 64"
  "length (tbl_RegImm E x) = 32" "length (tbl_Special E x) = 64" "length (tbl_Standard E x) = 64"
  by (simp_all add: tbl_COP0_BC0_def tbl_COP0_C0_def tbl_COP1_BC1_def tbl_COP1_S_def tbl_COP1_W_def tbl_MMI0_def tbl_MMI1_def
    tbl_MMI2_def tbl_MMI3_def tbl_COP0_def tbl_COP1_def tbl_MMI_def tbl_RegImm_def tbl_Special_def tbl_Standard_def)

lemma list_all_replicate: "P c \<Longrightarrow> list_all P (replicate n c)"
  by (induction n) simp_all

text \<open>A property of all opcodes of the tables is one of all decoded opcodes.\<close>

lemma class_opcodes:
  "list_all P (tbl_COP0_BC0 E x) \<Longrightarrow> P (Class_COP0_BC0 E x op)" "list_all P (tbl_COP0_C0 E x) \<Longrightarrow> P (Class_COP0_C0 E x op)"
  "list_all P (tbl_COP1_BC1 E x) \<Longrightarrow> P (Class_COP1_BC1 E x op)" "list_all P (tbl_COP1_S E x) \<Longrightarrow> P (Class_COP1_S E x op)"
  "list_all P (tbl_COP1_W E x) \<Longrightarrow> P (Class_COP1_W E x op)" "list_all P (tbl_MMI0 E x) \<Longrightarrow> P (Class_MMI0 E x op)"
  "list_all P (tbl_MMI1 E x) \<Longrightarrow> P (Class_MMI1 E x op)" "list_all P (tbl_MMI2 E x) \<Longrightarrow> P (Class_MMI2 E x op)"
  "list_all P (tbl_MMI3 E x) \<Longrightarrow> P (Class_MMI3 E x op)" "list_all P (tbl_COP0 E x) \<Longrightarrow> P (Class_COP0 E x op)"
  "list_all P (tbl_COP1 E x) \<Longrightarrow> P (Class_COP1 E x op)" "list_all P (tbl_MMI E x) \<Longrightarrow> P (Class_MMI E x op)"
  "list_all P (tbl_RegImm E x) \<Longrightarrow> P (Class_REGIMM E x op)" "list_all P (tbl_Special E x) \<Longrightarrow> P (Class_SPECIAL E x op)"
  using index_bounds(1,2) [of op] index_bounds(2) [of "drop_bit 16 op"] index_bounds(2) [of "drop_bit 6 op"] index_bounds(2) [of "drop_bit 21 op"]
    less_trans [OF index_bounds(3) [of "drop_bit 16 op"], of 32]
  by (simp_all add: list_all_length table_lengths Class_COP0_BC0_def Class_COP0_C0_def Class_COP1_BC1_def Class_COP1_S_def Class_COP1_W_def
    Class_MMI0_def Class_MMI1_def Class_MMI2_def Class_MMI3_def Class_COP0_def Class_COP1_def Class_MMI_def Class_REGIMM_def Class_SPECIAL_def)

text \<open>What the environment promises: the devices, the event test, the patched
  system calls and the coprocessors leave register 0 alone, and reading memory does not change the
  current instruction word.\<close>

locale r0_env =
  fixes E :: "'d ee_env"
  assumes hw_read_code: "code (final (hw_read (eeMem E) w h a s)) = code s"
    and hw_read_r0: "GPR (final (hw_read (eeMem E) w h a s)) 0 = GPR s 0"
    and hw_write_r0: "GPR (final (hw_write (eeMem E) w h a d s)) 0 = GPR s 0"
    and EventTest_r0: "GPR (final (EventTest E s)) 0 = GPR s 0"
    and syscall_r0: "GPR (final (syscall_hle E s)) 0 = GPR s 0"
    and coprocessor_r0: "run_r0 x \<Longrightarrow> run_r0 (coprocessor_op E x)"
begin

lemma Miss_r0: "GPR (vtlb_Miss a m s) 0 = GPR s 0"
  by (simp add: vtlb_Miss_def cpuTlbMissR_def cpuTlbMissW_def)

lemma call_read_r0: "GPR (final (call_read (eeMem E) w h a s)) 0 = GPR s 0"
  using hw_read_r0
  by (auto simp: call_read_def vtlbUnmappedPRead_def Miss_r0 split_def)

lemma call_write_r0: "GPR (final (call_write (eeMem E) w h a d s)) 0 = GPR s 0"
  using hw_write_r0 by (auto simp: call_write_def vtlbUnmappedPWrite_def Miss_r0)

lemma memRead_r0: "GPR (final (vtlb_memRead (eeMem E) a s :: ('a::len word, 'd machine) outcome)) 0 = GPR s 0"
proof -
  have "GPR (final (obind (call_read (eeMem E) w h p s) (\<lambda>v s. Ok (f v) s))) 0 = GPR s 0" for w h p and f :: "u128 \<Rightarrow> 'a word"
    using call_read_r0 [of w h p s] by (cases "call_read (eeMem E) w h p s") simp_all
  then show ?thesis by (auto simp: vtlb_memRead_def Let_def split_def)
qed

lemma call_read_code: "call_read (eeMem E) w h a s = Ok v t \<Longrightarrow> code t = code s"
  using hw_read_code [of w h a s]
  by (auto simp: call_read_def vtlbUnmappedPRead_def split_def split: if_splits)

lemma memRead_code:
  assumes "vtlb_memRead (eeMem E) a s = (Ok v t :: ('a::len word, 'd machine) outcome)"
  shows "code t = code s"
proof -
  have "code t = code s" if "obind (call_read (eeMem E) w h p s) (\<lambda>v s. Ok (f v) s) = Ok v t" for w h p and f :: "u128 \<Rightarrow> 'a word"
    using that call_read_code by (cases "call_read (eeMem E) w h p s") auto
  then show ?thesis
    using assms by (auto simp: vtlb_memRead_def Let_def split_def split: if_splits)
qed

lemma memWrite_r0: "GPR (final (vtlb_memWrite (eeMem E) a (d :: 'a::len word) s)) 0 = GPR s 0"
  using call_write_r0 by (simp add: vtlb_memWrite_def Let_def)

text \<open>One lemma carries every load and store: what follows an access keeps register 0.\<close>

lemma bind_r0: "GPR (final m) 0 = g \<Longrightarrow> (\<And>v s. m = Ok v s \<Longrightarrow> GPR s 0 = g \<Longrightarrow> GPR (final (f v s)) 0 = g) \<Longrightarrow> GPR (final (obind m f)) 0 = g"
  by (cases m) simp_all

lemma update_cycles_r0 [simp]: "GPR (intUpdateCPUCycles E s) = GPR s"
  by (simp add: intUpdateCPUCycles_def Let_def)

lemma sync_r0: "GPR (final (sync_after_read E a s)) 0 = GPR s 0"
  by (simp add: sync_after_read_def EventTest_r0)

lemma aligned_r0: "GPR (final (check_aligned m a s)) 0 = GPR s 0"
  by (simp add: check_aligned_def RaiseAddressError_def)

lemma LD_r0: "GPR (final (LD E s)) 0 = GPR s 0"
proof (cases "eff_addr s AND 7 = 0 \<and> fRt s \<noteq> 0")
  case True
  have "GPR (final (obind (vtlb_memRead (eeMem E) (eff_addr s) s) (\<lambda>temp :: u64. \<lambda>s. Ok () (wUD (fRt s) 0 temp s)))) 0 = GPR s 0"
    using memRead_code fields_cong(2) True by (intro bind_r0 memRead_r0) fastforce
  then show ?thesis using True by (simp add: LD_def check_aligned_def)
qed (auto simp: LD_def check_aligned_def RaiseAddressError_def Let_def)

lemma memory_ops_r0:
  "GPR (final (LB E s)) 0 = GPR s 0" "GPR (final (LBU E s)) 0 = GPR s 0" "GPR (final (LH E s)) 0 = GPR s 0"
  "GPR (final (LHU E s)) 0 = GPR s 0" "GPR (final (LW E s)) 0 = GPR s 0" "GPR (final (LWU E s)) 0 = GPR s 0"
  "GPR (final (LQ E s)) 0 = GPR s 0" "GPR (final (LWL E s)) 0 = GPR s 0"
  "GPR (final (LWR E s)) 0 = GPR s 0" "GPR (final (LDL E s)) 0 = GPR s 0" "GPR (final (LDR E s)) 0 = GPR s 0"
  "GPR (final (SB E s)) 0 = GPR s 0" "GPR (final (SH E s)) 0 = GPR s 0" "GPR (final (SW E s)) 0 = GPR s 0"
  "GPR (final (SD E s)) 0 = GPR s 0" "GPR (final (SQ E s)) 0 = GPR s 0" "GPR (final (SWL E s)) 0 = GPR s 0"
  "GPR (final (SWR E s)) 0 = GPR s 0" "GPR (final (SDL E s)) 0 = GPR s 0" "GPR (final (SDR E s)) 0 = GPR s 0"
  "GPR (final (LWC1 E s)) 0 = GPR s 0" "GPR (final (SWC1 E s)) 0 = GPR s 0"
  by (auto simp: LB_def LBU_def LH_def LHU_def LW_def LWU_def LQ_def LWL_def LWR_def LDL_def LDR_def
    SB_def SH_def SW_def SD_def SQ_def SWL_def SWR_def SDL_def SDR_def LWC1_def SWC1_def Let_def vtlb_memRead128_def vtlb_memWrite128_def
    memWrite_r0 memRead_r0 aligned_r0 sync_r0 intro!: bind_r0)

lemma intEventTest_r0: "run_r0 (intEventTest E)"
  by (auto simp: run_r0_def intEventTest_def EventTest_r0)

lemma doBranch_shared_r0: "run_r0 x \<Longrightarrow> run_r0 (doBranch_shared E x tar)"
  unfolding run_r0_def doBranch_shared_def
  by (intro allI impI, erule run_bind_r0)
    (force simp: skip_to_event_def Let_def split: if_splits option.splits)+

lemma doBranch_r0:
  assumes "run_r0 x"
  shows "run_r0 (doBranch E x tar)" "run_r0 (intDoBranch E x tar)"
  using doBranch_shared_r0 [OF assms, of tar] intEventTest_r0
  by (auto simp: run_r0_def doBranch_def intDoBranch_def elim!: run_bind_r0 split: if_splits)

lemma SetLink_r0 [simp]: "r \<noteq> 0 \<Longrightarrow> GPR (SetLink r s) 0 = GPR s 0"
  by (simp add: SetLink_def)

lemma branch_r0:
  assumes "run_r0 x"
  shows "run_r0 (J E x)" "run_r0 (JAL E x)" "run_r0 (BEQ E x)" "run_r0 (BNE E x)" "run_r0 (BGEZ E x)" "run_r0 (BGEZAL E x)"
    "run_r0 (BGTZ E x)" "run_r0 (BLEZ E x)" "run_r0 (BLTZ E x)" "run_r0 (BLTZAL E x)" "run_r0 (BEQL E x)" "run_r0 (BNEL E x)"
    "run_r0 (BLEZL E x)" "run_r0 (BGTZL E x)" "run_r0 (BLTZL E x)" "run_r0 (BGEZL E x)" "run_r0 (BLTZALL E x)" "run_r0 (BGEZALL E x)"
    "run_r0 (JR E x)" "run_r0 (JALR E x)" "run_r0 (BC0F E x)" "run_r0 (BC0T E x)" "run_r0 (BC0FL E x)" "run_r0 (BC0TL E x)"
    "run_r0 (BC1F E x)" "run_r0 (BC1T E x)" "run_r0 (BC1FL E x)" "run_r0 (BC1TL E x)"
  by (auto simp: run_r0_def J_def JAL_def BEQ_def BNE_def BGEZ_def BGEZAL_def BGTZ_def BLEZ_def BLTZ_def BLTZAL_def BEQL_def BNEL_def
    BLEZL_def BGTZL_def BLTZL_def BGEZL_def BLTZALL_def BGEZALL_def JR_def JALR_def BC0F_def BC0T_def BC0FL_def BC0TL_def BC1F_def BC1T_def
    BC1FL_def BC1TL_def Let_def split: if_splits
    dest!: run_r0D [OF doBranch_r0(1) [OF assms]] run_r0D [OF doBranch_r0(2) [OF assms]] run_r0D [OF intEventTest_r0])

lemma SYSCALL_r0: "GPR (final (SYSCALL E s)) 0 = GPR s 0"
  unfolding SYSCALL_def by (rule bind_r0) (auto simp: syscall_r0 Let_def)

lemma MakeOpcode_r0:
  "(\<And>s. GPR (f s) 0 = GPR s 0) \<Longrightarrow> opcode_all (\<lambda>_. run_r0) (MakeOpcode c f)"
  "(\<And>s. GPR (final (g s)) 0 = GPR s 0) \<Longrightarrow> opcode_all (\<lambda>_. run_r0) (MakeOpcodeMem c g)" "run_r0 x \<Longrightarrow> opcode_all (\<lambda>_. run_r0) (MakeBranch c x)" "opcode_all (\<lambda>_. run_r0) UnknownOp"
  "run_r0 x \<Longrightarrow> opcode_all (\<lambda>_. run_r0) (MakeOpcodeRun c x)"
  by (simp_all add: MakeOpcode_def MakeOpcodeMem_def MakeOpcodeRun_def MakeBranch_def UnknownOp_def run_r0_def)

lemma lifted_r0: "run_r0 (\<lambda>s. Some (SYSCALL E s))" "run_r0 (\<lambda>s. Some (Ok () (ERET s)))"
  by (simp_all add: run_r0_def SYSCALL_r0)

lemmas opcode_facts = lifted_r0 MakeOpcode_r0 branch_r0 memory_ops_r0 LD_r0 SYSCALL_r0 coprocessor_r0 list_all_replicate

lemma tables_r0:
  assumes "run_r0 x"
  shows "list_all (opcode_all (\<lambda>_. run_r0)) (tbl_COP0_BC0 E x)"
    "list_all (opcode_all (\<lambda>_. run_r0)) (tbl_COP0_C0 E x)"
    "list_all (opcode_all (\<lambda>_. run_r0)) (tbl_COP1_BC1 E x)"
    "list_all (opcode_all (\<lambda>_. run_r0)) (tbl_COP1_S E x)"
    "list_all (opcode_all (\<lambda>_. run_r0)) (tbl_COP1_W E x)"
    "list_all (opcode_all (\<lambda>_. run_r0)) (tbl_MMI0 E x)"
    "list_all (opcode_all (\<lambda>_. run_r0)) (tbl_MMI1 E x)"
    "list_all (opcode_all (\<lambda>_. run_r0)) (tbl_MMI2 E x)"
    "list_all (opcode_all (\<lambda>_. run_r0)) (tbl_MMI3 E x)"
  by (simp_all add: tbl_COP0_BC0_def tbl_COP0_C0_def tbl_COP1_BC1_def tbl_COP1_S_def tbl_COP1_W_def tbl_MMI0_def tbl_MMI1_def tbl_MMI2_def tbl_MMI3_def opcode_facts assms)

lemma upper_tables_r0:
  assumes "run_r0 x"
  shows "list_all (opcode_all (\<lambda>_. run_r0)) (tbl_COP0 E x)" "list_all (opcode_all (\<lambda>_. run_r0)) (tbl_COP1 E x)" "list_all (opcode_all (\<lambda>_. run_r0)) (tbl_MMI E x)"
    "list_all (opcode_all (\<lambda>_. run_r0)) (tbl_RegImm E x)" "list_all (opcode_all (\<lambda>_. run_r0)) (tbl_Special E x)"
  using tables_r0 [OF assms]
  by (simp_all add: tbl_COP0_def tbl_COP1_def tbl_MMI_def tbl_RegImm_def tbl_Special_def opcode_facts opcode_all_class assms class_opcodes [where P = "opcode_all (\<lambda>_. run_r0)"])

lemma Standard_r0: "run_r0 x \<Longrightarrow> list_all (opcode_all (\<lambda>_. run_r0)) (tbl_Standard E x)"
  using upper_tables_r0 [of x] by (simp add: tbl_Standard_def opcode_facts opcode_all_class class_opcodes [where P = "opcode_all (\<lambda>_. run_r0)"])

lemma GetInstruction_r0: "run_r0 x \<Longrightarrow> opcode_all (\<lambda>_. run_r0) (GetInstruction E x op)"
  unfolding GetInstruction_def using Standard_r0 index_bounds(4) [of op]
  by (intro resolveClass_all) (simp add: list_all_length table_lengths)

lemma exec_with_r0:
  assumes "run_r0 x"
  shows "run_r0 (exec_with E x)"
proof -
  have "run_r0 (opcode_interpret (GetInstruction E x op))" for op
    using GetInstruction_r0 [OF assms, of op] resolveClass_Opcode [of "tbl_Standard E x ! unat (drop_bit 26 op)" op]
    by (auto simp: GetInstruction_def)
  then show ?thesis
    unfolding run_r0_def exec_with_def Let_def
    by (auto simp: memRead_r0 charge_cycles_def elim!: run_bind_r0)
qed

lemma execI_r0: "run_r0 (execI E n)"
  by (induction n) (simp_all add: exec_with_r0, simp add: run_r0_def)

lemma intExecute_r0: "intExecute E s t \<Longrightarrow> GPR t 0 = GPR s 0"
  by (induction rule: intExecute.induct) (simp_all add: run_r0D [OF execI_r0])

end

section \<open>Fetching from memory\<close>

lemma translate_vmap: "vmap s = vmap t \<Longrightarrow> translate s a = translate t a"
  by (simp add: translate_def)

lemma exec_ptr:
  fixes x :: "'d run"
  assumes "translate s (pc s) = Ptr p" "\<not> CHECK_CACHE (eeMem E)"
  defines "op \<equiv> hostLoad (host s) p :: u32"
  shows "exec_with E x s = opcode_interpret (GetInstruction E x op)
    (charge_cycles (opcode_cycles (GetInstruction E x op)) (s\<lparr>pc := pc s + 4, code := op\<rparr>))"
proof -
  have "translate (s\<lparr>pc := pc s + 4\<rparr>) (pc s) = Ptr p" using assms(1) translate_vmap [of "s\<lparr>pc := pc s + 4\<rparr>" s] by simp
  then show ?thesis using read_ptr [of "s\<lparr>pc := pc s + 4\<rparr>" "pc s" p "eeMem E", where 'b = 32] assms(2)
    by (simp add: exec_with_def op_def Let_def)
qed

lemma hostLoad_zero [simp]: "hostLoad (\<lambda>_. 0) p = (0 :: u32)"
  by (simp add: hostLoad_def upt_rec)

lemma GetInstruction_nop: "GetInstruction E x 0 = MakeOpcode Cycles_Default SLL"
  by (simp add: GetInstruction_def tbl_Standard_def Class_SPECIAL_def tbl_Special_def MakeOpcode_def)

interpretation plain: r0_env ee_plain
  by unfold_locales (simp_all add: ee_plain_def no_env_def run_r0_def)

text \<open>
  C6: register 0 reads as zero in every state the interpreter reaches: no instruction of the tables, no
  exception, delay slot or abandoned instruction changes it, as long as devices, the event
  test, patched system calls and the other coprocessors do not.
\<close>
theorem r0_reads_zero:
  assumes "r0_env E" "r0_zero s" "intExecute E s t"
  shows "r0_zero t"
  using r0_env.intExecute_r0 [OF assms(1,3)] assms(2) by (simp add: r0_zero_def)

theorem r0_reads_zero_witness: "r0_zero (final (the (execI ee_plain 1 machine_ram)))"
proof -
  have "execI ee_plain 1 machine_ram \<noteq> None"
    by (simp add: exec_ptr [OF ram_translate] GetInstruction_nop MakeOpcode_def)
  then obtain r where "execI ee_plain 1 machine_ram = Some r" by blast
  then have "r0_zero (final r)"
    using r0_reads_zero [OF plain.r0_env_axioms _ intExecute.step [OF intExecute.start], of machine_ram 1 r] by (simp add: r0_zero_def)
  then show ?thesis using \<open>execI ee_plain 1 machine_ram = Some r\<close> by (simp only: option.sel)
qed

section \<open>Branches and delay slots\<close>

text \<open>The conditional branches with what they are: whether the instruction links, whether it is
  likely, and its condition, which the code tests after it wrote the link register.\<close>

definition cond_branches :: "'d ee_env \<Rightarrow> 'd run \<Rightarrow> ('d run \<times> bool \<times> bool \<times> ('d machine \<Rightarrow> bool)) list" where
  "cond_branches E x =
     [(BEQ E x, False, False, \<lambda>s. UD 0 (GPR s (fRs s)) = UD 0 (GPR s (fRt s))),
      (BNE E x, False, False, \<lambda>s. UD 0 (GPR s (fRs s)) \<noteq> UD 0 (GPR s (fRt s))),
      (BGEZ E x, False, False, \<lambda>s. 0 \<le>s UD 0 (GPR s (fRs s))),
      (BGEZAL E x, True, False, \<lambda>s. 0 \<le>s UD 0 (GPR s (fRs s))),
      (BGTZ E x, False, False, \<lambda>s. 0 <s UD 0 (GPR s (fRs s))),
      (BLEZ E x, False, False, \<lambda>s. UD 0 (GPR s (fRs s)) \<le>s 0),
      (BLTZ E x, False, False, \<lambda>s. UD 0 (GPR s (fRs s)) <s 0),
      (BLTZAL E x, True, False, \<lambda>s. UD 0 (GPR s (fRs s)) <s 0),
      (BEQL E x, False, True, \<lambda>s. UD 0 (GPR s (fRs s)) = UD 0 (GPR s (fRt s))),
      (BNEL E x, False, True, \<lambda>s. UD 0 (GPR s (fRs s)) \<noteq> UD 0 (GPR s (fRt s))),
      (BLEZL E x, False, True, \<lambda>s. UD 0 (GPR s (fRs s)) \<le>s 0),
      (BGTZL E x, False, True, \<lambda>s. 0 <s UD 0 (GPR s (fRs s))),
      (BLTZL E x, False, True, \<lambda>s. UD 0 (GPR s (fRs s)) <s 0),
      (BGEZL E x, False, True, \<lambda>s. 0 \<le>s UD 0 (GPR s (fRs s))),
      (BLTZALL E x, True, True, \<lambda>s. UD 0 (GPR s (fRs s)) <s 0),
      (BGEZALL E x, True, True, \<lambda>s. 0 \<le>s UD 0 (GPR s (fRs s))),
      (BC0F E x, False, False, \<lambda>s. \<not> CPCOND0 E s),
      (BC0T E x, False, False, \<lambda>s. CPCOND0 E s),
      (BC0FL E x, False, True, \<lambda>s. \<not> CPCOND0 E s),
      (BC0TL E x, False, True, \<lambda>s. CPCOND0 E s),
      (BC1F E x, False, False, \<lambda>s. \<not> bit (ContVal s) 23),
      (BC1T E x, False, False, \<lambda>s. bit (ContVal s) 23),
      (BC1FL E x, False, True, \<lambda>s. \<not> bit (ContVal s) 23),
      (BC1TL E x, False, True, \<lambda>s. bit (ContVal s) 23)]"

lemma and_flagC: "w AND FPUflagC = 0 \<longleftrightarrow> \<not> bit w 23"
proof -
  have "w AND 2 ^ n = 0 \<longleftrightarrow> \<not> bit w n" if "n < 32" for n
    using that and_exp_eq_0_iff_not_bit [of w n] by simp
  from this [of 23] show ?thesis by (simp add: FPUflagC_def)
qed

text \<open>What the wait-loop hack takes for an empty loop: the one address the code names, or at most ten words up to
  the end of the slot none of which has a host address.\<close>

definition empty_loop :: "u32 \<Rightarrow> 'd machine \<Rightarrow> bool" where
  "empty_loop tar s \<longleftrightarrow> tar = 0x81fc0 \<or>
     pc s - tar < 40 \<and> (tar < pc s \<longrightarrow> (\<forall>k < unat (pc s - tar) div 4. PSM (tar + 4 * of_nat k) s = None))"

definition wait_loop :: "'d ee_env \<Rightarrow> u32 \<Rightarrow> 'd machine \<Rightarrow> 'd machine" where
  "wait_loop E tar s =
     (if WaitLoop E \<and> intLastBranchTo s = tar
      then let s = intUpdateCPUCycles E s in if empty_loop tar s then skip_to_event s else s
      else s)"

lemma scan_loop_words:
  "unat (pc s) = unat i + 4 * m \<Longrightarrow> m \<le> n \<Longrightarrow> scan_loop n i s = Some (\<forall>k<m. PSM (i + 4 * of_nat k) s = None)"
proof (induction m arbitrary: i n)
  case 0
  then have "\<not> i < pc s" by (simp add: word_less_nat_alt)
  then show ?case by (subst scan_loop.simps) simp
next
  case (Suc m)
  have u: "unat (i + 4) = unat i + 4"
    using Suc.prems(1) unsigned_less [of "pc s", where 'a = nat] unat_add_lem [of i 4] by simp
  have "i < pc s" using Suc.prems(1) by (simp add: word_less_nat_alt)
  moreover have "scan_loop (n - 1) (i + 4) s = Some (\<forall>k<m. PSM (i + 4 + 4 * of_nat k) s = None)"
    using Suc.prems u by (intro Suc.IH) simp_all
  ultimately show ?case
    using Suc.prems(2) by (subst scan_loop.simps) (auto simp: All_less_Suc2 algebra_simps)
qed

lemma can_skip_empty_loop:
  assumes "pc s AND 3 = tar AND 3"
  shows "can_skip tar s = Some (empty_loop tar s)"
proof (cases "tar \<noteq> 0x81fc0 \<and> pc s - tar < 40 \<and> tar < pc s")
  case True
  have m: "unat (x AND 3) = unat x mod 4" for x :: u32
  proof -
    have "x AND 3 = take_bit 2 x" by (simp add: take_bit_eq_mask mask_eq_decr_exp)
    then show ?thesis by (simp only: unsigned_take_bit_eq) (simp add: take_bit_eq_mod)
  qed
  have e: "unat (pc s) mod 4 = unat tar mod 4" using assms by (simp only: m [symmetric])
  have l: "unat tar < unat (pc s)" using True by (simp add: word_less_nat_alt)
  then have d: "unat (pc s - tar) = unat (pc s) - unat tar" by (simp add: unat_sub word_le_nat_alt)
  have "4 dvd unat (pc s) - unat tar" using e l by (metis mod_eq_dvd_iff_nat less_imp_le)
  then have u: "unat (pc s) = unat tar + 4 * (unat (pc s - tar) div 4)" using l unfolding d by auto
  have "unat (pc s - tar) < 40" using True by (simp add: word_less_nat_alt)
  then have "unat (pc s - tar) div 4 \<le> 2 ^ 30" by (simp add: div_le_mono le_trans [OF div_le_dividend])
  from scan_loop_words [OF u this] True show ?thesis by (simp add: can_skip_def empty_loop_def)
next
  case False
  have "scan_loop n tar s = Some True" if "\<not> tar < pc s" for n using that by (subst scan_loop.simps) simp
  with False show ?thesis by (auto simp: can_skip_def empty_loop_def)
qed

text \<open>The result \<open>r\<close> of a branch to \<open>tar\<close> that is taken in the state \<open>s\<close>: a slot that abandons its instruction leaves the
  state as it is, one that raised an exception drops the target, and any other is followed by the jump.\<close>

definition branch_taken :: "'d ee_env \<Rightarrow> 'd run \<Rightarrow> u32 \<Rightarrow> 'd machine \<Rightarrow> (unit, 'd machine) outcome option \<Rightarrow> bool" where
  "branch_taken E x tar s r \<longleftrightarrow>
     (\<forall>t. x (s\<lparr>branch := 1\<rparr>) = Some (Cancelled t) \<longrightarrow> r = Some (Cancelled t)) \<and>
     (\<forall>t. x (s\<lparr>branch := 1\<rparr>) = Some (Ok () t) \<and> branch t = 0 \<longrightarrow> r = Some (EventTest E (intUpdateCPUCycles E t))) \<and>
     (\<forall>t. x (s\<lparr>branch := 1\<rparr>) = Some (Ok () t) \<and> branch t \<noteq> 0 \<and> (\<not> WaitLoop E \<or> pc t AND 3 = tar AND 3) \<longrightarrow>
       r = Some (EventTest E (intUpdateCPUCycles E ((wait_loop E tar t)\<lparr>intLastBranchTo := tar, pc := tar, branch := 0\<rparr>))))"

lemma update_cycles_pc [simp]: "pc (intUpdateCPUCycles E s) = pc s"
  by (simp add: intUpdateCPUCycles_def Let_def)

lemma doBranch_taken:
  assumes "CpuIsInt E"
  shows "branch_taken E x tar s (doBranch E x tar s)" "branch_taken E x tar s (intDoBranch E x tar s)"
  using assms can_skip_empty_loop [of "intUpdateCPUCycles E t" tar for t]
  by (auto simp: branch_taken_def doBranch_def intDoBranch_def doBranch_shared_def intEventTest_def wait_loop_def Let_def)

lemma BranchTarget_SetLink [simp]: "BranchTarget (SetLink r s) = BranchTarget s" "pc (SetLink r s) = pc s"
  by (simp_all add: BranchTarget_def SetLink_def Imm_def)

text \<open>
  C8: on the interpreter (not in the fallback of the recompilers, which leaves the event test to its
  caller), a conditional branch of the interpreter, of coprocessor 0 or of the floating-point unit whose condition holds
  executes the instruction in its delay slot, in a state marked as a branch. When the slot is abandoned, by a TLB miss,
  an address error or another exit, the branch ends with it: the target is dropped and the state is the one
  the slot left. When the slot raised an exception and went on, which clears the mark, the target is dropped too and execution
  goes on at the handler. Otherwise execution continues at the target, which was computed from the address of
  the slot. With the wait-loop hack, for a target that is a whole number of words away, the second branch in a row to
  the same target advances the clock, to the next event exactly if the loop counts as empty. When the condition fails
  a likely branch skips the slot and another one goes on with it. Linking branches write the return
  address either way.
\<close>

theorem delayed_branches:
  assumes "(f, link, likely, cond) \<in> set (cond_branches E x)" "CpuIsInt E"
  shows "let s' = (if link then SetLink 31 s else s) in
    (cond s' \<longrightarrow> branch_taken E x (BranchTarget s) s' (f s)) \<and>
    (\<not> cond s' \<longrightarrow> (\<exists>r \<in> {Ok (), EventTest E}. f s = Some (r (if likely then s'\<lparr>pc := pc s + 4\<rparr> else s'))))"
proof -
  have "list_all (\<lambda>(f, link, likely, cond). let s' = (if link then SetLink 31 s else s) in
      (cond s' \<longrightarrow> branch_taken E x (BranchTarget s) s' (f s)) \<and>
      (\<not> cond s' \<longrightarrow> (\<exists>r \<in> {Ok (), EventTest E}. f s = Some (r (if likely then s'\<lparr>pc := pc s + 4\<rparr> else s')))))
      (cond_branches E x)"
    unfolding cond_branches_def
    by (simp add: BEQ_def BNE_def BGEZ_def BGEZAL_def BGTZ_def BLEZ_def BLTZ_def BLTZAL_def BEQL_def BNEL_def BLEZL_def BGTZL_def BLTZL_def BGEZL_def BLTZALL_def BGEZALL_def BC0F_def BC0T_def BC0FL_def BC0TL_def BC1F_def BC1T_def BC1FL_def BC1TL_def
      doBranch_taken [OF assms(2), of x] BranchTarget_SetLink and_flagC Let_def intEventTest_def)
  from bspec [OF this [unfolded list_all_iff] assms(1)] show ?thesis by (simp only: prod.case)
qed

theorem delayed_branches_witness:
  "let E = ee_plain\<lparr>WaitLoop := True\<rparr>; x = (\<lambda>s. Some (Ok () (s\<lparr>pc := pc s + 4\<rparr>)));
     s = machine_ram\<lparr>code := 0x1420FFFF, GPR := (\<lambda>_. 0)(1 := 5), intLastBranchTo := 0x1000\<rparr>
   in BNE E x (s\<lparr>pc := 0x1004\<rparr>) = Some (Ok () (intUpdateCPUCycles E
        ((skip_to_event (intUpdateCPUCycles E (s\<lparr>branch := 1, pc := 0x1008\<rparr>)))\<lparr>intLastBranchTo := 0x1000, pc := 0x1000, branch := 0\<rparr>)))"
proof -
  let ?E = "ee_plain\<lparr>WaitLoop := True\<rparr>"
  let ?x = "\<lambda>s. Some (Ok () (s\<lparr>pc := pc s + 4\<rparr>)) :: (unit, unit machine) outcome option"
  let ?s = "machine_ram\<lparr>code := 0x1420FFFF, GPR := (\<lambda>_. 0)(1 := 5), intLastBranchTo := 0x1000\<rparr>"
  have b: "(BNE ?E ?x, False, False, \<lambda>s. UD 0 (GPR s (fRs s)) \<noteq> UD 0 (GPR s (fRt s))) \<in> set (cond_branches ?E ?x)"
    by (simp add: cond_branches_def)
  have c: "CpuIsInt ?E" by (simp add: ee_plain_def)
  have t: "BranchTarget (?s\<lparr>pc := 0x1004\<rparr>) = 0x1000" by (simp add: BranchTarget_def field_defs)
  have n: "UD 0 (GPR (?s\<lparr>pc := 0x1004\<rparr>) (fRs (?s\<lparr>pc := 0x1004\<rparr>))) \<noteq> UD 0 (GPR (?s\<lparr>pc := 0x1004\<rparr>) (fRt (?s\<lparr>pc := 0x1004\<rparr>)))"
    by (simp add: field_defs lane_defs lane_def)
  have "branch_taken ?E ?x 0x1000 (?s\<lparr>pc := 0x1004\<rparr>) (BNE ?E ?x (?s\<lparr>pc := 0x1004\<rparr>))"
    using delayed_branches [OF b c, of "?s\<lparr>pc := 0x1004\<rparr>"] n unfolding t Let_def by (simp only: if_False simp_thms)
  moreover have "empty_loop 0x1000 (intUpdateCPUCycles ?E (?s\<lparr>branch := 1, pc := 0x1008\<rparr>))"
    by (simp add: empty_loop_def PSM_def vtlb_GetPhyPtr_def phys_isHandler_def fromHandler_def machine_ram_def intUpdateCPUCycles_def Let_def POINTER_SIGN_BIT_def word_sless_alt)
  moreover have "EventTest ?E = Ok ()" "WaitLoop ?E" by (simp_all add: ee_plain_def)
  moreover have "(0x1008::u32) AND 3 = 0x1000 AND 3" by simp
  ultimately show ?thesis by (simp add: branch_taken_def wait_loop_def Let_def machine_ram_def)
qed


section \<open>Fuel\<close>

text \<open>More fuel gives the same result: an instruction that finishes with an interpreter finishes the
  same way with one that is defined on more states.\<close>

definition run_le :: "'d run \<Rightarrow> 'd run \<Rightarrow> bool" where
  "run_le f g \<longleftrightarrow> (\<forall>s r. f s = Some r \<longrightarrow> g s = Some r)"

primrec opcode_le :: "'d OPCODE \<Rightarrow> 'd OPCODE \<Rightarrow> bool" where
  "opcode_le (Opcode c b f) = (\<lambda>o'. \<exists>g. o' = Opcode c b g \<and> run_le f g)"
| "opcode_le (OpcodeClass h) = (\<lambda>o'. \<exists>h'. o' = OpcodeClass h' \<and> (\<forall>op. (opcode_le \<circ> h) op (h' op)))"

lemma run_le_refl [simp]: "run_le f f"
  by (simp add: run_le_def)

lemma run_leD: "run_le f g \<Longrightarrow> f s = Some r \<Longrightarrow> g s = Some r"
  by (simp add: run_le_def)

lemma run_bind_le:
  assumes "run_bind m f = Some r" "\<And>q. m = Some q \<Longrightarrow> m' = Some q" "\<And>v t. f v t = Some r \<Longrightarrow> f' v t = Some r"
  shows "run_bind m' f' = Some r"
  using assms by (cases "(m, f)" rule: run_bind.cases) auto

lemma branch_le:
  assumes "run_le x y"
  shows "run_le (doBranch E x tar) (doBranch E y tar)" "run_le (intDoBranch E x tar) (intDoBranch E y tar)"
proof -
  have "doBranch_shared E x tar s = Some r \<Longrightarrow> doBranch_shared E y tar s = Some r" for s r
    using assms unfolding doBranch_shared_def run_le_def by (elim run_bind_le) auto
  then show "run_le (doBranch E x tar) (doBranch E y tar)" "run_le (intDoBranch E x tar) (intDoBranch E y tar)"
    by (auto simp: run_le_def doBranch_def intDoBranch_def elim!: run_bind_le)
qed

lemma branches_le:
  assumes "run_le x y"
  shows "run_le (J E x) (J E y)" "run_le (JAL E x) (JAL E y)" "run_le (JR E x) (JR E y)" "run_le (JALR E x) (JALR E y)"
    "run_le (BEQ E x) (BEQ E y)" "run_le (BNE E x) (BNE E y)" "run_le (BGEZ E x) (BGEZ E y)" "run_le (BGEZAL E x) (BGEZAL E y)"
      "run_le (BGTZ E x) (BGTZ E y)" "run_le (BLEZ E x) (BLEZ E y)" "run_le (BLTZ E x) (BLTZ E y)" "run_le (BLTZAL E x) (BLTZAL E y)"
      "run_le (BEQL E x) (BEQL E y)" "run_le (BNEL E x) (BNEL E y)" "run_le (BLEZL E x) (BLEZL E y)" "run_le (BGTZL E x) (BGTZL E y)"
      "run_le (BLTZL E x) (BLTZL E y)" "run_le (BGEZL E x) (BGEZL E y)" "run_le (BLTZALL E x) (BLTZALL E y)" "run_le (BGEZALL E x) (BGEZALL E y)"
      "run_le (BC0F E x) (BC0F E y)" "run_le (BC0T E x) (BC0T E y)" "run_le (BC0FL E x) (BC0FL E y)" "run_le (BC0TL E x) (BC0TL E y)"
      "run_le (BC1F E x) (BC1F E y)" "run_le (BC1T E x) (BC1T E y)" "run_le (BC1FL E x) (BC1FL E y)" "run_le (BC1TL E x) (BC1TL E y)"
  using branch_le [OF assms]
  by (auto simp: run_le_def J_def JAL_def JR_def JALR_def BEQ_def BNE_def BGEZ_def BGEZAL_def BGTZ_def BLEZ_def BLTZ_def BLTZAL_def BEQL_def BNEL_def BLEZL_def BGTZL_def BLTZL_def BGEZL_def BLTZALL_def BGEZALL_def BC0F_def BC0T_def BC0FL_def BC0TL_def BC1F_def BC1T_def BC1FL_def BC1TL_def Let_def split: if_splits)

lemma opcode_le_simps:
  "opcode_le (MakeOpcode c f) (MakeOpcode c f)" "opcode_le (MakeOpcodeMem c g) (MakeOpcodeMem c g)" "opcode_le UnknownOp UnknownOp"
  "opcode_le (MakeBranch c h) (MakeBranch c h') \<longleftrightarrow> run_le h h'" "opcode_le (MakeOpcodeRun c h) (MakeOpcodeRun c h') \<longleftrightarrow> run_le h h'"
  "opcode_le (OpcodeClass k) (OpcodeClass k') \<longleftrightarrow> (\<forall>op. opcode_le (k op) (k' op))"
  by (simp_all add: MakeOpcode_def MakeOpcodeMem_def MakeOpcodeRun_def UnknownOp_def MakeBranch_def)

declare opcode_le.simps [simp del]

lemma list_all2_replicate: "P c c' \<Longrightarrow> list_all2 P (replicate n c) (replicate n c')"
  by (induction n) simp_all

lemma class_opcodes2:
  "list_all2 P (tbl_COP0_BC0 E x) (tbl_COP0_BC0 E y) \<Longrightarrow> P (Class_COP0_BC0 E x op) (Class_COP0_BC0 E y op)"
  "list_all2 P (tbl_COP0_C0 E x) (tbl_COP0_C0 E y) \<Longrightarrow> P (Class_COP0_C0 E x op) (Class_COP0_C0 E y op)"
  "list_all2 P (tbl_COP1_BC1 E x) (tbl_COP1_BC1 E y) \<Longrightarrow> P (Class_COP1_BC1 E x op) (Class_COP1_BC1 E y op)"
  "list_all2 P (tbl_COP1_S E x) (tbl_COP1_S E y) \<Longrightarrow> P (Class_COP1_S E x op) (Class_COP1_S E y op)"
  "list_all2 P (tbl_COP1_W E x) (tbl_COP1_W E y) \<Longrightarrow> P (Class_COP1_W E x op) (Class_COP1_W E y op)"
  "list_all2 P (tbl_MMI0 E x) (tbl_MMI0 E y) \<Longrightarrow> P (Class_MMI0 E x op) (Class_MMI0 E y op)"
  "list_all2 P (tbl_MMI1 E x) (tbl_MMI1 E y) \<Longrightarrow> P (Class_MMI1 E x op) (Class_MMI1 E y op)"
  "list_all2 P (tbl_MMI2 E x) (tbl_MMI2 E y) \<Longrightarrow> P (Class_MMI2 E x op) (Class_MMI2 E y op)"
  "list_all2 P (tbl_MMI3 E x) (tbl_MMI3 E y) \<Longrightarrow> P (Class_MMI3 E x op) (Class_MMI3 E y op)"
  "list_all2 P (tbl_COP0 E x) (tbl_COP0 E y) \<Longrightarrow> P (Class_COP0 E x op) (Class_COP0 E y op)"
  "list_all2 P (tbl_COP1 E x) (tbl_COP1 E y) \<Longrightarrow> P (Class_COP1 E x op) (Class_COP1 E y op)"
  "list_all2 P (tbl_MMI E x) (tbl_MMI E y) \<Longrightarrow> P (Class_MMI E x op) (Class_MMI E y op)"
  "list_all2 P (tbl_RegImm E x) (tbl_RegImm E y) \<Longrightarrow> P (Class_REGIMM E x op) (Class_REGIMM E y op)"
  "list_all2 P (tbl_Special E x) (tbl_Special E y) \<Longrightarrow> P (Class_SPECIAL E x op) (Class_SPECIAL E y op)"
  using index_bounds(1,2) [of op] index_bounds(2) [of "drop_bit 16 op"] index_bounds(2) [of "drop_bit 6 op"] index_bounds(2) [of "drop_bit 21 op"]
    less_trans [OF index_bounds(3) [of "drop_bit 16 op"], of 32]
  by (simp_all add: list_all2_conv_all_nth table_lengths Class_COP0_BC0_def Class_COP0_C0_def Class_COP1_BC1_def Class_COP1_S_def Class_COP1_W_def Class_MMI0_def Class_MMI1_def Class_MMI2_def Class_MMI3_def Class_COP0_def Class_COP1_def Class_MMI_def Class_REGIMM_def Class_SPECIAL_def)

lemma tables_le:
  assumes "run_le x y"
  shows "list_all2 opcode_le (tbl_COP0_BC0 E x) (tbl_COP0_BC0 E y)"
    "list_all2 opcode_le (tbl_COP0_C0 E x) (tbl_COP0_C0 E y)"
    "list_all2 opcode_le (tbl_COP1_BC1 E x) (tbl_COP1_BC1 E y)"
    "list_all2 opcode_le (tbl_COP1_S E x) (tbl_COP1_S E y)"
    "list_all2 opcode_le (tbl_COP1_W E x) (tbl_COP1_W E y)"
    "list_all2 opcode_le (tbl_MMI0 E x) (tbl_MMI0 E y)"
    "list_all2 opcode_le (tbl_MMI1 E x) (tbl_MMI1 E y)"
    "list_all2 opcode_le (tbl_MMI2 E x) (tbl_MMI2 E y)"
    "list_all2 opcode_le (tbl_MMI3 E x) (tbl_MMI3 E y)"
  by (simp_all add: tbl_COP0_BC0_def tbl_COP0_C0_def tbl_COP1_BC1_def tbl_COP1_S_def tbl_COP1_W_def tbl_MMI0_def tbl_MMI1_def tbl_MMI2_def tbl_MMI3_def opcode_le_simps branches_le assms list_all2_replicate list_all2_appendI)

lemma upper_tables_le:
  assumes "run_le x y"
  shows "list_all2 opcode_le (tbl_COP0 E x) (tbl_COP0 E y)"
    "list_all2 opcode_le (tbl_COP1 E x) (tbl_COP1 E y)"
    "list_all2 opcode_le (tbl_MMI E x) (tbl_MMI E y)"
    "list_all2 opcode_le (tbl_RegImm E x) (tbl_RegImm E y)"
    "list_all2 opcode_le (tbl_Special E x) (tbl_Special E y)"
  using tables_le [OF assms, of E]
  by (simp_all add: tbl_COP0_def tbl_COP1_def tbl_MMI_def tbl_RegImm_def tbl_Special_def opcode_le_simps branches_le assms list_all2_replicate list_all2_appendI class_opcodes2)

text \<open>The instructions of VU0 finish in the same way with an interpreter that is defined on more states.\<close>

definition coprocessor_le :: "'d ee_env \<Rightarrow> bool" where
  "coprocessor_le E \<longleftrightarrow> (\<forall>x y. run_le x y \<longrightarrow> run_le (coprocessor_op E x) (coprocessor_op E y))"

lemma Standard_le: "coprocessor_le E \<Longrightarrow> run_le x y \<Longrightarrow> list_all2 opcode_le (tbl_Standard E x) (tbl_Standard E y)"
  using upper_tables_le [of x y E]
  by (simp add: tbl_Standard_def opcode_le_simps branches_le class_opcodes2 coprocessor_le_def)

lemma resolveClass_le: "opcode_le a b \<Longrightarrow> opcode_le (resolveClass a op) (resolveClass b op)"
  by (induction a arbitrary: b op) (auto simp: opcode_le.simps)

lemma GetInstruction_le: "coprocessor_le E \<Longrightarrow> run_le x y \<Longrightarrow> opcode_le (GetInstruction E x op) (GetInstruction E y op)"
  unfolding GetInstruction_def using Standard_le [of E x y] index_bounds(4) [of op]
  by (intro resolveClass_le) (simp add: list_all2_conv_all_nth table_lengths)

lemma opcode_leD:
  assumes "opcode_le a b" "a = Opcode c br f"
  shows "opcode_cycles b = opcode_cycles a" "run_le (opcode_interpret a) (opcode_interpret b)"
  using assms by (auto simp: opcode_le.simps)

lemma exec_with_le:
  assumes "coprocessor_le E" "run_le x y"
  shows "run_le (exec_with E x) (exec_with E y)"
proof -
  have "opcode_cycles (GetInstruction E y op) = opcode_cycles (GetInstruction E x op) \<and>
      run_le (opcode_interpret (GetInstruction E x op)) (opcode_interpret (GetInstruction E y op))" for op
    using opcode_leD [OF GetInstruction_le [OF assms, of op]]
      resolveClass_Opcode [of "tbl_Standard E x ! unat (drop_bit 26 op)" op] by (auto simp: GetInstruction_def)
  then show ?thesis unfolding run_le_def exec_with_def Let_def by (auto elim!: run_bind_le)
qed

lemma execI_mono: "coprocessor_le E \<Longrightarrow> run_le (execI E n) (execI E (n + m))"
proof (induction n)
  case (Suc n)
  then show ?case using exec_with_le [of E "execI E n" "execI E (n + m)"] by simp
qed (simp add: run_le_def)

text \<open>A branch returns when the interpreter it is given returns on the slot: on every state that
  has the same address to fetch from and the same memory. Other instructions always return.\<close>

definition same_slot :: "'d machine \<Rightarrow> 'd machine \<Rightarrow> bool" where
  "same_slot s t \<longleftrightarrow> pc t = pc s \<and> vmap t = vmap s \<and> host t = host s"

definition returns_with :: "'d run \<Rightarrow> bool \<Rightarrow> 'd run \<Rightarrow> bool" where
  "returns_with x b f \<longleftrightarrow> (\<forall>s. (b \<longrightarrow> (\<forall>t. same_slot s t \<longrightarrow> x t \<noteq> None)) \<longrightarrow> f s \<noteq> None)"

lemma doBranch_returns:
  assumes "\<not> WaitLoop E" "x (s\<lparr>branch := 1\<rparr>) \<noteq> None"
  shows "doBranch E x tar s \<noteq> None" "intDoBranch E x tar s \<noteq> None"
proof -
  obtain q where "x (s\<lparr>branch := 1\<rparr>) = Some q" using assms(2) by blast
  then show "doBranch E x tar s \<noteq> None" "intDoBranch E x tar s \<noteq> None"
    using assms(1) by (cases q; simp add: doBranch_def intDoBranch_def doBranch_shared_def intEventTest_def)+
qed

lemma same_slot_simps [simp]:
  "same_slot s (s\<lparr>branch := b\<rparr>)" "same_slot s (SetLink r s\<lparr>branch := b\<rparr>)"
  by (simp_all add: same_slot_def SetLink_def)

lemma branches_return:
  assumes "\<not> WaitLoop E" "\<not> GoemonTlbHack E"
  shows "returns_with x True (J E x)" "returns_with x True (JAL E x)" "returns_with x True (JR E x)" "returns_with x True (JALR E x)"
    "returns_with x True (BEQ E x)" "returns_with x True (BNE E x)" "returns_with x True (BGEZ E x)" "returns_with x True (BGEZAL E x)"
    "returns_with x True (BGTZ E x)" "returns_with x True (BLEZ E x)" "returns_with x True (BLTZ E x)" "returns_with x True (BLTZAL E x)"
    "returns_with x True (BEQL E x)" "returns_with x True (BNEL E x)" "returns_with x True (BLEZL E x)" "returns_with x True (BGTZL E x)"
    "returns_with x True (BLTZL E x)" "returns_with x True (BGEZL E x)" "returns_with x True (BLTZALL E x)" "returns_with x True (BGEZALL E x)"
    "returns_with x True (BC0F E x)" "returns_with x True (BC0T E x)" "returns_with x True (BC0FL E x)" "returns_with x True (BC0TL E x)"
    "returns_with x True (BC1F E x)" "returns_with x True (BC1T E x)" "returns_with x True (BC1FL E x)" "returns_with x True (BC1TL E x)"
  using doBranch_returns [OF assms(1), where x = x] assms(2) unfolding returns_with_def
  by (simp_all add: J_def JAL_def JR_def JALR_def BEQ_def BNE_def BGEZ_def BGEZAL_def BGTZ_def BLEZ_def BLTZ_def BLTZAL_def BEQL_def BNEL_def BLEZL_def BGTZL_def BLTZL_def BGEZL_def BLTZALL_def BGEZALL_def BC0F_def BC0T_def BC0FL_def BC0TL_def BC1F_def BC1T_def BC1FL_def BC1TL_def Let_def intEventTest_def)

lemma opcodes_return:
  "opcode_all (returns_with x) (MakeOpcode c f)" "opcode_all (returns_with x) (MakeOpcodeMem c g)" "opcode_all (returns_with x) UnknownOp"
  "opcode_all (returns_with x) (MakeBranch c h) \<longleftrightarrow> returns_with x True h"
  "returns_with x True (\<lambda>s. Some (k s))"
  by (simp_all add: MakeOpcode_def MakeOpcodeMem_def UnknownOp_def MakeBranch_def returns_with_def)

lemma tables_return:
  assumes "\<not> WaitLoop E" "\<not> GoemonTlbHack E"
  shows "list_all (opcode_all (returns_with x)) (tbl_COP0_BC0 E x)"
    "list_all (opcode_all (returns_with x)) (tbl_COP0_C0 E x)"
    "list_all (opcode_all (returns_with x)) (tbl_COP1_BC1 E x)"
    "list_all (opcode_all (returns_with x)) (tbl_COP1_S E x)"
    "list_all (opcode_all (returns_with x)) (tbl_COP1_W E x)"
    "list_all (opcode_all (returns_with x)) (tbl_MMI0 E x)"
    "list_all (opcode_all (returns_with x)) (tbl_MMI1 E x)"
    "list_all (opcode_all (returns_with x)) (tbl_MMI2 E x)"
    "list_all (opcode_all (returns_with x)) (tbl_MMI3 E x)"
  by (simp_all add: tbl_COP0_BC0_def tbl_COP0_C0_def tbl_COP1_BC1_def tbl_COP1_S_def tbl_COP1_W_def tbl_MMI0_def tbl_MMI1_def tbl_MMI2_def tbl_MMI3_def opcodes_return branches_return assms list_all_replicate)

lemma upper_tables_return:
  assumes "\<not> WaitLoop E" "\<not> GoemonTlbHack E"
  shows "list_all (opcode_all (returns_with x)) (tbl_COP0 E x)"
    "list_all (opcode_all (returns_with x)) (tbl_COP1 E x)"
    "list_all (opcode_all (returns_with x)) (tbl_MMI E x)"
    "list_all (opcode_all (returns_with x)) (tbl_RegImm E x)"
    "list_all (opcode_all (returns_with x)) (tbl_Special E x)"
  using tables_return [OF assms, of x]
  by (simp_all add: tbl_COP0_def tbl_COP1_def tbl_MMI_def tbl_RegImm_def tbl_Special_def opcodes_return branches_return assms list_all_replicate
    opcode_all_class class_opcodes [where P = "opcode_all (returns_with x)"])

definition vu0_word :: "u32 \<Rightarrow> bool" where
  "vu0_word op \<longleftrightarrow> unat (drop_bit 26 op) \<in> {0x12, 0x36, 0x3E}"

lemma GetInstruction_returns:
  assumes "\<not> WaitLoop E" "\<not> GoemonTlbHack E" "\<not> vu0_word op"
  shows "opcode_all (returns_with x) (GetInstruction E x op)"
proof -
  have "list_all (\<lambda>(i, c). i \<in> {0x12, 0x36, 0x3E} \<or> opcode_all (returns_with x) c) (enumerate 0 (tbl_Standard E x))"
    using upper_tables_return [OF assms(1,2), of x]
    by (simp add: tbl_Standard_def opcodes_return branches_return assms opcode_all_class class_opcodes [where P = "opcode_all (returns_with x)"])
  then have "opcode_all (returns_with x) (tbl_Standard E x ! i)" if "i < 64" "i \<notin> {0x12, 0x36, 0x3E}" for i
    using that by (auto simp: list_all_length table_lengths nth_enumerate_eq)
  then show ?thesis unfolding GetInstruction_def using index_bounds(4) [of op] assms(3)
    by (intro resolveClass_all) (simp add: vu0_word_def)
qed

definition branch_word :: "'d ee_env \<Rightarrow> u32 \<Rightarrow> bool" where
  "branch_word E op \<longleftrightarrow> (\<exists>x. opcode_is_branch (GetInstruction E x op))"

lemma exec_with_returns:
  assumes "\<not> WaitLoop E" "\<not> GoemonTlbHack E" "\<not> CHECK_CACHE (eeMem E)" "translate s (pc s) = Ptr p"
    and "\<not> vu0_word (hostLoad (host s) p)"
    and "branch_word E (hostLoad (host s) p) \<Longrightarrow> (\<And>t. pc t = pc s + 4 \<Longrightarrow> vmap t = vmap s \<Longrightarrow> host t = host s \<Longrightarrow> x t \<noteq> None)"
  shows "exec_with E x s \<noteq> None"
proof -
  obtain c b f where oc: "GetInstruction E x (hostLoad (host s) p) = Opcode c b f"
    using resolveClass_Opcode unfolding GetInstruction_def by blast
  moreover have "returns_with x b f" using GetInstruction_returns [OF assms(1,2,5), of x] oc by simp
  moreover have "b \<Longrightarrow> branch_word E (hostLoad (host s) p)" using oc by (auto simp: branch_word_def intro: exI [of _ x])
  ultimately show ?thesis
    using assms(6) by (auto simp: exec_ptr [OF assms(4,3)] returns_with_def same_slot_def charge_cycles_def)
qed

text \<open>
  C18: executing an instruction returns. With the wait-loop hack and the game fix off and the code
  in memory, \<open>k\<close> branches in one another's delay slots followed by an instruction that is no branch need fuel for \<open>k + 1\<close> instructions, in
  particular fuel 1 for an ordinary instruction and 2 for a branch with an ordinary slot, if none of them is an
  instruction of VU0, which waits for its program; and any fuel with which an instruction returns gives the same result.
\<close>
theorem execI_returns:
  assumes "\<not> WaitLoop E" "\<not> GoemonTlbHack E" "\<not> CHECK_CACHE (eeMem E)"
    and "\<And>i. i \<le> k \<Longrightarrow> translate s (pc s + 4 * of_nat i) = Ptr (p i) \<and> \<not> vu0_word (hostLoad (host s) (p i))"
    and "\<not> branch_word E (hostLoad (host s) (p k))" and cop: "coprocessor_le E"
  shows "\<exists>r. execI E (Suc k) s = Some r \<and> (\<forall>n q. execI E n s = Some q \<longrightarrow> q = r)"
proof -
  have "execI E (Suc k) s \<noteq> None" using assms(4,5)
  proof (induction k arbitrary: s p)
    case 0
    then show ?case using exec_with_returns [OF assms(1,2,3), of s "p 0"] by simp
  next
    case (Suc k)
    show ?case unfolding execI.simps(2) [of E "Suc k"]
    proof (rule exec_with_returns [OF assms(1,2,3)])
      show "translate s (pc s) = Ptr (p 0)" "\<not> vu0_word (hostLoad (host s) (p 0))" using Suc.prems(1) [of 0] by simp_all
      fix t :: "'a machine"
      assume t: "pc t = pc s + 4" "vmap t = vmap s" "host t = host s"
      show "execI E (Suc k) t \<noteq> None"
      proof (rule Suc.IH)
        show "translate t (pc t + 4 * of_nat i) = Ptr (p (Suc i)) \<and> \<not> vu0_word (hostLoad (host t) (p (Suc i)))" if "i \<le> k" for i
          using Suc.prems(1) [of "Suc i"] that translate_vmap [OF t(2)] by (simp add: t algebra_simps)
        show "\<not> branch_word E (hostLoad (host t) (p (Suc k)))" using Suc.prems(2) by (simp add: t)
      qed
    qed
  qed
  then obtain r where r: "execI E (Suc k) s = Some r" by blast
  moreover have "q = r" if "execI E n s = Some q" for n q
    using run_leD [OF execI_mono [OF cop, of n "Suc k"] that] run_leD [OF execI_mono [OF cop, of "Suc k" n] r] by (simp only: add.commute option.inject)
  ultimately show ?thesis by blast
qed

lemma ram_pc [simp]: "pc machine_ram = 0xbfc00000"
  by (simp add: machine_ram_def machine_reset_def cpuRegisters.extend_def machine.fields_def cpuReset_def)

lemma ram_host: "translate (machine_ram\<lparr>host := h\<rparr>) a = Ptr (0x100000 + ucast a)"
  using ram_translate [of a] translate_vmap [of "machine_ram\<lparr>host := h\<rparr>" machine_ram] by simp

theorem execI_returns_witness:
  "\<exists>r. execI ee_plain 2 (machine_ram\<lparr>host := hostStore 0xBFD00000 (0x10000001 :: u32) (\<lambda>_. 0)\<rparr>) = Some r"
proof -
  let ?s = "machine_ram\<lparr>host := hostStore 0xBFD00000 (0x10000001 :: u32) (\<lambda>_. 0)\<rparr>"
  have "hostLoad (host ?s) 0xBFD00004 = (0 :: u32)"
    by (simp add: hostLoad_def hostStore_def upt_rec)
  moreover have "hostLoad (host ?s) 0xBFD00000 = (0x10000001 :: u32)"
    by (simp add: hostLoad_hostStore)
  ultimately have w: "hostLoad (host ?s) (0x100000 + ucast (pc ?s + 4 * of_nat i)) = (if i = 0 then 0x10000001 else 0 :: u32)" if "i \<le> 1" for i
    using that by (cases i) simp_all
  have "\<not> branch_word ee_plain (hostLoad (host ?s) (0x100000 + ucast (pc ?s + 4 * of_nat 1)))"
    unfolding w [OF order_refl] by (simp add: branch_word_def GetInstruction_nop MakeOpcode_def)
  moreover have "coprocessor_le ee_plain" by (simp add: coprocessor_le_def ee_plain_def)
  moreover have "translate ?s (pc ?s + 4 * of_nat i) = Ptr (0x100000 + ucast (pc ?s + 4 * of_nat i)) \<and>
      \<not> vu0_word (hostLoad (host ?s) (0x100000 + ucast (pc ?s + 4 * of_nat i)))" if "i \<le> 1" for i
    unfolding w [OF that] ram_host by (simp add: vu0_word_def)
  ultimately have "\<not> WaitLoop ee_plain \<Longrightarrow> \<not> GoemonTlbHack ee_plain \<Longrightarrow> \<exists>r. execI ee_plain (Suc 1) ?s = Some r"
    using execI_returns [of ee_plain 1 ?s "\<lambda>i. 0x100000 + ucast (pc ?s + 4 * of_nat i)"] by auto
  then show ?thesis by (simp only: Suc_1) (simp add: ee_plain_def)
qed

section \<open>Abandoned delay slots and the wait-loop speed hack\<close>

lemma GetInstruction_BEQ_LW:
  "drop_bit 26 op = 0x04 \<Longrightarrow> GetInstruction E x op = MakeBranch Cycles_Branch (BEQ E x)"
  "drop_bit 26 op = 0x23 \<Longrightarrow> GetInstruction E x op = MakeOpcodeMem Cycles_Load (LW E)"
  by (simp_all add: GetInstruction_def tbl_Standard_def MakeBranch_def MakeOpcodeMem_def)

text \<open>
  A load at a misaligned address in the delay slot of a taken branch loses the branch: the
  instruction is abandoned without an exception, execution goes on behind the slot instead of at
  the target, and the mark of a delay slot stays set for the instructions that follow.
\<close>
lemma cancelled_slot_loses_branch:
  assumes "\<not> CHECK_CACHE (eeMem E)" "translate s (pc s) = Ptr p" "translate s (pc s + 4) = Ptr q"
    and "drop_bit 26 (hostLoad (host s) p :: u32) = 0x04"
    and "s1 = s\<lparr>code := hostLoad (host s) p\<rparr>" "UD 0 (GPR s (fRs s1)) = UD 0 (GPR s (fRt s1))"
    and "drop_bit 26 (hostLoad (host s) q :: u32) = 0x23"
    and "eff_addr (s\<lparr>code := hostLoad (host s) q\<rparr>) AND 3 \<noteq> 0"
  shows "\<exists>t. execI E 2 s = Some (Cancelled t) \<and> branch t = 1 \<and> pc t = pc s + 8"
proof -
  let ?c = "\<lambda>w s. charge_cycles w s"
  define u where "u = (?c Cycles_Branch (s\<lparr>pc := pc s + 4, code := hostLoad (host s) p\<rparr>))\<lparr>branch := 1\<rparr>"
  define t where "t = ?c Cycles_Load (u\<lparr>pc := pc u + 4, code := hostLoad (host u) q\<rparr>)"
  have u: "pc u = pc s + 4" "vmap u = vmap s" "host u = host s" "GPR u = GPR s" by (simp_all add: u_def charge_cycles_def)
  have "translate u (pc u) = Ptr q" using assms(3) translate_vmap [OF u(2)] by (simp add: u)
  then have slot: "exec_with E (execI E 0) u = Some (LW E t)"
    using assms(7) by (simp add: exec_ptr [OF _ assms(1)] GetInstruction_BEQ_LW u(3) MakeOpcodeMem_def t_def)
  have "eff_addr t = eff_addr (s\<lparr>code := hostLoad (host s) q\<rparr>)"
    by (simp add: eff_addr_def field_defs t_def charge_cycles_def u)
  then have LW: "LW E t = Cancelled t"
    using assms(8) by (simp add: LW_def check_aligned_def RaiseAddressError_def Let_def)
  define v where "v = ?c Cycles_Branch (s\<lparr>pc := pc s + 4, code := hostLoad (host s) p\<rparr>)"
  have "UD 0 (GPR v (fRs v)) = UD 0 (GPR v (fRt v))"
    using assms(6) by (simp add: v_def charge_cycles_def assms(5) field_defs)
  then have "BEQ E (exec_with E (execI E 0)) v = Some (Cancelled t)"
    using slot LW by (simp add: BEQ_def doBranch_def doBranch_shared_def v_def [symmetric] u_def)
  then have "execI E (Suc (Suc 0)) s = Some (Cancelled t)"
    using assms(2,4) by (simp add: exec_ptr [OF _ assms(1)] GetInstruction_BEQ_LW MakeBranch_def v_def)
  then have "execI E 2 s = Some (Cancelled t)" by (simp only: numeral_2_eq_2)
  moreover have "branch t = 1" "pc t = pc s + 8" by (simp_all add: t_def u charge_cycles_def) (simp add: u_def)
  ultimately show ?thesis by blast
qed


text \<open>
  The scan of a wait loop tests whether a guest address has a host address, not what the word
  there is. For code in memory every address has one, so that a backward branch is never recognised
  as a loop of empty instructions, whatever the memory holds, and time never skips to the next event.
\<close>
lemma wait_loop_ignores_code:
  assumes "tar \<noteq> 0x81fc0" "tar < pc s" "PSM tar s \<noteq> None"
  shows "can_skip tar (s\<lparr>host := h\<rparr>) = Some False"
proof -
  let ?t = "s\<lparr>host := h\<rparr>"
  have "PSM tar ?t \<noteq> None" using assms(3) by (auto simp: PSM_def vtlb_GetPhyPtr_def split: if_splits)
  then have "scan_loop n tar ?t = Some False" for n
    using assms(2) by (subst scan_loop.simps) simp
  then show ?thesis using assms(1) by (simp add: can_skip_def)
qed


end
