(* ===== verification/IOP_Mem.thy ===== *)
theory IOP_Mem
  imports EE_Exceptions
begin

text \<open>
  The second processor's state and memory (\<^verbatim>\<open>pcsx2/R3000A.h\<close>, \<^verbatim>\<open>pcsx2/IopMem.cpp\<close>,
  \<^verbatim>\<open>pcsx2/IopMem.h\<close>). Memory is reached through two tables of host pointers, one entry per 64 KiB,
  for reading and for writing; a page without a pointer belongs to a device or to nothing. The
  hardware page, the sound unit, the expansion bay and the debug console are calls of the
  environment \<open>iop_env\<close>; console messages are left out, and so is \<^verbatim>\<open>psxCpu->Clear\<close>, which does
  nothing under the interpreter.
\<close>

section \<open>State\<close>

text \<open>\<^verbatim>\<open>struct psxRegisters\<close> (the registers of the geometry unit belong to the devices \<open>idev\<close>), the
  branch variables of the interpreter, the counters' next event, the memory tables and host memory,
  and the main processor's registers, which hold the cycle of its next event.\<close>

record 'd iop =
  psxGPR :: "5 word \<Rightarrow> u32"
  psxHI :: u32
  psxLO :: u32
  psxCP0 :: "5 word \<Rightarrow> u32"
  psxPC :: u32
  psxCode :: u32
  psxCycle :: u64
  psxInterrupt :: u32
  iopNextEventCycle :: u64
  iopBreak :: u32
  iopCycleEE :: u32
  iopCycleEECarry :: u32
  sCycle :: "nat \<Rightarrow> u64"
  eCycle :: "nat \<Rightarrow> u32"
  iopIsDelaySlot :: bool
  branch2 :: bool
  branchPC :: u32
  psxNextStartCounter :: u64
  psxNextDeltaCounter :: u32
  iopEventAction :: bool
  iopEventTestIsActive :: bool
  memLUT :: "nat \<Rightarrow> u64"
  ihost :: "u64 \<Rightarrow> u8"
  eeRegs :: cpuRegisters
  idev :: 'd

text \<open>Addresses of the host arrays, configuration, and the calls that leave the modelled part: the
  three device pages of the hardware area by access width and page, the debug port, the expansion
  bay and the sound unit, the module import hook, the counters and the callbacks of the events, the
  geometry unit, and the BIOS.\<close>

record 'd iop_env =
  iopMem :: u64
  iopHw :: u64
  eeHw :: u64
  eeRom :: u64
  ExposedIopRam :: u32
  PSXCLK :: u32
  hasIRX :: bool
  eeEventTestIsActive :: bool
  hw_page_read :: "nat \<Rightarrow> u32 \<Rightarrow> 'd iop \<Rightarrow> u32 \<times> 'd iop"
  hw_page_write :: "nat \<Rightarrow> u32 \<Rightarrow> u32 \<Rightarrow> 'd iop \<Rightarrow> 'd iop"
  hw4_read :: "u32 \<Rightarrow> 'd iop \<Rightarrow> u32 \<times> 'd iop"
  hw4_write :: "u32 \<Rightarrow> u32 \<Rightarrow> 'd iop \<Rightarrow> 'd iop"
  dev9_read :: "nat \<Rightarrow> u32 \<Rightarrow> 'd iop \<Rightarrow> u32 \<times> 'd iop"
  dev9_write :: "nat \<Rightarrow> u32 \<Rightarrow> u32 \<Rightarrow> 'd iop \<Rightarrow> 'd iop"
  spu2_read :: "u32 \<Rightarrow> 'd iop \<Rightarrow> u32 \<times> 'd iop"
  spu2_write :: "u32 \<Rightarrow> u32 \<Rightarrow> 'd iop \<Rightarrow> 'd iop"
  irx_import :: "u32 \<Rightarrow> u32 \<Rightarrow> 'd iop \<Rightarrow> bool \<times> 'd iop"
  bios_call :: "'d iop \<Rightarrow> 'd iop"
  counters_update :: "'d iop \<Rightarrow> 'd iop"
  event_callback :: "nat \<Rightarrow> 'd iop \<Rightarrow> 'd iop"
  gte_op :: "'d iop \<Rightarrow> 'd iop"

text \<open>The arrays inside \<^verbatim>\<open>IopVM_MemoryAllocMess\<close>: main memory of 128 MiB, then two small areas; and
  the read-only memories of the main processor, 4 MiB each.\<close>

definition iopMain :: "'d iop_env \<Rightarrow> u64" where "iopMain E = iopMem E"
definition iopP :: "'d iop_env \<Rightarrow> u64" where "iopP E = iopMem E + 0x8000000"
definition iopSif :: "'d iop_env \<Rightarrow> u64" where "iopSif E = iopMem E + 0x8010000"
definition ROM :: "'d iop_env \<Rightarrow> u64" where "ROM E = eeRom E"
definition ROM1 :: "'d iop_env \<Rightarrow> u64" where "ROM1 E = eeRom E + 0x400000"
definition ROM2 :: "'d iop_env \<Rightarrow> u64" where "ROM2 E = eeRom E + 0x800000"

text \<open>The write table and the read table share one array of \<open>0x4000\<close> entries.\<close>

definition psxMemWLUT :: "u32 \<Rightarrow> 'd iop \<Rightarrow> u64" where
  "psxMemWLUT page s = memLUT s (unat page)"

definition psxMemRLUT :: "u32 \<Rightarrow> 'd iop \<Rightarrow> u64" where
  "psxMemRLUT page s = memLUT s (0x2000 + unat page)"

section \<open>Reset\<close>

definition map_pages :: "nat \<Rightarrow> nat \<Rightarrow> (nat \<Rightarrow> u64) \<Rightarrow> (nat \<Rightarrow> u64) \<Rightarrow> (nat \<Rightarrow> u64)" where
  "map_pages base n f = fold (\<lambda>i lut. lut(base + i := f i)) [0..<n]"

definition iopMemReset :: "'d iop_env \<Rightarrow> 'd iop \<Rightarrow> 'd iop" where
  "iopMemReset E s =
     (let mask = ExposedIopRam E div 0x10000 - 1;
          ram = (\<lambda>i. iopMain E + ucast (push_bit 16 (of_nat i AND mask)));
          lut = fold (\<lambda>i lut. lut(i := ram i, i + 0x2000 := ram i)) [0..<0x80] (\<lambda>_. 0);
          lut = lut(0x2000 + 0x1f00 := iopP E, 0x2000 + 0x1f80 := iopHw E);
          lut = lut(0x1f00 := iopP E, 0x1f80 := iopHw E);
          lut = map_pages (0x2000 + 0x1fc0) 0x40 (\<lambda>i. ROM E + of_nat i * 0x10000) lut;
          lut = map_pages (0x2000 + 0x1e00) 0x40 (\<lambda>i. ROM1 E + of_nat i * 0x10000) lut;
          lut = map_pages (0x2000 + 0x1e40) 0x40 (\<lambda>i. ROM2 E + of_nat i * 0x10000) lut;
          lut = lut(0x2000 + 0x1d00 := iopSif E)
      in s\<lparr>memLUT := lut, ihost := (\<lambda>q. if q - iopMem E < 0x8010100 then 0 else ihost s q)\<rparr>)"

section \<open>Accessors\<close>

text \<open>\<^verbatim>\<open>psxHu8\<close> to \<^verbatim>\<open>psxHu32\<close>, \<^verbatim>\<open>psxSu8\<close> to \<^verbatim>\<open>psxSu32\<close> and \<^verbatim>\<open>psHu16\<close>, \<^verbatim>\<open>psHu32\<close>: the hardware areas of
  the two processors and the SIF area, at the width of the type.\<close>

definition psxHu :: "'d iop_env \<Rightarrow> u32 \<Rightarrow> u64" where
  "psxHu E mem = iopHw E + ucast (mem AND 0xFFFF)"

definition psxSu :: "'d iop_env \<Rightarrow> u32 \<Rightarrow> u64" where
  "psxSu E mem = iopSif E + ucast (mem AND 0xFF)"

definition psHu :: "'d iop_env \<Rightarrow> u32 \<Rightarrow> u64" where
  "psHu E mem = eeHw E + ucast (mem AND 0xFFFF)"

definition iload :: "u64 \<Rightarrow> 'd iop \<Rightarrow> 'a::len word" where
  "iload p s = hostLoad (ihost s) p"

definition istore :: "u64 \<Rightarrow> 'a::len word \<Rightarrow> 'd iop \<Rightarrow> 'd iop" where
  "istore p v s = s\<lparr>ihost := hostStore p v (ihost s)\<rparr>"

abbreviation (input) SBUS_F200 :: u32 where "SBUS_F200 \<equiv> 0x1000F200"
abbreviation (input) SBUS_F210 :: u32 where "SBUS_F210 \<equiv> 0x1000F210"
abbreviation (input) SBUS_F220 :: u32 where "SBUS_F220 \<equiv> 0x1000F220"
abbreviation (input) SBUS_F230 :: u32 where "SBUS_F230 \<equiv> 0x1000F230"
abbreviation (input) SBUS_F240 :: u32 where "SBUS_F240 \<equiv> 0x1000F240"
abbreviation (input) SBUS_F260 :: u32 where "SBUS_F260 \<equiv> 0x1000F260"

definition device_page :: "u32 \<Rightarrow> bool" where
  "device_page mem \<longleftrightarrow> mem AND 0xF000 = 0x1000 \<or> mem AND 0xF000 = 0x3000 \<or> mem AND 0xF000 = 0x8000"

definition iopMemRead8 :: "'d iop_env \<Rightarrow> u32 \<Rightarrow> 'd iop \<Rightarrow> u8 \<times> 'd iop" where
  "iopMemRead8 E mem s =
     (let mem = mem AND 0x1fffffff; t = drop_bit 16 mem; p = psxMemRLUT t s in
      if t = 0x1f80 then
        (if device_page mem then map_prod ucast id (hw_page_read E 8 mem s) else (iload (psxHu E mem) s, s))
      else if t = 0x1f40 then map_prod ucast id (hw4_read E mem s)
      else if p \<noteq> 0 then (iload (p + ucast (mem AND 0xFFFF)) s, s)
      else if t = 0x1000 then map_prod ucast id (dev9_read E 8 mem s)
      else (0, s))"

definition iopMemRead16 :: "'d iop_env \<Rightarrow> u32 \<Rightarrow> 'd iop \<Rightarrow> u16 \<times> 'd iop" where
  "iopMemRead16 E mem s =
     (let mem = mem AND 0x1fffffff; t = drop_bit 16 mem; p = psxMemRLUT t s in
      if t = 0x1f80 then
        (if device_page mem then map_prod ucast id (hw_page_read E 16 mem s) else (iload (psxHu E mem) s, s))
      else if p \<noteq> 0 then
        (if t = 0x1d00 then
           (let r = mem AND 0xF0 in
            if r = 0x00 then iload (psHu E SBUS_F200) s
            else if r = 0x10 then iload (psHu E SBUS_F210) s
            else if r = 0x40 then iload (psHu E SBUS_F240) s OR 0x0002
            else if r = 0x60 then 0
            else iload (psxHu E mem) s, s)
         else (iload (p + ucast (mem AND 0xFFFF)) s, s))
      else if t = 0x1F90 then map_prod ucast id (spu2_read E mem s)
      else if t = 0x1000 then map_prod ucast id (dev9_read E 16 mem s)
      else (0, s))"

definition iopMemRead32 :: "'d iop_env \<Rightarrow> u32 \<Rightarrow> 'd iop \<Rightarrow> u32 \<times> 'd iop" where
  "iopMemRead32 E mem s =
     (let mem = mem AND 0x1fffffff; t = drop_bit 16 mem; p = psxMemRLUT t s in
      if t = 0x1f80 then
        (if device_page mem then hw_page_read E 32 mem s else (iload (psxHu E mem) s, s))
      else if p \<noteq> 0 then
        (if t = 0x1d00 then
           (let r = mem AND 0x8F0 in
            if r = 0x00 then iload (psHu E SBUS_F200) s
            else if r = 0x10 then iload (psHu E SBUS_F210) s
            else if r = 0x20 then iload (psHu E SBUS_F220) s
            else if r = 0x30 then iload (psHu E SBUS_F230) s
            else if r = 0x40 then iload (psHu E SBUS_F240) s OR 0xF0000002
            else if r = 0x60 then 0
            else iload (psxHu E mem) s, s)
         else (iload (p + ucast (mem AND 0xFFFF)) s, s))
      else if t = 0x1000 then dev9_read E 32 mem s
      else (0, s))"

text \<open>Writes to mapped pages are dropped while the cache is isolated (bit 16 of the status register).\<close>

definition isolated :: "'d iop \<Rightarrow> bool" where
  "isolated s \<longleftrightarrow> psxCP0 s 12 AND 0x10000 \<noteq> 0"

text \<open>Writing the control register of the SIF, at either width: a reset request sets the ready bits,
  and the low flags toggle.\<close>

definition sif_control :: "u64 \<Rightarrow> 'a::len word \<Rightarrow> 'd iop \<Rightarrow> 'd iop" where
  "sif_control p v s =
     (let temp = v AND 0xF0;
          s = (if v AND 0x20 \<noteq> 0 \<or> v AND 0x80 \<noteq> 0
               then let s = istore p (iload p s AND NOT 0xF000 :: 'a word) s
                    in istore p (iload p s OR 0x2000 :: 'a word) s
               else s)
      in if iload p s AND temp \<noteq> 0 then istore p (iload p s AND NOT temp) s else istore p (iload p s OR temp) s)"

definition iopMemWrite8 :: "'d iop_env \<Rightarrow> u32 \<Rightarrow> u8 \<Rightarrow> 'd iop \<Rightarrow> 'd iop" where
  "iopMemWrite8 E mem v s =
     (let mem = mem AND 0x1fffffff; t = drop_bit 16 mem; p = psxMemWLUT t s in
      if t = 0x1f80 then (if device_page mem then hw_page_write E 8 mem (ucast v) s else istore (psxHu E mem) v s)
      else if t = 0x1f40 then hw4_write E mem (ucast v) s
      else if p \<noteq> 0 \<and> \<not> isolated s then istore (p + ucast (mem AND 0xFFFF)) v s
      else if t = 0x1d00 then istore (psxSu E mem) v s
      else if t = 0x1000 then dev9_write E 8 mem (ucast v) s
      else s)"

definition iopMemWrite16 :: "'d iop_env \<Rightarrow> u32 \<Rightarrow> u16 \<Rightarrow> 'd iop \<Rightarrow> 'd iop" where
  "iopMemWrite16 E mem v s =
     (let mem = mem AND 0x1fffffff; t = drop_bit 16 mem; p = psxMemWLUT t s in
      if t = 0x1f80 then (if device_page mem then hw_page_write E 16 mem (ucast v) s else istore (psxHu E mem) v s)
      else if p \<noteq> 0 \<and> \<not> isolated s then istore (p + ucast (mem AND 0xFFFF)) v s
      else if t = 0x1d00 then
        (let r = mem AND 0x8F0 in
         if r = 0x10 then istore (psHu E SBUS_F210) v s
         else if r = 0x40 then sif_control (psHu E SBUS_F240) v s
         else if r = 0x60 then istore (psHu E SBUS_F260) (0 :: u32) s
         else istore (psxSu E mem) v s)
      else if t = 0x1F90 then spu2_write E mem (ucast v) s
      else if t = 0x1000 then dev9_write E 16 mem (ucast v) s
      else s)"

definition iopMemWrite32 :: "'d iop_env \<Rightarrow> u32 \<Rightarrow> u32 \<Rightarrow> 'd iop \<Rightarrow> 'd iop" where
  "iopMemWrite32 E mem v s =
     (let mem = mem AND 0x1fffffff; t = drop_bit 16 mem; p = psxMemWLUT t s in
      if t = 0x1f80 then (if device_page mem then hw_page_write E 32 mem v s else istore (psxHu E mem) v s)
      else if p \<noteq> 0 \<and> \<not> isolated s then istore (p + ucast (mem AND 0xFFFF)) v s
      else if t = 0x1d00 then
        (let r = mem AND 0x8F0 in
         if r = 0x00 then s
         else if r = 0x10 then istore (psHu E SBUS_F210) v s
         else if r = 0x20 then istore (psHu E SBUS_F220) (iload (psHu E SBUS_F220) s AND NOT v) s
         else if r = 0x30 then istore (psHu E SBUS_F230) (iload (psHu E SBUS_F230) s OR v) s
         else if r = 0x40 then sif_control (psHu E SBUS_F240) v s
         else if r = 0x60 then istore (psHu E SBUS_F260) (0 :: u32) s
         else istore (psxSu E mem) v s)
      else if t = 0x1000 then dev9_write E 32 mem v s
      else s)"

section \<open>Block accesses\<close>

text \<open>The pointers for tools. The read pointer masks the segment off the address; the write pointer
  does not, so that its index can lie in the read table or outside the array of \<open>0x4000\<close> entries,
  which is \<open>None\<close> here and undefined behaviour in the source. A null pointer is 0.\<close>

definition iopVirtMemW :: "u32 \<Rightarrow> 'd iop \<Rightarrow> u64 option" where
  "iopVirtMemW mem s =
     (let i = unat (drop_bit 16 mem) in
      if i < 0x4000 then Some (if memLUT s i = 0 then 0 else memLUT s i + ucast (mem AND 0xFFFF)) else None)"

definition iopVirtMemR :: "u32 \<Rightarrow> 'd iop \<Rightarrow> u64" where
  "iopVirtMemR mem s =
     (let mem = mem AND 0x1fffffff; p = psxMemRLUT (drop_bit 16 mem) s in
      if p = 0 then 0 else p + ucast (mem AND 0xFFFF))"

definition iopPhysMem :: "'d iop_env \<Rightarrow> u32 \<Rightarrow> u64" where
  "iopPhysMem E addr = iopMain E + ucast (addr AND (ExposedIopRam E - 1))"

definition iop_remaining :: "u32 \<Rightarrow> nat \<Rightarrow> nat" where
  "iop_remaining mem n = min (0x1000 - unat (mem AND 0xFFF)) n"

lemma iop_remaining_pos: "0 < n \<Longrightarrow> 0 < iop_remaining mem n" "iop_remaining mem n \<le> n"
proof -
  have "mem AND 0xFFF \<le> 0xFFF" by (rule word_and_le1)
  then have "unat (mem AND 0xFFF) < 0x1000" by (simp add: word_le_nat_alt)
  then show "0 < n \<Longrightarrow> 0 < iop_remaining mem n" "iop_remaining mem n \<le> n" by (auto simp: iop_remaining_def)
qed

function iopMemSafeReadBytes :: "u32 \<Rightarrow> nat \<Rightarrow> 'd iop \<Rightarrow> u8 list option" where
  "iopMemSafeReadBytes mem n s =
     (if n = 0 then Some []
      else let p = iopVirtMemR mem s; r = iop_remaining mem n in
        if p = 0 then None
        else map_option ((@) (map (\<lambda>i. ihost s (p + of_nat i)) [0..<r])) (iopMemSafeReadBytes (mem + of_nat r) (n - r) s))"
  by pat_completeness auto
termination
  by (relation "measure (\<lambda>(mem, n, s). n)") (use iop_remaining_pos in auto)

text \<open>The result of a write: the undefined access, or whether all was written and the state.\<close>

function iopMemSafeWriteBytes :: "u32 \<Rightarrow> u8 list \<Rightarrow> 'd iop \<Rightarrow> (bool \<times> 'd iop) option" where
  "iopMemSafeWriteBytes mem src s =
     (if src = [] then Some (True, s)
      else let r = iop_remaining mem (length src) in
        case iopVirtMemW mem s of
          None \<Rightarrow> None
        | Some p \<Rightarrow>
            if p = 0 then Some (False, s)
            else iopMemSafeWriteBytes (mem + of_nat r) (drop r src)
                   (s\<lparr>ihost := fold (\<lambda>i h. h(p + of_nat i := src ! i)) [0..<r] (ihost s)\<rparr>))"
  by pat_completeness auto
termination
  by (relation "measure (\<lambda>(mem, src, s). length src)") (use iop_remaining_pos in auto)

text \<open>Comparing: the sign of the first difference (\<^verbatim>\<open>memcmp\<close> on the page), 0 for equal, \<open>- 1\<close> for an
  unmapped page.\<close>

fun memcmp_bytes :: "u8 list \<Rightarrow> u8 list \<Rightarrow> int" where
  "memcmp_bytes (x # xs) (y # ys) = (if x = y then memcmp_bytes xs ys else if x < y then - 1 else 1)"
| "memcmp_bytes _ _ = 0"

function iopMemSafeCmpBytes :: "u32 \<Rightarrow> u8 list \<Rightarrow> 'd iop \<Rightarrow> int option" where
  "iopMemSafeCmpBytes mem src s =
     (if src = [] then Some 0
      else let r = iop_remaining mem (length src) in
        case iopVirtMemW mem s of
          None \<Rightarrow> None
        | Some p \<Rightarrow>
            if p = 0 then Some (- 1)
            else let res = memcmp_bytes (take r src) (map (\<lambda>i. ihost s (p + of_nat i)) [0..<r]) in
              if res \<noteq> 0 then Some res else iopMemSafeCmpBytes (mem + of_nat r) (drop r src) s)"
  by pat_completeness auto
termination
  by (relation "measure (\<lambda>(mem, src, s). length src)") (use iop_remaining_pos in auto)

declare iopMemSafeReadBytes.simps [simp del] iopMemSafeWriteBytes.simps [simp del] iopMemSafeCmpBytes.simps [simp del]

text \<open>Reading a string: at most \<open>maxlen\<close> bytes, up to the terminator.\<close>

fun iopMemReadString :: "'d iop_env \<Rightarrow> u32 \<Rightarrow> nat \<Rightarrow> 'd iop \<Rightarrow> u8 list \<times> 'd iop" where
  "iopMemReadString E mem 0 s = (case iopMemRead8 E mem s of (c, s) \<Rightarrow> ([], s))"
| "iopMemReadString E mem (Suc m) s =
     (case iopMemRead8 E mem s of
        (c, s) \<Rightarrow> if c = 0 then ([], s)
                  else (case iopMemReadString E (mem + 1) m s of (cs, s) \<Rightarrow> (c # cs, s)))"

text \<open>An environment without devices: everything reads as zero and nothing happens.\<close>

definition iop_plain :: "unit iop_env" where
  "iop_plain = \<lparr>iopMem = 0x10000000, iopHw = 0x20000000, eeHw = 0x20010000, eeRom = 0x30000000, ExposedIopRam = 0x200000,
     PSXCLK = 36864000, hasIRX = False, eeEventTestIsActive = False, hw_page_read = (\<lambda>_ _ s. (0, s)), hw_page_write = (\<lambda>_ _ _ s. s),
     hw4_read = (\<lambda>_ s. (0, s)), hw4_write = (\<lambda>_ _ s. s), dev9_read = (\<lambda>_ _ s. (0, s)), dev9_write = (\<lambda>_ _ _ s. s),
     spu2_read = (\<lambda>_ s. (0, s)), spu2_write = (\<lambda>_ _ s. s), irx_import = (\<lambda>_ _ s. (False, s)), bios_call = (\<lambda>s. s),
     counters_update = (\<lambda>s. s), event_callback = (\<lambda>_ s. s), gte_op = (\<lambda>s. s)\<rparr>"

text \<open>A state in which everything is zero.\<close>

definition iop_zero :: "unit iop" where
  "iop_zero = \<lparr>psxGPR = (\<lambda>_. 0), psxHI = 0, psxLO = 0, psxCP0 = (\<lambda>_. 0), psxPC = 0, psxCode = 0, psxCycle = 0, psxInterrupt = 0,
     iopNextEventCycle = 0, iopBreak = 0, iopCycleEE = 0, iopCycleEECarry = 0, sCycle = (\<lambda>_. 0), eCycle = (\<lambda>_. 0),
     iopIsDelaySlot = False, branch2 = False, branchPC = 0, psxNextStartCounter = 0, psxNextDeltaCounter = 0,
     iopEventAction = False, iopEventTestIsActive = False, memLUT = (\<lambda>_. 0), ihost = (\<lambda>_. 0), eeRegs = undefined, idev = ()\<rparr>"

section \<open>The memory map\<close>

lemma fold_ram:
  assumes "n \<le> 0x2000"
  shows "fold (\<lambda>i lut. lut(i := r i, i + 0x2000 := r i)) [0..<n] f j =
    (if j < n then r j else if 0x2000 \<le> j \<and> j < 0x2000 + n then r (j - 0x2000) else (f j :: u64))"
  using assms by (induction n) auto

lemma map_pages_apply: "map_pages b n r f j = (if b \<le> j \<and> j < b + n then r (j - b) else f j)"
  by (induction n) (auto simp: map_pages_def)

text \<open>The tables that \<^verbatim>\<open>iopMemReset\<close> leaves behind.\<close>

lemma reset_tables:
  fixes E :: "'d iop_env"
  defines "ram \<equiv> \<lambda>i. iopMain E + ucast (push_bit 16 (of_nat i AND (ExposedIopRam E div 0x10000 - 1)))"
  shows "i < 0x80 \<Longrightarrow> memLUT (iopMemReset E s) i = ram i"
    "i < 0x80 \<Longrightarrow> memLUT (iopMemReset E s) (0x2000 + i) = ram i"
    "i < 0x40 \<Longrightarrow> memLUT (iopMemReset E s) (0x3fc0 + i) = ROM E + of_nat i * 0x10000"
    "i < 0x40 \<Longrightarrow> memLUT (iopMemReset E s) (0x1fc0 + i) = 0"
  by (simp_all add: iopMemReset_def Let_def map_pages_apply fold_ram ram_def)

text \<open>Host arrays that are real objects below the middle of the address space, and one of the two
  sizes of main memory.\<close>

definition iop_hosts :: "'d iop_env \<Rightarrow> bool" where
  "iop_hosts E \<longleftrightarrow> ExposedIopRam E \<in> {0x200000, 0x800000} \<and> 0 < iopMem E \<and> iopMem E < 2 ^ 63 \<and> 0 < eeRom E \<and> eeRom E < 2 ^ 63"

lemma iop_plain_hosts: "iop_hosts iop_plain"
  by (simp add: iop_hosts_def iop_plain_def)

lemma host_pointer:
  fixes b x :: u64
  assumes "0 < b" "b < 2 ^ 63" "x < 2 ^ 32"
  shows "b + x \<noteq> 0"
proof -
  have "unat b + unat x < 2 ^ 64" using assms(2,3) by (simp add: word_less_nat_alt)
  then have "unat (b + x) = unat b + unat x" by (intro unat_add_lem [THEN iffD1]) simp
  with assms(1) show ?thesis by (auto simp: word_less_nat_alt)
qed

lemma ucast_less_word32: "(ucast (x :: u32) :: u64) < 2 ^ 32"
  using unsigned_less [of x, where 'a = nat]
  by (simp add: word_less_nat_alt unsigned_ucast_eq order_le_less_trans [OF take_bit_nat_less_eq_self])

lemma iopMemReset_pointers:
  assumes "iop_hosts E"
  shows "iopMain E + ucast (x :: u32) \<noteq> 0"
  using assms host_pointer ucast_less_word32 by (auto simp: iop_hosts_def iopMain_def)

lemma page_number:
  fixes a :: u32
  defines "m \<equiv> a AND 0x1fffffff"
  assumes "b * 0x10000 \<le> unat m" "unat m < b * 0x10000 + k * 0x10000"
  shows "b \<le> unat (drop_bit 16 m)" "unat (drop_bit 16 m) < b + k"
  using assms(2,3) by (auto simp: unat_drop_bit less_mult_imp_div_less div_le_mono [THEN order_trans[rotated]]
    less_eq_div_iff_mult_less_eq algebra_simps)


lemma ram_offset:
  fixes a K :: u32
  defines "m \<equiv> a AND 0x1fffffff"
  assumes "K \<in> {0x200000, 0x800000}"
  shows "(ucast (push_bit 16 (drop_bit 16 m AND (K div 0x10000 - 1))) :: u64) + ucast (m AND 0xFFFF) = ucast (a AND (K - 1))"
proof -
  have "\<forall>n \<in> set [0..<32]. bit (push_bit 16 (drop_bit 16 m AND (K div 0x10000 - 1)) AND (m AND 0xFFFF)) n = bit (0 :: u32) n"
    by (simp add: upt_conv_Cons bit_simps del: set_upt)
  then have z: "push_bit 16 (drop_bit 16 m AND (K div 0x10000 - 1)) AND (m AND 0xFFFF) = 0" by (intro bit_word_eqI) auto
  then have "(ucast (push_bit 16 (drop_bit 16 m AND (K div 0x10000 - 1))) :: u64) AND ucast (m AND 0xFFFF) = 0"
    by (simp flip: unsigned_and_eq)
  then have "ucast (push_bit 16 (drop_bit 16 m AND (K div 0x10000 - 1))) + ucast (m AND 0xFFFF) =
      ucast (push_bit 16 (drop_bit 16 m AND (K div 0x10000 - 1))) OR (ucast (m AND 0xFFFF) :: u64)"
    by (rule disjunctive_add_eq_or)
  then have 1: "(ucast (push_bit 16 (drop_bit 16 m AND (K div 0x10000 - 1))) :: u64) + ucast (m AND 0xFFFF) =
      ucast (push_bit 16 (drop_bit 16 m AND (K div 0x10000 - 1)) OR (m AND 0xFFFF))"
    by (simp add: unsigned_or_eq)
  have "\<forall>n \<in> set [0..<32]. bit (push_bit 16 (drop_bit 16 m AND (K div 0x10000 - 1)) OR (m AND 0xFFFF)) n = bit (a AND (K - 1)) n"
    using assms(2) by (elim insertE emptyE) (simp_all add: m_def upt_conv_Cons bit_simps del: set_upt, simp_all add: eval_nat_numeral)
  then have "push_bit 16 (drop_bit 16 m AND (K div 0x10000 - 1)) OR (m AND 0xFFFF) = a AND (K - 1)" by (intro bit_word_eqI) auto
  with 1 show ?thesis by simp
qed

lemma ram_pointers:
  assumes "iop_hosts E" "a AND 0x1fffffff < 0x800000" "memLUT t = memLUT (iopMemReset E s)"
  defines "m \<equiv> a AND 0x1fffffff"
  shows "psxMemRLUT (drop_bit 16 m) t \<noteq> 0" "psxMemRLUT (drop_bit 16 m) t + ucast (a AND 0xFFFF) = iopPhysMem E a"
    "psxMemWLUT (drop_bit 16 m) t = psxMemRLUT (drop_bit 16 m) t" "unat (drop_bit 16 m) < 0x80"
proof -
  have m: "m AND 0xFFFF = a AND 0xFFFF" by (simp add: m_def and.assoc)
  have n: "unat (drop_bit 16 m) < 0x80" using assms(2) unfolding m_def [symmetric] by (simp add: unat_drop_bit word_less_nat_alt less_mult_imp_div_less)
  have p: "psxMemRLUT (drop_bit 16 m) t = iopMain E + ucast (push_bit 16 (drop_bit 16 m AND (ExposedIopRam E div 0x10000 - 1)))"
    "psxMemWLUT (drop_bit 16 m) t = iopMain E + ucast (push_bit 16 (drop_bit 16 m AND (ExposedIopRam E div 0x10000 - 1)))"
    using reset_tables(1,2) [OF n, of E s] by (simp_all add: psxMemRLUT_def psxMemWLUT_def assms(3))
  show "unat (drop_bit 16 m) < 0x80" by (rule n)
  show "psxMemRLUT (drop_bit 16 m) t \<noteq> 0" using iopMemReset_pointers [OF assms(1)] by (simp only: p not_False_eq_True)
  show "psxMemWLUT (drop_bit 16 m) t = psxMemRLUT (drop_bit 16 m) t" by (simp only: p)
  have "ExposedIopRam E \<in> {0x200000, 0x800000}" using assms(1) by (simp add: iop_hosts_def)
  from ram_offset [OF this, of a] show "psxMemRLUT (drop_bit 16 m) t + ucast (a AND 0xFFFF) = iopPhysMem E a"
    unfolding p m [symmetric] by (simp add: iopPhysMem_def m_def add.assoc)
qed


lemma ram_not_device:
  fixes p :: u32
  assumes "unat p < 0x80"
  shows "p \<noteq> 0x1f80" "p \<noteq> 0x1f40" "p \<noteq> 0x1d00" "p \<noteq> 0x1000" "p \<noteq> 0x1F90"
  using assms by auto

lemma masked_offset: "(a AND 0x1fffffff) AND 0xFFFF = (a AND 0xFFFF :: u32)"
  by (simp add: and.assoc)

text \<open>
  C22: main memory after a reset. Every address whose low 29 bits lie below 8 MiB, in every segment,
  is main memory, mirrored to its exposed size: reads at all widths load from the host bytes that
  \<^verbatim>\<open>iopPhysMem\<close> names and change nothing, writes store there, and while the cache is isolated
  writes are dropped.
\<close>
theorem iop_main_memory:
  assumes "iop_hosts E" "a AND 0x1fffffff < 0x800000" "memLUT t = memLUT (iopMemReset E s)"
  defines "p \<equiv> iopPhysMem E a"
  shows "iopMemRead8 E a t = (iload p t, t) \<and> iopMemRead16 E a t = (iload p t, t) \<and> iopMemRead32 E a t = (iload p t, t) \<and>
    iopMemWrite8 E a b t = (if isolated t then t else istore p b t) \<and>
    iopMemWrite16 E a h t = (if isolated t then t else istore p h t) \<and>
    iopMemWrite32 E a w t = (if isolated t then t else istore p w t)"
  using ram_pointers [OF assms(1-3)] ram_not_device [OF ram_pointers(4) [OF assms(1-3)]]
  by (simp add: iopMemRead8_def iopMemRead16_def iopMemRead32_def iopMemWrite8_def iopMemWrite16_def iopMemWrite32_def Let_def
    masked_offset p_def)

theorem iop_main_memory_witness:
  "iopMemRead32 iop_plain 0xa0200004 (iopMemReset iop_plain iop_zero) =
    (iload (iopPhysMem iop_plain 0xa0200004) (iopMemReset iop_plain iop_zero), iopMemReset iop_plain iop_zero)"
  using iop_main_memory [where a = "0xa0200004" and t = "iopMemReset iop_plain iop_zero" and s = iop_zero, OF iop_plain_hosts _ refl] by simp

lemma low_less: "unat (a AND 0xFFFF :: u32) < 0x10000"
proof -
  have "a AND 0xFFFF \<le> 0xFFFF" by (rule word_and_le1)
  then show ?thesis by (simp add: word_le_nat_alt)
qed

lemma unat_and_mask: "unat ((w :: u32) AND 2 ^ n - 1) = unat w mod 2 ^ n"
proof -
  have "w AND 2 ^ n - 1 = take_bit n w" by (simp only: take_bit_eq_mask mask_eq_exp_minus_1)
  then show ?thesis by (simp only: unsigned_take_bit_eq) (simp only: take_bit_eq_mod)
qed

lemma low_half_part: "unat (m :: u32) = 0x10000 * unat (drop_bit 16 m) + unat (m AND 0xFFFF)"
proof -
  have "unat (m AND 0xFFFF) = unat m mod 0x10000"
    by (rule unat_and_mask [of m 16, simplified])
  then show ?thesis by (simp add: unat_drop_bit)
qed

lemma rom_pages:
  assumes "iop_hosts E" "0x1fc00000 \<le> a AND 0x1fffffff" "memLUT t = memLUT (iopMemReset E s)"
  defines "m \<equiv> a AND 0x1fffffff"
  shows "psxMemRLUT (drop_bit 16 m) t \<noteq> 0" "psxMemRLUT (drop_bit 16 m) t + ucast (a AND 0xFFFF) = ROM E + ucast (a AND 0x3fffff)"
    "psxMemWLUT (drop_bit 16 m) t = 0" "0x1fc0 \<le> unat (drop_bit 16 m)"
proof -
  have le: "m \<le> 0x1fffffff" unfolding m_def by (rule word_and_le1)
  have n: "0x1fc0 \<le> unat (drop_bit 16 m)" "unat (drop_bit 16 m) < 0x2000"
    using assms(2) le unfolding m_def [symmetric] by (simp_all add: unat_drop_bit word_le_nat_alt)
  define i where "i = unat (drop_bit 16 m) - 0x1fc0"
  have i: "unat (drop_bit 16 m) = 0x1fc0 + i" "i < 0x40" using n by (simp_all add: i_def)
  show "0x1fc0 \<le> unat (drop_bit 16 m)" by (rule n)
  show "psxMemWLUT (drop_bit 16 m) t = 0"
    using reset_tables(4) [OF i(2), of E s] by (simp add: psxMemWLUT_def i assms(3))
  have p: "psxMemRLUT (drop_bit 16 m) t = ROM E + of_nat i * 0x10000"
    using reset_tables(3) [OF i(2), of E s] by (simp add: psxMemRLUT_def i assms(3) add.commute add.left_commute)
  have e: "of_nat i * 0x10000 + ucast (a AND 0xFFFF) = (ucast (a AND 0x3fffff) :: u64)"
  proof -
    have lo: "unat m = 0x10000 * (0x1fc0 + i) + unat (a AND 0xFFFF)"
      using low_half_part [of m] by (simp only: m_def masked_offset i(1) [unfolded m_def])
    have "unat (a AND 0xFFFF) < 0x10000" by (rule low_less)
    moreover have "a AND 0x3fffff = m AND 0x3fffff" by (simp add: m_def and.assoc)
    moreover have "unat (m AND 0x3fffff) = unat m mod 0x400000"
      by (rule unat_and_mask [of m 22, simplified])
    moreover have "unat m = (i * 0x10000 + unat (a AND 0xFFFF)) + 0x7f * 0x400000" using lo by simp
    ultimately have "unat (a AND 0x3fffff) = i * 0x10000 + unat (a AND 0xFFFF)"
      using i(2) by (simp only: mod_mult_self1 mod_less)
    then have "of_nat (unat (a AND 0x3fffff)) = (of_nat (i * 0x10000 + unat (a AND 0xFFFF)) :: u64)" by (rule arg_cong)
    then show ?thesis by (simp add: unsigned_ucast_eq)
  qed
  have "unat (of_nat (i * 0x10000) :: u64) = i * 0x10000" using i(2) by (simp only: unat_of_nat) simp
  then have small: "(of_nat i * 0x10000 :: u64) < 2 ^ 32" using i(2) by (simp add: word_less_nat_alt)
  show "psxMemRLUT (drop_bit 16 m) t \<noteq> 0" using host_pointer [OF _ _ small, of "eeRom E"] assms(1) by (simp add: p ROM_def iop_hosts_def)
  show "psxMemRLUT (drop_bit 16 m) t + ucast (a AND 0xFFFF) = ROM E + ucast (a AND 0x3fffff)"
    unfolding p add.assoc e ..
qed


lemma rom_not_device:
  fixes p :: u32
  assumes "0x1fc0 \<le> unat p"
  shows "p \<noteq> 0x1f80" "p \<noteq> 0x1f40" "p \<noteq> 0x1d00" "p \<noteq> 0x1000" "p \<noteq> 0x1F90"
  using assms by auto

text \<open>
  The boot memory after a reset. In every segment the last 4 MiB of the low 29 bits are the
  read-only memory: reads at all widths load from it and change nothing, and writes have no effect.
\<close>
lemma iop_boot_rom:
  assumes "iop_hosts E" "0x1fc00000 \<le> a AND 0x1fffffff" "memLUT t = memLUT (iopMemReset E s)"
  defines "p \<equiv> ROM E + ucast (a AND 0x3fffff)"
  shows "iopMemRead8 E a t = (iload p t, t) \<and> iopMemRead16 E a t = (iload p t, t) \<and> iopMemRead32 E a t = (iload p t, t) \<and>
    iopMemWrite8 E a b t = t \<and> iopMemWrite16 E a h t = t \<and> iopMemWrite32 E a w t = t"
  using rom_pages [OF assms(1-3)] rom_not_device [OF rom_pages(4) [OF assms(1-3)]]
  by (simp add: iopMemRead8_def iopMemRead16_def iopMemRead32_def iopMemWrite8_def iopMemWrite16_def iopMemWrite32_def Let_def
    masked_offset p_def)


lemma safe_write_nil: "iopMemSafeWriteBytes a [] t = Some (True, t)"
  by (subst iopMemSafeWriteBytes.simps) simp

lemma safe_write_page:
  assumes "iopVirtMemW a t = Some p" "p \<noteq> 0"
  shows "iopMemSafeWriteBytes a [v] t = Some (True, t\<lparr>ihost := (ihost t)(p := v)\<rparr>)"
proof -
  have "iop_remaining a (Suc 0) = Suc 0"
    using iop_remaining_pos(1) [of "Suc 0" a] iop_remaining_pos(2) [where n = "Suc 0" and mem = a] by simp
  then show ?thesis using assms by (subst iopMemSafeWriteBytes.simps) (simp add: Let_def safe_write_nil)
qed

text \<open>
  C39: the block write for tools does not reduce the address to its low 29 bits as the block read and
  the processor's own accesses do. In the cached and uncached segments, from \<open>0x40000000\<close> on, it
  indexes past the end of the page table; and below, at an alias of the boot memory, it takes the entry of the
  read table and changes the read-only memory, where the processor's store has no effect.
\<close>
theorem iop_safe_write_escapes:
  assumes "iop_hosts E" "memLUT t = memLUT (iopMemReset E s)"
  shows "(0x40000000 \<le> a \<longrightarrow> iopMemSafeWriteBytes a (v # vs) t = None) \<and>
    (0x3fc00000 \<le> a \<and> a < 0x40000000 \<longrightarrow>
       iopMemSafeWriteBytes a [v] t = Some (True, t\<lparr>ihost := (ihost t)(ROM E + ucast (a AND 0x3fffff) := v)\<rparr>) \<and>
       iopMemWrite8 E a v t = t)"
proof (intro conjI impI)
  assume "0x40000000 \<le> a"
  then have "0x4000 \<le> unat (drop_bit 16 a)" by (simp add: word_le_nat_alt unat_drop_bit)
  then have "iopVirtMemW a t = None" by (simp add: iopVirtMemW_def)
  then show "iopMemSafeWriteBytes a (v # vs) t = None" by (subst iopMemSafeWriteBytes.simps) (simp add: Let_def)
next
  assume a: "0x3fc00000 \<le> a \<and> a < 0x40000000"
  have m: "unat (a AND 0x1fffffff) = unat a mod 0x20000000" by (rule unat_and_mask [of a 29, simplified])
  have u: "0x3fc00000 \<le> unat a" "unat a < 0x40000000" using a by (simp_all add: word_le_nat_alt word_less_nat_alt)
  have "x = x mod 0x20000000 + 0x20000000" if "0x3fc00000 \<le> x" "x < 0x40000000" for x :: nat using that by (simp add: le_mod_geq)
  from this [OF u] have m': "unat a = unat (a AND 0x1fffffff) + 0x20000000" unfolding m .
  have rom: "0x1fc00000 \<le> a AND 0x1fffffff" using u(1) unfolding m' by (simp only: word_le_nat_alt) simp
  note p = rom_pages [OF assms(1) rom assms(2)]
  have "unat (drop_bit 16 a) = 0x2000 + unat (drop_bit 16 (a AND 0x1fffffff))"
  proof -
    have "(x + 0x20000000) div 2 ^ 16 = 0x2000 + x div 2 ^ 16" for x :: nat by simp
    then show ?thesis unfolding unat_drop_bit m' .
  qed
  moreover have "unat (drop_bit 16 a) < 0x4000" using u by (simp add: unat_drop_bit less_mult_imp_div_less)
  ultimately have "iopVirtMemW a t = Some (ROM E + ucast (a AND 0x3fffff))"
    using p(1,2) by (simp add: iopVirtMemW_def psxMemRLUT_def)
  moreover have "ROM E + ucast (a AND 0x3fffff) \<noteq> 0"
    using assms(1) host_pointer [OF _ _ ucast_less_word32] by (simp add: iop_hosts_def ROM_def)
  ultimately show "iopMemSafeWriteBytes a [v] t = Some (True, t\<lparr>ihost := (ihost t)(ROM E + ucast (a AND 0x3fffff) := v)\<rparr>)"
    by (rule safe_write_page)
  show "iopMemWrite8 E a v t = t" using p(3) rom_not_device [OF p(4)] by (simp add: iopMemWrite8_def Let_def)
qed

theorem iop_safe_write_escapes_witness:
  "iopMemSafeWriteBytes 0x80000000 [7] (iopMemReset iop_plain iop_zero) = None \<and>
   map_option fst (iopMemSafeWriteBytes 0x3fc00000 [7] (iopMemReset iop_plain iop_zero)) = Some True"
  using iop_safe_write_escapes [where a = "0x80000000" and v = 7 and vs = "[]" and t = "iopMemReset iop_plain iop_zero" and s = iop_zero, OF iop_plain_hosts refl]
    iop_safe_write_escapes [where a = "0x3fc00000" and v = 7 and vs = "[]" and t = "iopMemReset iop_plain iop_zero" and s = iop_zero, OF iop_plain_hosts refl] by simp

end
