(* ===== verification/IOP_Interp.thy ===== *)
theory IOP_Interp
  imports EE_ALU Host_Float IOP_Mem
begin

text \<open>
  The interpreter of the second processor, an R3000A (\<^verbatim>\<open>pcsx2/R3000A.cpp\<close>,
  \<^verbatim>\<open>pcsx2/R3000AOpcodeTables.cpp\<close>, \<^verbatim>\<open>pcsx2/R3000AInterpreter.cpp\<close>): exceptions and events,
  instructions, branches with delay slots, fetch and dispatch, and the loop that runs it for a number
  of cycles of the main processor. Branches take the interpreter as an argument, as in \<open>EE_Interp\<close>;
  \<open>None\<close> says that the fuel for nested delay slots ran out or that a loop does not end. Breakpoints
  (development builds), logs and the debugger's module list are left out.
\<close>

section \<open>Exceptions and events\<close>

text \<open>Reset of the registers, followed by the reset of the devices.\<close>

definition psxReset :: "('d iop \<Rightarrow> 'd iop) \<Rightarrow> 'd iop \<Rightarrow> 'd iop" where
  "psxReset hw_reset s =
     hw_reset (s\<lparr>psxGPR := (\<lambda>_. 0), psxHI := 0, psxLO := 0, psxCP0 := (\<lambda>_. 0)(12 := 0x00400000, 15 := 0x1f),
       psxPC := 0xbfc00000, psxCode := 0, psxCycle := 0, psxInterrupt := 0, iopNextEventCycle := 4, iopBreak := 0,
       iopCycleEE := - 1, iopCycleEECarry := 0, sCycle := (\<lambda>_. 0), eCycle := (\<lambda>_. 0)\<rparr>)"

definition wpsxGPR :: "5 word \<Rightarrow> u32 \<Rightarrow> 'd iop \<Rightarrow> 'd iop" where
  "wpsxGPR r v s = s\<lparr>psxGPR := (psxGPR s)(r := v)\<rparr>"

definition wpsxCP0 :: "5 word \<Rightarrow> u32 \<Rightarrow> 'd iop \<Rightarrow> 'd iop" where
  "wpsxCP0 r v s = s\<lparr>psxCP0 := (psxCP0 s)(r := v)\<rparr>"

definition psxException :: "u32 \<Rightarrow> bool \<Rightarrow> 'd iop \<Rightarrow> 'd iop" where
  "psxException cause bd s =
     (let s = wpsxCP0 Cause (psxCP0 s Cause AND NOT 0x7f) s;
          s = wpsxCP0 Cause (psxCP0 s Cause OR cause) s;
          s = (if bd then wpsxCP0 EPC (psxPC s - 4) (wpsxCP0 Cause (psxCP0 s Cause OR 0x80000000) s)
               else wpsxCP0 EPC (psxPC s) s);
          s = s\<lparr>psxPC := (if psxCP0 s Status AND 0x400000 \<noteq> 0 then 0xbfc00180 else 0x80000080)\<rparr>
      in wpsxCP0 Status ((psxCP0 s Status AND NOT 0x3f) OR push_bit 2 (psxCP0 s Status AND 0xf)) s)"

definition psxSetNextBranch :: "u64 \<Rightarrow> u32 \<Rightarrow> 'd iop \<Rightarrow> 'd iop" where
  "psxSetNextBranch startCycle delta s =
     (if delta <s (ucast (iopNextEventCycle s - startCycle) :: u32)
      then s\<lparr>iopNextEventCycle := startCycle + scast delta\<rparr> else s)"

definition psxSetNextBranchDelta :: "u32 \<Rightarrow> 'd iop \<Rightarrow> 'd iop" where
  "psxSetNextBranchDelta delta s = psxSetNextBranch (psxCycle s) delta s"

definition psxTestCycle :: "u64 \<Rightarrow> u32 \<Rightarrow> 'd iop \<Rightarrow> bool" where
  "psxTestCycle startCycle delta s \<longleftrightarrow> delta \<le>s (ucast (psxCycle s - startCycle) :: u32)"

definition psxRemainingCycles :: "nat \<Rightarrow> 'd iop \<Rightarrow> u32" where
  "psxRemainingCycles n s =
     (if bit (psxInterrupt s) n then ucast ((psxCycle s - sCycle s n) + scast (eCycle s n)) else 0)"

definition PS2CLK :: nat where "PS2CLK = 294912000"

text \<open>The delta in main processor cycles is computed in single precision, with the control register
  \<open>c\<close> of the thread.\<close>

definition PSX_INT :: "FPControlRegister \<Rightarrow> 'd iop_env \<Rightarrow> nat \<Rightarrow> u32 \<Rightarrow> 'd iop \<Rightarrow> 'd iop" where
  "PSX_INT c E n ecycle s =
     (let s = s\<lparr>psxInterrupt := psxInterrupt s OR push_bit n 1, sCycle := (sCycle s)(n := psxCycle s),
                eCycle := (eCycle s)(n := ecycle)\<rparr>;
          s = psxSetNextBranchDelta ecycle s;
          multiplier = f_div c (f_of_int c (int PS2CLK)) (f_of_int c (uint (PSXCLK E)));
          iopDelta = word_of_int (f_trunc c (f_mul c (f_of_int c (uint (iopNextEventCycle s - psxCycle s))) multiplier))
      in if iopCycleEE s <s iopDelta
         then s\<lparr>eeRegs := cpuSetNextEventDelta (iopDelta - iopCycleEE s) (eeRegs s)\<rparr> else s)"

text \<open>\<^verbatim>\<open>IopTestEvent\<close> and \<^verbatim>\<open>Sio0TestEvent\<close>, which differ in their callback.\<close>

definition IopTestEvent :: "'d iop_env \<Rightarrow> nat \<Rightarrow> 'd iop \<Rightarrow> 'd iop" where
  "IopTestEvent E n s =
     (if \<not> bit (psxInterrupt s) n then s
      else if psxTestCycle (sCycle s n) (eCycle s n) s
      then event_callback E n (s\<lparr>psxInterrupt := psxInterrupt s AND NOT (push_bit n 1)\<rparr>)
      else psxSetNextBranch (sCycle s n) (eCycle s n) s)"

text \<open>The numbers of \<^verbatim>\<open>IopEventId\<close>, in its order.\<close>

abbreviation (input) IopEvt_SIF2 :: nat where "IopEvt_SIF2 \<equiv> 0"
abbreviation (input) IopEvt_Cdvd :: nat where "IopEvt_Cdvd \<equiv> 1"
abbreviation (input) IopEvt_SIF0 :: nat where "IopEvt_SIF0 \<equiv> 2"
abbreviation (input) IopEvt_SIF1 :: nat where "IopEvt_SIF1 \<equiv> 3"
abbreviation (input) IopEvt_Dma11 :: nat where "IopEvt_Dma11 \<equiv> 4"
abbreviation (input) IopEvt_Dma12 :: nat where "IopEvt_Dma12 \<equiv> 5"
abbreviation (input) IopEvt_SIO :: nat where "IopEvt_SIO \<equiv> 6"
abbreviation (input) IopEvt_Cdrom :: nat where "IopEvt_Cdrom \<equiv> 7"
abbreviation (input) IopEvt_CdromRead :: nat where "IopEvt_CdromRead \<equiv> 8"
abbreviation (input) IopEvt_CdvdRead :: nat where "IopEvt_CdvdRead \<equiv> 9"
abbreviation (input) IopEvt_CdvdSectorReady :: nat where "IopEvt_CdvdSectorReady \<equiv> 10"
abbreviation (input) IopEvt_DEV9 :: nat where "IopEvt_DEV9 \<equiv> 11"
abbreviation (input) IopEvt_USB :: nat where "IopEvt_USB \<equiv> 12"

definition psxTestInterrupts :: "'d iop_env \<Rightarrow> 'd iop \<Rightarrow> 'd iop" where
  "psxTestInterrupts E s =
     (let s = fold (IopTestEvent E) [IopEvt_SIF0, IopEvt_SIF1, IopEvt_SIF2, IopEvt_SIO, IopEvt_CdvdSectorReady, IopEvt_CdvdRead] s
      in if \<exists>n \<in> set [IopEvt_Cdvd, IopEvt_Dma11, IopEvt_Dma12, IopEvt_Cdrom, IopEvt_CdromRead, IopEvt_DEV9, IopEvt_USB].
              bit (psxInterrupt s) n
         then fold (IopTestEvent E)
                [IopEvt_Cdvd, IopEvt_Dma11, IopEvt_Dma12, IopEvt_Cdrom, IopEvt_CdromRead, IopEvt_DEV9, IopEvt_USB] s
         else s)"

abbreviation (input) HW_ISTAT :: u32 where "HW_ISTAT \<equiv> 0x1f801070"
abbreviation (input) HW_IMASK :: u32 where "HW_IMASK \<equiv> 0x1f801074"
abbreviation (input) HW_ICTRL :: u32 where "HW_ICTRL \<equiv> 0x1f801078"
abbreviation (input) HW_ICFG :: u32 where "HW_ICFG \<equiv> 0x1f801450"

definition psxHu32 :: "'d iop_env \<Rightarrow> u32 \<Rightarrow> 'd iop \<Rightarrow> u32" where
  "psxHu32 E a s = iload (psxHu E a) s"

text \<open>\<^verbatim>\<open>iopEventTest\<close> in two parts: the counters and device events, then the interrupt.\<close>

definition iop_run_events :: "'d iop_env \<Rightarrow> 'd iop \<Rightarrow> 'd iop" where
  "iop_run_events E s =
     (let s = s\<lparr>iopNextEventCycle := psxCycle s + 384\<rparr>;
          s = (if psxTestCycle (psxNextStartCounter s) (psxNextDeltaCounter s) s
               then (counters_update E s)\<lparr>iopEventAction := True\<rparr>
               else if psxNextDeltaCounter s <s (ucast (iopNextEventCycle s - psxNextStartCounter s) :: u32)
               then s\<lparr>iopNextEventCycle := psxNextStartCounter s + scast (psxNextDeltaCounter s)\<rparr> else s)
      in if psxInterrupt s \<noteq> 0
         then (psxTestInterrupts E (s\<lparr>iopEventTestIsActive := True\<rparr>))\<lparr>iopEventTestIsActive := False\<rparr> else s)"

definition iopEventTest :: "'d iop_env \<Rightarrow> 'd iop \<Rightarrow> 'd iop" where
  "iopEventTest E s =
     (let s = iop_run_events E s
      in if psxHu32 E HW_ICTRL s \<noteq> 0 \<and> psxHu32 E HW_ISTAT s AND psxHu32 E HW_IMASK s \<noteq> 0 \<and>
            0x401 \<le> psxCP0 s Status AND 0xFE01
         then (psxException 0 False s)\<lparr>iopEventAction := True\<rparr> else s)"

definition iopTestIntc :: "'d iop_env \<Rightarrow> 'd iop \<Rightarrow> 'd iop" where
  "iopTestIntc E s =
     (if psxHu32 E HW_ICTRL s = 0 then s
      else if psxHu32 E HW_ISTAT s AND psxHu32 E HW_IMASK s = 0 then s
      else if \<not> eeEventTestIsActive E
      then s\<lparr>eeRegs := cpuSetNextEventDelta 16 (eeRegs s), iopEventAction := True\<rparr>
      else if \<not> iopEventTestIsActive s then psxSetNextBranchDelta 2 s else s)"

section \<open>Instruction fields\<close>

definition iRd :: "'d iop \<Rightarrow> 5 word" where "iRd s = ucast (drop_bit 11 (psxCode s) AND 0x1F)"
definition iRt :: "'d iop \<Rightarrow> 5 word" where "iRt s = ucast (drop_bit 16 (psxCode s) AND 0x1F)"
definition iRs :: "'d iop \<Rightarrow> 5 word" where "iRs s = ucast (drop_bit 21 (psxCode s) AND 0x1F)"
definition iSa :: "'d iop \<Rightarrow> nat" where "iSa s = unat (drop_bit 6 (psxCode s) AND 0x1F)"
definition iFunct :: "'d iop \<Rightarrow> nat" where "iFunct s = unat (psxCode s AND 0x3F)"
definition iImm :: "'d iop \<Rightarrow> u32" where "iImm s = scast (ucast (psxCode s) :: u16)"
definition iImmU :: "'d iop \<Rightarrow> u32" where "iImmU s = psxCode s AND 0xffff"
definition rRs :: "'d iop \<Rightarrow> u32" where "rRs s = psxGPR s (iRs s)"
definition rRt :: "'d iop \<Rightarrow> u32" where "rRt s = psxGPR s (iRt s)"
definition iJumpTarget :: "'d iop \<Rightarrow> u32" where
  "iJumpTarget s = push_bit 2 (psxCode s AND 0x03ffffff) + (psxPC s AND 0xf0000000)"
definition iBranchTarget :: "'d iop \<Rightarrow> u32" where "iBranchTarget s = iImm s * 4 + psxPC s"
definition iSetLink :: "5 word \<Rightarrow> 'd iop \<Rightarrow> 'd iop" where "iSetLink r s = wpsxGPR r (psxPC s + 4) s"
definition oB :: "'d iop \<Rightarrow> u32" where "oB s = rRs s + iImm s"

text \<open>Writing the destination of an instruction: nothing for register 0.\<close>

definition put_Rt :: "u32 \<Rightarrow> 'd iop \<Rightarrow> 'd iop" where
  "put_Rt v s = (if iRt s = 0 then s else wpsxGPR (iRt s) v s)"

definition put_Rd :: "u32 \<Rightarrow> 'd iop \<Rightarrow> 'd iop" where
  "put_Rd v s = (if iRd s = 0 then s else wpsxGPR (iRd s) v s)"

section \<open>Arithmetic\<close>

definition psxADDI :: "'d iop \<Rightarrow> 'd iop" where "psxADDI s = put_Rt (rRs s + iImm s) s"
definition psxADDIU :: "'d iop \<Rightarrow> 'd iop" where "psxADDIU s = put_Rt (rRs s + iImm s) s"
definition psxANDI :: "'d iop \<Rightarrow> 'd iop" where "psxANDI s = put_Rt (rRs s AND iImmU s) s"
definition psxORI :: "'d iop \<Rightarrow> 'd iop" where "psxORI s = put_Rt (rRs s OR iImmU s) s"
definition psxXORI :: "'d iop \<Rightarrow> 'd iop" where "psxXORI s = put_Rt (rRs s XOR iImmU s) s"
definition psxSLTI :: "'d iop \<Rightarrow> 'd iop" where "psxSLTI s = put_Rt (if rRs s <s iImm s then 1 else 0) s"
definition psxSLTIU :: "'d iop \<Rightarrow> 'd iop" where "psxSLTIU s = put_Rt (if rRs s < iImm s then 1 else 0) s"
definition psxADD :: "'d iop \<Rightarrow> 'd iop" where "psxADD s = put_Rd (rRs s + rRt s) s"
definition psxADDU :: "'d iop \<Rightarrow> 'd iop" where "psxADDU s = put_Rd (rRs s + rRt s) s"
definition psxSUB :: "'d iop \<Rightarrow> 'd iop" where "psxSUB s = put_Rd (rRs s - rRt s) s"
definition psxSUBU :: "'d iop \<Rightarrow> 'd iop" where "psxSUBU s = put_Rd (rRs s - rRt s) s"
definition psxAND :: "'d iop \<Rightarrow> 'd iop" where "psxAND s = put_Rd (rRs s AND rRt s) s"
definition psxOR :: "'d iop \<Rightarrow> 'd iop" where "psxOR s = put_Rd (rRs s OR rRt s) s"
definition psxXOR :: "'d iop \<Rightarrow> 'd iop" where "psxXOR s = put_Rd (rRs s XOR rRt s) s"
definition psxNOR :: "'d iop \<Rightarrow> 'd iop" where "psxNOR s = put_Rd (NOT (rRs s OR rRt s)) s"
definition psxSLT :: "'d iop \<Rightarrow> 'd iop" where "psxSLT s = put_Rd (if rRs s <s rRt s then 1 else 0) s"
definition psxSLTU :: "'d iop \<Rightarrow> 'd iop" where "psxSLTU s = put_Rd (if rRs s < rRt s then 1 else 0) s"

definition psxDIV :: "'d iop \<Rightarrow> 'd iop" where
  "psxDIV s =
     (if rRt s = 0 then s\<lparr>psxLO := (if rRs s <s 0 then 1 else 0xFFFFFFFF), psxHI := rRs s\<rparr>
      else if rRs s = 0x80000000 \<and> rRt s = 0xFFFFFFFF then s\<lparr>psxLO := 0x80000000, psxHI := 0\<rparr>
      else s\<lparr>psxLO := s32_div (rRs s) (rRt s), psxHI := s32_mod (rRs s) (rRt s)\<rparr>)"

definition psxDIVU :: "'d iop \<Rightarrow> 'd iop" where
  "psxDIVU s =
     (if rRt s = 0 then s\<lparr>psxLO := 0xFFFFFFFF, psxHI := rRs s\<rparr>
      else s\<lparr>psxLO := rRs s div rRt s, psxHI := rRs s mod rRt s\<rparr>)"

definition psxMULT :: "'d iop \<Rightarrow> 'd iop" where
  "psxMULT s = (let res = scast (rRs s) * scast (rRt s) :: u64 in s\<lparr>psxLO := ucast res, psxHI := ucast (drop_bit 32 res)\<rparr>)"

definition psxMULTU :: "'d iop \<Rightarrow> 'd iop" where
  "psxMULTU s = (let res = ucast (rRs s) * ucast (rRt s) :: u64 in s\<lparr>psxLO := ucast res, psxHI := ucast (drop_bit 32 res)\<rparr>)"

text \<open>The variable shifts use the whole register as the count; counts from 32 on, which C++ leaves
  undefined, are taken modulo 32 as the shift instructions of the hosts do.\<close>

definition psxSLL :: "'d iop \<Rightarrow> 'd iop" where "psxSLL s = put_Rd (push_bit (iSa s) (rRt s)) s"
definition psxSRA :: "'d iop \<Rightarrow> 'd iop" where "psxSRA s = put_Rd (signed_drop_bit (iSa s) (rRt s)) s"
definition psxSRL :: "'d iop \<Rightarrow> 'd iop" where "psxSRL s = put_Rd (drop_bit (iSa s) (rRt s)) s"
definition psxSLLV :: "'d iop \<Rightarrow> 'd iop" where "psxSLLV s = put_Rd (push_bit (unat (rRs s) mod 32) (rRt s)) s"
definition psxSRAV :: "'d iop \<Rightarrow> 'd iop" where "psxSRAV s = put_Rd (signed_drop_bit (unat (rRs s) mod 32) (rRt s)) s"
definition psxSRLV :: "'d iop \<Rightarrow> 'd iop" where "psxSRLV s = put_Rd (drop_bit (unat (rRs s) mod 32) (rRt s)) s"

definition psxLUI :: "'d iop \<Rightarrow> 'd iop" where "psxLUI s = put_Rt (push_bit 16 (psxCode s)) s"
definition psxMFHI :: "'d iop \<Rightarrow> 'd iop" where "psxMFHI s = put_Rd (psxHI s) s"
definition psxMFLO :: "'d iop \<Rightarrow> 'd iop" where "psxMFLO s = put_Rd (psxLO s) s"
definition psxMTHI :: "'d iop \<Rightarrow> 'd iop" where "psxMTHI s = s\<lparr>psxHI := rRs s\<rparr>"
definition psxMTLO :: "'d iop \<Rightarrow> 'd iop" where "psxMTLO s = s\<lparr>psxLO := rRs s\<rparr>"

section \<open>System instructions\<close>

definition psxBREAK :: "'d iop \<Rightarrow> 'd iop" where
  "psxBREAK s = (let s = s\<lparr>psxPC := psxPC s - 4\<rparr> in psxException 0x24 (iopIsDelaySlot s) s)"

definition psxSYSCALL :: "'d iop \<Rightarrow> 'd iop" where
  "psxSYSCALL s = (let s = s\<lparr>psxPC := psxPC s - 4\<rparr> in psxException 0x20 (iopIsDelaySlot s) s)"

definition psxRFE :: "'d iop \<Rightarrow> 'd iop" where
  "psxRFE s = wpsxCP0 Status ((psxCP0 s Status AND 0xfffffff0) OR drop_bit 2 (psxCP0 s Status AND 0x3c)) s"

definition psxMFC0 :: "'d iop \<Rightarrow> 'd iop" where "psxMFC0 s = put_Rt (psxCP0 s (iRd s)) s"
definition psxCFC0 :: "'d iop \<Rightarrow> 'd iop" where "psxCFC0 s = put_Rt (psxCP0 s (iRd s)) s"
definition psxMTC0 :: "'d iop \<Rightarrow> 'd iop" where "psxMTC0 s = wpsxCP0 (iRd s) (rRt s) s"
definition psxCTC0 :: "'d iop \<Rightarrow> 'd iop" where "psxCTC0 s = wpsxCP0 (iRd s) (rRt s) s"
definition psxNULL :: "'d iop \<Rightarrow> 'd iop" where "psxNULL s = s"

section \<open>Loads and stores\<close>

definition psxLB :: "'d iop_env \<Rightarrow> 'd iop \<Rightarrow> 'd iop" where
  "psxLB E s = (case iopMemRead8 E (oB s) s of (v, t) \<Rightarrow> if iRt s \<noteq> 0 then wpsxGPR (iRt t) (scast v) t else t)"

definition psxLBU :: "'d iop_env \<Rightarrow> 'd iop \<Rightarrow> 'd iop" where
  "psxLBU E s = (case iopMemRead8 E (oB s) s of (v, t) \<Rightarrow> if iRt s \<noteq> 0 then wpsxGPR (iRt t) (ucast v) t else t)"

definition psxLH :: "'d iop_env \<Rightarrow> 'd iop \<Rightarrow> 'd iop" where
  "psxLH E s = (case iopMemRead16 E (oB s) s of (v, t) \<Rightarrow> if iRt s \<noteq> 0 then wpsxGPR (iRt t) (scast v) t else t)"

definition psxLHU :: "'d iop_env \<Rightarrow> 'd iop \<Rightarrow> 'd iop" where
  "psxLHU E s = (case iopMemRead16 E (oB s) s of (v, t) \<Rightarrow> if iRt s \<noteq> 0 then wpsxGPR (iRt t) (ucast v) t else t)"

definition psxLW :: "'d iop_env \<Rightarrow> 'd iop \<Rightarrow> 'd iop" where
  "psxLW E s = (case iopMemRead32 E (oB s) s of (v, t) \<Rightarrow> if iRt s \<noteq> 0 then wpsxGPR (iRt t) v t else t)"

definition psxLWL :: "'d iop_env \<Rightarrow> 'd iop \<Rightarrow> 'd iop" where
  "psxLWL E s =
     (let shift = unat (push_bit 3 (oB s AND 3)) in
      case iopMemRead32 E (oB s AND 0xfffffffc) s of
        (mem, s) \<Rightarrow> put_Rt ((rRt s AND drop_bit shift 0x00ffffff) OR push_bit (24 - shift) mem) s)"

definition psxLWR :: "'d iop_env \<Rightarrow> 'd iop \<Rightarrow> 'd iop" where
  "psxLWR E s =
     (let shift = unat (push_bit 3 (oB s AND 3)) in
      case iopMemRead32 E (oB s AND 0xfffffffc) s of
        (mem, s) \<Rightarrow> put_Rt ((rRt s AND push_bit (24 - shift) 0xffffff00) OR drop_bit shift mem) s)"

definition psxSB :: "'d iop_env \<Rightarrow> 'd iop \<Rightarrow> 'd iop" where
  "psxSB E s = iopMemWrite8 E (oB s) (ucast (rRt s)) s"

definition psxSH :: "'d iop_env \<Rightarrow> 'd iop \<Rightarrow> 'd iop" where
  "psxSH E s = iopMemWrite16 E (oB s) (ucast (rRt s)) s"

definition psxSW :: "'d iop_env \<Rightarrow> 'd iop \<Rightarrow> 'd iop" where
  "psxSW E s = iopMemWrite32 E (oB s) (rRt s) s"

definition psxSWL :: "'d iop_env \<Rightarrow> 'd iop \<Rightarrow> 'd iop" where
  "psxSWL E s =
     (let shift = unat (push_bit 3 (oB s AND 3)) in
      case iopMemRead32 E (oB s AND 0xfffffffc) s of
        (mem, s) \<Rightarrow> iopMemWrite32 E (oB s AND 0xfffffffc)
           (drop_bit (24 - shift) (rRt s) OR (mem AND push_bit shift 0xffffff00)) s)"

definition psxSWR :: "'d iop_env \<Rightarrow> 'd iop \<Rightarrow> 'd iop" where
  "psxSWR E s =
     (let shift = unat (push_bit 3 (oB s AND 3)) in
      case iopMemRead32 E (oB s AND 0xfffffffc) s of
        (mem, s) \<Rightarrow> iopMemWrite32 E (oB s AND 0xfffffffc)
           (push_bit shift (rRt s) OR (mem AND drop_bit (24 - shift) 0x00ffffff)) s)"

section \<open>Branches\<close>

type_synonym 'd irun = "'d iop \<Rightarrow> 'd iop option"

definition iop_doBranch :: "'d iop_env \<Rightarrow> 'd irun \<Rightarrow> u32 \<Rightarrow> 'd irun" where
  "iop_doBranch E x tar s =
     (let s = (if tar = 0xbfc4a000 then wpsxGPR 4 (drop_bit 20 (ExposedIopRam E)) s else s);
          s = s\<lparr>branch2 := True, iopIsDelaySlot := True, branchPC := tar\<rparr>
      in map_option (\<lambda>s. iopEventTest E (s\<lparr>iopIsDelaySlot := False, psxPC := branchPC s\<rparr>)) (x s))"

definition iop_branch_if :: "bool \<Rightarrow> 'd iop_env \<Rightarrow> 'd irun \<Rightarrow> 'd irun" where
  "iop_branch_if b E x s = (if b then iop_doBranch E x (iBranchTarget s) s else Some s)"

definition psxBGEZ :: "'d iop_env \<Rightarrow> 'd irun \<Rightarrow> 'd irun" where
  "psxBGEZ E x s = iop_branch_if (0 \<le>s rRs s) E x s"

definition psxBGEZAL :: "'d iop_env \<Rightarrow> 'd irun \<Rightarrow> 'd irun" where
  "psxBGEZAL E x s = (let s = iSetLink 31 s in iop_branch_if (0 \<le>s rRs s) E x s)"

definition psxBGTZ :: "'d iop_env \<Rightarrow> 'd irun \<Rightarrow> 'd irun" where
  "psxBGTZ E x s = iop_branch_if (0 <s rRs s) E x s"

definition psxBLEZ :: "'d iop_env \<Rightarrow> 'd irun \<Rightarrow> 'd irun" where
  "psxBLEZ E x s = iop_branch_if (rRs s \<le>s 0) E x s"

definition psxBLTZ :: "'d iop_env \<Rightarrow> 'd irun \<Rightarrow> 'd irun" where
  "psxBLTZ E x s = iop_branch_if (rRs s <s 0) E x s"

definition psxBLTZAL :: "'d iop_env \<Rightarrow> 'd irun \<Rightarrow> 'd irun" where
  "psxBLTZAL E x s = (let s = iSetLink 31 s in iop_branch_if (rRs s <s 0) E x s)"

definition psxBEQ :: "'d iop_env \<Rightarrow> 'd irun \<Rightarrow> 'd irun" where
  "psxBEQ E x s = iop_branch_if (rRs s = rRt s) E x s"

definition psxBNE :: "'d iop_env \<Rightarrow> 'd irun \<Rightarrow> 'd irun" where
  "psxBNE E x s = iop_branch_if (rRs s \<noteq> rRt s) E x s"

definition psxJ :: "'d iop_env \<Rightarrow> 'd irun \<Rightarrow> 'd irun" where
  "psxJ E x s =
     (case iopMemRead32 E (psxPC s) s of
        (delayslot, s) \<Rightarrow>
          if drop_bit 16 delayslot = 0x2400
          then (case irx_import E (psxPC s) (delayslot AND 0xffff) s of
                  (done, s) \<Rightarrow> if done then Some s else iop_doBranch E x (iJumpTarget s) s)
          else iop_doBranch E x (iJumpTarget s) s)"

definition psxJAL :: "'d iop_env \<Rightarrow> 'd irun \<Rightarrow> 'd irun" where
  "psxJAL E x s = (let s = iSetLink 31 s in iop_doBranch E x (iJumpTarget s) s)"

definition psxJR :: "'d iop_env \<Rightarrow> 'd irun \<Rightarrow> 'd irun" where
  "psxJR E x s = iop_doBranch E x (rRs s) s"

definition psxJALR :: "'d iop_env \<Rightarrow> 'd irun \<Rightarrow> 'd irun" where
  "psxJALR E x s = (let s = (if iRd s \<noteq> 0 then iSetLink (iRd s) s else s) in iop_doBranch E x (rRs s) s)"

section \<open>Opcode tables\<close>

definition ins :: "('d iop \<Rightarrow> 'd iop) \<Rightarrow> 'd irun" where
  "ins f s = Some (f s)"

abbreviation (input) psxUnknown :: "'d irun" where "psxUnknown \<equiv> ins psxNULL"

definition psxSPC :: "'d iop_env \<Rightarrow> 'd irun \<Rightarrow> 'd irun list" where
  "psxSPC E x =
     [ins psxSLL, psxUnknown, ins psxSRL, ins psxSRA, ins psxSLLV, psxUnknown, ins psxSRLV, ins psxSRAV,
      psxJR E x, psxJALR E x, psxUnknown, psxUnknown, ins psxSYSCALL, ins psxBREAK, psxUnknown, psxUnknown,
      ins psxMFHI, ins psxMTHI, ins psxMFLO, ins psxMTLO, psxUnknown, psxUnknown, psxUnknown, psxUnknown,
      ins psxMULT, ins psxMULTU, ins psxDIV, ins psxDIVU, psxUnknown, psxUnknown, psxUnknown, psxUnknown,
      ins psxADD, ins psxADDU, ins psxSUB, ins psxSUBU, ins psxAND, ins psxOR, ins psxXOR, ins psxNOR,
      psxUnknown, psxUnknown, ins psxSLT, ins psxSLTU, psxUnknown, psxUnknown, psxUnknown, psxUnknown] @ replicate 16 psxUnknown"

definition psxREG :: "'d iop_env \<Rightarrow> 'd irun \<Rightarrow> 'd irun list" where
  "psxREG E x =
     [psxBLTZ E x, psxBGEZ E x] @ replicate 14 psxUnknown @ [psxBLTZAL E x, psxBGEZAL E x] @ replicate 14 psxUnknown"

definition psxCP0_table :: "'d irun list" where
  "psxCP0_table =
     [ins psxMFC0, psxUnknown, ins psxCFC0, psxUnknown, ins psxMTC0, psxUnknown, ins psxCTC0, psxUnknown] @
     replicate 8 psxUnknown @ [ins psxRFE] @ replicate 15 psxUnknown"

definition psxSPECIAL :: "'d iop_env \<Rightarrow> 'd irun \<Rightarrow> 'd irun" where
  "psxSPECIAL E x s = (psxSPC E x ! iFunct s) s"

definition psxREGIMM :: "'d iop_env \<Rightarrow> 'd irun \<Rightarrow> 'd irun" where
  "psxREGIMM E x s = (psxREG E x ! unat (iRt s)) s"

definition psxCOP0 :: "'d irun" where
  "psxCOP0 s = (psxCP0_table ! unat (iRs s)) s"

definition psxBSC :: "'d iop_env \<Rightarrow> 'd irun \<Rightarrow> 'd irun list" where
  "psxBSC E x =
     [psxSPECIAL E x, psxREGIMM E x, psxJ E x, psxJAL E x, psxBEQ E x, psxBNE E x, psxBLEZ E x, psxBGTZ E x,
      ins psxADDI, ins psxADDIU, ins psxSLTI, ins psxSLTIU, ins psxANDI, ins psxORI, ins psxXORI, ins psxLUI,
      psxCOP0, psxUnknown, ins (gte_op E), psxUnknown] @ replicate 12 psxUnknown @
     [ins (psxLB E), ins (psxLH E), ins (psxLWL E), ins (psxLW E), ins (psxLBU E), ins (psxLHU E), ins (psxLWR E), psxUnknown,
      ins (psxSB E), ins (psxSH E), ins (psxSWL E), ins (psxSW E), psxUnknown, psxUnknown, ins (psxSWR E), psxUnknown,
      psxUnknown, psxUnknown, ins (gte_op E), psxUnknown, psxUnknown, psxUnknown, psxUnknown, psxUnknown,
      psxUnknown, psxUnknown, ins (gte_op E), psxUnknown, psxUnknown, psxUnknown, psxUnknown, psxUnknown]"

section \<open>Fetch, dispatch and the block loop\<close>

definition iop_exec_with :: "'d iop_env \<Rightarrow> 'd irun \<Rightarrow> 'd irun" where
  "iop_exec_with E x s =
     (let s = (if psxPC s = 0x1630 \<and> hasIRX E
               then (case iopMemRead32 E 0x20018 s of
                       (v, s) \<Rightarrow> if v = 0x1F then iopMemWrite32 E 0x20094 0xbffc0000 s else s)
               else s)
      in case iopMemRead32 E (psxPC s) s of
           (op, s) \<Rightarrow>
             let s = s\<lparr>psxCode := op\<rparr>; s = s\<lparr>psxPC := psxPC s + 4\<rparr>; s = s\<lparr>psxCycle := psxCycle s + 1\<rparr>
             in (psxBSC E x ! unat (drop_bit 26 (psxCode s))) s)"

primrec iop_execI :: "'d iop_env \<Rightarrow> nat \<Rightarrow> 'd irun" where
  "iop_execI E 0 = (\<lambda>s. None)"
| "iop_execI E (Suc n) = iop_exec_with E (iop_execI E n)"

definition iopExecuteOneInst :: "'d iop_env \<Rightarrow> nat \<Rightarrow> 'd irun" where
  "iopExecuteOneInst E n = iop_execI E n"

text \<open>Instructions up to and including the next taken branch.\<close>

partial_function (option) run_to_branch :: "'d irun \<Rightarrow> 'd iop \<Rightarrow> 'd iop option" where
  "run_to_branch x s = (if branch2 s then Some s else Option.bind (x s) (run_to_branch x))"

definition charge_EE :: "'d iop_env \<Rightarrow> u64 \<Rightarrow> 'd iop \<Rightarrow> 'd iop" where
  "charge_EE E lastIOPCycle s =
     (if psxHu32 E HW_ICFG s AND push_bit 3 1 \<noteq> 0
      then (let t = ucast (1280 * (psxCycle s - lastIOPCycle) + ucast (iopCycleEECarry s)) :: u32
            in s\<lparr>iopCycleEE := iopCycleEE s - t div 147, iopCycleEECarry := t mod 147\<rparr>)
      else s\<lparr>iopCycleEE := ucast (scast (iopCycleEE s) - (psxCycle s - lastIOPCycle) * 8)\<rparr>)"

text \<open>One pass of the block loop: the BIOS call of PS1 mode, a block, and its charge.\<close>

definition iop_block :: "'d iop_env \<Rightarrow> nat \<Rightarrow> 'd irun" where
  "iop_block E n s =
     (let s = (if psxHu32 E HW_ICFG s AND 8 \<noteq> 0 \<and>
                  (let a = psxPC s AND 0x1fffffff in a = 0xa0 \<or> a = 0xb0 \<or> a = 0xc0)
               then bios_call E s else s)
      in run_to_branch (iop_execI E n) (s\<lparr>branch2 := False\<rparr>))"

definition block_step :: "'d iop_env \<Rightarrow> nat \<Rightarrow> 'd irun" where
  "block_step E n s = (let lastIOPCycle = psxCycle s in map_option (charge_EE E lastIOPCycle) (iop_block E n s))"

partial_function (option) block_loop :: "'d iop_env \<Rightarrow> nat \<Rightarrow> 'd iop \<Rightarrow> 'd iop option" where
  "block_loop E n s = (if 0 <s iopCycleEE s then Option.bind (block_step E n s) (block_loop E n) else Some s)"

definition intExecuteBlock :: "'d iop_env \<Rightarrow> nat \<Rightarrow> u32 \<Rightarrow> 'd iop \<Rightarrow> (u32 \<times> 'd iop) option" where
  "intExecuteBlock E n eeCycles s =
     map_option (\<lambda>s. (iopBreak s + iopCycleEE s, s)) (block_loop E n (s\<lparr>iopBreak := 0, iopCycleEE := eeCycles\<rparr>))"

section \<open>Register 0\<close>

definition iop_r0 :: "'d irun \<Rightarrow> bool" where
  "iop_r0 x \<longleftrightarrow> (\<forall>s t. x s = Some t \<longrightarrow> psxGPR s 0 = 0 \<longrightarrow> psxGPR t 0 = 0)"

lemma iop_r0D: "iop_r0 x \<Longrightarrow> x s = Some t \<Longrightarrow> psxGPR s 0 = 0 \<Longrightarrow> psxGPR t 0 = 0"
  by (simp add: iop_r0_def)

lemma iop_r0I: "(\<And>s t. psxGPR s 0 = 0 \<Longrightarrow> x s = Some t \<Longrightarrow> psxGPR t 0 = 0) \<Longrightarrow> iop_r0 x"
  by (simp add: iop_r0_def)

text \<open>Results that keep register 0, for composing runs by simplification.\<close>

definition res_r0 :: "'d iop option \<Rightarrow> bool" where
  "res_r0 r \<longleftrightarrow> (\<forall>t. r = Some t \<longrightarrow> psxGPR t 0 = 0)"

lemma res_r0_simps [simp]: "res_r0 None" "res_r0 (Some t) \<longleftrightarrow> psxGPR t 0 = 0"
  by (simp_all add: res_r0_def)

lemma iop_r0_res: "iop_r0 x \<longleftrightarrow> (\<forall>s. psxGPR s 0 = 0 \<longrightarrow> res_r0 (x s))"
  by (auto simp: iop_r0_def res_r0_def)

lemma ins_r0: "(\<And>s. psxGPR s 0 = 0 \<Longrightarrow> psxGPR (f s) 0 = 0) \<Longrightarrow> iop_r0 (ins f)"
  by (simp add: iop_r0_def ins_def)

lemma wpsx_simps [simp]:
  "psxGPR (wpsxGPR r v s) = (psxGPR s)(r := v)" "psxCode (wpsxGPR r v s) = psxCode s" "psxGPR (wpsxCP0 r v s) = psxGPR s"
  "psxCP0 (wpsxCP0 r v s) = (psxCP0 s)(r := v)" "psxPC (wpsxCP0 r v s) = psxPC s" "psxPC (wpsxGPR r v s) = psxPC s"
  "psxCP0 (wpsxGPR r v s) = psxCP0 s"
  by (simp_all add: wpsxGPR_def wpsxCP0_def)

lemma iop_frames [simp]:
  "psxGPR (istore p v s) = psxGPR s" "psxCode (istore p v s) = psxCode s"
  "psxGPR (sif_control p v s) = psxGPR s" "psxCode (sif_control p v s) = psxCode s"
  "psxGPR (psxException c bd s) = psxGPR s" "psxGPR (psxSetNextBranch st d s) = psxGPR s"
  by (simp_all add: istore_def sif_control_def psxException_def psxSetNextBranch_def Let_def)

lemma put_r0 [simp]: "psxGPR (put_Rt v s) 0 = psxGPR s 0" "psxGPR (put_Rd v s) 0 = psxGPR s 0"
  by (simp_all add: put_Rt_def put_Rd_def)

lemma arith_r0:
  "psxGPR (f s) 0 = psxGPR s 0"
  if "f \<in> {psxADDI, psxADDIU, psxANDI, psxORI, psxXORI, psxSLTI, psxSLTIU, psxADD, psxADDU, psxSUB, psxSUBU, psxAND, psxOR,
      psxXOR, psxNOR, psxSLT, psxSLTU, psxDIV, psxDIVU, psxMULT, psxMULTU, psxSLL, psxSRA, psxSRL, psxSLLV, psxSRAV, psxSRLV,
      psxLUI, psxMFHI, psxMFLO, psxMTHI, psxMTLO, psxBREAK, psxSYSCALL, psxRFE, psxMFC0, psxCFC0, psxMTC0, psxCTC0, psxNULL}"
  using that
  by (auto simp: psxADDI_def psxADDIU_def psxANDI_def psxORI_def psxXORI_def psxSLTI_def psxSLTIU_def psxADD_def psxADDU_def
    psxSUB_def psxSUBU_def psxAND_def psxOR_def psxXOR_def psxNOR_def psxSLT_def psxSLTU_def psxDIV_def psxDIVU_def psxMULT_def
    psxMULTU_def psxSLL_def psxSRA_def psxSRL_def psxSLLV_def psxSRAV_def psxSRLV_def psxLUI_def psxMFHI_def psxMFLO_def
    psxMTHI_def psxMTLO_def psxBREAK_def psxSYSCALL_def psxRFE_def psxMFC0_def psxCFC0_def psxMTC0_def psxCTC0_def psxNULL_def Let_def)

text \<open>What the environment promises: devices, counters, events, BIOS and geometry unit leave register 0
  alone, and reading memory does not change the current instruction word.\<close>

locale iop_laws =
  fixes E :: "'d iop_env"
  assumes page_read_r0: "psxGPR (snd (hw_page_read E w a s)) 0 = psxGPR s 0"
    and page_read_code: "psxCode (snd (hw_page_read E w a s)) = psxCode s"
    and page_write_r0: "psxGPR (hw_page_write E w a v s) 0 = psxGPR s 0"
    and hw4_read_r0: "psxGPR (snd (hw4_read E a s)) 0 = psxGPR s 0"
    and hw4_read_code: "psxCode (snd (hw4_read E a s)) = psxCode s"
    and hw4_write_r0: "psxGPR (hw4_write E a v s) 0 = psxGPR s 0"
    and dev9_read_r0: "psxGPR (snd (dev9_read E w a s)) 0 = psxGPR s 0"
    and dev9_read_code: "psxCode (snd (dev9_read E w a s)) = psxCode s"
    and dev9_write_r0: "psxGPR (dev9_write E w a v s) 0 = psxGPR s 0"
    and spu2_read_r0: "psxGPR (snd (spu2_read E a s)) 0 = psxGPR s 0"
    and spu2_read_code: "psxCode (snd (spu2_read E a s)) = psxCode s"
    and spu2_write_r0: "psxGPR (spu2_write E a v s) 0 = psxGPR s 0"
    and irx_import_r0: "psxGPR (snd (irx_import E a v s)) 0 = psxGPR s 0"
    and bios_call_r0: "psxGPR (bios_call E s) 0 = psxGPR s 0"
    and counters_r0: "psxGPR (counters_update E s) 0 = psxGPR s 0"
    and callback_r0: "psxGPR (event_callback E k s) 0 = psxGPR s 0"
    and gte_r0: "psxGPR (gte_op E s) 0 = psxGPR s 0"
begin

lemma read_r0:
  "psxGPR (snd (iopMemRead8 E a s)) 0 = psxGPR s 0" "psxCode (snd (iopMemRead8 E a s)) = psxCode s"
  "psxGPR (snd (iopMemRead16 E a s)) 0 = psxGPR s 0" "psxCode (snd (iopMemRead16 E a s)) = psxCode s"
  "psxGPR (snd (iopMemRead32 E a s)) 0 = psxGPR s 0" "psxCode (snd (iopMemRead32 E a s)) = psxCode s"
  by (simp_all add: iopMemRead8_def iopMemRead16_def iopMemRead32_def Let_def page_read_r0 page_read_code hw4_read_r0 hw4_read_code
    dev9_read_r0 dev9_read_code spu2_read_r0 spu2_read_code)

lemma write_r0:
  "psxGPR (iopMemWrite8 E a b s) 0 = psxGPR s 0" "psxGPR (iopMemWrite16 E a h s) 0 = psxGPR s 0"
  "psxGPR (iopMemWrite32 E a w s) 0 = psxGPR s 0"
  by (simp_all add: iopMemWrite8_def iopMemWrite16_def iopMemWrite32_def Let_def page_write_r0 hw4_write_r0 dev9_write_r0 spu2_write_r0)

lemma read_rt:
  "iRt (snd (iopMemRead8 E a s)) = iRt s" "iRt (snd (iopMemRead16 E a s)) = iRt s" "iRt (snd (iopMemRead32 E a s)) = iRt s"
  by (simp_all add: iRt_def read_r0)

lemma memory_r0:
  "psxGPR (psxLB E s) 0 = psxGPR s 0" "psxGPR (psxLBU E s) 0 = psxGPR s 0" "psxGPR (psxLH E s) 0 = psxGPR s 0"
  "psxGPR (psxLHU E s) 0 = psxGPR s 0" "psxGPR (psxLW E s) 0 = psxGPR s 0" "psxGPR (psxLWL E s) 0 = psxGPR s 0"
  "psxGPR (psxLWR E s) 0 = psxGPR s 0" "psxGPR (psxSB E s) 0 = psxGPR s 0" "psxGPR (psxSH E s) 0 = psxGPR s 0"
  "psxGPR (psxSW E s) 0 = psxGPR s 0" "psxGPR (psxSWL E s) 0 = psxGPR s 0" "psxGPR (psxSWR E s) 0 = psxGPR s 0"
proof -
  have w: "psxGPR (if iRt s \<noteq> 0 then wpsxGPR (iRt s) v t else t) 0 = psxGPR t 0" for t v by simp
  show "psxGPR (psxLB E s) 0 = psxGPR s 0" "psxGPR (psxLBU E s) 0 = psxGPR s 0" "psxGPR (psxLH E s) 0 = psxGPR s 0"
    "psxGPR (psxLHU E s) 0 = psxGPR s 0" "psxGPR (psxLW E s) 0 = psxGPR s 0"
    by (simp_all only: psxLB_def psxLBU_def psxLH_def psxLHU_def psxLW_def split_def w read_rt read_r0)
  show "psxGPR (psxLWL E s) 0 = psxGPR s 0" "psxGPR (psxLWR E s) 0 = psxGPR s 0" "psxGPR (psxSB E s) 0 = psxGPR s 0"
    "psxGPR (psxSH E s) 0 = psxGPR s 0" "psxGPR (psxSW E s) 0 = psxGPR s 0" "psxGPR (psxSWL E s) 0 = psxGPR s 0"
    "psxGPR (psxSWR E s) 0 = psxGPR s 0"
    by (simp_all only: psxLWL_def psxLWR_def psxSB_def psxSH_def psxSW_def psxSWL_def psxSWR_def split_def Let_def put_r0 read_r0 write_r0)
qed

lemma event_r0: "psxGPR (IopTestEvent E k s) 0 = psxGPR s 0"
  by (simp add: IopTestEvent_def callback_r0)

lemma events_r0: "psxGPR (fold (IopTestEvent E) ks s) 0 = psxGPR s 0"
  by (induction ks arbitrary: s) (simp_all add: event_r0)

lemma interrupts_r0: "psxGPR (psxTestInterrupts E s) 0 = psxGPR s 0"
  by (simp only: psxTestInterrupts_def Let_def events_r0 split: if_split) simp

lemma eventTest_r0: "psxGPR (iopEventTest E s) 0 = psxGPR s 0"
  by (simp add: iopEventTest_def iop_run_events_def Let_def interrupts_r0 counters_r0)

lemma doBranch_r0: "iop_r0 x \<Longrightarrow> psxGPR s 0 = 0 \<Longrightarrow> res_r0 (iop_doBranch E x tar s)"
  by (auto simp: iop_r0_def res_r0_def iop_doBranch_def Let_def eventTest_r0)

lemma SetLink_r0: "r \<noteq> 0 \<Longrightarrow> psxGPR (iSetLink r s) 0 = psxGPR s 0"
  by (simp add: iSetLink_def)

lemma branch_if_r0: "iop_r0 x \<Longrightarrow> psxGPR s 0 = 0 \<Longrightarrow> res_r0 (iop_branch_if b E x s)"
  by (simp add: iop_branch_if_def doBranch_r0)

lemma branches_r0:
  assumes "iop_r0 x"
  shows "iop_r0 (psxBGEZ E x)" "iop_r0 (psxBGEZAL E x)" "iop_r0 (psxBGTZ E x)" "iop_r0 (psxBLEZ E x)" "iop_r0 (psxBLTZ E x)"
    "iop_r0 (psxBLTZAL E x)" "iop_r0 (psxBEQ E x)" "iop_r0 (psxBNE E x)" "iop_r0 (psxJAL E x)" "iop_r0 (psxJR E x)"
    "iop_r0 (psxJALR E x)" "iop_r0 (psxJ E x)"
proof -
  show "iop_r0 (psxBGEZ E x)" "iop_r0 (psxBGEZAL E x)" "iop_r0 (psxBGTZ E x)" "iop_r0 (psxBLEZ E x)" "iop_r0 (psxBLTZ E x)"
    "iop_r0 (psxBLTZAL E x)" "iop_r0 (psxBEQ E x)" "iop_r0 (psxBNE E x)" "iop_r0 (psxJAL E x)" "iop_r0 (psxJR E x)" "iop_r0 (psxJALR E x)"
    by (simp_all add: iop_r0_res branch_if_r0 [OF assms] doBranch_r0 [OF assms] SetLink_r0 Let_def psxBGEZ_def psxBGEZAL_def
      psxBGTZ_def psxBLEZ_def psxBLTZ_def psxBLTZAL_def psxBEQ_def psxBNE_def psxJAL_def psxJR_def psxJALR_def)
  show "iop_r0 (psxJ E x)" unfolding iop_r0_res
  proof (intro allI impI)
    fix s :: "'d iop" assume *: "psxGPR s 0 = 0"
    obtain w s1 where r: "iopMemRead32 E (psxPC s) s = (w, s1)" by (metis surj_pair)
    obtain b s2 where i: "irx_import E (psxPC s1) (w AND 0xffff) s1 = (b, s2)" by (metis surj_pair)
    have "psxGPR s1 0 = 0" "psxGPR s2 0 = 0"
      using read_r0(5) [of "psxPC s" s] irx_import_r0 [of "psxPC s1" "w AND 0xffff" s1] * by (simp_all add: r i)
    then show "res_r0 (psxJ E x s)" by (simp add: psxJ_def r i doBranch_r0 [OF assms])
  qed
qed

lemma ins_all:
  "list_all iop_r0 (map ins [psxADDI, psxADDIU, psxANDI, psxORI, psxXORI, psxSLTI, psxSLTIU, psxADD, psxADDU, psxSUB, psxSUBU, psxAND, psxOR,
      psxXOR, psxNOR, psxSLT, psxSLTU, psxDIV, psxDIVU, psxMULT, psxMULTU, psxSLL, psxSRA, psxSRL, psxSLLV, psxSRAV, psxSRLV,
      psxLUI, psxMFHI, psxMFLO, psxMTHI, psxMTLO, psxBREAK, psxSYSCALL, psxRFE, psxMFC0, psxCFC0, psxMTC0, psxCTC0, psxNULL, gte_op E] @
      map (\<lambda>f. ins (f E)) [psxLB, psxLBU, psxLH, psxLHU, psxLW, psxLWL, psxLWR, psxSB, psxSH, psxSW, psxSWL, psxSWR])"
  by (simp add: ins_r0 arith_r0 memory_r0 gte_r0)

lemmas ins_r0_simps = ins_all [simplified]

lemma all_replicate: "P y \<Longrightarrow> list_all P (replicate k y)"
  by (induction k) simp_all

lemma tables_r0:
  assumes "iop_r0 x"
  shows "list_all iop_r0 (psxSPC E x)" "list_all iop_r0 (psxREG E x)" "list_all iop_r0 (psxCP0_table :: 'd irun list)"
  by (simp_all only: psxSPC_def psxREG_def psxCP0_table_def list_all_append list.pred_inject ins_r0_simps branches_r0 [OF assms]
    all_replicate simp_thms)

lemma field_less: "iFunct s < 64" "unat (iRt s) < 32" "unat (iRs s) < 32" "unat (drop_bit 26 w :: u32) < 64"
proof -
  have "psxCode s AND 0x3F \<le> 0x3F" by (rule word_and_le1)
  then show "iFunct s < 64" by (simp add: iFunct_def word_le_nat_alt)
  show "unat (iRt s) < 32" "unat (iRs s) < 32" using unsigned_less [where 'a = nat and 'b = 5] by simp_all
  show "unat (drop_bit 26 w) < 64" using unsigned_less [of w, where 'a = nat] by (simp add: unat_drop_bit less_mult_imp_div_less)
qed

lemma psx_table_lengths: "length (psxSPC E x) = 64" "length (psxREG E x) = 32" "length psxCP0_table = 32" "length (psxBSC E x) = 64"
  by (simp_all add: psxSPC_def psxREG_def psxCP0_table_def psxBSC_def)

lemma table_r0: "list_all iop_r0 xs \<Longrightarrow> n < length xs \<Longrightarrow> psxGPR s 0 = 0 \<Longrightarrow> res_r0 ((xs ! n) s)"
  by (simp add: list_all_length iop_r0_res)

lemma groups_r0: "iop_r0 x \<Longrightarrow> iop_r0 (psxSPECIAL E x)" "iop_r0 x \<Longrightarrow> iop_r0 (psxREGIMM E x)" "iop_r0 (psxCOP0 :: 'd irun)"
proof -
  have c: "list_all iop_r0 (psxCP0_table :: 'd irun list)"
    by (rule tables_r0(3) [of "\<lambda>_. None"]) (simp add: iop_r0_def)
  show "iop_r0 x \<Longrightarrow> iop_r0 (psxSPECIAL E x)" "iop_r0 x \<Longrightarrow> iop_r0 (psxREGIMM E x)" "iop_r0 (psxCOP0 :: 'd irun)"
    unfolding iop_r0_res [of "psxSPECIAL E x"] iop_r0_res [of "psxREGIMM E x"] iop_r0_res [of psxCOP0] psxSPECIAL_def psxREGIMM_def psxCOP0_def
    using tables_r0 c by (auto intro!: table_r0 simp: psx_table_lengths field_less)
qed

lemma BSC_r0: "iop_r0 x \<Longrightarrow> list_all iop_r0 (psxBSC E x)"
  by (simp only: psxBSC_def list_all_append list.pred_inject ins_r0_simps groups_r0 branches_r0 all_replicate simp_thms)

lemma exec_with_r0:
  assumes "iop_r0 x"
  shows "iop_r0 (iop_exec_with E x)"
  unfolding iop_r0_res
proof (intro allI impI)
  fix s :: "'d iop" assume *: "psxGPR s 0 = 0"
  define s1 where "s1 = (if psxPC s = 0x1630 \<and> hasIRX E
      then (case iopMemRead32 E 0x20018 s of (v, s) \<Rightarrow> if v = 0x1F then iopMemWrite32 E 0x20094 0xbffc0000 s else s) else s)"
  have g: "psxGPR s1 0 = 0" using * by (simp add: s1_def split_def read_r0 write_r0)
  obtain op s2 where r: "iopMemRead32 E (psxPC s1) s1 = (op, s2)" by (metis surj_pair)
  have "psxGPR s2 0 = 0" using read_r0(5) [of "psxPC s1" s1] g by (simp add: r)
  then show "res_r0 (iop_exec_with E x s)"
    unfolding iop_exec_with_def Let_def s1_def [symmetric] r
    by (auto intro!: table_r0 BSC_r0 assms simp: psx_table_lengths field_less)
qed

lemma execI_r0: "iop_r0 (iop_execI E n)"
  by (induction n) (simp_all add: exec_with_r0, simp add: iop_r0_def)

lemma run_to_branch_r0:
  assumes "run_to_branch x (s :: 'd iop) = Some t" "iop_r0 x" "psxGPR s 0 = 0"
  shows "psxGPR t 0 = 0"
proof -
  have "iop_r0 x \<longrightarrow> psxGPR s 0 = 0 \<longrightarrow> psxGPR t 0 = 0"
  proof (rule run_to_branch.raw_induct [where P = "\<lambda>x s t. iop_r0 x \<longrightarrow> psxGPR s 0 = 0 \<longrightarrow> psxGPR (t :: 'd iop) 0 = 0"
        and xa = "(x, s)" and y = t, unfolded prod.case])
    fix f :: "'d irun \<Rightarrow> 'd iop \<Rightarrow> 'd iop option" and x :: "'d irun" and s t
    assume *: "\<And>x s t. f x s = Some t \<Longrightarrow> iop_r0 x \<longrightarrow> psxGPR s 0 = 0 \<longrightarrow> psxGPR t 0 = 0"
      and e: "(if branch2 s then Some s else Option.bind (x s) (f x)) = Some t"
    show "iop_r0 x \<longrightarrow> psxGPR s 0 = 0 \<longrightarrow> psxGPR t 0 = 0"
      using e * by (auto simp: bind_eq_Some_conv split: if_splits) (meson iop_r0D)
  qed (rule assms(1))
  with assms show ?thesis by blast
qed

lemma block_step_r0: "iop_r0 (block_step E n)"
proof (rule iop_r0I)
  fix s t :: "'d iop" assume g: "psxGPR s 0 = 0" and b: "block_step E n s = Some t"
  define s1 where "s1 = (if psxHu32 E HW_ICFG s AND 8 \<noteq> 0 \<and>
      (let a = psxPC s AND 0x1fffffff in a = 0xa0 \<or> a = 0xb0 \<or> a = 0xc0) then bios_call E s else s)"
  from b obtain u where u: "run_to_branch (iop_execI E n) (s1\<lparr>branch2 := False\<rparr>) = Some u" "t = charge_EE E (psxCycle s) u"
    unfolding block_step_def iop_block_def Let_def [of "psxCycle s"] s1_def [symmetric] by (auto simp: Let_def)
  have "psxGPR (s1\<lparr>branch2 := False\<rparr>) 0 = 0" using g by (simp add: s1_def bios_call_r0)
  from run_to_branch_r0 [OF u(1) execI_r0 this] show "psxGPR t 0 = 0"
    by (simp add: u(2) charge_EE_def Let_def)
qed

lemma block_loop_r0:
  assumes "block_loop F n s = Some t" "F = E" "psxGPR s 0 = 0"
  shows "psxGPR t 0 = 0"
  using assms
proof (induction F n s t rule: block_loop.raw_induct [rotated, consumes 1])
  case (1 f F n s t)
  show ?case
  proof (cases "0 <s iopCycleEE s")
    case True
    then obtain u where u: "block_step F n s = Some u" "f F n u = Some t" using "1.hyps" by (auto simp: bind_eq_Some_conv)
    with "1.prems" have "psxGPR u 0 = 0" using iop_r0D [OF block_step_r0] by blast
    then show ?thesis using "1.IH" [OF u(2)] "1.prems"(1) by blast
  qed (use "1.prems" "1.hyps" in auto)
qed

lemma ExecuteBlock_r0: "intExecuteBlock E n c s = Some (k, t) \<Longrightarrow> psxGPR s 0 = 0 \<Longrightarrow> psxGPR t 0 = 0"
  using block_loop_r0 by (fastforce simp: intExecuteBlock_def)

end

interpretation iop_plain: iop_laws iop_plain
  by unfold_locales (simp_all add: iop_plain_def)

section \<open>Exceptions\<close>

lemma psxException_regs:
  "psxPC (psxException c bd s) = (if psxCP0 s Status AND 0x400000 \<noteq> 0 then 0xbfc00180 else 0x80000080)"
  "psxCP0 (psxException c bd s) EPC = (if bd then psxPC s - 4 else psxPC s)"
  "psxCP0 (psxException c bd s) Status = (psxCP0 s Status AND NOT 0x3f) OR push_bit 2 (psxCP0 s Status AND 0xf)"
  "branchPC (psxException c bd s) = branchPC s"
  by (simp_all add: psxException_def Let_def wpsxCP0_def)

lemma push_pop_bits:
  fixes S :: u32
  defines "P \<equiv> (S AND NOT 0x3f) OR push_bit 2 (S AND 0xf)"
  defines "R \<equiv> (P AND 0xfffffff0) OR drop_bit 2 (P AND 0x3c)"
  shows "take_bit 4 R = take_bit 4 S" "drop_bit 6 R = drop_bit 6 S"
proof -
  have "\<forall>n \<in> set [0..<32]. bit R n = (if n < 4 then bit S n else if n < 6 then bit S (n - 2) else bit S n)"
    unfolding R_def P_def by (simp add: upt_conv_Cons bit_simps del: set_upt)
  then have b: "n < 32 \<Longrightarrow> bit R n = (if n < 4 then bit S n else if n < 6 then bit S (n - 2) else bit S n)" for n by simp
  show "take_bit 4 R = take_bit 4 S" by (rule bit_word_eqI) (use b in \<open>auto simp: bit_take_bit_iff\<close>)
  show "drop_bit 6 R = drop_bit 6 S"
    by (rule bit_word_eqI) (use b bit_imp_le_length in \<open>fastforce simp: bit_drop_bit_eq\<close>)
qed

text \<open>
  Returning from an exception restores the interrupt and mode bits. After an exception from any
  state the return address is the interrupted instruction, or the branch before it when the
  instruction was in a delay slot, and \<^verbatim>\<open>RFE\<close> gives the current and previous enable and mode bits
  (bits 0 to 3 of the status register) the values they had, for every status word.
\<close>
lemma iop_exception_return:
  "psxCP0 (psxException c bd s) EPC = (if bd then psxPC s - 4 else psxPC s) \<and>
   take_bit 4 (psxCP0 (psxRFE (psxException c bd s)) Status) = take_bit 4 (psxCP0 s Status) \<and>
   drop_bit 6 (psxCP0 (psxRFE (psxException c bd s)) Status) = drop_bit 6 (psxCP0 s Status)"
  using push_pop_bits [of "psxCP0 s Status"] by (simp only: psxRFE_def psxException_regs wpsx_simps fun_upd_same simp_thms)

section \<open>Code in memory\<close>

text \<open>An address whose 64 KiB page is plain memory for reading, and the host address it shows.\<close>

definition plain_page :: "u32 \<Rightarrow> bool" where
  "plain_page a \<longleftrightarrow> (let t = drop_bit 16 (a AND 0x1fffffff) in t \<noteq> 0x1f80 \<and> t \<noteq> 0x1f40 \<and> t \<noteq> 0x1d00)"

definition iop_readable :: "u32 \<Rightarrow> u64 \<Rightarrow> 'd iop \<Rightarrow> bool" where
  "iop_readable a p s \<longleftrightarrow> plain_page a \<and> psxMemRLUT (drop_bit 16 (a AND 0x1fffffff)) s \<noteq> 0 \<and>
     p = psxMemRLUT (drop_bit 16 (a AND 0x1fffffff)) s + ucast (a AND 0xFFFF)"

lemma mask_page: "(a AND 0x1fffffff) AND 0xFFFF = (a AND 0xFFFF :: u32)"
  by (simp add: and.assoc)

lemma read_plain:
  assumes "iop_readable a p s"
  shows "iopMemRead8 E a s = (iload p s, s)" "iopMemRead16 E a s = (iload p s, s)" "iopMemRead32 E a s = (iload p s, s)"
  using assms
  by (simp_all add: iopMemRead8_def iopMemRead16_def iopMemRead32_def iop_readable_def plain_page_def Let_def mask_page)

lemma readable_cong: "memLUT t = memLUT s \<Longrightarrow> iop_readable a p t = iop_readable a p s"
  by (simp add: iop_readable_def psxMemRLUT_def)

lemma exec_plain:
  assumes "iop_readable (psxPC s) p s" "psxPC s \<noteq> 0x1630"
  shows "iop_exec_with E x s =
    (psxBSC E x ! unat (drop_bit 26 (iload p s :: u32))) (s\<lparr>psxCode := iload p s, psxPC := psxPC s + 4, psxCycle := psxCycle s + 1\<rparr>)"
  using assms by (simp add: iop_exec_with_def Let_def read_plain)

lemma rRs_code: "rRs (s\<lparr>psxCode := c, psxPC := a, psxCycle := b\<rparr>) = psxGPR s (ucast (drop_bit 21 c AND 0x1F))"
  by (simp add: rRs_def iRs_def)

text \<open>
  C38: an exception raised in a delay slot is lost. With a jump to a register followed by a system
  call in memory, the two instructions run, the system call pushes the status register and writes
  the return address (that of the jump) as for a handled exception, and then the jump sets the
  program counter to its target: the handler at the exception vector never runs.
\<close>
theorem iop_slot_exception_lost:
  assumes "iop_readable (psxPC s) p s" "iop_readable (psxPC s + 4) q s" "psxPC s \<noteq> 0x1630" "psxPC s \<noteq> 0x162C"
    and "iload p s = (0x00000008 OR push_bit 21 r :: u32)" "r < 32" "iload q s = (0x0000000C :: u32)"
    and "psxGPR s (ucast r) = tar" "tar \<noteq> 0xbfc4a000"
  shows "\<exists>u. iop_execI E (Suc (Suc n)) s = Some (iopEventTest E u) \<and> psxPC u = tar \<and> psxCP0 u EPC = psxPC s \<and>
    psxCP0 u Status = (psxCP0 s Status AND NOT 0x3f) OR push_bit 2 (psxCP0 s Status AND 0xf)"
proof -
  let ?s = "s\<lparr>psxCode := iload p s, psxPC := psxPC s + 4, psxCycle := psxCycle s + 1\<rparr>"
  let ?t = "?s\<lparr>branch2 := True, iopIsDelaySlot := True, branchPC := tar\<rparr>"
  let ?u = "?t\<lparr>psxCode := 0x0000000C, psxPC := 8 + psxPC s, psxCycle := 2 + psxCycle s\<rparr>"
  have r: "unat r < 32" using assms(6) by (simp add: word_less_nat_alt)
  have f: "drop_bit 26 (0x00000008 OR push_bit 21 r) = 0" "(0x00000008 OR push_bit 21 r) AND 0x3F = (8 :: u32)"
    "(ucast (drop_bit 21 (0x00000008 OR push_bit 21 r) AND 0x1F :: u32) :: 5 word) = ucast r"
  proof -
    have b: "\<not> bit r n" if "5 \<le> n" for n
    proof -
      have "unat r < 2 ^ n" using r power_increasing [OF that, of "2 :: nat"] by simp
      then show ?thesis by (simp add: bit_unat)
    qed
    have "\<forall>n \<in> set [0..<32]. bit (drop_bit 26 (0x00000008 OR push_bit 21 r)) n = bit (0 :: u32) n"
      by (simp add: upt_conv_Cons bit_simps b del: set_upt)
    then show "drop_bit 26 (0x00000008 OR push_bit 21 r) = 0" by (intro bit_word_eqI) auto
    have "\<forall>n \<in> set [0..<32]. bit ((0x00000008 OR push_bit 21 r) AND 0x3F) n = bit (8 :: u32) n"
      by (simp add: upt_conv_Cons bit_simps del: set_upt)
    then show "(0x00000008 OR push_bit 21 r) AND 0x3F = (8 :: u32)" by (intro bit_word_eqI) auto
    have "\<forall>n \<in> set [0..<5]. bit (ucast (drop_bit 21 (0x00000008 OR push_bit 21 r) AND 0x1F :: u32) :: 5 word) n = bit (ucast r :: 5 word) n"
      by (simp add: upt_conv_Cons bit_simps del: set_upt)
    then show "(ucast (drop_bit 21 (0x00000008 OR push_bit 21 r) AND 0x1F :: u32) :: 5 word) = ucast r" by (intro bit_word_eqI) auto
  qed
  have "iop_readable (psxPC ?t) q ?t" using assms(2) by (simp add: readable_cong [of ?t s])
  moreover have "psxPC ?t \<noteq> 0x1630" using assms(4) by (simp add: eq_diff_eq [symmetric])
  moreover have "iload q ?t = (0x0000000C :: u32)" using assms(7) by (simp add: iload_def)
  ultimately have "iop_execI E (Suc n) ?t = Some (psxSYSCALL ?u)"
    by (simp add: exec_plain psxBSC_def psxSPECIAL_def psxSPC_def iFunct_def ins_def)
  moreover have "rRs ?s = tar"
    unfolding rRs_code assms(5) f(3) assms(8) ..
  ultimately have "psxJR E (iop_execI E (Suc n)) ?s = Some (iopEventTest E ((psxSYSCALL ?u)\<lparr>iopIsDelaySlot := False, psxPC := tar\<rparr>))"
    using assms(9) by (simp add: psxJR_def iop_doBranch_def Let_def psxSYSCALL_def psxException_regs del: iop_execI.simps)
  moreover have "iop_execI E (Suc (Suc n)) s = psxJR E (iop_execI E (Suc n)) ?s"
    unfolding iop_execI.simps(2) [of E "Suc n"] exec_plain [OF assms(1,3)] assms(5) f(1)
    by (simp add: psxBSC_def psxSPECIAL_def psxSPC_def iFunct_def f(2) del: iop_execI.simps)
  ultimately have "iop_execI E (Suc (Suc n)) s = Some (iopEventTest E ((psxSYSCALL ?u)\<lparr>iopIsDelaySlot := False, psxPC := tar\<rparr>))" by simp
  then show ?thesis
    by (intro exI [of _ "(psxSYSCALL ?u)\<lparr>iopIsDelaySlot := False, psxPC := tar\<rparr>"] conjI) (simp_all add: psxSYSCALL_def psxException_regs)
qed

lemma hostLoad32:
  "(hostLoad h a :: u32) = ucast (h a) OR push_bit 8 (ucast (h (a + 1))) OR push_bit 16 (ucast (h (a + 2))) OR push_bit 24 (ucast (h (a + 3)))"
  by (simp add: hostLoad_def upt_conv_Cons or.assoc)

text \<open>A jump to the return address with a system call in its delay slot, at address 0x1000.\<close>

definition iop_jr_syscall :: "unit iop" where
  "iop_jr_syscall = iop_zero\<lparr>psxPC := 0x1000, psxGPR := (\<lambda>_. 0)(31 := 0x2000), memLUT := (\<lambda>_. 0)(0x2000 := 0x10000000),
     ihost := (\<lambda>_. 0)(0x10001000 := 0x08, 0x10001002 := 0xe0, 0x10001003 := 0x03, 0x10001004 := 0x0c)\<rparr>"

theorem iop_slot_exception_lost_witness:
  "\<exists>u. iop_execI iop_plain 2 iop_jr_syscall = Some (iopEventTest iop_plain u) \<and> psxPC u = 0x2000 \<and> psxCP0 u EPC = 0x1000"
proof -
  have "iop_readable (psxPC iop_jr_syscall) 0x10001000 iop_jr_syscall" "iop_readable (psxPC iop_jr_syscall + 4) 0x10001004 iop_jr_syscall"
    "iload 0x10001000 iop_jr_syscall = (0x00000008 OR push_bit 21 31 :: u32)" "iload 0x10001004 iop_jr_syscall = (0x0000000C :: u32)"
    by (simp_all add: iop_jr_syscall_def iop_readable_def plain_page_def psxMemRLUT_def Let_def iload_def hostLoad32)
  moreover have "psxPC iop_jr_syscall = 0x1000" "psxGPR iop_jr_syscall (ucast (31 :: u32)) = 0x2000" by (simp_all add: iop_jr_syscall_def)
  ultimately have "\<exists>u. iop_execI iop_plain (Suc (Suc 0)) iop_jr_syscall = Some (iopEventTest iop_plain u) \<and> psxPC u = 0x2000 \<and> psxCP0 u EPC = 0x1000"
    using iop_slot_exception_lost [where s = iop_jr_syscall and p = "0x10001000" and q = "0x10001004" and r = 31 and tar = "0x2000" and E = iop_plain and n = 0] by (auto simp del: iop_execI.simps)
  then show ?thesis by (simp only: numeral_2_eq_2)
qed

end
