(* ===== verification/IOP_Run.thy ===== *)
theory IOP_Run
  imports IOP_Interp
begin

text \<open>
  How the second processor runs over time (\<^verbatim>\<open>iopEventTest\<close> in \<^verbatim>\<open>pcsx2/R3000A.cpp\<close>, \<^verbatim>\<open>intExecuteBlock\<close> in
  \<^verbatim>\<open>pcsx2/R3000AInterpreter.cpp\<close>): the event test schedules the earliest event, cycles are charged to the
  main processor without drift, and a slice ends.
\<close>

section \<open>Event scheduling\<close>

text \<open>A delay \<open>d\<close> from \<open>st\<close> that is not over at cycle \<open>c\<close>, with distances that fit the signed comparisons of
  the code (counters and devices wait at most a few million cycles).\<close>

definition waiting :: "u64 \<Rightarrow> u32 \<Rightarrow> u64 \<Rightarrow> bool" where
  "waiting st d c \<longleftrightarrow> st \<le> c \<and> unat c < 2 ^ 62 \<and> unat c < unat st + unat d \<and> unat d < 2 ^ 30"

text \<open>The next event lies at most the 384 cycles ahead that \<^verbatim>\<open>iopEventTest\<close> starts from.\<close>

definition next_ok :: "'d iop \<Rightarrow> bool" where
  "next_ok s \<longleftrightarrow> psxCycle s \<le> iopNextEventCycle s \<and> unat (iopNextEventCycle s) \<le> unat (psxCycle s) + 384"

lemma sint_small32:
  fixes a :: u32
  assumes "unat a < 2 ^ 31"
  shows "sint a = int (unat a)"
proof -
  have "int (unat a) < int (2 ^ 31)" using assms by (simp only: of_nat_less_iff)
  then have "uint a < 2 ^ 31" by simp
  moreover have "- 2147483648 \<le> uint a" using uint_ge_0 [of a] by linarith
  ultimately show ?thesis unfolding sint_uint by (subst signed_take_bit_int_eq_self) simp_all
qed

lemma sless_small: "unat a < 2 ^ 31 \<Longrightarrow> unat b < 2 ^ 31 \<Longrightarrow> (a <s b) = (unat a < unat b)" for a b :: u32
  by (simp only: word_sless_alt sint_small32 of_nat_less_iff)

lemma sle_small: "unat a < 2 ^ 31 \<Longrightarrow> unat b < 2 ^ 31 \<Longrightarrow> (a \<le>s b) = (unat a \<le> unat b)" for a b :: u32
  by (simp only: word_sle_eq sint_small32 of_nat_le_iff)

lemma distance:
  fixes a b :: u64
  assumes "b \<le> a" "unat a - unat b < 2 ^ 31"
  shows "unat (ucast (a - b) :: u32) = unat a - unat b"
proof -
  have "unat (a - b) = unat a - unat b" using assms(1) by (rule unat_sub)
  then show ?thesis using assms(2) by (simp add: unsigned_ucast_eq take_bit_nat_eq_self)
qed

lemma advance:
  fixes st :: u64 and d :: u32
  assumes "unat st < 2 ^ 62" "unat d < 2 ^ 30"
  shows "unat (st + scast d) = unat st + unat d"
proof -
  have "sint d = int (unat d)" using assms(2) by (simp add: sint_small32)
  then have "(scast d :: u64) = of_nat (unat d)" by (metis of_int_of_nat_eq of_int_sint)
  moreover have "unat (of_nat (unat d) :: u64) = unat d" using assms(2) by (simp only: unat_of_nat) simp
  ultimately show ?thesis using assms by (subst unat_add_lem [THEN iffD1]) simp_all
qed

lemma psxSetNextBranch_min:
  assumes "waiting st d (psxCycle s)" "next_ok s"
  obtains t where "psxSetNextBranch st d s = s\<lparr>iopNextEventCycle := t\<rparr>"
    "unat t = min (unat (iopNextEventCycle s)) (unat st + unat d)" "next_ok (s\<lparr>iopNextEventCycle := t\<rparr>)"
proof -
  have w: "unat st \<le> unat (psxCycle s)" "unat (psxCycle s) < 2 ^ 62" "unat (psxCycle s) < unat st + unat d" "unat d < 2 ^ 30"
    using assms(1) by (simp_all add: waiting_def word_le_nat_alt)
  have n: "unat (psxCycle s) \<le> unat (iopNextEventCycle s)" "unat (iopNextEventCycle s) \<le> unat (psxCycle s) + 384"
    using assms(2) by (simp_all add: next_ok_def word_le_nat_alt)
  have e: "unat (ucast (iopNextEventCycle s - st) :: u32) = unat (iopNextEventCycle s) - unat st"
    by (rule distance) (use w n in \<open>simp_all add: word_le_nat_alt\<close>)
  have c: "(d <s ucast (iopNextEventCycle s - st)) = (unat d < unat (iopNextEventCycle s) - unat st)"
    using w n by (subst sless_small) (simp_all add: e)
  have a: "unat (st + scast d) = unat st + unat d" using w by (intro advance) simp_all
  show thesis
  proof (rule that)
    let ?t = "if unat d < unat (iopNextEventCycle s) - unat st then st + scast d else iopNextEventCycle s"
    show "psxSetNextBranch st d s = s\<lparr>iopNextEventCycle := ?t\<rparr>" by (simp add: psxSetNextBranch_def c)
    show "unat ?t = min (unat (iopNextEventCycle s)) (unat st + unat d)" using w n by (auto simp: a)
    show "next_ok (s\<lparr>iopNextEventCycle := ?t\<rparr>)" using w n by (auto simp: next_ok_def word_le_nat_alt a)
  qed
qed

text \<open>When a pending event is due, and that every pending one among \<open>ks\<close> is still waiting.\<close>

definition due :: "'d iop \<Rightarrow> nat \<Rightarrow> nat" where
  "due s n = unat (sCycle s n) + unat (eCycle s n)"

definition pending :: "'d iop \<Rightarrow> nat \<Rightarrow> bool" where
  "pending s n \<longleftrightarrow> bit (psxInterrupt s) n"

lemma waiting_not_due:
  assumes "waiting st d (psxCycle s)"
  shows "\<not> psxTestCycle st d s"
proof -
  have "unat (ucast (psxCycle s - st) :: u32) = unat (psxCycle s) - unat st"
    by (rule distance) (use assms in \<open>auto simp: waiting_def word_le_nat_alt\<close>)
  then show ?thesis using assms unfolding psxTestCycle_def by (subst sle_small) (auto simp: waiting_def word_le_nat_alt)
qed

lemma Min_insert_min: "finite A \<Longrightarrow> Min (insert (min a b) A) = Min (insert a (insert b A))" for a b :: nat
  by (cases "A = {}") (simp_all add: min.commute min.left_commute)

lemma fold_events:
  assumes "\<And>n. n \<in> set ks \<Longrightarrow> pending s n \<Longrightarrow> waiting (sCycle s n) (eCycle s n) (psxCycle s)" "next_ok s"
  shows "\<exists>t. fold (IopTestEvent E) ks s = s\<lparr>iopNextEventCycle := t\<rparr> \<and> next_ok (s\<lparr>iopNextEventCycle := t\<rparr>) \<and>
    unat t = Min (insert (unat (iopNextEventCycle s)) (due s ` {n \<in> set ks. pending s n}))"
  using assms
proof (induction ks arbitrary: s)
  case Nil
  show ?case by (intro exI [of _ "iopNextEventCycle s"]) (use Nil in simp)
next
  case (Cons k ks)
  show ?case
  proof (cases "pending s k")
    case False
    then have "IopTestEvent E k s = s" by (simp add: IopTestEvent_def pending_def)
    moreover have "{n \<in> set (k # ks). pending s n} = {n \<in> set ks. pending s n}" using False by auto
    ultimately show ?thesis using Cons.IH [of s] Cons.prems by simp
  next
    case True
    then have w: "waiting (sCycle s k) (eCycle s k) (psxCycle s)" using Cons.prems by simp
    obtain t where t: "psxSetNextBranch (sCycle s k) (eCycle s k) s = s\<lparr>iopNextEventCycle := t\<rparr>"
      "unat t = min (unat (iopNextEventCycle s)) (due s k)" "next_ok (s\<lparr>iopNextEventCycle := t\<rparr>)"
      using psxSetNextBranch_min [OF w Cons.prems(2)] unfolding due_def by blast
    let ?s = "s\<lparr>iopNextEventCycle := t\<rparr>"
    have e: "IopTestEvent E k s = ?s"
      using True waiting_not_due [OF w] t(1) by (simp add: IopTestEvent_def pending_def)
    obtain u where u: "fold (IopTestEvent E) ks ?s = ?s\<lparr>iopNextEventCycle := u\<rparr>" "next_ok (?s\<lparr>iopNextEventCycle := u\<rparr>)"
      "unat u = Min (insert (unat t) (due ?s ` {n \<in> set ks. pending ?s n}))"
      using Cons.IH [of ?s] Cons.prems(1) t(3) by (auto simp: pending_def)
    have same: "due ?s = due s" "pending ?s = pending s" by (simp_all add: due_def pending_def fun_eq_iff)
    have "{n \<in> set (k # ks). pending s n} = insert k {n \<in> set ks. pending s n}" using True by auto
    then have "unat u = Min (insert (unat (iopNextEventCycle s)) (due s ` {n \<in> set (k # ks). pending s n}))"
      unfolding u(3) same t(2) by (simp only: image_insert Min_insert_min finite_imageI finite_Collect_conjI finite_set Collect_mem_eq simp_thms)
    then show ?thesis using u(1,2) e by (intro exI [of _ u]) simp
  qed
qed


lemma psxException_next: "iopNextEventCycle (psxException c bd s) = iopNextEventCycle s"
  by (simp add: psxException_def wpsxCP0_def Let_def)

lemma event_test_next: "iopNextEventCycle (iopEventTest E s) = iopNextEventCycle (iop_run_events E s)"
  by (simp add: iopEventTest_def Let_def psxException_next)

lemma run_events_no_counter:
  assumes "\<not> psxTestCycle (psxNextStartCounter s) (psxNextDeltaCounter s) s"
    and "psxSetNextBranch (psxNextStartCounter s) (psxNextDeltaCounter s) (s\<lparr>iopNextEventCycle := psxCycle s + 384\<rparr>) = s\<lparr>iopNextEventCycle := t\<rparr>"
  shows "iopNextEventCycle (iop_run_events E s) =
    (if psxInterrupt s \<noteq> 0 then iopNextEventCycle (psxTestInterrupts E (s\<lparr>iopNextEventCycle := t, iopEventTestIsActive := True\<rparr>)) else t)"
proof -
  let ?s = "s\<lparr>iopNextEventCycle := psxCycle s + 384\<rparr>"
  have "(if psxNextDeltaCounter ?s <s (ucast (iopNextEventCycle ?s - psxNextStartCounter ?s) :: u32)
      then ?s\<lparr>iopNextEventCycle := psxNextStartCounter ?s + scast (psxNextDeltaCounter ?s)\<rparr> else ?s) = s\<lparr>iopNextEventCycle := t\<rparr>"
    using assms(2) by (auto simp: psxSetNextBranch_def split: if_splits)
  moreover have "\<not> psxTestCycle (psxNextStartCounter ?s) (psxNextDeltaCounter ?s) ?s" using assms(1) by (simp add: psxTestCycle_def)
  ultimately show ?thesis unfolding iop_run_events_def Let_def by (simp only: if_False if_True) simp
qed

abbreviation (input) hi_events :: "nat list" where
  "hi_events \<equiv> [IopEvt_SIF0, IopEvt_SIF1, IopEvt_SIF2, IopEvt_SIO, IopEvt_CdvdSectorReady, IopEvt_CdvdRead]"
abbreviation (input) lo_events :: "nat list" where
  "lo_events \<equiv> [IopEvt_Cdvd, IopEvt_Dma11, IopEvt_Dma12, IopEvt_Cdrom, IopEvt_CdromRead, IopEvt_DEV9, IopEvt_USB]"

lemma psxTestInterrupts_folds:
  assumes "\<And>n. n < 13 \<Longrightarrow> pending s n \<Longrightarrow> waiting (sCycle s n) (eCycle s n) (psxCycle s)" "next_ok s"
  shows "\<exists>t. psxTestInterrupts E s = s\<lparr>iopNextEventCycle := t\<rparr> \<and>
    unat t = Min (insert (unat (iopNextEventCycle s)) (due s ` {n. n < 13 \<and> pending s n}))"
proof -
  have "set (hi_events @ lo_events) = set [0..<13]" by (auto simp: upt_conv_Cons simp del: set_upt)
  then have below: "n \<in> set (hi_events @ lo_events) \<longleftrightarrow> n < 13" for n by (simp only: set_upt atLeastLessThan_iff le0 simp_thms)
  have hi: "waiting (sCycle s n) (eCycle s n) (psxCycle s)" if "n \<in> set hi_events" "pending s n" for n
    using assms(1) [OF _ that(2)] that(1) unfolding below [symmetric] set_append by blast
  have hl: "waiting (sCycle s n) (eCycle s n) (psxCycle s)" if "n \<in> set (hi_events @ lo_events)" "pending s n" for n
    using assms(1) [OF _ that(2)] that(1) unfolding below by blast
  obtain t where t: "fold (IopTestEvent E) hi_events s = s\<lparr>iopNextEventCycle := t\<rparr>" "next_ok (s\<lparr>iopNextEventCycle := t\<rparr>)"
    "unat t = Min (insert (unat (iopNextEventCycle s)) (due s ` {n \<in> set hi_events. pending s n}))"
    using fold_events [where E = E, OF hi assms(2)] by blast
  have i: "psxInterrupt (s\<lparr>iopNextEventCycle := t\<rparr>) = psxInterrupt s" by simp
  have all: "fold (IopTestEvent E) (hi_events @ lo_events) s = fold (IopTestEvent E) lo_events (s\<lparr>iopNextEventCycle := t\<rparr>)"
    unfolding fold_append o_apply t(1) ..
  show ?thesis
  proof (cases "\<exists>n \<in> set lo_events. bit (psxInterrupt s) n")
    case True
    then have f: "psxTestInterrupts E s = fold (IopTestEvent E) (hi_events @ lo_events) s"
      unfolding psxTestInterrupts_def Let_def t(1) all i by (simp only: if_True)
    show ?thesis using fold_events [where E = E and ks = "hi_events @ lo_events", OF hl assms(2)] unfolding below f by blast
  next
    case False
    then have "psxTestInterrupts E s = s\<lparr>iopNextEventCycle := t\<rparr>"
      unfolding psxTestInterrupts_def Let_def t(1) i by (simp only: if_False)
    moreover have "{n \<in> set hi_events. pending s n} = {n. n < 13 \<and> pending s n}"
      using False unfolding below [symmetric] set_append pending_def by blast
    ultimately show ?thesis using t(3) by metis
  qed
qed

text \<open>
  C13: the event test schedules the earliest event. When no counter and no device event is due, the
  next event cycle that \<^verbatim>\<open>iopEventTest\<close> leaves is the least of 384 cycles ahead, the next
  counter and the due cycles of all pending events, so that none of them is passed over.
\<close>
theorem iop_next_event:
  assumes "unat (psxCycle s) < 2 ^ 61" "waiting (psxNextStartCounter s) (psxNextDeltaCounter s) (psxCycle s)"
    and "\<And>n. n < 13 \<Longrightarrow> pending s n \<Longrightarrow> waiting (sCycle s n) (eCycle s n) (psxCycle s)"
  shows "unat (iopNextEventCycle (iopEventTest E s)) =
    Min ({unat (psxCycle s) + 384, unat (psxNextStartCounter s) + unat (psxNextDeltaCounter s)} \<union> due s ` {n. n < 13 \<and> pending s n})"
proof -
  let ?s = "s\<lparr>iopNextEventCycle := psxCycle s + 384\<rparr>"
  have c: "unat (psxCycle s + 384) = unat (psxCycle s) + 384" using assms(1) by (subst unat_add_lem [THEN iffD1]) simp_all
  then have "next_ok ?s" by (simp add: next_ok_def word_le_nat_alt)
  then obtain t where t: "psxSetNextBranch (psxNextStartCounter s) (psxNextDeltaCounter s) ?s = s\<lparr>iopNextEventCycle := t\<rparr>"
    "unat t = min (unat (psxCycle s) + 384) (unat (psxNextStartCounter s) + unat (psxNextDeltaCounter s))" "next_ok (s\<lparr>iopNextEventCycle := t\<rparr>)"
    using psxSetNextBranch_min [of "psxNextStartCounter s" "psxNextDeltaCounter s" ?s] assms(2) c by auto
  let ?t = "s\<lparr>iopNextEventCycle := t, iopEventTestIsActive := True\<rparr>"
  have same: "due ?t = due s" "pending ?t = pending s" by (simp_all add: due_def pending_def fun_eq_iff)
  obtain u where u: "psxTestInterrupts E ?t = ?t\<lparr>iopNextEventCycle := u\<rparr>"
    "unat u = Min (insert (unat t) (due s ` {n. n < 13 \<and> pending s n}))"
    using psxTestInterrupts_folds [of ?t E] assms(3) t(3) unfolding same by (auto simp: next_ok_def)
  have n: "iopNextEventCycle (iopEventTest E s) = (if psxInterrupt s \<noteq> 0 then u else t)"
    unfolding event_test_next run_events_no_counter [OF waiting_not_due [OF assms(2)] t(1)] u(1) by simp
  have "unat t = unat u" if "psxInterrupt s = 0"
  proof -
    have "{n. n < 13 \<and> pending s n} = {}" using that by (simp add: pending_def)
    then show ?thesis unfolding u(2) by (simp only: image_empty Min_singleton)
  qed
  then have "unat (iopNextEventCycle (iopEventTest E s)) = Min (insert (unat t) (due s ` {n. n < 13 \<and> pending s n}))"
    unfolding u(2) [symmetric] n by simp
  then show ?thesis unfolding t(2) by (simp only: Un_insert_left Un_empty_left Min_insert_min finite_imageI finite_Collect_conjI finite_Collect_less_nat disj_not1 simp_thms)
qed

text \<open>A device event 100 cycles after cycle 0, seen at cycle 10.\<close>

definition iop_one_event :: "unit iop" where
  "iop_one_event = iop_zero\<lparr>psxCycle := 10, psxInterrupt := 1, eCycle := (\<lambda>_. 0)(0 := 100), psxNextDeltaCounter := 1000\<rparr>"

theorem iop_next_event_witness: "unat (iopNextEventCycle (iopEventTest iop_plain iop_one_event)) = 100"
proof -
  have p: "pending iop_one_event n = (n = 0)" for n by (simp add: pending_def iop_one_event_def bit_1_iff)
  have w: "waiting (sCycle iop_one_event n) (eCycle iop_one_event n) (psxCycle iop_one_event)" if "pending iop_one_event n" for n
    using that unfolding p by (simp add: waiting_def iop_one_event_def iop_zero_def)
  have "{n. n < 13 \<and> pending iop_one_event n} = {0}" by (auto simp: p)
  moreover have "due iop_one_event 0 = 100" by (simp add: due_def iop_one_event_def iop_zero_def)
  moreover have "unat (psxCycle iop_one_event) < 2 ^ 61"
    "waiting (psxNextStartCounter iop_one_event) (psxNextDeltaCounter iop_one_event) (psxCycle iop_one_event)"
    by (simp_all add: waiting_def iop_one_event_def iop_zero_def)
  ultimately have "unat (iopNextEventCycle (iopEventTest iop_plain iop_one_event)) =
      Min ({unat (psxCycle iop_one_event) + 384, unat (psxNextStartCounter iop_one_event) + unat (psxNextDeltaCounter iop_one_event)} \<union> {100})"
    using iop_next_event [of iop_one_event iop_plain] w by simp
  then show ?thesis by (simp add: iop_one_event_def iop_zero_def)
qed

section \<open>Cycle accounting\<close>

text \<open>The cycles of the main processor that a charge takes from the slice.\<close>

definition charged :: "'d iop_env \<Rightarrow> u64 \<Rightarrow> 'd iop \<Rightarrow> nat" where
  "charged E lastIOPCycle s = unat (iopCycleEE s - iopCycleEE (charge_EE E lastIOPCycle s))"

definition ps1_mode :: "'d iop_env \<Rightarrow> 'd iop \<Rightarrow> bool" where
  "ps1_mode E s \<longleftrightarrow> psxHu32 E HW_ICFG s AND push_bit 3 1 \<noteq> 0"

lemma ucast_unat: "unat (ucast (w :: u64) :: u32) = unat w mod 2 ^ 32"
  by (simp add: unsigned_ucast_eq take_bit_eq_mod)

lemma unat_small_mult_add:
  fixes d :: u64 and c :: u32
  assumes "unat d < 2 ^ 20" "unat c < 147"
  shows "unat (ucast (1280 * d + ucast c) :: u32) = 1280 * unat d + unat c"
proof -
  have "unat (1280 * d) = 1280 * unat d" using assms(1) by (simp add: unat_word_ariths)
  moreover have "unat (ucast c :: u64) = unat c" using assms(2) by (simp add: unsigned_ucast_eq take_bit_nat_eq_self)
  ultimately have "unat (1280 * d + ucast c) = 1280 * unat d + unat c" using assms by (simp add: unat_word_ariths)
  then show ?thesis using assms by (simp add: ucast_unat)
qed

lemma ucast_diff32: "(ucast (a - b :: u64) :: u32) = ucast a - ucast b"
proof transfer
  fix a b :: int
  have c: "x mod 2 ^ 64 mod 2 ^ 32 = x mod 2 ^ 32" for x :: int by (rule mod_mod_cancel) simp
  then have "(a - b) mod 2 ^ 32 = (a mod 2 ^ 64 - b mod 2 ^ 64) mod 2 ^ 32" by (metis mod_diff_eq)
  with c [of "a - b"] show "take_bit LENGTH(32) (take_bit LENGTH(64) (a - b)) = take_bit LENGTH(32) (take_bit LENGTH(64) a - take_bit LENGTH(64) b)"
    by (simp add: take_bit_eq_mod mod_diff_eq)
qed

lemma charge_PS2:
  assumes "\<not> ps1_mode E s" "unat (psxCycle s - lastIOPCycle) < 2 ^ 20"
  shows "charged E lastIOPCycle s = 8 * unat (psxCycle s - lastIOPCycle)" "iopCycleEECarry (charge_EE E lastIOPCycle s) = iopCycleEECarry s"
proof -
  define d where "d = psxCycle s - lastIOPCycle"
  have "(ucast (scast (iopCycleEE s) - d * 8 :: u64) :: u32) = iopCycleEE s - ucast (d * 8)"
    by (simp add: ucast_diff32)
  moreover have "unat (ucast (d * 8) :: u32) = 8 * unat d"
    using assms(2) unfolding d_def [symmetric] by (simp add: ucast_unat unat_word_ariths)
  ultimately show "charged E lastIOPCycle s = 8 * unat (psxCycle s - lastIOPCycle)"
    using assms(1) by (simp add: charged_def charge_EE_def ps1_mode_def Let_def d_def [symmetric])
  show "iopCycleEECarry (charge_EE E lastIOPCycle s) = iopCycleEECarry s"
    using assms(1) by (simp add: charge_EE_def ps1_mode_def Let_def)
qed

lemma charge_PS1:
  assumes "ps1_mode E s" "unat (psxCycle s - lastIOPCycle) < 2 ^ 20" "unat (iopCycleEECarry s) < 147"
  defines "t \<equiv> 1280 * unat (psxCycle s - lastIOPCycle) + unat (iopCycleEECarry s)"
  shows "charged E lastIOPCycle s = t div 147" "unat (iopCycleEECarry (charge_EE E lastIOPCycle s)) = t mod 147"
  using assms(1) unat_small_mult_add [OF assms(2,3)]
  by (simp_all add: charged_def charge_EE_def ps1_mode_def Let_def t_def unat_div unat_mod)

text \<open>
  C25: cycles are charged without drift. A block of \<open>k\<close> cycles costs \<open>8 * k\<close> cycles of the main
  processor in its native mode; in the compatibility mode the whole cycles charged and the carry are the quotient and
  the remainder of \<open>1280 * k\<close> plus the old carry by 147, so that nothing is lost between blocks
  and the carry stays below 147.
\<close>
theorem iop_cycle_accounting:
  assumes "unat (psxCycle s - lastIOPCycle) < 2 ^ 20" "unat (iopCycleEECarry s) < 147"
  defines "k \<equiv> unat (psxCycle s - lastIOPCycle)"
  shows "let t = charge_EE E lastIOPCycle s in
    (if ps1_mode E s then 147 * charged E lastIOPCycle s + unat (iopCycleEECarry t) = 1280 * k + unat (iopCycleEECarry s)
     else charged E lastIOPCycle s = 8 * k \<and> iopCycleEECarry t = iopCycleEECarry s) \<and>
    unat (iopCycleEECarry t) < 147"
  using assms(2) charge_PS2 [OF _ assms(1)] charge_PS1 [OF _ assms(1,2)] by (simp add: k_def Let_def)

theorem iop_cycle_accounting_witness:
  "unat (iopCycleEECarry (charge_EE iop_plain 0 (iop_zero\<lparr>psxCycle := 10, iopCycleEECarry := 100\<rparr>))) < 147"
  using iop_cycle_accounting [of "iop_zero\<lparr>psxCycle := 10, iopCycleEECarry := 100\<rparr>" 0 iop_plain] by (simp add: Let_def)

section \<open>A slice ends\<close>

text \<open>States closed under passes of the block loop in which every block ends, takes between one and
  \<open>2 ^ 20\<close> cycles and leaves the slice to the charge.\<close>

definition slice_invariant :: "'d iop_env \<Rightarrow> nat \<Rightarrow> ('d iop \<Rightarrow> bool) \<Rightarrow> bool" where
  "slice_invariant E n P \<longleftrightarrow>
     (\<forall>s. P s \<longrightarrow> unat (iopCycleEECarry s) < 147 \<and>
        (\<exists>u. iop_block E n s = Some u \<and> iopCycleEE u = iopCycleEE s \<and> iopCycleEECarry u = iopCycleEECarry s \<and>
             0 < unat (psxCycle u - psxCycle s) \<and> unat (psxCycle u - psxCycle s) < 2 ^ 20 \<and> P (charge_EE E (psxCycle s) u)))"

lemma slice_invariantE:
  assumes "slice_invariant E n P" "P s"
  obtains u where "iop_block E n s = Some u" "iopCycleEE u = iopCycleEE s" "0 < unat (psxCycle u - psxCycle s)"
    "unat (psxCycle u - psxCycle s) < 2 ^ 20" "P (charge_EE E (psxCycle s) u)" "unat (iopCycleEECarry u) < 147"
  using assms unfolding slice_invariant_def by metis

text \<open>At least 8 and at most \<open>2 ^ 24\<close> cycles are charged.\<close>

lemma charged_bounds:
  assumes "unat (iopCycleEECarry s) < 147" "0 < unat (psxCycle s - c)" "unat (psxCycle s - c) < 2 ^ 20"
  shows "8 \<le> charged E c s" "charged E c s < 2 ^ 24"
  using charge_PS2 [OF _ assms(3), of E] charge_PS1 [OF _ assms(3,1), of E] assms
  by (cases "ps1_mode E s", auto)+

lemma sint_pos_iff: "0 <s x \<longleftrightarrow> 0 < unat x \<and> unat x < 2 ^ 31" for x :: u32
proof -
  consider "unat x < 2 ^ 31" | "2 ^ 31 \<le> unat x" by linarith
  then show ?thesis
  proof cases
    case 1
    then show ?thesis using sless_small [of 0 x] by simp
  next
    case 2
    then have "bit x 31" using unsigned_less [of x, where 'a = nat] by (simp add: bit_unat odd_iff_mod_2_eq_one)
    then have "sint x < 0" by (simp add: sint_uint bit_unsigned_iff)
    then show ?thesis using 2 by (simp add: word_sless_alt)
  qed
qed

text \<open>Taking an amount from a positive slice: it shrinks, or is used up.\<close>

lemma slice_shrinks:
  fixes x y :: u32
  assumes "0 <s x" "8 \<le> unat (x - y)" "unat (x - y) < 2 ^ 24" "0 <s y"
  shows "unat y < unat x"
proof -
  have x: "0 < unat x" "unat x < 2 ^ 31" and y: "0 < unat y" "unat y < 2 ^ 31" using assms(1,4) by (simp_all add: sint_pos_iff)
  show ?thesis
  proof (rule ccontr)
    assume "\<not> unat y < unat x"
    then have "unat (x - y) = (if x = y then 0 else 2 ^ 32 - (unat y - unat x))"
      by (auto simp: unat_sub_if_size word_size word_unat_eq_iff)
    then show False using assms(2,3) y by (auto split: if_splits)
  qed
qed

lemma block_loop_ends:
  assumes "slice_invariant E n P" "P s"
  shows "\<exists>t. block_loop E n s = Some t \<and> P t \<and> \<not> 0 <s iopCycleEE t"
  using assms(2)
proof (induction "unat (iopCycleEE s)" arbitrary: s rule: less_induct)
  case less
  show ?case
  proof (cases "0 <s iopCycleEE s")
    case False
    then show ?thesis using less.prems by (subst block_loop.simps) simp
  next
    case True
    obtain u where u: "iop_block E n s = Some u" "iopCycleEE u = iopCycleEE s" "0 < unat (psxCycle u - psxCycle s)"
      "unat (psxCycle u - psxCycle s) < 2 ^ 20" "P (charge_EE E (psxCycle s) u)" "unat (iopCycleEECarry u) < 147"
      using slice_invariantE [OF assms(1) less.prems] by blast
    let ?t = "charge_EE E (psxCycle s) u"
    have c: "8 \<le> unat (iopCycleEE s - iopCycleEE ?t)" "unat (iopCycleEE s - iopCycleEE ?t) < 2 ^ 24"
      using charged_bounds [OF u(6,3,4), of E] u(2) by (simp_all add: charged_def)
    have step: "block_loop E n s = block_loop E n ?t"
      using True u(1) by (subst block_loop.simps) (simp add: block_step_def)
    show ?thesis
    proof (cases "0 <s iopCycleEE ?t")
      case t: True
      show ?thesis using less.hyps [OF slice_shrinks [OF True c t] u(5)] step by simp
    next
      case False
      then have "block_loop E n ?t = Some ?t" by (subst block_loop.simps) simp
      then show ?thesis using u(5) step False by auto
    qed
  qed
qed

text \<open>
  C20: the second processor gives control back. From states in which every block ends within
  \<open>2 ^ 20\<close> cycles, running it for any number of cycles returns, with the slice used up: the remaining count is not
  positive.
\<close>
theorem iop_slice_ends:
  assumes "slice_invariant E n P" "P (s\<lparr>iopBreak := 0, iopCycleEE := c\<rparr>)"
  shows "\<exists>t. intExecuteBlock E n c s = Some (iopBreak t + iopCycleEE t, t) \<and> P t \<and> sint (iopCycleEE t) \<le> 0"
  using block_loop_ends [OF assms] by (auto simp: intExecuteBlock_def word_sless_alt)

text \<open>The idle loop: a branch to itself at address 0x1000, with nothing in its delay slot.\<close>

definition iop_idle :: "unit iop \<Rightarrow> bool" where
  "iop_idle s \<longleftrightarrow> psxPC s = 0x1000 \<and> memLUT s = (\<lambda>_. 0)(0x2000 := 0x10000000) \<and>
     ihost s = (\<lambda>_. 0)(0x10001000 := 0xff, 0x10001001 := 0xff, 0x10001003 := 0x10) \<and>
     psxInterrupt s = 0 \<and> iopCycleEECarry s = 0"


lemma idle_fetch:
  assumes "ihost s = (\<lambda>_. 0)(0x10001000 := 0xff, 0x10001001 := 0xff, 0x10001003 := 0x10)" "memLUT s = (\<lambda>_. 0)(0x2000 := 0x10000000)"
  shows "iop_readable 0x1000 0x10001000 s" "iop_readable 0x1004 0x10001004 s"
    "iload 0x10001000 s = (0x1000ffff :: u32)" "iload 0x10001004 s = (0 :: u32)" "psxHu32 iop_plain HW_ICFG s = 0" "psxHu32 iop_plain HW_ICTRL s = 0"
  using assms
  by (simp_all add: iop_readable_def plain_page_def psxMemRLUT_def Let_def iload_def hostLoad32 psxHu32_def psxHu_def iop_plain_def)

lemma plain_event_test:
  fixes s :: "unit iop"
  assumes "psxInterrupt s = 0" "psxHu32 iop_plain HW_ICTRL s = 0"
  obtains c a where "iopEventTest iop_plain s = s\<lparr>iopNextEventCycle := c, iopEventAction := a\<rparr>"
proof -
  have "\<exists>c a. iop_run_events iop_plain s = s\<lparr>iopNextEventCycle := c, iopEventAction := a\<rparr>"
    using assms(1)
    by (intro exI [of _ "iopNextEventCycle (iop_run_events iop_plain s)"] exI [of _ "iopEventAction (iop_run_events iop_plain s)"])
      (simp add: iop_run_events_def Let_def iop_plain_def)
  then obtain c a where r: "iop_run_events iop_plain s = s\<lparr>iopNextEventCycle := c, iopEventAction := a\<rparr>" by blast
  have "psxHu32 iop_plain HW_ICTRL (s\<lparr>iopNextEventCycle := c, iopEventAction := a\<rparr>) = psxHu32 iop_plain HW_ICTRL s"
    by (simp add: psxHu32_def iload_def)
  then show thesis using assms(2) r by (intro that [of a c]) (simp add: iopEventTest_def Let_def)
qed


lemma idle_fields: "iRs (s\<lparr>psxCode := 0x1000ffff, psxPC := a, psxCycle := c\<rparr>) = 0" "iRt (s\<lparr>psxCode := 0x1000ffff, psxPC := a, psxCycle := c\<rparr>) = 0"
  "iBranchTarget (s\<lparr>psxCode := 0x1000ffff, psxPC := 0x1004, psxCycle := c\<rparr>) = 0x1000"
  by (simp_all add: iRs_def iRt_def iBranchTarget_def iImm_def)

lemma idle_block:
  assumes "iop_idle s"
  obtains c a where "iop_block iop_plain 2 s =
    Some (s\<lparr>branch2 := True, iopIsDelaySlot := False, branchPC := 0x1000, psxCode := 0, psxCycle := psxCycle s + 2,
      iopNextEventCycle := c, iopEventAction := a\<rparr>)"
proof -
  have h: "ihost s = (\<lambda>_. 0)(0x10001000 := 0xff, 0x10001001 := 0xff, 0x10001003 := 0x10)" "memLUT s = (\<lambda>_. 0)(0x2000 := 0x10000000)"
    "psxPC s = 0x1000" "psxInterrupt s = 0" using assms by (simp_all add: iop_idle_def)
  define s0 where "s0 = s\<lparr>branch2 := False\<rparr>"
  let ?s = "s0\<lparr>psxCode := 0x1000ffff, psxPC := 0x1004, psxCycle := psxCycle s + 1\<rparr>"
  let ?t = "?s\<lparr>branch2 := True, iopIsDelaySlot := True, branchPC := 0x1000\<rparr>"
  let ?u = "?t\<lparr>psxCode := 0, psxPC := 0x1008, psxCycle := psxCycle s + 2\<rparr>"
  let ?v = "?u\<lparr>iopIsDelaySlot := False, psxPC := 0x1000\<rparr>"
  have f0: "iop_readable (psxPC s0) 0x10001000 s0" "iload 0x10001000 s0 = (0x1000ffff :: u32)" "psxPC s0 = 0x1000"
    using idle_fetch [of s0] h by (simp_all add: s0_def)
  have f1: "iop_readable (psxPC ?t) 0x10001004 ?t" "iload 0x10001004 ?t = (0 :: u32)"
    using idle_fetch [of ?t] h by (simp_all add: s0_def)
  have slot: "iop_execI iop_plain (Suc 0) ?t = Some ?u"
    using f1 by (simp add: exec_plain psxBSC_def psxSPECIAL_def psxSPC_def iFunct_def ins_def psxSLL_def put_Rd_def iRd_def)
  obtain c a where e: "iopEventTest iop_plain ?v = ?v\<lparr>iopNextEventCycle := c, iopEventAction := a\<rparr>"
    by (rule plain_event_test [of ?v]) (use idle_fetch [of ?v] h in \<open>simp_all add: s0_def\<close>)
  have "iop_execI iop_plain 2 s0 = psxBEQ iop_plain (iop_execI iop_plain (Suc 0)) ?s"
    unfolding numeral_2_eq_2 iop_execI.simps(2) [of iop_plain "Suc 0"]
    using f0 by (simp add: exec_plain psxBSC_def s0_def del: iop_execI.simps)
  also have "\<dots> = Some (?v\<lparr>iopNextEventCycle := c, iopEventAction := a\<rparr>)"
    using slot e by (simp add: psxBEQ_def iop_branch_if_def iop_doBranch_def rRs_def rRt_def idle_fields Let_def del: iop_execI.simps)
  finally have x: "iop_execI iop_plain 2 s0 = Some (?v\<lparr>iopNextEventCycle := c, iopEventAction := a\<rparr>)" .
  have "run_to_branch (iop_execI iop_plain 2) s0 = Some (?v\<lparr>iopNextEventCycle := c, iopEventAction := a\<rparr>)"
    by (subst run_to_branch.simps) (simp add: x, simp add: s0_def run_to_branch.simps)
  then have "iop_block iop_plain 2 s = Some (?v\<lparr>iopNextEventCycle := c, iopEventAction := a\<rparr>)"
    using idle_fetch(5) [OF h(1,2)] by (simp add: iop_block_def s0_def)
  moreover have "?v\<lparr>iopNextEventCycle := c, iopEventAction := a\<rparr> =
      s\<lparr>branch2 := True, iopIsDelaySlot := False, branchPC := 0x1000, psxCode := 0, psxCycle := psxCycle s + 2,
        iopNextEventCycle := c, iopEventAction := a\<rparr>" using h(3) by (simp add: s0_def)
  ultimately show thesis by (intro that) simp
qed

lemma idle_invariant: "slice_invariant iop_plain 2 iop_idle"
  unfolding slice_invariant_def
proof (intro allI impI conjI)
  fix s assume s: "iop_idle s"
  then show "unat (iopCycleEECarry s) < 147" by (simp add: iop_idle_def)
  obtain c a where b: "iop_block iop_plain 2 s =
    Some (s\<lparr>branch2 := True, iopIsDelaySlot := False, branchPC := 0x1000, psxCode := 0, psxCycle := psxCycle s + 2,
      iopNextEventCycle := c, iopEventAction := a\<rparr>)" (is "_ = Some ?u") by (rule idle_block [OF s])
  have "\<not> ps1_mode iop_plain ?u" using s idle_fetch(5) [of ?u] by (simp add: ps1_mode_def iop_idle_def)
  then have "iop_idle (charge_EE iop_plain (psxCycle s) ?u)"
    using s by (simp add: iop_idle_def charge_EE_def ps1_mode_def)
  then show "\<exists>u. iop_block iop_plain 2 s = Some u \<and> iopCycleEE u = iopCycleEE s \<and> iopCycleEECarry u = iopCycleEECarry s \<and>
      0 < unat (psxCycle u - psxCycle s) \<and> unat (psxCycle u - psxCycle s) < 2 ^ 20 \<and> iop_idle (charge_EE iop_plain (psxCycle s) u)"
    using b by (intro exI [of _ ?u]) simp
qed

definition iop_idle_state :: "unit iop" where
  "iop_idle_state = iop_zero\<lparr>psxPC := 0x1000, memLUT := (\<lambda>_. 0)(0x2000 := 0x10000000),
     ihost := (\<lambda>_. 0)(0x10001000 := 0xff, 0x10001001 := 0xff, 0x10001003 := 0x10)\<rparr>"

lemma idle_state: "iop_idle (iop_idle_state\<lparr>iopBreak := b, iopCycleEE := c\<rparr>)"
  by (simp add: iop_idle_def iop_idle_state_def iop_zero_def)

theorem iop_slice_ends_witness:
  "\<exists>t. intExecuteBlock iop_plain 2 4096 iop_idle_state = Some (iopBreak t + iopCycleEE t, t) \<and> sint (iopCycleEE t) \<le> 0"
  using iop_slice_ends [OF idle_invariant idle_state] by blast

text \<open>
  C14: register 0 of the second processor reads as zero. No instruction of its tables, no event,
  exception or delay slot of a slice of any length changes it, as long as the devices, the BIOS and
  the geometry unit do not.
\<close>
theorem iop_r0_zero:
  assumes "iop_laws E" "psxGPR s 0 = 0" "intExecuteBlock E n c s = Some (k, t)"
  shows "psxGPR t 0 = 0"
  using iop_laws.ExecuteBlock_r0 [OF assms(1,3,2)] .

theorem iop_r0_zero_witness: "psxGPR (snd (the (intExecuteBlock iop_plain 2 4096 iop_idle_state))) 0 = 0"
proof -
  obtain t where t: "block_loop iop_plain 2 (iop_idle_state\<lparr>iopBreak := 0, iopCycleEE := 4096\<rparr>) = Some t"
    using block_loop_ends [OF idle_invariant idle_state] by blast
  then have "intExecuteBlock iop_plain 2 4096 iop_idle_state = Some (iopBreak t + iopCycleEE t, t)" by (simp add: intExecuteBlock_def)
  moreover have "psxGPR iop_idle_state 0 = 0" by (simp add: iop_idle_state_def iop_zero_def)
  ultimately show ?thesis using iop_r0_zero [OF iop_plain.iop_laws_axioms, of iop_idle_state 2 4096] by simp
qed

end
