(* ===== verification/VU_State.thy ===== *)
theory VU_State
  imports Host_Float
begin

text \<open>
  State of the vector units (\<^verbatim>\<open>pcsx2/VU.h\<close>, \<^verbatim>\<open>pcsx2/VUops.h\<close>) and their flag registers
  (\<^verbatim>\<open>pcsx2/VUflags.cpp\<close>). A vector register is a map from its four lanes (x is lane 0) to patterns;
  positions in the rings of four entries are numbers of two bits, whose sums wrap as the mask with 3 does. Data
  memory is accessed by whole quadwords, so it is a map from quadword numbers to vectors, and
  microprogram memory a map from word numbers to words. Fields of the recompilers are left out.
\<close>

section \<open>Registers and pipelines\<close>

type_synonym VECTOR = "2 word \<Rightarrow> u32"

record fdivPipe =
  fdEnable :: bool
  fdReg :: u32
  fdSCycle :: u64
  fdCycle :: u32
  fdStatusflag :: u32

record efuPipe =
  efEnable :: bool
  efReg :: u32
  efSCycle :: u64
  efCycle :: u32

record fmacPipe =
  fmRegupper :: u32
  fmReglower :: u32
  fmFlagreg :: u32
  fmXyzwupper :: u32
  fmXyzwlower :: u32
  fmSCycle :: u64
  fmCycle :: u32
  fmMacflag :: u32
  fmStatusflag :: u32
  fmClipflag :: u32

record ialuPipe =
  iaReg :: u32
  iaSCycle :: u64
  iaCycle :: u32

text \<open>\<^verbatim>\<open>struct VURegs\<close>. \<open>VIpad\<close> holds the three unused words of each integer register, which the other
  unit can reach through its memory map.\<close>

record VURegs =
  VF :: "5 word \<Rightarrow> VECTOR"
  VI :: "5 word \<Rightarrow> u32"
  VIpad :: "5 word \<Rightarrow> VECTOR"
  VACC :: VECTOR
  vq :: u32
  vp :: u32
  vcycle :: u64
  vflags :: u32
  vcode :: u32
  start_pc :: u32
  vbranch :: u32
  vbranchpc :: u32
  delaybranchpc :: u32
  takedelaybranch :: bool
  ebit :: u32
  macflag :: u32
  statusflag :: u32
  clipflag :: u32
  VMem :: "nat \<Rightarrow> VECTOR"
  Micro :: "nat \<Rightarrow> u32"
  nextBlockCycles :: u64
  xgkickaddr :: u32
  xgkickdiff :: u32
  xgkicksizeremaining :: u32
  xgkicklastcycle :: u64
  xgkickcyclecount :: u32
  xgkickenable :: bool
  xgkickendpacket :: bool
  VIBackupCycles :: u8
  VIOldValue :: u32
  VIRegNumber :: u32
  fmac :: "2 word \<Rightarrow> fmacPipe"
  fmacreadpos :: "2 word"
  fmacwritepos :: "2 word"
  fmaccount :: u32
  fdiv :: fdivPipe
  efu :: efuPipe
  ialu :: "2 word \<Rightarrow> ialuPipe"
  ialureadpos :: "2 word"
  ialuwritepos :: "2 word"
  ialucount :: u32

text \<open>The numbers of \<^verbatim>\<open>VURegFlags\<close>.\<close>

abbreviation (input) REG_STATUS_FLAG :: "5 word" where "REG_STATUS_FLAG \<equiv> 16"
abbreviation (input) REG_MAC_FLAG :: "5 word" where "REG_MAC_FLAG \<equiv> 17"
abbreviation (input) REG_CLIP_FLAG :: "5 word" where "REG_CLIP_FLAG \<equiv> 18"
abbreviation (input) REG_R :: "5 word" where "REG_R \<equiv> 20"
abbreviation (input) REG_I :: "5 word" where "REG_I \<equiv> 21"
abbreviation (input) REG_Q :: "5 word" where "REG_Q \<equiv> 22"
abbreviation (input) REG_P :: "5 word" where "REG_P \<equiv> 23"
abbreviation (input) REG_TPC :: "5 word" where "REG_TPC \<equiv> 26"
abbreviation (input) REG_FBRST :: "5 word" where "REG_FBRST \<equiv> 28"
abbreviation (input) REG_VPU_STAT :: "5 word" where "REG_VPU_STAT \<equiv> 29"

abbreviation (input) BIT_ACC :: u32 where "BIT_ACC \<equiv> 0x80000"
abbreviation (input) BIT_STATUS :: u32 where "BIT_STATUS \<equiv> 0x10000"
abbreviation (input) BIT_MAC :: u32 where "BIT_MAC \<equiv> 0x20000"
abbreviation (input) BIT_CLIP :: u32 where "BIT_CLIP \<equiv> 0x40000"
abbreviation (input) BIT_R :: u32 where "BIT_R \<equiv> 0x100000"
abbreviation (input) BIT_I :: u32 where "BIT_I \<equiv> 0x200000"
abbreviation (input) BIT_Q :: u32 where "BIT_Q \<equiv> 0x400000"
abbreviation (input) BIT_P :: u32 where "BIT_P \<equiv> 0x800000"
abbreviation (input) BIT_VF0 :: u32 where "BIT_VF0 \<equiv> 0x1000000"

definition wVF :: "5 word \<Rightarrow> 2 word \<Rightarrow> u32 \<Rightarrow> VURegs \<Rightarrow> VURegs" where
  "wVF r i x v = v\<lparr>VF := (VF v)(r := (VF v r)(i := x))\<rparr>"

definition wVI :: "5 word \<Rightarrow> u32 \<Rightarrow> VURegs \<Rightarrow> VURegs" where
  "wVI r x v = v\<lparr>VI := (VI v)(r := x)\<rparr>"

text \<open>The low half of an integer register, \<^verbatim>\<open>US[0]\<close>.\<close>

definition VIus :: "5 word \<Rightarrow> VURegs \<Rightarrow> u16" where
  "VIus r v = ucast (VI v r)"

definition wVIus :: "5 word \<Rightarrow> u16 \<Rightarrow> VURegs \<Rightarrow> VURegs" where
  "wVIus r x v = wVI r ((VI v r AND 0xFFFF0000) OR ucast x) v"

section \<open>Fields of the instruction\<close>

definition vFt :: "VURegs \<Rightarrow> 5 word" where "vFt v = ucast (drop_bit 16 (vcode v) AND 0x1F)"
definition vFs :: "VURegs \<Rightarrow> 5 word" where "vFs v = ucast (drop_bit 11 (vcode v) AND 0x1F)"
definition vFd :: "VURegs \<Rightarrow> 5 word" where "vFd v = ucast (drop_bit 6 (vcode v) AND 0x1F)"
definition vIt :: "VURegs \<Rightarrow> 5 word" where "vIt v = vFt v AND 0xF"
definition vIs :: "VURegs \<Rightarrow> 5 word" where "vIs v = vFs v AND 0xF"
definition vId :: "VURegs \<Rightarrow> 5 word" where "vId v = vFd v AND 0xF"
definition vXYZW :: "VURegs \<Rightarrow> u32" where "vXYZW v = drop_bit 21 (vcode v) AND 0xF"
definition vFsf :: "VURegs \<Rightarrow> 2 word" where "vFsf v = ucast (drop_bit 21 (vcode v) AND 0x03)"
definition vFtf :: "VURegs \<Rightarrow> 2 word" where "vFtf v = ucast (drop_bit 23 (vcode v) AND 0x03)"

definition vImm11 :: "VURegs \<Rightarrow> u32" where
  "vImm11 v = (if vcode v AND 0x400 \<noteq> 0 then 0xfffffc00 OR (vcode v AND 0x3ff) else vcode v AND 0x3ff)"

text \<open>Whether lane \<open>i\<close> is selected: \<^verbatim>\<open>_X\<close>, \<^verbatim>\<open>_Y\<close>, \<^verbatim>\<open>_Z\<close> and \<^verbatim>\<open>_W\<close>.\<close>

definition vSel :: "2 word \<Rightarrow> VURegs \<Rightarrow> bool" where
  "vSel i v = bit (vcode v) (24 - unat i)"

section \<open>Dependencies of an instruction\<close>

datatype VUPipeState = VUPIPE_NONE | VUPIPE_FMAC | VUPIPE_FDIV | VUPIPE_EFU | VUPIPE_IALU | VUPIPE_BRANCH | VUPIPE_XGKICK

text \<open>\<^verbatim>\<open>struct _VURegsNum\<close>; its byte fields hold register numbers and lane masks.\<close>

record VURegsNum =
  pipe :: VUPipeState
  VFwrite :: u32
  VFwxyzw :: u32
  VFr0xyzw :: u32
  VFr1xyzw :: u32
  VFread0 :: u32
  VFread1 :: u32
  VIwrite :: u32
  VIread :: u32
  cycles :: u32

section \<open>Both units\<close>

record 'd vus =
  vu0 :: VURegs
  vu1 :: VURegs
  vdev :: 'd

text \<open>Configuration and the calls that leave the modelled part: the clamping option of each unit, the
  hack for additions, the control register of the host's arithmetic while a unit runs, whether the compiler
  fuses a product with the sum it is added to (\<^verbatim>\<open>-ffp-contract=fast\<close>, \<^verbatim>\<open>pcsx2/CMakeLists.txt\<close>) and which of the two
  products of a sum it then rounds only once, whether packets
  for the graphics interface are sent tag by tag (\<^verbatim>\<open>CHECK_XGKICKHACK || !REC_VU1\<close>), the registers
  of the unit's DMA interface and the end of its wait for the unit, the interrupt controller, the main
  processor's cycle, what the uninitialised descriptors of the upper and lower instruction hold, the scaling
  of unit 0's cycles by the speed setting, the graphics interface, which is given quadwords, the wake-up of
  the DMA interface that waits for it, and the polynomials that are evaluated in double precision. Everything outside the
  units is the state \<open>'d\<close>.\<close>

record 'd vu_env =
  vuOverflow :: "nat \<Rightarrow> bool"
  VuAddSubHack :: bool
  VUFPCR :: "nat \<Rightarrow> FPControlRegister"
  VUContract :: bool
  VUContractLeft :: bool
  INSTANT_VU1 :: bool
  xgkick_by_tag :: bool
  vif_itop :: "nat \<Rightarrow> 'd \<Rightarrow> u16"
  vif_top :: "nat \<Rightarrow> 'd \<Rightarrow> u16"
  vif_stop_wait :: "nat \<Rightarrow> 'd \<Rightarrow> 'd"
  hwIntcIrq :: "nat \<Rightarrow> 'd \<Rightarrow> 'd"
  ee_cycle :: "'d \<Rightarrow> u64"
  uninit_regs :: "'d vus \<Rightarrow> VURegsNum \<times> VURegsNum"
  vu0_cycle_rate :: "u64 \<Rightarrow> u64"
  TransferGSPacketData :: "VECTOR list \<Rightarrow> 'd \<Rightarrow> 'd"
  vif_gif_idle :: "'d \<Rightarrow> 'd"
  eatan_sum :: "u32 \<Rightarrow> u32"
  esin_sum :: "u32 \<Rightarrow> u32"
  eexp_sum :: "u32 \<Rightarrow> u32"

definition get_vu :: "nat \<Rightarrow> 'd vus \<Rightarrow> VURegs" where
  "get_vu k s = (if k = 0 then vu0 s else vu1 s)"

definition on_vu :: "nat \<Rightarrow> (VURegs \<Rightarrow> VURegs) \<Rightarrow> 'd vus \<Rightarrow> 'd vus" where
  "on_vu k f s = (if k = 0 then s\<lparr>vu0 := f (vu0 s)\<rparr> else s\<lparr>vu1 := f (vu1 s)\<rparr>)"

definition on_dev :: "('d \<Rightarrow> 'd) \<Rightarrow> 'd vus \<Rightarrow> 'd vus" where
  "on_dev f s = s\<lparr>vdev := f (vdev s)\<rparr>"

section \<open>Flags of the multiplier and adder\<close>

definition VU_MAC_UPDATE :: "'d vu_env \<Rightarrow> nat \<Rightarrow> nat \<Rightarrow> u32 \<Rightarrow> VURegs \<Rightarrow> u32 \<times> VURegs" where
  "VU_MAC_UPDATE E k shift f v =
     (let exp = drop_bit 23 f AND 0xff; s = f AND 0x80000000;
          m = (if s \<noteq> 0 then macflag v OR push_bit shift 0x0010 else macflag v AND NOT (push_bit shift 0x0010))
      in if f_eq (daz (VUFPCR E k) f) 0 then (f, v\<lparr>macflag := (m AND NOT (push_bit shift 0x1100)) OR push_bit shift 0x0001\<rparr>)
         else if exp = 0 then (s, v\<lparr>macflag := (m AND NOT (push_bit shift 0x1000)) OR push_bit shift 0x0101\<rparr>)
         else if exp = 255 then
           (if vuOverflow E k then s OR 0x7f7fffff else f, v\<lparr>macflag := (m AND NOT (push_bit shift 0x0101)) OR push_bit shift 0x1000\<rparr>)
         else (f, v\<lparr>macflag := m AND NOT (push_bit shift 0x1101)\<rparr>))"

definition VU_MAC_CLEAR :: "nat \<Rightarrow> VURegs \<Rightarrow> VURegs" where
  "VU_MAC_CLEAR shift v = v\<lparr>macflag := macflag v AND NOT (push_bit shift 0x1111)\<rparr>"

definition VU_STAT_UPDATE :: "VURegs \<Rightarrow> VURegs" where
  "VU_STAT_UPDATE v =
     (let newflag = (if macflag v AND 0x000F \<noteq> 0 then 0x1 else 0);
          newflag = (if macflag v AND 0x00F0 \<noteq> 0 then newflag OR 0x2 else newflag);
          newflag = (if macflag v AND 0x0F00 \<noteq> 0 then newflag OR 0x4 else newflag);
          newflag = (if macflag v AND 0xF000 \<noteq> 0 then newflag OR 0x8 else newflag)
      in v\<lparr>statusflag := newflag\<rparr>)"

end
