(* ===== verification/VU_Pipes.thy ===== *)
theory VU_Pipes
  imports VU_State
begin

text \<open>
  The pipelines of the vector units' interpreter (\<^verbatim>\<open>pcsx2/VUops.cpp\<close>): instructions enter a pipeline
  with the cycle at which they started and their latency; flags and the results of divisions become
  visible when the latency is over, and an instruction that reads a register still in a pipeline
  waits. Rings hold the last four floating-point and integer entries.
\<close>

section \<open>Results that become visible\<close>

definition fm_done :: "u64 \<Rightarrow> fmacPipe \<Rightarrow> bool" where
  "fm_done now p \<longleftrightarrow> \<not> now - fmSCycle p < ucast (fmCycle p)"

definition ia_done :: "u64 \<Rightarrow> ialuPipe \<Rightarrow> bool" where
  "ia_done now p \<longleftrightarrow> \<not> now - iaSCycle p < ucast (iaCycle p)"

definition fd_done :: "u64 \<Rightarrow> fdivPipe \<Rightarrow> bool" where
  "fd_done now p \<longleftrightarrow> \<not> now - fdSCycle p < ucast (fdCycle p)"

definition ef_done :: "u64 \<Rightarrow> efuPipe \<Rightarrow> bool" where
  "ef_done now p \<longleftrightarrow> \<not> now - efSCycle p < ucast (efCycle p)"

text \<open>The flags of an entry go to the registers, and the entry is dropped.\<close>

definition fmac_flags :: "fmacPipe \<Rightarrow> (5 word \<Rightarrow> u32) \<Rightarrow> (5 word \<Rightarrow> u32)" where
  "fmac_flags p r =
     (let r = (if fmFlagreg p AND BIT_CLIP \<noteq> 0 then r(REG_CLIP_FLAG := fmClipflag p) else r);
          st = r REG_STATUS_FLAG;
          st = (if fmFlagreg p AND BIT_STATUS \<noteq> 0
                then (st AND 0x30) OR (fmStatusflag p AND 0xFC0) OR (fmStatusflag p AND 0xF)
                else (st AND 0xFF0) OR (fmStatusflag p AND 0xF) OR push_bit 6 (fmStatusflag p AND 0xF))
      in r(REG_STATUS_FLAG := st, REG_MAC_FLAG := fmMacflag p))"

definition fmac_retire :: "VURegs \<Rightarrow> VURegs" where
  "fmac_retire v =
     v\<lparr>VI := fmac_flags (fmac v (fmacreadpos v)) (VI v), fmacreadpos := fmacreadpos v + 1, fmaccount := fmaccount v - 1\<rparr>"

definition ialu_retire :: "VURegs \<Rightarrow> VURegs" where
  "ialu_retire v = v\<lparr>ialureadpos := ialureadpos v + 1, ialucount := ialucount v - 1\<rparr>"

definition fdiv_retire :: "VURegs \<Rightarrow> VURegs" where
  "fdiv_retire v =
     v\<lparr>fdiv := (fdiv v)\<lparr>fdEnable := False\<rparr>,
       VI := (VI v)(REG_Q := fdReg (fdiv v),
                    REG_STATUS_FLAG := (VI v REG_STATUS_FLAG AND 0xFCF) OR (fdStatusflag (fdiv v) AND 0xC30))\<rparr>"

definition efu_retire :: "VURegs \<Rightarrow> VURegs" where
  "efu_retire v = v\<lparr>efu := (efu v)\<lparr>efEnable := False\<rparr>, VI := (VI v)(REG_P := efReg (efu v))\<rparr>"

lemma count_down:
  fixes n :: u32
  assumes "0 < n"
  shows "unat (n - 1) < unat n"
proof -
  have "n \<noteq> 0" and "0 < unat n" using assms by (auto simp: word_less_nat_alt)
  then show ?thesis by (simp add: unat_minus_one)
qed

function vuFMACflush_loop :: "bool \<Rightarrow> VURegs \<Rightarrow> bool \<times> VURegs" where
  "vuFMACflush_loop didflush v =
     (if fmaccount v = 0 \<or> \<not> fm_done (vcycle v) (fmac v (fmacreadpos v)) then (didflush, v)
      else vuFMACflush_loop True (fmac_retire v))"
  by pat_completeness auto
termination
  by (relation "measure (\<lambda>(d, v). unat (fmaccount v))") (auto simp: fmac_retire_def word_neq_0_conv intro: count_down)

definition vuFMACflush :: "VURegs \<Rightarrow> bool \<times> VURegs" where
  "vuFMACflush v = vuFMACflush_loop False v"

function vuIALUflush_loop :: "bool \<Rightarrow> VURegs \<Rightarrow> bool \<times> VURegs" where
  "vuIALUflush_loop didflush v =
     (if ialucount v = 0 \<or> \<not> ia_done (vcycle v) (ialu v (ialureadpos v)) then (didflush, v)
      else vuIALUflush_loop True (ialu_retire v))"
  by pat_completeness auto
termination
  by (relation "measure (\<lambda>(d, v). unat (ialucount v))") (auto simp: ialu_retire_def word_neq_0_conv intro: count_down)

definition vuIALUflush :: "VURegs \<Rightarrow> bool \<times> VURegs" where
  "vuIALUflush v = vuIALUflush_loop False v"

definition vuFDIVflush :: "VURegs \<Rightarrow> bool \<times> VURegs" where
  "vuFDIVflush v = (if \<not> fdEnable (fdiv v) then (False, v) else if fd_done (vcycle v) (fdiv v) then (True, fdiv_retire v) else (False, v))"

definition vuEFUflush :: "VURegs \<Rightarrow> bool \<times> VURegs" where
  "vuEFUflush v = (if \<not> efEnable (efu v) then (False, v) else if ef_done (vcycle v) (efu v) then (True, efu_retire v) else (False, v))"

declare vuFMACflush_loop.simps [simp del] vuIALUflush_loop.simps [simp del]


text \<open>The number of entries in flight, which every retirement lowers.\<close>

definition in_flight :: "VURegs \<Rightarrow> nat" where
  "in_flight v = unat (fmaccount v) + unat (ialucount v) + (if fdEnable (fdiv v) then 1 else 0) + (if efEnable (efu v) then 1 else 0)"

lemma fmac_retire_in_flight: "fmaccount v \<noteq> 0 \<Longrightarrow> in_flight (fmac_retire v) < in_flight v"
  using count_down [of "fmaccount v"] by (simp add: in_flight_def fmac_retire_def word_neq_0_conv)

lemma ialu_retire_in_flight: "ialucount v \<noteq> 0 \<Longrightarrow> in_flight (ialu_retire v) < in_flight v"
  using count_down [of "ialucount v"] by (simp add: in_flight_def ialu_retire_def word_neq_0_conv)

lemma vuFMACflush_in_flight:
  "vuFMACflush_loop d v = (d', v') \<Longrightarrow> in_flight v' \<le> in_flight v \<and> (d' \<and> \<not> d \<longrightarrow> in_flight v' < in_flight v)"
proof (induction d v arbitrary: d' v' rule: vuFMACflush_loop.induct)
  case (1 d v)
  show ?case
  proof (cases "fmaccount v = 0 \<or> \<not> fm_done (vcycle v) (fmac v (fmacreadpos v))")
    case True
    then show ?thesis using "1.prems" by (subst (asm) vuFMACflush_loop.simps) simp
  next
    case False
    then have "vuFMACflush_loop True (fmac_retire v) = (d', v')" using "1.prems" by (subst (asm) vuFMACflush_loop.simps) simp
    with "1.IH" [OF False] fmac_retire_in_flight [of v] False show ?thesis by force
  qed
qed

lemma vuIALUflush_in_flight:
  "vuIALUflush_loop d v = (d', v') \<Longrightarrow> in_flight v' \<le> in_flight v \<and> (d' \<and> \<not> d \<longrightarrow> in_flight v' < in_flight v)"
proof (induction d v arbitrary: d' v' rule: vuIALUflush_loop.induct)
  case (1 d v)
  show ?case
  proof (cases "ialucount v = 0 \<or> \<not> ia_done (vcycle v) (ialu v (ialureadpos v))")
    case True
    then show ?thesis using "1.prems" by (subst (asm) vuIALUflush_loop.simps) simp
  next
    case False
    then have "vuIALUflush_loop True (ialu_retire v) = (d', v')" using "1.prems" by (subst (asm) vuIALUflush_loop.simps) simp
    with "1.IH" [OF False] ialu_retire_in_flight [of v] False show ?thesis by force
  qed
qed

lemma vuFDIVflush_in_flight:
  "vuFDIVflush v = (d, v') \<Longrightarrow> in_flight v' \<le> in_flight v \<and> (d \<longrightarrow> in_flight v' < in_flight v)"
  by (auto simp: vuFDIVflush_def fdiv_retire_def in_flight_def split: if_splits)

lemma vuEFUflush_in_flight:
  "vuEFUflush v = (d, v') \<Longrightarrow> in_flight v' \<le> in_flight v \<and> (d \<longrightarrow> in_flight v' < in_flight v)"
  by (auto simp: vuEFUflush_def efu_retire_def in_flight_def split: if_splits)

text \<open>One round over the pipelines, repeated until nothing more becomes visible.\<close>

definition vuTestPipes_round :: "VURegs \<Rightarrow> bool \<times> VURegs" where
  "vuTestPipes_round v =
     (case vuFMACflush v of (f1, v) \<Rightarrow>
      case vuFDIVflush v of (f2, v) \<Rightarrow>
      case vuEFUflush v of (f3, v) \<Rightarrow>
      case vuIALUflush v of (f4, v) \<Rightarrow> (f1 \<or> f2 \<or> f3 \<or> f4, v))"

lemma vuTestPipes_round_in_flight:
  assumes "vuTestPipes_round v = (True, v')"
  shows "in_flight v' < in_flight v"
proof -
  obtain f1 v1 f2 v2 f3 v3 f4 where r: "vuFMACflush v = (f1, v1)" "vuFDIVflush v1 = (f2, v2)" "vuEFUflush v2 = (f3, v3)"
    "vuIALUflush v3 = (f4, v')" "f1 \<or> f2 \<or> f3 \<or> f4"
    using assms by (auto simp: vuTestPipes_round_def split: prod.splits)
  show ?thesis
    using vuFMACflush_in_flight [OF r(1) [unfolded vuFMACflush_def]] vuFDIVflush_in_flight [OF r(2)]
      vuEFUflush_in_flight [OF r(3)] vuIALUflush_in_flight [OF r(4) [unfolded vuIALUflush_def]] r(5) by auto
qed

function vuTestPipes_loop :: "VURegs \<Rightarrow> VURegs" where
  "vuTestPipes_loop v = (case vuTestPipes_round v of (flushed, v') \<Rightarrow> if flushed then vuTestPipes_loop v' else v')"
  by pat_completeness auto
termination
  by (relation "measure in_flight") (auto intro: vuTestPipes_round_in_flight dest: sym)

declare vuTestPipes_loop.simps [simp del]

text \<open>At the end of a program everything becomes visible, and the cycle moves on to the last result.\<close>

definition wait_until :: "u64 \<Rightarrow> u32 \<Rightarrow> VURegs \<Rightarrow> VURegs" where
  "wait_until st n v = (if vcycle v - st < ucast n then v\<lparr>vcycle := st + ucast n\<rparr> else v)"

function vuFMACfinish :: "VURegs \<Rightarrow> VURegs" where
  "vuFMACfinish v =
     (if fmaccount v = 0 then v
      else vuFMACfinish (let p = fmac v (fmacreadpos v) in wait_until (fmSCycle p) (fmCycle p) (fmac_retire v)))"
  by pat_completeness auto
termination
  by (relation "measure (\<lambda>v. unat (fmaccount v))")
    (auto simp: fmac_retire_def wait_until_def Let_def word_neq_0_conv intro: count_down)

function vuIALUfinish :: "VURegs \<Rightarrow> VURegs" where
  "vuIALUfinish v =
     (if ialucount v = 0 then v
      else vuIALUfinish (let p = ialu v (ialureadpos v) in wait_until (iaSCycle p) (iaCycle p) (ialu_retire v)))"
  by pat_completeness auto
termination
  by (relation "measure (\<lambda>v. unat (ialucount v))")
    (auto simp: ialu_retire_def wait_until_def Let_def word_neq_0_conv intro: count_down)

declare vuFMACfinish.simps [simp del] vuIALUfinish.simps [simp del]

definition vuFlushAll :: "VURegs \<Rightarrow> VURegs" where
  "vuFlushAll v =
     (let v = (if fdEnable (fdiv v) then wait_until (fdSCycle (fdiv v)) (fdCycle (fdiv v)) (fdiv_retire v) else v);
          v = (if efEnable (efu v) then wait_until (efSCycle (efu v)) (efCycle (efu v)) (efu_retire v) else v)
      in vuIALUfinish (vuFMACfinish v))"

section \<open>Stalls\<close>

text \<open>Wait for an unfinished entry: the later of now and its completion.\<close>

definition stall_for :: "u64 \<Rightarrow> u32 \<Rightarrow> VURegs \<Rightarrow> VURegs" where
  "stall_for st n v = (let newCycle = ucast n + st in if vcycle v < newCycle then v\<lparr>vcycle := newCycle\<rparr> else v)"

definition fmac_match :: "u32 \<Rightarrow> u32 \<Rightarrow> fmacPipe \<Rightarrow> bool" where
  "fmac_match reg xyzw p \<longleftrightarrow>
     fmRegupper p = reg \<and> fmXyzwupper p AND xyzw \<noteq> 0 \<or> fmReglower p = reg \<and> fmXyzwlower p AND xyzw \<noteq> 0"

definition vuFMACTestStall :: "u32 \<Rightarrow> u32 \<Rightarrow> VURegs \<Rightarrow> VURegs" where
  "vuFMACTestStall reg xyzw v =
     fold (\<lambda>i v. let p = fmac v (fmacreadpos v + of_nat i) in
             if fm_done (vcycle v) p then v
             else if fmac_match reg xyzw p then stall_for (fmSCycle p) (fmCycle p) v else v)
       [0..<unat (fmaccount v)] v"

definition vuTestFMACStalls :: "VURegsNum \<Rightarrow> VURegs \<Rightarrow> VURegs" where
  "vuTestFMACStalls n v =
     (let v = (if VFread0 n \<noteq> 0 then vuFMACTestStall (VFread0 n) (VFr0xyzw n) v else v)
      in if VFread1 n \<noteq> 0 then vuFMACTestStall (VFread1 n) (VFr1xyzw n) v else v)"

definition vuTestFDIVStalls :: "VURegsNum \<Rightarrow> VURegs \<Rightarrow> VURegs" where
  "vuTestFDIVStalls n v =
     (let v = vuTestFMACStalls n v
      in if fdEnable (fdiv v) then stall_for (fdSCycle (fdiv v)) (fdCycle (fdiv v)) v else v)"

definition vuTestEFUStalls :: "VURegsNum \<Rightarrow> VURegs \<Rightarrow> VURegs" where
  "vuTestEFUStalls n v =
     (let v = vuTestFMACStalls n v
      in if \<not> efEnable (efu v) then v
         else let v = v\<lparr>efu := (efu v)\<lparr>efCycle := efCycle (efu v) - 1\<rparr>\<rparr>
              in stall_for (efSCycle (efu v)) (efCycle (efu v)) v)"

definition vuTestALUStalls :: "VURegsNum \<Rightarrow> VURegs \<Rightarrow> VURegs" where
  "vuTestALUStalls n v =
     fold (\<lambda>i v. let p = ialu v (ialureadpos v + of_nat i) in
             if ia_done (vcycle v) p then v
             else if iaReg p AND VIread n \<noteq> 0 then stall_for (iaSCycle p) (iaCycle p) v else v)
       [0..<unat (ialucount v)] v"

definition vuTestUpperStalls :: "VURegsNum \<Rightarrow> VURegs \<Rightarrow> VURegs" where
  "vuTestUpperStalls n v = (case pipe n of VUPIPE_FMAC \<Rightarrow> vuTestFMACStalls n v | _ \<Rightarrow> v)"

definition vuTestLowerStalls :: "VURegsNum \<Rightarrow> VURegs \<Rightarrow> VURegs" where
  "vuTestLowerStalls n v =
     (case pipe n of
        VUPIPE_FMAC \<Rightarrow> vuTestFMACStalls n v
      | VUPIPE_FDIV \<Rightarrow> vuTestFDIVStalls n v
      | VUPIPE_EFU \<Rightarrow> vuTestEFUStalls n v
      | VUPIPE_BRANCH \<Rightarrow> vuTestALUStalls n v
      | _ \<Rightarrow> v)"

section \<open>Entering a pipeline\<close>

definition fmac_zero :: fmacPipe where
  "fmac_zero = \<lparr>fmRegupper = 0, fmReglower = 0, fmFlagreg = 0, fmXyzwupper = 0, fmXyzwlower = 0, fmSCycle = 0, fmCycle = 0,
     fmMacflag = 0, fmStatusflag = 0, fmClipflag = 0\<rparr>"

definition vuClearFMAC :: "VURegs \<Rightarrow> VURegs" where
  "vuClearFMAC v = v\<lparr>fmac := (fmac v)(fmacwritepos v := fmac_zero), fmaccount := fmaccount v + 1\<rparr>"

definition vuAddFMACStalls :: "VURegsNum \<Rightarrow> bool \<Rightarrow> VURegs \<Rightarrow> VURegs" where
  "vuAddFMACStalls n isUpper v =
     (let p = (fmac v (fmacwritepos v))\<lparr>fmSCycle := vcycle v, fmCycle := 4\<rparr>;
          p = (if isUpper then p\<lparr>fmRegupper := VFwrite n, fmXyzwupper := VFwxyzw n, fmFlagreg := VIwrite n\<rparr>
               else p\<lparr>fmReglower := VFwrite n, fmXyzwlower := VFwxyzw n, fmFlagreg := fmFlagreg p OR VIwrite n\<rparr>);
          p = p\<lparr>fmMacflag := macflag v, fmStatusflag := statusflag v, fmClipflag := clipflag v\<rparr>
      in v\<lparr>fmac := (fmac v)(fmacwritepos v := p)\<rparr>)"

definition vuFDIVAdd :: "u32 \<Rightarrow> VURegs \<Rightarrow> VURegs" where
  "vuFDIVAdd n v = v\<lparr>fdiv := \<lparr>fdEnable = True, fdReg = vq v, fdSCycle = vcycle v, fdCycle = n, fdStatusflag = statusflag v\<rparr>\<rparr>"

definition vuEFUAdd :: "u32 \<Rightarrow> VURegs \<Rightarrow> VURegs" where
  "vuEFUAdd n v = v\<lparr>efu := \<lparr>efEnable = True, efReg = vp v, efSCycle = vcycle v, efCycle = n\<rparr>\<rparr>"

definition vuAddIALUStalls :: "VURegsNum \<Rightarrow> VURegs \<Rightarrow> VURegs" where
  "vuAddIALUStalls n v =
     (if cycles n = 0 then v
      else v\<lparr>ialu := (ialu v)(ialuwritepos v := \<lparr>iaReg = VIwrite n, iaSCycle = vcycle v, iaCycle = cycles n\<rparr>),
             ialuwritepos := ialuwritepos v + 1, ialucount := ialucount v + 1\<rparr>)"

definition vuAddFDIVStalls :: "VURegsNum \<Rightarrow> VURegs \<Rightarrow> VURegs" where
  "vuAddFDIVStalls n v = (if VIwrite n AND BIT_Q \<noteq> 0 then vuFDIVAdd (cycles n) v else v)"

definition vuAddEFUStalls :: "VURegsNum \<Rightarrow> VURegs \<Rightarrow> VURegs" where
  "vuAddEFUStalls n v = (if VIwrite n AND BIT_P \<noteq> 0 then vuEFUAdd (cycles n) v else v)"

definition vuAddUpperStalls :: "VURegsNum \<Rightarrow> VURegs \<Rightarrow> VURegs" where
  "vuAddUpperStalls n v = (case pipe n of VUPIPE_FMAC \<Rightarrow> vuAddFMACStalls n True v | _ \<Rightarrow> v)"

definition vuAddLowerStalls :: "VURegsNum \<Rightarrow> VURegs \<Rightarrow> VURegs" where
  "vuAddLowerStalls n v =
     (case pipe n of
        VUPIPE_FMAC \<Rightarrow> vuAddFMACStalls n False v
      | VUPIPE_FDIV \<Rightarrow> vuAddFDIVStalls n v
      | VUPIPE_EFU \<Rightarrow> vuAddEFUStalls n v
      | VUPIPE_IALU \<Rightarrow> vuAddIALUStalls n v
      | _ \<Rightarrow> v)"

text \<open>Branches read the value an integer register had before the last two cycles.\<close>

definition vuBackupVI :: "5 word \<Rightarrow> VURegs \<Rightarrow> VURegs" where
  "vuBackupVI reg v =
     (if VIBackupCycles v \<noteq> 0 \<and> ucast reg = VIRegNumber v then v\<lparr>VIBackupCycles := 2\<rparr>
      else v\<lparr>VIBackupCycles := 2, VIRegNumber := ucast reg, VIOldValue := ucast (VIus reg v)\<rparr>)"

end
