(* ===== verification/VU_XGKick.thy ===== *)
theory VU_XGKick
  imports VU_Pipes
begin

text \<open>
  The transfer of a packet from the memory of unit 1 to the graphics interface, started by \<^verbatim>\<open>XGKICK\<close>
  (\<^verbatim>\<open>pcsx2/VUops.cpp\<close>, \<^verbatim>\<open>pcsx2/Gif_Unit.h\<close>). It runs beside the program, two cycles a quadword, or is flushed
  at once. The loop of the code need not end: for a packet whose size is not a number of quadwords it moves
  nothing, for ever. It is a partial function here, and the lemmas show that it returns for every transfer
  that the unit's own instructions set up.
\<close>

section \<open>Packets\<close>

text \<open>A tag is the quadword at the start of a packet: the number of loops, whether the packet ends
  here, the format, and the number of registers of a loop.\<close>

definition tag_NLOOP :: "VECTOR \<Rightarrow> u32" where "tag_NLOOP t = t 0 AND 0x7FFF"
definition tag_EOP :: "VECTOR \<Rightarrow> bool" where "tag_EOP t = bit (t 0) 15"
definition tag_FLG :: "VECTOR \<Rightarrow> u32" where "tag_FLG t = drop_bit 26 (t 1) AND 3"
definition tag_NREG :: "VECTOR \<Rightarrow> u32" where "tag_NREG t = drop_bit 28 (t 1) AND 0xF"

definition gif_len :: "VECTOR \<Rightarrow> u32" where
  "gif_len t =
     (let nRegs = ((tag_NREG t - 1) AND 0xf) + 1 in
      if tag_FLG t = 0 then nRegs * tag_NLOOP t * 16
      else if tag_FLG t = 1 then drop_bit 1 (nRegs * tag_NLOOP t + 1) * 16
      else tag_NLOOP t * 16)"

lemma unat_and_le: "unat (x AND y :: u32) \<le> unat y"
  using word_and_le1 [of x y] word_and_le2 [of x y] by (simp add: word_le_nat_alt)

lemma small_mult:
  fixes a b :: u32
  assumes "unat a \<le> m" "unat b \<le> n" "m * n < 2 ^ 32"
  shows "unat (a * b) \<le> m * n"
  using assms by (simp add: unat_word_ariths mult_mono le_trans [OF mod_less_eq_dividend])

lemma tag_nregs: "unat (((tag_NREG t - 1) AND 0xf) + 1) \<le> 16"
proof -
  have "unat ((tag_NREG t - 1) AND 0xf) \<le> 15" using unat_and_le [of "tag_NREG t - 1" "0xf"] by simp
  then show ?thesis by (simp add: unat_word_ariths le_trans [OF mod_less_eq_dividend])
qed

lemma gif_len_bound: "unat (gif_len t) < 2 ^ 24"
proof -
  have n: "unat (tag_NLOOP t) \<le> 32767" using unat_and_le [of "t 0" "0x7FFF"] by (simp add: tag_NLOOP_def)
  let ?p = "(((tag_NREG t - 1) AND 0xf) + 1) * tag_NLOOP t"
  have p: "unat ?p \<le> 16 * 32767" by (rule small_mult [OF tag_nregs n]) simp
  have 1: "unat (?p * 16) \<le> (16 * 32767) * 16" by (rule small_mult [OF p]) simp_all
  have q: "unat (drop_bit 1 (?p + 1)) \<le> 262136"
    using p by (simp add: unat_drop_bit_eq drop_bit_eq_div unat_word_ariths)
  have 2: "unat (drop_bit 1 (?p + 1) * 16) \<le> 262136 * 16" by (rule small_mult [OF q]) simp_all
  have 3: "unat (tag_NLOOP t * 16) \<le> 32767 * 16" by (rule small_mult [OF n]) simp_all
  from 1 2 3 show ?thesis by (simp add: gif_len_def Let_def)
qed

text \<open>Sizes are numbers of quadwords.\<close>

definition quads :: "u32 \<Rightarrow> bool" where "quads n \<longleftrightarrow> n AND 0xF = 0"

lemma quads_dvd: "quads n \<longleftrightarrow> 16 dvd unat n"
proof -
  have "n AND 0xF = take_bit 4 n" by (simp add: take_bit_eq_mask mask_eq_decr_exp)
  moreover have "unat (take_bit 4 n) = unat n mod 16" by (simp only: unsigned_take_bit_eq) (simp add: take_bit_eq_mod)
  ultimately show ?thesis by (simp add: quads_def dvd_eq_mod_eq_0 unat_eq_zero [symmetric])
qed

lemma quads_arith:
  assumes "quads a" "quads b"
  shows "quads (a + b)" "quads (a - b)"
proof -
  have 16: "(16::nat) dvd 2 ^ 32" by simp
  show "quads (a + b)"
    using assms 16 by (simp add: quads_dvd unat_word_ariths dvd_mod)
  show "quads (a - b)"
    using assms 16 by (simp add: quads_dvd unat_sub_if' dvd_diff_nat)
qed

lemma quads_and: "quads a \<Longrightarrow> quads (a AND m)"
proof -
  have "(a AND m) AND 0xF = (a AND 0xF) AND m" by (simp only: ac_simps)
  then show "quads a \<Longrightarrow> quads (a AND m)" by (simp add: quads_def)
qed

lemma quads_times [simp]: "quads (n * 16)"
proof -
  have "16 dvd (unat n * 16) mod 2 ^ 32" by (rule dvd_mod) simp_all
  then show ?thesis by (simp add: quads_dvd unat_word_ariths)
qed

lemma quads_const [simp]: "quads 0" "quads 16" "quads 0x4000"
  by (simp_all add: quads_def)

lemma gif_len_quads: "quads (gif_len t)"
  by (simp add: gif_len_def Let_def)

text \<open>A tag adds at least its own quadword.\<close>

lemma packet_grows:
  fixes c :: u32
  assumes "c < 0x4000"
  shows "unat (c + (16 + gif_len t)) = unat c + 16 + unat (gif_len t)"
proof -
  have c: "unat c < 0x4000" using assms by (simp add: word_less_nat_alt)
  have l: "unat (gif_len t) < 2 ^ 24" by (rule gif_len_bound)
  then have 1: "unat (16 + gif_len t) = 16 + unat (gif_len t)" using unat_add_lem [of 16 "gif_len t"] by simp
  with c l have "unat c + unat (16 + gif_len t) < 2 ^ LENGTH(32)" by simp
  with 1 show ?thesis using unat_add_lem [of c "16 + gif_len t"] by simp
qed

lemma packet_measure:
  fixes c :: u32
  assumes "c + (16 + gif_len t) < 0x4000"
  shows "0x4000 - unat (c + (16 + gif_len t)) < (if c < 0x4000 then 0x4000 - unat c else 0x8000)"
  using assms packet_grows [of c t] by (auto simp: word_less_nat_alt)

text \<open>\<^verbatim>\<open>Gif_Unit::GetGSPacketSize\<close> for path 1: the size of the tag at \<open>offset\<close> with its data, or of everything up to the
  end of the packet. The result has the end mark in its highest bit; a packet that would not fit the
  memory of the unit has size 0.\<close>

definition tag_at :: "VURegs \<Rightarrow> u32 \<Rightarrow> VECTOR" where
  "tag_at v offset = VMem v (unat (offset AND 0x3fff) div 16)"

function GetGSPacketSize :: "'d vu_env \<Rightarrow> bool \<Rightarrow> VURegs \<Rightarrow> u32 \<Rightarrow> u32 \<Rightarrow> u32" where
  "GetGSPacketSize E flush v offset curSize =
     (let t = tag_at v offset; offset' = offset + (16 + gif_len t); curSize' = curSize + (16 + gif_len t)
      in if 0x4000 \<le> curSize' then 0
         else if (flush \<and> tag_EOP t \<or> \<not> flush) \<and> xgkick_by_tag E
         then curSize' OR (if tag_EOP t then 0x80000000 else 0)
         else if tag_EOP t then curSize'
         else GetGSPacketSize E flush v offset' curSize')"
  by pat_completeness auto
termination
  by (relation "measure (\<lambda>(E, f, v, off, c). if c < 0x4000 then 0x4000 - unat c else 0x8000)")
    (simp_all only: wf_measure in_measure prod.case not_le if_True packet_measure)

declare GetGSPacketSize.simps [simp del]

text \<open>The size is a number of quadwords below the size of the memory; sent tag by tag, a flushed packet is complete.\<close>

lemma packet_size:
  "quads curSize \<Longrightarrow> curSize < 0x4000 \<Longrightarrow>
     quads (GetGSPacketSize E flush v offset curSize AND 0xFFFF) \<and> GetGSPacketSize E flush v offset curSize AND 0xFFFF < 0x4000 \<and>
     (flush \<and> xgkick_by_tag E \<and> GetGSPacketSize E flush v offset curSize AND 0xFFFF \<noteq> 0 \<longrightarrow> bit (GetGSPacketSize E flush v offset curSize) 31)"
proof (induction E flush v offset curSize rule: GetGSPacketSize.induct)
  case (1 E flush v offset c)
  define t where "t = tag_at v offset"
  define d where "d = c + (16 + gif_len t)"
  have q: "quads d" using 1(2) gif_len_quads [of t] unfolding d_def by (intro quads_arith) simp_all
  have low: "(x OR 0x80000000) AND 0xFFFF = x AND 0xFFFF" for x :: u32 by (simp add: and.commute bit.conj_disj_distrib)
  have small: "d AND 0xFFFF < 0x4000" if "d < 0x4000" using that word_and_le2 [of d "0xFFFF"] word_and_le1 [of d "0xFFFF"]
    by (metis le_less_trans word_and_le2 and.commute)
  have qd: "quads (d AND 0xFFFF)" using q by (rule quads_and)
  have b: "bit (x OR 0x80000000 :: u32) 31" for x by (simp add: bit_simps)
  show ?case
  proof (cases "0x4000 \<le> d \<or> (flush \<and> tag_EOP t \<or> \<not> flush) \<and> xgkick_by_tag E \<or> tag_EOP t")
    case True
    then show ?thesis
      using q qd small b
      by (subst (1 2 3 4) GetGSPacketSize.simps) (auto simp: Let_def t_def [symmetric] d_def [symmetric] low not_le)
  next
    case False
    then have n: "\<not> 0x4000 \<le> d" "\<not> ((flush \<and> tag_EOP t \<or> \<not> flush) \<and> xgkick_by_tag E)" "\<not> tag_EOP t" by blast+
    have eq: "GetGSPacketSize E flush v offset c = GetGSPacketSize E flush v (offset + (16 + gif_len t)) d"
      by (subst GetGSPacketSize.simps) (simp only: Let_def t_def [symmetric] d_def [symmetric] if_not_P [OF n(1)] if_not_P [OF n(2)] if_not_P [OF n(3)])
    have "d < 0x4000" using n by simp
    then show ?thesis unfolding eq using 1(1) [OF refl refl refl, folded t_def, folded d_def, OF n q] by blast
  qed
qed

section \<open>The transfer\<close>

text \<open>One round of the loop: read a tag when the last one is sent, then move quadwords, as many as the elapsed
  cycles allow, or all of them.\<close>

definition next_tag :: "'d vu_env \<Rightarrow> bool \<Rightarrow> VURegs \<Rightarrow> VURegs" where
  "next_tag E flush v =
     (if xgkicksizeremaining v = 0
      then let size = GetGSPacketSize E flush v (xgkickaddr v) 0
           in v\<lparr>xgkicksizeremaining := size AND 0xFFFF, xgkickendpacket := bit size 31, xgkickdiff := 0x4000 - xgkickaddr v\<rparr>
      else v)"

definition transfersize :: "bool \<Rightarrow> VURegs \<Rightarrow> u32" where
  "transfersize flush v =
     (let n = xgkicksizeremaining v div 0x10;
          n = (if flush then n else min n (xgkickcyclecount v div 2))
      in min n (xgkickdiff v div 0x10))"

definition kick_send :: "bool \<Rightarrow> u32 \<Rightarrow> VURegs \<Rightarrow> VURegs" where
  "kick_send wait n v =
     (let v = (if wait then v\<lparr>vcycle := vcycle v + ucast (n * 2)\<rparr> else v);
          addr = (xgkickaddr v + n * 0x10) AND 0x3FFF
      in v\<lparr>xgkickcyclecount := xgkickcyclecount v - n * 2, xgkickaddr := addr,
           xgkicksizeremaining := xgkicksizeremaining v - n * 0x10, xgkickdiff := 0x4000 - addr\<rparr>)"

definition xgkick_round :: "'d vu_env \<Rightarrow> bool \<Rightarrow> 'd vus \<Rightarrow> 'd vus" where
  "xgkick_round E flush s =
     (let s = on_vu 1 (next_tag E flush) s; v = vu1 s in
      if xgkicksizeremaining v = 0 then on_vu 1 (\<lambda>v. v\<lparr>xgkickenable := False\<rparr>) s
      else let n = transfersize flush v;
               s = on_dev (TransferGSPacketData E (map (\<lambda>i. VMem v (unat (xgkickaddr v) div 16 + i)) [0..<unat n])) s;
               s = on_vu 1 (kick_send (VI (vu0 s) REG_VPU_STAT AND 0x100 \<noteq> 0 \<and> flush) n) s
           in if xgkicksizeremaining (vu1 s) \<noteq> 0 \<or> \<not> xgkickendpacket (vu1 s) then s
              else let s = on_vu 1 (\<lambda>v. v\<lparr>xgkickenable := False\<rparr>) s;
                       s = on_vu 0 (\<lambda>v. wVI REG_VPU_STAT (VI v REG_VPU_STAT AND NOT 0x1000) v) s
                   in on_dev (vif_gif_idle E) s)"

partial_function (option) xgkick_loop :: "'d vu_env \<Rightarrow> bool \<Rightarrow> 'd vus \<Rightarrow> 'd vus option" where
  "xgkick_loop E flush s =
     (if xgkickenable (vu1 s) \<and> (flush \<or> 2 \<le> xgkickcyclecount (vu1 s)) then xgkick_loop E flush (xgkick_round E flush s)
      else Some s)"

text \<open>The whole function. A transfer that never ends, which \<open>xgkick_loop_beside\<close> and \<open>xgkick_loop_flush\<close> exclude for the states
  that occur, is given the state before it. When the loop is over, a flush has
  switched the transfer off, so the check of the pipelines after it does not come back here.\<close>

definition vuXGKICKTransfer :: "'d vu_env \<Rightarrow> u32 \<Rightarrow> bool \<Rightarrow> 'd vus \<Rightarrow> 'd vus" where
  "vuXGKICKTransfer E n flush s =
     (if \<not> xgkickenable (vu1 s) then s
      else let s = on_vu 1 (\<lambda>v. v\<lparr>xgkickcyclecount := xgkickcyclecount v + n, xgkicklastcycle := xgkicklastcycle v + scast n\<rparr>) s;
               s = (case xgkick_loop E flush s of None \<Rightarrow> s | Some s' \<Rightarrow> s')
           in if flush then on_vu 1 vuTestPipes_loop s else s)"

text \<open>Every check of unit 1's pipelines also goes on with the transfer.\<close>

definition vuTestPipes :: "'d vu_env \<Rightarrow> nat \<Rightarrow> 'd vus \<Rightarrow> 'd vus" where
  "vuTestPipes E k s =
     (let s = on_vu k vuTestPipes_loop s
      in if k \<noteq> 0 \<and> xgkickenable (vu1 s)
         then vuXGKICKTransfer E (ucast (vcycle (vu1 s) - xgkicklastcycle (vu1 s)) - 1) False s else s)"

section \<open>The transfer returns\<close>

text \<open>What \<^verbatim>\<open>XGKICK\<close> sets up and every round keeps: whole quadwords, within the memory.\<close>

definition xgkick_ok :: "VURegs \<Rightarrow> bool" where
  "xgkick_ok v \<longleftrightarrow>
     (xgkickenable v \<longrightarrow>
        quads (xgkickaddr v) \<and> xgkickaddr v < 0x4000 \<and> xgkickdiff v = 0x4000 - xgkickaddr v \<and>
        quads (xgkicksizeremaining v) \<and> xgkicksizeremaining v < 0x4000)"

text \<open>\<open>v'\<close> is \<open>v\<close> after a transfer that took \<open>n\<close> cycles: only the transfer's own registers differ.\<close>

definition no_kick :: "VURegs \<Rightarrow> VURegs" where
  "no_kick v = v\<lparr>vcycle := 0, xgkickaddr := 0, xgkickdiff := 0, xgkicksizeremaining := 0, xgkicklastcycle := 0,
     xgkickcyclecount := 0, xgkickenable := False, xgkickendpacket := False\<rparr>"

definition kicked :: "u64 \<Rightarrow> VURegs \<Rightarrow> VURegs \<Rightarrow> bool" where
  "kicked n v v' \<longleftrightarrow> no_kick v' = no_kick v \<and> vcycle v' = vcycle v + n"

lemma kicked_refl [simp]: "kicked 0 v v"
  by (simp add: kicked_def)

lemma kicked_trans: "kicked m u v \<Longrightarrow> kicked n v w \<Longrightarrow> kicked (m + n) u w"
  by (simp add: kicked_def add.assoc)

lemma next_tag_ok:
  assumes "xgkick_ok v" "xgkickenable v"
  shows "xgkick_ok (next_tag E flush v)" "xgkickenable (next_tag E flush v)" "kicked 0 v (next_tag E flush v)"
    "xgkickcyclecount (next_tag E flush v) = xgkickcyclecount v"
    "flush \<and> xgkick_by_tag E \<and> xgkicksizeremaining v = 0 \<and> xgkicksizeremaining (next_tag E flush v) \<noteq> 0 \<Longrightarrow> xgkickendpacket (next_tag E flush v)"
    "xgkicksizeremaining v \<noteq> 0 \<Longrightarrow> next_tag E flush v = v"
proof -
  note p = packet_size [of 0 E flush v "xgkickaddr v"]
  have z: "quads 0" "(0::u32) < 0x4000" by simp_all
  show "xgkick_ok (next_tag E flush v)" "xgkickenable (next_tag E flush v)" "xgkickcyclecount (next_tag E flush v) = xgkickcyclecount v"
    using assms p [OF z] by (auto simp: next_tag_def xgkick_ok_def Let_def)
  show "xgkicksizeremaining v \<noteq> 0 \<Longrightarrow> next_tag E flush v = v" by (simp add: next_tag_def)
  show "flush \<and> xgkick_by_tag E \<and> xgkicksizeremaining v = 0 \<and> xgkicksizeremaining (next_tag E flush v) \<noteq> 0 \<Longrightarrow> xgkickendpacket (next_tag E flush v)"
    using p [OF z] by (auto simp: next_tag_def Let_def)
  show "kicked 0 v (next_tag E flush v)" by (simp add: kicked_def no_kick_def next_tag_def Let_def)
qed

lemma diff_nat: "a < 0x4000 \<Longrightarrow> unat (0x4000 - a :: u32) = 0x4000 - unat a"
  by (simp add: word_less_nat_alt unat_sub word_le_nat_alt)

lemma transfersize_bounds:
  assumes ok: "xgkick_ok v" "xgkickenable v" and r: "xgkicksizeremaining v \<noteq> 0" and c: "flush \<or> 2 \<le> xgkickcyclecount v"
  shows "0 < unat (transfersize flush v)" "unat (transfersize flush v) * 16 \<le> unat (xgkicksizeremaining v)"
    "unat (transfersize flush v) * 16 \<le> 0x4000 - unat (xgkickaddr v)"
    "\<not> flush \<Longrightarrow> unat (transfersize flush v) * 2 \<le> unat (xgkickcyclecount v)"
proof -
  have o: "16 dvd unat (xgkickaddr v)" "unat (xgkickaddr v) < 0x4000" "unat (xgkickdiff v) = 0x4000 - unat (xgkickaddr v)"
      "16 dvd unat (xgkicksizeremaining v)" "unat (xgkicksizeremaining v) < 0x4000"
    using ok by (simp_all add: xgkick_ok_def quads_dvd diff_nat word_less_nat_alt)
  have r1: "0 < unat (xgkicksizeremaining v)" using r by (simp add: unat_gt_0)
  have d: "16 \<le> unat (xgkickdiff v)" and r': "16 \<le> unat (xgkicksizeremaining v)" using o r1 by (auto simp: dvd_def)
  have c': "flush \<or> 2 \<le> unat (xgkickcyclecount v)" using c by (simp add: word_le_nat_alt)
  have mn: "unat (min a b) = min (unat a) (unat b)" for a b :: u32 by (simp add: min_def word_le_nat_alt)
  have n: "unat (transfersize flush v) =
      min (if flush then unat (xgkicksizeremaining v) div 16 else min (unat (xgkicksizeremaining v) div 16) (unat (xgkickcyclecount v) div 2))
        (unat (xgkickdiff v) div 16)"
    by (simp add: transfersize_def Let_def mn unat_div)
  show "0 < unat (transfersize flush v)" "unat (transfersize flush v) * 16 \<le> unat (xgkicksizeremaining v)"
    "unat (transfersize flush v) * 16 \<le> 0x4000 - unat (xgkickaddr v)"
    "\<not> flush \<Longrightarrow> unat (transfersize flush v) * 2 \<le> unat (xgkickcyclecount v)"
    using d r' c' o(3) unfolding n by auto
qed

lemma send_small:
  fixes n :: u32
  assumes "xgkick_ok v" "xgkickenable v" "unat n * 16 \<le> unat (xgkicksizeremaining v)"
  shows "unat (n * 2) = unat n * 2" "unat (n * 16) = unat n * 16"
proof -
  have "unat (xgkicksizeremaining v) < 0x4000" using assms by (simp add: xgkick_ok_def word_less_nat_alt)
  then show "unat (n * 2) = unat n * 2" "unat (n * 16) = unat n * 16" using assms by (simp_all add: unat_word_ariths)
qed

lemma kick_send_ok:
  assumes ok: "xgkick_ok v" "xgkickenable v" and n: "unat n * 16 \<le> unat (xgkicksizeremaining v)"
  shows "xgkick_ok (kick_send w n v)" "kicked (if w then ucast (n * 2) else 0) v (kick_send w n v)"
    "unat (xgkicksizeremaining (kick_send w n v)) = unat (xgkicksizeremaining v) - unat n * 16"
    "xgkickenable (kick_send w n v)" "xgkickendpacket (kick_send w n v) = xgkickendpacket v"
    "xgkickcyclecount (kick_send w n v) = xgkickcyclecount v - n * 2"
proof -
  have r: "unat (xgkicksizeremaining v) < 0x4000" using ok by (simp add: xgkick_ok_def word_less_nat_alt)
  note n16 = send_small [OF ok n]
  have le: "n * 0x10 \<le> xgkicksizeremaining v" using n by (simp add: word_le_nat_alt n16)
  have sub: "unat (xgkicksizeremaining v - n * 0x10) = unat (xgkicksizeremaining v) - unat n * 16"
    using unat_sub [OF le] by (simp add: n16)
  have m: "x AND 0x3FFF < 0x4000" for x :: u32 using word_and_le1 [of x "0x3FFF"] by (rule le_less_trans) simp
  have q: "quads ((xgkickaddr v + n * 0x10) AND 0x3FFF)"
    using ok by (intro quads_and quads_arith) (simp_all add: xgkick_ok_def)
  show "xgkick_ok (kick_send w n v)"
    using ok q m [of "xgkickaddr v + n * 0x10"] sub r by (simp add: xgkick_ok_def kick_send_def Let_def quads_arith word_less_nat_alt [of _ "0x4000"])
  show "unat (xgkicksizeremaining (kick_send w n v)) = unat (xgkicksizeremaining v) - unat n * 16"
    by (simp add: kick_send_def Let_def sub)
  show "xgkickenable (kick_send w n v)" "xgkickendpacket (kick_send w n v) = xgkickendpacket v"
    "xgkickcyclecount (kick_send w n v) = xgkickcyclecount v - n * 2"
    using ok by (simp_all add: kick_send_def Let_def)
  show "kicked (if w then ucast (n * 2) else 0) v (kick_send w n v)" by (simp add: kicked_def no_kick_def kick_send_def Let_def)
qed

text \<open>The state \<open>s'\<close> after a transfer of \<open>n\<close> cycles from \<open>s\<close>; unit 0 loses at most the busy mark.\<close>

definition transferred :: "u64 \<Rightarrow> 'd vus \<Rightarrow> 'd vus \<Rightarrow> bool" where
  "transferred n s s' \<longleftrightarrow> kicked n (vu1 s) (vu1 s') \<and>
     (\<exists>x. vu0 s' = wVI REG_VPU_STAT x (vu0 s) \<and> x AND 0x100 = VI (vu0 s) REG_VPU_STAT AND 0x100)"

lemma transferred_refl [simp]: "transferred 0 s s"
  unfolding transferred_def by (auto simp: wVI_def intro!: exI [of _ "VI (vu0 s) REG_VPU_STAT"])

lemma transferred_trans: "transferred m s t \<Longrightarrow> transferred n t u \<Longrightarrow> transferred (m + n) s u"
proof -
  assume "transferred m s t" "transferred n t u"
  then obtain x y where k: "kicked m (vu1 s) (vu1 t)" "kicked n (vu1 t) (vu1 u)"
    and x: "vu0 t = wVI REG_VPU_STAT x (vu0 s)" "x AND 0x100 = VI (vu0 s) REG_VPU_STAT AND 0x100"
    and y: "vu0 u = wVI REG_VPU_STAT y (vu0 t)" "y AND 0x100 = VI (vu0 t) REG_VPU_STAT AND 0x100"
    by (auto simp: transferred_def)
  have "vu0 u = wVI REG_VPU_STAT y (vu0 s)" "y AND 0x100 = VI (vu0 s) REG_VPU_STAT AND 0x100"
    using x y by (simp_all add: wVI_def)
  with kicked_trans [OF k] show "transferred (m + n) s u" by (auto simp: transferred_def)
qed

lemma kicked_disable: "kicked n v w \<Longrightarrow> kicked n v (w\<lparr>xgkickenable := False\<rparr>)"
  by (simp add: kicked_def no_kick_def)

lemma kicked_cycle: "kicked n v w \<Longrightarrow> vcycle w = vcycle v + n"
  by (simp add: kicked_def)

text \<open>The bytes that a flush has still to send, at most.\<close>

definition to_send :: "VURegs \<Rightarrow> nat" where
  "to_send v =
     (if \<not> xgkickenable v then 0
      else unat (xgkicksizeremaining v) + (if xgkicksizeremaining v = 0 \<or> \<not> xgkickendpacket v then 0x4000 else 0))"

lemma round_stop:
  assumes "xgkicksizeremaining (next_tag E flush (vu1 s)) = 0"
  shows "xgkick_round E flush s = on_vu 1 (\<lambda>v. (next_tag E flush v)\<lparr>xgkickenable := False\<rparr>) s"
  using assms by (simp add: xgkick_round_def Let_def on_vu_def)

lemma round_send:
  fixes s :: "'d vus" and E :: "'d vu_env" and flush :: bool
  assumes "xgkicksizeremaining (next_tag E flush (vu1 s)) \<noteq> 0"
  defines "w \<equiv> next_tag E flush (vu1 s)"
  defines "z \<equiv> kick_send (VI (vu0 s) REG_VPU_STAT AND 0x100 \<noteq> 0 \<and> flush) (transfersize flush w) w"
  shows "vu1 (xgkick_round E flush s) = (if xgkicksizeremaining z \<noteq> 0 \<or> \<not> xgkickendpacket z then z else z\<lparr>xgkickenable := False\<rparr>)"
    "vu0 (xgkick_round E flush s) = (if xgkicksizeremaining z \<noteq> 0 \<or> \<not> xgkickendpacket z then vu0 s
       else wVI REG_VPU_STAT (VI (vu0 s) REG_VPU_STAT AND NOT 0x1000) (vu0 s))"
  using assms by (simp_all add: xgkick_round_def Let_def on_vu_def on_dev_def)

lemma xgkick_round_ok:
  fixes s :: "'d vus" and E :: "'d vu_env" and flush :: bool
  assumes ok: "xgkick_ok (vu1 s)" "xgkickenable (vu1 s)" and c: "flush \<or> 2 \<le> xgkickcyclecount (vu1 s)"
  defines "s' \<equiv> xgkick_round E flush s"
  shows "xgkick_ok (vu1 s')"
    and "\<exists>m. transferred m s s' \<and> (\<not> flush \<or> VI (vu0 s) REG_VPU_STAT AND 0x100 = 0 \<longrightarrow> m = 0) \<and>
           (flush \<and> xgkick_by_tag E \<longrightarrow> to_send (vu1 s') + unat m * 8 \<le> to_send (vu1 s) \<and> to_send (vu1 s') < to_send (vu1 s))"
    and "\<not> flush \<and> xgkickenable (vu1 s') \<Longrightarrow> unat (xgkickcyclecount (vu1 s')) < unat (xgkickcyclecount (vu1 s))"
proof -
  define w where "w = next_tag E flush (vu1 s)"
  note nt = next_tag_ok [where E = E and flush = flush, OF ok, folded w_def]
  have "xgkick_ok (vu1 s') \<and> (\<exists>m. transferred m s s' \<and> (\<not> flush \<or> VI (vu0 s) REG_VPU_STAT AND 0x100 = 0 \<longrightarrow> m = 0) \<and>
           (flush \<and> xgkick_by_tag E \<longrightarrow> to_send (vu1 s') + unat m * 8 \<le> to_send (vu1 s) \<and> to_send (vu1 s') < to_send (vu1 s))) \<and>
      (\<not> flush \<and> xgkickenable (vu1 s') \<longrightarrow> unat (xgkickcyclecount (vu1 s')) < unat (xgkickcyclecount (vu1 s)))"
  proof (cases "xgkicksizeremaining w = 0")
    case True
    have s': "vu1 s' = w\<lparr>xgkickenable := False\<rparr>" "vu0 s' = vu0 s"
      using round_stop [of E flush s] True by (simp_all add: s'_def w_def on_vu_def)
    have "transferred 0 s s'"
      using kicked_disable [OF nt(3)] by (auto simp: transferred_def s' wVI_def intro!: exI [of _ "VI (vu0 s) REG_VPU_STAT"])
    moreover have "0 < to_send (vu1 s)" using ok by (simp add: to_send_def unat_gt_0)
    ultimately show ?thesis by (auto simp: s' to_send_def xgkick_ok_def)
  next
    case False
    define n where "n = transfersize flush w"
    define stall where "stall \<longleftrightarrow> VI (vu0 s) REG_VPU_STAT AND 0x100 \<noteq> 0 \<and> flush"
    define z where "z = kick_send stall n w"
    have c': "flush \<or> 2 \<le> xgkickcyclecount w" using c nt(4) by simp
    note tb = transfersize_bounds [OF nt(1,2) False c', folded n_def]
    note ks = kick_send_ok [where w = stall, OF nt(1,2) tb(2), folded z_def]
    note sm = send_small [OF nt(1,2) tb(2)]
    note rs = round_send [where E = E and flush = flush and s = s, folded w_def, OF False, folded n_def, folded stall_def, folded z_def, folded s'_def]
    have x: "(x AND NOT 0x1000) AND 0x100 = x AND 0x100" for x :: u32
    proof -
      have "NOT (0x1000::u32) AND 0x100 = 0x100" by simp
      then show ?thesis by (simp only: and.assoc)
    qed
    have v1: "vu1 s' = z \<or> vu1 s' = z\<lparr>xgkickenable := False\<rparr>" using rs(1) by simp
    let ?m = "if stall then ucast (n * 2) else 0 :: u64"
    have "kicked (0 + ?m) (vu1 s) z" by (rule kicked_trans [OF nt(3) ks(2)])
    then have "kicked ?m (vu1 s) (vu1 s')" using v1 kicked_disable by auto
    moreover have "\<exists>x. vu0 s' = wVI REG_VPU_STAT x (vu0 s) \<and> x AND 0x100 = VI (vu0 s) REG_VPU_STAT AND 0x100"
      using rs(2) x [of "VI (vu0 s) REG_VPU_STAT"]
      by (cases "xgkicksizeremaining z \<noteq> 0 \<or> \<not> xgkickendpacket z") (auto simp: wVI_def intro: exI [of _ "VI (vu0 s) REG_VPU_STAT"])
    ultimately have t: "transferred ?m s s'" by (simp add: transferred_def)
    have m: "unat ?m * 8 \<le> unat n * 16"
      using sm take_bit_nat_less_eq_self [of 64 "unat n * 2"] by (simp add: unsigned_ucast_eq mult.commute)
    have f: "to_send (vu1 s') + unat n * 16 \<le> to_send (vu1 s)" if "flush" "xgkick_by_tag E"
    proof (cases "xgkicksizeremaining (vu1 s) = 0")
      case True
      then have e: "xgkickendpacket z" using nt(5) that False ks(5) by simp
      have "unat (xgkicksizeremaining w) < 0x4000" using nt(1,2) by (simp add: xgkick_ok_def word_less_nat_alt)
      with True e ok ks(3,4) tb(2) show ?thesis by (auto simp: to_send_def rs(1))
    next
      case nz: False
      then have "w = vu1 s" using nt(6) by simp
      with nz ok ks(3,4,5) tb(2) show ?thesis by (auto simp: to_send_def rs(1) unat_eq_zero)
    qed
    have cc: "unat (xgkickcyclecount z) < unat (xgkickcyclecount (vu1 s))" if "\<not> flush"
    proof -
      have "n * 2 \<le> xgkickcyclecount w" using tb(4) [OF that] sm(1) by (simp add: word_le_nat_alt)
      then have "unat (xgkickcyclecount w - n * 2) = unat (xgkickcyclecount w) - unat n * 2" using unat_sub sm(1) by metis
      then show ?thesis using tb(1) tb(4) [OF that] ks(6) nt(4) by simp
    qed
    have "xgkick_ok (vu1 s')" using v1 ks(1) by (auto simp: xgkick_ok_def)
    moreover have "\<not> flush \<or> VI (vu0 s) REG_VPU_STAT AND 0x100 = 0 \<longrightarrow> ?m = 0" by (simp add: stall_def)
    moreover have "xgkickcyclecount (vu1 s') = xgkickcyclecount z" using v1 by auto
    ultimately show ?thesis using t m f cc tb(1) by fastforce
  qed
  then show "xgkick_ok (vu1 s')"
    and "\<exists>m. transferred m s s' \<and> (\<not> flush \<or> VI (vu0 s) REG_VPU_STAT AND 0x100 = 0 \<longrightarrow> m = 0) \<and>
           (flush \<and> xgkick_by_tag E \<longrightarrow> to_send (vu1 s') + unat m * 8 \<le> to_send (vu1 s) \<and> to_send (vu1 s') < to_send (vu1 s))"
    and "\<not> flush \<and> xgkickenable (vu1 s') \<Longrightarrow> unat (xgkickcyclecount (vu1 s')) < unat (xgkickcyclecount (vu1 s))"
    by blast+
qed

text \<open>Beside the program the transfer returns without taking a cycle.\<close>

lemma xgkick_loop_beside:
  assumes "xgkick_ok (vu1 s)"
  shows "\<exists>s'. xgkick_loop E False s = Some s' \<and> xgkick_ok (vu1 s') \<and> transferred 0 s s'"
  using assms
proof (induction "unat (xgkickcyclecount (vu1 s))" arbitrary: s rule: less_induct)
  case less
  let ?s = "xgkick_round E False s"
  show ?case
  proof (cases "xgkickenable (vu1 s) \<and> 2 \<le> xgkickcyclecount (vu1 s)")
    case True
    then have c: "xgkickenable (vu1 s)" "False \<or> 2 \<le> xgkickcyclecount (vu1 s)" by simp_all
    note r = xgkick_round_ok [where E = E, OF less.prems c]
    have t: "transferred 0 s ?s" using r(2) by auto
    have "\<exists>s'. xgkick_loop E False ?s = Some s' \<and> xgkick_ok (vu1 s') \<and> transferred 0 ?s s'"
    proof (cases "xgkickenable (vu1 ?s)")
      case True
      show ?thesis by (rule less.hyps [OF _ r(1)]) (rule r(3), simp add: True)
    next
      case False
      then show ?thesis using r(1) by (subst xgkick_loop.simps) simp
    qed
    with True t show ?thesis using transferred_trans [OF t] by (subst xgkick_loop.simps) fastforce
  next
    case False
    then show ?thesis using less.prems by (subst xgkick_loop.simps) auto
  qed
qed

text \<open>A flush sends the rest of a tag and at most one packet more. The cycles it takes are bounded by their size.\<close>

lemma xgkick_loop_flush:
  assumes "xgkick_ok (vu1 s)" "xgkick_by_tag E"
  shows "\<exists>s' m. xgkick_loop E True s = Some s' \<and> \<not> xgkickenable (vu1 s') \<and> transferred m s s' \<and>
    unat m * 8 \<le> to_send (vu1 s) \<and> (VI (vu0 s) REG_VPU_STAT AND 0x100 = 0 \<longrightarrow> m = 0)"
  using assms(1)
proof (induction "to_send (vu1 s)" arbitrary: s rule: less_induct)
  case less
  let ?s = "xgkick_round E True s"
  show ?case
  proof (cases "xgkickenable (vu1 s)")
    case True
    note r = xgkick_round_ok [where E = E and flush = True, OF less.prems True, simplified]
    from r(2) assms(2) obtain m where t: "transferred m s ?s" "VI (vu0 s) REG_VPU_STAT AND 0x100 = 0 \<longrightarrow> m = 0"
      and m: "to_send (vu1 ?s) + unat m * 8 \<le> to_send (vu1 s)" "to_send (vu1 ?s) < to_send (vu1 s)" by auto
    from less.hyps [OF m(2) r(1)] obtain s' n where n: "xgkick_loop E True ?s = Some s'" "\<not> xgkickenable (vu1 s')"
      "transferred n ?s s'" "unat n * 8 \<le> to_send (vu1 ?s)" "VI (vu0 ?s) REG_VPU_STAT AND 0x100 = 0 \<longrightarrow> n = 0" by blast
    have b: "VI (vu0 ?s) REG_VPU_STAT AND 0x100 = VI (vu0 s) REG_VPU_STAT AND 0x100"
      using t(1) by (auto simp: transferred_def wVI_def)
    have "unat (m + n) \<le> unat m + unat n" by (simp add: unat_word_ariths mod_less_eq_dividend)
    then have "unat (m + n) * 8 \<le> to_send (vu1 s)" using n(4) m(1) by linarith
    moreover have "xgkick_loop E True s = Some s'" using True n(1) by (subst xgkick_loop.simps) simp
    ultimately show ?thesis using transferred_trans [OF t(1) n(3)] n(2,5) t(2) b by (intro exI [of _ s'] exI [of _ "m + n"]) simp
  next
    case False
    then show ?thesis by (subst xgkick_loop.simps) (auto simp: to_send_def intro: exI [of _ 0])
  qed
qed

lemma to_send_bound: "xgkick_ok v \<Longrightarrow> to_send v < 0x8000"
  by (auto simp: to_send_def xgkick_ok_def word_less_nat_alt)

lemma kick_time_ok:
  fixes n :: u32
  defines "f \<equiv> (\<lambda>v. v\<lparr>xgkickcyclecount := xgkickcyclecount v + n, xgkicklastcycle := xgkicklastcycle v + scast n\<rparr>)"
  assumes "xgkick_ok (vu1 s)"
  shows "xgkick_ok (vu1 (on_vu 1 f s))" "transferred 0 s (on_vu 1 f s)" "vu0 (on_vu 1 f s) = vu0 s"
  using assms(2)
  by (auto simp: f_def on_vu_def xgkick_ok_def transferred_def kicked_def no_kick_def wVI_def intro: exI [of _ "VI (vu0 s) REG_VPU_STAT"])

lemma transfer_beside:
  assumes "xgkick_ok (vu1 s)"
  shows "xgkick_ok (vu1 (vuXGKICKTransfer E n False s))" "transferred 0 s (vuXGKICKTransfer E n False s)"
proof -
  define t where "t = on_vu 1 (\<lambda>v. v\<lparr>xgkickcyclecount := xgkickcyclecount v + n, xgkicklastcycle := xgkicklastcycle v + scast n\<rparr>) s"
  note k = kick_time_ok [OF assms, of n, folded t_def]
  obtain u where u: "xgkick_loop E False t = Some u" "xgkick_ok (vu1 u)" "transferred 0 t u"
    using xgkick_loop_beside [OF k(1)] by blast
  then have "vuXGKICKTransfer E n False s = (if xgkickenable (vu1 s) then u else s)"
    by (simp add: vuXGKICKTransfer_def Let_def t_def del: One_nat_def)
  then show "xgkick_ok (vu1 (vuXGKICKTransfer E n False s))" "transferred 0 s (vuXGKICKTransfer E n False s)"
    using assms u transferred_trans [OF k(2) u(3)] by simp_all
qed

lemma transfer_flush:
  assumes "xgkick_ok (vu1 s)" "xgkick_by_tag E"
  shows "\<exists>t m. vuXGKICKTransfer E n True s = (if xgkickenable (vu1 s) then on_vu 1 vuTestPipes_loop t else s) \<and>
    \<not> xgkickenable (vu1 t) \<and> transferred m s t \<and> unat m \<le> 0x1000 \<and> (VI (vu0 s) REG_VPU_STAT AND 0x100 = 0 \<longrightarrow> m = 0)"
proof -
  define t where "t = on_vu 1 (\<lambda>v. v\<lparr>xgkickcyclecount := xgkickcyclecount v + n, xgkicklastcycle := xgkicklastcycle v + scast n\<rparr>) s"
  note k = kick_time_ok [OF assms(1), of n, folded t_def]
  obtain u m where u: "xgkick_loop E True t = Some u" "\<not> xgkickenable (vu1 u)" "transferred m t u" "unat m * 8 \<le> to_send (vu1 t)"
      "VI (vu0 t) REG_VPU_STAT AND 0x100 = 0 \<longrightarrow> m = 0"
    using xgkick_loop_flush [OF k(1) assms(2)] by blast
  have "vuXGKICKTransfer E n True s = (if xgkickenable (vu1 s) then on_vu 1 vuTestPipes_loop u else s)"
    using u(1) by (simp add: vuXGKICKTransfer_def Let_def t_def del: One_nat_def)
  moreover have "unat m \<le> 0x1000" using u(4) to_send_bound [OF k(1)] by simp
  ultimately show ?thesis
    using u(2,5) k(3) transferred_trans [OF k(2) u(3)] by (intro exI [of _ u] exI [of _ m]) simp
qed

text \<open>A packet that is too large is cancelled, but the busy mark of unit 0's status stays, and nobody is told.\<close>

lemma packet_size_mem: "VMem v = VMem w \<Longrightarrow> GetGSPacketSize E flush v offset c = GetGSPacketSize E flush w offset c"
proof (induction E flush v offset c rule: GetGSPacketSize.induct)
  case (1 E flush v offset c)
  have t: "tag_at v offset = tag_at w offset" using "1.prems" by (simp add: tag_at_def)
  show ?case
    using 1(1) [OF refl refl refl _ _ _ "1.prems"] by (subst (1 2) GetGSPacketSize.simps) (cases flush; simp add: Let_def t)
qed

lemma transfer_cancelled:
  assumes "xgkickenable (vu1 s)" "xgkicksizeremaining (vu1 s) = 0"
    and "GetGSPacketSize E True (vu1 s) (xgkickaddr (vu1 s)) 0 AND 0xFFFF = 0"
  shows "vu0 (vuXGKICKTransfer E n True s) = vu0 s" "vdev (vuXGKICKTransfer E n True s) = vdev s"
    "vu1 (vuXGKICKTransfer E n True s) =
       vuTestPipes_loop ((next_tag E True ((vu1 s)\<lparr>xgkickcyclecount := xgkickcyclecount (vu1 s) + n,
         xgkicklastcycle := xgkicklastcycle (vu1 s) + scast n\<rparr>))\<lparr>xgkickenable := False\<rparr>)"
proof -
  let ?f = "\<lambda>v. v\<lparr>xgkickcyclecount := xgkickcyclecount v + n, xgkicklastcycle := xgkicklastcycle v + scast n\<rparr>"
  define t where "t = on_vu 1 ?f s"
  have t: "vu1 t = ?f (vu1 s)" "vu0 t = vu0 s" "vdev t = vdev s" by (simp_all add: t_def on_vu_def)
  have "GetGSPacketSize E True (?f (vu1 s)) (xgkickaddr (vu1 s)) 0 = GetGSPacketSize E True (vu1 s) (xgkickaddr (vu1 s)) 0"
    by (rule packet_size_mem) simp
  then have z: "xgkicksizeremaining (next_tag E True (vu1 t)) = 0" using assms by (simp add: next_tag_def Let_def t)
  define u where "u = on_vu 1 (\<lambda>v. (next_tag E True v)\<lparr>xgkickenable := False\<rparr>) t"
  have "xgkick_loop E True t = xgkick_loop E True u"
    using assms(1) round_stop [OF z] by (subst xgkick_loop.simps) (simp add: t u_def)
  also have "\<dots> = Some u" by (subst xgkick_loop.simps) (simp add: u_def on_vu_def)
  finally have r: "vuXGKICKTransfer E n True s = on_vu 1 vuTestPipes_loop u"
    using assms(1) by (simp add: vuXGKICKTransfer_def Let_def t_def del: One_nat_def)
  show "vu0 (vuXGKICKTransfer E n True s) = vu0 s" "vdev (vuXGKICKTransfer E n True s) = vdev s"
    "vu1 (vuXGKICKTransfer E n True s) = vuTestPipes_loop ((next_tag E True (?f (vu1 s)))\<lparr>xgkickenable := False\<rparr>)"
    by (simp_all add: r u_def on_vu_def t)
qed

section \<open>What a flush delivers\<close>

text \<open>The \<open>n\<close> quadwords of the memory from address \<open>a\<close> on, which wraps.\<close>

definition mem_quads :: "VURegs \<Rightarrow> u32 \<Rightarrow> nat \<Rightarrow> VECTOR list" where
  "mem_quads v a n = map (\<lambda>i. VMem v ((unat a div 16 + i) mod 1024)) [0..<n]"

text \<open>What is still to be delivered: the rest of the tag that is under way and, if that was not the last of
  its packet, the packet behind it; \<open>next_packet\<close> is the number of its quadwords, 0 for one that is too large.\<close>

definition packet_end :: "VURegs \<Rightarrow> u32" where
  "packet_end v = (xgkickaddr v + xgkicksizeremaining v) AND 0x3FFF"

definition last_tag :: "VURegs \<Rightarrow> bool" where
  "last_tag v \<longleftrightarrow> xgkicksizeremaining v \<noteq> 0 \<and> xgkickendpacket v"

definition next_packet :: "'d vu_env \<Rightarrow> VURegs \<Rightarrow> nat" where
  "next_packet E v = unat (GetGSPacketSize E True v (packet_end v) 0 AND 0xFFFF) div 16"

definition undelivered :: "'d vu_env \<Rightarrow> VURegs \<Rightarrow> VECTOR list" where
  "undelivered E v =
     mem_quads v (xgkickaddr v) (unat (xgkicksizeremaining v) div 16) @
     (if last_tag v then [] else mem_quads v (packet_end v) (next_packet E v))"

definition completes :: "'d vu_env \<Rightarrow> VURegs \<Rightarrow> bool" where
  "completes E v \<longleftrightarrow> last_tag v \<or> next_packet E v \<noteq> 0"

text \<open>The quadwords \<open>qs\<close> have reached the graphics interface, in any number of calls, and if the packet was
  completed the busy mark is off and the DMA interface has been told.\<close>

definition delivered :: "'d vu_env \<Rightarrow> bool \<Rightarrow> VECTOR list \<Rightarrow> 'd vus \<Rightarrow> 'd vus \<Rightarrow> bool" where
  "delivered E done qs s s' \<longleftrightarrow>
     (\<exists>qss. concat qss = qs \<and>
        vdev s' = (if done then vif_gif_idle E else id) (fold (TransferGSPacketData E) qss (vdev s))) \<and>
     vu0 s' = (if done then wVI REG_VPU_STAT (VI (vu0 s) REG_VPU_STAT AND NOT 0x1000) (vu0 s) else vu0 s)"

lemma mem_quads_same: "VMem w = VMem v \<Longrightarrow> mem_quads w a n = mem_quads v a n"
  by (simp add: mem_quads_def)

lemma and_3FFF: "unat (x AND 0x3FFF :: u32) = unat x mod 0x4000"
proof -
  have "x AND 0x3FFF = take_bit 14 x" by (simp add: take_bit_eq_mask mask_eq_decr_exp)
  then show ?thesis by (simp only: unsigned_take_bit_eq) (simp add: take_bit_eq_mod)
qed

lemma mem_quads_append:
  assumes "quads a" "unat (n * 16 :: u32) = unat n * 16"
  shows "mem_quads v a (unat n + m) = mem_quads v a (unat n) @ mem_quads v ((a + n * 16) AND 0x3FFF) m"
proof -
  obtain q where q: "unat a = 16 * q" using assms(1) by (auto simp: quads_dvd)
  have c: "x mod 2 ^ LENGTH(32) mod 0x4000 = x mod 0x4000" for x :: nat by (rule mod_mod_cancel) simp
  have "16 * q + unat n * 16 = 16 * (q + unat n)" by simp
  then have "unat ((a + n * 16) AND 0x3FFF) = 16 * (q + unat n) mod 0x4000"
    unfolding and_3FFF unat_word_ariths(1) assms(2) q c by (simp only:)
  also have "\<dots> = 16 * ((q + unat n) mod 1024)" using mult_mod_right [of 16 "q + unat n" 1024] by simp
  finally have e: "unat ((a + n * 16) AND 0x3FFF) div 16 = (q + unat n) mod 1024" by simp
  have s: "[0..<unat n + m] = [0..<unat n] @ map (\<lambda>i. unat n + i) [0..<m]"
    using upt_add_eq_append [of 0 "unat n" m] map_add_upt [of "unat n" m] by (simp add: add.commute)
  show ?thesis unfolding mem_quads_def s e map_append map_map
    by (simp add: q mod_add_left_eq o_def add.assoc)
qed

lemma next_tag_pending:
  assumes "xgkick_ok v" "xgkickenable v" "xgkick_by_tag E"
  defines "w \<equiv> next_tag E True v"
  shows "xgkicksizeremaining w \<noteq> 0 \<Longrightarrow> undelivered E w = undelivered E v \<and> completes E w = completes E v"
    "xgkicksizeremaining w = 0 \<Longrightarrow> undelivered E v = [] \<and> \<not> completes E v"
proof -
  have a: "unat (xgkickaddr v) < 0x4000" using assms(1,2) by (simp add: xgkick_ok_def word_less_nat_alt)
  have "xgkickaddr v AND 0x3FFF = xgkickaddr v" using a by (simp add: word_unat_eq_iff and_3FFF)
  then have pe: "packet_end v = xgkickaddr v" if "xgkicksizeremaining v = 0" using that by (simp add: packet_end_def)
  let ?g = "GetGSPacketSize E True v (xgkickaddr v) 0"
  have g: "quads (?g AND 0xFFFF)" "?g AND 0xFFFF \<noteq> 0 \<longrightarrow> bit ?g 31"
    using packet_size [of 0 E True v "xgkickaddr v"] assms(3) by auto
  have d: "unat (?g AND 0xFFFF) div 16 \<noteq> 0 \<longleftrightarrow> ?g AND 0xFFFF \<noteq> 0"
  proof -
    obtain q where q: "unat (?g AND 0xFFFF) = 16 * q" using g(1) unfolding quads_dvd by (rule dvdE)
    then have "unat (?g AND 0xFFFF) div 16 = 0 \<longleftrightarrow> unat (?g AND 0xFFFF) = 0" by simp
    then show ?thesis by (simp only: unat_eq_zero)
  qed
  have w: "w = (if xgkicksizeremaining v = 0 then v\<lparr>xgkicksizeremaining := ?g AND 0xFFFF, xgkickendpacket := bit ?g 31,
      xgkickdiff := 0x4000 - xgkickaddr v\<rparr> else v)" by (simp add: w_def next_tag_def Let_def)
  show "xgkicksizeremaining w \<noteq> 0 \<Longrightarrow> undelivered E w = undelivered E v \<and> completes E w = completes E v"
  proof (cases "xgkicksizeremaining v = 0")
    case True
    assume "xgkicksizeremaining w \<noteq> 0"
    then have n: "?g AND 0xFFFF \<noteq> 0" using True by (simp add: w)
    with g(2) d True pe show ?thesis
      by (simp add: w undelivered_def completes_def last_tag_def next_packet_def mem_quads_def)
  qed (simp add: w)
  show "xgkicksizeremaining w = 0 \<Longrightarrow> undelivered E v = [] \<and> \<not> completes E v"
    using pe by (simp add: w undelivered_def completes_def last_tag_def next_packet_def mem_quads_def split: if_splits)
qed

lemma kick_send_pending:
  fixes b :: bool
  assumes ok: "xgkick_ok v" "xgkickenable v" and r: "xgkicksizeremaining v \<noteq> 0"
    and n: "unat n * 16 \<le> unat (xgkicksizeremaining v)" "0 < unat n"
  defines "z \<equiv> kick_send b n v"
  shows "xgkicksizeremaining z \<noteq> 0 \<or> \<not> xgkickendpacket z \<Longrightarrow>
      undelivered E v = mem_quads v (xgkickaddr v) (unat n) @ undelivered E z \<and> completes E v = completes E z"
    "\<not> (xgkicksizeremaining z \<noteq> 0 \<or> \<not> xgkickendpacket z) \<Longrightarrow>
      undelivered E v = mem_quads v (xgkickaddr v) (unat n) \<and> completes E v"
proof -
  note n16 = send_small [OF ok n(1)] and ks = kick_send_ok [OF ok n(1), of b, folded z_def]
  have q: "quads (xgkickaddr v)" using ok by (simp add: xgkick_ok_def)
  have z: "VMem z = VMem v" "xgkickaddr z = (xgkickaddr v + n * 16) AND 0x3FFF" "xgkickendpacket z = xgkickendpacket v"
      "xgkicksizeremaining z = xgkicksizeremaining v - n * 16"
    by (simp_all add: z_def kick_send_def Let_def)
  have pe: "packet_end z = packet_end v"
  proof -
    have c: "x mod 2 ^ LENGTH(32) mod 0x4000 = x mod 0x4000" for x :: nat by (rule mod_mod_cancel) simp
    have "(x AND 0x3FFF) + y AND 0x3FFF = x + y AND 0x3FFF" for x y :: u32
      unfolding word_unat_eq_iff and_3FFF unat_word_ariths(1) c mod_add_left_eq by (rule refl)
    then show ?thesis by (simp add: packet_end_def z)
  qed
  then have np: "next_packet E z = next_packet E v" by (simp add: next_packet_def packet_size_mem [OF z(1)])
  have m: "mem_quads z a k = mem_quads v a k" for a k by (rule mem_quads_same [OF z(1)])
  have rd: "16 dvd unat (xgkicksizeremaining v)" using ok by (simp add: xgkick_ok_def quads_dvd)
  have d: "unat (xgkicksizeremaining v) div 16 = unat n + unat (xgkicksizeremaining z) div 16"
    using n(1) rd unfolding ks(3) by (auto elim!: dvdE)
  have s: "mem_quads v (xgkickaddr v) (unat (xgkicksizeremaining v) div 16) =
      mem_quads v (xgkickaddr v) (unat n) @ mem_quads z (xgkickaddr z) (unat (xgkicksizeremaining z) div 16)"
    unfolding d mem_quads_append [OF q n16(2)] z(2) m by (rule refl)
  show "xgkicksizeremaining z \<noteq> 0 \<or> \<not> xgkickendpacket z \<Longrightarrow>
      undelivered E v = mem_quads v (xgkickaddr v) (unat n) @ undelivered E z \<and> completes E v = completes E z"
    using r by (auto simp: undelivered_def completes_def last_tag_def s pe np m z(3))
  show "\<not> (xgkicksizeremaining z \<noteq> 0 \<or> \<not> xgkickendpacket z) \<Longrightarrow>
      undelivered E v = mem_quads v (xgkickaddr v) (unat n) \<and> completes E v"
    using r by (simp add: undelivered_def completes_def last_tag_def s z(3)) (simp add: mem_quads_def)
qed

lemma delivered_cons:
  assumes "vdev t = TransferGSPacketData E q (vdev s)" "vu0 t = vu0 s" "delivered E done qs t u"
  shows "delivered E done (q @ qs) s u"
proof -
  from assms(3) obtain qss where qss: "concat qss = qs" "vdev u = (if done then vif_gif_idle E else id) (fold (TransferGSPacketData E) qss (vdev t))"
    "vu0 u = (if done then wVI REG_VPU_STAT (VI (vu0 t) REG_VPU_STAT AND NOT 0x1000) (vu0 t) else vu0 t)"
    by (auto simp: delivered_def)
  then show ?thesis unfolding delivered_def using assms(1,2) by (intro conjI exI [of _ "q # qss"]) simp_all
qed

text \<open>One round of a flush: it stops with nothing left, delivers the last quadwords, or some of them.\<close>

lemma flush_round_delivers:
  fixes s :: "'d vus" and E :: "'d vu_env"
  assumes ok: "xgkick_ok (vu1 s)" "xgkickenable (vu1 s)" and E: "xgkick_by_tag E"
  defines "s' \<equiv> xgkick_round E True s"
  shows "\<exists>q. undelivered E (vu1 s) = q @ (if xgkickenable (vu1 s') then undelivered E (vu1 s') else []) \<and>
    (if xgkickenable (vu1 s') then completes E (vu1 s) = completes E (vu1 s') \<and> vu0 s' = vu0 s \<and> vdev s' = TransferGSPacketData E q (vdev s)
     else delivered E (completes E (vu1 s)) q s s')"
proof -
  define w where "w = next_tag E True (vu1 s)"
  note nt = next_tag_ok [where E = E and flush = True, OF ok, folded w_def]
  note np = next_tag_pending [OF ok E, folded w_def]
  show ?thesis
  proof (cases "xgkicksizeremaining w = 0")
    case True
    have s': "s' = on_vu 1 (\<lambda>v. (next_tag E True v)\<lparr>xgkickenable := False\<rparr>) s"
      using round_stop [of E True s] True by (simp add: s'_def w_def)
    have "delivered E False [] s s'" by (simp add: delivered_def s' on_vu_def exI [of _ "[]"])
    with np(2) [OF True] show ?thesis by (simp add: s' on_vu_def)
  next
    case False
    define n where "n = transfersize True w"
    define b where "b \<longleftrightarrow> VI (vu0 s) REG_VPU_STAT AND 0x100 \<noteq> 0 \<and> True"
    define z where "z = kick_send b n w"
    note tb = transfersize_bounds [where flush = True, OF nt(1,2) False, folded n_def, simplified]
    note ks = kick_send_ok [where w = b, OF nt(1,2) tb(2), folded z_def]
    note kp = kick_send_pending [where b = b and E = E, OF nt(1,2) False tb(2,1), folded z_def]
    note rs = round_send [where E = E and flush = True and s = s, folded w_def, OF False, folded n_def, folded b_def, folded z_def, folded s'_def]
    have "map (\<lambda>i. VMem w (unat (xgkickaddr w) div 16 + i)) [0..<unat n] = mem_quads w (xgkickaddr w) (unat n)"
    proof -
      have "unat (xgkickaddr w) div 16 + i < 1024" if "i < unat n" for i using that tb(3) by linarith
      then show ?thesis by (simp add: mem_quads_def)
    qed
    then have dv: "vdev s' = (if xgkicksizeremaining z \<noteq> 0 \<or> \<not> xgkickendpacket z then id else vif_gif_idle E)
        (TransferGSPacketData E (mem_quads w (xgkickaddr w) (unat n)) (vdev s))"
      using False unfolding s'_def xgkick_round_def Let_def
      by (simp add: on_vu_def on_dev_def w_def [symmetric] n_def [symmetric] b_def [symmetric, simplified] z_def [symmetric])
    let ?q = "mem_quads w (xgkickaddr w) (unat n)"
    show ?thesis
    proof (cases "xgkicksizeremaining z \<noteq> 0 \<or> \<not> xgkickendpacket z")
      case True
      then show ?thesis using kp(1) [OF True] np(1) [OF False] rs dv ks(4) by (intro exI [of _ ?q]) simp
    next
      case F: False
      then have "delivered E True ?q s s'" using rs dv by (simp add: delivered_def exI [of _ "[?q]"])
      then show ?thesis using kp(2) [OF F] np(1) [OF False] rs F by (intro exI [of _ ?q]) simp
    qed
  qed
qed

lemma xgkick_flush_delivers:
  assumes "xgkick_ok (vu1 s)" "xgkickenable (vu1 s)" "xgkick_by_tag E"
  shows "\<exists>s'. xgkick_loop E True s = Some s' \<and> delivered E (completes E (vu1 s)) (undelivered E (vu1 s)) s s'"
  using assms(1,2)
proof (induction "to_send (vu1 s)" arbitrary: s rule: less_induct)
  case less
  let ?s = "xgkick_round E True s"
  note r = xgkick_round_ok [where E = E and flush = True, OF less.prems, simplified]
  have m: "to_send (vu1 ?s) < to_send (vu1 s)" using r(2) assms(3) by auto
  have l: "xgkick_loop E True s = xgkick_loop E True ?s" using less.prems by (subst xgkick_loop.simps) simp
  obtain q where q: "undelivered E (vu1 s) = q @ (if xgkickenable (vu1 ?s) then undelivered E (vu1 ?s) else [])"
    "if xgkickenable (vu1 ?s) then completes E (vu1 s) = completes E (vu1 ?s) \<and> vu0 ?s = vu0 s \<and> vdev ?s = TransferGSPacketData E q (vdev s)
     else delivered E (completes E (vu1 s)) q s ?s"
    using flush_round_delivers [OF less.prems assms(3)] by blast
  show ?case
  proof (cases "xgkickenable (vu1 ?s)")
    case True
    then show ?thesis
      using less.hyps [OF m r(1) True] q l delivered_cons [of ?s E q s] by auto
  next
    case False
    then have "xgkick_loop E True ?s = Some ?s" by (subst xgkick_loop.simps) simp
    then show ?thesis using q l False by auto
  qed
qed

end
