(* ===== verification/VU_Upper.thy ===== *)
theory VU_Upper
  imports VU_XGKick
begin

text \<open>
  Upper instructions of the vector units (\<^verbatim>\<open>pcsx2/VUops.cpp\<close>): arithmetic with flags on the selected
  lanes, minimum and maximum on patterns, outer products, conversions and clipping. Arithmetic
  is the host's single-precision arithmetic under the control register of the unit that runs. A
  write to register 0, which the code redirects to a scratch vector that is never read, does nothing.
\<close>

section \<open>Operands and lanes\<close>

definition vuDouble :: "'d vu_env \<Rightarrow> u32 \<Rightarrow> u32" where
  "vuDouble E f =
     (if f AND 0x7f800000 = 0 then f AND 0x80000000
      else if f AND 0x7f800000 = 0x7f800000 \<and> vuOverflow E 0 then (f AND 0x80000000) OR 0x7f7fffff
      else f)"

definition vuADD_TriAceHack :: "'d vu_env \<Rightarrow> nat \<Rightarrow> u32 \<Rightarrow> u32 \<Rightarrow> u32" where
  "vuADD_TriAceHack E k a b =
     (let aExp = uint (drop_bit 23 a AND 0xff); bExp = uint (drop_bit 23 b AND 0xff);
          b = (if 25 \<le> aExp - bExp then b AND 0x80000000 else b);
          a = (if aExp - bExp \<le> - 25 then a AND 0x80000000 else a)
      in f_add (VUFPCR E k) (vuDouble E a) (vuDouble E b))"

datatype MACOpDst = Dst_Fd | Dst_Acc

definition put_dst :: "MACOpDst \<Rightarrow> 2 word \<Rightarrow> u32 \<Rightarrow> VURegs \<Rightarrow> VURegs" where
  "put_dst dst i x v =
     (case dst of
        Dst_Acc \<Rightarrow> v\<lparr>VACC := (VACC v)(i := x)\<rparr>
      | Dst_Fd \<Rightarrow> if vFd v = 0 then v else wVF (vFd v) i x v)"

text \<open>The four lanes in the order of the code: on the selected ones, or with the flags of the others
  cleared.\<close>

definition sel_lanes :: "(2 word \<Rightarrow> VURegs \<Rightarrow> VURegs) \<Rightarrow> VURegs \<Rightarrow> VURegs" where
  "sel_lanes f v = fold (\<lambda>i v. if vSel i v then f i v else v) [0, 1, 2, 3] v"

definition mac_lane :: "'d vu_env \<Rightarrow> nat \<Rightarrow> MACOpDst \<Rightarrow> (2 word \<Rightarrow> VURegs \<Rightarrow> u32) \<Rightarrow> 2 word \<Rightarrow> VURegs \<Rightarrow> VURegs" where
  "mac_lane E k dst g i v =
     (if vSel i v then (case VU_MAC_UPDATE E k (3 - unat i) (g i v) v of (r, v) \<Rightarrow> put_dst dst i r v)
      else VU_MAC_CLEAR (3 - unat i) v)"

definition mac_lanes :: "'d vu_env \<Rightarrow> nat \<Rightarrow> MACOpDst \<Rightarrow> (2 word \<Rightarrow> VURegs \<Rightarrow> u32) \<Rightarrow> VURegs \<Rightarrow> VURegs" where
  "mac_lanes E k dst g v = VU_STAT_UPDATE (fold (mac_lane E k dst g) [0, 1, 2, 3] v)"

definition applyUnaryFunction :: "(u32 \<Rightarrow> u32) \<Rightarrow> VURegs \<Rightarrow> VURegs" where
  "applyUnaryFunction Fn v =
     (if vFt v = 0 then v else sel_lanes (\<lambda>i v. wVF (vFt v) i (Fn (VF v (vFs v) i)) v) v)"

definition applyBinaryMACOp :: "'d vu_env \<Rightarrow> nat \<Rightarrow> (u32 \<Rightarrow> u32 \<Rightarrow> u32) \<Rightarrow> MACOpDst \<Rightarrow> VURegs \<Rightarrow> VURegs" where
  "applyBinaryMACOp E k Fn dst = mac_lanes E k dst (\<lambda>i v. Fn (VF v (vFs v) i) (VF v (vFt v) i))"

definition applyBinaryMACOpBroadcast :: "'d vu_env \<Rightarrow> nat \<Rightarrow> (u32 \<Rightarrow> u32 \<Rightarrow> u32) \<Rightarrow> MACOpDst \<Rightarrow> u32 \<Rightarrow> VURegs \<Rightarrow> VURegs" where
  "applyBinaryMACOpBroadcast E k Fn dst bc = mac_lanes E k dst (\<lambda>i v. Fn (VF v (vFs v) i) bc)"

definition applyTernaryMACOp :: "'d vu_env \<Rightarrow> nat \<Rightarrow> (u32 \<Rightarrow> u32 \<Rightarrow> u32 \<Rightarrow> u32) \<Rightarrow> MACOpDst \<Rightarrow> VURegs \<Rightarrow> VURegs" where
  "applyTernaryMACOp E k Fn dst = mac_lanes E k dst (\<lambda>i v. Fn (VACC v i) (VF v (vFs v) i) (VF v (vFt v) i))"

definition applyTernaryMACOpBroadcast ::
    "'d vu_env \<Rightarrow> nat \<Rightarrow> (u32 \<Rightarrow> u32 \<Rightarrow> u32 \<Rightarrow> u32) \<Rightarrow> MACOpDst \<Rightarrow> u32 \<Rightarrow> VURegs \<Rightarrow> VURegs" where
  "applyTernaryMACOpBroadcast E k Fn dst bc = mac_lanes E k dst (\<lambda>i v. Fn (VACC v i) (VF v (vFs v) i) bc)"

section \<open>Arithmetic\<close>

type_synonym 'd vu_upper = "'d vu_env \<Rightarrow> nat \<Rightarrow> VURegs \<Rightarrow> VURegs"

definition vuOpABS :: "u32 \<Rightarrow> u32" where "vuOpABS fs = fs AND 0x7fffffff"

definition vuOpADD :: "'d vu_env \<Rightarrow> nat \<Rightarrow> u32 \<Rightarrow> u32 \<Rightarrow> u32" where
  "vuOpADD E k fs ft = f_add (VUFPCR E k) (vuDouble E fs) (vuDouble E ft)"

definition vuOpSUB :: "'d vu_env \<Rightarrow> nat \<Rightarrow> u32 \<Rightarrow> u32 \<Rightarrow> u32" where
  "vuOpSUB E k fs ft = f_sub (VUFPCR E k) (vuDouble E fs) (vuDouble E ft)"

definition vuOpMUL :: "'d vu_env \<Rightarrow> nat \<Rightarrow> u32 \<Rightarrow> u32 \<Rightarrow> u32" where
  "vuOpMUL E k fs ft = f_mul (VUFPCR E k) (vuDouble E fs) (vuDouble E ft)"

text \<open>\<^verbatim>\<open>d + a * b\<close> and \<^verbatim>\<open>d - a * b\<close> in one expression, which the compiler may fuse.\<close>

definition mul_add :: "'d vu_env \<Rightarrow> FPControlRegister \<Rightarrow> u32 \<Rightarrow> u32 \<Rightarrow> u32 \<Rightarrow> u32" where
  "mul_add E c d a b = (if VUContract E then f_fma c a b d else f_add c d (f_mul c a b))"

definition mul_sub :: "'d vu_env \<Rightarrow> FPControlRegister \<Rightarrow> u32 \<Rightarrow> u32 \<Rightarrow> u32 \<Rightarrow> u32" where
  "mul_sub E c d a b = (if VUContract E then f_fma c (f_neg a) b d else f_sub c d (f_mul c a b))"

definition vuOpMADD :: "'d vu_env \<Rightarrow> nat \<Rightarrow> u32 \<Rightarrow> u32 \<Rightarrow> u32 \<Rightarrow> u32" where
  "vuOpMADD E k acc fs ft = mul_add E (VUFPCR E k) (vuDouble E acc) (vuDouble E fs) (vuDouble E ft)"

definition vuOpMSUB :: "'d vu_env \<Rightarrow> nat \<Rightarrow> u32 \<Rightarrow> u32 \<Rightarrow> u32 \<Rightarrow> u32" where
  "vuOpMSUB E k acc fs ft = mul_sub E (VUFPCR E k) (vuDouble E acc) (vuDouble E fs) (vuDouble E ft)"

definition vuABS :: "'d vu_upper" where "vuABS E k = applyUnaryFunction vuOpABS"

definition vuADD :: "'d vu_upper" where "vuADD E k = applyBinaryMACOp E k (vuOpADD E k) Dst_Fd"
definition vuADDbc :: "u32 \<Rightarrow> 'd vu_upper" where "vuADDbc bc E k = applyBinaryMACOpBroadcast E k (vuOpADD E k) Dst_Fd bc"

definition vuADDbc_addsubhack :: "u32 \<Rightarrow> 'd vu_upper" where
  "vuADDbc_addsubhack bc E k =
     (if VuAddSubHack E then applyBinaryMACOpBroadcast E k (vuADD_TriAceHack E k) Dst_Fd bc
      else applyBinaryMACOpBroadcast E k (vuOpADD E k) Dst_Fd bc)"

definition vuADDi :: "'d vu_upper" where "vuADDi E k v = vuADDbc_addsubhack (VI v REG_I) E k v"
definition vuADDq :: "'d vu_upper" where "vuADDq E k v = vuADDbc (VI v REG_Q) E k v"
definition vuADDx :: "'d vu_upper" where "vuADDx E k v = vuADDbc (VF v (vFt v) 0) E k v"
definition vuADDy :: "'d vu_upper" where "vuADDy E k v = vuADDbc (VF v (vFt v) 1) E k v"
definition vuADDz :: "'d vu_upper" where "vuADDz E k v = vuADDbc (VF v (vFt v) 2) E k v"
definition vuADDw :: "'d vu_upper" where "vuADDw E k v = vuADDbc (VF v (vFt v) 3) E k v"

definition vuADDA :: "'d vu_upper" where "vuADDA E k = applyBinaryMACOp E k (vuOpADD E k) Dst_Acc"
definition vuADDAbc :: "u32 \<Rightarrow> 'd vu_upper" where "vuADDAbc bc E k = applyBinaryMACOpBroadcast E k (vuOpADD E k) Dst_Acc bc"
definition vuADDAi :: "'d vu_upper" where "vuADDAi E k v = vuADDAbc (VI v REG_I) E k v"
definition vuADDAq :: "'d vu_upper" where "vuADDAq E k v = vuADDAbc (VI v REG_Q) E k v"
definition vuADDAx :: "'d vu_upper" where "vuADDAx E k v = vuADDAbc (VF v (vFt v) 0) E k v"
definition vuADDAy :: "'d vu_upper" where "vuADDAy E k v = vuADDAbc (VF v (vFt v) 1) E k v"
definition vuADDAz :: "'d vu_upper" where "vuADDAz E k v = vuADDAbc (VF v (vFt v) 2) E k v"
definition vuADDAw :: "'d vu_upper" where "vuADDAw E k v = vuADDAbc (VF v (vFt v) 3) E k v"

definition vuSUB :: "'d vu_upper" where "vuSUB E k = applyBinaryMACOp E k (vuOpSUB E k) Dst_Fd"
definition vuSUBbc :: "u32 \<Rightarrow> 'd vu_upper" where "vuSUBbc bc E k = applyBinaryMACOpBroadcast E k (vuOpSUB E k) Dst_Fd bc"
definition vuSUBi :: "'d vu_upper" where "vuSUBi E k v = vuSUBbc (VI v REG_I) E k v"
definition vuSUBq :: "'d vu_upper" where "vuSUBq E k v = vuSUBbc (VI v REG_Q) E k v"
definition vuSUBx :: "'d vu_upper" where "vuSUBx E k v = vuSUBbc (VF v (vFt v) 0) E k v"
definition vuSUBy :: "'d vu_upper" where "vuSUBy E k v = vuSUBbc (VF v (vFt v) 1) E k v"
definition vuSUBz :: "'d vu_upper" where "vuSUBz E k v = vuSUBbc (VF v (vFt v) 2) E k v"
definition vuSUBw :: "'d vu_upper" where "vuSUBw E k v = vuSUBbc (VF v (vFt v) 3) E k v"

definition vuSUBA :: "'d vu_upper" where "vuSUBA E k = applyBinaryMACOp E k (vuOpSUB E k) Dst_Acc"
definition vuSUBAbc :: "u32 \<Rightarrow> 'd vu_upper" where "vuSUBAbc bc E k = applyBinaryMACOpBroadcast E k (vuOpSUB E k) Dst_Acc bc"
definition vuSUBAi :: "'d vu_upper" where "vuSUBAi E k v = vuSUBAbc (VI v REG_I) E k v"
definition vuSUBAq :: "'d vu_upper" where "vuSUBAq E k v = vuSUBAbc (VI v REG_Q) E k v"
definition vuSUBAx :: "'d vu_upper" where "vuSUBAx E k v = vuSUBAbc (VF v (vFt v) 0) E k v"
definition vuSUBAy :: "'d vu_upper" where "vuSUBAy E k v = vuSUBAbc (VF v (vFt v) 1) E k v"
definition vuSUBAz :: "'d vu_upper" where "vuSUBAz E k v = vuSUBAbc (VF v (vFt v) 2) E k v"
definition vuSUBAw :: "'d vu_upper" where "vuSUBAw E k v = vuSUBAbc (VF v (vFt v) 3) E k v"

definition vuMUL :: "'d vu_upper" where "vuMUL E k = applyBinaryMACOp E k (vuOpMUL E k) Dst_Fd"
definition vuMULbc :: "u32 \<Rightarrow> 'd vu_upper" where "vuMULbc bc E k = applyBinaryMACOpBroadcast E k (vuOpMUL E k) Dst_Fd bc"
definition vuMULi :: "'d vu_upper" where "vuMULi E k v = vuMULbc (VI v REG_I) E k v"
definition vuMULq :: "'d vu_upper" where "vuMULq E k v = vuMULbc (VI v REG_Q) E k v"
definition vuMULx :: "'d vu_upper" where "vuMULx E k v = vuMULbc (VF v (vFt v) 0) E k v"
definition vuMULy :: "'d vu_upper" where "vuMULy E k v = vuMULbc (VF v (vFt v) 1) E k v"
definition vuMULz :: "'d vu_upper" where "vuMULz E k v = vuMULbc (VF v (vFt v) 2) E k v"
definition vuMULw :: "'d vu_upper" where "vuMULw E k v = vuMULbc (VF v (vFt v) 3) E k v"

definition vuMULA :: "'d vu_upper" where "vuMULA E k = applyBinaryMACOp E k (vuOpMUL E k) Dst_Acc"
definition vuMULAbc :: "u32 \<Rightarrow> 'd vu_upper" where "vuMULAbc bc E k = applyBinaryMACOpBroadcast E k (vuOpMUL E k) Dst_Acc bc"
definition vuMULAi :: "'d vu_upper" where "vuMULAi E k v = vuMULAbc (VI v REG_I) E k v"
definition vuMULAq :: "'d vu_upper" where "vuMULAq E k v = vuMULAbc (VI v REG_Q) E k v"
definition vuMULAx :: "'d vu_upper" where "vuMULAx E k v = vuMULAbc (VF v (vFt v) 0) E k v"
definition vuMULAy :: "'d vu_upper" where "vuMULAy E k v = vuMULAbc (VF v (vFt v) 1) E k v"
definition vuMULAz :: "'d vu_upper" where "vuMULAz E k v = vuMULAbc (VF v (vFt v) 2) E k v"
definition vuMULAw :: "'d vu_upper" where "vuMULAw E k v = vuMULAbc (VF v (vFt v) 3) E k v"

definition vuMADD :: "'d vu_upper" where "vuMADD E k = applyTernaryMACOp E k (vuOpMADD E k) Dst_Fd"
definition vuMADDbc :: "u32 \<Rightarrow> 'd vu_upper" where "vuMADDbc bc E k = applyTernaryMACOpBroadcast E k (vuOpMADD E k) Dst_Fd bc"
definition vuMADDi :: "'d vu_upper" where "vuMADDi E k v = vuMADDbc (VI v REG_I) E k v"
definition vuMADDq :: "'d vu_upper" where "vuMADDq E k v = vuMADDbc (VI v REG_Q) E k v"
definition vuMADDx :: "'d vu_upper" where "vuMADDx E k v = vuMADDbc (VF v (vFt v) 0) E k v"
definition vuMADDy :: "'d vu_upper" where "vuMADDy E k v = vuMADDbc (VF v (vFt v) 1) E k v"
definition vuMADDz :: "'d vu_upper" where "vuMADDz E k v = vuMADDbc (VF v (vFt v) 2) E k v"
definition vuMADDw :: "'d vu_upper" where "vuMADDw E k v = vuMADDbc (VF v (vFt v) 3) E k v"

definition vuMADDA :: "'d vu_upper" where "vuMADDA E k = applyTernaryMACOp E k (vuOpMADD E k) Dst_Acc"
definition vuMADDAbc :: "u32 \<Rightarrow> 'd vu_upper" where "vuMADDAbc bc E k = applyTernaryMACOpBroadcast E k (vuOpMADD E k) Dst_Acc bc"
definition vuMADDAi :: "'d vu_upper" where "vuMADDAi E k v = vuMADDAbc (VI v REG_I) E k v"
definition vuMADDAq :: "'d vu_upper" where "vuMADDAq E k v = vuMADDAbc (VI v REG_Q) E k v"
definition vuMADDAx :: "'d vu_upper" where "vuMADDAx E k v = vuMADDAbc (VF v (vFt v) 0) E k v"
definition vuMADDAy :: "'d vu_upper" where "vuMADDAy E k v = vuMADDAbc (VF v (vFt v) 1) E k v"
definition vuMADDAz :: "'d vu_upper" where "vuMADDAz E k v = vuMADDAbc (VF v (vFt v) 2) E k v"
definition vuMADDAw :: "'d vu_upper" where "vuMADDAw E k v = vuMADDAbc (VF v (vFt v) 3) E k v"

definition vuMSUB :: "'d vu_upper" where "vuMSUB E k = applyTernaryMACOp E k (vuOpMSUB E k) Dst_Fd"
definition vuMSUBbc :: "u32 \<Rightarrow> 'd vu_upper" where "vuMSUBbc bc E k = applyTernaryMACOpBroadcast E k (vuOpMSUB E k) Dst_Fd bc"
definition vuMSUBi :: "'d vu_upper" where "vuMSUBi E k v = vuMSUBbc (VI v REG_I) E k v"
definition vuMSUBq :: "'d vu_upper" where "vuMSUBq E k v = vuMSUBbc (VI v REG_Q) E k v"
definition vuMSUBx :: "'d vu_upper" where "vuMSUBx E k v = vuMSUBbc (VF v (vFt v) 0) E k v"
definition vuMSUBy :: "'d vu_upper" where "vuMSUBy E k v = vuMSUBbc (VF v (vFt v) 1) E k v"
definition vuMSUBz :: "'d vu_upper" where "vuMSUBz E k v = vuMSUBbc (VF v (vFt v) 2) E k v"
definition vuMSUBw :: "'d vu_upper" where "vuMSUBw E k v = vuMSUBbc (VF v (vFt v) 3) E k v"

definition vuMSUBA :: "'d vu_upper" where "vuMSUBA E k = applyTernaryMACOp E k (vuOpMSUB E k) Dst_Acc"
definition vuMSUBAbc :: "u32 \<Rightarrow> 'd vu_upper" where "vuMSUBAbc bc E k = applyTernaryMACOpBroadcast E k (vuOpMSUB E k) Dst_Acc bc"
definition vuMSUBAi :: "'d vu_upper" where "vuMSUBAi E k v = vuMSUBAbc (VI v REG_I) E k v"
definition vuMSUBAq :: "'d vu_upper" where "vuMSUBAq E k v = vuMSUBAbc (VI v REG_Q) E k v"
definition vuMSUBAx :: "'d vu_upper" where "vuMSUBAx E k v = vuMSUBAbc (VF v (vFt v) 0) E k v"
definition vuMSUBAy :: "'d vu_upper" where "vuMSUBAy E k v = vuMSUBAbc (VF v (vFt v) 1) E k v"
definition vuMSUBAz :: "'d vu_upper" where "vuMSUBAz E k v = vuMSUBAbc (VF v (vFt v) 2) E k v"
definition vuMSUBAw :: "'d vu_upper" where "vuMSUBAw E k v = vuMSUBAbc (VF v (vFt v) 3) E k v"

section \<open>Minimum, maximum and products\<close>

definition vu_fp_max :: "u32 \<Rightarrow> u32 \<Rightarrow> u32" where
  "vu_fp_max a b = (if a <s 0 \<and> b <s 0 then (if b <s a then b else a) else (if a <s b then b else a))"

definition vu_fp_min :: "u32 \<Rightarrow> u32 \<Rightarrow> u32" where
  "vu_fp_min a b = (if a <s 0 \<and> b <s 0 then (if a <s b then b else a) else (if b <s a then b else a))"

definition applyMinMax :: "(u32 \<Rightarrow> u32 \<Rightarrow> u32) \<Rightarrow> VURegs \<Rightarrow> VURegs" where
  "applyMinMax Fn v =
     (if vFd v = 0 then v else sel_lanes (\<lambda>i v. wVF (vFd v) i (Fn (VF v (vFs v) i) (VF v (vFt v) i)) v) v)"

definition applyMinMaxBroadcast :: "(u32 \<Rightarrow> u32 \<Rightarrow> u32) \<Rightarrow> u32 \<Rightarrow> VURegs \<Rightarrow> VURegs" where
  "applyMinMaxBroadcast Fn bc v =
     (if vFd v = 0 then v else sel_lanes (\<lambda>i v. wVF (vFd v) i (Fn (VF v (vFs v) i) bc) v) v)"

definition vuMAX :: "'d vu_upper" where "vuMAX E k = applyMinMax vu_fp_max"
definition vuMAXi :: "'d vu_upper" where "vuMAXi E k v = applyMinMaxBroadcast vu_fp_max (VI v REG_I) v"
definition vuMAXx :: "'d vu_upper" where "vuMAXx E k v = applyMinMaxBroadcast vu_fp_max (VF v (vFt v) 0) v"
definition vuMAXy :: "'d vu_upper" where "vuMAXy E k v = applyMinMaxBroadcast vu_fp_max (VF v (vFt v) 1) v"
definition vuMAXz :: "'d vu_upper" where "vuMAXz E k v = applyMinMaxBroadcast vu_fp_max (VF v (vFt v) 2) v"
definition vuMAXw :: "'d vu_upper" where "vuMAXw E k v = applyMinMaxBroadcast vu_fp_max (VF v (vFt v) 3) v"

definition vuMINI :: "'d vu_upper" where "vuMINI E k = applyMinMax vu_fp_min"
definition vuMINIi :: "'d vu_upper" where "vuMINIi E k v = applyMinMaxBroadcast vu_fp_min (VI v REG_I) v"
definition vuMINIx :: "'d vu_upper" where "vuMINIx E k v = applyMinMaxBroadcast vu_fp_min (VF v (vFt v) 0) v"
definition vuMINIy :: "'d vu_upper" where "vuMINIy E k v = applyMinMaxBroadcast vu_fp_min (VF v (vFt v) 1) v"
definition vuMINIz :: "'d vu_upper" where "vuMINIz E k v = applyMinMaxBroadcast vu_fp_min (VF v (vFt v) 2) v"
definition vuMINIw :: "'d vu_upper" where "vuMINIw E k v = applyMinMaxBroadcast vu_fp_min (VF v (vFt v) 3) v"

definition vuOPMULA :: "'d vu_upper" where
  "vuOPMULA E k v =
     (let m = (\<lambda>i j v. f_mul (VUFPCR E k) (vuDouble E (VF v (vFs v) i)) (vuDouble E (VF v (vFt v) j)));
          put = (\<lambda>i f v. case VU_MAC_UPDATE E k (3 - unat i) f v of (r, v) \<Rightarrow> v\<lparr>VACC := (VACC v)(i := r)\<rparr>);
          v = put 0 (m 1 2 v) v; v = put 1 (m 2 0 v) v; v = put 2 (m 0 1 v) v
      in VU_STAT_UPDATE v)"

definition vuOPMSUB :: "'d vu_upper" where
  "vuOPMSUB E k v =
     (let ft = (\<lambda>i. vuDouble E (VF v (vFt v) i)); fs = (\<lambda>i. vuDouble E (VF v (vFs v) i));
          g = (\<lambda>i a b v. mul_sub E (VUFPCR E k) (vuDouble E (VACC v i)) (fs a) (ft b));
          put = (\<lambda>i f v. case VU_MAC_UPDATE E k (3 - unat i) f v of (r, v) \<Rightarrow> put_dst Dst_Fd i r v);
          v = put 0 (g 0 1 2 v) v; v = put 1 (g 1 2 0 v) v; v = put 2 (g 2 0 1 v) v
      in VU_STAT_UPDATE v)"

definition vuNOP :: "'d vu_upper" where "vuNOP E k v = v"

section \<open>Conversions and clipping\<close>

definition floatToInt :: "'d vu_env \<Rightarrow> nat \<Rightarrow> u32 \<Rightarrow> u32 \<Rightarrow> u32" where
  "floatToInt E k Offset uvalue =
     (let uvalue = (if Offset \<noteq> 0 then f_mul (VUFPCR E k) uvalue (0x3f800000 + push_bit 23 Offset) else uvalue)
      in if 0x4f000000 \<le> uvalue AND 0x7f800000
         then (if uvalue AND 0x80000000 \<noteq> 0 then 0x80000000 else 0x7fffffff)
         else word_of_int (f_trunc (VUFPCR E k) uvalue))"

definition intToFloat :: "'d vu_env \<Rightarrow> nat \<Rightarrow> u32 \<Rightarrow> u32 \<Rightarrow> u32" where
  "intToFloat E k Offset uvalue =
     (let fvalue = f_of_int (VUFPCR E k) (sint uvalue)
      in if Offset \<noteq> 0 then f_mul (VUFPCR E k) fvalue (0x3f800000 - push_bit 23 Offset) else fvalue)"

definition vuFTOI0 :: "'d vu_upper" where "vuFTOI0 E k = applyUnaryFunction (floatToInt E k 0)"
definition vuFTOI4 :: "'d vu_upper" where "vuFTOI4 E k = applyUnaryFunction (floatToInt E k 4)"
definition vuFTOI12 :: "'d vu_upper" where "vuFTOI12 E k = applyUnaryFunction (floatToInt E k 12)"
definition vuFTOI15 :: "'d vu_upper" where "vuFTOI15 E k = applyUnaryFunction (floatToInt E k 15)"
definition vuITOF0 :: "'d vu_upper" where "vuITOF0 E k = applyUnaryFunction (intToFloat E k 0)"
definition vuITOF4 :: "'d vu_upper" where "vuITOF4 E k = applyUnaryFunction (intToFloat E k 4)"
definition vuITOF12 :: "'d vu_upper" where "vuITOF12 E k = applyUnaryFunction (intToFloat E k 12)"
definition vuITOF15 :: "'d vu_upper" where "vuITOF15 E k = applyUnaryFunction (intToFloat E k 15)"

definition vuCLIP :: "'d vu_upper" where
  "vuCLIP E k v =
     (let value = VF v (vFt v) 3;
          value = (if value AND 0x7f800000 \<noteq> 0 then value AND 0x7fffffff else 0x007fffff);
          neg = 0x80000000; x = VF v (vFs v) 0; y = VF v (vFs v) 1; z = VF v (vFs v) 2;
          c = push_bit 6 (clipflag v);
          c = (if value <s x then c OR 0x01 else c);
          c = (if value <s x XOR neg then c OR 0x02 else c);
          c = (if value <s y then c OR 0x04 else c);
          c = (if value <s y XOR neg then c OR 0x08 else c);
          c = (if value <s z then c OR 0x10 else c);
          c = (if value <s z XOR neg then c OR 0x20 else c)
      in v\<lparr>clipflag := c AND 0xFFFFFF\<rparr>)"

end
