(* ===== verification/VU_Lower.thy ===== *)
theory VU_Lower
  imports VU_Upper
begin

text \<open>
  Lower instructions of the vector units (\<^verbatim>\<open>pcsx2/VUops.cpp\<close>): division and roots, integer
  arithmetic, moves, loads and stores, the random number register, flags, branches, and the
  elementary functions. The polynomials of the arctangent, sine and exponential, which the code
  evaluates in double precision with the library's \<^verbatim>\<open>pow\<close>, are parameters.
\<close>

section \<open>Division and roots\<close>

type_synonym 'd vu_lower = "'d vu_env \<Rightarrow> nat \<Rightarrow> VURegs \<Rightarrow> VURegs"

definition vuFtVal :: "VURegs \<Rightarrow> u32" where "vuFtVal v = VF v (vFt v) (vFtf v)"
definition vuFsVal :: "VURegs \<Rightarrow> u32" where "vuFsVal v = VF v (vFs v) (vFsf v)"

definition vuDIV :: "'d vu_lower" where
  "vuDIV E k v =
     (let ft = vuDouble E (vuFtVal v); fs = vuDouble E (vuFsVal v); st = statusflag v AND NOT 0x30 in
      if f_eq ft 0
      then v\<lparr>statusflag := (if f_eq fs 0 then st OR 0x10 else st OR 0x20),
             vq := (if (vuFtVal v AND 0x80000000) XOR (vuFsVal v AND 0x80000000) \<noteq> 0 then 0xFF7FFFFF else 0x7F7FFFFF)\<rparr>
      else v\<lparr>statusflag := st, vq := vuDouble E (f_div (VUFPCR E k) fs ft)\<rparr>)"

definition vuSQRT :: "'d vu_lower" where
  "vuSQRT E k v =
     (let ft = vuDouble E (vuFtVal v); st = statusflag v AND NOT 0x30 in
      v\<lparr>statusflag := (if f_less ft 0 then st OR 0x10 else st),
        vq := vuDouble E (f_sqrt (VUFPCR E k) (ft AND 0x7FFFFFFF))\<rparr>)"

definition vuRSQRT :: "'d vu_lower" where
  "vuRSQRT E k v =
     (let ft = vuDouble E (vuFtVal v); fs = vuDouble E (vuFsVal v); st = statusflag v AND NOT 0x30;
          differ = (vuFtVal v AND 0x80000000) XOR (vuFsVal v AND 0x80000000) \<noteq> 0 in
      if f_eq ft 0
      then let st = st OR 0x20 in
           if \<not> f_eq fs 0 then v\<lparr>statusflag := st, vq := (if differ then 0xFF7FFFFF else 0x7F7FFFFF)\<rparr>
           else v\<lparr>statusflag := st OR 0x10, vq := (if differ then 0x80000000 else 0)\<rparr>
      else let st = (if f_less ft 0 then st OR 0x10 else st);
               temp = f_sqrt (VUFPCR E k) (ft AND 0x7FFFFFFF)
           in v\<lparr>statusflag := st, vq := vuDouble E (f_div (VUFPCR E k) fs temp)\<rparr>)"

section \<open>Integer arithmetic and moves\<close>

definition imm5 :: "VURegs \<Rightarrow> u16" where
  "imm5 v = (let imm = ucast (drop_bit 6 (vcode v) AND 0x1f) :: u16 in (if imm AND 0x10 \<noteq> 0 then 0xfff0 else 0) OR (imm AND 0xf))"

definition imm15 :: "VURegs \<Rightarrow> u16" where
  "imm15 v = ucast ((drop_bit 10 (vcode v) AND 0x7800) OR (vcode v AND 0x7ff))"

definition imm11s :: "VURegs \<Rightarrow> u16" where
  "imm11s v = (if vcode v AND 0x400 \<noteq> 0 then ucast ((vcode v AND 0x3ff) OR 0xfc00) else ucast (vcode v AND 0x3ff))"

definition vuIADDI :: "'d vu_lower" where
  "vuIADDI E k v = (if vIt v = 0 then v else let v = vuBackupVI (vIt v) v in wVIus (vIt v) (VIus (vIs v) v + imm5 v) v)"

definition vuIADDIU :: "'d vu_lower" where
  "vuIADDIU E k v = (if vIt v = 0 then v else let v = vuBackupVI (vIt v) v in wVIus (vIt v) (VIus (vIs v) v + imm15 v) v)"

definition vuISUBIU :: "'d vu_lower" where
  "vuISUBIU E k v = (if vIt v = 0 then v else let v = vuBackupVI (vIt v) v in wVIus (vIt v) (VIus (vIs v) v - imm15 v) v)"

definition vuIADD :: "'d vu_lower" where
  "vuIADD E k v = (if vId v = 0 then v else let v = vuBackupVI (vId v) v in wVIus (vId v) (VIus (vIs v) v + VIus (vIt v) v) v)"

definition vuIAND :: "'d vu_lower" where
  "vuIAND E k v = (if vId v = 0 then v else let v = vuBackupVI (vId v) v in wVIus (vId v) (VIus (vIs v) v AND VIus (vIt v) v) v)"

definition vuIOR :: "'d vu_lower" where
  "vuIOR E k v = (if vId v = 0 then v else let v = vuBackupVI (vId v) v in wVIus (vId v) (VIus (vIs v) v OR VIus (vIt v) v) v)"

definition vuISUB :: "'d vu_lower" where
  "vuISUB E k v = (if vId v = 0 then v else let v = vuBackupVI (vId v) v in wVIus (vId v) (VIus (vIs v) v - VIus (vIt v) v) v)"

definition vuMOVE :: "'d vu_lower" where
  "vuMOVE E k v = (if vFt v = 0 then v else sel_lanes (\<lambda>i v. wVF (vFt v) i (VF v (vFs v) i) v) v)"

definition vuMFIR :: "'d vu_lower" where
  "vuMFIR E k v = (if vFt v = 0 then v else sel_lanes (\<lambda>i v. wVF (vFt v) i (scast (VIus (vIs v) v)) v) v)"

definition vuMTIR :: "'d vu_lower" where
  "vuMTIR E k v = (if vIt v = 0 then v else let v = vuBackupVI (vIt v) v in wVIus (vIt v) (ucast (vuFsVal v)) v)"

definition vuMR32 :: "'d vu_lower" where
  "vuMR32 E k v =
     (if vFt v = 0 then v
      else let tx = VF v (vFs v) 0;
               v = (if vSel 0 v then wVF (vFt v) 0 (VF v (vFs v) 1) v else v);
               v = (if vSel 1 v then wVF (vFt v) 1 (VF v (vFs v) 2) v else v);
               v = (if vSel 2 v then wVF (vFt v) 2 (VF v (vFs v) 3) v else v)
           in if vSel 3 v then wVF (vFt v) 3 tx v else v)"

section \<open>Memory\<close>

text \<open>Where an address leads: a quadword of a unit's memory, or, for the second half of the map of unit
  0, a register of unit 1.\<close>

datatype vu_loc = LMem nat nat | LVF "5 word" | LVI "5 word"

definition GET_VU_MEM :: "nat \<Rightarrow> u32 \<Rightarrow> vu_loc" where
  "GET_VU_MEM k addr =
     (if k \<noteq> 0 then LMem 1 (unat (addr AND 0x3fff) div 16)
      else if addr AND 0x4000 \<noteq> 0
      then let r = unat (addr AND 0x3ff) div 16 in if r < 32 then LVF (of_nat r) else LVI (of_nat (r - 32))
      else LMem 0 (unat (addr AND 0xfff) div 16))"

definition vu_word :: "vu_loc \<Rightarrow> 2 word \<Rightarrow> 'd vus \<Rightarrow> u32" where
  "vu_word l i s =
     (case l of
        LMem k q \<Rightarrow> VMem (get_vu k s) q i
      | LVF r \<Rightarrow> VF (vu1 s) r i
      | LVI r \<Rightarrow> if i = 0 then VI (vu1 s) r else VIpad (vu1 s) r i)"

definition vu_store :: "vu_loc \<Rightarrow> 2 word \<Rightarrow> u32 \<Rightarrow> 'd vus \<Rightarrow> 'd vus" where
  "vu_store l i x s =
     (case l of
        LMem k q \<Rightarrow> on_vu k (\<lambda>v. v\<lparr>VMem := (VMem v)(q := (VMem v q)(i := x))\<rparr>) s
      | LVF r \<Rightarrow> on_vu 1 (wVF r i x) s
      | LVI r \<Rightarrow> on_vu 1 (\<lambda>v. if i = 0 then wVI r x v else v\<lparr>VIpad := (VIpad v)(r := (VIpad v r)(i := x))\<rparr>) s)"

definition sel_words :: "nat \<Rightarrow> (2 word \<Rightarrow> 'd vus \<Rightarrow> 'd vus) \<Rightarrow> 'd vus \<Rightarrow> 'd vus" where
  "sel_words k f s = fold (\<lambda>i s. if vSel i (get_vu k s) then f i s else s) [0, 1, 2, 3] s"

definition load_quad :: "nat \<Rightarrow> vu_loc \<Rightarrow> 'd vus \<Rightarrow> 'd vus" where
  "load_quad k l = sel_words k (\<lambda>i s. on_vu k (\<lambda>v. wVF (vFt v) i (vu_word l i s) v) s)"

definition store_quad :: "nat \<Rightarrow> vu_loc \<Rightarrow> 'd vus \<Rightarrow> 'd vus" where
  "store_quad k l = sel_words k (\<lambda>i s. vu_store l i (VF (get_vu k s) (vFs (get_vu k s)) i) s)"

definition load_half :: "nat \<Rightarrow> vu_loc \<Rightarrow> 'd vus \<Rightarrow> 'd vus" where
  "load_half k l = sel_words k (\<lambda>i s. on_vu k (\<lambda>v. wVIus (vIt v) (ucast (vu_word l i s)) v) s)"

definition store_half :: "nat \<Rightarrow> vu_loc \<Rightarrow> 'd vus \<Rightarrow> 'd vus" where
  "store_half k l = sel_words k (\<lambda>i s. let v = get_vu k s in vu_store l i (ucast (VIus (vIt v) v)) s)"

text \<open>Addresses: an offset added in 16 bits, or the register alone.\<close>

definition quad_addr :: "5 word \<Rightarrow> VURegs \<Rightarrow> u32" where
  "quad_addr r v = ucast ((imm11s v + VIus r v) * 16)"

definition reg_addr :: "5 word \<Rightarrow> VURegs \<Rightarrow> u32" where
  "reg_addr r v = ucast (VIus r v) * 16"

type_synonym 'd vu_mem = "'d vu_env \<Rightarrow> nat \<Rightarrow> 'd vus \<Rightarrow> 'd vus"

definition vuLQ :: "'d vu_mem" where
  "vuLQ E k s = (let v = get_vu k s in if vFt v = 0 then s else load_quad k (GET_VU_MEM k (quad_addr (vIs v) v)) s)"

definition vuLQD :: "'d vu_mem" where
  "vuLQD E k s =
     (let s = on_vu k (\<lambda>v. let v = vuBackupVI (vIs v) v in if vIs v \<noteq> 0 then wVIus (vIs v) (VIus (vIs v) v - 1) v else v) s;
          v = get_vu k s
      in if vFt v = 0 then s else load_quad k (GET_VU_MEM k (reg_addr (vIs v) v)) s)"

definition vuLQI :: "'d vu_mem" where
  "vuLQI E k s =
     (let s = on_vu k (\<lambda>v. vuBackupVI (vIs v) v) s; v = get_vu k s;
          s = (if vFt v \<noteq> 0 then load_quad k (GET_VU_MEM k (reg_addr (vIs v) v)) s else s)
      in on_vu k (\<lambda>v. if vFs v \<noteq> 0 then wVIus (vIs v) (VIus (vIs v) v + 1) v else v) s)"

definition vuSQ :: "'d vu_mem" where
  "vuSQ E k s = (let v = get_vu k s in store_quad k (GET_VU_MEM k (quad_addr (vIt v) v)) s)"

definition vuSQD :: "'d vu_mem" where
  "vuSQD E k s =
     (let s = on_vu k (\<lambda>v. let v = vuBackupVI (vIt v) v in if vFt v \<noteq> 0 then wVIus (vIt v) (VIus (vIt v) v - 1) v else v) s;
          v = get_vu k s
      in store_quad k (GET_VU_MEM k (reg_addr (vIt v) v)) s)"

definition vuSQI :: "'d vu_mem" where
  "vuSQI E k s =
     (let s = on_vu k (\<lambda>v. vuBackupVI (vIt v) v) s; v = get_vu k s;
          s = store_quad k (GET_VU_MEM k (reg_addr (vIt v) v)) s
      in on_vu k (\<lambda>v. if vFt v \<noteq> 0 then wVIus (vIt v) (VIus (vIt v) v + 1) v else v) s)"

definition vuILW :: "'d vu_mem" where
  "vuILW E k s = (let v = get_vu k s in if vIt v = 0 then s else load_half k (GET_VU_MEM k (quad_addr (vIs v) v)) s)"

definition vuISW :: "'d vu_mem" where
  "vuISW E k s = (let v = get_vu k s in store_half k (GET_VU_MEM k (quad_addr (vIs v) v)) s)"

definition vuILWR :: "'d vu_mem" where
  "vuILWR E k s = (let v = get_vu k s in if vIt v = 0 then s else load_half k (GET_VU_MEM k (reg_addr (vIs v) v)) s)"

definition vuISWR :: "'d vu_mem" where
  "vuISWR E k s = (let v = get_vu k s in store_half k (GET_VU_MEM k (reg_addr (vIs v) v)) s)"

section \<open>Random numbers and flags\<close>

definition AdvanceLFSR :: "u32 \<Rightarrow> u32" where
  "AdvanceLFSR r =
     (let x = drop_bit 4 r AND 1; y = drop_bit 22 r AND 1 in ((push_bit 1 r XOR (x XOR y)) AND 0x7fffff) OR 0x3f800000)"

definition vuRINIT :: "'d vu_lower" where
  "vuRINIT E k v = wVI REG_R (0x3F800000 OR (vuFsVal v AND 0x007FFFFF)) v"

definition vuRGET :: "'d vu_lower" where
  "vuRGET E k v = (if vFt v = 0 then v else sel_lanes (\<lambda>i v. wVF (vFt v) i (VI v REG_R) v) v)"

definition vuRNEXT :: "'d vu_lower" where
  "vuRNEXT E k v =
     (if vFt v = 0 then v
      else let v = wVI REG_R (AdvanceLFSR (VI v REG_R)) v in sel_lanes (\<lambda>i v. wVF (vFt v) i (VI v REG_R) v) v)"

definition vuRXOR :: "'d vu_lower" where
  "vuRXOR E k v = wVI REG_R (0x3F800000 OR ((VI v REG_R XOR vuFsVal v) AND 0x007FFFFF)) v"

definition vuWAITQ :: "'d vu_lower" where "vuWAITQ E k v = v"
definition vuWAITP :: "'d vu_lower" where "vuWAITP E k v = v"

definition imm12 :: "VURegs \<Rightarrow> u16" where
  "imm12 v = ucast (push_bit 11 (drop_bit 21 (vcode v) AND 0x1) OR (vcode v AND 0x7ff))"

definition vuFSAND :: "'d vu_lower" where
  "vuFSAND E k v = (if vIt v = 0 then v else wVIus (vIt v) ((VIus REG_STATUS_FLAG v AND 0xFFF) AND imm12 v) v)"

definition vuFSEQ :: "'d vu_lower" where
  "vuFSEQ E k v = (if vIt v = 0 then v else wVIus (vIt v) (if VIus REG_STATUS_FLAG v AND 0xFFF = imm12 v then 1 else 0) v)"

definition vuFSOR :: "'d vu_lower" where
  "vuFSOR E k v = (if vIt v = 0 then v else wVIus (vIt v) ((VIus REG_STATUS_FLAG v AND 0xFFF) OR imm12 v) v)"

definition vuFSSET :: "'d vu_lower" where
  "vuFSSET E k v = v\<lparr>statusflag := (ucast (imm12 v) AND 0xFC0) OR (statusflag v AND 0x3F)\<rparr>"

definition vuFMAND :: "'d vu_lower" where
  "vuFMAND E k v = (if vIt v = 0 then v else wVIus (vIt v) (VIus (vIs v) v AND VIus REG_MAC_FLAG v) v)"

definition vuFMEQ :: "'d vu_lower" where
  "vuFMEQ E k v = (if vIt v = 0 then v else wVIus (vIt v) (if VIus REG_MAC_FLAG v = VIus (vIs v) v then 1 else 0) v)"

definition vuFMOR :: "'d vu_lower" where
  "vuFMOR E k v = (if vIt v = 0 then v else wVIus (vIt v) (VIus REG_MAC_FLAG v OR VIus (vIs v) v) v)"

definition vuFCAND :: "'d vu_lower" where
  "vuFCAND E k v = wVIus 1 (if (VI v REG_CLIP_FLAG AND 0xFFFFFF) AND (vcode v AND 0xFFFFFF) \<noteq> 0 then 1 else 0) v"

definition vuFCEQ :: "'d vu_lower" where
  "vuFCEQ E k v = wVIus 1 (if VI v REG_CLIP_FLAG AND 0xFFFFFF = vcode v AND 0xFFFFFF then 1 else 0) v"

definition vuFCOR :: "'d vu_lower" where
  "vuFCOR E k v = wVIus 1 (if (VI v REG_CLIP_FLAG AND 0xFFFFFF) OR (vcode v AND 0xFFFFFF) = 0xFFFFFF then 1 else 0) v"

definition vuFCSET :: "'d vu_lower" where
  "vuFCSET E k v = v\<lparr>clipflag := vcode v AND 0xFFFFFF\<rparr>"

definition vuFCGET :: "'d vu_lower" where
  "vuFCGET E k v = (if vIt v = 0 then v else wVIus (vIt v) (ucast (VI v REG_CLIP_FLAG AND 0x0FFF)) v)"

section \<open>Branches\<close>

definition branchAddr :: "nat \<Rightarrow> VURegs \<Rightarrow> u32" where
  "branchAddr k v = (VI v REG_TPC + vImm11 v * 8) AND (if k \<noteq> 0 then 0x3fff else 0x0fff)"

definition setBranch :: "u32 \<Rightarrow> VURegs \<Rightarrow> VURegs" where
  "setBranch bpc v =
     (if vbranch v = 1 then v\<lparr>delaybranchpc := bpc, takedelaybranch := True\<rparr> else v\<lparr>vbranch := 2, vbranchpc := bpc\<rparr>)"

text \<open>An integer register as a branch sees it.\<close>

definition branch_VI :: "5 word \<Rightarrow> VURegs \<Rightarrow> u16" where
  "branch_VI r v = (if 0 < VIBackupCycles v \<and> VIRegNumber v = ucast r then ucast (VIOldValue v) else VIus r v)"

definition vuIBEQ :: "'d vu_lower" where
  "vuIBEQ E k v = (if branch_VI (vIt v) v = branch_VI (vIs v) v then setBranch (branchAddr k v) v else v)"

definition vuIBNE :: "'d vu_lower" where
  "vuIBNE E k v = (if branch_VI (vIt v) v \<noteq> branch_VI (vIs v) v then setBranch (branchAddr k v) v else v)"

definition vuIBGEZ :: "'d vu_lower" where
  "vuIBGEZ E k v = (if 0 \<le>s branch_VI (vIs v) v then setBranch (branchAddr k v) v else v)"

definition vuIBGTZ :: "'d vu_lower" where
  "vuIBGTZ E k v = (if 0 <s branch_VI (vIs v) v then setBranch (branchAddr k v) v else v)"

definition vuIBLEZ :: "'d vu_lower" where
  "vuIBLEZ E k v = (if branch_VI (vIs v) v \<le>s 0 then setBranch (branchAddr k v) v else v)"

definition vuIBLTZ :: "'d vu_lower" where
  "vuIBLTZ E k v = (if branch_VI (vIs v) v <s 0 then setBranch (branchAddr k v) v else v)"

definition vuB :: "'d vu_lower" where
  "vuB E k v = setBranch (branchAddr k v) v"

definition vu_link :: "VURegs \<Rightarrow> VURegs" where
  "vu_link v =
     (if vIt v = 0 then v
      else wVIus (vIt v) (ucast ((if vbranch v = 1 then vbranchpc v + 8 else VI v REG_TPC + 8) div 8)) v)"

definition vuBAL :: "'d vu_lower" where
  "vuBAL E k v = (let bpc = branchAddr k v in setBranch bpc (vu_link v))"

definition vuJR :: "'d vu_lower" where
  "vuJR E k v = setBranch (ucast (VIus (vIs v) v) * 8) v"

definition vuJALR :: "'d vu_lower" where
  "vuJALR E k v = (let bpc = ucast (VIus (vIs v) v) * 8 in setBranch bpc (vu_link v))"

section \<open>Elementary functions\<close>

definition vuMFP :: "'d vu_lower" where
  "vuMFP E k v = (if vFt v = 0 then v else sel_lanes (\<lambda>i v. wVF (vFt v) i (VI v REG_P) v) v)"

definition wp :: "u32 \<Rightarrow> VURegs \<Rightarrow> VURegs" where "wp x v = v\<lparr>vp := x\<rparr>"

text \<open>Lane \<open>i\<close> of the operand, and the sum of the squares of its first three lanes, where the compiler may
  fuse the third square with the outer sum and either of the others with the inner one.\<close>

definition efu_in :: "'d vu_env \<Rightarrow> 2 word \<Rightarrow> VURegs \<Rightarrow> u32" where
  "efu_in E i v = vuDouble E (VF v (vFs v) i)"

definition sum_squares :: "'d vu_env \<Rightarrow> nat \<Rightarrow> VURegs \<Rightarrow> u32" where
  "sum_squares E k v =
     (let c = VUFPCR E k; x = (\<lambda>i. efu_in E i v); sq = (\<lambda>i. f_mul c (x i) (x i)) in
      mul_add E c (if VUContract E \<and> VUContractLeft E then mul_add E c (sq 1) (x 0) (x 0) else mul_add E c (sq 0) (x 1) (x 1)) (x 2) (x 2))"

abbreviation (input) f_one :: u32 where "f_one \<equiv> 0x3F800000"

definition vuESADD :: "'d vu_lower" where
  "vuESADD E k v = wp (sum_squares E k v) v"

definition vuERSADD :: "'d vu_lower" where
  "vuERSADD E k v = (let p = sum_squares E k v in wp (if f_eq (daz (VUFPCR E k) p) 0 then p else f_div (VUFPCR E k) f_one p) v)"

definition vuELENG :: "'d vu_lower" where
  "vuELENG E k v = (let p = sum_squares E k v in wp (if f_le 0 p then f_sqrt (VUFPCR E k) p else p) v)"

definition vuERLENG :: "'d vu_lower" where
  "vuERLENG E k v =
     (let c = VUFPCR E k; p = sum_squares E k v in
      wp (if f_le 0 p then let p = f_sqrt c p in if f_eq (daz c p) 0 then p else f_div c f_one p else p) v)"

definition vuCalculateEATAN :: "'d vu_env \<Rightarrow> nat \<Rightarrow> u32 \<Rightarrow> u32" where
  "vuCalculateEATAN E k x = vuDouble E (f_add (VUFPCR E k) (eatan_sum E x) 0x3F490FDB)"

definition vuEATAN :: "'d vu_lower" where
  "vuEATAN E k v = wp (vuCalculateEATAN E k (vuDouble E (vuFsVal v))) v"

definition vuEATANxy :: "'d vu_lower" where
  "vuEATANxy E k v =
     wp (if f_eq (efu_in E 0 v) 0 then 0 else vuCalculateEATAN E k (f_div (VUFPCR E k) (efu_in E 1 v) (efu_in E 0 v))) v"

definition vuEATANxz :: "'d vu_lower" where
  "vuEATANxz E k v =
     wp (if f_eq (efu_in E 0 v) 0 then 0 else vuCalculateEATAN E k (f_div (VUFPCR E k) (efu_in E 2 v) (efu_in E 0 v))) v"

definition vuESUM :: "'d vu_lower" where
  "vuESUM E k v =
     (let c = VUFPCR E k in wp (f_add c (f_add c (f_add c (efu_in E 0 v) (efu_in E 1 v)) (efu_in E 2 v)) (efu_in E 3 v)) v)"

definition vuERCPR :: "'d vu_lower" where
  "vuERCPR E k v = (let p = vuDouble E (vuFsVal v) in wp (if f_eq p 0 then p else f_div (VUFPCR E k) f_one p) v)"

definition vuESQRT :: "'d vu_lower" where
  "vuESQRT E k v = (let p = vuDouble E (vuFsVal v) in wp (if f_le 0 p then f_sqrt (VUFPCR E k) p else p) v)"

definition vuERSQRT :: "'d vu_lower" where
  "vuERSQRT E k v =
     (let c = VUFPCR E k; p = vuDouble E (vuFsVal v) in
      wp (if f_le 0 p then let p = f_sqrt c p in if f_eq (daz c p) 0 then p else f_div c f_one p else p) v)"

definition vuESIN :: "'d vu_lower" where
  "vuESIN E k v = wp (vuDouble E (esin_sum E (vuDouble E (vuFsVal v)))) v"

definition vuEEXP :: "'d vu_lower" where
  "vuEEXP E k v = wp (f_div (VUFPCR E k) f_one (vuDouble E (eexp_sum E (vuDouble E (vuFsVal v))))) v"

section \<open>Transfers\<close>

definition vuXITOP :: "'d vu_mem" where
  "vuXITOP E k s = on_vu k (\<lambda>v. if vIt v = 0 then v else wVIus (vIt v) (vif_itop E k (vdev s)) v) s"

definition vuXTOP :: "'d vu_mem" where
  "vuXTOP E k s = on_vu k (\<lambda>v. if vIt v = 0 then v else wVIus (vIt v) (vif_top E k (vdev s)) v) s"

definition vuXGKICK :: "'d vu_mem" where
  "vuXGKICK E k s =
     (let s = (if xgkickenable (get_vu k s) then vuXGKICKTransfer E 0 True s else s);
          s = on_vu k (\<lambda>v. let addr = (ucast (VIus (vIs v) v) AND 0x3ff) * 16 in
                v\<lparr>xgkickenable := True, xgkickaddr := addr, xgkickdiff := 0x4000 - addr, xgkicksizeremaining := 0,
                  xgkickendpacket := False, xgkicklastcycle := vcycle v, xgkickcyclecount := 1\<rparr>) s
      in on_vu 0 (\<lambda>v. wVI REG_VPU_STAT (VI v REG_VPU_STAT OR 0x1000) v) s)"

end
