(* ===== verification/VU_Regs.thy ===== *)
theory VU_Regs
  imports VU_Lower
begin

text \<open>
  What an instruction of the vector units reads and writes, and its pipeline and latency: the
  functions \<^verbatim>\<open>_vuRegs*\<close> of \<^verbatim>\<open>pcsx2/VUops.cpp\<close>. Each sets only some fields of the descriptor;
  the others keep what the caller's variable held. Macros that the code expands for many
  instructions are functions of the macro's arguments.
\<close>

type_synonym vu_regs = "VURegs \<Rightarrow> VURegsNum \<Rightarrow> VURegsNum"

definition vi_bit :: "5 word \<Rightarrow> u32" where "vi_bit r = push_bit (unat r) 1"
definition lane_bit :: "2 word \<Rightarrow> u32" where "lane_bit f = push_bit (3 - unat f) 1"
definition vf0_flag :: "5 word \<Rightarrow> u32" where "vf0_flag r = (if r = 0 then BIT_VF0 else 0)"

definition regs_FDFSI :: "bool \<Rightarrow> vu_regs" where
  "regs_FDFSI acc v n = n\<lparr>pipe := VUPIPE_FMAC, VFwrite := ucast (vFd v), VFwxyzw := vXYZW v, VFread0 := ucast (vFs v),
     VFr0xyzw := vXYZW v, VFread1 := 0, VIwrite := 0,
     VIread := BIT_I OR (if acc then BIT_ACC else 0) OR vf0_flag (vFs v)\<rparr>"

definition regs_FDFSQ :: "bool \<Rightarrow> vu_regs" where
  "regs_FDFSQ acc v n = n\<lparr>pipe := VUPIPE_FMAC, VFwrite := ucast (vFd v), VFwxyzw := vXYZW v, VFread0 := ucast (vFs v),
     VFr0xyzw := vXYZW v, VFread1 := 0, VIwrite := 0,
     VIread := BIT_Q OR (if acc then BIT_ACC else 0) OR vf0_flag (vFs v)\<rparr>"

definition regs_FDFSFT :: "bool \<Rightarrow> vu_regs" where
  "regs_FDFSFT acc v n = n\<lparr>pipe := VUPIPE_FMAC, VFwrite := ucast (vFd v), VFwxyzw := vXYZW v, VFread0 := ucast (vFs v),
     VFr0xyzw := vXYZW v, VFread1 := ucast (vFt v), VFr1xyzw := vXYZW v, VIwrite := 0,
     VIread := (if acc then BIT_ACC else 0) OR vf0_flag (vFs v) OR vf0_flag (vFt v)\<rparr>"

definition regs_FDFSFTxyzw :: "u32 \<Rightarrow> bool \<Rightarrow> vu_regs" where
  "regs_FDFSFTxyzw xyzw acc v n = n\<lparr>pipe := VUPIPE_FMAC, VFwrite := ucast (vFd v), VFwxyzw := vXYZW v, VFread0 := ucast (vFs v),
     VFr0xyzw := vXYZW v, VFread1 := ucast (vFt v), VFr1xyzw := xyzw, VIwrite := 0,
     VIread := (if acc then BIT_ACC else 0) OR vf0_flag (vFs v) OR vf0_flag (vFt v)\<rparr>"

definition regs_ACCFSI :: "bool \<Rightarrow> vu_regs" where
  "regs_ACCFSI readacc v n = n\<lparr>pipe := VUPIPE_FMAC, VFwrite := 0, VFwxyzw := vXYZW v, VFread0 := ucast (vFs v), VFr0xyzw := vXYZW v,
     VFread1 := 0, VIwrite := BIT_ACC,
     VIread := BIT_I OR vf0_flag (vFs v) OR (if readacc \<or> vXYZW v \<noteq> 15 then BIT_ACC else 0)\<rparr>"

definition regs_ACCFSQ :: "bool \<Rightarrow> vu_regs" where
  "regs_ACCFSQ readacc v n = n\<lparr>pipe := VUPIPE_FMAC, VFwrite := 0, VFwxyzw := vXYZW v, VFread0 := ucast (vFs v), VFr0xyzw := vXYZW v,
     VFread1 := 0, VIwrite := BIT_ACC,
     VIread := BIT_Q OR vf0_flag (vFs v) OR (if readacc \<or> vXYZW v \<noteq> 15 then BIT_ACC else 0)\<rparr>"

definition regs_ACCFSFT :: "bool \<Rightarrow> vu_regs" where
  "regs_ACCFSFT readacc v n = n\<lparr>pipe := VUPIPE_FMAC, VFwrite := 0, VFwxyzw := vXYZW v, VFread0 := ucast (vFs v), VFr0xyzw := vXYZW v,
     VFread1 := ucast (vFt v), VFr1xyzw := vXYZW v, VIwrite := BIT_ACC,
     VIread := vf0_flag (vFs v) OR vf0_flag (vFt v) OR (if readacc \<or> vXYZW v \<noteq> 15 then BIT_ACC else 0)\<rparr>"

definition regs_ACCFSFTxyzw :: "u32 \<Rightarrow> bool \<Rightarrow> vu_regs" where
  "regs_ACCFSFTxyzw xyzw readacc v n = n\<lparr>pipe := VUPIPE_FMAC, VFwrite := 0, VFwxyzw := vXYZW v, VFread0 := ucast (vFs v), VFr0xyzw := vXYZW v,
     VFread1 := ucast (vFt v), VFr1xyzw := xyzw, VIwrite := BIT_ACC,
     VIread := vf0_flag (vFs v) OR vf0_flag (vFt v) OR (if readacc \<or> vXYZW v \<noteq> 15 then BIT_ACC else 0)\<rparr>"

definition regs_FTFS :: "vu_regs" where
  "regs_FTFS v n = n\<lparr>pipe := VUPIPE_FMAC, VFwrite := ucast (vFt v), VFwxyzw := vXYZW v, VFread0 := ucast (vFs v),
     VFr0xyzw := vXYZW v, VFread1 := 0, VFr1xyzw := 0xff, VIwrite := 0,
     VIread := if vFt v \<noteq> 0 then vf0_flag (vFs v) else 0\<rparr>"

definition regs_IDISIT :: "vu_regs" where
  "regs_IDISIT v n = n\<lparr>pipe := VUPIPE_IALU, VFwrite := 0, VFread0 := 0, VFread1 := 0, VIwrite := vi_bit (vId v),
     VIread := vi_bit (vIs v) OR vi_bit (vIt v), cycles := 0\<rparr>"

definition regs_ITIS :: "vu_regs" where
  "regs_ITIS v n = n\<lparr>pipe := VUPIPE_IALU, VFwrite := 0, VFread0 := 0, VFread1 := 0, VIwrite := vi_bit (vIt v),
     VIread := vi_bit (vIs v), cycles := 0\<rparr>"

definition regs_PFS_xyzw :: "u32 \<Rightarrow> vu_regs" where
  "regs_PFS_xyzw n_cycles v n = n\<lparr>pipe := VUPIPE_EFU, VFwrite := 0, VFread0 := ucast (vFs v), VFr0xyzw := vXYZW v, VFread1 := 0,
     VIwrite := BIT_P, VIread := vf0_flag (vFs v), cycles := n_cycles\<rparr>"

definition regs_PFS_fsf :: "u32 \<Rightarrow> vu_regs" where
  "regs_PFS_fsf n_cycles v n = n\<lparr>pipe := VUPIPE_EFU, VFwrite := 0, VFread0 := ucast (vFs v), VFr0xyzw := lane_bit (vFsf v), VFread1 := 0,
     VIwrite := BIT_P, VIread := vf0_flag (vFs v), cycles := n_cycles\<rparr>"

definition regs_FDFSFTxyzw_MUL :: "bool \<Rightarrow> u32 \<Rightarrow> vu_regs" where
  "regs_FDFSFTxyzw_MUL acc xyzw v n = n\<lparr>pipe := VUPIPE_FMAC, VFwrite := if acc then 0 else ucast (vFd v), VFwxyzw := vXYZW v,
     VFread0 := ucast (vFs v), VFr0xyzw := vXYZW v, VFread1 := ucast (vFt v), VFr1xyzw := xyzw,
     VIwrite := if acc then BIT_ACC else 0,
     VIread := vf0_flag (vFs v) OR (if acc \<and> vXYZW v \<noteq> 15 then BIT_ACC else 0)\<rparr>"

definition regs_FDFSFT_0_xyzw :: "u32 \<Rightarrow> vu_regs" where
  "regs_FDFSFT_0_xyzw xyzw v n = n\<lparr>pipe := VUPIPE_FMAC, VFwrite := ucast (vFd v), VFwxyzw := vXYZW v, VFread0 := ucast (vFs v),
     VFr0xyzw := vXYZW v, VFread1 := ucast (vFt v), VFr1xyzw := xyzw, VIwrite := 0,
     VIread := BIT_ACC OR (if vFt v \<noteq> 0 then vf0_flag (vFs v) else 0)\<rparr>"

definition regs_MADDw :: "vu_regs" where
  "regs_MADDw v n = n\<lparr>pipe := VUPIPE_FMAC, VFwrite := ucast (vFd v), VFwxyzw := vXYZW v, VFread0 := ucast (vFs v),
     VFr0xyzw := vXYZW v, VFread1 := ucast (vFt v), VFr1xyzw := 1, VIwrite := 0,
     VIread := BIT_ACC OR vf0_flag (vFs v)\<rparr>"

definition regs_OPMULA :: "vu_regs" where
  "regs_OPMULA v n = n\<lparr>pipe := VUPIPE_FMAC, VFwrite := 0, VFwxyzw := 0xE, VFread0 := ucast (vFs v), VFr0xyzw := 0xE,
     VFread1 := ucast (vFt v), VFr1xyzw := 0xE, VIwrite := BIT_ACC,
     VIread := vf0_flag (vFs v) OR vf0_flag (vFt v) OR BIT_ACC\<rparr>"

definition regs_OPMSUB :: "vu_regs" where
  "regs_OPMSUB v n = n\<lparr>pipe := VUPIPE_FMAC, VFwrite := ucast (vFd v), VFwxyzw := 0xE, VFread0 := ucast (vFs v), VFr0xyzw := 0xE,
     VFread1 := ucast (vFt v), VFr1xyzw := 0xE, VIwrite := 0,
     VIread := vf0_flag (vFs v) OR vf0_flag (vFt v) OR BIT_ACC\<rparr>"

definition regs_NOP :: "vu_regs" where
  "regs_NOP v n = n\<lparr>pipe := VUPIPE_NONE, VFwrite := 0, VFread0 := 0, VFread1 := 0, VIwrite := 0, VIread := 0\<rparr>"

definition regs_CLIP :: "vu_regs" where
  "regs_CLIP v n = n\<lparr>pipe := VUPIPE_FMAC, VFwrite := 0, VFread0 := ucast (vFs v), VFr0xyzw := 0xE, VFread1 := ucast (vFt v),
     VFr1xyzw := 0x1, VIwrite := BIT_CLIP, VIread := vf0_flag (vFs v) OR vf0_flag (vFt v) OR BIT_CLIP\<rparr>"

definition regs_DIV :: "vu_regs" where
  "regs_DIV v n = n\<lparr>pipe := VUPIPE_FDIV, VFwrite := 0, VFread0 := ucast (vFs v), VFr0xyzw := lane_bit (vFsf v),
     VFread1 := ucast (vFt v), VFr1xyzw := lane_bit (vFtf v), VIwrite := BIT_Q,
     VIread := vf0_flag (vFs v) OR vf0_flag (vFt v), cycles := 7\<rparr>"

definition regs_SQRT :: "vu_regs" where
  "regs_SQRT v n = n\<lparr>pipe := VUPIPE_FDIV, VFwrite := 0, VFread0 := 0, VFr0xyzw := 0, VFread1 := ucast (vFt v),
     VFr1xyzw := lane_bit (vFtf v), VIwrite := BIT_Q, VIread := vf0_flag (vFt v), cycles := 7\<rparr>"

definition regs_RSQRT :: "vu_regs" where
  "regs_RSQRT v n = n\<lparr>pipe := VUPIPE_FDIV, VFwrite := 0, VFread0 := ucast (vFs v), VFr0xyzw := lane_bit (vFsf v),
     VFread1 := ucast (vFt v), VFr1xyzw := lane_bit (vFtf v), VIwrite := BIT_Q,
     VIread := vf0_flag (vFs v) OR vf0_flag (vFt v), cycles := 13\<rparr>"

definition regs_MOVE :: "vu_regs" where
  "regs_MOVE v n = n\<lparr>pipe := if vFt v = 0 then VUPIPE_NONE else VUPIPE_FMAC, VFwrite := ucast (vFt v), VFwxyzw := vXYZW v,
     VFread0 := ucast (vFs v), VFr0xyzw := vXYZW v, VFread1 := 0, VFr1xyzw := 0, VIwrite := 0,
     VIread := if vFt v \<noteq> 0 then vf0_flag (vFs v) else 0\<rparr>"

definition regs_MFIR :: "vu_regs" where
  "regs_MFIR v n = n\<lparr>pipe := VUPIPE_FMAC, VFwrite := ucast (vFt v), VFwxyzw := vXYZW v, VFread0 := 0, VFread1 := 0, VIwrite := 0,
     VIread := vi_bit (vIs v)\<rparr>"

definition regs_MTIR :: "vu_regs" where
  "regs_MTIR v n = n\<lparr>pipe := VUPIPE_FMAC, VFwrite := 0, VFread0 := ucast (vFs v), VFr0xyzw := lane_bit (vFsf v), VFread1 := 0,
     VIwrite := vi_bit (vIt v), VIread := vf0_flag (vFs v)\<rparr>"

definition regs_MR32 :: "vu_regs" where
  "regs_MR32 v n = n\<lparr>pipe := VUPIPE_FMAC, VFwrite := ucast (vFt v), VFwxyzw := vXYZW v, VFread0 := ucast (vFs v),
     VFr0xyzw := (drop_bit 1 (vXYZW v)) OR (push_bit 3 (vXYZW v) AND 0x8), VFread1 := 0, VFr1xyzw := 0xff,
     VIwrite := 0, VIread := if vFt v \<noteq> 0 then vf0_flag (vFs v) else 0\<rparr>"

definition regs_LQ :: "vu_regs" where
  "regs_LQ v n = n\<lparr>pipe := VUPIPE_FMAC, VFwrite := ucast (vFt v), VFwxyzw := vXYZW v, VFread0 := 0, VFread1 := 0, VIwrite := 0,
     VIread := vi_bit (vIs v)\<rparr>"

definition regs_LQD :: "vu_regs" where
  "regs_LQD v n = n\<lparr>pipe := VUPIPE_FMAC, VFwrite := ucast (vFt v), VFwxyzw := vXYZW v, VFread0 := 0, VFread1 := 0,
     VIwrite := vi_bit (vIs v), VIread := vi_bit (vIs v)\<rparr>"

definition regs_LQI :: "vu_regs" where
  "regs_LQI v n = n\<lparr>pipe := VUPIPE_FMAC, VFwrite := ucast (vFt v), VFwxyzw := vXYZW v, VFread0 := 0, VFread1 := 0,
     VIwrite := vi_bit (vIs v), VIread := vi_bit (vIs v)\<rparr>"

definition regs_SQ :: "vu_regs" where
  "regs_SQ v n = n\<lparr>pipe := VUPIPE_FMAC, VFwrite := 0, VFread0 := ucast (vFs v), VFr0xyzw := vXYZW v, VFread1 := 0,
     VIwrite := 0, VIread := vi_bit (vIt v)\<rparr>"

definition regs_SQD :: "vu_regs" where
  "regs_SQD v n = n\<lparr>pipe := VUPIPE_FMAC, VFwrite := 0, VFread0 := ucast (vFs v), VFr0xyzw := vXYZW v, VFread1 := 0,
     VIwrite := vi_bit (vIt v), VIread := vi_bit (vIt v)\<rparr>"

definition regs_SQI :: "vu_regs" where
  "regs_SQI v n = n\<lparr>pipe := VUPIPE_FMAC, VFwrite := 0, VFread0 := ucast (vFs v), VFr0xyzw := vXYZW v, VFread1 := 0,
     VIwrite := vi_bit (vIt v), VIread := vi_bit (vIt v)\<rparr>"

definition regs_ILW :: "vu_regs" where
  "regs_ILW v n = n\<lparr>pipe := VUPIPE_IALU, VFwrite := 0, VFread0 := 0, VFread1 := 0, VIwrite := vi_bit (vIt v),
     VIread := vi_bit (vIs v), cycles := 4\<rparr>"

definition regs_ISW :: "vu_regs" where
  "regs_ISW v n = n\<lparr>pipe := VUPIPE_IALU, VFwrite := 0, VFread0 := 0, VFread1 := 0, VIwrite := 0,
     VIread := vi_bit (vIs v) OR vi_bit (vIt v)\<rparr>"

definition regs_ILWR :: "vu_regs" where
  "regs_ILWR v n = n\<lparr>pipe := VUPIPE_IALU, VFwrite := 0, VFread0 := 0, VFread1 := 0, VIwrite := vi_bit (vIt v),
     VIread := vi_bit (vIs v), cycles := 4\<rparr>"

definition regs_ISWR :: "vu_regs" where
  "regs_ISWR v n = n\<lparr>pipe := VUPIPE_IALU, VFwrite := 0, VFread0 := 0, VFread1 := 0, VIwrite := 0,
     VIread := vi_bit (vIs v) OR vi_bit (vIt v)\<rparr>"

definition regs_RINIT :: "vu_regs" where
  "regs_RINIT v n = n\<lparr>pipe := VUPIPE_FMAC, VFwrite := 0, VFread0 := ucast (vFs v), VFr0xyzw := lane_bit (vFsf v), VFread1 := 0,
     VIwrite := BIT_R, VIread := vf0_flag (vFs v)\<rparr>"

definition regs_RGET :: "vu_regs" where
  "regs_RGET v n = n\<lparr>pipe := VUPIPE_FMAC, VFwrite := ucast (vFt v), VFwxyzw := vXYZW v, VFread0 := 0, VFread1 := 0, VIwrite := 0,
     VIread := BIT_R\<rparr>"

definition regs_RNEXT :: "vu_regs" where
  "regs_RNEXT v n = n\<lparr>pipe := VUPIPE_FMAC, VFwrite := ucast (vFt v), VFwxyzw := vXYZW v, VFread0 := 0, VFread1 := 0,
     VIwrite := BIT_R, VIread := BIT_R\<rparr>"

definition regs_RXOR :: "vu_regs" where
  "regs_RXOR v n = n\<lparr>pipe := VUPIPE_FMAC, VFwrite := 0, VFread0 := ucast (vFs v), VFr0xyzw := lane_bit (vFsf v), VFread1 := 0,
     VIwrite := BIT_R, VIread := BIT_R OR vf0_flag (vFs v)\<rparr>"

definition regs_WAITQ :: "vu_regs" where
  "regs_WAITQ v n = n\<lparr>pipe := VUPIPE_FDIV, VFwrite := 0, VFread0 := 0, VFread1 := 0, VIwrite := 0, VIread := 0\<rparr>"

definition regs_FSAND :: "vu_regs" where
  "regs_FSAND v n = n\<lparr>pipe := VUPIPE_FMAC, VFwrite := 0, VFread0 := 0, VFread1 := 0, VIwrite := vi_bit (vIt v),
     VIread := BIT_STATUS\<rparr>"

definition regs_FSEQ :: "vu_regs" where
  "regs_FSEQ v n = n\<lparr>pipe := VUPIPE_FMAC, VFwrite := 0, VFread0 := 0, VFread1 := 0, VIwrite := vi_bit (vIt v),
     VIread := BIT_STATUS\<rparr>"

definition regs_FSOR :: "vu_regs" where
  "regs_FSOR v n = n\<lparr>pipe := VUPIPE_FMAC, VFwrite := 0, VFread0 := 0, VFread1 := 0, VIwrite := vi_bit (vIt v),
     VIread := BIT_STATUS\<rparr>"

definition regs_FSSET :: "vu_regs" where
  "regs_FSSET v n = n\<lparr>pipe := VUPIPE_FMAC, VFwrite := 0, VFread0 := 0, VFread1 := 0, VIwrite := BIT_STATUS, VIread := 0\<rparr>"

definition regs_FMAND :: "vu_regs" where
  "regs_FMAND v n = n\<lparr>pipe := VUPIPE_FMAC, VFwrite := 0, VFread0 := 0, VFread1 := 0, VIwrite := vi_bit (vIt v),
     VIread := BIT_MAC OR vi_bit (vIs v)\<rparr>"

definition regs_FMEQ :: "vu_regs" where
  "regs_FMEQ v n = n\<lparr>pipe := VUPIPE_FMAC, VFwrite := 0, VFread0 := 0, VFread1 := 0, VIwrite := vi_bit (vIt v),
     VIread := BIT_MAC OR vi_bit (vIs v)\<rparr>"

definition regs_FMOR :: "vu_regs" where
  "regs_FMOR v n = n\<lparr>pipe := VUPIPE_FMAC, VFwrite := 0, VFread0 := 0, VFread1 := 0, VIwrite := vi_bit (vIt v),
     VIread := BIT_MAC OR vi_bit (vIs v)\<rparr>"

definition regs_FCAND :: "vu_regs" where
  "regs_FCAND v n = n\<lparr>pipe := VUPIPE_FMAC, VFwrite := 0, VFread0 := 0, VFread1 := 0, VIwrite := vi_bit 1, VIread := BIT_CLIP\<rparr>"

definition regs_FCEQ :: "vu_regs" where
  "regs_FCEQ v n = n\<lparr>pipe := VUPIPE_FMAC, VFwrite := 0, VFread0 := 0, VFread1 := 0, VIwrite := vi_bit 1, VIread := BIT_CLIP\<rparr>"

definition regs_FCOR :: "vu_regs" where
  "regs_FCOR v n = n\<lparr>pipe := VUPIPE_FMAC, VFwrite := 0, VFread0 := 0, VFread1 := 0, VIwrite := vi_bit 1, VIread := BIT_CLIP\<rparr>"

definition regs_FCSET :: "vu_regs" where
  "regs_FCSET v n = n\<lparr>pipe := VUPIPE_FMAC, VFwrite := 0, VFread0 := 0, VFread1 := 0, VIwrite := BIT_CLIP, VIread := 0\<rparr>"

definition regs_FCGET :: "vu_regs" where
  "regs_FCGET v n = n\<lparr>pipe := VUPIPE_FMAC, VFwrite := 0, VFread0 := 0, VFread1 := 0, VIwrite := vi_bit (vIt v),
     VIread := BIT_CLIP\<rparr>"

definition regs_IBEQ :: "vu_regs" where
  "regs_IBEQ v n = n\<lparr>pipe := VUPIPE_BRANCH, VFwrite := 0, VFread0 := 0, VFread1 := 0, VIwrite := 0,
     VIread := vi_bit (vIs v) OR vi_bit (vIt v)\<rparr>"

definition regs_IBGEZ :: "vu_regs" where
  "regs_IBGEZ v n = n\<lparr>pipe := VUPIPE_BRANCH, VFwrite := 0, VFread0 := 0, VFread1 := 0, VIwrite := 0, VIread := vi_bit (vIs v)\<rparr>"

definition regs_IBGTZ :: "vu_regs" where
  "regs_IBGTZ v n = n\<lparr>pipe := VUPIPE_BRANCH, VFwrite := 0, VFread0 := 0, VFread1 := 0, VIwrite := 0, VIread := vi_bit (vIs v)\<rparr>"

definition regs_IBLEZ :: "vu_regs" where
  "regs_IBLEZ v n = n\<lparr>pipe := VUPIPE_BRANCH, VFwrite := 0, VFread0 := 0, VFread1 := 0, VIwrite := 0, VIread := vi_bit (vIs v)\<rparr>"

definition regs_IBLTZ :: "vu_regs" where
  "regs_IBLTZ v n = n\<lparr>pipe := VUPIPE_BRANCH, VFwrite := 0, VFread0 := 0, VFread1 := 0, VIwrite := 0, VIread := vi_bit (vIs v)\<rparr>"

definition regs_IBNE :: "vu_regs" where
  "regs_IBNE v n = n\<lparr>pipe := VUPIPE_BRANCH, VFwrite := 0, VFread0 := 0, VFread1 := 0, VIwrite := 0,
     VIread := vi_bit (vIs v) OR vi_bit (vIt v)\<rparr>"

definition regs_B :: "vu_regs" where
  "regs_B v n = n\<lparr>pipe := VUPIPE_BRANCH, VFwrite := 0, VFread0 := 0, VFread1 := 0, VIwrite := 0, VIread := 0\<rparr>"

definition regs_BAL :: "vu_regs" where
  "regs_BAL v n = n\<lparr>pipe := VUPIPE_BRANCH, VFwrite := 0, VFread0 := 0, VFread1 := 0, VIwrite := vi_bit (vIt v), VIread := 0\<rparr>"

definition regs_JR :: "vu_regs" where
  "regs_JR v n = n\<lparr>pipe := VUPIPE_BRANCH, VFwrite := 0, VFread0 := 0, VFread1 := 0, VIwrite := 0, VIread := vi_bit (vIs v)\<rparr>"

definition regs_JALR :: "vu_regs" where
  "regs_JALR v n = n\<lparr>pipe := VUPIPE_BRANCH, VFwrite := 0, VFread0 := 0, VFread1 := 0, VIwrite := vi_bit (vIt v),
     VIread := vi_bit (vIs v)\<rparr>"

definition regs_MFP :: "vu_regs" where
  "regs_MFP v n = n\<lparr>pipe := VUPIPE_FMAC, VFwrite := ucast (vFt v), VFwxyzw := vXYZW v, VFread0 := 0, VFread1 := 0, VIwrite := 0,
     VIread := BIT_P\<rparr>"

definition regs_WAITP :: "vu_regs" where
  "regs_WAITP v n = n\<lparr>pipe := VUPIPE_EFU, VFwrite := 0, VFread0 := 0, VFread1 := 0, VIwrite := 0, VIread := 0, cycles := 0\<rparr>"

definition regs_XITOP :: "vu_regs" where
  "regs_XITOP v n = n\<lparr>pipe := VUPIPE_IALU, VFwrite := 0, VFread0 := 0, VFread1 := 0, VIwrite := vi_bit (vIt v), VIread := 0,
     cycles := 0\<rparr>"

definition regs_XGKICK :: "vu_regs" where
  "regs_XGKICK v n = n\<lparr>pipe := VUPIPE_XGKICK, VFwrite := 0, VFread0 := 0, VFread1 := 0, VIwrite := 0, VIread := vi_bit (vIs v)\<rparr>"

definition regs_XTOP :: "vu_regs" where
  "regs_XTOP v n = n\<lparr>pipe := VUPIPE_IALU, VFwrite := 0, VFread0 := 0, VFread1 := 0, VIwrite := vi_bit (vIt v), VIread := 0,
     cycles := 0\<rparr>"

end
