(* ===== verification/VU_Tables.thy ===== *)
theory VU_Tables
  imports VU_Regs
begin

text \<open>
  The decoding tables of the vector units (\<^verbatim>\<open>_vuTablesMess\<close> of \<^verbatim>\<open>pcsx2/VUops.cpp\<close>). The code
  expands one macro for the operations and for the functions that describe their registers, so an
  entry pairs the two. An unknown instruction does nothing and describes nothing.
\<close>

type_synonym 'd vu_entry = "('d vu_env \<Rightarrow> nat \<Rightarrow> 'd vus \<Rightarrow> 'd vus) \<times> vu_regs"

definition lift :: "('d vu_env \<Rightarrow> nat \<Rightarrow> VURegs \<Rightarrow> VURegs) \<Rightarrow> 'd vu_mem" where
  "lift f E k s = on_vu k (f E k) s"

definition vu1_only :: "'d vu_mem \<Rightarrow> 'd vu_mem" where
  "vu1_only f E k s = (if k = 0 then s else f E k s)"

definition unk :: "'d vu_entry" where
  "unk = (\<lambda>E k s. s, \<lambda>v n. n)"

definition VU_LowerOP_T3_00_OPCODE :: "'d vu_entry list" where
  "VU_LowerOP_T3_00_OPCODE =
    replicate 12 unk @
    [(lift vuMOVE, regs_MOVE), (vuLQI, regs_LQI), (lift vuDIV, regs_DIV), (lift vuMTIR, regs_MTIR),
     (lift vuRNEXT, regs_RNEXT), unk, unk, unk,
     unk, unk, unk, unk,
     unk, (lift vuMFP, regs_MFP), (vu1_only vuXTOP, regs_XTOP), (vu1_only vuXGKICK, regs_XGKICK),
     (lift vuESADD, (regs_PFS_xyzw 11)), (lift vuEATANxy, (regs_PFS_xyzw 54)), (lift vuESQRT, (regs_PFS_fsf 12)), (lift vuESIN, (regs_PFS_fsf 29))]"

definition VU_LowerOP_T3_01_OPCODE :: "'d vu_entry list" where
  "VU_LowerOP_T3_01_OPCODE =
    replicate 12 unk @
    [(lift vuMR32, regs_MR32), (vuSQI, regs_SQI), (lift vuSQRT, regs_SQRT), (lift vuMFIR, regs_MFIR),
     (lift vuRGET, regs_RGET), unk, unk, unk,
     unk, unk, unk, unk,
     unk, unk, (vuXITOP, regs_XITOP), unk,
     (lift vuERSADD, (regs_PFS_xyzw 18)), (lift vuEATANxz, (regs_PFS_xyzw 54)), (lift vuERSQRT, (regs_PFS_fsf 18)), (lift vuEATAN, (regs_PFS_fsf 54))]"

definition VU_LowerOP_T3_10_OPCODE :: "'d vu_entry list" where
  "VU_LowerOP_T3_10_OPCODE =
    replicate 13 unk @
    [(vuLQD, regs_LQD), (lift vuRSQRT, regs_RSQRT), (vuILWR, regs_ILWR), (lift vuRINIT, regs_RINIT),
     unk, unk, unk, unk,
     unk, unk, unk, unk,
     unk, unk, unk, (lift vuELENG, (regs_PFS_xyzw 18)),
     (lift vuESUM, (regs_PFS_xyzw 12)), (lift vuERCPR, (regs_PFS_fsf 12)), (lift vuEEXP, (regs_PFS_fsf 44))]"

definition VU_LowerOP_T3_11_OPCODE :: "'d vu_entry list" where
  "VU_LowerOP_T3_11_OPCODE =
    replicate 13 unk @
    [(vuSQD, regs_SQD), (lift vuWAITQ, regs_WAITQ), (vuISWR, regs_ISWR), (lift vuRXOR, regs_RXOR),
     unk, unk, unk, unk,
     unk, unk, unk, unk,
     unk, unk, unk, (lift vuERLENG, (regs_PFS_xyzw 24)),
     unk, (lift vuWAITP, regs_WAITP)] @
    replicate 1 unk"

definition VU_LowerOP_OPCODE :: "'d vu_entry list" where
  "VU_LowerOP_OPCODE =
    replicate 48 unk @
    [(lift vuIADD, regs_IDISIT), (lift vuISUB, regs_IDISIT), (lift vuIADDI, regs_ITIS), unk,
     (lift vuIAND, regs_IDISIT), (lift vuIOR, regs_IDISIT)] @
    replicate 6 unk"

definition VU_LOWER_OPCODE :: "'d vu_entry list" where
  "VU_LOWER_OPCODE =
    [(vuLQ, regs_LQ), (vuSQ, regs_SQ), unk, unk,
     (vuILW, regs_ILW), (vuISW, regs_ISW), unk, unk,
     (lift vuIADDIU, regs_ITIS), (lift vuISUBIU, regs_ITIS), unk, unk,
     unk, unk, unk, unk,
     (lift vuFCEQ, regs_FCEQ), (lift vuFCSET, regs_FCSET), (lift vuFCAND, regs_FCAND), (lift vuFCOR, regs_FCOR),
     (lift vuFSEQ, regs_FSEQ), (lift vuFSSET, regs_FSSET), (lift vuFSAND, regs_FSAND), (lift vuFSOR, regs_FSOR),
     (lift vuFMEQ, regs_FMEQ), unk, (lift vuFMAND, regs_FMAND), (lift vuFMOR, regs_FMOR),
     (lift vuFCGET, regs_FCGET), unk, unk, unk,
     (lift vuB, regs_B), (lift vuBAL, regs_BAL), unk, unk,
     (lift vuJR, regs_JR), (lift vuJALR, regs_JALR), unk, unk,
     (lift vuIBEQ, regs_IBEQ), (lift vuIBNE, regs_IBNE), unk, unk,
     (lift vuIBLTZ, regs_IBLTZ), (lift vuIBGTZ, regs_IBGTZ), (lift vuIBLEZ, regs_IBLEZ), (lift vuIBGEZ, regs_IBGEZ)] @
    replicate 16 unk"

definition VU_UPPER_FD_00_TABLE :: "'d vu_entry list" where
  "VU_UPPER_FD_00_TABLE =
    [(lift vuADDAx, (regs_ACCFSFTxyzw 8 False)), (lift vuSUBAx, (regs_ACCFSFTxyzw 8 False)), (lift vuMADDAx, (regs_ACCFSFTxyzw 8 True)), (lift vuMSUBAx, (regs_ACCFSFTxyzw 8 True)),
     (lift vuITOF0, regs_FTFS), (lift vuFTOI0, regs_FTFS), (lift vuMULAx, (regs_FDFSFTxyzw_MUL True 8)), (lift vuMULAq, (regs_ACCFSQ False)),
     (lift vuADDAq, (regs_ACCFSQ False)), (lift vuSUBAq, (regs_ACCFSQ False)), (lift vuADDA, (regs_ACCFSFT False)), (lift vuSUBA, (regs_ACCFSFT False))] @
    replicate 20 unk"

definition VU_UPPER_FD_01_TABLE :: "'d vu_entry list" where
  "VU_UPPER_FD_01_TABLE =
    [(lift vuADDAy, (regs_ACCFSFTxyzw 4 False)), (lift vuSUBAy, (regs_ACCFSFTxyzw 4 False)), (lift vuMADDAy, (regs_ACCFSFTxyzw 4 True)), (lift vuMSUBAy, (regs_ACCFSFTxyzw 4 True)),
     (lift vuITOF4, regs_FTFS), (lift vuFTOI4, regs_FTFS), (lift vuMULAy, (regs_FDFSFTxyzw_MUL True 4)), (lift vuABS, regs_FTFS),
     (lift vuMADDAq, (regs_ACCFSQ True)), (lift vuMSUBAq, (regs_ACCFSQ True)), (lift vuMADDA, (regs_ACCFSFT True)), (lift vuMSUBA, (regs_ACCFSFT True))] @
    replicate 20 unk"

definition VU_UPPER_FD_10_TABLE :: "'d vu_entry list" where
  "VU_UPPER_FD_10_TABLE =
    [(lift vuADDAz, (regs_ACCFSFTxyzw 2 False)), (lift vuSUBAz, (regs_ACCFSFTxyzw 2 False)), (lift vuMADDAz, (regs_ACCFSFTxyzw 2 True)), (lift vuMSUBAz, (regs_ACCFSFTxyzw 2 True)),
     (lift vuITOF12, regs_FTFS), (lift vuFTOI12, regs_FTFS), (lift vuMULAz, (regs_FDFSFTxyzw_MUL True 2)), (lift vuMULAi, (regs_ACCFSI False)),
     (lift vuADDAi, (regs_ACCFSI False)), (lift vuSUBAi, (regs_ACCFSI False)), (lift vuMULA, (regs_ACCFSFT False)), (lift vuOPMULA, regs_OPMULA)] @
    replicate 20 unk"

definition VU_UPPER_FD_11_TABLE :: "'d vu_entry list" where
  "VU_UPPER_FD_11_TABLE =
    [(lift vuADDAw, (regs_ACCFSFTxyzw 1 False)), (lift vuSUBAw, (regs_ACCFSFTxyzw 1 False)), (lift vuMADDAw, (regs_ACCFSFTxyzw 1 True)), (lift vuMSUBAw, (regs_ACCFSFTxyzw 1 True)),
     (lift vuITOF15, regs_FTFS), (lift vuFTOI15, regs_FTFS), (lift vuMULAw, (regs_FDFSFTxyzw_MUL True 1)), (lift vuCLIP, regs_CLIP),
     (lift vuMADDAi, (regs_ACCFSI True)), (lift vuMSUBAi, (regs_ACCFSI True)), unk, (lift vuNOP, regs_NOP)] @
    replicate 20 unk"

definition VU_UPPER_OPCODE :: "'d vu_entry list" where
  "VU_UPPER_OPCODE =
    [(lift vuADDx, (regs_FDFSFTxyzw 8 False)), (lift vuADDy, (regs_FDFSFTxyzw 4 False)), (lift vuADDz, (regs_FDFSFTxyzw 2 False)), (lift vuADDw, (regs_FDFSFTxyzw 1 False)),
     (lift vuSUBx, (regs_FDFSFTxyzw 8 False)), (lift vuSUBy, (regs_FDFSFTxyzw 4 False)), (lift vuSUBz, (regs_FDFSFTxyzw 2 False)), (lift vuSUBw, (regs_FDFSFTxyzw 1 False)),
     (lift vuMADDx, (regs_FDFSFT_0_xyzw 8)), (lift vuMADDy, (regs_FDFSFT_0_xyzw 4)), (lift vuMADDz, (regs_FDFSFT_0_xyzw 2)), (lift vuMADDw, regs_MADDw),
     (lift vuMSUBx, (regs_FDFSFTxyzw 8 True)), (lift vuMSUBy, (regs_FDFSFTxyzw 4 True)), (lift vuMSUBz, (regs_FDFSFTxyzw 2 True)), (lift vuMSUBw, (regs_FDFSFTxyzw 1 True)),
     (lift vuMAXx, (regs_FDFSFTxyzw 8 False)), (lift vuMAXy, (regs_FDFSFTxyzw 4 False)), (lift vuMAXz, (regs_FDFSFTxyzw 2 False)), (lift vuMAXw, (regs_FDFSFTxyzw 1 False)),
     (lift vuMINIx, (regs_FDFSFTxyzw 8 False)), (lift vuMINIy, (regs_FDFSFTxyzw 4 False)), (lift vuMINIz, (regs_FDFSFTxyzw 2 False)), (lift vuMINIw, (regs_FDFSFTxyzw 1 False)),
     (lift vuMULx, (regs_FDFSFTxyzw_MUL False 8)), (lift vuMULy, (regs_FDFSFTxyzw_MUL False 4)), (lift vuMULz, (regs_FDFSFTxyzw_MUL False 2)), (lift vuMULw, (regs_FDFSFTxyzw_MUL False 1)),
     (lift vuMULq, (regs_FDFSQ False)), (lift vuMAXi, (regs_FDFSI False)), (lift vuMULi, (regs_FDFSI False)), (lift vuMINIi, (regs_FDFSI False)),
     (lift vuADDq, (regs_FDFSQ False)), (lift vuMADDq, (regs_FDFSQ True)), (lift vuADDi, (regs_FDFSI False)), (lift vuMADDi, (regs_FDFSI True)),
     (lift vuSUBq, (regs_FDFSQ False)), (lift vuMSUBq, (regs_FDFSQ True)), (lift vuSUBi, (regs_FDFSI False)), (lift vuMSUBi, (regs_FDFSI True)),
     (lift vuADD, (regs_FDFSFT False)), (lift vuMADD, (regs_FDFSFT True)), (lift vuMUL, (regs_FDFSFT False)), (lift vuMAX, (regs_FDFSFT False)),
     (lift vuSUB, (regs_FDFSFT False)), (lift vuMSUB, (regs_FDFSFT True)), (lift vuOPMSUB, regs_OPMSUB), (lift vuMINI, (regs_FDFSFT False))] @
    replicate 12 unk"

text \<open>Indices past a table's operations lead to a second table.\<close>

definition UPPER_OPCODE :: "u32 \<Rightarrow> 'd vu_entry" where
  "UPPER_OPCODE code =
     (let i = unat (code AND 0x3f); j = unat (drop_bit 6 code AND 0x1f)
      in if i < 0x3c then VU_UPPER_OPCODE ! i
         else if i = 0x3c then VU_UPPER_FD_00_TABLE ! j
         else if i = 0x3d then VU_UPPER_FD_01_TABLE ! j
         else if i = 0x3e then VU_UPPER_FD_10_TABLE ! j
         else VU_UPPER_FD_11_TABLE ! j)"

definition LowerOP :: "u32 \<Rightarrow> 'd vu_entry" where
  "LowerOP code =
     (let i = unat (code AND 0x3f); j = unat (drop_bit 6 code AND 0x1f)
      in if i < 0x3c then VU_LowerOP_OPCODE ! i
         else if i = 0x3c then VU_LowerOP_T3_00_OPCODE ! j
         else if i = 0x3d then VU_LowerOP_T3_01_OPCODE ! j
         else if i = 0x3e then VU_LowerOP_T3_10_OPCODE ! j
         else VU_LowerOP_T3_11_OPCODE ! j)"

definition LOWER_OPCODE :: "u32 \<Rightarrow> 'd vu_entry" where
  "LOWER_OPCODE code =
     (let i = unat (drop_bit 25 code)
      in if i < 0x40 then VU_LOWER_OPCODE ! i else if i = 0x40 then LowerOP code else unk)"

end
