(* ===== verification/VU_Interp.thy ===== *)
theory VU_Interp
  imports VU_Tables
begin

text \<open>
  The interpreters of the vector units (\<^verbatim>\<open>pcsx2/VU0microInterp.cpp\<close>, \<^verbatim>\<open>pcsx2/VU1microInterp.cpp\<close>):
  one step runs an upper and a lower instruction, with the stalls, the conflicts between the two, the
  delayed branch and the delayed end of the program; a program runs until the unit stops or the
  requested cycles are over.
\<close>

section \<open>Parts of a step\<close>

text \<open>The value kept for branches ages with the cycles the step has taken.\<close>

definition vu_age_backup :: "u64 \<Rightarrow> VURegs \<Rightarrow> VURegs" where
  "vu_age_backup cyclesBeforeOp v =
     (if 0 < VIBackupCycles v
      then v\<lparr>VIBackupCycles := VIBackupCycles v - min (ucast (vcycle v - cyclesBeforeOp)) (VIBackupCycles v)\<rparr> else v)"

definition vu_exec_upper :: "'d vu_env \<Rightarrow> nat \<Rightarrow> u32 \<Rightarrow> 'd vus \<Rightarrow> 'd vus" where
  "vu_exec_upper E k hi s = fst (UPPER_OPCODE hi) E k (on_vu k (\<lambda>v. v\<lparr>vcode := hi\<rparr>) s)"

definition vu_exec_lower :: "'d vu_env \<Rightarrow> nat \<Rightarrow> u32 \<Rightarrow> 'd vus \<Rightarrow> 'd vus" where
  "vu_exec_lower E k lo s = fst (LOWER_OPCODE lo) E k (on_vu k (\<lambda>v. v\<lparr>vcode := lo\<rparr>) s)"

text \<open>The lower instruction is dropped when both write the same register, and it sees the old value of a
  register that the upper one writes. \<open>clip_use\<close> is the set of the upper instruction's registers in which
  the clipping flag is looked up, which the two units take differently.\<close>

definition vu_discard :: "u32 \<Rightarrow> VURegsNum \<Rightarrow> VURegsNum \<Rightarrow> bool" where
  "vu_discard clip_use u l \<longleftrightarrow>
     VFwrite u \<noteq> 0 \<and> VFwrite l = VFwrite u \<or> clip_use AND BIT_CLIP \<noteq> 0 \<and> VIwrite l AND BIT_CLIP \<noteq> 0"

definition vu_old_VF :: "VURegsNum \<Rightarrow> VURegsNum \<Rightarrow> bool" where
  "vu_old_VF u l \<longleftrightarrow> VFwrite u \<noteq> 0 \<and> (VFread0 l = VFwrite u \<or> VFread1 l = VFwrite u)"

definition vu_old_clip :: "u32 \<Rightarrow> VURegsNum \<Rightarrow> bool" where
  "vu_old_clip clip_use l \<longleftrightarrow> clip_use AND BIT_CLIP \<noteq> 0 \<and> VIread l AND BIT_CLIP \<noteq> 0"

definition vu_swap :: "bool \<Rightarrow> bool \<Rightarrow> 5 word \<Rightarrow> VECTOR \<Rightarrow> u32 \<Rightarrow> VURegs \<Rightarrow> VURegs" where
  "vu_swap vf clip r x c v =
     (let v = (if vf then v\<lparr>VF := (VF v)(r := x)\<rparr> else v) in if clip then wVI REG_CLIP_FLAG c v else v)"

definition vu_exec_both :: "'d vu_env \<Rightarrow> nat \<Rightarrow> u32 \<Rightarrow> u32 \<Rightarrow> u32 \<Rightarrow> VURegsNum \<Rightarrow> VURegsNum \<Rightarrow> 'd vus \<Rightarrow> 'd vus" where
  "vu_exec_both E k clip_use hi lo u l s =
     (let r = ucast (VFwrite u); vf = vu_old_VF u l; clip = vu_old_clip clip_use l; old = get_vu k s;
          s = vu_exec_upper E k hi s; new = get_vu k s
      in if vu_discard clip_use u l then s
         else let s = on_vu k (vu_swap vf clip r (VF old r) (VI old REG_CLIP_FLAG)) s;
                  s = vu_exec_lower E k lo s
              in on_vu k (vu_swap vf clip r (VF new r) (VI new REG_CLIP_FLAG)) s)"

definition regs_zero :: VURegsNum where
  "regs_zero = \<lparr>pipe = VUPIPE_NONE, VFwrite = 0, VFwxyzw = 0, VFr0xyzw = 0, VFr1xyzw = 0, VFread0 = 0, VFread1 = 0,
     VIwrite = 0, VIread = 0, cycles = 0\<rparr>"

text \<open>The two instructions of a step, with the stalls before them; the descriptor of the lower one is needed
  afterwards.\<close>

definition vu_exec_pair :: "'d vu_env \<Rightarrow> nat \<Rightarrow> u32 \<Rightarrow> u32 \<Rightarrow> u32 \<Rightarrow> VURegsNum \<Rightarrow> u64 \<Rightarrow> VURegsNum \<Rightarrow> 'd vus \<Rightarrow> VURegsNum \<times> 'd vus" where
  "vu_exec_pair E k clip_use hi lo u before junk s =
     (if hi AND 0x80000000 \<noteq> 0
      then let s = vuTestPipes E k s;
               s = on_vu k (vu_age_backup before) s;
               s = vu_exec_upper E k hi s
           in (regs_zero, on_vu k (wVI REG_I lo) s)
      else let s = on_vu k (\<lambda>v. v\<lparr>vcode := lo\<rparr>) s;
               l = snd (LOWER_OPCODE lo :: 'd vu_entry) (get_vu k s) (junk\<lparr>cycles := 0\<rparr>);
               s = on_vu k (vuTestLowerStalls l) s;
               s = vuTestPipes E k s;
               s = on_vu k (vu_age_backup before) s
           in (l, vu_exec_both E k clip_use hi lo u l s))"

definition uses_fmac :: "VURegsNum \<Rightarrow> VURegsNum \<Rightarrow> bool" where
  "uses_fmac u l \<longleftrightarrow> pipe u = VUPIPE_FMAC \<or> pipe l = VUPIPE_FMAC"

definition vu_enter_pipes :: "VURegsNum \<Rightarrow> VURegsNum \<Rightarrow> VURegs \<Rightarrow> VURegs" where
  "vu_enter_pipes u l v =
     vuAddLowerStalls l (vuAddUpperStalls u (if uses_fmac u l then vuClearFMAC v else v))"

definition vu_branch_step :: "VURegs \<Rightarrow> VURegs" where
  "vu_branch_step v =
     (if 0 < vbranch v
      then if vbranch v = 1
           then let v = wVI REG_TPC (vbranchpc v) (v\<lparr>vbranch := 0\<rparr>)
                in if takedelaybranch v
                   then v\<lparr>vbranch := 1, vbranchpc := delaybranchpc v, takedelaybranch := False\<rparr> else v
           else v\<lparr>vbranch := vbranch v - 1\<rparr>
      else v)"

definition vu_fmac_advance :: "VURegsNum \<Rightarrow> VURegsNum \<Rightarrow> VURegs \<Rightarrow> VURegs" where
  "vu_fmac_advance u l v = (if uses_fmac u l then v\<lparr>fmacwritepos := fmacwritepos v + 1\<rparr> else v)"

text \<open>The flag bits of an upper word that stop the unit: \<open>m\<close> is the bit, \<open>en\<close> the enabling bit in the
  control register and \<open>st\<close> the reported one.\<close>

definition vu_stop_bit :: "'d vu_env \<Rightarrow> nat \<Rightarrow> u32 \<Rightarrow> u32 \<Rightarrow> u32 \<Rightarrow> u32 \<Rightarrow> 'd vus \<Rightarrow> 'd vus" where
  "vu_stop_bit E k hi m en st s =
     (if hi AND m \<noteq> 0 \<and> VI (vu0 s) REG_FBRST AND en \<noteq> 0
      then let s = on_vu 0 (\<lambda>v. wVI REG_VPU_STAT (VI v REG_VPU_STAT OR st) v) s;
               s = on_dev (hwIntcIrq E (6 + k)) s
           in on_vu k (\<lambda>v. v\<lparr>ebit := 1\<rparr>) s
      else s)"

text \<open>Fetch: the upper and the lower word at the program counter, which is a multiple of 8.\<close>

definition vu_fetch :: "VURegs \<Rightarrow> u32 \<times> u32" where
  "vu_fetch v = (let p = unat (VI v REG_TPC) div 4 in (Micro v (p + 1), Micro v p))"

text \<open>From the upper instruction's descriptor to the end of the step, for a state whose flag bits have been
  handled. \<open>clip\<close> selects the descriptor's field for the clipping flag and \<open>fin\<close> is what the unit does when
  its program ends.\<close>

definition vu_insn_end :: "nat \<Rightarrow> ('d vus \<Rightarrow> 'd vus) \<Rightarrow> VURegsNum \<Rightarrow> VURegsNum \<Rightarrow> 'd vus \<Rightarrow> 'd vus" where
  "vu_insn_end k fin u l s =
     (let s = on_vu k (vu_branch_step \<circ> vu_enter_pipes u l) s;
          e = ebit (get_vu k s);
          s = (if 0 < e then on_vu k (\<lambda>v. v\<lparr>ebit := e - 1\<rparr>) s else s);
          s = (if e = 1 then fin s else s)
      in on_vu k (vu_fmac_advance u l) s)"

definition vu_insn ::
    "'d vu_env \<Rightarrow> nat \<Rightarrow> (VURegsNum \<Rightarrow> u32) \<Rightarrow> ('d vus \<Rightarrow> 'd vus) \<Rightarrow> u32 \<Rightarrow> u32 \<Rightarrow> VURegsNum \<times> VURegsNum \<Rightarrow> 'd vus \<Rightarrow> 'd vus" where
  "vu_insn E k clip fin hi lo junk s =
     (let s = on_vu k (\<lambda>v. v\<lparr>vcode := hi\<rparr>) s;
          u = snd (UPPER_OPCODE hi :: 'd vu_entry) (get_vu k s) (fst junk);
          before = vcycle (get_vu k s) - 1;
          s = on_vu k (vuTestUpperStalls u) s
      in case vu_exec_pair E k (clip u) hi lo u before (snd junk) s of (l, s) \<Rightarrow> vu_insn_end k fin u l s)"

section \<open>Unit 1\<close>

definition vu1_end :: "'d vu_env \<Rightarrow> 'd vus \<Rightarrow> 'd vus" where
  "vu1_end E s =
     (let s = on_vu 1 (\<lambda>v. vuFlushAll (v\<lparr>VIBackupCycles := 0\<rparr>)) s;
          s = on_vu 0 (\<lambda>v. wVI REG_VPU_STAT (VI v REG_VPU_STAT AND NOT 0x100) v) s;
          s = on_dev (vif_stop_wait E 1) s;
          s = (if xgkickenable (vu1 s) then vuXGKICKTransfer E 0 True s else s)
      in if INSTANT_VU1 E then on_vu 1 (\<lambda>v. v\<lparr>xgkicklastcycle := ee_cycle E (vdev s)\<rparr>) s else s)"

definition vu1_flags :: "'d vu_env \<Rightarrow> u32 \<Rightarrow> 'd vus \<Rightarrow> 'd vus" where
  "vu1_flags E hi s =
     (let s = on_vu 1 (\<lambda>v. wVI REG_TPC (VI v REG_TPC + 8) v) s;
          s = (if hi AND 0x40000000 \<noteq> 0 then on_vu 1 (\<lambda>v. v\<lparr>ebit := 2\<rparr>) s else s);
          s = vu_stop_bit E 1 hi 0x10000000 0x400 0x200 s
      in vu_stop_bit E 1 hi 0x08000000 0x800 0x400 s)"

definition vu1_exec_insn :: "'d vu_env \<Rightarrow> 'd vus \<Rightarrow> 'd vus" where
  "vu1_exec_insn E s =
     (case vu_fetch (vu1 s) of (hi, lo) \<Rightarrow>
      vu_insn E 1 VIwrite (vu1_end E) hi lo (uninit_regs E s) (vu1_flags E hi s))"

definition vu1Exec :: "'d vu_env \<Rightarrow> 'd vus \<Rightarrow> 'd vus" where
  "vu1Exec E s = vu1_exec_insn E (on_vu 1 (\<lambda>v. v\<lparr>vcycle := vcycle v + 1\<rparr>) s)"

definition vu1_Step :: "'d vu_env \<Rightarrow> 'd vus \<Rightarrow> 'd vus" where
  "vu1_Step E s = vu1Exec E (on_vu 1 (\<lambda>v. wVI REG_TPC (VI v REG_TPC AND 0x3fff) v) s)"

text \<open>The loop of \<^verbatim>\<open>InterpVU1::Execute\<close>, with fuel for its iterations.\<close>

definition vu_cancel_branch :: "VURegs \<Rightarrow> VURegs" where
  "vu_cancel_branch v = wVI REG_TPC (vbranchpc v) (v\<lparr>vbranch := 0\<rparr>)"

fun vu1_loop :: "nat \<Rightarrow> 'd vu_env \<Rightarrow> u64 \<Rightarrow> u32 \<Rightarrow> 'd vus \<Rightarrow> 'd vus option" where
  "vu1_loop fuel E start n s =
     (if \<not> vcycle (vu1 s) - start < ucast n then Some s
      else if VI (vu0 s) REG_VPU_STAT AND 0x100 = 0
      then Some (if vbranch (vu1 s) = 1 then on_vu 1 vu_cancel_branch s else s)
      else case fuel of 0 \<Rightarrow> None | Suc fuel \<Rightarrow> vu1_loop fuel E start n (vu1_Step E s))"

declare vu1_loop.simps [simp del]

definition vu_set_next :: "'d vu_env \<Rightarrow> nat \<Rightarrow> 'd vus \<Rightarrow> 'd vus" where
  "vu_set_next E k s = on_vu k (\<lambda>v. v\<lparr>nextBlockCycles := (vcycle v - ee_cycle E (vdev s)) + 1\<rparr>) s"

definition vu1_Execute :: "'d vu_env \<Rightarrow> u32 \<Rightarrow> 'd vus \<Rightarrow> 'd vus option" where
  "vu1_Execute E n s =
     (let s = on_vu 1 (\<lambda>v. wVI REG_TPC (push_bit 3 (VI v REG_TPC)) v) s
      in map_option (\<lambda>s. vu_set_next E 1 (on_vu 1 (\<lambda>v. wVI REG_TPC (drop_bit 3 (VI v REG_TPC)) v) s))
           (vu1_loop (unat n) E (vcycle (vu1 s)) n s))"

section \<open>Unit 0\<close>

abbreviation (input) VUFLAG_MFLAGSET :: u32 where "VUFLAG_MFLAGSET \<equiv> 2"

definition vu0_end :: "'d vu_env \<Rightarrow> 'd vus \<Rightarrow> 'd vus" where
  "vu0_end E s =
     (let s = on_vu 0 (\<lambda>v. vuFlushAll (v\<lparr>VIBackupCycles := 0\<rparr>)) s;
          s = on_vu 0 (\<lambda>v. wVI REG_VPU_STAT (VI v REG_VPU_STAT AND NOT 0x1) v) s
      in on_dev (vif_stop_wait E 0) s)"

definition vu0_flags :: "'d vu_env \<Rightarrow> u32 \<Rightarrow> 'd vus \<Rightarrow> 'd vus" where
  "vu0_flags E hi s =
     (let s = on_vu 0 (\<lambda>v. wVI REG_TPC (VI v REG_TPC + 8) v) s;
          s = (if hi AND 0x40000000 \<noteq> 0 then on_vu 0 (\<lambda>v. v\<lparr>ebit := 2\<rparr>) s else s);
          s = (if hi AND 0x20000000 \<noteq> 0 then on_vu 0 (\<lambda>v. v\<lparr>vflags := vflags v OR VUFLAG_MFLAGSET\<rparr>) s else s);
          s = vu_stop_bit E 0 hi 0x10000000 0x4 0x2 s
      in vu_stop_bit E 0 hi 0x08000000 0x8 0x4 s)"

definition vu0_exec_insn :: "'d vu_env \<Rightarrow> 'd vus \<Rightarrow> 'd vus" where
  "vu0_exec_insn E s =
     (case vu_fetch (vu0 s) of (hi, lo) \<Rightarrow>
      vu_insn E 0 VIread (vu0_end E) hi lo (uninit_regs E s) (vu0_flags E hi s))"

definition vu0Exec :: "'d vu_env \<Rightarrow> 'd vus \<Rightarrow> 'd vus" where
  "vu0Exec E s =
     vu0_exec_insn E (on_vu 0 (\<lambda>v. (wVI REG_TPC (VI v REG_TPC AND 0xfff) v)\<lparr>vcycle := vcycle v + 1\<rparr>) s)"

fun vu0_loop :: "nat \<Rightarrow> 'd vu_env \<Rightarrow> u64 \<Rightarrow> u32 \<Rightarrow> 'd vus \<Rightarrow> 'd vus option" where
  "vu0_loop fuel E start n s =
     (if \<not> vcycle (vu0 s) - start < ucast n then Some s
      else if VI (vu0 s) REG_VPU_STAT AND 0x1 = 0
      then Some (if vbranch (vu0 s) \<noteq> 0 then on_vu 0 vu_cancel_branch s else s)
      else if vflags (vu0 s) AND VUFLAG_MFLAGSET \<noteq> 0 then Some s
      else case fuel of 0 \<Rightarrow> None | Suc fuel \<Rightarrow> vu0_loop fuel E start n (vu0Exec E s))"

declare vu0_loop.simps [simp del]

definition vu0_Execute :: "'d vu_env \<Rightarrow> u32 \<Rightarrow> 'd vus \<Rightarrow> 'd vus option" where
  "vu0_Execute E n s =
     (let s = on_vu 0 (\<lambda>v. (wVI REG_TPC (push_bit 3 (VI v REG_TPC)) v)\<lparr>vflags := vflags v AND NOT VUFLAG_MFLAGSET\<rparr>) s;
          start = vcycle (vu0 s)
      in map_option (\<lambda>s.
           let s = on_vu 0 (\<lambda>v. wVI REG_TPC (drop_bit 3 (VI v REG_TPC)) v) s;
               s = on_vu 0 (\<lambda>v. v\<lparr>vcycle := vcycle v - (vcycle v - start) + vu0_cycle_rate E (vcycle v - start)\<rparr>) s
           in vu_set_next E 0 s)
           (vu0_loop (unat n) E start n s))"

text \<open>\<^verbatim>\<open>InterpVU0::Reset\<close> and \<^verbatim>\<open>InterpVU1::Reset\<close> empty the rings.\<close>

definition vu_Reset :: "VURegs \<Rightarrow> VURegs" where
  "vu_Reset v = v\<lparr>fmacwritepos := 0, fmacreadpos := 0, fmaccount := 0, ialuwritepos := 0, ialureadpos := 0, ialucount := 0\<rparr>"

definition vu_SetStartPC :: "u32 \<Rightarrow> VURegs \<Rightarrow> VURegs" where
  "vu_SetStartPC startPC v = v\<lparr>start_pc := startPC\<rparr>"

end
