(* ===== verification/VU_Frame.thy ===== *)
theory VU_Frame
  imports VU_Interp
begin

text \<open>
  What the instructions of the vector units leave alone: no upper or lower instruction touches the
  pipelines or the cycle, which only the step does, and none of a unit's own instructions changes its
  constant vector register 0. Only \<^verbatim>\<open>XGKICK\<close> waits for the transfer before it. The facts are proved
  entry by entry over the decoding tables, so that they hold of every instruction word.
\<close>

named_theorems vu_keeps

text \<open>The cycle with the pipelines, and what the transfer to the graphics interface goes by.\<close>

definition vcore :: "VURegs \<Rightarrow> u64 \<times> ((2 word \<Rightarrow> fmacPipe) \<times> 2 word \<times> 2 word \<times> u32) \<times> fdivPipe \<times> efuPipe \<times> ((2 word \<Rightarrow> ialuPipe) \<times> 2 word \<times> 2 word \<times> u32)" where
  "vcore v = (vcycle v, (fmac v, fmacreadpos v, fmacwritepos v, fmaccount v), fdiv v, efu v, (ialu v, ialureadpos v, ialuwritepos v, ialucount v))"

definition vpipes :: "VURegs \<Rightarrow> (u64 \<times> ((2 word \<Rightarrow> fmacPipe) \<times> 2 word \<times> 2 word \<times> u32) \<times> fdivPipe \<times> efuPipe \<times> ((2 word \<Rightarrow> ialuPipe) \<times> 2 word \<times> 2 word \<times> u32)) \<times> bool \<times> u32 \<times> u32 \<times> u32" where
  "vpipes v = (vcore v, xgkickenable v, xgkickaddr v, xgkickdiff v, xgkicksizeremaining v)"

lemma vpipes_writes [vu_keeps]:
  "vpipes (wVF r i x v) = vpipes v"
  "vpipes (wVI r' y v) = vpipes v"
  "vpipes (wVIus r' z v) = vpipes v"
  "vpipes (vuBackupVI r' v) = vpipes v"
  "vpipes (put_dst dst i x v) = vpipes v"
  "vpipes (VU_STAT_UPDATE v) = vpipes v"
  "vpipes (VU_MAC_CLEAR n v) = vpipes v"
  "vpipes (snd (VU_MAC_UPDATE E k n f v)) = vpipes v"
  "vpipes (setBranch bpc v) = vpipes v"
  "vpipes (vu_link v) = vpipes v"
  "vpipes (wp x v) = vpipes v"
  by (simp_all add: vpipes_def vcore_def wVF_def wVI_def wVIus_def vuBackupVI_def put_dst_def VU_STAT_UPDATE_def VU_MAC_CLEAR_def
      VU_MAC_UPDATE_def setBranch_def vu_link_def wp_def Let_def split: MACOpDst.split)

lemma vpipes_update [vu_keeps]:
  "vpipes (v\<lparr>VACC := a\<rparr>) = vpipes v" "vpipes (v\<lparr>vcode := c\<rparr>) = vpipes v" "vpipes (v\<lparr>statusflag := c\<rparr>) = vpipes v"
  "vpipes (v\<lparr>clipflag := c\<rparr>) = vpipes v" "vpipes (v\<lparr>vq := c\<rparr>) = vpipes v" "vpipes (v\<lparr>VMem := m\<rparr>) = vpipes v"
  "vpipes (v\<lparr>VIpad := p\<rparr>) = vpipes v" "vpipes (v\<lparr>VF := f\<rparr>) = vpipes v"
  "vpipes (v\<lparr>ebit := c\<rparr>) = vpipes v" "vpipes (v\<lparr>vflags := c\<rparr>) = vpipes v"
  by (simp_all add: vpipes_def vcore_def)

lemma fold_keeps: "(\<And>i v. g (f i v) = g v) \<Longrightarrow> g (fold f xs v) = g v"
  by (induction xs arbitrary: v) simp_all

lemma vpipes_lanes [vu_keeps]:
  "(\<And>i v. vpipes (f i v) = vpipes v) \<Longrightarrow> vpipes (sel_lanes f v) = vpipes v"
  "vpipes (mac_lanes E k dst h v) = vpipes v"
  unfolding sel_lanes_def mac_lanes_def
   apply (rule fold_keeps; simp)
  apply (simp only: vpipes_writes)
  apply (rule fold_keeps)
  by (simp add: mac_lane_def vpipes_writes split_beta)

text \<open>Register 0 of the unit that runs.\<close>

lemma VF0_writes [vu_keeps]:
  "r \<noteq> 0 \<Longrightarrow> VF (wVF r i x v) 0 = VF v 0"
  "VF (wVI r' y v) = VF v"
  "VF (wVIus r' z v) = VF v"
  "VF (vuBackupVI r' v) = VF v"
  "VF (put_dst dst i x v) 0 = VF v 0"
  "VF (VU_STAT_UPDATE v) = VF v"
  "VF (VU_MAC_CLEAR n v) = VF v"
  "VF (snd (VU_MAC_UPDATE E k n f v)) = VF v"
  "VF (setBranch bpc v) = VF v"
  "VF (vu_link v) = VF v"
  "VF (wp y v) = VF v"
  by (auto simp: wVF_def wVI_def wVIus_def vuBackupVI_def put_dst_def VU_STAT_UPDATE_def VU_MAC_CLEAR_def
      VU_MAC_UPDATE_def setBranch_def vu_link_def wp_def Let_def split: MACOpDst.split)

lemma fold_keeps_code:
  "(\<And>i v. vcode v = c \<Longrightarrow> vcode (f i v) = c \<and> g (f i v) = g v) \<Longrightarrow> vcode v = c \<Longrightarrow> g (fold f xs v) = g v"
  by (induction xs arbitrary: v) simp_all

lemma vcode_writes [vu_keeps]:
  "vcode (wVF r i x v) = vcode v" "vcode (wVI r y v) = vcode v" "vcode (wVIus r z v) = vcode v"
  "vcode (put_dst dst i x v) = vcode v" "vcode (VU_MAC_CLEAR n v) = vcode v"
  "vcode (snd (VU_MAC_UPDATE E k n f v)) = vcode v" "vcode (vuBackupVI r v) = vcode v"
  by (simp_all add: wVF_def wVI_def wVIus_def vuBackupVI_def put_dst_def VU_MAC_CLEAR_def VU_MAC_UPDATE_def Let_def split: MACOpDst.split)

lemma VF0_sel_lanes:
  assumes "\<And>i v'. vcode v' = vcode v \<Longrightarrow> vcode (f i v') = vcode v \<and> VF (f i v') 0 = VF v' 0"
  shows "VF (sel_lanes f v) 0 = VF v 0"
  unfolding sel_lanes_def by (rule fold_keeps_code [where c = "vcode v" and g = "\<lambda>v. VF v 0"]) (use assms in auto)

lemma VF0_lanes_Ft [vu_keeps]: "vFt v \<noteq> 0 \<Longrightarrow> VF (sel_lanes (\<lambda>i v. wVF (vFt v) i (h i v) v) v) 0 = VF v 0"
  by (rule VF0_sel_lanes) (simp add: vcode_writes VF0_writes vFt_def)

lemma VF0_lanes_Fd [vu_keeps]: "vFd v \<noteq> 0 \<Longrightarrow> VF (sel_lanes (\<lambda>i v. wVF (vFd v) i (h i v) v) v) 0 = VF v 0"
  by (rule VF0_sel_lanes) (simp add: vcode_writes VF0_writes vFd_def)

lemma VF0_mac_lanes [vu_keeps]: "VF (mac_lanes E k dst h v) 0 = VF v 0"
  unfolding mac_lanes_def VF0_writes(6)
  by (rule fold_keeps [where g = "\<lambda>v. VF v 0"]) (simp add: mac_lane_def VF0_writes split_beta)

section \<open>Entries of the tables\<close>

lemma get_on [simp]:
  "get_vu k (on_vu k f s) = f (get_vu k s)"
  "(j = 0) \<noteq> (k = 0) \<Longrightarrow> get_vu j (on_vu k f s) = get_vu j s"
  "vdev (on_vu k f s) = vdev s"
  by (auto simp: get_vu_def on_vu_def)

lemma get_vu_01 [simp]: "get_vu 0 s = vu0 s" "get_vu (Suc 0) s = vu1 s"
  by (simp_all add: get_vu_def)

lemma get_on_dev [simp]: "get_vu j (on_dev f s) = get_vu j s" "vu0 (on_dev f s) = vu0 s" "vu1 (on_dev f s) = vu1 s"
  by (simp_all add: get_vu_def on_dev_def)

text \<open>What an instruction keeps, of both units or of its own.\<close>

definition op_keeps :: "'d vu_entry \<Rightarrow> bool" where
  "op_keeps e \<longleftrightarrow>
     (\<forall>E k s. (\<forall>j. vpipes (get_vu j (fst e E k s)) = vpipes (get_vu j s)) \<and> VF (get_vu k (fst e E k s)) 0 = VF (get_vu k s) 0)"

lemma op_keeps_unk [simp]: "op_keeps unk"
  by (simp add: op_keeps_def unk_def)

lemma list_all_replicate_unk: "list_all op_keeps (replicate n unk)"
  by (induction n) simp_all

lemma op_keeps_lift:
  assumes "\<And>E k v. vpipes (f E k v) = vpipes v" and "\<And>E k v. VF (f E k v) 0 = VF v 0"
  shows "op_keeps (lift f, r)"
  using assms by (auto simp: op_keeps_def lift_def get_vu_def on_vu_def)

lemmas vu_apply_defs = applyUnaryFunction_def applyBinaryMACOp_def applyBinaryMACOpBroadcast_def applyTernaryMACOp_def
  applyTernaryMACOpBroadcast_def applyMinMax_def applyMinMaxBroadcast_def

lemmas vu_upper_defs = vu_apply_defs
  vuABS_def vuADD_def vuADDbc_def vuADDbc_addsubhack_def vuADDi_def vuADDq_def vuADDx_def vuADDy_def
  vuADDz_def vuADDw_def vuADDA_def vuADDAbc_def vuADDAi_def vuADDAq_def vuADDAx_def vuADDAy_def vuADDAz_def
  vuADDAw_def vuSUB_def vuSUBbc_def vuSUBi_def vuSUBq_def vuSUBx_def vuSUBy_def vuSUBz_def vuSUBw_def
  vuSUBA_def vuSUBAbc_def vuSUBAi_def vuSUBAq_def vuSUBAx_def vuSUBAy_def vuSUBAz_def vuSUBAw_def vuMUL_def
  vuMULbc_def vuMULi_def vuMULq_def vuMULx_def vuMULy_def vuMULz_def vuMULw_def vuMULA_def vuMULAbc_def
  vuMULAi_def vuMULAq_def vuMULAx_def vuMULAy_def vuMULAz_def vuMULAw_def vuMADD_def vuMADDbc_def vuMADDi_def
  vuMADDq_def vuMADDx_def vuMADDy_def vuMADDz_def vuMADDw_def vuMADDA_def vuMADDAbc_def vuMADDAi_def
  vuMADDAq_def vuMADDAx_def vuMADDAy_def vuMADDAz_def vuMADDAw_def vuMSUB_def vuMSUBbc_def vuMSUBi_def
  vuMSUBq_def vuMSUBx_def vuMSUBy_def vuMSUBz_def vuMSUBw_def vuMSUBA_def vuMSUBAbc_def vuMSUBAi_def
  vuMSUBAq_def vuMSUBAx_def vuMSUBAy_def vuMSUBAz_def vuMSUBAw_def vuMAX_def vuMAXi_def vuMAXx_def vuMAXy_def
  vuMAXz_def vuMAXw_def vuMINI_def vuMINIi_def vuMINIx_def vuMINIy_def vuMINIz_def vuMINIw_def vuOPMULA_def
  vuOPMSUB_def vuNOP_def vuFTOI0_def vuFTOI4_def vuFTOI12_def vuFTOI15_def vuITOF0_def vuITOF4_def
  vuITOF12_def vuITOF15_def vuCLIP_def

lemmas vu_lower_defs =
  vuDIV_def vuSQRT_def vuRSQRT_def vuIADDI_def vuIADDIU_def vuISUBIU_def vuIADD_def vuIAND_def vuIOR_def
  vuISUB_def vuMOVE_def vuMFIR_def vuMTIR_def vuMR32_def vuRINIT_def vuRGET_def vuRNEXT_def vuRXOR_def
  vuWAITQ_def vuWAITP_def vuFSAND_def vuFSEQ_def vuFSOR_def vuFSSET_def vuFMAND_def vuFMEQ_def vuFMOR_def
  vuFCAND_def vuFCEQ_def vuFCOR_def vuFCSET_def vuFCGET_def vuIBEQ_def vuIBNE_def vuIBGEZ_def vuIBGTZ_def
  vuIBLEZ_def vuIBLTZ_def vuB_def vuBAL_def vuJR_def vuJALR_def vuMFP_def vuESADD_def vuERSADD_def
  vuELENG_def vuERLENG_def vuEATAN_def vuEATANxy_def vuEATANxz_def vuESUM_def vuERCPR_def vuESQRT_def
  vuERSQRT_def vuESIN_def vuEEXP_def

lemma UPPER_op_keeps:
  "list_all op_keeps VU_UPPER_OPCODE" "list_all op_keeps VU_UPPER_FD_00_TABLE" "list_all op_keeps VU_UPPER_FD_01_TABLE"
  "list_all op_keeps VU_UPPER_FD_10_TABLE" "list_all op_keeps VU_UPPER_FD_11_TABLE"
  unfolding VU_UPPER_OPCODE_def VU_UPPER_FD_00_TABLE_def VU_UPPER_FD_01_TABLE_def VU_UPPER_FD_10_TABLE_def VU_UPPER_FD_11_TABLE_def
   apply (simp_all only: list_all_append list.pred_inject op_keeps_unk list_all_replicate_unk simp_thms)
  by (intro conjI op_keeps_lift; simp add: vu_upper_defs vu_keeps split_beta Let_def)+

text \<open>Loads and stores reach the other unit's registers, but only a unit's own register 0 is constant.\<close>

lemma fold_on_vu: "(\<And>i s. P (f i s) = P s) \<Longrightarrow> P (fold f xs s) = P s"
  by (induction xs arbitrary: s) simp_all

lemma get_vu_mono: "get_vu j (on_vu k f s) = (if (j = 0) = (k = 0) then f (get_vu j s) else get_vu j s)"
  by (auto simp: get_vu_def on_vu_def)

lemma vpipes_sel_words:
  "(\<And>i s. vpipes (get_vu j (f i s)) = vpipes (get_vu j s)) \<Longrightarrow> vpipes (get_vu j (sel_words k f s)) = vpipes (get_vu j s)"
  unfolding sel_words_def by (rule fold_on_vu [where P = "\<lambda>s. vpipes (get_vu j s)"]) simp

lemma vpipes_words [vu_keeps]:
  "vpipes (get_vu j (vu_store l i x s)) = vpipes (get_vu j s)"
  "vpipes (get_vu j (load_quad k l s)) = vpipes (get_vu j s)"
  "vpipes (get_vu j (load_half k l s)) = vpipes (get_vu j s)"
  "vpipes (get_vu j (store_quad k l s)) = vpipes (get_vu j s)"
  "vpipes (get_vu j (store_half k l s)) = vpipes (get_vu j s)"
  unfolding load_quad_def load_half_def store_quad_def store_half_def
  by (auto simp: vu_store_def get_vu_mono vu_keeps Let_def split: vu_loc.split intro!: vpipes_sel_words)

lemma vpipes_if [vu_keeps]:
  "vpipes (if c then v else w) = (if c then vpipes v else vpipes w)" by simp

lemma vpipes_mem [vu_keeps]:
  "vpipes (get_vu j (vuLQ E k s)) = vpipes (get_vu j s)" "vpipes (get_vu j (vuLQD E k s)) = vpipes (get_vu j s)"
  "vpipes (get_vu j (vuLQI E k s)) = vpipes (get_vu j s)" "vpipes (get_vu j (vuSQ E k s)) = vpipes (get_vu j s)"
  "vpipes (get_vu j (vuSQD E k s)) = vpipes (get_vu j s)" "vpipes (get_vu j (vuSQI E k s)) = vpipes (get_vu j s)"
  "vpipes (get_vu j (vuILW E k s)) = vpipes (get_vu j s)" "vpipes (get_vu j (vuISW E k s)) = vpipes (get_vu j s)"
  "vpipes (get_vu j (vuILWR E k s)) = vpipes (get_vu j s)" "vpipes (get_vu j (vuISWR E k s)) = vpipes (get_vu j s)"
  "vpipes (get_vu j (vuXITOP E k s)) = vpipes (get_vu j s)" "vpipes (get_vu j (vuXTOP E k s)) = vpipes (get_vu j s)"
  by (simp_all add: vuLQ_def vuLQD_def vuLQI_def vuSQ_def vuSQD_def vuSQI_def vuILW_def vuISW_def vuILWR_def vuISWR_def
      vuXITOP_def vuXTOP_def Let_def get_vu_mono vu_keeps)

lemma vFt_writes [vu_keeps]:
  "vFt (wVF r i x v) = vFt v" "vFt (wVI r y v) = vFt v" "vFt (wVIus r z v) = vFt v" "vFt (vuBackupVI r v) = vFt v"
  by (simp_all add: vFt_def vu_keeps)

lemma GET_VU_MEM_own: "k \<noteq> 0 \<Longrightarrow> \<exists>q. GET_VU_MEM k a = LMem 1 q"
  by (simp add: GET_VU_MEM_def)

lemma vu_store_own:
  "VF (get_vu k (vu_store (GET_VU_MEM k a) i x s)) = VF (get_vu k s)"
  "vcode (get_vu k (vu_store (GET_VU_MEM k a) i x s)) = vcode (get_vu k s)"
  by (cases "k = 0", auto simp: vu_store_def GET_VU_MEM_def get_vu_mono get_vu_def on_vu_def Let_def split: vu_loc.split)+

lemma VF_stores [vu_keeps]:
  "VF (get_vu k (store_quad k (GET_VU_MEM k a) s)) = VF (get_vu k s)"
  "VF (get_vu k (store_half k (GET_VU_MEM k a) s)) = VF (get_vu k s)"
  unfolding store_quad_def store_half_def sel_words_def
  by (rule fold_on_vu [where P = "\<lambda>s. VF (get_vu k s)"], simp add: vu_store_own Let_def)+

lemma fold_vus_code:
  "(\<And>i s. c s = n \<Longrightarrow> c (f i s) = n \<and> P (f i s) = P s) \<Longrightarrow> c s = n \<Longrightarrow> P (fold f xs s) = P s"
  by (induction xs arbitrary: s) simp_all

lemma VF_load_half [vu_keeps]: "VF (get_vu k (load_half k l s)) = VF (get_vu k s)"
  unfolding load_half_def sel_words_def
  by (rule fold_on_vu [where P = "\<lambda>s. VF (get_vu k s)"]) (simp add: get_vu_mono vu_keeps)

lemma VF0_load_quad [vu_keeps]: "vFt (get_vu k s) \<noteq> 0 \<Longrightarrow> VF (get_vu k (load_quad k l s)) 0 = VF (get_vu k s) 0"
  unfolding load_quad_def sel_words_def
  by (rule fold_vus_code [where P = "\<lambda>s. VF (get_vu k s) 0" and c = "\<lambda>s. vFt (get_vu k s)" and n = "vFt (get_vu k s)"])
    (auto simp: get_vu_mono vu_keeps)

lemma VF0_mem [vu_keeps]:
  "VF (get_vu k (vuLQ E k s)) 0 = VF (get_vu k s) 0" "VF (get_vu k (vuLQD E k s)) 0 = VF (get_vu k s) 0"
  "VF (get_vu k (vuLQI E k s)) 0 = VF (get_vu k s) 0" "VF (get_vu k (vuSQ E k s)) 0 = VF (get_vu k s) 0"
  "VF (get_vu k (vuSQD E k s)) 0 = VF (get_vu k s) 0" "VF (get_vu k (vuSQI E k s)) 0 = VF (get_vu k s) 0"
  "VF (get_vu k (vuILW E k s)) 0 = VF (get_vu k s) 0" "VF (get_vu k (vuISW E k s)) 0 = VF (get_vu k s) 0"
  "VF (get_vu k (vuILWR E k s)) 0 = VF (get_vu k s) 0" "VF (get_vu k (vuISWR E k s)) 0 = VF (get_vu k s) 0"
  "VF (get_vu k (vuXITOP E k s)) 0 = VF (get_vu k s) 0" "VF (get_vu k (vuXTOP E k s)) 0 = VF (get_vu k s) 0"
  by (simp_all add: vuLQ_def vuLQD_def vuLQI_def vuSQ_def vuSQD_def vuSQI_def vuILW_def vuISW_def vuILWR_def vuISWR_def
      vuXITOP_def vuXTOP_def Let_def get_vu_mono vu_keeps)

lemma op_keeps_mem:
  assumes "\<And>E k s j. vpipes (get_vu j (f E k s)) = vpipes (get_vu j s)" and "\<And>E k s. VF (get_vu k (f E k s)) 0 = VF (get_vu k s) 0"
  shows "op_keeps (f, r)"
  using assms by (auto simp: op_keeps_def)

lemma op_keeps_vu1_only: "op_keeps (f, r) \<Longrightarrow> op_keeps (vu1_only f, r)"
  by (simp add: op_keeps_def vu1_only_def)

text \<open>The lower instructions, with the one exception.\<close>

definition op_kicks :: "'d vu_entry \<Rightarrow> bool" where
  "op_kicks e \<longleftrightarrow> op_keeps e \<or> fst e = vu1_only vuXGKICK"

lemma op_kicks_intros:
  "op_kicks (vu1_only vuXGKICK, r)" "op_keeps e \<Longrightarrow> op_kicks e"
  by (simp_all add: op_kicks_def)

lemma op_kicks_unk [simp]: "op_kicks unk" "list_all op_kicks (replicate n unk)"
  by (simp_all add: op_kicks_def list_all_length)

lemma LOWER_op_kicks:
  "list_all op_kicks VU_LOWER_OPCODE" "list_all op_kicks VU_LowerOP_OPCODE" "list_all op_kicks VU_LowerOP_T3_00_OPCODE"
  "list_all op_kicks VU_LowerOP_T3_01_OPCODE" "list_all op_kicks VU_LowerOP_T3_10_OPCODE" "list_all op_kicks VU_LowerOP_T3_11_OPCODE"
  unfolding VU_LOWER_OPCODE_def VU_LowerOP_OPCODE_def VU_LowerOP_T3_00_OPCODE_def VU_LowerOP_T3_01_OPCODE_def
    VU_LowerOP_T3_10_OPCODE_def VU_LowerOP_T3_11_OPCODE_def
        apply (simp_all only: list_all_append list.pred_inject op_kicks_unk op_kicks_intros(1) simp_thms)
  by (intro conjI op_kicks_intros op_keeps_lift op_keeps_vu1_only;
      (rule op_keeps_mem)?; simp add: vu_lower_defs vu_keeps split_beta Let_def)+

lemma vu_table_lengths:
  "length VU_UPPER_OPCODE = 60" "length VU_UPPER_FD_00_TABLE = 32" "length VU_UPPER_FD_01_TABLE = 32"
  "length VU_UPPER_FD_10_TABLE = 32" "length VU_UPPER_FD_11_TABLE = 32"
  "length VU_LOWER_OPCODE = 64" "length VU_LowerOP_OPCODE = 60" "length VU_LowerOP_T3_00_OPCODE = 32"
  "length VU_LowerOP_T3_01_OPCODE = 32" "length VU_LowerOP_T3_10_OPCODE = 32" "length VU_LowerOP_T3_11_OPCODE = 32"
  by (simp_all add: VU_UPPER_OPCODE_def VU_UPPER_FD_00_TABLE_def VU_UPPER_FD_01_TABLE_def VU_UPPER_FD_10_TABLE_def
      VU_UPPER_FD_11_TABLE_def VU_LOWER_OPCODE_def VU_LowerOP_OPCODE_def VU_LowerOP_T3_00_OPCODE_def VU_LowerOP_T3_01_OPCODE_def
      VU_LowerOP_T3_10_OPCODE_def VU_LowerOP_T3_11_OPCODE_def)

lemma and_31_lt: "unat ((c::u32) AND 0x1f) < 32"
  using word_and_le1 [of c "0x1f"] by (simp add: word_le_nat_alt)

lemma UPPER_entry:
  assumes "list_all P VU_UPPER_OPCODE" "list_all P VU_UPPER_FD_00_TABLE" "list_all P VU_UPPER_FD_01_TABLE"
    "list_all P VU_UPPER_FD_10_TABLE" "list_all P VU_UPPER_FD_11_TABLE"
  shows "P (UPPER_OPCODE c)"
  using assms and_31_lt [of "drop_bit 6 c"] by (simp add: UPPER_OPCODE_def Let_def list_all_length vu_table_lengths)

lemma LOWER_entry:
  assumes "list_all P VU_LOWER_OPCODE" "list_all P VU_LowerOP_OPCODE" "list_all P VU_LowerOP_T3_00_OPCODE"
    "list_all P VU_LowerOP_T3_01_OPCODE" "list_all P VU_LowerOP_T3_10_OPCODE" "list_all P VU_LowerOP_T3_11_OPCODE" "P unk"
  shows "P (LOWER_OPCODE c)"
  using assms and_31_lt [of "drop_bit 6 c"] by (simp add: LOWER_OPCODE_def LowerOP_def Let_def list_all_length vu_table_lengths)

lemma UPPER_keeps: "op_keeps (UPPER_OPCODE c)"
  by (rule UPPER_entry) (rule UPPER_op_keeps)+

lemma LOWER_kicks: "op_kicks (LOWER_OPCODE c)"
  by (rule LOWER_entry) (rule LOWER_op_kicks op_kicks_unk)+

end
