(* ===== verification/VU_Queue.thy ===== *)
theory VU_Queue
  imports VU_Frame
begin

text \<open>
  The rings of the vector units' pipelines as queues. The live entries of a ring, from the read
  position on, form a list; retiring drops its head and entering appends to it while the ring is
  not full. The entries of both rings are timed: they have a start and a latency and were entered in order,
  which the locale below turns into the facts that the code relies on.
\<close>

section \<open>A ring of four entries is a queue\<close>

definition ring_list :: "(2 word \<Rightarrow> 'a) \<Rightarrow> 2 word \<Rightarrow> nat \<Rightarrow> 'a list" where
  "ring_list f r n = map (\<lambda>j. f (r + of_nat j)) [0..<n]"

lemma ring_list_length [simp]: "length (ring_list f r n) = n"
  by (simp add: ring_list_def)

lemma ring_list_0 [simp]: "ring_list f r 0 = []"
  by (simp add: ring_list_def)

lemma ring_list_Suc: "ring_list f r (Suc n) = f r # ring_list f (r + 1) n"
  unfolding ring_list_def by (subst upt_conv_Cons) (simp_all add: map_Suc_upt [symmetric] o_def add.assoc del: upt_Suc)

lemma ring_list_snoc: "ring_list f r (Suc n) = ring_list f r n @ [f (r + of_nat n)]"
  by (simp add: ring_list_def)

lemma ring_slots_differ:
  fixes r :: "2 word"
  assumes "j < n" and "n \<le> 3"
  shows "r + of_nat j \<noteq> r + of_nat n"
proof
  assume "r + of_nat j = r + of_nat n"
  then have "(of_nat j :: 2 word) = of_nat n" by simp
  then have "take_bit 2 j = take_bit 2 n" by (simp add: word_of_nat_eq_iff)
  with assms show False by (simp add: take_bit_eq_mod)
qed

lemma ring_list_upd:
  assumes "n \<le> 3"
  shows "ring_list (f(r + of_nat n := x)) r n = ring_list f r n"
  unfolding ring_list_def using ring_slots_differ [OF _ assms] by (intro map_cong) auto

lemma ring_list_tl: "0 < n \<Longrightarrow> ring_list f r n = f r # ring_list f (r + 1) (n - 1)"
  by (cases n) (simp_all add: ring_list_Suc)

section \<open>Timed entries\<close>

text \<open>Every entry has the latency 4, started no later than now, and they started in the order of the queue.\<close>

definition queue_ok :: "('e \<Rightarrow> u64) \<Rightarrow> ('e \<Rightarrow> u32) \<Rightarrow> u64 \<Rightarrow> 'e list \<Rightarrow> bool" where
  "queue_ok st la now es \<longleftrightarrow> sorted_wrt (\<lambda>a b. st a < st b) es \<and> (\<forall>e\<in>set es. la e = 4 \<and> st e \<le> now)"

lemma queue_ok_Nil [simp]: "queue_ok st la now []"
  by (simp add: queue_ok_def)

lemma queue_ok_later: "queue_ok st la now es \<Longrightarrow> now \<le> now' \<Longrightarrow> queue_ok st la now' es"
  by (auto simp: queue_ok_def)

lemma sorted_wrt_dropWhile: "sorted_wrt R es \<Longrightarrow> sorted_wrt R (dropWhile P es)"
  by (induction es) auto

lemma queue_ok_dropWhile: "queue_ok st la now es \<Longrightarrow> queue_ok st la now (dropWhile P es)"
  by (auto simp: queue_ok_def sorted_wrt_dropWhile dest: set_dropWhileD)

text \<open>A provider of timed entries tells when one is finished; the client's facts follow from that.\<close>

locale timed_entries =
  fixes st :: "'e \<Rightarrow> u64" and la :: "'e \<Rightarrow> u32" and fin :: "u64 \<Rightarrow> 'e \<Rightarrow> bool"
  assumes fin_iff: "st e \<le> now \<Longrightarrow> fin now e \<longleftrightarrow> unat (la e) \<le> unat now - unat (st e)"
begin

lemma fin_earlier:
  assumes "queue_ok st la now es" "i \<le> j" "j < length es" "fin now (es ! j)"
  shows "fin now (es ! i)"
proof (cases "i = j")
  case False
  with assms have lt: "st (es ! i) < st (es ! j)" "i < length es"
    by (auto simp: queue_ok_def sorted_wrt_iff_nth_less)
  from assms lt(2) have in_es: "es ! i \<in> set es" "es ! j \<in> set es" by auto
  with assms(1) have "la (es ! i) = 4" "la (es ! j) = 4" and now: "st (es ! i) \<le> now" "st (es ! j) \<le> now"
    by (auto simp: queue_ok_def)
  with assms(4) lt(1) show ?thesis
    by (simp add: fin_iff [OF now(1)] fin_iff [OF now(2)] word_less_nat_alt)
qed (use assms in simp)

lemma flushed:
  assumes "queue_ok st la now es" "e \<in> set (dropWhile (fin now) es)"
  shows "\<not> fin now e"
proof
  assume fin: "fin now e"
  let ?d = "dropWhile (fin now) es"
  from assms(2) obtain j where j: "j < length ?d" "?d ! j = e" by (auto simp: in_set_conv_nth)
  then have ne: "?d \<noteq> []" by (metis length_0_conv less_nat_zero_code)
  from fin_earlier [OF queue_ok_dropWhile [OF assms(1)], of 0 j] j fin have "fin now (?d ! 0)" by simp
  with hd_dropWhile [OF ne] ne show False by (simp add: hd_conv_nth)
qed

lemma space:
  assumes "queue_ok st la now es" "\<forall>e\<in>set es. \<not> fin now e" "\<forall>e\<in>set es. st e < now"
  shows "length es \<le> 3"
proof (rule ccontr)
  assume "\<not> ?thesis"
  then have n: "3 < length es" by simp
  from n assms(1) have lt: "st (es ! 0) < st (es ! 1)" "st (es ! 1) < st (es ! 2)" "st (es ! 2) < st (es ! 3)"
    by (auto simp: queue_ok_def sorted_wrt_iff_nth_less)
  from n have "0 < length es" by linarith
  with n have in_es: "es ! 0 \<in> set es" "es ! 3 \<in> set es" by (auto intro: nth_mem simp del: length_greater_0_conv)
  from assms in_es have "\<not> fin now (es ! 0)" and le: "st (es ! 0) \<le> now" and la: "la (es ! 0) = 4" and b: "st (es ! 3) < now"
    by (auto simp: queue_ok_def)
  then have "unat now - unat (st (es ! 0)) < 4" by (simp add: fin_iff [OF le])
  moreover have "unat (st (es ! 0)) + 3 \<le> unat (st (es ! 3))" "unat (st (es ! 3)) < unat now"
    using lt b by (auto simp: word_less_nat_alt)
  ultimately show False by simp
qed

lemma enter:
  assumes "queue_ok st la now es" "\<forall>e\<in>set es. st e < now" "st x = now" "la x = 4"
  shows "queue_ok st la now (es @ [x])"
  using assms by (auto simp: queue_ok_def sorted_wrt_append)

end

lemma not_less_cycles:
  fixes s now :: u64 and n :: u32
  assumes "s \<le> now"
  shows "\<not> now - s < ucast n \<longleftrightarrow> unat n \<le> unat now - unat s"
proof -
  have "unat (now - s) = unat now - unat s" using assms by (simp add: unat_sub)
  moreover have "unat (ucast n :: u64) = unat n"
    by (simp add: unsigned_ucast_eq take_bit_nat_eq_self_iff less_le_trans [OF unsigned_less])
  ultimately show ?thesis by (simp add: word_less_nat_alt not_less)
qed

interpretation fm: timed_entries fmSCycle fmCycle fm_done
  by unfold_locales (simp add: fm_done_def not_less_cycles)

interpretation ia: timed_entries iaSCycle iaCycle ia_done
  by unfold_locales (simp add: ia_done_def not_less_cycles)

section \<open>The rings of a unit\<close>

definition fm_list :: "VURegs \<Rightarrow> fmacPipe list" where
  "fm_list v = ring_list (fmac v) (fmacreadpos v) (unat (fmaccount v))"

definition ia_list :: "VURegs \<Rightarrow> ialuPipe list" where
  "ia_list v = ring_list (ialu v) (ialureadpos v) (unat (ialucount v))"

lemma unat_pred: "(n::u32) \<noteq> 0 \<Longrightarrow> unat (n - 1) = unat n - 1"
  by (simp add: unat_minus_one)

lemma fm_list_head: "fmaccount v \<noteq> 0 \<Longrightarrow> fm_list v = fmac v (fmacreadpos v) # fm_list (fmac_retire v)"
  by (simp add: fm_list_def fmac_retire_def unat_pred ring_list_tl unat_gt_0)

lemma ia_list_head: "ialucount v \<noteq> 0 \<Longrightarrow> ia_list v = ialu v (ialureadpos v) # ia_list (ialu_retire v)"
  by (simp add: ia_list_def ialu_retire_def unat_pred ring_list_tl unat_gt_0)

lemma fm_list_Nil: "fmaccount v = 0 \<Longrightarrow> fm_list v = []" and ia_list_Nil: "ialucount v = 0 \<Longrightarrow> ia_list v = []"
  by (simp_all add: fm_list_def ia_list_def)

lemma vuFMACflush_loop_queue:
  "fm_list (snd (vuFMACflush_loop d v)) = dropWhile (fm_done (vcycle v)) (fm_list v)"
proof (induction d v rule: vuFMACflush_loop.induct)
  case (1 d v)
  show ?case
  proof (cases "fmaccount v = 0 \<or> \<not> fm_done (vcycle v) (fmac v (fmacreadpos v))")
    case True
    then have "dropWhile (fm_done (vcycle v)) (fm_list v) = fm_list v"
      by (cases "fmaccount v = 0") (simp_all add: fm_list_Nil fm_list_head)
    with True show ?thesis by (subst vuFMACflush_loop.simps) simp
  next
    case False
    then have "fm_list v = fmac v (fmacreadpos v) # fm_list (fmac_retire v)" by (simp add: fm_list_head)
    with False "1.IH" [OF False] show ?thesis by (subst vuFMACflush_loop.simps) (simp add: fmac_retire_def)
  qed
qed

lemma vuIALUflush_loop_queue:
  "ia_list (snd (vuIALUflush_loop d v)) = dropWhile (ia_done (vcycle v)) (ia_list v)"
proof (induction d v rule: vuIALUflush_loop.induct)
  case (1 d v)
  show ?case
  proof (cases "ialucount v = 0 \<or> \<not> ia_done (vcycle v) (ialu v (ialureadpos v))")
    case True
    then have "dropWhile (ia_done (vcycle v)) (ia_list v) = ia_list v"
      by (cases "ialucount v = 0") (simp_all add: ia_list_Nil ia_list_head)
    with True show ?thesis by (subst vuIALUflush_loop.simps) simp
  next
    case False
    then have "ia_list v = ialu v (ialureadpos v) # ia_list (ialu_retire v)" by (simp add: ia_list_head)
    with False "1.IH" [OF False] show ?thesis by (subst vuIALUflush_loop.simps) (simp add: ialu_retire_def)
  qed
qed

end
