(* ===== verification/VU_Safety.thy ===== *)
theory VU_Safety
  imports VU_Queue
begin

text \<open>
  The invariant of the pipelines: both rings hold at most four entries, entered in order and started in
  the past, and the two unpipelined units are within their longest latency. Every part of a step keeps
  it, so a step keeps it and moves the cycle on; the stalls leave no unfinished entry that the
  instruction would read.
\<close>

abbreviation (input) cyc :: "VURegs \<Rightarrow> nat" where "cyc v \<equiv> unat (vcycle v)"

definition fdiv_ok :: "VURegs \<Rightarrow> bool" where
  "fdiv_ok v \<longleftrightarrow> (fdEnable (fdiv v) \<longrightarrow> fdSCycle (fdiv v) \<le> vcycle v \<and> fdCycle (fdiv v) \<le> 54)"

definition efu_ok :: "VURegs \<Rightarrow> bool" where
  "efu_ok v \<longleftrightarrow> (efEnable (efu v) \<longrightarrow> efSCycle (efu v) \<le> vcycle v \<and> efCycle (efu v) \<le> 54)"

definition efu_pos :: "VURegs \<Rightarrow> bool" where
  "efu_pos v \<longleftrightarrow> (efEnable (efu v) \<longrightarrow> 0 < efCycle (efu v))"

definition pipes_inv :: "2 word \<Rightarrow> VURegs \<Rightarrow> bool" where
  "pipes_inv d v \<longleftrightarrow>
     queue_ok fmSCycle fmCycle (vcycle v) (fm_list v) \<and> queue_ok iaSCycle iaCycle (vcycle v) (ia_list v) \<and>
     length (fm_list v) \<le> 4 \<and> length (ia_list v) \<le> 4 \<and>
     fmacwritepos v + d = fmacreadpos v + of_nat (unat (fmaccount v)) \<and>
     ialuwritepos v = ialureadpos v + of_nat (unat (ialucount v)) \<and> fdiv_ok v \<and> efu_ok v"

definition pipes_ok :: "VURegs \<Rightarrow> bool" where
  "pipes_ok v \<longleftrightarrow> pipes_inv 0 v \<and> efu_pos v \<and> xgkick_ok v"

lemma vcore_eq:
  assumes "vcore v = vcore w"
  shows "vcycle v = vcycle w" "fm_list v = fm_list w" "ia_list v = ia_list w" "fdiv v = fdiv w" "efu v = efu w"
    "pipes_inv d v = pipes_inv d w" "efu_pos v = efu_pos w"
  using assms by (simp_all add: vcore_def fm_list_def ia_list_def pipes_inv_def efu_pos_def fdiv_ok_def efu_ok_def)

lemma vpipes_core: "vpipes v = vpipes w \<Longrightarrow> vcore v = vcore w"
  by (simp add: vpipes_def)

lemma vpipes_eq:
  assumes "vpipes v = vpipes w"
  shows "vcycle v = vcycle w" "fm_list v = fm_list w" "ia_list v = ia_list w" "fdiv v = fdiv w" "efu v = efu w"
    "pipes_inv d v = pipes_inv d w" "efu_pos v = efu_pos w" "pipes_ok v = pipes_ok w"
    "fmaccount v = fmaccount w" "fmacreadpos v = fmacreadpos w" "fmac v = fmac w" "fmacwritepos v = fmacwritepos w"
    "xgkick_ok v = xgkick_ok w"
  using vcore_eq [OF vpipes_core [OF assms]] assms
  by (simp_all add: pipes_ok_def vpipes_def vcore_def xgkick_ok_def)

section \<open>Stalls\<close>

text \<open>A stall moves the cycle on, by no more than the longest latency, and nothing else, but for the one
  cycle that the elementary function unit gives up.\<close>

definition stalled :: "VURegs \<Rightarrow> VURegs \<Rightarrow> bool" where
  "stalled v0 v \<longleftrightarrow>
     (\<exists>c e. v = v0\<lparr>vcycle := c, efu := e\<rparr> \<and> vcycle v0 \<le> c \<and> unat c \<le> cyc v0 + 54 \<and>
        (e = efu v0 \<or> efEnable (efu v0) \<and> e = (efu v0)\<lparr>efCycle := efCycle (efu v0) - 1\<rparr>))"

lemma stalled_refl [simp]: "stalled v v"
  unfolding stalled_def by (rule exI [of _ "vcycle v"], rule exI [of _ "efu v"]) simp

lemma unat_add_cycles:
  fixes st c0 :: u64 and n :: u32
  assumes "st \<le> c0" "n \<le> 54" "unat c0 + 54 < 2 ^ 64"
  shows "unat (ucast n + st) = unat n + unat st" "unat (st + ucast n) = unat n + unat st"
proof -
  have n: "unat (ucast n :: u64) = unat n"
    by (simp add: unsigned_ucast_eq take_bit_nat_eq_self_iff less_le_trans [OF unsigned_less])
  have "unat n \<le> 54" using assms(2) by (simp add: word_le_nat_alt)
  with assms have "unat (ucast n :: u64) + unat st < 2 ^ LENGTH(64)" unfolding n by (simp add: word_le_nat_alt)
  then have "unat (ucast n + st) = unat (ucast n :: u64) + unat st" by (rule unat_add_lem [THEN iffD1])
  then have "unat (ucast n + st) = unat n + unat st" by (simp only: n)
  then show "unat (ucast n + st) = unat n + unat st" "unat (st + ucast n) = unat n + unat st"
    by (simp_all add: add.commute)
qed

lemma stall_for_stalled:
  assumes "stalled v0 v" "st \<le> vcycle v0" "n \<le> 54" "cyc v0 + 54 < 2 ^ 64"
  shows "stalled v0 (stall_for st n v)"
proof -
  from assms(1) obtain c e where v: "v = v0\<lparr>vcycle := c, efu := e\<rparr>" "vcycle v0 \<le> c" "unat c \<le> cyc v0 + 54"
      "e = efu v0 \<or> efEnable (efu v0) \<and> e = (efu v0)\<lparr>efCycle := efCycle (efu v0) - 1\<rparr>"
    by (auto simp: stalled_def)
  have n: "unat n \<le> 54" "unat st \<le> cyc v0" using assms by (simp_all add: word_le_nat_alt)
  show ?thesis
  proof (cases "c < ucast n + st")
    case True
    have "stall_for st n v = v0\<lparr>vcycle := ucast n + st, efu := e\<rparr>"
      using True v(1) by (simp add: stall_for_def Let_def)
    moreover have "vcycle v0 \<le> ucast n + st" using True v(2) by simp
    moreover have "unat (ucast n + st) \<le> cyc v0 + 54" using unat_add_cycles [OF assms(2-4)] n by simp
    ultimately show ?thesis using v(4) unfolding stalled_def by blast
  next
    case False
    then have "stall_for st n v = v" using v(1) by (simp add: stall_for_def Let_def)
    with assms(1) show ?thesis by simp
  qed
qed

lemma stalled_fields:
  assumes "stalled v0 v"
  shows "fm_list v = fm_list v0" "ia_list v = ia_list v0" "fmac v = fmac v0" "fmacreadpos v = fmacreadpos v0"
    "fmaccount v = fmaccount v0" "ialu v = ialu v0" "ialureadpos v = ialureadpos v0" "ialucount v = ialucount v0"
    "fmacwritepos v = fmacwritepos v0" "ialuwritepos v = ialuwritepos v0" "fdiv v = fdiv v0"
    "vcycle v0 \<le> vcycle v" "cyc v \<le> cyc v0 + 54" "VF v = VF v0"
  using assms by (auto simp: stalled_def fm_list_def ia_list_def)

lemma fold_stalled:
  assumes "stalled v0 v" "\<And>i w. i \<in> set xs \<Longrightarrow> stalled v0 w \<Longrightarrow> stalled v0 (f i w)"
  shows "stalled v0 (fold f xs v)"
  using assms by (induction xs arbitrary: v) auto

lemma fm_list_nth: "i < unat (fmaccount v) \<Longrightarrow> fmac v (fmacreadpos v + of_nat i) \<in> set (fm_list v)"
  and ia_list_nth: "i < unat (ialucount v) \<Longrightarrow> ialu v (ialureadpos v + of_nat i) \<in> set (ia_list v)"
  by (auto simp: fm_list_def ia_list_def ring_list_def)

lemma queue_entry:
  "queue_ok st la now es \<Longrightarrow> e \<in> set es \<Longrightarrow> st e \<le> now \<and> la e \<le> 54"
  by (auto simp: queue_ok_def)

lemma vuFMACTestStall_stalled:
  assumes "stalled v0 v" "pipes_inv d v0" "cyc v0 + 54 < 2 ^ 64"
  shows "stalled v0 (vuFMACTestStall reg xyzw v)"
  unfolding vuFMACTestStall_def
proof (rule fold_stalled [OF assms(1)])
  fix i w
  assume "i \<in> set [0..<unat (fmaccount v)]" and w: "stalled v0 w"
  then have "i < unat (fmaccount v0)" using stalled_fields [OF assms(1)] by simp
  from fm_list_nth [OF this] have "fmac w (fmacreadpos w + of_nat i) \<in> set (fm_list v0)"
    using stalled_fields [OF w] by simp
  with assms(2) have "fmSCycle (fmac w (fmacreadpos w + of_nat i)) \<le> vcycle v0 \<and> fmCycle (fmac w (fmacreadpos w + of_nat i)) \<le> 54"
    by (auto simp: pipes_inv_def dest: queue_entry)
  then show "stalled v0 (let p = fmac w (fmacreadpos w + of_nat i) in
      if fm_done (vcycle w) p then w else if fmac_match reg xyzw p then stall_for (fmSCycle p) (fmCycle p) w else w)"
    using w assms(3) by (simp add: Let_def stall_for_stalled)
qed

lemma vuTestFMACStalls_stalled:
  assumes "stalled v0 v" "pipes_inv d v0" "cyc v0 + 54 < 2 ^ 64"
  shows "stalled v0 (vuTestFMACStalls n v)"
  using assms vuFMACTestStall_stalled [OF _ assms(2,3)] by (simp add: vuTestFMACStalls_def Let_def)

lemma vuTestALUStalls_stalled:
  assumes "stalled v0 v" "pipes_inv d v0" "cyc v0 + 54 < 2 ^ 64"
  shows "stalled v0 (vuTestALUStalls n v)"
  unfolding vuTestALUStalls_def
proof (rule fold_stalled [OF assms(1)])
  fix i w
  assume "i \<in> set [0..<unat (ialucount v)]" and w: "stalled v0 w"
  then have "i < unat (ialucount v0)" using stalled_fields [OF assms(1)] by simp
  from ia_list_nth [OF this] have "ialu w (ialureadpos w + of_nat i) \<in> set (ia_list v0)"
    using stalled_fields [OF w] by simp
  with assms(2) have "iaSCycle (ialu w (ialureadpos w + of_nat i)) \<le> vcycle v0 \<and> iaCycle (ialu w (ialureadpos w + of_nat i)) \<le> 54"
    by (auto simp: pipes_inv_def dest: queue_entry)
  then show "stalled v0 (let p = ialu w (ialureadpos w + of_nat i) in
      if ia_done (vcycle w) p then w else if iaReg p AND VIread n \<noteq> 0 then stall_for (iaSCycle p) (iaCycle p) w else w)"
    using w assms(3) by (simp add: Let_def stall_for_stalled)
qed

lemma vuTestFDIVStalls_stalled:
  assumes "stalled v0 v" "pipes_inv d v0" "cyc v0 + 54 < 2 ^ 64"
  shows "stalled v0 (vuTestFDIVStalls n v)"
proof -
  have s: "stalled v0 (vuTestFMACStalls n v)" by (rule vuTestFMACStalls_stalled [OF assms])
  have "fdEnable (fdiv v0) \<longrightarrow> fdSCycle (fdiv v0) \<le> vcycle v0 \<and> fdCycle (fdiv v0) \<le> 54"
    using assms(2) by (simp add: pipes_inv_def fdiv_ok_def)
  with s assms(3) stalled_fields(11) [OF s] show ?thesis
    by (simp add: vuTestFDIVStalls_def Let_def stall_for_stalled)
qed

lemma stalls_efu [simp]:
  "efu (stall_for st n v) = efu v" "efu (vuFMACTestStall r x v) = efu v" "efu (vuTestFMACStalls m v) = efu v"
proof -
  show a: "efu (stall_for st n v) = efu v" for st n v by (simp add: stall_for_def Let_def)
  show b: "efu (vuFMACTestStall r x v) = efu v" for r x v
    unfolding vuFMACTestStall_def by (rule fold_keeps [where g = efu]) (simp add: a Let_def)
  show "efu (vuTestFMACStalls m v) = efu v" by (simp add: vuTestFMACStalls_def b Let_def)
qed

lemma pred_le: "0 < n \<Longrightarrow> n \<le> k \<Longrightarrow> n - 1 \<le> (k::u32)"
  by (simp add: word_le_nat_alt unat_pred word_neq_0_conv)

lemma stalled_give_up:
  assumes "stalled v0 v" "efu v = efu v0" "efEnable (efu v0)"
  shows "stalled v0 (v\<lparr>efu := (efu v)\<lparr>efCycle := efCycle (efu v) - 1\<rparr>\<rparr>)"
  using assms unfolding stalled_def by (elim exE conjE) (simp, blast)

lemma vuTestEFUStalls_stalled:
  assumes "stalled v0 v" "pipes_ok v0" "cyc v0 + 54 < 2 ^ 64" "efu v = efu v0"
  shows "stalled v0 (vuTestEFUStalls n v)"
proof -
  have inv: "pipes_inv 0 v0" using assms(2) by (simp add: pipes_ok_def)
  have s: "stalled v0 (vuTestFMACStalls n v)" by (rule vuTestFMACStalls_stalled [OF assms(1) inv assms(3)])
  show ?thesis
  proof (cases "efEnable (efu v0)")
    case True
    then have "efSCycle (efu v0) \<le> vcycle v0" "efCycle (efu v0) \<le> 54" "0 < efCycle (efu v0)"
      using assms(2) by (simp_all add: pipes_ok_def pipes_inv_def efu_ok_def efu_pos_def)
    moreover from this have "efCycle (efu v0) - 1 \<le> 54" by (simp add: pred_le)
    ultimately show ?thesis
      using True assms(3,4) stalled_give_up [OF s _ True] by (simp add: vuTestEFUStalls_def Let_def stall_for_stalled)
  qed (use s assms(4) in \<open>simp add: vuTestEFUStalls_def Let_def\<close>)
qed

lemma vuTestUpperStalls_stalled:
  assumes "pipes_ok v" "cyc v + 54 < 2 ^ 64"
  shows "stalled v (vuTestUpperStalls n v)" "efu (vuTestUpperStalls n v) = efu v"
  using assms vuTestFMACStalls_stalled [of v v 0 n]
  by (auto simp: vuTestUpperStalls_def pipes_ok_def split: VUPipeState.split)

lemma vuTestLowerStalls_stalled:
  assumes "stalled v0 v" "efu v = efu v0" "pipes_ok v0" "cyc v0 + 54 < 2 ^ 64"
  shows "stalled v0 (vuTestLowerStalls n v)"
proof -
  have "pipes_inv 0 v0" using assms(3) by (simp add: pipes_ok_def)
  then show ?thesis
    using assms vuTestFMACStalls_stalled vuTestFDIVStalls_stalled vuTestALUStalls_stalled vuTestEFUStalls_stalled
    by (auto simp: vuTestLowerStalls_def split: VUPipeState.split)
qed

text \<open>Entries that were there before this step have started before its cycle.\<close>

definition entered_before :: "VURegs \<Rightarrow> bool" where
  "entered_before v \<longleftrightarrow> (\<forall>e\<in>set (fm_list v). fmSCycle e < vcycle v) \<and> (\<forall>e\<in>set (ia_list v). iaSCycle e < vcycle v)"

lemma stalled_inv:
  assumes "stalled v0 v" "pipes_ok v0"
  shows "pipes_inv 0 v"
proof -
  from assms(1) obtain c e where v: "v = v0\<lparr>vcycle := c, efu := e\<rparr>" "vcycle v0 \<le> c"
      "e = efu v0 \<or> efEnable (efu v0) \<and> e = (efu v0)\<lparr>efCycle := efCycle (efu v0) - 1\<rparr>"
    by (auto simp: stalled_def)
  have inv: "pipes_inv 0 v0" "efu_pos v0" using assms(2) by (simp_all add: pipes_ok_def)
  have "efu_ok v" using inv v by (auto simp: pipes_inv_def efu_ok_def efu_pos_def intro: pred_le)
  moreover have "fdiv_ok v" using inv v by (auto simp: pipes_inv_def fdiv_ok_def)
  ultimately show ?thesis
    using inv(1) v(1) queue_ok_later [OF _ v(2), of fmSCycle] queue_ok_later [OF _ v(2), of iaSCycle] unfolding pipes_inv_def by (auto simp: fm_list_def ia_list_def)
qed

lemma stalled_entered: "stalled v0 v \<Longrightarrow> entered_before v0 \<Longrightarrow> entered_before v"
  using stalled_fields [of v0 v] by (auto simp: entered_before_def)

section \<open>Retirement\<close>

lemma retire_fields [simp]:
  "vcycle (fmac_retire v) = vcycle v" "vcycle (ialu_retire v) = vcycle v" "vcycle (fdiv_retire v) = vcycle v"
  "vcycle (efu_retire v) = vcycle v"
  "ia_list (fmac_retire v) = ia_list v" "fm_list (ialu_retire v) = fm_list v"
  "fm_list (fdiv_retire v) = fm_list v" "ia_list (fdiv_retire v) = ia_list v"
  "fm_list (efu_retire v) = fm_list v" "ia_list (efu_retire v) = ia_list v"
  "VF (fmac_retire v) = VF v" "VF (ialu_retire v) = VF v" "VF (fdiv_retire v) = VF v" "VF (efu_retire v) = VF v"
  by (simp_all add: fmac_retire_def ialu_retire_def fdiv_retire_def efu_retire_def fm_list_def ia_list_def)

lemma of_nat_pred: "(n::u32) \<noteq> 0 \<Longrightarrow> (of_nat (unat (n - 1)) :: 2 word) + 1 = of_nat (unat n)"
proof -
  assume n: "n \<noteq> 0"
  then obtain k where k: "unat n = Suc k" by (metis not0_implies_Suc unat_eq_zero)
  with n have "unat (n - 1) = k" by (simp add: unat_pred)
  then show ?thesis unfolding k by (simp only:) (simp add: add.commute)
qed

lemma queue_ok_Cons: "queue_ok st la now (e # es) \<Longrightarrow> queue_ok st la now es"
  by (simp add: queue_ok_def)

lemma pipes_inv_retire:
  "fmaccount v \<noteq> 0 \<Longrightarrow> pipes_inv d v \<Longrightarrow> pipes_inv d (fmac_retire v)"
  "ialucount v \<noteq> 0 \<Longrightarrow> pipes_inv d v \<Longrightarrow> pipes_inv d (ialu_retire v)"
  "pipes_inv d v \<Longrightarrow> pipes_inv d (fdiv_retire v)"
  "pipes_inv d v \<Longrightarrow> pipes_inv d (efu_retire v)"
proof -
  assume a: "fmaccount v \<noteq> 0" "pipes_inv d v"
  then have "queue_ok fmSCycle fmCycle (vcycle v) (fm_list (fmac_retire v))" "length (fm_list (fmac_retire v)) \<le> 4"
    by (auto simp: pipes_inv_def fm_list_head dest: queue_ok_Cons)
  with a show "pipes_inv d (fmac_retire v)"
    using of_nat_pred [OF a(1)] by (simp add: pipes_inv_def) (simp add: fmac_retire_def fdiv_ok_def efu_ok_def add.commute add.left_commute)
next
  assume a: "ialucount v \<noteq> 0" "pipes_inv d v"
  then have "queue_ok iaSCycle iaCycle (vcycle v) (ia_list (ialu_retire v))" "length (ia_list (ialu_retire v)) \<le> 4"
    by (auto simp: pipes_inv_def ia_list_head dest: queue_ok_Cons)
  with a show "pipes_inv d (ialu_retire v)"
    using of_nat_pred [OF a(1)] by (simp add: pipes_inv_def) (simp add: ialu_retire_def fdiv_ok_def efu_ok_def add.commute add.left_commute)
next
  assume "pipes_inv d v" then show "pipes_inv d (fdiv_retire v)"
    by (simp add: pipes_inv_def) (simp add: fdiv_retire_def fdiv_ok_def efu_ok_def)
next
  assume "pipes_inv d v" then show "pipes_inv d (efu_retire v)"
    by (simp add: pipes_inv_def) (simp add: efu_retire_def fdiv_ok_def efu_ok_def)
qed

text \<open>What all retirements keep, a round and the whole loop over the pipelines keep.\<close>

definition retire_closed :: "(VURegs \<Rightarrow> bool) \<Rightarrow> bool" where
  "retire_closed P \<longleftrightarrow>
     (\<forall>v. P v \<longrightarrow>
        (fmaccount v \<noteq> 0 \<and> fm_done (vcycle v) (fmac v (fmacreadpos v)) \<longrightarrow> P (fmac_retire v)) \<and>
        (ialucount v \<noteq> 0 \<and> ia_done (vcycle v) (ialu v (ialureadpos v)) \<longrightarrow> P (ialu_retire v)) \<and>
        (fdEnable (fdiv v) \<and> fd_done (vcycle v) (fdiv v) \<longrightarrow> P (fdiv_retire v)) \<and>
        (efEnable (efu v) \<and> ef_done (vcycle v) (efu v) \<longrightarrow> P (efu_retire v)))"

lemma fmac_loop_closed: "retire_closed P \<Longrightarrow> P v \<Longrightarrow> P (snd (vuFMACflush_loop b v))"
  by (induction b v rule: vuFMACflush_loop.induct) (subst vuFMACflush_loop.simps, auto simp: retire_closed_def)

lemma ialu_loop_closed: "retire_closed P \<Longrightarrow> P v \<Longrightarrow> P (snd (vuIALUflush_loop b v))"
  by (induction b v rule: vuIALUflush_loop.induct) (subst vuIALUflush_loop.simps, auto simp: retire_closed_def)

lemma round_closed:
  assumes "retire_closed P" "P v"
  shows "P (snd (vuTestPipes_round v))"
proof -
  define v1 where "v1 = snd (vuFMACflush v)"
  define v2 where "v2 = snd (vuFDIVflush v1)"
  define v3 where "v3 = snd (vuEFUflush v2)"
  have "P v1" using assms by (simp add: v1_def vuFMACflush_def fmac_loop_closed)
  then have "P v2" using assms(1) by (simp add: v2_def vuFDIVflush_def retire_closed_def)
  then have "P v3" using assms(1) by (simp add: v3_def vuEFUflush_def retire_closed_def)
  then have "P (snd (vuIALUflush v3))" using assms by (simp add: vuIALUflush_def ialu_loop_closed)
  then show ?thesis by (simp add: vuTestPipes_round_def v1_def v2_def v3_def split_beta)
qed

lemma loop_closed: "retire_closed P \<Longrightarrow> P v \<Longrightarrow> P (vuTestPipes_loop v)"
proof (induction v rule: vuTestPipes_loop.induct)
  case (1 v)
  obtain b w where r: "vuTestPipes_round v = (b, w)" by fastforce
  with round_closed [OF "1.prems"] have "P w" by simp
  with "1.IH" [OF r [symmetric]] r "1.prems" show ?case by (subst vuTestPipes_loop.simps) simp
qed

lemma fmac_loop_False: "vuFMACflush_loop b v = (False, w) \<Longrightarrow> w = v \<and> \<not> b"
proof (induction b v rule: vuFMACflush_loop.induct)
  case (1 b v)
  show ?case
  proof (cases "fmaccount v = 0 \<or> \<not> fm_done (vcycle v) (fmac v (fmacreadpos v))")
    case True
    then show ?thesis using "1.prems" by (subst (asm) vuFMACflush_loop.simps) simp
  next
    case False
    then have "vuFMACflush_loop True (fmac_retire v) = (False, w)" using "1.prems" by (subst (asm) vuFMACflush_loop.simps) simp
    with "1.IH" [OF False] show ?thesis by simp
  qed
qed

lemma ialu_loop_False: "vuIALUflush_loop b v = (False, w) \<Longrightarrow> w = v \<and> \<not> b"
proof (induction b v rule: vuIALUflush_loop.induct)
  case (1 b v)
  show ?case
  proof (cases "ialucount v = 0 \<or> \<not> ia_done (vcycle v) (ialu v (ialureadpos v))")
    case True
    then show ?thesis using "1.prems" by (subst (asm) vuIALUflush_loop.simps) simp
  next
    case False
    then have "vuIALUflush_loop True (ialu_retire v) = (False, w)" using "1.prems" by (subst (asm) vuIALUflush_loop.simps) simp
    with "1.IH" [OF False] show ?thesis by simp
  qed
qed

text \<open>After the loop nothing that has finished is left in any pipeline.\<close>

definition pipes_quiet :: "VURegs \<Rightarrow> bool" where
  "pipes_quiet v \<longleftrightarrow>
     (\<forall>e\<in>set (fm_list v). \<not> fm_done (vcycle v) e) \<and> (\<forall>e\<in>set (ia_list v). \<not> ia_done (vcycle v) e) \<and>
     (fdEnable (fdiv v) \<longrightarrow> \<not> fd_done (vcycle v) (fdiv v)) \<and> (efEnable (efu v) \<longrightarrow> \<not> ef_done (vcycle v) (efu v))"

lemma round_quiet:
  assumes "vuTestPipes_round v = (False, w)" "pipes_inv d v"
  shows "w = v \<and> pipes_quiet v"
proof -
  obtain v1 v2 v3 where r: "vuFMACflush v = (False, v1)" "vuFDIVflush v1 = (False, v2)" "vuEFUflush v2 = (False, v3)"
      "vuIALUflush v3 = (False, w)"
    using assms(1) by (auto simp: vuTestPipes_round_def split: prod.splits)
  have v1: "v1 = v" and fl: "vuFMACflush_loop False v = (False, v)"
    using fmac_loop_False [of False v v1] r(1) by (simp_all add: vuFMACflush_def)
  have v2: "v2 = v" "fdEnable (fdiv v) \<longrightarrow> \<not> fd_done (vcycle v) (fdiv v)"
    using r(2) v1 by (auto simp: vuFDIVflush_def split: if_splits)
  have v3: "v3 = v" "efEnable (efu v) \<longrightarrow> \<not> ef_done (vcycle v) (efu v)"
    using r(3) v2 by (auto simp: vuEFUflush_def split: if_splits)
  have w: "w = v" and il: "vuIALUflush_loop False v = (False, v)"
    using ialu_loop_False [of False v3 w] r(4) v3 by (simp_all add: vuIALUflush_def)
  have "fm_list v = dropWhile (fm_done (vcycle v)) (fm_list v)" using vuFMACflush_loop_queue [of False v] fl by simp
  moreover have "ia_list v = dropWhile (ia_done (vcycle v)) (ia_list v)" using vuIALUflush_loop_queue [of False v] il by simp
  ultimately show ?thesis
    using assms(2) fm.flushed [of "vcycle v" "fm_list v"] ia.flushed [of "vcycle v" "ia_list v"] v2 v3 w
    unfolding pipes_quiet_def pipes_inv_def by auto
qed

lemma loop_quiet: "pipes_inv d v \<Longrightarrow> pipes_quiet (vuTestPipes_loop v)"
proof (induction v rule: vuTestPipes_loop.induct)
  case (1 v)
  obtain b w where r: "vuTestPipes_round v = (b, w)" by fastforce
  have "retire_closed (pipes_inv d)" by (simp add: retire_closed_def pipes_inv_retire)
  from round_closed [OF this "1.prems"] r have "pipes_inv d w" by simp
  with "1.IH" [OF r [symmetric]] r "1.prems" round_quiet [OF _ "1.prems"] show ?case
    by (subst vuTestPipes_loop.simps) auto
qed

lemma loop_pipes:
  assumes "pipes_inv d v"
  shows "pipes_inv d (vuTestPipes_loop v)" "vcycle (vuTestPipes_loop v) = vcycle v" "VF (vuTestPipes_loop v) = VF v"
    "entered_before v \<Longrightarrow> entered_before (vuTestPipes_loop v)" "pipes_quiet (vuTestPipes_loop v)" "efu_pos (vuTestPipes_loop v)"
    "xgkick_ok v \<Longrightarrow> xgkick_ok (vuTestPipes_loop v)"
proof -
  let ?w = "vuTestPipes_loop v"
  have "retire_closed (\<lambda>w. pipes_inv d w \<and> vcycle w = vcycle v \<and> VF w = VF v)"
    by (simp add: retire_closed_def pipes_inv_retire)
  from loop_closed [OF this, of v] assms
  show inv: "pipes_inv d ?w" "vcycle ?w = vcycle v" "VF ?w = VF v" by auto
  have "retire_closed entered_before"
    by (auto simp: retire_closed_def entered_before_def fm_list_head ia_list_head)
  then show "entered_before v \<Longrightarrow> entered_before ?w" by (rule loop_closed)
  have "retire_closed xgkick_ok"
    by (simp add: retire_closed_def xgkick_ok_def fmac_retire_def ialu_retire_def fdiv_retire_def efu_retire_def)
  then show "xgkick_ok v \<Longrightarrow> xgkick_ok ?w" by (rule loop_closed)
  show q: "pipes_quiet ?w" by (rule loop_quiet [OF assms])
  show "efu_pos ?w"
    using q by (auto simp: pipes_quiet_def efu_pos_def ef_done_def word_neq_0_conv [symmetric])
qed

text \<open>Exactly the finished entries are retired.\<close>

lemma fdiv_other [simp]:
  "fdiv (fmac_retire v) = fdiv v" "fdiv (ialu_retire v) = fdiv v" "fdiv (efu_retire v) = fdiv v"
  "VI (fmac_retire v) REG_Q = VI v REG_Q" "VI (ialu_retire v) REG_Q = VI v REG_Q" "VI (efu_retire v) REG_Q = VI v REG_Q"
  by (simp_all add: fmac_retire_def ialu_retire_def efu_retire_def fmac_flags_def Let_def)

lemma loop_retires:
  assumes "pipes_inv d v"
  defines "w \<equiv> vuTestPipes_loop v"
  shows "fm_list w = filter (\<lambda>e. \<not> fm_done (vcycle v) e) (fm_list v)" "ia_list w = filter (\<lambda>e. \<not> ia_done (vcycle v) e) (ia_list v)"
    "fdEnable (fdiv w) \<longleftrightarrow> fdEnable (fdiv v) \<and> \<not> fd_done (vcycle v) (fdiv v)"
    "fdEnable (fdiv v) \<and> fd_done (vcycle v) (fdiv v) \<Longrightarrow> VI w REG_Q = fdReg (fdiv v)"
proof -
  let ?P = "\<lambda>w. vcycle w = vcycle v \<and>
      filter (\<lambda>e. \<not> fm_done (vcycle v) e) (fm_list w) = filter (\<lambda>e. \<not> fm_done (vcycle v) e) (fm_list v) \<and>
      filter (\<lambda>e. \<not> ia_done (vcycle v) e) (ia_list w) = filter (\<lambda>e. \<not> ia_done (vcycle v) e) (ia_list v) \<and>
      (fdiv w = fdiv v \<or>
       \<not> fdEnable (fdiv w) \<and> fdEnable (fdiv v) \<and> fd_done (vcycle v) (fdiv v) \<and> VI w REG_Q = fdReg (fdiv v))"
  have fd: "fdEnable (fdiv (fdiv_retire u)) = False" "VI (fdiv_retire u) REG_Q = fdReg (fdiv u)" for u
    by (simp_all add: fdiv_retire_def)
  have "retire_closed ?P" unfolding retire_closed_def by (auto simp: fm_list_head ia_list_head fd)
  from loop_closed [OF this, of v] have P: "?P w" by (simp add: w_def)
  have q: "pipes_quiet w" "vcycle w = vcycle v" using loop_pipes [OF assms(1)] by (simp_all add: w_def)
  then have "filter (\<lambda>e. \<not> fm_done (vcycle v) e) (fm_list w) = fm_list w" "filter (\<lambda>e. \<not> ia_done (vcycle v) e) (ia_list w) = ia_list w"
    by (simp_all add: pipes_quiet_def filter_id_conv)
  with P show "fm_list w = filter (\<lambda>e. \<not> fm_done (vcycle v) e) (fm_list v)" "ia_list w = filter (\<lambda>e. \<not> ia_done (vcycle v) e) (ia_list v)"
    by simp_all
  show "fdEnable (fdiv w) \<longleftrightarrow> fdEnable (fdiv v) \<and> \<not> fd_done (vcycle v) (fdiv v)" using P q by (auto simp: pipes_quiet_def)
  show "fdEnable (fdiv v) \<and> fd_done (vcycle v) (fdiv v) \<Longrightarrow> VI w REG_Q = fdReg (fdiv v)" using P q by (auto simp: pipes_quiet_def)
qed

section \<open>Entering\<close>

lemma vuClearFMAC_fields [simp]:
  "vcycle (vuClearFMAC v) = vcycle v" "fmacreadpos (vuClearFMAC v) = fmacreadpos v" "fmacwritepos (vuClearFMAC v) = fmacwritepos v"
  by (simp_all add: vuClearFMAC_def)

lemmas enter_defs = uses_fmac_def vu_enter_pipes_def vuAddUpperStalls_def vuAddLowerStalls_def vuAddFMACStalls_def vuClearFMAC_def
  vuAddFDIVStalls_def vuAddEFUStalls_def vuAddIALUStalls_def vuFDIVAdd_def vuEFUAdd_def

lemma enter_fmac:
  assumes "uses_fmac u l"
  shows "\<exists>x. fmSCycle x = vcycle v \<and> fmCycle x = 4 \<and> fmac (vu_enter_pipes u l v) = (fmac v)(fmacwritepos v := x) \<and>
    fmaccount (vu_enter_pipes u l v) = fmaccount v + 1"
  using assms
  by (intro exI [of _ "fmac (vu_enter_pipes u l v) (fmacwritepos v)"], cases "pipe u"; cases "pipe l"; simp add: enter_defs Let_def)

lemma enter_fields:
  "vcycle (vu_enter_pipes u l v) = vcycle v" "fmacreadpos (vu_enter_pipes u l v) = fmacreadpos v"
  "fmacwritepos (vu_enter_pipes u l v) = fmacwritepos v" "ialureadpos (vu_enter_pipes u l v) = ialureadpos v"
  "VF (vu_enter_pipes u l v) = VF v"
  "\<not> uses_fmac u l \<Longrightarrow> fmac (vu_enter_pipes u l v) = fmac v \<and> fmaccount (vu_enter_pipes u l v) = fmaccount v"
  by (cases "pipe u"; cases "pipe l"; simp add: enter_defs Let_def)+

text \<open>The latencies that the descriptors give.\<close>

definition regs_ok :: "VURegsNum \<Rightarrow> bool" where
  "regs_ok n \<longleftrightarrow>
     (pipe n = VUPIPE_IALU \<longrightarrow> cycles n = 0 \<or> cycles n = 4) \<and>
     (pipe n = VUPIPE_FDIV \<and> VIwrite n AND BIT_Q \<noteq> 0 \<longrightarrow> cycles n \<le> 54) \<and>
     (pipe n = VUPIPE_EFU \<and> VIwrite n AND BIT_P \<noteq> 0 \<longrightarrow> 0 < cycles n \<and> cycles n \<le> 54)"

lemma enter_upper_fields:
  fixes u l v
  defines "w \<equiv> vuAddUpperStalls u (if uses_fmac u l then vuClearFMAC v else v)"
  shows "ialu w = ialu v" "ialucount w = ialucount v" "ialuwritepos w = ialuwritepos v" "vcycle w = vcycle v" "fdiv w = fdiv v" "efu w = efu v"
  by (cases "pipe u", simp_all add: w_def vuAddUpperStalls_def vuAddFMACStalls_def vuClearFMAC_def Let_def)+

lemma enter_others:
  assumes "regs_ok l"
  shows "pipe l = VUPIPE_IALU \<and> cycles l = 4 \<Longrightarrow>
      ialu (vu_enter_pipes u l v) = (ialu v)(ialuwritepos v := \<lparr>iaReg = VIwrite l, iaSCycle = vcycle v, iaCycle = 4\<rparr>) \<and>
      ialucount (vu_enter_pipes u l v) = ialucount v + 1 \<and> ialuwritepos (vu_enter_pipes u l v) = ialuwritepos v + 1"
    and "\<not> (pipe l = VUPIPE_IALU \<and> cycles l = 4) \<Longrightarrow>
      ialu (vu_enter_pipes u l v) = ialu v \<and> ialucount (vu_enter_pipes u l v) = ialucount v \<and>
      ialuwritepos (vu_enter_pipes u l v) = ialuwritepos v"
    and "fdiv_ok v \<Longrightarrow> fdiv_ok (vu_enter_pipes u l v)"
    and "efu_ok v \<Longrightarrow> efu_ok (vu_enter_pipes u l v)"
    and "efu_pos v \<Longrightarrow> efu_pos (vu_enter_pipes u l v)"
  using assms enter_upper_fields [of u l v] unfolding vu_enter_pipes_def
  by (cases "pipe l"; simp add: regs_ok_def vuAddLowerStalls_def vuAddFMACStalls_def vuAddFDIVStalls_def vuAddEFUStalls_def
      vuAddIALUStalls_def vuFDIVAdd_def vuEFUAdd_def Let_def fdiv_ok_def efu_ok_def efu_pos_def)+

lemma count_up: "unat (n::u32) \<le> 3 \<Longrightarrow> unat (n + 1) = Suc (unat n)"
  using unat_add_lem [of n 1] by simp

lemma enter_inv:
  assumes "pipes_inv 0 v" "entered_before v" "pipes_quiet v" "regs_ok l"
  shows "pipes_inv (if uses_fmac u l then 1 else 0) (vu_enter_pipes u l v)"
proof -
  let ?w = "vu_enter_pipes u l v"
  have q: "queue_ok fmSCycle fmCycle (vcycle v) (fm_list v)" "queue_ok iaSCycle iaCycle (vcycle v) (ia_list v)"
    and wp: "fmacwritepos v = fmacreadpos v + of_nat (unat (fmaccount v))" "ialuwritepos v = ialureadpos v + of_nat (unat (ialucount v))"
    using assms(1) by (simp_all add: pipes_inv_def)
  have fm3: "unat (fmaccount v) \<le> 3" using fm.space [OF q(1)] assms(2,3) by (simp add: entered_before_def pipes_quiet_def fm_list_def)
  have ia3: "unat (ialucount v) \<le> 3" using ia.space [OF q(2)] assms(2,3) by (simp add: entered_before_def pipes_quiet_def ia_list_def)
  have fm: "queue_ok fmSCycle fmCycle (vcycle v) (fm_list ?w) \<and> length (fm_list ?w) \<le> 4 \<and>
      fmacwritepos ?w + (if uses_fmac u l then 1 else 0) = fmacreadpos ?w + of_nat (unat (fmaccount ?w))"
  proof (cases "uses_fmac u l")
    case True
    obtain x where x: "fmSCycle x = vcycle v" "fmCycle x = 4" "fmac ?w = (fmac v)(fmacwritepos v := x)" "fmaccount ?w = fmaccount v + 1"
      using enter_fmac [OF True] by blast
    then have "fm_list ?w = fm_list v @ [x]"
      using ring_list_upd [OF fm3] wp(1) by (simp only: fm_list_def enter_fields count_up [OF fm3] ring_list_snoc) simp
    moreover have "queue_ok fmSCycle fmCycle (vcycle v) (fm_list v @ [x])"
      using fm.enter [OF q(1)] assms(2) x by (simp add: entered_before_def)
    ultimately show ?thesis using True fm3 wp(1) count_up [OF fm3] x(4) by (simp add: enter_fields) (simp add: fm_list_def)
  next
    case False
    then have "fm_list ?w = fm_list v" "fmaccount ?w = fmaccount v" by (simp_all add: fm_list_def enter_fields)
    with False q(1) fm3 wp(1) show ?thesis by (simp add: enter_fields) (simp add: fm_list_def)
  qed
  have ia: "queue_ok iaSCycle iaCycle (vcycle v) (ia_list ?w) \<and> length (ia_list ?w) \<le> 4 \<and>
      ialuwritepos ?w = ialureadpos ?w + of_nat (unat (ialucount ?w))"
  proof (cases "pipe l = VUPIPE_IALU \<and> cycles l = 4")
    case True
    let ?x = "\<lparr>iaReg = VIwrite l, iaSCycle = vcycle v, iaCycle = 4\<rparr>"
    note w = enter_others(1) [OF assms(4) True, of u v]
    then have "ia_list ?w = ia_list v @ [?x]"
      using ring_list_upd [OF ia3] wp(2) by (simp only: ia_list_def enter_fields count_up [OF ia3] ring_list_snoc) simp
    moreover have "queue_ok iaSCycle iaCycle (vcycle v) (ia_list v @ [?x])"
      using ia.enter [OF q(2)] assms(2) by (simp add: entered_before_def)
    ultimately show ?thesis using ia3 wp(2) count_up [OF ia3] w by (simp add: enter_fields) (simp add: ia_list_def)
  next
    case False
    note w = enter_others(2) [OF assms(4) False, of u v]
    then have "ia_list ?w = ia_list v" by (simp add: ia_list_def enter_fields)
    with w q(2) ia3 wp(2) show ?thesis by (simp add: enter_fields) (simp add: ia_list_def)
  qed
  show ?thesis
    using fm ia enter_others(3,4) [OF assms(4)] assms(1) unfolding pipes_inv_def by (simp add: enter_fields)
qed

end
