(* ===== verification/VU_Step.thy ===== *)
theory VU_Step
  imports VU_Safety
begin

text \<open>
  Whole steps of the vector units: the end of a program empties the pipelines, and a step
  keeps the invariant of the pipelines and the constant register 0 and takes at least one cycle, so
  that running for a number of cycles ends.
\<close>

section \<open>The end of a program\<close>

lemma later_inv: "pipes_inv d v \<Longrightarrow> vcycle v \<le> c \<Longrightarrow> pipes_inv d (v\<lparr>vcycle := c\<rparr>)"
  unfolding pipes_inv_def fdiv_ok_def efu_ok_def
  using queue_ok_later [of fmSCycle fmCycle "vcycle v" "fm_list v" c] queue_ok_later [of iaSCycle iaCycle "vcycle v" "ia_list v" c]
  by (auto simp: fm_list_def ia_list_def)

text \<open>The state while the pipelines are emptied: \<open>c0\<close> is the cycle at which that began.\<close>

definition finishing :: "2 word \<Rightarrow> u64 \<Rightarrow> VURegs \<Rightarrow> bool" where
  "finishing d c0 v \<longleftrightarrow>
     pipes_inv d v \<and> c0 \<le> vcycle v \<and> cyc v \<le> unat c0 + 54 \<and>
     (\<forall>e\<in>set (fm_list v). fmSCycle e \<le> c0) \<and> (\<forall>e\<in>set (ia_list v). iaSCycle e \<le> c0)"

lemma wait_until_is_later:
  assumes "st \<le> c0" "n \<le> 54" "unat c0 + 54 < 2 ^ 64" "c0 \<le> vcycle v"
  shows "wait_until st n v = v\<lparr>vcycle := max (vcycle v) (st + ucast n)\<rparr>"
proof -
  have "st \<le> vcycle v" using assms by (meson order_trans)
  from not_less_cycles [OF this] have "vcycle v - st < ucast n \<longleftrightarrow> \<not> unat n \<le> cyc v - unat st" by blast
  moreover have "unat (st + ucast n) = unat n + unat st" by (rule unat_add_cycles(2) [OF assms(1-3)])
  ultimately have "vcycle v - st < ucast n \<longleftrightarrow> vcycle v < st + ucast n"
    using \<open>st \<le> vcycle v\<close> by (auto simp: word_le_nat_alt word_less_nat_alt)
  then show ?thesis by (cases "vcycle v < st + ucast n") (simp_all add: wait_until_def max_absorb1 max_absorb2)
qed

lemma wait_until_reaches:
  assumes "st \<le> c0" "n \<le> 54" "unat c0 + 54 < 2 ^ 64" "c0 \<le> vcycle v"
  shows "unat st + unat n \<le> cyc (wait_until st n v)" "vcycle v \<le> vcycle (wait_until st n v)"
  using unat_add_cycles(2) [OF assms(1-3)] by (auto simp: wait_until_is_later [OF assms] max_def word_le_nat_alt)

lemma wait_until_finishing:
  assumes "finishing d c0 v" "st \<le> c0" "n \<le> 54" "unat c0 + 54 < 2 ^ 64"
  shows "finishing d c0 (wait_until st n v)"
proof -
  let ?c = "max (vcycle v) (st + ucast n)"
  have le: "vcycle v \<le> ?c" by simp
  have "unat n \<le> 54" "unat st \<le> unat c0" using assms by (simp_all add: word_le_nat_alt)
  then have "unat ?c \<le> unat c0 + 54"
    using assms(1) unat_add_cycles(2) [OF assms(2-4)] by (auto simp: finishing_def max_def)
  moreover have "c0 \<le> ?c" using assms(1) le unfolding finishing_def by (meson order_trans)
  ultimately show ?thesis
    using assms(1) later_inv [OF _ le] wait_until_is_later [OF assms(2-4)]
    unfolding finishing_def by (simp add: fm_list_def ia_list_def)
qed

lemma finishing_retire:
  "fmaccount v \<noteq> 0 \<Longrightarrow> finishing d c0 v \<Longrightarrow> finishing d c0 (fmac_retire v)"
  "ialucount v \<noteq> 0 \<Longrightarrow> finishing d c0 v \<Longrightarrow> finishing d c0 (ialu_retire v)"
  "finishing d c0 v \<Longrightarrow> finishing d c0 (fdiv_retire v)"
  "finishing d c0 v \<Longrightarrow> finishing d c0 (efu_retire v)"
  by (auto simp: finishing_def pipes_inv_retire fm_list_head ia_list_head)

text \<open>The other fields that the following needs.\<close>

definition kick :: "VURegs \<Rightarrow> bool \<times> u32 \<times> u32 \<times> u32" where
  "kick v = (xgkickenable v, xgkickaddr v, xgkickdiff v, xgkicksizeremaining v)"

definition side :: "VURegs \<Rightarrow> (5 word \<Rightarrow> VECTOR) \<times> 2 word \<times> bool \<times> bool \<times> u32 \<times> u32 \<times> bool \<times> u32 \<times> u32 \<times> u32" where
  "side v = (VF v, fmacwritepos v, fdEnable (fdiv v), efEnable (efu v), VI v REG_Q, VI v REG_P, kick v)"

lemma kick_ok: "kick v = kick w \<Longrightarrow> xgkick_ok v = xgkick_ok w"
  by (simp add: kick_def xgkick_ok_def)

lemma kick_retire [simp]:
  "kick (fmac_retire v) = kick v" "kick (ialu_retire v) = kick v" "kick (fdiv_retire v) = kick v" "kick (efu_retire v) = kick v"
  "kick (wait_until st n v) = kick v"
  by (simp_all add: kick_def fmac_retire_def ialu_retire_def fdiv_retire_def efu_retire_def wait_until_def)

lemma fmac_flags_QP [simp]: "fmac_flags p r REG_Q = r REG_Q" "fmac_flags p r REG_P = r REG_P"
  by (simp_all add: fmac_flags_def Let_def)

lemma side_wait [simp]: "side (wait_until st n v) = side v"
  by (simp add: side_def) (simp add: wait_until_def)

lemma vuFMACfinish_spec:
  assumes "finishing d c0 v" "unat c0 + 54 < 2 ^ 64"
  shows "finishing d c0 (vuFMACfinish v) \<and> fmaccount (vuFMACfinish v) = 0 \<and> side (vuFMACfinish v) = side v \<and>
    ialucount (vuFMACfinish v) = ialucount v \<and> vcycle v \<le> vcycle (vuFMACfinish v) \<and>
    (\<forall>e\<in>set (fm_list v). unat (fmSCycle e) + 4 \<le> cyc (vuFMACfinish v)) \<and> ia_list (vuFMACfinish v) = ia_list v"
  using assms(1)
proof (induction v rule: vuFMACfinish.induct)
  case (1 v)
  show ?case
  proof (cases "fmaccount v = 0")
    case False
    let ?p = "fmac v (fmacreadpos v)"
    let ?w = "wait_until (fmSCycle ?p) (fmCycle ?p) (fmac_retire v)"
    have "?p \<in> set (fm_list v)" by (simp add: fm_list_head [OF False])
    with "1.prems" have p: "fmSCycle ?p \<le> c0" "fmCycle ?p \<le> 54" by (auto simp: finishing_def pipes_inv_def queue_ok_def)
    have "finishing d c0 ?w" by (rule wait_until_finishing [OF finishing_retire(1) [OF False "1.prems"] p assms(2)])
    with "1.IH" [OF False] have ih: "finishing d c0 (vuFMACfinish ?w) \<and> fmaccount (vuFMACfinish ?w) = 0 \<and>
        side (vuFMACfinish ?w) = side ?w \<and> ialucount (vuFMACfinish ?w) = ialucount ?w \<and> vcycle ?w \<le> vcycle (vuFMACfinish ?w) \<and>
        (\<forall>e\<in>set (fm_list ?w). unat (fmSCycle e) + 4 \<le> cyc (vuFMACfinish ?w)) \<and>
        ia_list (vuFMACfinish ?w) = ia_list ?w" by (simp add: Let_def)
    have c0: "c0 \<le> vcycle (fmac_retire v)" using "1.prems" by (simp add: finishing_def)
    have "fmCycle ?p = 4" using \<open>?p \<in> set (fm_list v)\<close> "1.prems" by (auto simp: finishing_def pipes_inv_def queue_ok_def)
    with wait_until_reaches [OF p assms(2) c0] have reach: "unat (fmSCycle ?p) + 4 \<le> cyc ?w" "vcycle v \<le> vcycle ?w" by simp_all
    have lists: "fm_list v = ?p # fm_list ?w" "ia_list ?w = ia_list v"
      by (simp_all add: fm_list_head [OF False]) (simp_all add: wait_until_def fm_list_def ia_list_def fmac_retire_def)
    have res: "vuFMACfinish v = vuFMACfinish ?w" using False by (subst vuFMACfinish.simps) (simp add: Let_def)
    have "side ?w = side v" by (simp, simp add: side_def, simp add: fmac_retire_def)
    moreover have "ialucount ?w = ialucount v" by (simp add: wait_until_def fmac_retire_def)
    moreover have "unat (fmSCycle ?p) + 4 \<le> cyc (vuFMACfinish ?w)" using ih reach(1) by (auto simp: word_le_nat_alt)
    moreover have "vcycle v \<le> vcycle (vuFMACfinish ?w)" using ih reach(2) by (auto intro: order_trans)
    ultimately show ?thesis using ih lists unfolding res by simp
  next
    case True
    then have "vuFMACfinish v = v" by (subst vuFMACfinish.simps) simp
    with True "1.prems" show ?thesis by (simp add: fm_list_Nil)
  qed
qed

lemma vuIALUfinish_spec:
  assumes "finishing d c0 v" "unat c0 + 54 < 2 ^ 64"
  shows "finishing d c0 (vuIALUfinish v) \<and> ialucount (vuIALUfinish v) = 0 \<and> side (vuIALUfinish v) = side v \<and>
    fmaccount (vuIALUfinish v) = fmaccount v \<and> vcycle v \<le> vcycle (vuIALUfinish v) \<and>
    (\<forall>e\<in>set (ia_list v). unat (iaSCycle e) + 4 \<le> cyc (vuIALUfinish v)) \<and> fm_list (vuIALUfinish v) = fm_list v"
  using assms(1)
proof (induction v rule: vuIALUfinish.induct)
  case (1 v)
  show ?case
  proof (cases "ialucount v = 0")
    case False
    let ?p = "ialu v (ialureadpos v)"
    let ?w = "wait_until (iaSCycle ?p) (iaCycle ?p) (ialu_retire v)"
    have "?p \<in> set (ia_list v)" by (simp add: ia_list_head [OF False])
    with "1.prems" have p: "iaSCycle ?p \<le> c0" "iaCycle ?p \<le> 54" by (auto simp: finishing_def pipes_inv_def queue_ok_def)
    have "finishing d c0 ?w" by (rule wait_until_finishing [OF finishing_retire(2) [OF False "1.prems"] p assms(2)])
    with "1.IH" [OF False] have ih: "finishing d c0 (vuIALUfinish ?w) \<and> ialucount (vuIALUfinish ?w) = 0 \<and>
        side (vuIALUfinish ?w) = side ?w \<and> fmaccount (vuIALUfinish ?w) = fmaccount ?w \<and> vcycle ?w \<le> vcycle (vuIALUfinish ?w) \<and>
        (\<forall>e\<in>set (ia_list ?w). unat (iaSCycle e) + 4 \<le> cyc (vuIALUfinish ?w)) \<and>
        fm_list (vuIALUfinish ?w) = fm_list ?w" by (simp add: Let_def)
    have c0: "c0 \<le> vcycle (ialu_retire v)" using "1.prems" by (simp add: finishing_def)
    have "iaCycle ?p = 4" using \<open>?p \<in> set (ia_list v)\<close> "1.prems" by (auto simp: finishing_def pipes_inv_def queue_ok_def)
    with wait_until_reaches [OF p assms(2) c0] have reach: "unat (iaSCycle ?p) + 4 \<le> cyc ?w" "vcycle v \<le> vcycle ?w" by simp_all
    have lists: "ia_list v = ?p # ia_list ?w" "fm_list ?w = fm_list v"
      by (simp_all add: ia_list_head [OF False]) (simp_all add: wait_until_def fm_list_def ia_list_def ialu_retire_def)
    have res: "vuIALUfinish v = vuIALUfinish ?w" using False by (subst vuIALUfinish.simps) (simp add: Let_def)
    have "side ?w = side v" by (simp, simp add: side_def, simp add: ialu_retire_def)
    moreover have "fmaccount ?w = fmaccount v" by (simp add: wait_until_def ialu_retire_def)
    moreover have "unat (iaSCycle ?p) + 4 \<le> cyc (vuIALUfinish ?w)" using ih reach(1) by (auto simp: word_le_nat_alt)
    moreover have "vcycle v \<le> vcycle (vuIALUfinish ?w)" using ih reach(2) by (auto intro: order_trans)
    ultimately show ?thesis using ih lists unfolding res by simp
  next
    case True
    then have "vuIALUfinish v = v" by (subst vuIALUfinish.simps) simp
    with True "1.prems" show ?thesis by (simp add: ia_list_Nil)
  qed
qed

lemma vuFlushAll_spec:
  assumes "pipes_inv d v" "cyc v + 54 < 2 ^ 64"
  shows "pipes_inv d (vuFlushAll v)" "vcycle v \<le> vcycle (vuFlushAll v)" "cyc (vuFlushAll v) \<le> cyc v + 54"
    "fmaccount (vuFlushAll v) = 0" "ialucount (vuFlushAll v) = 0" "\<not> fdEnable (fdiv (vuFlushAll v))" "\<not> efEnable (efu (vuFlushAll v))"
    "VF (vuFlushAll v) = VF v" "fmacwritepos (vuFlushAll v) = fmacwritepos v"
    "\<forall>e\<in>set (fm_list v). unat (fmSCycle e) + 4 \<le> cyc (vuFlushAll v)" "\<forall>e\<in>set (ia_list v). unat (iaSCycle e) + 4 \<le> cyc (vuFlushAll v)"
    "VI (vuFlushAll v) REG_Q = (if fdEnable (fdiv v) then fdReg (fdiv v) else VI v REG_Q)"
    "VI (vuFlushAll v) REG_P = (if efEnable (efu v) then efReg (efu v) else VI v REG_P)" "kick (vuFlushAll v) = kick v"
proof -
  define v1 where "v1 = (if fdEnable (fdiv v) then wait_until (fdSCycle (fdiv v)) (fdCycle (fdiv v)) (fdiv_retire v) else v)"
  define v2 where "v2 = (if efEnable (efu v1) then wait_until (efSCycle (efu v1)) (efCycle (efu v1)) (efu_retire v1) else v1)"
  have eq: "vuFlushAll v = vuIALUfinish (vuFMACfinish v2)" by (simp add: vuFlushAll_def v1_def v2_def Let_def)
  have f0: "finishing d (vcycle v) v" using assms(1) by (auto simp: finishing_def pipes_inv_def queue_ok_def)
  have f1: "finishing d (vcycle v) v1"
  proof (cases "fdEnable (fdiv v)")
    case True
    with assms(1) have "fdSCycle (fdiv v) \<le> vcycle v" "fdCycle (fdiv v) \<le> 54" by (simp_all add: pipes_inv_def fdiv_ok_def)
    then show ?thesis using True wait_until_finishing [OF finishing_retire(3) [OF f0]] assms(2) by (simp add: v1_def)
  qed (use f0 v1_def in simp)
  have efu1: "efu v1 = efu v" by (simp add: v1_def wait_until_def fdiv_retire_def)
  have f2: "finishing d (vcycle v) v2"
  proof (cases "efEnable (efu v1)")
    case True
    with assms(1) efu1 have "efSCycle (efu v1) \<le> vcycle v" "efCycle (efu v1) \<le> 54" by (simp_all add: pipes_inv_def efu_ok_def)
    then show ?thesis using True wait_until_finishing [OF finishing_retire(4) [OF f1]] assms(2) by (simp add: v2_def)
  qed (use f1 v2_def in simp)
  have l2: "fm_list v2 = fm_list v" "ia_list v2 = ia_list v"
    by (simp_all add: v1_def v2_def) (simp_all add: wait_until_def fdiv_retire_def efu_retire_def fm_list_def ia_list_def)
  have k2: "kick v2 = kick v" by (simp add: v1_def v2_def)
  have s2: "side v2 = (VF v, fmacwritepos v, False, False, if fdEnable (fdiv v) then fdReg (fdiv v) else VI v REG_Q,
      if efEnable (efu v) then efReg (efu v) else VI v REG_P, kick v)"
    unfolding side_def k2 by (auto simp: v1_def v2_def wait_until_def fdiv_retire_def efu_retire_def)
  note f3 = vuFMACfinish_spec [OF f2 assms(2)]
  then have "finishing d (vcycle v) (vuFMACfinish v2)" by blast
  note f4 = vuIALUfinish_spec [OF this assms(2)]
  have "\<forall>e\<in>set (fm_list v). unat (fmSCycle e) + 4 \<le> cyc (vuFlushAll v)" "\<forall>e\<in>set (ia_list v). unat (iaSCycle e) + 4 \<le> cyc (vuFlushAll v)"
    using f3 f4 l2 by (auto simp: eq word_le_nat_alt intro: order_trans)
  with f4 f3 s2 show
    "pipes_inv d (vuFlushAll v)" "vcycle v \<le> vcycle (vuFlushAll v)" "cyc (vuFlushAll v) \<le> cyc v + 54"
    "fmaccount (vuFlushAll v) = 0" "ialucount (vuFlushAll v) = 0" "\<not> fdEnable (fdiv (vuFlushAll v))" "\<not> efEnable (efu (vuFlushAll v))"
    "VF (vuFlushAll v) = VF v" "fmacwritepos (vuFlushAll v) = fmacwritepos v"
    "\<forall>e\<in>set (fm_list v). unat (fmSCycle e) + 4 \<le> cyc (vuFlushAll v)" "\<forall>e\<in>set (ia_list v). unat (iaSCycle e) + 4 \<le> cyc (vuFlushAll v)"
    "VI (vuFlushAll v) REG_Q = (if fdEnable (fdiv v) then fdReg (fdiv v) else VI v REG_Q)"
    "VI (vuFlushAll v) REG_P = (if efEnable (efu v) then efReg (efu v) else VI v REG_P)" "kick (vuFlushAll v) = kick v"
    by (auto simp: eq finishing_def side_def)
qed

section \<open>Descriptors\<close>

definition op_regs_ok :: "'d vu_entry \<Rightarrow> bool" where
  "op_regs_ok e \<longleftrightarrow> (\<forall>v n. pipe n = VUPIPE_NONE \<and> cycles n = 0 \<longrightarrow> regs_ok (snd e v n))"

lemmas vu_regs_defs =
  regs_FDFSI_def regs_FDFSQ_def regs_FDFSFT_def regs_FDFSFTxyzw_def regs_ACCFSI_def regs_ACCFSQ_def
  regs_ACCFSFT_def regs_ACCFSFTxyzw_def regs_FTFS_def regs_IDISIT_def regs_ITIS_def regs_PFS_xyzw_def
  regs_PFS_fsf_def regs_FDFSFTxyzw_MUL_def regs_FDFSFT_0_xyzw_def regs_MADDw_def regs_OPMULA_def
  regs_OPMSUB_def regs_NOP_def regs_CLIP_def regs_DIV_def regs_SQRT_def regs_RSQRT_def regs_MOVE_def
  regs_MFIR_def regs_MTIR_def regs_MR32_def regs_LQ_def regs_LQD_def regs_LQI_def regs_SQ_def regs_SQD_def
  regs_SQI_def regs_ILW_def regs_ISW_def regs_ILWR_def regs_ISWR_def regs_RINIT_def regs_RGET_def
  regs_RNEXT_def regs_RXOR_def regs_WAITQ_def regs_FSAND_def regs_FSEQ_def regs_FSOR_def regs_FSSET_def
  regs_FMAND_def regs_FMEQ_def regs_FMOR_def regs_FCAND_def regs_FCEQ_def regs_FCOR_def regs_FCSET_def
  regs_FCGET_def regs_IBEQ_def regs_IBGEZ_def regs_IBGTZ_def regs_IBLEZ_def regs_IBLTZ_def regs_IBNE_def
  regs_B_def regs_BAL_def regs_JR_def regs_JALR_def regs_MFP_def regs_WAITP_def regs_XITOP_def regs_XGKICK_def
  regs_XTOP_def

lemma LOWER_op_regs_ok:
  "list_all op_regs_ok VU_LOWER_OPCODE" "list_all op_regs_ok VU_LowerOP_OPCODE" "list_all op_regs_ok VU_LowerOP_T3_00_OPCODE"
  "list_all op_regs_ok VU_LowerOP_T3_01_OPCODE" "list_all op_regs_ok VU_LowerOP_T3_10_OPCODE" "list_all op_regs_ok VU_LowerOP_T3_11_OPCODE"
  by (simp_all add: VU_LOWER_OPCODE_def VU_LowerOP_OPCODE_def VU_LowerOP_T3_00_OPCODE_def VU_LowerOP_T3_01_OPCODE_def
    VU_LowerOP_T3_10_OPCODE_def VU_LowerOP_T3_11_OPCODE_def list.pred_set op_regs_ok_def regs_ok_def unk_def vu_regs_defs)

lemma LOWER_regs_ok: "op_regs_ok (LOWER_OPCODE c)"
  by (rule LOWER_entry) (rule LOWER_op_regs_ok | simp add: op_regs_ok_def unk_def regs_ok_def)+

section \<open>The parts of a step\<close>

text \<open>The unit's programs run in the interpreter, which sends packets tag by tag, and the descriptors of unknown
  instructions are those of no pipeline.\<close>

definition env_ok :: "'d vu_env \<Rightarrow> bool" where
  "env_ok E \<longleftrightarrow> xgkick_by_tag E \<and> (\<forall>s. pipe (fst (uninit_regs E s)) = VUPIPE_NONE \<and> pipe (snd (uninit_regs E s)) = VUPIPE_NONE)"

text \<open>A state in which the two instructions may run: nothing finished is left in a pipeline, and at most \<open>B\<close>
  cycles have passed since \<open>c0\<close>.\<close>

definition ready :: "u64 \<Rightarrow> nat \<Rightarrow> VURegs \<Rightarrow> bool" where
  "ready c0 B v \<longleftrightarrow>
     pipes_inv 0 v \<and> efu_pos v \<and> entered_before v \<and> pipes_quiet v \<and> xgkick_ok v \<and> c0 \<le> vcycle v \<and> cyc v \<le> unat c0 + B"

lemma core_eq:
  assumes "vcore v = vcore w"
  shows "entered_before v = entered_before w" "pipes_quiet v = pipes_quiet w"
  using vcore_eq [OF assms] by (simp_all add: entered_before_def pipes_quiet_def)

lemma ready_eq:
  assumes "vpipes v = vpipes w"
  shows "ready c0 B v = ready c0 B w" "entered_before v = entered_before w"
  using vpipes_eq [OF assms] core_eq [OF vpipes_core [OF assms]] by (simp_all add: ready_def)

lemma ready_core:
  assumes "vcore v = vcore w" "xgkick_ok v" "ready c0 B w"
  shows "ready c0 B v"
  using assms vcore_eq [OF assms(1)] core_eq [OF assms(1)] by (simp add: ready_def)

lemma ready_mono: "ready c0 A v \<Longrightarrow> A \<le> B \<Longrightarrow> ready c0 B v"
  by (simp add: ready_def)

text \<open>A transfer changes the cycle and its own registers.\<close>

lemma kicked_core:
  assumes "kicked n v w"
  shows "vcore w = vcore (v\<lparr>vcycle := vcycle v + n\<rparr>)" "VF w = VF v"
proof -
  have e: "no_kick w = no_kick v" "vcycle w = vcycle v + n" using assms by (simp_all add: kicked_def)
  have f: "f (no_kick w) = f (no_kick v)" for f :: "VURegs \<Rightarrow> 'b" by (simp only: e(1))
  show "VF w = VF v" using f [of VF] by (simp add: no_kick_def)
  show "vcore w = vcore (v\<lparr>vcycle := vcycle v + n\<rparr>)"
    using e(2) f [of fmac] f [of fmacreadpos] f [of fmacwritepos] f [of fmaccount] f [of fdiv] f [of efu] f [of ialu]
      f [of ialureadpos] f [of ialuwritepos] f [of ialucount]
    by (simp add: vcore_def no_kick_def)
qed

lemma transferred_vu0:
  assumes "transferred n s t"
  shows "vpipes (vu0 t) = vpipes (vu0 s)" "VF (vu0 t) = VF (vu0 s)"
  using assms by (auto simp: transferred_def vu_keeps)

lemma vu1_get: "k \<noteq> 0 \<Longrightarrow> get_vu k s = vu1 s" "get_vu 0 s = vu0 s"
  by (simp_all add: get_vu_def)

text \<open>The check of the pipelines, with the transfer that goes on beside the program.\<close>

lemma TestPipes_keeps:
  assumes "xgkick_ok (vuTestPipes_loop (get_vu k s))"
  shows "vcore (get_vu k (vuTestPipes E k s)) = vcore (vuTestPipes_loop (get_vu k s))"
    "VF (get_vu k (vuTestPipes E k s)) = VF (vuTestPipes_loop (get_vu k s))" "xgkick_ok (get_vu k (vuTestPipes E k s))"
proof -
  define t where "t = on_vu k vuTestPipes_loop s"
  have t: "get_vu k t = vuTestPipes_loop (get_vu k s)" by (simp add: t_def)
  have "vcore (get_vu k (vuTestPipes E k s)) = vcore (get_vu k t) \<and> VF (get_vu k (vuTestPipes E k s)) = VF (get_vu k t) \<and>
    xgkick_ok (get_vu k (vuTestPipes E k s))"
  proof (cases "k \<noteq> 0 \<and> xgkickenable (vu1 t)")
    case True
    then have k: "k \<noteq> 0" and "xgkick_ok (vu1 t)" using assms t vu1_get(1) [of k t] by simp_all
    note b = transfer_beside [OF this(2), of E "ucast (vcycle (vu1 t) - xgkicklastcycle (vu1 t)) - 1"]
    have "kicked 0 (vu1 t) (vu1 (vuXGKICKTransfer E (ucast (vcycle (vu1 t) - xgkicklastcycle (vu1 t)) - 1) False t))"
      using b(2) by (simp add: transferred_def)
    with kicked_core [OF this] b(1) True show ?thesis
      by (simp add: vuTestPipes_def Let_def t_def [symmetric] vu1_get(1) [OF k])
  next
    case False
    then have "vuTestPipes E k s = t" unfolding vuTestPipes_def Let_def t_def [symmetric] by auto
    with assms t show ?thesis by simp
  qed
  then show "vcore (get_vu k (vuTestPipes E k s)) = vcore (vuTestPipes_loop (get_vu k s))"
    "VF (get_vu k (vuTestPipes E k s)) = VF (vuTestPipes_loop (get_vu k s))" "xgkick_ok (get_vu k (vuTestPipes E k s))"
    unfolding t by simp_all
qed

text \<open>\<^verbatim>\<open>XGKICK\<close> waits for the transfer before it, which takes no more than 0x1000 cycles.\<close>

lemma later_entered: "entered_before v \<Longrightarrow> vcycle v \<le> c \<Longrightarrow> entered_before (v\<lparr>vcycle := c\<rparr>)"
  by (auto simp: entered_before_def fm_list_def ia_list_def intro: less_le_trans)

lemma XGKICK_start_ok:
  "xgkick_ok (v\<lparr>xgkickenable := True, xgkickaddr := (ucast (VIus r v) AND 0x3ff) * 16, xgkickdiff := 0x4000 - (ucast (VIus r v) AND 0x3ff) * 16,
     xgkicksizeremaining := 0, xgkickendpacket := e, xgkicklastcycle := l, xgkickcyclecount := c\<rparr>)"
proof -
  have "unat ((ucast (VIus r v) :: u32) AND 0x3ff) \<le> 0x3ff" using unat_and_le [of "ucast (VIus r v)" "0x3ff"] by simp
  then have "unat (((ucast (VIus r v) :: u32) AND 0x3ff) * 16) < 0x4000" by (simp add: unat_word_ariths)
  then show ?thesis by (simp add: xgkick_ok_def word_less_nat_alt)
qed

lemma kicked_ready:
  assumes v: "ready c0 B v" "kicked m v w" "unat m \<le> 0x1000" "\<not> xgkickenable w" and b: "unat c0 + B + 0x1000 < 2 ^ 64"
  shows "ready c0 (B + 0x1000) (vuTestPipes_loop w)" "VF (vuTestPipes_loop w) = VF v"
proof -
  have r: "pipes_inv 0 v" "efu_pos v" "entered_before v" "c0 \<le> vcycle v" "cyc v \<le> unat c0 + B"
    using v(1) by (simp_all add: ready_def)
  have "cyc v + unat m < 2 ^ LENGTH(64)" using v(3) r(5) b by simp
  then have c: "unat (vcycle v + m) = cyc v + unat m" using unat_add_lem by blast
  then have le: "vcycle v \<le> vcycle v + m" by (simp add: word_le_nat_alt)
  let ?u = "v\<lparr>vcycle := vcycle v + m\<rparr>"
  note k = kicked_core [OF v(2)]
  have w: "pipes_inv 0 w" "entered_before w" "vcycle w = vcycle v + m"
    using later_inv [OF r(1) le] later_entered [OF r(3) le] vcore_eq [OF k(1)] core_eq [OF k(1)] by simp_all
  note l = loop_pipes [OF w(1)]
  have "c0 \<le> vcycle w" using le r(4) w(3) by simp
  then show "ready c0 (B + 0x1000) (vuTestPipes_loop w)"
    using l w v(3,4) r(5) c by (simp add: ready_def xgkick_ok_def)
  show "VF (vuTestPipes_loop w) = VF v" using l(3) k(2) by simp
qed

lemma XGKICK_ready:
  assumes k: "k \<noteq> 0" and r: "ready c0 B (vu1 s)" and E: "xgkick_by_tag E" and b: "unat c0 + B + 0x1000 < 2 ^ 64"
  shows "ready c0 (B + 0x1000) (vu1 (vuXGKICK E k s))" "VF (vu1 (vuXGKICK E k s)) = VF (vu1 s)"
proof -
  define t where "t = (if xgkickenable (vu1 s) then vuXGKICKTransfer E 0 True s else s)"
  have t: "ready c0 (B + 0x1000) (vu1 t) \<and> VF (vu1 t) = VF (vu1 s)"
  proof (cases "xgkickenable (vu1 s)")
    case True
    have "xgkick_ok (vu1 s)" using r by (simp add: ready_def)
    from transfer_flush [OF this E, of 0] True obtain u m where u: "t = on_vu 1 vuTestPipes_loop u" "\<not> xgkickenable (vu1 u)"
      "transferred m s u" "unat m \<le> 0x1000" by (auto simp: t_def)
    have "vu1 t = vuTestPipes_loop (vu1 u)" by (simp add: u(1) on_vu_def)
    moreover have "kicked m (vu1 s) (vu1 u)" using u(3) by (simp add: transferred_def)
    ultimately show ?thesis using kicked_ready [OF r _ u(4,2) b] by simp
  next
    case False
    then show ?thesis using r ready_mono [OF r, of "B + 0x1000"] by (simp add: t_def)
  qed
  define f where "f = (\<lambda>v. let addr = (ucast (VIus (vIs v) v) AND 0x3ff) * 16 in
      v\<lparr>xgkickenable := True, xgkickaddr := addr, xgkickdiff := 0x4000 - addr, xgkicksizeremaining := 0,
        xgkickendpacket := False, xgkicklastcycle := vcycle v, xgkickcyclecount := 1\<rparr>)"
  have res: "vu1 (vuXGKICK E k s) = f (vu1 t)"
    unfolding vuXGKICK_def Let_def f_def t_def using k by (simp add: on_vu_def get_vu_def)
  have "vcore (f (vu1 t)) = vcore (vu1 t)" by (simp add: f_def Let_def vcore_def)
  moreover have "xgkick_ok (f (vu1 t))" unfolding f_def Let_def by (rule XGKICK_start_ok)
  ultimately show "ready c0 (B + 0x1000) (vu1 (vuXGKICK E k s))" using ready_core t unfolding res by blast
  show "VF (vu1 (vuXGKICK E k s)) = VF (vu1 s)" using t by (simp add: res f_def Let_def)
qed

text \<open>The two instructions.\<close>

lemma op_keepsD:
  assumes "op_keeps e"
  shows "vpipes (get_vu j (fst e E k s)) = vpipes (get_vu j s)" "VF (get_vu k (fst e E k s)) 0 = VF (get_vu k s) 0"
  using assms by (auto simp: op_keeps_def)

lemma exec_upper_keeps:
  "vpipes (get_vu k (vu_exec_upper E k hi s)) = vpipes (get_vu k s)" "VF (get_vu k (vu_exec_upper E k hi s)) 0 = VF (get_vu k s) 0"
  by (simp_all add: vu_exec_upper_def op_keepsD [OF UPPER_keeps] vu_keeps)

lemma exec_lower_ready:
  assumes r: "ready c0 B (get_vu k s)" and E: "xgkick_by_tag E" and b: "unat c0 + B + 0x1000 < 2 ^ 64"
  shows "ready c0 (B + 0x1000) (get_vu k (vu_exec_lower E k lo s))" "VF (get_vu k (vu_exec_lower E k lo s)) 0 = VF (get_vu k s) 0"
proof -
  define t where "t = on_vu k (\<lambda>v. v\<lparr>vcode := lo\<rparr>) s"
  have tk: "vpipes (get_vu k t) = vpipes (get_vu k s)" "VF (get_vu k t) = VF (get_vu k s)" by (simp_all add: t_def vu_keeps)
  have rt: "ready c0 B (get_vu k t)" using r ready_eq(1) [OF tk(1)] by simp
  have res: "vu_exec_lower E k lo s = fst (LOWER_OPCODE lo) E k t" by (simp add: vu_exec_lower_def t_def)
  have "ready c0 (B + 0x1000) (get_vu k (vu_exec_lower E k lo s)) \<and> VF (get_vu k (vu_exec_lower E k lo s)) 0 = VF (get_vu k s) 0"
  proof (cases "op_keeps (LOWER_OPCODE lo :: 'a vu_entry)")
    case True
    note k = op_keepsD [OF True]
    show ?thesis using k tk ready_mono [OF rt, of "B + 0x1000"] ready_eq(1) [OF k(1)] by (simp add: res)
  next
    case False
    have "op_kicks (LOWER_OPCODE lo :: 'a vu_entry)" by (rule LOWER_kicks)
    with False have e: "fst (LOWER_OPCODE lo) = (vu1_only vuXGKICK :: 'a vu_mem)" by (simp add: op_kicks_def)
    show ?thesis
    proof (cases "k = 0")
      case True
      then have "vu_exec_lower E k lo s = t" unfolding res e vu1_only_def by simp
      then show ?thesis using tk rt ready_mono [OF rt, of "B + 0x1000"] by simp
    next
      case nz: False
      note g = vu1_get(1) [OF nz]
      have "ready c0 B (vu1 t)" using rt by (simp only: g)
      from XGKICK_ready [OF nz this E b] tk(2) show ?thesis using nz by (simp add: res e vu1_only_def g)
    qed
  qed
  then show "ready c0 (B + 0x1000) (get_vu k (vu_exec_lower E k lo s))" "VF (get_vu k (vu_exec_lower E k lo s)) 0 = VF (get_vu k s) 0" by blast+
qed

lemma vu_swap_keeps [vu_keeps]:
  "vpipes (vu_swap vf clip r x c v) = vpipes v"
  "VF (vu_swap vf clip r x c v) 0 = (if vf \<and> r = 0 then x else VF v 0)"
  by (simp_all add: vu_swap_def vu_keeps Let_def)

lemma exec_both_ready:
  assumes r: "ready c0 B (get_vu k s)" and E: "xgkick_by_tag E" and b: "unat c0 + B + 0x1000 < 2 ^ 64"
  shows "ready c0 (B + 0x1000) (get_vu k (vu_exec_both E k c hi lo u l s))"
    "VF (get_vu k (vu_exec_both E k c hi lo u l s)) 0 = VF (get_vu k s) 0"
proof -
  define t where "t = vu_exec_upper E k hi s"
  define r' where "r' = (ucast (VFwrite u) :: 5 word)"
  define x where "x = on_vu k (vu_swap (vu_old_VF u l) (vu_old_clip c l) r' (VF (get_vu k s) r') (VI (get_vu k s) REG_CLIP_FLAG)) t"
  define y where "y = vu_exec_lower E k lo x"
  have res: "vu_exec_both E k c hi lo u l s =
      (if vu_discard c u l then t
       else on_vu k (vu_swap (vu_old_VF u l) (vu_old_clip c l) r' (VF (get_vu k t) r') (VI (get_vu k t) REG_CLIP_FLAG)) y)"
    unfolding vu_exec_both_def Let_def t_def x_def y_def r'_def ..
  have t: "vpipes (get_vu k t) = vpipes (get_vu k s)" "VF (get_vu k t) 0 = VF (get_vu k s) 0" by (simp_all add: t_def exec_upper_keeps)
  have rt: "ready c0 B (get_vu k t)" using r ready_eq(1) [OF t(1)] by simp
  have "vpipes (get_vu k x) = vpipes (get_vu k t)" "VF (get_vu k x) 0 = VF (get_vu k s) 0" by (simp_all add: x_def vu_keeps t(2))
  then have rx: "ready c0 B (get_vu k x)" and vx: "VF (get_vu k x) 0 = VF (get_vu k s) 0" using rt ready_eq(1) by blast+
  note ry = exec_lower_ready [OF rx E b, of lo, folded y_def]
  have z: "vpipes (vu_swap vf cl q a d (get_vu k y)) = vpipes (get_vu k y)" for vf cl q a d by (simp add: vu_keeps)
  show "ready c0 (B + 0x1000) (get_vu k (vu_exec_both E k c hi lo u l s))"
    using ry(1) ready_eq(1) [OF z] ready_mono [OF rt, of "B + 0x1000"] by (simp add: res)
  show "VF (get_vu k (vu_exec_both E k c hi lo u l s)) 0 = VF (get_vu k s) 0"
    using ry(2) vx t(2) by (simp add: res vu_keeps)
qed

lemma age_keeps [vu_keeps]: "vpipes (vu_age_backup b v) = vpipes v" "VF (vu_age_backup b v) = VF v"
  by (simp_all add: vu_age_backup_def vpipes_def vcore_def)

lemma stalled_vcode:
  assumes "stalled v0 v"
  shows "stalled (v0\<lparr>vcode := c\<rparr>) (v\<lparr>vcode := c\<rparr>)"
proof -
  obtain t e where "v = v0\<lparr>vcycle := t, efu := e\<rparr>" "vcycle v0 \<le> t" "unat t \<le> cyc v0 + 54"
      "e = efu v0 \<or> efEnable (efu v0) \<and> e = (efu v0)\<lparr>efCycle := efCycle (efu v0) - 1\<rparr>"
    using assms by (auto simp: stalled_def)
  then show ?thesis unfolding stalled_def by (intro exI [of _ t] exI [of _ e]) simp
qed

lemma stalled_kick: "stalled v0 v \<Longrightarrow> xgkick_ok v = xgkick_ok v0"
  by (auto simp: stalled_def xgkick_ok_def)

lemma stalled_ready:
  assumes "stalled v0 v" "pipes_ok v0" "entered_before v0"
  shows "ready (vcycle v0) 54 (vuTestPipes_loop v)"
  using loop_pipes [OF stalled_inv [OF assms(1,2)]] stalled_entered [OF assms(1,3)] stalled_fields [OF assms(1)]
    stalled_kick [OF assms(1)] assms(2)
  by (simp add: ready_def pipes_ok_def)

lemma TestPipes_ready:
  assumes "stalled v0 (get_vu k s)" "pipes_ok v0" "entered_before v0"
  shows "ready (vcycle v0) 54 (get_vu k (vuTestPipes E k s))" "VF (get_vu k (vuTestPipes E k s)) = VF v0"
proof -
  note r = stalled_ready [OF assms]
  then have "xgkick_ok (vuTestPipes_loop (get_vu k s))" by (simp add: ready_def)
  note t = TestPipes_keeps [OF this, of E]
  show "ready (vcycle v0) 54 (get_vu k (vuTestPipes E k s))" by (rule ready_core [OF t(1,3) r])
  show "VF (get_vu k (vuTestPipes E k s)) = VF v0"
    using t(2) loop_pipes(3) [OF stalled_inv [OF assms(1,2)]] stalled_fields(14) [OF assms(1)] by simp
qed

text \<open>The two instructions leave the pipelines as the stalls and the retirement before them, but for the wait of
  \<^verbatim>\<open>XGKICK\<close>.\<close>

lemma exec_pair_ready:
  assumes E: "env_ok E" and v0: "pipes_ok v0" "entered_before v0" "cyc v0 + 4150 < 2 ^ 64"
    and s: "stalled v0 (get_vu k s)" "efu (get_vu k s) = efu v0" and junk: "pipe junk = VUPIPE_NONE"
    and r: "vu_exec_pair E k c hi lo u before junk s = (l, s')"
  shows "ready (vcycle v0) 4150 (get_vu k s')" "regs_ok l" "VF (get_vu k s') 0 = VF (get_vu k s) 0"
proof -
  have tag: "xgkick_by_tag E" using E by (simp add: env_ok_def)
  have "ready (vcycle v0) 4150 (get_vu k s') \<and> regs_ok l \<and> VF (get_vu k s') 0 = VF (get_vu k s) 0"
  proof (cases "hi AND 0x80000000 = 0")
    case False
    define t where "t = vuTestPipes E k s"
    note rt = TestPipes_ready [OF s(1) v0(1,2), of E, folded t_def]
    have "l = regs_zero" and v: "vpipes (get_vu k s') = vpipes (get_vu k t)" "VF (get_vu k s') 0 = VF (get_vu k t) 0"
      using False r by (auto simp: vu_exec_pair_def Let_def exec_upper_keeps vu_keeps t_def)
    moreover have "regs_ok regs_zero" by (simp add: regs_ok_def regs_zero_def)
    moreover have "ready (vcycle v0) 4150 (get_vu k t)" by (rule ready_mono [OF rt(1)]) simp
    ultimately show ?thesis using rt(2) stalled_fields(14) [OF s(1)] by (simp add: ready_eq(1) [OF v(1)])
  next
    case True
    define v where "v = (get_vu k s)\<lparr>vcode := lo\<rparr>"
    define l' where "l' = snd (LOWER_OPCODE lo :: 'a vu_entry) v (junk\<lparr>cycles := 0\<rparr>)"
    define t where "t = on_vu k (vuTestLowerStalls l') (on_vu k (\<lambda>v. v\<lparr>vcode := lo\<rparr>) s)"
    define x where "x = on_vu k (vu_age_backup before) (vuTestPipes E k t)"
    have p: "vu_exec_pair E k c hi lo u before junk s = (l', vu_exec_both E k c hi lo u l' x)"
      using True unfolding vu_exec_pair_def Let_def x_def t_def l'_def v_def by simp
    have l: "l = l'" and s': "s' = vu_exec_both E k c hi lo u l' x" using r unfolding p by blast+
    have v0': "pipes_ok (v0\<lparr>vcode := lo\<rparr>)" "entered_before (v0\<lparr>vcode := lo\<rparr>)"
      using v0 vpipes_eq(8) [of "v0\<lparr>vcode := lo\<rparr>" v0] ready_eq(2) [of "v0\<lparr>vcode := lo\<rparr>" v0] by (simp_all add: vu_keeps)
    have gt: "get_vu k t = vuTestLowerStalls l' v" by (simp add: t_def v_def)
    have st: "stalled (v0\<lparr>vcode := lo\<rparr>) (get_vu k t)"
      unfolding gt v_def by (rule vuTestLowerStalls_stalled [OF stalled_vcode [OF s(1)] _ v0'(1)]) (use s v0 in simp_all)
    have "op_regs_ok (LOWER_OPCODE lo :: 'a vu_entry)" by (rule LOWER_regs_ok)
    then have ok: "regs_ok l'" using junk unfolding op_regs_ok_def l'_def by simp
    note rt = TestPipes_ready [OF st v0', of E]
    have gx: "vpipes (get_vu k x) = vpipes (get_vu k (vuTestPipes E k t))" and "VF (get_vu k x) = VF (get_vu k (vuTestPipes E k t))"
      by (simp_all add: x_def vu_keeps)
    then have fx: "VF (get_vu k x) = VF (get_vu k s)" using rt(2) stalled_fields(14) [OF s(1)] by simp
    have rx: "ready (vcycle v0) 54 (get_vu k x)" using rt(1) by (simp add: ready_eq(1) [OF gx])
    have b: "unat (vcycle v0) + 54 + 0x1000 < 2 ^ 64" using v0(3) by simp
    note eb = exec_both_ready [OF rx tag b, of c hi lo u l', folded s']
    have "ready (vcycle v0) 4150 (get_vu k s')" using eb(1) by simp
    moreover have "VF (get_vu k s') 0 = VF (get_vu k s) 0" using eb(2) fx by simp
    ultimately show ?thesis using ok l by simp
  qed
  then show "ready (vcycle v0) 4150 (get_vu k s')" "regs_ok l" "VF (get_vu k s') 0 = VF (get_vu k s) 0" by auto
qed

lemma vu_small_keeps [vu_keeps]:
  "vpipes (vu_branch_step v) = vpipes v" "VF (vu_branch_step v) = VF v"
  "vpipes (v\<lparr>VIBackupCycles := b\<rparr>) = vpipes v" "vpipes (vu_cancel_branch v) = vpipes v"
  "VF (vu_fmac_advance u l v) = VF v"
  by (simp_all add: vu_branch_step_def vu_cancel_branch_def vu_fmac_advance_def vpipes_def vcore_def wVI_def Let_def)

lemma stop_bit_keeps:
  "vpipes (get_vu k (vu_stop_bit E k hi m en st s)) = vpipes (get_vu k s)"
  "VF (get_vu k (vu_stop_bit E k hi m en st s)) = VF (get_vu k s)"
  by (simp_all add: vu_stop_bit_def Let_def get_vu_mono vu_keeps)

lemmas stop_bit_units = stop_bit_keeps [of 0, simplified] stop_bit_keeps [of 1, simplified]

text \<open>The end of a program: the pipelines are emptied, and unit 1 sends the rest of its packet, which takes no cycle any
  more.\<close>

definition empty_pipes :: "VURegs \<Rightarrow> bool" where
  "empty_pipes v \<longleftrightarrow> fmaccount v = 0 \<and> ialucount v = 0 \<and> \<not> fdEnable (fdiv v) \<and> \<not> efEnable (efu v)"

lemma loop_empty: "empty_pipes v \<Longrightarrow> vuTestPipes_loop v = v"
  by (subst vuTestPipes_loop.simps)
    (simp add: empty_pipes_def vuTestPipes_round_def vuFMACflush_def vuIALUflush_def vuFDIVflush_def vuEFUflush_def
      vuFMACflush_loop.simps vuIALUflush_loop.simps)

definition fin_ok :: "nat \<Rightarrow> ('d vus \<Rightarrow> 'd vus) \<Rightarrow> bool" where
  "fin_ok k fin \<longleftrightarrow>
     (\<forall>s w. w = vuFlushAll ((get_vu k s)\<lparr>VIBackupCycles := 0\<rparr>) \<and> empty_pipes w \<and> xgkick_ok w \<longrightarrow>
        vcore (get_vu k (fin s)) = vcore w \<and> VF (get_vu k (fin s)) = VF w \<and> xgkick_ok (get_vu k (fin s)))"

lemma vu0_end_ok: "fin_ok 0 (vu0_end E)"
  unfolding fin_ok_def
  by (auto simp: vu0_end_def Let_def on_vu_def on_dev_def wVI_def vcore_def xgkick_ok_def)

lemma vu1_end_ok:
  assumes "xgkick_by_tag E"
  shows "fin_ok 1 (vu1_end E)"
  unfolding fin_ok_def
proof (intro allI impI, elim conjE)
  fix s :: "'a vus" and w
  assume w: "w = vuFlushAll ((get_vu 1 s)\<lparr>VIBackupCycles := 0\<rparr>)" and e: "empty_pipes w" and ok: "xgkick_ok w"
  define t where "t = on_dev (vif_stop_wait E 1) (on_vu 0 (\<lambda>v. wVI REG_VPU_STAT (VI v REG_VPU_STAT AND NOT 0x100) v)
      (on_vu 1 (\<lambda>v. vuFlushAll (v\<lparr>VIBackupCycles := 0\<rparr>)) s))"
  define u where "u = (if xgkickenable (vu1 t) then vuXGKICKTransfer E 0 True t else t)"
  have end_eq: "vu1_end E s = (if INSTANT_VU1 E then on_vu 1 (\<lambda>v. v\<lparr>xgkicklastcycle := ee_cycle E (vdev u)\<rparr>) u else u)"
    unfolding vu1_end_def Let_def u_def t_def ..
  have t: "vu1 t = w" "VI (vu0 t) REG_VPU_STAT AND 0x100 = 0"
    using w by (simp_all add: t_def on_dev_def on_vu_def wVI_def get_vu_def and.assoc)
  have u: "vcore (vu1 u) = vcore w \<and> VF (vu1 u) = VF w \<and> xgkick_ok (vu1 u)"
  proof (cases "xgkickenable (vu1 t)")
    case True
    from ok t(1) have "xgkick_ok (vu1 t)" by simp
    from transfer_flush [OF this assms, of 0] True t(2) obtain x where x: "u = on_vu 1 vuTestPipes_loop x"
      "\<not> xgkickenable (vu1 x)" "transferred 0 t x" by (auto simp: u_def)
    have "kicked 0 w (vu1 x)" using x(3) t(1) by (simp add: transferred_def)
    note k = kicked_core [OF this]
    have "empty_pipes (vu1 x)" using e k(1) by (simp add: empty_pipes_def vcore_def)
    then have "vu1 u = vu1 x" by (simp add: x(1) on_vu_def loop_empty)
    with k x(2) show ?thesis by (simp add: xgkick_ok_def)
  next
    case False
    then show ?thesis using t ok by (simp add: u_def)
  qed
  moreover have "vcore (v\<lparr>xgkicklastcycle := c\<rparr>) = vcore v" "xgkick_ok (v\<lparr>xgkicklastcycle := c\<rparr>) = xgkick_ok v" for v c
    by (simp_all add: vcore_def xgkick_ok_def)
  ultimately show "vcore (get_vu 1 (vu1_end E s)) = vcore w \<and> VF (get_vu 1 (vu1_end E s)) = VF w \<and> xgkick_ok (get_vu 1 (vu1_end E s))"
    by (simp add: end_eq get_vu_def on_vu_def)
qed

abbreviation (input) fmac_offset :: "VURegsNum \<Rightarrow> VURegsNum \<Rightarrow> 2 word" where
  "fmac_offset u l \<equiv> (if uses_fmac u l then 1 else 0)"

lemma advance_ok: "pipes_inv (fmac_offset u l) v \<Longrightarrow> efu_pos v \<Longrightarrow> xgkick_ok v \<Longrightarrow> pipes_ok (vu_fmac_advance u l v)"
  by (auto simp: pipes_ok_def vu_fmac_advance_def pipes_inv_def fm_list_def ia_list_def fdiv_ok_def efu_ok_def efu_pos_def xgkick_ok_def)

lemma enter_kick: "kick (vu_enter_pipes u l v) = kick v"
  by (cases "pipe u"; cases "pipe l"; simp add: enter_defs Let_def kick_def)

text \<open>The last part of a step, after the instructions: \<open>w\<close> is the state in which the entries are made.\<close>

lemma entered:
  assumes w: "ready c0 B w" "regs_ok l" "vpipes v = vpipes (vu_enter_pipes u l w)"
  shows "pipes_inv (fmac_offset u l) v" "efu_pos v" "xgkick_ok v" "vcycle v = vcycle w" "c0 \<le> vcycle v" "cyc v \<le> unat c0 + B"
proof -
  have r: "pipes_inv 0 w" "entered_before w" "pipes_quiet w" "efu_pos w" "xgkick_ok w" "c0 \<le> vcycle w" "cyc w \<le> unat c0 + B"
    using w(1) by (simp_all add: ready_def)
  have "pipes_inv (fmac_offset u l) (vu_enter_pipes u l w)" "efu_pos (vu_enter_pipes u l w)" "xgkick_ok (vu_enter_pipes u l w)"
    using enter_inv [OF r(1-3) w(2)] enter_others(5) [OF w(2) r(4)] kick_ok [OF enter_kick] r(5) by blast+
  with r vpipes_eq [OF w(3)] show "pipes_inv (fmac_offset u l) v" "efu_pos v" "xgkick_ok v" "vcycle v = vcycle w" "c0 \<le> vcycle v"
    "cyc v \<le> unat c0 + B" by (simp_all add: enter_fields)
qed

text \<open>Emptying the pipelines, as the end of a program does.\<close>

lemma finished:
  assumes v: "pipes_inv d v" "xgkick_ok v" "cyc v + 54 < 2 ^ 64"
  defines "w \<equiv> vuFlushAll (v\<lparr>VIBackupCycles := 0\<rparr>)"
  shows "pipes_inv d w" "efu_pos w" "xgkick_ok w" "empty_pipes w" "vcycle v \<le> vcycle w" "cyc w \<le> cyc v + 54" "VF w = VF v"
proof -
  let ?z = "v\<lparr>VIBackupCycles := 0\<rparr>"
  have e: "vpipes ?z = vpipes v" by (simp add: vu_keeps)
  note eq = vpipes_eq [OF e]
  have z: "pipes_inv d ?z" "cyc ?z + 54 < 2 ^ 64" using v eq by simp_all
  note fl = vuFlushAll_spec [OF z, folded w_def]
  show "pipes_inv d w" "efu_pos w" "empty_pipes w" "vcycle v \<le> vcycle w" "cyc w \<le> cyc v + 54" "VF w = VF v"
    using fl eq by (simp_all add: efu_pos_def empty_pipes_def)
  show "xgkick_ok w" using kick_ok [OF fl(14)] v(2) eq(13) by simp
qed

text \<open>What a step guarantees of the unit it runs on: \<open>v\<close> before, \<open>v'\<close> after.\<close>

definition good_step :: "VURegs \<Rightarrow> VURegs \<Rightarrow> bool" where
  "good_step v v' \<longleftrightarrow> pipes_ok v' \<and> vcycle v \<le> vcycle v' \<and> cyc v' \<le> cyc v + 4204 \<and> VF v' 0 = VF v 0"

lemma exec_flags_keeps:
  "vpipes (vu1 (vu1_flags E hi s)) = vpipes (vu1 s)" "VF (vu1 (vu1_flags E hi s)) = VF (vu1 s)"
  "vpipes (vu0 (vu0_flags E hi s)) = vpipes (vu0 s)" "VF (vu0 (vu0_flags E hi s)) = VF (vu0 s)"
  by (simp_all add: vu1_flags_def vu0_flags_def Let_def on_vu_def vu_keeps stop_bit_units)

lemma vu_insn_end_step:
  assumes w: "ready c0 4150 (get_vu k s)" "regs_ok l" "unat c0 + 4204 < 2 ^ 64" and fin: "fin_ok k fin"
  shows "pipes_ok (get_vu k (vu_insn_end k fin u l s))" "c0 \<le> vcycle (get_vu k (vu_insn_end k fin u l s))"
    "cyc (get_vu k (vu_insn_end k fin u l s)) \<le> unat c0 + 4204" "VF (get_vu k (vu_insn_end k fin u l s)) = VF (get_vu k s)"
proof -
  define s7 where "s7 = on_vu k (vu_branch_step \<circ> vu_enter_pipes u l) s"
  define s8 where "s8 = (if 0 < ebit (get_vu k s7) then on_vu k (\<lambda>v. v\<lparr>ebit := ebit (get_vu k s7) - 1\<rparr>) s7 else s7)"
  define s9 where "s9 = (if ebit (get_vu k s7) = 1 then fin s8 else s8)"
  have res: "get_vu k (vu_insn_end k fin u l s) = vu_fmac_advance u l (get_vu k s9)"
    unfolding vu_insn_end_def Let_def s7_def [symmetric] s8_def [symmetric] s9_def [symmetric] by simp
  have v8: "vpipes (get_vu k s8) = vpipes (vu_enter_pipes u l (get_vu k s))" by (simp add: s8_def s7_def vu_keeps)
  have f8: "VF (get_vu k s8) = VF (get_vu k s)" by (simp add: s8_def s7_def vu_keeps enter_fields)
  note e = entered [OF w(1,2) v8]
  have v9: "pipes_inv (fmac_offset u l) (get_vu k s9) \<and> efu_pos (get_vu k s9) \<and> xgkick_ok (get_vu k s9) \<and>
      c0 \<le> vcycle (get_vu k s9) \<and> cyc (get_vu k s9) \<le> unat c0 + 4204 \<and> VF (get_vu k s9) = VF (get_vu k s)"
  proof (cases "ebit (get_vu k s7) = 1")
    case True
    define z where "z = vuFlushAll ((get_vu k s8)\<lparr>VIBackupCycles := 0\<rparr>)"
    have "cyc (get_vu k s8) + 54 < 2 ^ 64" using e(6) w(3) by simp
    note f = finished [OF e(1,3) this, folded z_def]
    have g: "vcore (get_vu k s9) = vcore z" "VF (get_vu k s9) = VF z" "xgkick_ok (get_vu k s9)"
      using fin True f(3,4) z_def by (auto simp: fin_ok_def s9_def)
    have "c0 \<le> vcycle z" using e(5) f(5) by (rule order_trans)
    moreover have "cyc z \<le> unat c0 + 4204" using e(6) f(6) by simp
    ultimately show ?thesis using f(1,2,7) g(2,3) vcore_eq [OF g(1)] f8 by simp
  next
    case False
    then have "s9 = s8" by (simp add: s9_def)
    then show ?thesis using e f8 by simp
  qed
  then show "pipes_ok (get_vu k (vu_insn_end k fin u l s))" by (simp add: res advance_ok)
  have "vcycle (vu_fmac_advance u l v) = vcycle v" for v by (simp add: vu_fmac_advance_def)
  with v9 show "c0 \<le> vcycle (get_vu k (vu_insn_end k fin u l s))"
    "cyc (get_vu k (vu_insn_end k fin u l s)) \<le> unat c0 + 4204" "VF (get_vu k (vu_insn_end k fin u l s)) = VF (get_vu k s)"
    by (simp_all add: res vu_keeps)
qed

lemma vu_insn_step:
  assumes E: "env_ok E" and v: "pipes_ok (get_vu k s)" "entered_before (get_vu k s)" "cyc (get_vu k s) + 4204 < 2 ^ 64"
    and junk: "pipe (snd junk) = VUPIPE_NONE" and fin: "fin_ok k fin"
  shows "good_step (get_vu k s) (get_vu k (vu_insn E k clip fin hi lo junk s))"
proof -
  define s4 where "s4 = on_vu k (\<lambda>v. v\<lparr>vcode := hi\<rparr>) s"
  define u where "u = snd (UPPER_OPCODE hi :: 'a vu_entry) (get_vu k s4) (fst junk)"
  define s5 where "s5 = on_vu k (vuTestUpperStalls u) s4"
  obtain l s6 where p: "vu_exec_pair E k (clip u) hi lo u (vcycle (get_vu k s4) - 1) (snd junk) s5 = (l, s6)" by fastforce
  have res: "vu_insn E k clip fin hi lo junk s = vu_insn_end k fin u l s6"
    unfolding vu_insn_def Let_def s4_def [symmetric] u_def [symmetric] s5_def [symmetric] p by simp
  have e4: "vpipes (get_vu k s4) = vpipes (get_vu k s)" "VF (get_vu k s4) = VF (get_vu k s)" by (simp_all add: s4_def vu_keeps)
  note eq4 = vpipes_eq [OF e4(1)]
  have v4: "pipes_ok (get_vu k s4)" "entered_before (get_vu k s4)" "cyc (get_vu k s4) + 4150 < 2 ^ 64"
    using v eq4 ready_eq(2) [OF e4(1)] by simp_all
  have "cyc (get_vu k s4) + 54 < 2 ^ 64" using v4(3) by simp
  then have st: "stalled (get_vu k s4) (get_vu k s5)" "efu (get_vu k s5) = efu (get_vu k s4)"
    using vuTestUpperStalls_stalled [OF v4(1)] by (simp_all add: s5_def)
  note pair = exec_pair_ready [OF E v4 st junk p]
  have c4: "unat (vcycle (get_vu k s4)) + 4204 < 2 ^ 64" using v(3) eq4(1) by simp
  note tail = vu_insn_end_step [OF pair(1,2) c4 fin, of u]
  have "VF (get_vu k (vu_insn_end k fin u l s6)) 0 = VF (get_vu k s) 0"
    using tail(4) pair(3) stalled_fields(14) [OF st(1)] e4(2) by simp
  then show ?thesis using tail eq4(1) by (simp add: good_step_def res)
qed

lemma vu1_exec_insn_step:
  assumes "env_ok E" "pipes_ok (vu1 s)" "entered_before (vu1 s)" "cyc (vu1 s) + 4204 < 2 ^ 64"
  shows "good_step (vu1 s) (vu1 (vu1_exec_insn E s))"
proof -
  have E: "fin_ok 1 (vu1_end E)" "pipe (snd (uninit_regs E s)) = VUPIPE_NONE"
    using assms(1) unfolding env_ok_def by (blast intro: vu1_end_ok)+
  obtain hi lo where f: "vu_fetch (vu1 s) = (hi, lo)" by fastforce
  note k = exec_flags_keeps(1,2) [of E hi s]
  note eq = vpipes_eq [OF k(1)] ready_eq(2) [OF k(1)]
  have "good_step (get_vu 1 (vu1_flags E hi s)) (get_vu 1 (vu_insn E 1 VIwrite (vu1_end E) hi lo (uninit_regs E s) (vu1_flags E hi s)))"
    by (rule vu_insn_step [OF assms(1) _ _ _ E(2,1)]) (use assms eq in simp_all)
  then show ?thesis using eq k by (simp add: vu1_exec_insn_def f good_step_def)
qed

lemma vu0_exec_insn_step:
  assumes "env_ok E" "pipes_ok (vu0 s)" "entered_before (vu0 s)" "cyc (vu0 s) + 4204 < 2 ^ 64"
  shows "good_step (vu0 s) (vu0 (vu0_exec_insn E s))"
proof -
  have E: "fin_ok 0 (vu0_end E)" "pipe (snd (uninit_regs E s)) = VUPIPE_NONE" using assms(1) vu0_end_ok by (simp_all add: env_ok_def)
  obtain hi lo where f: "vu_fetch (vu0 s) = (hi, lo)" by fastforce
  note k = exec_flags_keeps(3,4) [of E hi s]
  note eq = vpipes_eq [OF k(1)] ready_eq(2) [OF k(1)]
  have "good_step (get_vu 0 (vu0_flags E hi s)) (get_vu 0 (vu_insn E 0 VIread (vu0_end E) hi lo (uninit_regs E s) (vu0_flags E hi s)))"
    by (rule vu_insn_step [OF assms(1) _ _ _ E(2,1)]) (use assms eq in simp_all)
  then show ?thesis using eq k by (simp add: vu0_exec_insn_def f good_step_def)
qed

text \<open>The cycle of the step itself puts every entry in the past.\<close>

lemma next_cycle:
  assumes "pipes_ok v" "cyc v + 4205 < 2 ^ 64" "vpipes w = vpipes (v\<lparr>vcycle := vcycle v + 1\<rparr>)"
  shows "pipes_ok w" "entered_before w" "cyc w = cyc v + 1"
proof -
  let ?v = "v\<lparr>vcycle := vcycle v + 1\<rparr>"
  have "unat (vcycle v) + unat (1::u64) < 2 ^ LENGTH(64)" using assms(2) by simp
  then have c: "unat (vcycle v + 1) = cyc v + 1" using unat_add_lem [of "vcycle v" 1] by simp
  then have le: "vcycle v < vcycle v + 1" by (simp add: word_less_nat_alt)
  have "pipes_ok ?v" using assms(1) later_inv [of 0 v "vcycle v + 1"] le by (simp add: pipes_ok_def efu_pos_def xgkick_ok_def)
  moreover have "entered_before ?v"
    using assms(1) le by (auto simp: pipes_ok_def pipes_inv_def queue_ok_def entered_before_def fm_list_def ia_list_def intro: le_less_trans)
  ultimately show "pipes_ok w" "entered_before w" "cyc w = cyc v + 1"
    using vpipes_eq [OF assms(3)] ready_eq(2) [OF assms(3)] c by simp_all
qed

definition unit_step :: "VURegs \<Rightarrow> VURegs \<Rightarrow> bool" where
  "unit_step v v' \<longleftrightarrow> pipes_ok v' \<and> cyc v < cyc v' \<and> cyc v' \<le> cyc v + 4205 \<and> VF v' 0 = VF v 0"

lemma vu1_Step_good:
  assumes "env_ok E" "pipes_ok (vu1 s)" "cyc (vu1 s) + 4205 < 2 ^ 64"
  shows "unit_step (vu1 s) (vu1 (vu1_Step E s))"
proof -
  define t where "t = on_vu 1 (\<lambda>v. v\<lparr>vcycle := vcycle v + 1\<rparr>) (on_vu 1 (\<lambda>v. wVI REG_TPC (VI v REG_TPC AND 0x3fff) v) s)"
  have "vpipes (vu1 t) = vpipes ((vu1 s)\<lparr>vcycle := vcycle (vu1 s) + 1\<rparr>)" and vf: "VF (vu1 t) = VF (vu1 s)"
    by (simp_all add: t_def on_vu_def vpipes_def vcore_def wVI_def)
  note n = next_cycle [OF assms(2,3) this(1)]
  have "good_step (vu1 t) (vu1 (vu1_exec_insn E t))" by (rule vu1_exec_insn_step [OF assms(1) n(1,2)]) (use n assms in simp)
  then show ?thesis using n vf by (simp add: unit_step_def good_step_def vu1_Step_def vu1Exec_def t_def word_le_nat_alt)
qed

lemma vu0Exec_good:
  assumes "env_ok E" "pipes_ok (vu0 s)" "cyc (vu0 s) + 4205 < 2 ^ 64"
  shows "unit_step (vu0 s) (vu0 (vu0Exec E s))"
proof -
  define t where "t = on_vu 0 (\<lambda>v. (wVI REG_TPC (VI v REG_TPC AND 0xfff) v)\<lparr>vcycle := vcycle v + 1\<rparr>) s"
  have "vpipes (vu0 t) = vpipes ((vu0 s)\<lparr>vcycle := vcycle (vu0 s) + 1\<rparr>)" and vf: "VF (vu0 t) = VF (vu0 s)"
    by (simp_all add: t_def on_vu_def vpipes_def vcore_def wVI_def)
  note n = next_cycle [OF assms(2,3) this(1)]
  have "good_step (vu0 t) (vu0 (vu0_exec_insn E t))" by (rule vu0_exec_insn_step [OF assms(1) n(1,2)]) (use n assms in simp)
  then show ?thesis using n vf by (simp add: unit_step_def good_step_def vu0Exec_def t_def word_le_nat_alt)
qed

end
