(* ===== verification/VU_Execute.thy ===== *)
theory VU_Execute
  imports VU_Step
begin

text \<open>
  Running the vector units: with as much fuel as cycles are asked for, the loops of the two
  interpreters end, since every step takes a cycle; they stop when the cycles are over or when the
  unit's program has ended (or, for unit 0, when it asks for the main processor), and they keep the
  invariant of the pipelines and the constant register.
\<close>

text \<open>\<open>m\<close> cycles of \<open>n\<close> are left at \<open>v\<close>, for a loop that began at cycle \<open>start\<close>.\<close>

definition cycles_left :: "u64 \<Rightarrow> u32 \<Rightarrow> VURegs \<Rightarrow> nat \<Rightarrow> bool" where
  "cycles_left start n v m \<longleftrightarrow> start \<le> vcycle v \<and> unat n \<le> (cyc v - unat start) + m"

lemma cycles_left_0: "cycles_left start n v 0 \<Longrightarrow> \<not> vcycle v - start < ucast n"
  by (simp add: cycles_left_def not_less_cycles)

lemma cycles_left_step:
  "cycles_left start n v (Suc m) \<Longrightarrow> unit_step v v' \<Longrightarrow> cycles_left start n v' m"
  by (auto simp: cycles_left_def unit_step_def word_le_nat_alt)

text \<open>How far a run that began at \<open>v0\<close> has come.\<close>

definition run_ok :: "u32 \<Rightarrow> VURegs \<Rightarrow> VURegs \<Rightarrow> bool" where
  "run_ok n v0 v \<longleftrightarrow> pipes_ok v \<and> cyc v0 \<le> cyc v \<and> cyc v < cyc v0 + unat n + 4205 \<and> VF v 0 = VF v0 0"

lemma run_ok_step:
  assumes "run_ok n v0 v" "vcycle v - vcycle v0 < ucast n" "unit_step v v'"
  shows "run_ok n v0 v'"
proof -
  have "vcycle v0 \<le> vcycle v" using assms(1) by (simp add: run_ok_def word_le_nat_alt)
  from not_less_cycles [OF this, of n] assms(2) have "cyc v - cyc v0 < unat n" by auto
  with assms show ?thesis by (auto simp: run_ok_def unit_step_def)
qed

lemma vu1_loop_returns:
  assumes "env_ok E" "run_ok n v0 (vu1 s)" "cycles_left (vcycle v0) n (vu1 s) fuel" "cyc v0 + unat n + 8410 < 2 ^ 64"
  shows "\<exists>s'. vu1_loop fuel E (vcycle v0) n s = Some s' \<and> run_ok n v0 (vu1 s') \<and>
    (\<not> vcycle (vu1 s') - vcycle v0 < ucast n \<or> VI (vu0 s') REG_VPU_STAT AND 0x100 = 0)"
  using assms(2,3)
proof (induction fuel arbitrary: s)
  case 0
  then show ?case using cycles_left_0 by (subst vu1_loop.simps) auto
next
  case (Suc fuel)
  show ?case
  proof (cases "vcycle (vu1 s) - vcycle v0 < ucast n \<and> VI (vu0 s) REG_VPU_STAT AND 0x100 \<noteq> 0")
    case True
    have "cyc (vu1 s) + 4205 < 2 ^ 64" using Suc.prems(1) assms(4) by (simp add: run_ok_def)
    then have st: "unit_step (vu1 s) (vu1 (vu1_Step E s))"
      using vu1_Step_good [OF assms(1)] Suc.prems(1) by (simp add: run_ok_def)
    note ih = Suc.IH [OF run_ok_step [OF Suc.prems(1) _ st] cycles_left_step [OF Suc.prems(2) st]]
    show ?thesis using True ih by (subst vu1_loop.simps) simp
  next
    case False
    have c: "run_ok n v0 (vu_cancel_branch (vu1 s)) = run_ok n v0 (vu1 s)"
      using vpipes_eq [OF vu_small_keeps(4)] by (simp add: run_ok_def) (simp add: vu_cancel_branch_def wVI_def)
    with False Suc.prems(1) show ?thesis by (subst vu1_loop.simps) (auto simp: on_vu_def)
  qed
qed

lemma vu0_loop_returns:
  assumes "env_ok E" "run_ok n v0 (vu0 s)" "cycles_left (vcycle v0) n (vu0 s) fuel" "cyc v0 + unat n + 8410 < 2 ^ 64"
  shows "\<exists>s'. vu0_loop fuel E (vcycle v0) n s = Some s' \<and> run_ok n v0 (vu0 s') \<and>
    (\<not> vcycle (vu0 s') - vcycle v0 < ucast n \<or> VI (vu0 s') REG_VPU_STAT AND 1 = 0 \<or> vflags (vu0 s') AND VUFLAG_MFLAGSET \<noteq> 0)"
  using assms(2,3)
proof (induction fuel arbitrary: s)
  case 0
  then show ?case using cycles_left_0 by (subst vu0_loop.simps) auto
next
  case (Suc fuel)
  show ?case
  proof (cases "vcycle (vu0 s) - vcycle v0 < ucast n \<and> VI (vu0 s) REG_VPU_STAT AND 1 \<noteq> 0 \<and> vflags (vu0 s) AND VUFLAG_MFLAGSET = 0")
    case True
    have "cyc (vu0 s) + 4205 < 2 ^ 64" using Suc.prems(1) assms(4) by (simp add: run_ok_def)
    then have st: "unit_step (vu0 s) (vu0 (vu0Exec E s))"
      using vu0Exec_good [OF assms(1)] Suc.prems(1) by (simp add: run_ok_def)
    note ih = Suc.IH [OF run_ok_step [OF Suc.prems(1) _ st] cycles_left_step [OF Suc.prems(2) st]]
    show ?thesis using True ih by (subst vu0_loop.simps) simp
  next
    case False
    have c: "run_ok n v0 (vu_cancel_branch (vu0 s)) = run_ok n v0 (vu0 s)"
      using vpipes_eq [OF vu_small_keeps(4)] by (simp add: run_ok_def) (simp add: vu_cancel_branch_def wVI_def)
    have d: "VI (vu_cancel_branch (vu0 s)) REG_VPU_STAT = VI (vu0 s) REG_VPU_STAT" by (simp add: vu_cancel_branch_def wVI_def)
    from False Suc.prems(1) c d show ?thesis by (subst vu0_loop.simps) (auto simp: on_vu_def)
  qed
qed

lemma run_ok_eq: "vpipes v = vpipes w \<Longrightarrow> VF v = VF w \<Longrightarrow> run_ok n v0 v = run_ok n v0 w"
  by (simp add: run_ok_def vpipes_eq [of v w])

lemma run_start:
  assumes "pipes_ok v" shows "run_ok n v v" "cycles_left (vcycle v) n v (unat n)"
  using assms by (simp_all add: run_ok_def cycles_left_def)

lemma vu1_Execute_run:
  assumes "env_ok E" "pipes_ok (vu1 s)" "cyc (vu1 s) + unat n + 8410 < 2 ^ 64"
  shows "\<exists>s'. vu1_Execute E n s = Some s' \<and> run_ok n (vu1 s) (vu1 s') \<and>
    (unat n \<le> cyc (vu1 s') - cyc (vu1 s) \<or> VI (vu0 s') REG_VPU_STAT AND 0x100 = 0)"
proof -
  define t where "t = on_vu 1 (\<lambda>v. wVI REG_TPC (push_bit 3 (VI v REG_TPC)) v) s"
  have t: "vpipes (vu1 t) = vpipes (vu1 s)" "VF (vu1 t) = VF (vu1 s)" by (simp_all add: t_def on_vu_def vu_keeps)
  note eq = vpipes_eq [OF t(1)]
  have "run_ok n (vu1 s) (vu1 t)" "cycles_left (vcycle (vu1 s)) n (vu1 t) (unat n)"
    using run_start [OF assms(2), of n] run_ok_eq [OF t] eq by (simp_all add: cycles_left_def)
  from vu1_loop_returns [OF assms(1) this assms(3)] obtain w where
    w: "vu1_loop (unat n) E (vcycle (vu1 s)) n t = Some w" "run_ok n (vu1 s) (vu1 w)"
      "\<not> vcycle (vu1 w) - vcycle (vu1 s) < ucast n \<or> VI (vu0 w) REG_VPU_STAT AND 0x100 = 0" by blast
  define z where "z = vu_set_next E 1 (on_vu 1 (\<lambda>v. wVI REG_TPC (drop_bit 3 (VI v REG_TPC)) v) w)"
  have "vu1_Execute E n s = Some z"
    unfolding vu1_Execute_def Let_def t_def [symmetric] using w(1) eq(1) by (simp add: z_def)
  moreover have z: "vpipes (vu1 z) = vpipes (vu1 w)" "VF (vu1 z) = VF (vu1 w)" "vu0 z = vu0 w"
    by (simp_all add: z_def vu_set_next_def on_vu_def vpipes_def vcore_def wVI_def)
  have "vcycle (vu1 s) \<le> vcycle (vu1 w)" using w(2) by (simp add: run_ok_def word_le_nat_alt)
  ultimately show ?thesis using w(2,3) run_ok_eq [OF z(1,2)] vpipes_eq(1) [OF z(1)] z(3) by (simp add: not_less_cycles)
qed

lemma vu0_Execute_run:
  assumes "env_ok E" "vu0_cycle_rate E = (\<lambda>c. c)" "pipes_ok (vu0 s)" "cyc (vu0 s) + unat n + 8410 < 2 ^ 64"
  shows "\<exists>s'. vu0_Execute E n s = Some s' \<and> run_ok n (vu0 s) (vu0 s') \<and>
    (unat n \<le> cyc (vu0 s') - cyc (vu0 s) \<or> VI (vu0 s') REG_VPU_STAT AND 1 = 0 \<or> vflags (vu0 s') AND VUFLAG_MFLAGSET \<noteq> 0)"
proof -
  define t where "t = on_vu 0 (\<lambda>v. (wVI REG_TPC (push_bit 3 (VI v REG_TPC)) v)\<lparr>vflags := vflags v AND NOT VUFLAG_MFLAGSET\<rparr>) s"
  have t: "vpipes (vu0 t) = vpipes (vu0 s)" "VF (vu0 t) = VF (vu0 s)" by (simp_all add: t_def on_vu_def vu_keeps)
  note eq = vpipes_eq [OF t(1)]
  have "run_ok n (vu0 s) (vu0 t)" "cycles_left (vcycle (vu0 s)) n (vu0 t) (unat n)"
    using run_start [OF assms(3), of n] run_ok_eq [OF t] eq by (simp_all add: cycles_left_def)
  from vu0_loop_returns [OF assms(1) this assms(4)] obtain w where
    w: "vu0_loop (unat n) E (vcycle (vu0 s)) n t = Some w" "run_ok n (vu0 s) (vu0 w)"
      "\<not> vcycle (vu0 w) - vcycle (vu0 s) < ucast n \<or> VI (vu0 w) REG_VPU_STAT AND 1 = 0 \<or> vflags (vu0 w) AND VUFLAG_MFLAGSET \<noteq> 0" by blast
  define z where "z = vu_set_next E 0 (on_vu 0 (\<lambda>v. v\<lparr>vcycle := vcycle v - (vcycle v - vcycle (vu0 t)) + vu0_cycle_rate E (vcycle v - vcycle (vu0 t))\<rparr>)
      (on_vu 0 (\<lambda>v. wVI REG_TPC (drop_bit 3 (VI v REG_TPC)) v) w))"
  have "vu0_Execute E n s = Some z"
    unfolding vu0_Execute_def Let_def t_def [symmetric] using w(1) eq(1) by (simp add: z_def)
  moreover have z: "vpipes (vu0 z) = vpipes (vu0 w)" "VF (vu0 z) = VF (vu0 w)" "VI (vu0 z) REG_VPU_STAT = VI (vu0 w) REG_VPU_STAT"
      "vflags (vu0 z) = vflags (vu0 w)"
    by (simp_all add: z_def vu_set_next_def on_vu_def vpipes_def vcore_def wVI_def assms(2))
  have "vcycle (vu0 s) \<le> vcycle (vu0 w)" using w(2) by (simp add: run_ok_def word_le_nat_alt)
  ultimately show ?thesis using w(2,3) run_ok_eq [OF z(1,2)] vpipes_eq(1) [OF z(1)] z(3,4) by (simp add: not_less_cycles)
qed

end
