(* ===== verification/VU_Lanes.thy ===== *)
theory VU_Lanes
  imports VU_Frame
begin

text \<open>
  The arithmetic of the vector units lane by lane. The code computes the four lanes one after the other,
  writing each result back before it reads the operands of the next, and updates the flags in
  place; here this equals computing all lanes from the operands as they were, whatever registers
  coincide, with the flags of each lane a function of its result.
\<close>

section \<open>One lane\<close>

definition mac_value :: "'d vu_env \<Rightarrow> nat \<Rightarrow> u32 \<Rightarrow> u32" where
  "mac_value E k f =
     (if f_eq (daz (VUFPCR E k) f) 0 then f
      else if drop_bit 23 f AND 0xff = 0 then f AND 0x80000000
      else if drop_bit 23 f AND 0xff = 255 \<and> vuOverflow E k then (f AND 0x80000000) OR 0x7f7fffff
      else f)"

text \<open>Zero, sign, underflow and overflow, at the places of lane w.\<close>

definition mac_flags :: "'d vu_env \<Rightarrow> nat \<Rightarrow> u32 \<Rightarrow> u32" where
  "mac_flags E k f =
     (if f AND 0x80000000 \<noteq> 0 then 0x10 else 0) OR
     (if f_eq (daz (VUFPCR E k) f) 0 then 0x1
      else if drop_bit 23 f AND 0xff = 0 then 0x101
      else if drop_bit 23 f AND 0xff = 255 then 0x1000 else 0)"

definition set_lane_flags :: "nat \<Rightarrow> u32 \<Rightarrow> u32 \<Rightarrow> u32" where
  "set_lane_flags n fl m = (m AND NOT (push_bit n 0x1111)) OR push_bit n fl"

lemma one_bit:
  "bit (1::u32) j \<longleftrightarrow> j = 0" "bit (0x10::u32) j \<longleftrightarrow> j = 4" "bit (0x100::u32) j \<longleftrightarrow> j = 8" "bit (0x1000::u32) j \<longleftrightarrow> j = 12"
proof -
  have p: "(0x10::u32) = push_bit 4 1" "(0x100::u32) = push_bit 8 1" "(0x1000::u32) = push_bit 12 1" by simp_all
  show "bit (1::u32) j \<longleftrightarrow> j = 0" by (simp add: bit_1_iff)
  show "bit (0x10::u32) j \<longleftrightarrow> j = 4" "bit (0x100::u32) j \<longleftrightarrow> j = 8" "bit (0x1000::u32) j \<longleftrightarrow> j = 12"
    by (simp_all only: p bit_push_bit_iff bit_1_iff) auto
qed

lemma vu_flag_bits:
  "bit (0x1111::u32) j \<longleftrightarrow> j \<in> {0, 4, 8, 12}" "bit (0x1100::u32) j \<longleftrightarrow> j \<in> {8, 12}" "bit (0x101::u32) j \<longleftrightarrow> j \<in> {0, 8}"
  "bit (0x1101::u32) j \<longleftrightarrow> j \<in> {0, 8, 12}" "bit (0x111::u32) j \<longleftrightarrow> j \<in> {0, 4, 8}" "bit (0x1010::u32) j \<longleftrightarrow> j \<in> {4, 12}"
  "bit (0x11::u32) j \<longleftrightarrow> j \<in> {0, 4}"
proof -
  have o: "(0x1111::u32) = 0x1000 OR 0x100 OR 0x10 OR 1" "(0x1100::u32) = 0x1000 OR 0x100" "(0x101::u32) = 0x100 OR 1"
    "(0x1101::u32) = 0x1000 OR 0x100 OR 1" "(0x111::u32) = 0x100 OR 0x10 OR 1" "(0x1010::u32) = 0x1000 OR 0x10" "(0x11::u32) = 0x10 OR 1"
    by simp_all
  show "bit (0x1111::u32) j \<longleftrightarrow> j \<in> {0, 4, 8, 12}" "bit (0x1100::u32) j \<longleftrightarrow> j \<in> {8, 12}" "bit (0x101::u32) j \<longleftrightarrow> j \<in> {0, 8}"
    "bit (0x1101::u32) j \<longleftrightarrow> j \<in> {0, 8, 12}" "bit (0x111::u32) j \<longleftrightarrow> j \<in> {0, 4, 8}" "bit (0x1010::u32) j \<longleftrightarrow> j \<in> {4, 12}"
    "bit (0x11::u32) j \<longleftrightarrow> j \<in> {0, 4}"
    unfolding o bit_or_iff one_bit by auto
qed

lemma flag_algebra:
  fixes m :: u32
  shows "((m OR push_bit n 0x10) AND NOT (push_bit n 0x1100)) OR push_bit n 1 = set_lane_flags n 0x11 m"
    "((m AND NOT (push_bit n 0x10)) AND NOT (push_bit n 0x1100)) OR push_bit n 1 = set_lane_flags n 1 m"
    "((m OR push_bit n 0x10) AND NOT (push_bit n 0x1000)) OR push_bit n 0x101 = set_lane_flags n 0x111 m"
    "((m AND NOT (push_bit n 0x10)) AND NOT (push_bit n 0x1000)) OR push_bit n 0x101 = set_lane_flags n 0x101 m"
    "((m OR push_bit n 0x10) AND NOT (push_bit n 0x0101)) OR push_bit n 0x1000 = set_lane_flags n 0x1010 m"
    "((m AND NOT (push_bit n 0x10)) AND NOT (push_bit n 0x0101)) OR push_bit n 0x1000 = set_lane_flags n 0x1000 m"
    "(m OR push_bit n 0x10) AND NOT (push_bit n 0x1101) = set_lane_flags n 0x10 m"
    "(m AND NOT (push_bit n 0x10)) AND NOT (push_bit n 0x1101) = set_lane_flags n 0 m"
    "m AND NOT (push_bit n 0x1111) = set_lane_flags n 0 m"
  unfolding set_lane_flags_def
  by (rule bit_word_eqI, simp only: bit_or_iff bit_and_iff bit_not_iff bit_push_bit_iff one_bit vu_flag_bits push_bit_of_0 bit_0_eq, auto simp: bit_simps)+

lemma VU_MAC_UPDATE_lane:
  "VU_MAC_UPDATE E k n f v = (mac_value E k f, v\<lparr>macflag := set_lane_flags n (mac_flags E k f) (macflag v)\<rparr>)"
proof -
  have z: "push_bit n (1::u32) = push_bit n 0x1" by (rule refl)
  show ?thesis
    unfolding VU_MAC_UPDATE_def mac_value_def mac_flags_def Let_def
    by (simp add: flag_algebra del: push_bit_of_1)
qed

lemma VU_MAC_CLEAR_lane: "VU_MAC_CLEAR n v = v\<lparr>macflag := set_lane_flags n 0 (macflag v)\<rparr>"
  by (simp add: VU_MAC_CLEAR_def flag_algebra)

section \<open>All lanes\<close>

lemma lane_cases: "(i::2 word) = 0 \<or> i = 1 \<or> i = 2 \<or> i = 3"
proof -
  have "unat i < 4" using unsigned_less [of i, where 'a = nat] by simp
  then have "unat i = 0 \<or> unat i = 1 \<or> unat i = 2 \<or> unat i = 3" by arith
  then show ?thesis by (auto simp: word_unat_eq_iff)
qed

text \<open>The results \<open>r\<close> of the selected lanes, all at once.\<close>

definition put_lanes :: "MACOpDst \<Rightarrow> (2 word \<Rightarrow> u32) \<Rightarrow> VURegs \<Rightarrow> VURegs" where
  "put_lanes dst x v =
     (case dst of
        Dst_Acc \<Rightarrow> v\<lparr>VACC := (\<lambda>i. if vSel i v then x i else VACC v i)\<rparr>
      | Dst_Fd \<Rightarrow> if vFd v = 0 then v else v\<lparr>VF := (VF v)(vFd v := (\<lambda>i. if vSel i v then x i else VF v (vFd v) i))\<rparr>)"

definition lane_flags :: "'d vu_env \<Rightarrow> nat \<Rightarrow> (2 word \<Rightarrow> u32) \<Rightarrow> VURegs \<Rightarrow> u32" where
  "lane_flags E k r v =
     fold (\<lambda>i. set_lane_flags (3 - unat i) (if vSel i v then mac_flags E k (r i) else 0)) [0, 1, 2, 3] (macflag v)"

definition mac_all :: "'d vu_env \<Rightarrow> nat \<Rightarrow> MACOpDst \<Rightarrow> (2 word \<Rightarrow> u32) \<Rightarrow> VURegs \<Rightarrow> VURegs" where
  "mac_all E k dst r v = VU_STAT_UPDATE ((put_lanes dst (\<lambda>i. mac_value E k (r i)) v)\<lparr>macflag := lane_flags E k r v\<rparr>)"

text \<open>A lane reads only its own lane of the registers.\<close>

definition same_lane :: "2 word \<Rightarrow> VURegs \<Rightarrow> VURegs \<Rightarrow> bool" where
  "same_lane i v v' \<longleftrightarrow> vcode v' = vcode v \<and> (\<forall>r. VF v' r i = VF v r i) \<and> VACC v' i = VACC v i"

definition lane_local :: "(2 word \<Rightarrow> VURegs \<Rightarrow> u32) \<Rightarrow> bool" where
  "lane_local g \<longleftrightarrow> (\<forall>i v v'. same_lane i v v' \<longrightarrow> g i v' = g i v)"

definition pick :: "2 word set \<Rightarrow> (2 word \<Rightarrow> u32) \<Rightarrow> VECTOR \<Rightarrow> VURegs \<Rightarrow> VECTOR" where
  "pick S x old v = (\<lambda>i. if i \<in> S \<and> vSel i v then x i else old i)"

lemma pick_insert: "pick (insert i S) x old v = (if vSel i v then (pick S x old v)(i := x i) else pick S x old v)"
  by (auto simp: pick_def fun_eq_iff)

lemma pick_empty: "pick {} x old v = old"
  by (simp add: pick_def)

definition put_some :: "2 word set \<Rightarrow> MACOpDst \<Rightarrow> (2 word \<Rightarrow> u32) \<Rightarrow> VURegs \<Rightarrow> VURegs" where
  "put_some S dst x v =
     (case dst of
        Dst_Acc \<Rightarrow> v\<lparr>VACC := pick S x (VACC v) v\<rparr>
      | Dst_Fd \<Rightarrow> if vFd v = 0 then v
          else v\<lparr>VF := (VF v)(vFd v := pick S x (VF v (vFd v)) v)\<rparr>)"

lemma put_some_fields [simp]: "vcode (put_some S dst x v) = vcode v" "macflag (put_some S dst x v) = macflag v"
  by (simp_all add: put_some_def split: MACOpDst.split)

lemma put_some_same_lane: "i \<notin> S \<Longrightarrow> same_lane i v ((put_some S dst x v)\<lparr>macflag := m\<rparr>)"
  by (auto simp: same_lane_def put_some_def pick_def split: MACOpDst.split)

lemma put_some_insert:
  "put_some (insert i S) dst x v =
     (if vSel i v then put_dst dst i (x i) (put_some S dst x v) else put_some S dst x v)"
  by (cases dst) (simp_all add: put_some_def put_dst_def wVF_def vFd_def pick_insert)

lemma put_dst_macflag: "put_dst dst i r (w\<lparr>macflag := m\<rparr>) = (put_dst dst i r w)\<lparr>macflag := m\<rparr>"
  by (simp add: put_dst_def wVF_def vFd_def split: MACOpDst.split)

lemma fold_mac_lane:
  assumes "lane_local g" "distinct xs"
  shows "fold (mac_lane E k dst g) xs v =
    (put_some (set xs) dst (\<lambda>i. mac_value E k (g i v)) v)
      \<lparr>macflag := fold (\<lambda>i. set_lane_flags (3 - unat i) (if vSel i v then mac_flags E k (g i v) else 0)) xs (macflag v)\<rparr>"
  using assms(2)
proof (induction xs rule: rev_induct)
  case Nil
  then show ?case by (simp add: put_some_def pick_empty split: MACOpDst.split)
next
  case (snoc i xs)
  let ?p = "put_some (set xs) dst (\<lambda>i. mac_value E k (g i v)) v"
  let ?m = "fold (\<lambda>i. set_lane_flags (3 - unat i) (if vSel i v then mac_flags E k (g i v) else 0)) xs (macflag v)"
  let ?w = "?p\<lparr>macflag := ?m\<rparr>"
  have "i \<notin> set xs" using snoc.prems by simp
  then have "g i ?w = g i v" using assms(1) put_some_same_lane unfolding lane_local_def by blast
  moreover have "vSel i ?w = vSel i v" by (simp add: vSel_def)
  ultimately have "mac_lane E k dst g i ?w =
      (if vSel i v then put_dst dst i (mac_value E k (g i v)) ?p else ?p)
        \<lparr>macflag := set_lane_flags (3 - unat i) (if vSel i v then mac_flags E k (g i v) else 0) ?m\<rparr>"
    by (simp add: mac_lane_def VU_MAC_UPDATE_lane VU_MAC_CLEAR_lane put_dst_macflag)
  then show ?case using snoc by (simp add: put_some_insert)
qed

lemma mac_lanes_simultaneous:
  assumes "lane_local g"
  shows "mac_lanes E k dst g v = mac_all E k dst (\<lambda>i. g i v) v"
proof -
  have d: "distinct [0, 1, 2, 3 :: 2 word]" by simp
  have "set [0, 1, 2, 3] = (UNIV :: 2 word set)" using lane_cases by auto
  then have "put_some (set [0, 1, 2, 3]) dst x v = put_lanes dst x v" for x
    unfolding put_some_def put_lanes_def pick_def by (simp only: UNIV_I simp_thms)
  then show ?thesis
    unfolding mac_lanes_def mac_all_def lane_flags_def fold_mac_lane [OF assms d] by simp
qed

lemma lane_local_ops:
  "lane_local (\<lambda>i v. Fn (VF v (vFs v) i) (VF v (vFt v) i))" "lane_local (\<lambda>i v. Fn (VF v (vFs v) i) bc)"
  "lane_local (\<lambda>i v. Fn' (VACC v i) (VF v (vFs v) i) (VF v (vFt v) i))" "lane_local (\<lambda>i v. Fn' (VACC v i) (VF v (vFs v) i) bc)"
  by (simp_all add: lane_local_def same_lane_def vFs_def vFt_def)

text \<open>The four shapes of arithmetic instructions.\<close>

lemma apply_simultaneous:
  "applyBinaryMACOp E k Fn dst v = mac_all E k dst (\<lambda>i. Fn (VF v (vFs v) i) (VF v (vFt v) i)) v"
  "applyBinaryMACOpBroadcast E k Fn dst bc v = mac_all E k dst (\<lambda>i. Fn (VF v (vFs v) i) bc) v"
  "applyTernaryMACOp E k Fn' dst v = mac_all E k dst (\<lambda>i. Fn' (VACC v i) (VF v (vFs v) i) (VF v (vFt v) i)) v"
  "applyTernaryMACOpBroadcast E k Fn' dst bc v = mac_all E k dst (\<lambda>i. Fn' (VACC v i) (VF v (vFs v) i) bc) v"
  unfolding applyBinaryMACOp_def applyBinaryMACOpBroadcast_def applyTernaryMACOp_def applyTernaryMACOpBroadcast_def
  by (rule mac_lanes_simultaneous [OF lane_local_ops(1) [of Fn], of E k dst v],
      rule mac_lanes_simultaneous [OF lane_local_ops(2) [of Fn bc], of E k dst v],
      rule mac_lanes_simultaneous [OF lane_local_ops(3) [of Fn'], of E k dst v],
      rule mac_lanes_simultaneous [OF lane_local_ops(4) [of Fn' bc], of E k dst v])

end
