(* ===== verification/VU_Hazards.thy ===== *)
theory VU_Hazards
  imports VU_Execute VU_Lanes
begin

text \<open>
  What the stalls are for: after them, no entry that is still in a pipeline will write a register
  that the instruction reads.
\<close>

definition fm_hazard :: "u32 \<Rightarrow> u32 \<Rightarrow> VURegs \<Rightarrow> bool" where
  "fm_hazard reg xyzw v \<longleftrightarrow> (\<exists>e\<in>set (fm_list v). \<not> fm_done (vcycle v) e \<and> fmac_match reg xyzw e)"

definition ia_hazard :: "u32 \<Rightarrow> VURegs \<Rightarrow> bool" where
  "ia_hazard regs v \<longleftrightarrow> (\<exists>e\<in>set (ia_list v). \<not> ia_done (vcycle v) e \<and> iaReg e AND regs \<noteq> 0)"

lemma stall_for_reaches:
  assumes "st \<le> c0" "n \<le> 54" "unat c0 + 54 < 2 ^ 64"
  shows "unat st + unat n \<le> cyc (stall_for st n v)" "vcycle v \<le> vcycle (stall_for st n v)"
  using unat_add_cycles(1) [OF assms] by (auto simp: stall_for_def Let_def word_less_nat_alt word_le_nat_alt)

text \<open>The loop over a ring, for either ring: \<open>ent\<close> is the entry at an index and \<open>mt\<close> tells whether it matters.\<close>

context timed_entries begin

lemma fin_later: "st e \<le> now \<Longrightarrow> now \<le> now' \<Longrightarrow> fin now e \<Longrightarrow> fin now' e"
  using fin_iff [of e now] fin_iff [of e now'] by (auto simp: word_le_nat_alt)

lemma stall_loop:
  fixes ent :: "VURegs \<Rightarrow> nat \<Rightarrow> 'e" and mt :: "'e \<Rightarrow> bool"
  assumes ent: "\<And>w i. stalled v0 w \<Longrightarrow> ent w i = ent v0 i"
    and past: "\<And>i. i < m \<Longrightarrow> st (ent v0 i) \<le> vcycle v0 \<and> la (ent v0 i) \<le> 54"
    and v: "cyc v0 + 54 < 2 ^ 64" "stalled v0 v"
  defines "f \<equiv> \<lambda>i v. let p = ent v i in if fin (vcycle v) p then v else if mt p then stall_for (st p) (la p) v else v"
  shows "stalled v0 (fold f [0..<m] v) \<and> vcycle v \<le> vcycle (fold f [0..<m] v) \<and>
    (\<forall>i<m. fin (vcycle (fold f [0..<m] v)) (ent v0 i) \<or> \<not> mt (ent v0 i))"
  using past
proof (induction m)
  case 0
  then show ?case using v by simp
next
  case (Suc m)
  define w where "w = fold f [0..<m] v"
  define z where "z = f m w"
  let ?e = "ent v0 m"
  have w: "stalled v0 w" "vcycle v \<le> vcycle w" "\<forall>i<m. fin (vcycle w) (ent v0 i) \<or> \<not> mt (ent v0 i)"
    using Suc by (simp_all add: w_def)
  have zeq: "z = (if fin (vcycle w) ?e then w else if mt ?e then stall_for (st ?e) (la ?e) w else w)"
    by (simp add: z_def f_def ent [OF w(1)] Let_def)
  have em: "st ?e \<le> vcycle v0" "la ?e \<le> 54" using Suc.prems [of m] by simp_all
  note reach = stall_for_reaches [OF em v(1), of w]
  have z: "stalled v0 z" "vcycle w \<le> vcycle z"
    using w(1) em v(1) reach(2) by (auto simp: zeq intro: stall_for_stalled)
  have "fin (vcycle z) (ent v0 i) \<or> \<not> mt (ent v0 i)" if "i < Suc m" for i
  proof (cases "i = m")
    case True
    show ?thesis
    proof (cases "fin (vcycle w) ?e \<or> \<not> mt ?e")
      case False
      then have "z = stall_for (st ?e) (la ?e) w" by (simp add: zeq)
      with reach(1) have "unat (st ?e) + unat (la ?e) \<le> cyc z" by simp
      then have "st ?e \<le> vcycle z" "unat (la ?e) \<le> cyc z - unat (st ?e)" by (simp_all add: word_le_nat_alt)
      then show ?thesis using True fin_iff by simp
    qed (use True zeq in auto)
  next
    case False
    with that have "i < m" by simp
    then have "st (ent v0 i) \<le> vcycle w" using Suc.prems [of i] stalled_fields(12) [OF w(1)] by (meson less_SucI order_trans)
    with w(3) z(2) \<open>i < m\<close> show ?thesis by (meson fin_later)
  qed
  moreover have "fold f [0..<Suc m] v = z" by (simp add: w_def z_def)
  ultimately show ?case using z w(2) by (auto intro: order_trans)
qed

end

lemmas fm_done_later = fm.fin_later

lemma vuFMACTestStall_done:
  assumes "pipes_inv d v0" "cyc v0 + 54 < 2 ^ 64" "stalled v0 v"
  shows "\<not> fm_hazard reg xyzw (vuFMACTestStall reg xyzw v)" "vcycle v \<le> vcycle (vuFMACTestStall reg xyzw v)"
    "stalled v0 (vuFMACTestStall reg xyzw v)"
proof -
  let ?w = "vuFMACTestStall reg xyzw v"
  have c: "fmaccount v = fmaccount v0" by (rule stalled_fields(5) [OF assms(3)])
  have past: "fmSCycle (fmac v0 (fmacreadpos v0 + of_nat i)) \<le> vcycle v0 \<and> fmCycle (fmac v0 (fmacreadpos v0 + of_nat i)) \<le> 54"
    if "i < unat (fmaccount v0)" for i
    using fm_list_nth [OF that] assms(1) by (auto simp: pipes_inv_def dest: queue_entry)
  have same: "fmac w (fmacreadpos w + of_nat i) = fmac v0 (fmacreadpos v0 + of_nat i)" if "stalled v0 w" for w i
    by (simp add: stalled_fields [OF that])
  have w: "stalled v0 ?w" "vcycle v \<le> vcycle ?w"
    "\<forall>i<unat (fmaccount v0). fm_done (vcycle ?w) (fmac v0 (fmacreadpos v0 + of_nat i)) \<or>
      \<not> fmac_match reg xyzw (fmac v0 (fmacreadpos v0 + of_nat i))"
    using fm.stall_loop [where ent = "\<lambda>v i. fmac v (fmacreadpos v + of_nat i)" and mt = "fmac_match reg xyzw" and v = v,
        OF same past assms(2,3)]
    unfolding vuFMACTestStall_def c by blast+
  then show "vcycle v \<le> vcycle ?w" "stalled v0 ?w" by blast+
  have "fm_list ?w = fm_list v0" by (rule stalled_fields(1) [OF w(1)])
  with w(3) show "\<not> fm_hazard reg xyzw ?w" by (auto simp: fm_hazard_def fm_list_def ring_list_def)
qed

lemma fm_hazard_later:
  assumes "\<not> fm_hazard reg xyzw v" "pipes_inv d v0" "stalled v0 v" "stalled v0 w" "vcycle v \<le> vcycle w"
  shows "\<not> fm_hazard reg xyzw w"
proof -
  have l: "fm_list w = fm_list v" using stalled_fields(1) assms(3,4) by metis
  have "fmSCycle e \<le> vcycle v" if "e \<in> set (fm_list v)" for e
    using that assms(2) stalled_fields(1,12) [OF assms(3)] by (auto simp: pipes_inv_def queue_ok_def intro: order_trans)
  with assms(1,5) show ?thesis unfolding fm_hazard_def l by (meson fm_done_later)
qed

lemma vuTestFMACStalls_done:
  assumes "pipes_inv d v0" "cyc v0 + 54 < 2 ^ 64" "stalled v0 v"
  shows "VFread0 n \<noteq> 0 \<Longrightarrow> \<not> fm_hazard (VFread0 n) (VFr0xyzw n) (vuTestFMACStalls n v)"
    "VFread1 n \<noteq> 0 \<Longrightarrow> \<not> fm_hazard (VFread1 n) (VFr1xyzw n) (vuTestFMACStalls n v)"
    "vcycle v \<le> vcycle (vuTestFMACStalls n v)"
proof -
  define w where "w = (if VFread0 n \<noteq> 0 then vuFMACTestStall (VFread0 n) (VFr0xyzw n) v else v)"
  have w: "stalled v0 w" "vcycle v \<le> vcycle w" "VFread0 n \<noteq> 0 \<Longrightarrow> \<not> fm_hazard (VFread0 n) (VFr0xyzw n) w"
    using vuFMACTestStall_done [OF assms] assms(3) by (auto simp: w_def)
  have eq: "vuTestFMACStalls n v = (if VFread1 n \<noteq> 0 then vuFMACTestStall (VFread1 n) (VFr1xyzw n) w else w)"
    by (simp add: vuTestFMACStalls_def w_def Let_def)
  note z = vuFMACTestStall_done [OF assms(1,2) w(1)]
  show "VFread0 n \<noteq> 0 \<Longrightarrow> \<not> fm_hazard (VFread0 n) (VFr0xyzw n) (vuTestFMACStalls n v)"
    unfolding eq using w(3) fm_hazard_later [OF _ assms(1) w(1) z(3) z(2)] by auto
  show "VFread1 n \<noteq> 0 \<Longrightarrow> \<not> fm_hazard (VFread1 n) (VFr1xyzw n) (vuTestFMACStalls n v)"
    unfolding eq using z(1) by simp
  show "vcycle v \<le> vcycle (vuTestFMACStalls n v)"
    unfolding eq using w(2) z(2) by (auto intro: order_trans)
qed

lemma vuTestALUStalls_done:
  assumes "pipes_inv d v0" "cyc v0 + 54 < 2 ^ 64" "stalled v0 v"
  shows "\<not> ia_hazard (VIread n) (vuTestALUStalls n v)"
proof -
  let ?w = "vuTestALUStalls n v"
  have c: "ialucount v = ialucount v0" by (rule stalled_fields(8) [OF assms(3)])
  have past: "iaSCycle (ialu v0 (ialureadpos v0 + of_nat i)) \<le> vcycle v0 \<and> iaCycle (ialu v0 (ialureadpos v0 + of_nat i)) \<le> 54"
    if "i < unat (ialucount v0)" for i
    using ia_list_nth [OF that] assms(1) by (auto simp: pipes_inv_def dest: queue_entry)
  have same: "ialu w (ialureadpos w + of_nat i) = ialu v0 (ialureadpos v0 + of_nat i)" if "stalled v0 w" for w i
    by (simp add: stalled_fields [OF that])
  have w: "stalled v0 ?w"
    "\<forall>i<unat (ialucount v0). ia_done (vcycle ?w) (ialu v0 (ialureadpos v0 + of_nat i)) \<or>
      \<not> iaReg (ialu v0 (ialureadpos v0 + of_nat i)) AND VIread n \<noteq> 0"
    using ia.stall_loop [where ent = "\<lambda>v i. ialu v (ialureadpos v + of_nat i)" and mt = "\<lambda>p. iaReg p AND VIread n \<noteq> 0" and v = v,
        OF same past assms(2,3)]
    unfolding vuTestALUStalls_def c by blast+
  have "ia_list ?w = ia_list v0" by (rule stalled_fields(2) [OF w(1)])
  with w(2) show ?thesis by (auto simp: ia_hazard_def ia_list_def ring_list_def)
qed

section \<open>Divisions and elementary functions\<close>

lemma vuTestFDIVStalls_done:
  assumes "pipes_inv d v0" "cyc v0 + 54 < 2 ^ 64" "stalled v0 v" "fdEnable (fdiv v0)"
  shows "fd_done (vcycle (vuTestFDIVStalls n v)) (fdiv v0)"
proof -
  let ?d = "fdiv v0"
  have s: "stalled v0 (vuTestFMACStalls n v)" by (rule vuTestFMACStalls_stalled [OF assms(3,1,2)])
  have d: "fdSCycle ?d \<le> vcycle v0" "fdCycle ?d \<le> 54" using assms(1,4) by (simp_all add: pipes_inv_def fdiv_ok_def)
  have eq: "vuTestFDIVStalls n v = stall_for (fdSCycle ?d) (fdCycle ?d) (vuTestFMACStalls n v)"
    using assms(4) stalled_fields(11) [OF s] by (simp add: vuTestFDIVStalls_def Let_def)
  have le: "unat (fdSCycle ?d) + unat (fdCycle ?d) \<le> cyc (vuTestFDIVStalls n v)"
    unfolding eq by (rule stall_for_reaches(1) [OF d assms(2)])
  then have "fdSCycle ?d \<le> vcycle (vuTestFDIVStalls n v)" by (simp add: word_le_nat_alt)
  from not_less_cycles [OF this] le show ?thesis by (simp add: fd_done_def)
qed

lemma vuTestEFUStalls_done:
  fixes n :: VURegsNum
  assumes "pipes_ok v0" "cyc v0 + 54 < 2 ^ 64" "stalled v0 v" "efu v = efu v0" "efEnable (efu v0)"
  defines "w \<equiv> vuTestEFUStalls n v"
  shows "ef_done (vcycle w) (efu w)"
proof -
  let ?e = "efu v0"
  have e: "efSCycle ?e \<le> vcycle v0" "efCycle ?e - 1 \<le> 54"
    using assms(1,5) by (auto simp: pipes_ok_def pipes_inv_def efu_ok_def efu_pos_def intro: pred_le)
  have eq: "w = stall_for (efSCycle ?e) (efCycle ?e - 1)
      ((vuTestFMACStalls n v)\<lparr>efu := ?e\<lparr>efCycle := efCycle ?e - 1\<rparr>\<rparr>)"
    using assms(4,5) by (simp add: w_def vuTestEFUStalls_def Let_def)
  have le: "unat (efSCycle ?e) + unat (efCycle ?e - 1) \<le> cyc w"
    unfolding eq by (rule stall_for_reaches(1) [OF e assms(2)])
  then have "efSCycle ?e \<le> vcycle w" by (simp add: word_le_nat_alt)
  from not_less_cycles [OF this] le have "ef_done (vcycle w) (?e\<lparr>efCycle := efCycle ?e - 1\<rparr>)" by (simp add: ef_done_def)
  moreover have "efu w = ?e\<lparr>efCycle := efCycle ?e - 1\<rparr>" unfolding eq by simp
  ultimately show ?thesis by simp
qed

lemma efEnable_stalls: "efEnable (efu (vuTestEFUStalls n v)) = efEnable (efu v)"
  by (simp add: vuTestEFUStalls_def Let_def)

section \<open>Both instructions of a step\<close>

definition reads_settled :: "VURegsNum \<Rightarrow> VURegs \<Rightarrow> bool" where
  "reads_settled n v \<longleftrightarrow>
     (VFread0 n \<noteq> 0 \<longrightarrow> \<not> fm_hazard (VFread0 n) (VFr0xyzw n) v) \<and> (VFread1 n \<noteq> 0 \<longrightarrow> \<not> fm_hazard (VFread1 n) (VFr1xyzw n) v)"

lemma reads_settled_later:
  assumes "reads_settled n v" "pipes_inv d v0" "stalled v0 v" "stalled v0 w" "vcycle v \<le> vcycle w"
  shows "reads_settled n w"
  using fm_hazard_later [OF _ assms(2-5)] assms(1) by (simp add: reads_settled_def)

lemma stalls_later:
  "vcycle v \<le> vcycle (stall_for st n v)" "vcycle v \<le> vcycle (vuTestALUStalls m v)"
proof -
  show s: "vcycle v \<le> vcycle (stall_for st n v)" for v st n by (auto simp: stall_for_def Let_def)
  have "vcycle v \<le> vcycle (fold f xs v)" if "\<And>i v. vcycle v \<le> vcycle (f i v)" for f and xs :: "nat list"
    using that by (induction xs arbitrary: v) (auto intro: order_trans)
  then show "vcycle v \<le> vcycle (vuTestALUStalls m v)"
    unfolding vuTestALUStalls_def using s by (auto simp: Let_def)
qed

lemma settled_after:
  assumes "pipes_ok v0" "cyc v0 + 54 < 2 ^ 64" "stalled v0 v" "efu v = efu v0"
  shows "reads_settled n (vuTestFMACStalls n v)" "reads_settled n (vuTestFDIVStalls n v)" "reads_settled n (vuTestEFUStalls n v)"
    "vcycle v \<le> vcycle (vuTestFDIVStalls n v)" "vcycle v \<le> vcycle (vuTestEFUStalls n v)"
proof -
  have inv: "pipes_inv 0 v0" using assms(1) by (simp add: pipes_ok_def)
  note f = vuTestFMACStalls_done [OF inv assms(2,3), of n]
  show r: "reads_settled n (vuTestFMACStalls n v)" using f by (simp add: reads_settled_def)
  have s: "stalled v0 (vuTestFMACStalls n v)" "stalled v0 (vuTestFDIVStalls n v)" "stalled v0 (vuTestEFUStalls n v)"
    using vuTestFMACStalls_stalled [OF assms(3) inv assms(2)] vuTestFDIVStalls_stalled [OF assms(3) inv assms(2)]
      vuTestEFUStalls_stalled [OF assms(3,1,2,4)] by simp_all
  have l: "vcycle (vuTestFMACStalls n v) \<le> vcycle (vuTestFDIVStalls n v)" "vcycle (vuTestFMACStalls n v) \<le> vcycle (vuTestEFUStalls n v)"
    using stalls_later(1) [where v = "(vuTestFMACStalls n v)\<lparr>efu := e\<rparr>" for e]
    by (simp_all add: vuTestFDIVStalls_def vuTestEFUStalls_def Let_def stalls_later)
  show "reads_settled n (vuTestFDIVStalls n v)" "reads_settled n (vuTestEFUStalls n v)"
    using reads_settled_later [OF r inv s(1)] s l by simp_all
  show "vcycle v \<le> vcycle (vuTestFDIVStalls n v)" "vcycle v \<le> vcycle (vuTestEFUStalls n v)"
    using f(3) l by (auto intro: order_trans)
qed

text \<open>What the stalls before an instruction guarantee, by its pipeline.\<close>

definition operands_ready :: "VURegsNum \<Rightarrow> VURegs \<Rightarrow> bool" where
  "operands_ready n v \<longleftrightarrow>
     (pipe n \<in> {VUPIPE_FMAC, VUPIPE_FDIV, VUPIPE_EFU} \<longrightarrow> reads_settled n v) \<and>
     (pipe n = VUPIPE_BRANCH \<longrightarrow> \<not> ia_hazard (VIread n) v) \<and>
     (pipe n = VUPIPE_FDIV \<and> fdEnable (fdiv v) \<longrightarrow> fd_done (vcycle v) (fdiv v)) \<and>
     (pipe n = VUPIPE_EFU \<and> efEnable (efu v) \<longrightarrow> ef_done (vcycle v) (efu v))"

lemma both_ready:
  assumes "pipes_ok v" "cyc v + 54 < 2 ^ 64" "pipe u \<in> {VUPIPE_NONE, VUPIPE_FMAC}"
  shows "operands_ready u (vuTestLowerStalls l (vuTestUpperStalls u v))" "operands_ready l (vuTestLowerStalls l (vuTestUpperStalls u v))"
proof -
  have inv: "pipes_inv 0 v" using assms(1) by (simp add: pipes_ok_def)
  let ?x = "vuTestUpperStalls u v" and ?w = "vuTestLowerStalls l (vuTestUpperStalls u v)"
  note x = vuTestUpperStalls_stalled [OF assms(1,2), of u]
  note w = vuTestLowerStalls_stalled [OF x assms(1,2), of l]
  note st = settled_after [OF assms(1,2) x, of l] vuTestFMACStalls_done(3) [OF inv assms(2) x(1), of l] stalls_later(2) [of ?x l]
  have le: "vcycle ?x \<le> vcycle ?w"
    using st by (cases "pipe l") (simp_all add: vuTestLowerStalls_def)
  have "pipe u = VUPIPE_FMAC \<Longrightarrow> reads_settled u ?x"
    using settled_after(1) [OF assms(1,2) stalled_refl refl] by (simp add: vuTestUpperStalls_def)
  then have "pipe u = VUPIPE_FMAC \<Longrightarrow> reads_settled u ?w" by (rule reads_settled_later [OF _ inv x(1) w le])
  then show "operands_ready u ?w" using assms(3) by (auto simp: operands_ready_def)
  have fd: "fdiv ?w = fdiv v" by (rule stalled_fields(11) [OF w])
  show "operands_ready l ?w"
    using st vuTestALUStalls_done [OF inv assms(2) x(1), of l] vuTestFDIVStalls_done [OF inv assms(2) x(1), of l]
      vuTestEFUStalls_done [OF assms(1,2) x, of l] x(2) fd stalled_fields(11) [OF x(1)]
    by (cases "pipe l") (auto simp: operands_ready_def vuTestLowerStalls_def efEnable_stalls)
qed

end
