(* ===== verification/VU_Props.thy ===== *)
theory VU_Props
  imports VU_Hazards
begin

text \<open>
  The properties of the vector units, over the lemmas of the other theories, with a concrete machine
  for the applications: both units as the program's static storage and \<^verbatim>\<open>vuMemReset\<close> leave them, and
  calls outside the model that do nothing.
\<close>

section \<open>The machine after a reset\<close>

text \<open>\<^verbatim>\<open>vuRegs\<close> before the program starts: static storage is zero.\<close>

definition vuRegs0 :: VURegs where
  "vuRegs0 = \<lparr>VF = \<lambda>r i. 0, VI = \<lambda>r. 0, VIpad = \<lambda>r i. 0, VACC = \<lambda>i. 0, vq = 0, vp = 0, vcycle = 0, vflags = 0, vcode = 0,
     start_pc = 0, vbranch = 0, vbranchpc = 0, delaybranchpc = 0, takedelaybranch = False, ebit = 0, macflag = 0, statusflag = 0,
     clipflag = 0, VMem = \<lambda>q i. 0, Micro = \<lambda>a. 0, nextBlockCycles = 0, xgkickaddr = 0, xgkickdiff = 0, xgkicksizeremaining = 0,
     xgkicklastcycle = 0, xgkickcyclecount = 0, xgkickenable = False, xgkickendpacket = False, VIBackupCycles = 0, VIOldValue = 0,
     VIRegNumber = 0, fmac = \<lambda>i. fmac_zero, fmacreadpos = 0, fmacwritepos = 0, fmaccount = 0,
     fdiv = \<lparr>fdEnable = False, fdReg = 0, fdSCycle = 0, fdCycle = 0, fdStatusflag = 0\<rparr>,
     efu = \<lparr>efEnable = False, efReg = 0, efSCycle = 0, efCycle = 0\<rparr>,
     ialu = \<lambda>i. \<lparr>iaReg = 0, iaSCycle = 0, iaCycle = 0\<rparr>, ialureadpos = 0, ialuwritepos = 0, ialucount = 0\<rparr>"

definition VF0_const :: VECTOR where
  "VF0_const = (\<lambda>i. if i = 3 then 0x3F800000 else 0)"

definition vuMemReset :: "VURegs \<Rightarrow> VURegs" where
  "vuMemReset v =
     v\<lparr>VACC := (\<lambda>i. 0), VF := (\<lambda>r i. 0)(0 := VF0_const), VI := (\<lambda>r. 0), VIpad := (\<lambda>r i. 0)\<rparr>"

definition vus_reset :: "unit vus" where
  "vus_reset = \<lparr>vu0 = vuMemReset vuRegs0, vu1 = vuMemReset vuRegs0, vdev = ()\<rparr>"

text \<open>Calls that do nothing, beside a graphics interface \<open>f\<close>.\<close>

definition env_gif :: "(VECTOR list \<Rightarrow> 'd \<Rightarrow> 'd) \<Rightarrow> 'd vu_env" where
  "env_gif f = \<lparr>vuOverflow = \<lambda>k. True, VuAddSubHack = False, VUFPCR = \<lambda>k. DEFAULT_FPU_FP_CONTROL_REGISTER,
     VUContract = False, VUContractLeft = False, INSTANT_VU1 = False, xgkick_by_tag = True,
     vif_itop = \<lambda>k d. 0, vif_top = \<lambda>k d. 0, vif_stop_wait = \<lambda>k s. s, hwIntcIrq = \<lambda>n s. s, ee_cycle = \<lambda>s. 0,
     uninit_regs = \<lambda>s. (regs_zero, regs_zero), vu0_cycle_rate = \<lambda>c. c, TransferGSPacketData = f, vif_gif_idle = \<lambda>d. d,
     eatan_sum = \<lambda>x. 0, esin_sum = \<lambda>x. 0, eexp_sum = \<lambda>x. 0\<rparr>"

definition env_idle :: "unit vu_env" where
  "env_idle = env_gif (\<lambda>q d. d)"

lemma env_idle_ok: "env_ok env_idle"
  by (simp add: env_ok_def env_idle_def env_gif_def regs_zero_def)

lemma reset_pipes_ok: "pipes_ok (vuMemReset vuRegs0)"
  by (simp add: pipes_ok_def xgkick_ok_def pipes_inv_def efu_pos_def fdiv_ok_def efu_ok_def vuMemReset_def vuRegs0_def fm_list_def ia_list_def)

section \<open>Pipelines\<close>

text \<open>
  C7: a step of either unit, whatever its two instruction words are, keeps the invariant of the
  pipelines (both rings hold at most four entries, in the order in which they started and none in the future,
  with the write position behind the last of them, and the division and elementary function units are
  within their latencies), takes at least one cycle and at most 4205, and leaves the constant register
  VF0 alone.
\<close>

theorem vu_step_keeps_pipes:
  assumes "env_ok E"
  shows "(pipes_ok (vu1 s) \<and> unat (vcycle (vu1 s)) + 4205 < 2 ^ 64 \<longrightarrow> unit_step (vu1 s) (vu1 (vu1_Step E s))) \<and>
    (pipes_ok (vu0 s) \<and> unat (vcycle (vu0 s)) + 4205 < 2 ^ 64 \<longrightarrow> unit_step (vu0 s) (vu0 (vu0Exec E s)))"
  using vu1_Step_good [OF assms] vu0Exec_good [OF assms] by simp

theorem vu_step_keeps_pipes_witness:
  "pipes_ok (vu1 (vu1_Step env_idle vus_reset)) \<and> pipes_ok (vu0 (vu0Exec env_idle vus_reset))"
  using vu_step_keeps_pipes [OF env_idle_ok, of vus_reset] reset_pipes_ok
  by (simp add: vus_reset_def unit_step_def) (simp add: vuMemReset_def vuRegs0_def)

text \<open>
  C9: running unit 1 for a number of cycles returns: the fuel of one iteration for each requested
  cycle is enough. It returns when the cycles are over or the program has ended, less than one step's worth
  of cycles late, with the invariant of the pipelines and the constant register as they were.
\<close>

theorem vu1_Execute_returns:
  assumes "env_ok E" "pipes_ok (vu1 s)" "unat (vcycle (vu1 s)) + unat n + 8410 < 2 ^ 64"
  shows "\<exists>s'. vu1_Execute E n s = Some s' \<and> pipes_ok (vu1 s') \<and> VF (vu1 s') 0 = VF (vu1 s) 0 \<and>
    unat (vcycle (vu1 s)) \<le> unat (vcycle (vu1 s')) \<and> unat (vcycle (vu1 s')) < unat (vcycle (vu1 s)) + unat n + 4205 \<and>
    (unat n \<le> unat (vcycle (vu1 s')) - unat (vcycle (vu1 s)) \<or> VI (vu0 s') 29 AND 0x100 = 0)"
  using vu1_Execute_run [OF assms] by (auto simp: run_ok_def)

theorem vu1_Execute_returns_witness: "\<exists>s'. vu1_Execute env_idle 16 vus_reset = Some s'"
  using vu1_Execute_returns [OF env_idle_ok, of vus_reset 16] reset_pipes_ok
  by (simp add: vus_reset_def) (simp add: vuMemReset_def vuRegs0_def, blast)

text \<open>
  C19: running unit 0 returns likewise, if its cycles are not scaled: when the cycles are over,
  the program has ended, or an instruction has asked for the main processor.
\<close>

theorem vu0_Execute_returns:
  assumes "env_ok E" "vu0_cycle_rate E = (\<lambda>c. c)" "pipes_ok (vu0 s)" "unat (vcycle (vu0 s)) + unat n + 8410 < 2 ^ 64"
  shows "\<exists>s'. vu0_Execute E n s = Some s' \<and> pipes_ok (vu0 s') \<and> VF (vu0 s') 0 = VF (vu0 s) 0 \<and>
    (unat n \<le> unat (vcycle (vu0 s')) - unat (vcycle (vu0 s)) \<or> VI (vu0 s') 29 AND 1 = 0 \<or> vflags (vu0 s') AND 2 \<noteq> 0)"
  using vu0_Execute_run [OF assms] by (auto simp: run_ok_def)

theorem vu0_Execute_returns_witness: "\<exists>s'. vu0_Execute env_idle 16 vus_reset = Some s'"
  using vu0_Execute_returns [OF env_idle_ok, of vus_reset 16] reset_pipes_ok
  by (simp add: vus_reset_def) (simp add: env_idle_def env_gif_def vuMemReset_def vuRegs0_def, blast)

text \<open>
  C12: the loop of a transfer to the graphics interface returns, from every state in which its registers name
  whole quadwords of the memory, which the invariant includes. Beside the program it takes no cycle of the unit
  and keeps them so. A flush takes at most 4096 cycles, switches the transfer off and delivers to the graphics
  interface, in order, exactly the rest of the tag under way and, unless that ended its packet, all quadwords of
  the packet behind it; then the busy mark of unit 0's status is cleared and the waiting DMA interface is
  told. If that packet is too large for the memory it is cancelled: nothing of it is delivered, the
  mark stays and nobody is told. Only the transfer's own registers, the cycle and the mark differ afterwards.
\<close>

theorem vu_xgkick_returns:
  assumes "xgkick_ok (vu1 s)" "xgkick_by_tag E"
  shows "(\<exists>s'. xgkick_loop E False s = Some s' \<and> xgkick_ok (vu1 s') \<and> transferred 0 s s') \<and>
    (\<exists>s' n. xgkick_loop E True s = Some s' \<and> \<not> xgkickenable (vu1 s') \<and> transferred n s s' \<and> unat n \<le> 0x1000 \<and>
       (xgkickenable (vu1 s) \<longrightarrow> delivered E (completes E (vu1 s)) (undelivered E (vu1 s)) s s'))"
proof
  show "\<exists>s'. xgkick_loop E False s = Some s' \<and> xgkick_ok (vu1 s') \<and> transferred 0 s s'" by (rule xgkick_loop_beside [OF assms(1)])
  from xgkick_loop_flush [OF assms] to_send_bound [OF assms(1)] xgkick_flush_delivers [OF assms(1) _ assms(2)]
  show "\<exists>s' n. xgkick_loop E True s = Some s' \<and> \<not> xgkickenable (vu1 s') \<and> transferred n s s' \<and> unat n \<le> 0x1000 \<and>
       (xgkickenable (vu1 s) \<longrightarrow> delivered E (completes E (vu1 s)) (undelivered E (vu1 s)) s s')" by fastforce
qed

theorem vu_xgkick_returns_witness:
  "\<exists>s'. xgkick_loop (env_gif (\<lambda>q d. d @ q)) True
      \<lparr>vu0 = wVI 29 0x1000 (vuMemReset vuRegs0),
       vu1 = (vuMemReset vuRegs0)\<lparr>xgkickenable := True, xgkickaddr := 0x3FF0, xgkickdiff := 0x10, xgkicksizeremaining := 0x20,
         xgkickendpacket := True, VMem := (\<lambda>q i. of_nat q)\<rparr>,
       vdev = []\<rparr> = Some s' \<and> vdev s' = [\<lambda>i. 1023, \<lambda>i. 0] \<and> VI (vu0 s') 29 = 0"
proof -
  let ?E = "env_gif (\<lambda>q d. d @ q)"
  let ?v = "(vuMemReset vuRegs0)\<lparr>xgkickenable := True, xgkickaddr := 0x3FF0, xgkickdiff := 0x10, xgkicksizeremaining := 0x20,
         xgkickendpacket := True, VMem := (\<lambda>q i. of_nat q)\<rparr>"
  let ?s = "\<lparr>vu0 = wVI 29 0x1000 (vuMemReset vuRegs0), vu1 = ?v, vdev = []\<rparr>"
  have f: "fold (\<lambda>q d. d @ q) qss d = d @ concat qss" for qss and d :: "VECTOR list" by (induction qss arbitrary: d) simp_all
  have u: "undelivered ?E ?v = [\<lambda>i. 1023, \<lambda>i. 0]" and c: "completes ?E ?v"
    by (simp_all add: undelivered_def completes_def last_tag_def mem_quads_def upt_conv_Cons)
  have e: "vif_gif_idle ?E = (\<lambda>d. d)" "TransferGSPacketData ?E = (\<lambda>q d. d @ q)" by (simp_all add: env_gif_def)
  have k: "xgkick_ok (vu1 ?s)" "xgkick_by_tag ?E" by (simp_all add: xgkick_ok_def quads_def env_gif_def)
  obtain s' where s': "xgkick_loop ?E True ?s = Some s'" "delivered ?E (completes ?E ?v) (undelivered ?E ?v) ?s s'"
    using vu_xgkick_returns [OF k] by auto
  then have "vdev s' = [\<lambda>i. 1023, \<lambda>i. 0] \<and> VI (vu0 s') 29 = 0"
    unfolding delivered_def u by (auto simp: c e f wVI_def)
  with s'(1) show ?thesis by blast
qed

lemma UPPER_pipes:
  "list_all (\<lambda>e. \<forall>v n. pipe n = VUPIPE_NONE \<longrightarrow> pipe (snd e v n) \<in> {VUPIPE_NONE, VUPIPE_FMAC}) t"
  if "t \<in> {VU_UPPER_OPCODE, VU_UPPER_FD_00_TABLE, VU_UPPER_FD_01_TABLE, VU_UPPER_FD_10_TABLE, VU_UPPER_FD_11_TABLE}"
  using that
  by (elim insertE emptyE) (simp_all add: VU_UPPER_OPCODE_def VU_UPPER_FD_00_TABLE_def VU_UPPER_FD_01_TABLE_def
    VU_UPPER_FD_10_TABLE_def VU_UPPER_FD_11_TABLE_def list.pred_set unk_def vu_regs_defs)

lemma UPPER_pipe: "pipe n = VUPIPE_NONE \<Longrightarrow> pipe (snd (UPPER_OPCODE c) v n) \<in> {VUPIPE_NONE, VUPIPE_FMAC}"
proof -
  let ?P = "\<lambda>e. \<forall>v n. pipe n = VUPIPE_NONE \<longrightarrow> pipe (snd e v n) \<in> {VUPIPE_NONE, VUPIPE_FMAC}"
  have "?P (UPPER_OPCODE c)" by (rule UPPER_entry [of ?P]) (rule UPPER_pipes, simp)+
  then show "pipe n = VUPIPE_NONE \<Longrightarrow> pipe (snd (UPPER_OPCODE c) v n) \<in> {VUPIPE_NONE, VUPIPE_FMAC}" by blast
qed

text \<open>
  C10: what the stalls of a step wait for: when its two instructions are executed no unfinished entry of the
  floating-point ring writes a lane of a vector register that either reads; a branch reads no integer register that a
  load is still to deliver; and a division or an elementary function finds its unit done with
  the one before. Nothing is claimed for other reads of integer registers, Q and P, on which the code does not wait.
\<close>

theorem vu_operands_ready:
  assumes "pipes_ok v" "unat (vcycle v) + 54 < 2 ^ 64" "pipe junk = VUPIPE_NONE"
    and "u = snd (UPPER_OPCODE hi :: 'd vu_entry) v junk" "l = snd (LOWER_OPCODE lo :: 'd vu_entry) v' junk'"
  shows "operands_ready u (vuTestLowerStalls l (vuTestUpperStalls u v)) \<and> operands_ready l (vuTestLowerStalls l (vuTestUpperStalls u v))"
  using both_ready [OF assms(1,2)] UPPER_pipe [OF assms(3)] assms(4) by blast

theorem vu_operands_ready_witness:
  "operands_ready (snd (UPPER_OPCODE 0x01E2116A :: unit vu_entry) (vuMemReset vuRegs0) regs_zero)
     (vuTestLowerStalls (snd (LOWER_OPCODE 0x8000033C :: unit vu_entry) vuRegs0 regs_zero)
       (vuTestUpperStalls (snd (UPPER_OPCODE 0x01E2116A :: unit vu_entry) (vuMemReset vuRegs0) regs_zero) (vuMemReset vuRegs0)))"
proof -
  have c: "unat (vcycle (vuMemReset vuRegs0)) + 54 < 2 ^ 64" by (simp add: vuMemReset_def vuRegs0_def)
  have n: "pipe regs_zero = VUPIPE_NONE" by (simp add: regs_zero_def)
  show ?thesis using vu_operands_ready [OF reset_pipes_ok c n refl refl] by (rule conjunct1)
qed

text \<open>
  C11: between instructions exactly the finished entries leave the pipelines, in whatever order the code visits
  them: each ring keeps the entries that are still running, and a finished division has its quotient in Q.
\<close>

theorem vu_retires_finished:
  assumes "pipes_ok v"
  shows "fm_list (vuTestPipes_loop v) = filter (\<lambda>e. \<not> fm_done (vcycle v) e) (fm_list v) \<and>
    ia_list (vuTestPipes_loop v) = filter (\<lambda>e. \<not> ia_done (vcycle v) e) (ia_list v) \<and>
    (fdEnable (fdiv (vuTestPipes_loop v)) \<longleftrightarrow> fdEnable (fdiv v) \<and> \<not> fd_done (vcycle v) (fdiv v)) \<and>
    (fdEnable (fdiv v) \<and> fd_done (vcycle v) (fdiv v) \<longrightarrow> VI (vuTestPipes_loop v) 22 = fdReg (fdiv v))"
  using loop_retires [of 0 v] assms by (simp add: pipes_ok_def)

theorem vu_retires_finished_witness: "fm_list (vuTestPipes_loop (vuMemReset vuRegs0)) = []"
  using vu_retires_finished [OF reset_pipes_ok] by (simp add: fm_list_def vuMemReset_def vuRegs0_def)

text \<open>
  C16: when a program ends nothing is left in the pipelines, the quotient and the result of the elementary function unit
  are in Q and P, and the unit's cycle has reached the completion of everything that was in flight, at most 54 cycles
  later.
\<close>

theorem vu_program_end:
  assumes "pipes_ok v" "unat (vcycle v) + 54 < 2 ^ 64"
  defines "w \<equiv> vuFlushAll v"
  shows "fmaccount w = 0 \<and> ialucount w = 0 \<and> \<not> fdEnable (fdiv w) \<and> \<not> efEnable (efu w) \<and>
    vcycle v \<le> vcycle w \<and> unat (vcycle w) \<le> unat (vcycle v) + 54 \<and>
    (\<forall>e\<in>set (fm_list v). unat (fmSCycle e) + 4 \<le> unat (vcycle w)) \<and> (\<forall>e\<in>set (ia_list v). unat (iaSCycle e) + 4 \<le> unat (vcycle w)) \<and>
    VI w 22 = (if fdEnable (fdiv v) then fdReg (fdiv v) else VI v 22) \<and> VI w 23 = (if efEnable (efu v) then efReg (efu v) else VI v 23)"
  using vuFlushAll_spec [of 0 v] assms(1,2) by (simp add: pipes_ok_def w_def)

theorem vu_program_end_witness: "fmaccount (vuFlushAll (vuMemReset vuRegs0)) = 0"
  using vu_program_end [OF reset_pipes_ok] by (simp add: vuMemReset_def vuRegs0_def)

section \<open>Lanes\<close>

text \<open>The operand that varies: the other register's lane, one of its lanes for all, and the registers I and Q.\<close>

definition arith_operands :: "(VURegs \<Rightarrow> 2 word \<Rightarrow> u32) list" where
  "arith_operands =
     [\<lambda>v. VF v (vFt v), \<lambda>v i. VF v (vFt v) 0, \<lambda>v i. VF v (vFt v) 1, \<lambda>v i. VF v (vFt v) 2, \<lambda>v i. VF v (vFt v) 3,
      \<lambda>v i. VI v REG_I, \<lambda>v i. VI v REG_Q]"

text \<open>The addition, subtraction, multiplication, multiply-add and multiply-subtract instructions with their
  destination and what one lane of them computes.\<close>

definition binary_lanes ::
    "MACOpDst \<Rightarrow> ('d vu_env \<Rightarrow> nat \<Rightarrow> u32 \<Rightarrow> u32 \<Rightarrow> u32) \<Rightarrow> 'd vu_upper list \<Rightarrow>
      ('d vu_upper \<times> MACOpDst \<times> ('d vu_env \<Rightarrow> nat \<Rightarrow> VURegs \<Rightarrow> 2 word \<Rightarrow> u32)) list" where
  "binary_lanes dst F ops = map2 (\<lambda>f b. (f, dst, \<lambda>E k v i. F E k (VF v (vFs v) i) (b v i))) ops arith_operands"

definition ternary_lanes ::
    "MACOpDst \<Rightarrow> ('d vu_env \<Rightarrow> nat \<Rightarrow> u32 \<Rightarrow> u32 \<Rightarrow> u32 \<Rightarrow> u32) \<Rightarrow> 'd vu_upper list \<Rightarrow>
      ('d vu_upper \<times> MACOpDst \<times> ('d vu_env \<Rightarrow> nat \<Rightarrow> VURegs \<Rightarrow> 2 word \<Rightarrow> u32)) list" where
  "ternary_lanes dst F ops = map2 (\<lambda>f b. (f, dst, \<lambda>E k v i. F E k (VACC v i) (VF v (vFs v) i) (b v i))) ops arith_operands"

definition add_op :: "'d vu_env \<Rightarrow> nat \<Rightarrow> u32 \<Rightarrow> u32 \<Rightarrow> u32" where
  "add_op E k = (if VuAddSubHack E then vuADD_TriAceHack E k else vuOpADD E k)"

definition arith_instructions :: "('d vu_upper \<times> MACOpDst \<times> ('d vu_env \<Rightarrow> nat \<Rightarrow> VURegs \<Rightarrow> 2 word \<Rightarrow> u32)) list" where
  "arith_instructions =
     (vuADDi, Dst_Fd, \<lambda>E k v i. add_op E k (VF v (vFs v) i) (VI v REG_I)) #
     (vuADDq, Dst_Fd, \<lambda>E k v i. vuOpADD E k (VF v (vFs v) i) (VI v REG_Q)) #
     binary_lanes Dst_Fd vuOpADD [vuADD, vuADDx, vuADDy, vuADDz, vuADDw] @
     binary_lanes Dst_Acc vuOpADD [vuADDA, vuADDAx, vuADDAy, vuADDAz, vuADDAw, vuADDAi, vuADDAq] @
     binary_lanes Dst_Fd vuOpSUB [vuSUB, vuSUBx, vuSUBy, vuSUBz, vuSUBw, vuSUBi, vuSUBq] @
     binary_lanes Dst_Acc vuOpSUB [vuSUBA, vuSUBAx, vuSUBAy, vuSUBAz, vuSUBAw, vuSUBAi, vuSUBAq] @
     binary_lanes Dst_Fd vuOpMUL [vuMUL, vuMULx, vuMULy, vuMULz, vuMULw, vuMULi, vuMULq] @
     binary_lanes Dst_Acc vuOpMUL [vuMULA, vuMULAx, vuMULAy, vuMULAz, vuMULAw, vuMULAi, vuMULAq] @
     ternary_lanes Dst_Fd vuOpMADD [vuMADD, vuMADDx, vuMADDy, vuMADDz, vuMADDw, vuMADDi, vuMADDq] @
     ternary_lanes Dst_Acc vuOpMADD [vuMADDA, vuMADDAx, vuMADDAy, vuMADDAz, vuMADDAw, vuMADDAi, vuMADDAq] @
     ternary_lanes Dst_Fd vuOpMSUB [vuMSUB, vuMSUBx, vuMSUBy, vuMSUBz, vuMSUBw, vuMSUBi, vuMSUBq] @
     ternary_lanes Dst_Acc vuOpMSUB [vuMSUBA, vuMSUBAx, vuMSUBAy, vuMSUBAz, vuMSUBAw, vuMSUBAi, vuMSUBAq]"

lemmas arith_lists = arith_instructions_def binary_lanes_def ternary_lanes_def arith_operands_def

lemmas arith_groups =
  vuADD_def vuADDbc_def vuADDbc_addsubhack_def vuADDi_def vuADDq_def vuADDx_def vuADDy_def vuADDz_def vuADDw_def
  vuADDA_def vuADDAbc_def vuADDAi_def vuADDAq_def vuADDAx_def vuADDAy_def vuADDAz_def vuADDAw_def
  vuSUB_def vuSUBbc_def vuSUBi_def vuSUBq_def vuSUBx_def vuSUBy_def vuSUBz_def vuSUBw_def
  vuSUBA_def vuSUBAbc_def vuSUBAi_def vuSUBAq_def vuSUBAx_def vuSUBAy_def vuSUBAz_def vuSUBAw_def
  vuMUL_def vuMULbc_def vuMULi_def vuMULq_def vuMULx_def vuMULy_def vuMULz_def vuMULw_def
  vuMULA_def vuMULAbc_def vuMULAi_def vuMULAq_def vuMULAx_def vuMULAy_def vuMULAz_def vuMULAw_def
  vuMADD_def vuMADDbc_def vuMADDi_def vuMADDq_def vuMADDx_def vuMADDy_def vuMADDz_def vuMADDw_def
  vuMADDA_def vuMADDAbc_def vuMADDAi_def vuMADDAq_def vuMADDAx_def vuMADDAy_def vuMADDAz_def vuMADDAw_def
  vuMSUB_def vuMSUBbc_def vuMSUBi_def vuMSUBq_def vuMSUBx_def vuMSUBy_def vuMSUBz_def vuMSUBw_def
  vuMSUBA_def vuMSUBAbc_def vuMSUBAi_def vuMSUBAq_def vuMSUBAx_def vuMSUBAy_def vuMSUBAz_def vuMSUBAw_def

text \<open>
  C17: the addition, subtraction, multiplication, multiply-add and multiply-subtract instructions, 70 with all
  their operand forms and both destinations, compute their four lanes as if at once, from the operands before
  the instruction, also when the destination is one of the operands, and the flags of each lane depend
  on its result alone.
\<close>

theorem vu_lanes_at_once:
  "list_all (\<lambda>(f, dst, g). \<forall>E k v. f E k v = mac_all E k dst (g E k v) v) arith_instructions \<and>
   length (arith_instructions :: ('d vu_upper \<times> _) list) = 70"
  by (simp add: arith_lists arith_groups apply_simultaneous add_op_def)

definition sign_mag_key :: "u32 \<Rightarrow> int" where
  "sign_mag_key w = (if w <s 0 then - 1 - uint (w AND 0x7FFFFFFF) else uint w)"

lemma sint_split: "sint (w::u32) = (if uint w < 2 ^ 31 then uint w else uint w - 2 ^ 32)"
proof -
  have s: "sint w = (uint w + 2 ^ 31) mod 2 ^ 32 - 2 ^ 31"
    by (simp add: sint_uint signed_take_bit_eq_take_bit_shift take_bit_eq_mod)
  show ?thesis
  proof (cases "uint w < 2 ^ 31")
    case True
    then have "(uint w + 2 ^ 31) mod 2 ^ 32 = uint w + 2 ^ 31" using uint_ge_0 [of w] by (intro mod_pos_pos_trivial) simp_all
    with s True show ?thesis by simp
  next
    case False
    have "uint w + 2 ^ 31 = (uint w - 2 ^ 31) + 2 ^ 32" by simp
    moreover have "((uint w - 2 ^ 31) + 2 ^ 32) mod 2 ^ 32 = (uint w - 2 ^ 31) mod 2 ^ 32" by (rule mod_add_self2)
    moreover have "(uint w - 2 ^ 31) mod 2 ^ 32 = uint w - 2 ^ 31"
      using False uint_lt2p [of w] by (intro mod_pos_pos_trivial) simp_all
    ultimately have "(uint w + 2 ^ 31) mod 2 ^ 32 = uint w - 2 ^ 31" by metis
    then show ?thesis unfolding s using False by simp
  qed
qed

lemma sless_split: "(a::u32) <s b \<longleftrightarrow> sint a < sint b"
  by (simp add: word_sless_alt)

lemma uint_and_31: "uint ((w::u32) AND 0x7FFFFFFF) = uint w mod 2 ^ 31"
proof -
  have "(w AND 0x7FFFFFFF) = take_bit 31 w"
    using take_bit_eq_mask [of 31 w] by (simp add: mask_eq_exp_minus_1)
  then have "uint (w AND 0x7FFFFFFF) = take_bit 31 (uint w)" by (simp only: unsigned_take_bit_eq)
  then show ?thesis by (simp only: take_bit_eq_mod)
qed

lemma key_uint: "sign_mag_key w = (if uint w < 2 ^ 31 then uint w else 2 ^ 31 - 1 - uint w)"
proof (cases "uint w < 2 ^ 31")
  case False
  have "uint w mod 2 ^ 31 = uint w - 2 ^ 31"
  proof -
    have "uint w = (uint w - 2 ^ 31) + 2 ^ 31" by simp
    then have "uint w mod 2 ^ 31 = (uint w - 2 ^ 31) mod 2 ^ 31" by (metis mod_add_self2)
    also have "\<dots> = uint w - 2 ^ 31" using False uint_lt2p [of w] by (intro mod_pos_pos_trivial) simp_all
    finally show ?thesis .
  qed
  moreover have "w <s 0" using False uint_lt2p [of w] by (simp add: sless_split sint_split)
  ultimately show ?thesis using False by (simp add: sign_mag_key_def uint_and_31)
next
  case True
  then have "\<not> w <s 0" by (simp add: sless_split sint_split)
  with True show ?thesis by (simp add: sign_mag_key_def)
qed

lemma key_order_ints:
  fixes x y :: int
  assumes "0 \<le> x" "x < 2 ^ 32" "0 \<le> y" "y < 2 ^ 32"
  defines "sg \<equiv> \<lambda>x::int. if x < 2 ^ 31 then x else x - 2 ^ 32" and "key \<equiv> \<lambda>x::int. if x < 2 ^ 31 then x else 2 ^ 31 - 1 - x"
  shows "(if sg x < 0 \<and> sg y < 0 then sg y < sg x else sg x < sg y) \<longleftrightarrow> key x < key y" "key x = key y \<Longrightarrow> x = y"
  using assms(1-4) by (auto simp: sg_def key_def split: if_splits)

lemma key_order:
  "(if a <s 0 \<and> b <s 0 then b <s a else a <s b) \<longleftrightarrow> sign_mag_key a < sign_mag_key b"
  "sign_mag_key a = sign_mag_key b \<Longrightarrow> a = b"
proof -
  have b: "0 \<le> uint w" "uint w < 2 ^ 32" for w :: u32 using uint_lt2p [of w] by simp_all
  have z: "sint (0::u32) = 0" by simp
  show "(if a <s 0 \<and> b <s 0 then b <s a else a <s b) \<longleftrightarrow> sign_mag_key a < sign_mag_key b"
    using key_order_ints(1) [OF b [of a] b [of b]] unfolding sless_split z unfolding sint_split key_uint .
  show "sign_mag_key a = sign_mag_key b \<Longrightarrow> a = b"
    using key_order_ints(2) [OF b [of a] b [of b]] unfolding key_uint by (simp only: word_uint_eq_iff)
qed

lemma max_min_key:
  "vu_fp_max a b = (if sign_mag_key a < sign_mag_key b then b else a)"
  "vu_fp_min a b = (if sign_mag_key b < sign_mag_key a then b else a)"
  unfolding vu_fp_max_def vu_fp_min_def key_order(1) [symmetric] by auto

text \<open>
  C27: maximum and minimum order all patterns, the unordered ones included, by sign and magnitude:
  each yields the operand that is larger or smaller in one total order, in which -0 is below 0.
\<close>

theorem vu_max_min_order:
  "sign_mag_key (vu_fp_max a b) = max (sign_mag_key a) (sign_mag_key b) \<and>
   sign_mag_key (vu_fp_min a b) = min (sign_mag_key a) (sign_mag_key b) \<and> inj sign_mag_key"
  by (auto simp: max_min_key max_def min_def intro!: injI key_order(2))

lemma AdvanceLFSR_form:
  "AdvanceLFSR r AND 0xFF800000 = 0x3F800000"
  by (simp add: AdvanceLFSR_def Let_def word_ao_dist and.assoc)

lemma bit_low_mask: "bit (0x7fffff::u32) n \<longleftrightarrow> n < 23"
proof -
  have "(0x7fffff::u32) = mask 23" by (simp add: mask_eq_exp_minus_1)
  then show ?thesis by (simp only: bit_mask_iff) auto
qed

lemma bit_form: "bit (0x3f800000::u32) n \<longleftrightarrow> 23 \<le> n \<and> n < 30"
proof -
  have "(0x3f800000::u32) = push_bit 23 (mask 7)" by (simp add: mask_eq_exp_minus_1)
  then show ?thesis by (simp only: bit_push_bit_iff bit_mask_iff) auto
qed

lemma AdvanceLFSR_bits:
  "bit (AdvanceLFSR r) 0 \<longleftrightarrow> bit r 4 \<noteq> bit r 22"
  "n < 22 \<Longrightarrow> bit (AdvanceLFSR r) (Suc n) \<longleftrightarrow> bit r n"
  unfolding AdvanceLFSR_def Let_def bit_or_iff bit_and_iff bit_xor_iff bit_push_bit_iff bit_drop_bit_eq bit_low_mask bit_form bit_1_iff o_def
  by auto

lemma AdvanceLFSR_inj:
  assumes f: "r AND 0xFF800000 = 0x3F800000" "r' AND 0xFF800000 = 0x3F800000" and e: "AdvanceLFSR r = AdvanceLFSR r'"
  shows "r = r'"
proof (rule bit_word_eqI)
  fix n assume "n < LENGTH(32)"
  then have n: "n < 32" by simp
  have hi: "(0xFF800000::u32) = push_bit 23 (mask 9)" by (simp add: mask_eq_exp_minus_1)
  have low: "bit r n = bit r' n" if "n < 22" for n
    using AdvanceLFSR_bits(2) [OF that, of r] AdvanceLFSR_bits(2) [OF that, of r'] e by simp
  consider "n < 22" | "n = 22" | "23 \<le> n" by linarith
  then show "bit r n = bit r' n"
  proof cases
    case 2
    have "bit r 4 = bit r' 4" by (rule low) simp
    with AdvanceLFSR_bits(1) [of r] AdvanceLFSR_bits(1) [of r'] e 2 show ?thesis by auto
  next
    case 3
    have "bit (r AND 0xFF800000) n = bit (r' AND 0xFF800000) n" using f by simp
    moreover have "n - 23 < 9" "n - 23 < 32" using n 3 by simp_all
    ultimately show ?thesis using 3 n unfolding hi bit_and_iff bit_push_bit_iff bit_mask_iff by auto
  qed (use low in simp)
qed

text \<open>
  The random register keeps the form of a number in [1, 2), and its successor function is injective on
  such numbers, so that distinct seeds never meet.
\<close>

lemma vu_AdvanceLFSR_injective:
  "AdvanceLFSR r AND 0xFF800000 = 0x3F800000 \<and>
   (r AND 0xFF800000 = 0x3F800000 \<and> r' AND 0xFF800000 = 0x3F800000 \<and> AdvanceLFSR r = AdvanceLFSR r' \<longrightarrow> r = r')"
  using AdvanceLFSR_form [of r] AdvanceLFSR_inj [of r r'] by blast


section \<open>Registers that should be constant\<close>

lemma backup_fields [simp]: "vcode (vuBackupVI r v) = vcode v" "VI (vuBackupVI r v) = VI v" "VIus q (vuBackupVI r v) = VIus q v"
  by (simp_all add: vuBackupVI_def VIus_def)

lemma backup_codes [simp]: "vIs (vuBackupVI r v) = vIs v" "vIt (vuBackupVI r v) = vIt v" "vFs (vuBackupVI r v) = vFs v" "vFt (vuBackupVI r v) = vFt v"
  by (simp_all add: vIs_def vIt_def vFs_def vFt_def)

lemma VIus_wVIus [simp]: "VIus r (wVIus r x v) = x"
proof (rule bit_word_eqI)
  fix n assume "n < LENGTH(16)"
  then have n: "n < 16" by simp
  have m: "(0xFFFF0000::u32) = push_bit 16 (mask 16)" by (simp add: mask_eq_exp_minus_1)
  have "\<not> bit (0xFFFF0000::u32) n" unfolding m using n by (simp only: bit_push_bit_iff) simp
  with n show "bit (VIus r (wVIus r x v)) n = bit x n" by (simp add: VIus_def wVIus_def wVI_def bit_simps)
qed

lemma stored_VI:
  "vcode (get_vu k (store_quad k (GET_VU_MEM k a) s)) = vcode (get_vu k s)" "VI (get_vu k (store_quad k (GET_VU_MEM k a) s)) = VI (get_vu k s)"
proof -
  have st: "vcode (get_vu k (vu_store (GET_VU_MEM k a) i x s)) = vcode (get_vu k s) \<and> VI (get_vu k (vu_store (GET_VU_MEM k a) i x s)) = VI (get_vu k s)" for i x s
    by (simp add: vu_store_def GET_VU_MEM_def get_vu_def on_vu_def Let_def)
  show "vcode (get_vu k (store_quad k (GET_VU_MEM k a) s)) = vcode (get_vu k s)" "VI (get_vu k (store_quad k (GET_VU_MEM k a) s)) = VI (get_vu k s)"
    unfolding store_quad_def sel_words_def
    by (rule fold_on_vu [where P = "\<lambda>s. vcode (get_vu k s)"], simp add: st, rule fold_on_vu [where P = "\<lambda>s. VI (get_vu k s)"], simp add: st)
qed

lemma loaded_VI: "vcode (get_vu k (load_quad k l s)) = vcode (get_vu k s)" "VI (get_vu k (load_quad k l s)) = VI (get_vu k s)"
  unfolding load_quad_def sel_words_def
  by (rule fold_on_vu [where P = "\<lambda>s. vcode (get_vu k s)"], simp add: get_vu_mono wVF_def,
      rule fold_on_vu [where P = "\<lambda>s. VI (get_vu k s)"], simp add: get_vu_mono wVF_def)

text \<open>The integer register that a load or store with a step changes.\<close>

lemma wVIus_VI: "VIus r (wVIus q x v) = (if r = q then x else VIus r v)"
proof (cases "r = q")
  case False
  then show ?thesis by (simp add: VIus_def wVIus_def wVI_def)
qed simp

lemma VI_stepped:
  fixes s :: "'d vus" and k :: nat
  defines "v \<equiv> get_vu k s"
  shows "VIus r (get_vu k (vuLQI E k s)) = (if r = vIs v \<and> vFs v \<noteq> 0 then VIus r v + 1 else VIus r v)"
    "VIus r (get_vu k (vuLQD E k s)) = (if r = vIs v \<and> vIs v \<noteq> 0 then VIus r v - 1 else VIus r v)"
    "VIus r (get_vu k (vuSQI E k s)) = (if r = vIt v \<and> vFt v \<noteq> 0 then VIus r v + 1 else VIus r v)"
    "VIus r (get_vu k (vuSQD E k s)) = (if r = vIt v \<and> vFt v \<noteq> 0 then VIus r v - 1 else VIus r v)"
proof -
  have t: "VIus r w = VIus r v" if "VI w = VI v" for w v r using that by (simp add: VIus_def)
  have c: "vIt w = vIt v" "vFt w = vFt v" "vIs w = vIs v" "vFs w = vFs v" if "vcode w = vcode v" for w v
    using that by (simp_all add: vIt_def vFt_def vIs_def vFs_def)
  show "VIus r (get_vu k (vuLQI E k s)) = (if r = vIs v \<and> vFs v \<noteq> 0 then VIus r v + 1 else VIus r v)"
    unfolding v_def vuLQI_def Let_def by (simp add: get_vu_mono loaded_VI c [OF loaded_VI(1)] t [OF loaded_VI(2)] wVIus_VI)
  show "VIus r (get_vu k (vuLQD E k s)) = (if r = vIs v \<and> vIs v \<noteq> 0 then VIus r v - 1 else VIus r v)"
    unfolding v_def vuLQD_def Let_def by (simp add: get_vu_mono loaded_VI c [OF loaded_VI(1)] t [OF loaded_VI(2)] wVIus_VI)
  show "VIus r (get_vu k (vuSQI E k s)) = (if r = vIt v \<and> vFt v \<noteq> 0 then VIus r v + 1 else VIus r v)"
    unfolding v_def vuSQI_def Let_def by (simp add: get_vu_mono stored_VI c [OF stored_VI(1)] t [OF stored_VI(2)] wVIus_VI)
  show "VIus r (get_vu k (vuSQD E k s)) = (if r = vIt v \<and> vFt v \<noteq> 0 then VIus r v - 1 else VIus r v)"
    unfolding v_def vuSQD_def Let_def by (simp add: get_vu_mono stored_VI c [OF stored_VI(1)] t [OF stored_VI(2)] wVIus_VI)
qed

lemma low_four_bits: "(x :: 5 word) AND 0xF = 0 \<and> x \<noteq> 0 \<longleftrightarrow> x = 16"
proof -
  have a: "x AND 0xF = take_bit 4 x" by (simp add: take_bit_eq_mask mask_eq_decr_exp)
  have "unat (take_bit 4 x) = unat x mod 16" by (simp only: unsigned_take_bit_eq) (simp add: take_bit_eq_mod)
  moreover have "unat x < 32" using unsigned_less [of x, where 'a = nat] by simp
  ultimately show ?thesis unfolding a word_unat_eq_iff by auto
qed

text \<open>
  C29: LQI, SQI and SQD test all five bits of the register field before they step the integer register that
  its low four bits name. They therefore step the constant register VI0 exactly when the field is 16; LQD,
  which tests the four bits, never does.
\<close>

theorem vu_VI0_changed:
  "VIus 0 (get_vu k (vuLQI E k s)) = (if vFs (get_vu k s) = 16 then VIus 0 (get_vu k s) + 1 else VIus 0 (get_vu k s)) \<and>
   VIus 0 (get_vu k (vuSQI E k s)) = (if vFt (get_vu k s) = 16 then VIus 0 (get_vu k s) + 1 else VIus 0 (get_vu k s)) \<and>
   VIus 0 (get_vu k (vuSQD E k s)) = (if vFt (get_vu k s) = 16 then VIus 0 (get_vu k s) - 1 else VIus 0 (get_vu k s)) \<and>
   VIus 0 (get_vu k (vuLQD E k s)) = VIus 0 (get_vu k s)"
  using low_four_bits [of "vFs (get_vu k s)"] low_four_bits [of "vFt (get_vu k s)"]
  by (auto simp: VI_stepped vIs_def vIt_def)

text \<open>
  C30: a store of unit 0 to the address at which it sees the registers of unit 1 writes unit 1's constant
  register VF0.
\<close>

theorem vu_VF0_of_unit_1_written:
  assumes "quad_addr (vIt (vu0 s)) (vu0 s) = 0x4000" "vSel i (vu0 s)"
  shows "VF (vu1 (vuSQ E 0 s)) 0 i = VF (vu0 s) (vFs (vu0 s)) i"
proof -
  have st: "vu_store (LVF 0) j x t = t\<lparr>vu1 := wVF 0 j x (vu1 t)\<rparr>" for j x and t :: "'a vus" by (simp add: vu_store_def on_vu_def)
  have "GET_VU_MEM 0 (quad_addr (vIt (vu0 s)) (vu0 s)) = LVF 0" by (simp add: assms(1) GET_VU_MEM_def)
  then have "vuSQ E 0 s = store_quad 0 (LVF 0) s" by (simp add: vuSQ_def Let_def)
  then show ?thesis
    using lane_cases [of i] assms(2) by (elim disjE) (simp_all add: store_quad_def sel_words_def st wVF_def)
qed

theorem vu_VF0_of_unit_1_written_witness:
  "\<exists>s :: unit vus. VF (vu1 s) 0 0 = 0 \<and> VF (vu1 (vuSQ env_idle 0 s)) 0 0 = 7"
proof -
  let ?f = "\<lambda>v. v\<lparr>vcode := 0x01010800, VI := (VI v)(1 := 0x400), VF := (VF v)(1 := (\<lambda>i. 7))\<rparr>"
  let ?s = "on_vu 0 ?f vus_reset"
  have q: "quad_addr (vIt (vu0 ?s)) (vu0 ?s) = 0x4000"
    by (simp add: on_vu_def quad_addr_def vIt_def vFt_def imm11s_def VIus_def)
  have w: "vSel 0 (vu0 ?s)" by (simp add: on_vu_def vSel_def)
  have "VF (vu1 (vuSQ env_idle 0 ?s)) 0 0 = 7"
    using vu_VF0_of_unit_1_written [OF q w, of env_idle] by (simp add: on_vu_def vFs_def)
  moreover have "VF (vu1 ?s) 0 0 = 0" by (simp add: vus_reset_def on_vu_def vuMemReset_def VF0_const_def)
  ultimately show ?thesis by blast
qed

text \<open>
  C28: a packet whose size does not fit the memory of the unit is cancelled without a trace: the transfer is off, but the
  busy mark in the status register of unit 0 stays set and the DMA interface that waits for the end is not told.
\<close>

theorem vu_xgkick_cancelled:
  assumes "xgkickenable (vu1 s)" "xgkicksizeremaining (vu1 s) = 0"
    and "GetGSPacketSize E True (vu1 s) (xgkickaddr (vu1 s)) 0 AND 0xFFFF = 0"
  shows "\<not> xgkickenable (vu1 (vuXGKICKTransfer E n True s)) \<and> vu0 (vuXGKICKTransfer E n True s) = vu0 s \<and>
    vdev (vuXGKICKTransfer E n True s) = vdev s"
proof -
  have k: "kick (vuTestPipes_loop v) = kick v" for v
    by (rule loop_closed [of "\<lambda>w. kick w = kick v"]) (simp_all add: retire_closed_def)
  have "xgkickenable (vuTestPipes_loop (v\<lparr>xgkickenable := False\<rparr>)) = False" for v
    using k [of "v\<lparr>xgkickenable := False\<rparr>"] by (simp add: kick_def)
  then show ?thesis using transfer_cancelled [OF assms, of n] by simp
qed

theorem vu_xgkick_cancelled_witness:
  "VI (vu0 (vuXGKICKTransfer env_idle 0 True
      \<lparr>vu0 = wVI 29 0x1000 (vuMemReset vuRegs0),
       vu1 = (vuMemReset vuRegs0)\<lparr>xgkickenable := True, xgkickdiff := 0x4000, VMem := (\<lambda>q i. if i = 0 then 0x7FFF else 0x10000000)\<rparr>,
       vdev = ()\<rparr>)) 29 = 0x1000"
proof -
  let ?v = "(vuMemReset vuRegs0)\<lparr>xgkickenable := True, xgkickdiff := 0x4000, VMem := (\<lambda>q i. if i = 0 then 0x7FFF else 0x10000000)\<rparr>"
  let ?s = "\<lparr>vu0 = wVI 29 0x1000 (vuMemReset vuRegs0), vu1 = ?v, vdev = ()\<rparr>"
  have "GetGSPacketSize env_idle True ?v 0 0 = 0"
    by (subst GetGSPacketSize.simps) (simp add: Let_def tag_at_def gif_len_def tag_FLG_def tag_NREG_def tag_NLOOP_def)
  then have "GetGSPacketSize env_idle True (vu1 ?s) (xgkickaddr (vu1 ?s)) 0 AND 0xFFFF = 0" by (simp add: vuMemReset_def vuRegs0_def)
  moreover have "xgkickenable (vu1 ?s)" "xgkicksizeremaining (vu1 ?s) = 0" by (simp_all add: vuMemReset_def vuRegs0_def)
  ultimately show ?thesis using vu_xgkick_cancelled [of ?s env_idle 0] by (simp add: wVI_def)
qed

end
