(* ===== verification/VU_Dev.thy ===== *)
theory VU_Dev
  imports VU_Frame
begin

text \<open>
  What the vector units do to the rest of the machine: only their interrupts, the end of a program, and the
  transfer to the graphics interface reach it. A view of the rest that these calls keep is kept by
  every program (locale \<open>vu_outside\<close>).
\<close>

section \<open>Instructions\<close>

lemma vdev_sel_words [simp]: "(\<And>i s. vdev (f i s) = vdev s) \<Longrightarrow> vdev (sel_words k f s) = vdev s"
  unfolding sel_words_def by (rule fold_on_vu [where P = vdev]) simp

lemma vdev_words [simp]:
  "vdev (vu_store l i x s) = vdev s" "vdev (load_quad k l s) = vdev s" "vdev (load_half k l s) = vdev s"
  "vdev (store_quad k l s) = vdev s" "vdev (store_half k l s) = vdev s"
  unfolding load_quad_def load_half_def store_quad_def store_half_def
  by (auto simp: vu_store_def Let_def split: vu_loc.split)

lemma vdev_mem [simp]:
  "vdev (vuLQ E k s) = vdev s" "vdev (vuLQD E k s) = vdev s" "vdev (vuLQI E k s) = vdev s"
  "vdev (vuSQ E k s) = vdev s" "vdev (vuSQD E k s) = vdev s" "vdev (vuSQI E k s) = vdev s"
  "vdev (vuILW E k s) = vdev s" "vdev (vuISW E k s) = vdev s" "vdev (vuILWR E k s) = vdev s" "vdev (vuISWR E k s) = vdev s"
  "vdev (vuXITOP E k s) = vdev s" "vdev (vuXTOP E k s) = vdev s"
  by (simp_all add: vuLQ_def vuLQD_def vuLQI_def vuSQ_def vuSQD_def vuSQI_def vuILW_def vuISW_def vuILWR_def vuISWR_def
      vuXITOP_def vuXTOP_def Let_def)

lemma vdev_lift [simp]: "vdev (lift f E k s) = vdev s"
  by (simp add: lift_def)

lemma vdev_vu1_only: "vdev (h E k s) = vdev s \<Longrightarrow> vdev (vu1_only h E k s) = vdev s"
  by (simp add: vu1_only_def)

text \<open>Apart from the transfer, no instruction reaches the rest.\<close>

definition op_inside :: "'d vu_entry \<Rightarrow> bool" where
  "op_inside e \<longleftrightarrow> (\<forall>E k s. vdev (fst e E k s) = vdev s)"

lemma op_inside_intros:
  "op_inside unk" "list_all op_inside (replicate n unk)" "op_inside (lift f, r)"
  "op_inside (h, r) \<longleftrightarrow> (\<forall>E k s. vdev (h E k s) = vdev s)"
  by (auto simp: op_inside_def unk_def list_all_length)

lemma UPPER_inside: "op_inside (UPPER_OPCODE c)"
  by (rule UPPER_entry)
    (simp_all only: VU_UPPER_OPCODE_def VU_UPPER_FD_00_TABLE_def VU_UPPER_FD_01_TABLE_def VU_UPPER_FD_10_TABLE_def
      VU_UPPER_FD_11_TABLE_def list_all_append list.pred_inject op_inside_intros(1,2,3) simp_thms)

lemma UPPER_dev: "vdev (fst (UPPER_OPCODE c) E k s) = vdev s"
  using UPPER_inside [unfolded op_inside_def] by blast

definition op_sends :: "'d vu_entry \<Rightarrow> bool" where
  "op_sends e \<longleftrightarrow> op_inside e \<or> fst e = vu1_only vuXGKICK"

lemma op_sends_intros: "op_inside e \<Longrightarrow> op_sends e" "op_sends (vu1_only vuXGKICK, r)" "list_all op_sends (replicate n unk)" "op_sends unk"
  by (simp_all add: op_sends_def op_inside_intros list_all_length)

lemma LOWER_sends: "op_sends (LOWER_OPCODE c)"
  by (rule LOWER_entry)
    (simp_all only: VU_LOWER_OPCODE_def VU_LowerOP_OPCODE_def VU_LowerOP_T3_00_OPCODE_def VU_LowerOP_T3_01_OPCODE_def
      VU_LowerOP_T3_10_OPCODE_def VU_LowerOP_T3_11_OPCODE_def list_all_append list.pred_inject
      op_sends_intros op_inside_intros simp_thms vdev_mem vdev_lift vdev_vu1_only)

section \<open>Programs\<close>

locale vu_outside =
  fixes E :: "'d vu_env" and view :: "'d \<Rightarrow> 'v"
  assumes view_stop: "view (vif_stop_wait E k d) = view d"
    and view_irq: "view (hwIntcIrq E n d) = view d"
    and view_send: "view (TransferGSPacketData E q d) = view d"
    and view_idle: "view (vif_gif_idle E d) = view d"
begin

lemma view_dev [simp]:
  "view (vdev (on_dev (vif_stop_wait E k) s)) = view (vdev s)" "view (vdev (on_dev (hwIntcIrq E n) s)) = view (vdev s)"
  "view (vdev (on_dev (TransferGSPacketData E q) s)) = view (vdev s)" "view (vdev (on_dev (vif_gif_idle E) s)) = view (vdev s)"
  by (simp_all add: on_dev_def view_stop view_irq view_send view_idle)

lemma view_round: "view (vdev (xgkick_round E flush s)) = view (vdev s)"
  by (simp add: xgkick_round_def Let_def del: One_nat_def)

lemma view_loop:
  assumes "xgkick_loop F flush s = Some t" "F = E"
  shows "view (vdev t) = view (vdev s)"
  using assms
proof (induction F flush s t rule: xgkick_loop.raw_induct [rotated, consumes 1])
  case (1 loop F flush s t)
  show ?case
  proof (cases "xgkickenable (vu1 s) \<and> (flush \<or> 2 \<le> xgkickcyclecount (vu1 s))")
    case True
    then have "loop F flush (xgkick_round F flush s) = Some t" using "1.hyps" by simp
    from "1.IH" [OF this] "1.prems" show ?thesis by (simp add: view_round)
  qed (use "1.hyps" in auto)
qed

lemma view_transfer: "view (vdev (vuXGKICKTransfer E n flush s)) = view (vdev s)"
proof -
  have "view (vdev (case xgkick_loop E f u of None \<Rightarrow> u | Some t \<Rightarrow> t)) = view (vdev u)" for f u
    using view_loop by (auto split: option.split)
  then show ?thesis by (simp add: vuXGKICKTransfer_def Let_def del: One_nat_def)
qed

lemma view_ops:
  "view (vdev (vuXGKICK E k s)) = view (vdev s)" "view (vdev (vuTestPipes E k s)) = view (vdev s)"
  "view (vdev (vu_exec_upper E k hi s)) = view (vdev s)" "view (vdev (vu_stop_bit E k hi m en st s)) = view (vdev s)"
  "view (vdev (vu0_end E s)) = view (vdev s)" "view (vdev (vu1_end E s)) = view (vdev s)"
  by (simp_all add: vuXGKICK_def vuTestPipes_def vu_exec_upper_def vu_stop_bit_def vu0_end_def vu1_end_def UPPER_dev view_transfer
      Let_def del: One_nat_def)

lemma view_lower: "view (vdev (vu_exec_lower E k lo s)) = view (vdev s)"
proof -
  have "op_sends (LOWER_OPCODE lo :: 'd vu_entry)" by (rule LOWER_sends)
  then show ?thesis by (auto simp: vu_exec_lower_def op_sends_def op_inside_def vu1_only_def view_ops)
qed

lemma view_pair: "view (vdev (snd (vu_exec_pair E k c hi lo u b j s))) = view (vdev s)"
  by (simp add: vu_exec_pair_def vu_exec_both_def Let_def view_ops view_lower)

lemma view_insn:
  assumes "\<And>s. view (vdev (fin s)) = view (vdev s)"
  shows "view (vdev (vu_insn E k clip fin hi lo junk s)) = view (vdev s)"
  using view_pair [of k] by (simp add: vu_insn_def vu_insn_end_def Let_def split_def assms)

lemma view_step: "view (vdev (vu1_Step E s)) = view (vdev s)" "view (vdev (vu0Exec E s)) = view (vdev s)"
  by (simp_all add: vu1_Step_def vu1Exec_def vu1_exec_insn_def vu0Exec_def vu0_exec_insn_def vu1_flags_def vu0_flags_def
      split_def view_insn view_ops Let_def del: One_nat_def)

lemma view_loops:
  "vu1_loop fuel E start n s = Some t \<Longrightarrow> view (vdev t) = view (vdev s)"
  "vu0_loop fuel E start n s = Some t \<Longrightarrow> view (vdev t) = view (vdev s)"
proof -
  show "vu1_loop fuel E start n s = Some t \<Longrightarrow> view (vdev t) = view (vdev s)"
  proof (induction fuel arbitrary: s)
    case 0
    then show ?case by (subst (asm) vu1_loop.simps) (auto split: if_splits)
  next
    case (Suc fuel)
    then show ?case by (subst (asm) (2) vu1_loop.simps) (auto simp: view_step split: if_splits)
  qed
  show "vu0_loop fuel E start n s = Some t \<Longrightarrow> view (vdev t) = view (vdev s)"
  proof (induction fuel arbitrary: s)
    case 0
    then show ?case by (subst (asm) vu0_loop.simps) (auto split: if_splits)
  next
    case (Suc fuel)
    then show ?case by (subst (asm) (2) vu0_loop.simps) (auto simp: view_step split: if_splits)
  qed
qed

lemma view_Execute:
  "vu1_Execute E n s = Some t \<Longrightarrow> view (vdev t) = view (vdev s)"
  "vu0_Execute E n s = Some t \<Longrightarrow> view (vdev t) = view (vdev s)"
  by (auto simp: vu1_Execute_def vu0_Execute_def vu_set_next_def Let_def view_loops)

end

end
