(* ===== verification/VU_Macro.thy ===== *)
theory VU_Macro
  imports EE_Interp VU_Dev
begin

text \<open>
  The vector units as the main processor drives them: its instructions on VU0's registers, the
  macro mode in which VU0 executes single instructions for the main processor, and starting, waiting for
  and synchronising with the programs of both units (\<^verbatim>\<open>pcsx2/VU0.cpp\<close>, \<^verbatim>\<open>VUmicro.cpp\<close>,
  \<^verbatim>\<open>VU0micro.cpp\<close>, \<^verbatim>\<open>VU1micro.cpp\<close>, \<^verbatim>\<open>COP2.cpp\<close>, the end of \<^verbatim>\<open>VUops.cpp\<close>, the tables of
  \<^verbatim>\<open>R5900OpcodeTables.cpp\<close>). The units are the device of the main processor's machine, and that machine is
  what the units see of the world. \<open>None\<close> is a program that never ends while the main processor waits for it.
  Unit 1 runs in the same thread; the copies of the flags for the recompilers are left out.
\<close>

section \<open>The machine with its vector units\<close>

definition with_dev :: "'b \<Rightarrow> 'a machine \<Rightarrow> 'b machine" where
  "with_dev d m = \<lparr>GPR = GPR m, HI = HI m, LO = LO m, CP0 = CP0 m, sa = sa m, IsDelaySlot = IsDelaySlot m, pc = pc m, code = code m,
     pccr = pccr m, pcr0 = pcr0 m, pcr1 = pcr1 m, eCycle = eCycle m, sCycle = sCycle m, cycle = cycle m, interrupt = interrupt m,
     branch = branch m, dmastall = dmastall m, nextEventCycle = nextEventCycle m, lastEventCycle = lastEventCycle m,
     lastCOP0Cycle = lastCOP0Cycle m, lastPERFCycle0 = lastPERFCycle0 m, lastPERFCycle1 = lastPERFCycle1 m, vmap = vmap m, pmap = pmap m,
     ppmap = ppmap m, host = host m, Scratch = Scratch m, tlb = tlb m, cachedTlbs = cachedTlbs m, cache = cache m,
     cpuBlockCycles = cpuBlockCycles m, intLastBranchTo = intLastBranchTo m, fpr = fpr m, fprc = fprc m, ACC = ACC m, dev = d\<rparr>"

text \<open>The machine as the units see it, and back.\<close>

definition units :: "'d vus machine \<Rightarrow> 'd machine vus" where
  "units m = \<lparr>vu0 = vu0 (dev m), vu1 = vu1 (dev m), vdev = with_dev (vdev (dev m)) m\<rparr>"

definition whole :: "'d machine vus \<Rightarrow> 'd vus machine" where
  "whole s = with_dev \<lparr>vu0 = vu0 s, vu1 = vu1 s, vdev = dev (vdev s)\<rparr> (vdev s)"

lemma with_dev_simps [simp]:
  "dev (with_dev d m) = d" "GPR (with_dev d m) = GPR m" "code (with_dev d m) = code m" "cycle (with_dev d m) = cycle m" "pc (with_dev d m) = pc m"
  "with_dev e (with_dev d m) = with_dev e m" "with_dev (dev m) m = m"
  by (simp_all add: with_dev_def)

lemma vus_parts: "\<lparr>vu0 = vu0 d, vu1 = vu1 d, vdev = vdev d\<rparr> = d"
  by simp

lemma whole_units [simp]: "whole (units m) = m" "units (whole s) = s"
  by (simp_all add: whole_def units_def vus_parts)

text \<open>The environments of the main processor and of the units, whether the recompiler of the main processor is
  on, and the interface's mark of a waiting program, which a reset clears.\<close>

record 'd cop2_env =
  eeEnv :: "'d vus ee_env"
  vuEnv :: "'d machine vu_env"
  EnableEE :: bool
  clear_VEW :: "nat \<Rightarrow> 'd vus machine \<Rightarrow> 'd vus machine"

abbreviation VU0 :: "'d vus machine \<Rightarrow> VURegs" where "VU0 m \<equiv> vu0 (dev m)"
abbreviation VU1 :: "'d vus machine \<Rightarrow> VURegs" where "VU1 m \<equiv> vu1 (dev m)"
abbreviation (input) REG_CMSAR0 :: "5 word" where "REG_CMSAR0 \<equiv> 27"
abbreviation (input) REG_CMSAR1 :: "5 word" where "REG_CMSAR1 \<equiv> 31"

definition on_VU :: "nat \<Rightarrow> (VURegs \<Rightarrow> VURegs) \<Rightarrow> 'd vus machine \<Rightarrow> 'd vus machine" where
  "on_VU k f m = m\<lparr>dev := on_vu k f (dev m)\<rparr>"

definition wVPU_STAT :: "(u32 \<Rightarrow> u32) \<Rightarrow> 'd vus machine \<Rightarrow> 'd vus machine" where
  "wVPU_STAT f = on_VU 0 (\<lambda>v. wVI REG_VPU_STAT (f (VI v REG_VPU_STAT)) v)"

text \<open>A vector register as one word.\<close>

definition UQ :: "VECTOR \<Rightarrow> u128" where
  "UQ f = ucast (f 0) OR push_bit 32 (ucast (f 1)) OR push_bit 64 (ucast (f 2)) OR push_bit 96 (ucast (f 3))"

definition of_UQ :: "u128 \<Rightarrow> VECTOR" where
  "of_UQ q = (\<lambda>i. UL (unat i) q)"

section \<open>Running programs\<close>

text \<open>The units see the main processor's cycle.\<close>

definition vu_world :: "'d cop2_env \<Rightarrow> 'd machine vu_env" where
  "vu_world C = (vuEnv C)\<lparr>ee_cycle := cycle\<rparr>"

definition CalculateMinRunCycles :: "u32 \<Rightarrow> bool \<Rightarrow> u32" where
  "CalculateMinRunCycles n requiresAccurateCycles = (if requiresAccurateCycles then n else max 16 n)"

definition vu_Execute :: "'d cop2_env \<Rightarrow> nat \<Rightarrow> u32 \<Rightarrow> 'd vus machine \<Rightarrow> 'd vus machine option" where
  "vu_Execute C k n m = map_option whole ((if k = 0 then vu0_Execute else vu1_Execute) (vu_world C) n (units m))"

definition ExecuteBlock :: "'d cop2_env \<Rightarrow> nat \<Rightarrow> bool \<Rightarrow> 'd vus machine \<Rightarrow> 'd vus machine option" where
  "ExecuteBlock C k startUp m =
     (if VI (VU0 m) REG_VPU_STAT AND (if k = 0 then 1 else 0x100) = 0 then Some m
      else if startUp then vu_Execute C k (CalculateMinRunCycles 0 False) m
      else let delta = ucast (cycle m - vcycle (get_vu k (dev m))) :: u32
           in if 0 <s delta then vu_Execute C k (CalculateMinRunCycles delta False) m else Some m)"

definition ExecuteBlockJIT :: "'d cop2_env \<Rightarrow> nat \<Rightarrow> bool \<Rightarrow> 'd vus machine \<Rightarrow> 'd vus machine option" where
  "ExecuteBlockJIT C k interlocked m =
     (if VI (VU0 m) REG_VPU_STAT AND 1 = 0 then Some m
      else let delta = cycle m - vcycle (VU0 m)
           in if 0 <s delta then vu_Execute C k (CalculateMinRunCycles (ucast delta) interlocked) m else Some m)"

partial_function (option) vu0run_loop :: "'d cop2_env \<Rightarrow> bool \<Rightarrow> bool \<Rightarrow> u32 \<Rightarrow> 'd vus machine \<Rightarrow> 'd vus machine option" where
  "vu0run_loop C breakOnMbit sync_only n m =
     Option.bind (vu_Execute C 0 n m) (\<lambda>m.
       if VI (VU0 m) REG_VPU_STAT AND 1 \<noteq> 0 \<and> \<not> sync_only \<and>
          (\<not> breakOnMbit \<or> vflags (VU0 m) AND VUFLAG_MFLAGSET = 0 \<and> 0 <s (ucast (cycle m - vcycle (VU0 m)) :: u32))
       then vu0run_loop C breakOnMbit sync_only n m else Some m)"

definition vu0run_end :: "'d cop2_env \<Rightarrow> bool \<Rightarrow> u64 \<Rightarrow> 'd vus machine \<Rightarrow> 'd vus machine option" where
  "vu0run_end C addCycles startcycle m =
     (if \<not> addCycles then Some m
      else Option.bind (ExecuteBlock C 1 False (m\<lparr>cycle := cycle m + (vcycle (VU0 m) - startcycle)\<rparr>)) (\<lambda>m.
             Some (if VI (VU0 m) REG_VPU_STAT AND 1 \<noteq> 0 then cpuSetNextEventDelta 4 m else m)))"

definition vu0run :: "'d cop2_env \<Rightarrow> bool \<Rightarrow> bool \<Rightarrow> bool \<Rightarrow> 'd vus machine \<Rightarrow> 'd vus machine option" where
  "vu0run C breakOnMbit addCycles sync_only m =
     (if VI (VU0 m) REG_VPU_STAT AND 1 = 0 then Some m
      else if vflags (VU0 m) AND VUFLAG_MFLAGSET \<noteq> 0 \<and> breakOnMbit \<and> cycle m - vcycle (VU0 m) \<le>s 0
      then Some (m\<lparr>cycle := vcycle (VU0 m)\<rparr>)
      else let m = (if EnableEE C then m else intUpdateCPUCycles (eeEnv C) m);
               runCycles = (if sync_only then ucast (cycle m - vcycle (VU0 m)) else 0x7fffffff)
           in if sync_only \<and> runCycles <s 0 then Some m
              else Option.bind (vu0run_loop C breakOnMbit sync_only runCycles m) (vu0run_end C addCycles (cycle m)))"

definition vu0WaitMicro :: "'d cop2_env \<Rightarrow> 'd vus machine \<Rightarrow> 'd vus machine option" where
  "vu0WaitMicro C = vu0run C True True False"

definition vu0FinishMicro :: "'d cop2_env \<Rightarrow> 'd vus machine \<Rightarrow> 'd vus machine option" where
  "vu0FinishMicro C = vu0run C False True False"

definition vu0Finish :: "'d cop2_env \<Rightarrow> 'd vus machine \<Rightarrow> 'd vus machine option" where
  "vu0Finish C = vu0run C False False False"

definition vu0Sync :: "'d cop2_env \<Rightarrow> 'd vus machine \<Rightarrow> 'd vus machine option" where
  "vu0Sync C = vu0run C False False True"

section \<open>Starting programs\<close>

definition vu0ResetRegs :: "'d cop2_env \<Rightarrow> 'd vus machine \<Rightarrow> 'd vus machine" where
  "vu0ResetRegs C m =
     clear_VEW C 0 (on_VU 0 (\<lambda>v. wVI REG_FBRST (VI v REG_FBRST AND NOT 0xff) v) (wVPU_STAT (\<lambda>x. x AND NOT 0xff) m))"

definition vu1ResetRegs :: "'d cop2_env \<Rightarrow> 'd vus machine \<Rightarrow> 'd vus machine" where
  "vu1ResetRegs C m =
     clear_VEW C 1 (on_VU 0 (\<lambda>v. wVI REG_FBRST (VI v REG_FBRST AND NOT 0xff00) v) (wVPU_STAT (\<lambda>x. x AND NOT 0xff00) m))"

definition vu0ExecMicro :: "'d cop2_env \<Rightarrow> u32 \<Rightarrow> 'd vus machine \<Rightarrow> 'd vus machine option" where
  "vu0ExecMicro C addr m =
     Option.bind (if VI (VU0 m) REG_VPU_STAT AND 1 \<noteq> 0 then vu0Finish C m else Some m) (\<lambda>m.
       let m = on_VU 0 (\<lambda>v. v\<lparr>clipflag := VI v REG_CLIP_FLAG, macflag := VI v REG_MAC_FLAG, statusflag := VI v REG_STATUS_FLAG\<rparr>) m;
           m = wVPU_STAT (\<lambda>x. (x AND NOT 0xFF) OR 0x01) m;
           m = on_VU 0 (\<lambda>v. v\<lparr>vcycle := cycle m\<rparr>) m;
           m = (if addr \<noteq> - 1 then on_VU 0 (wVI REG_TPC (addr AND 0x1FF)) m else m);
           m = on_VU 0 (\<lambda>v. vu_SetStartPC (push_bit 3 (VI v REG_TPC)) v) m
       in ExecuteBlock C 0 True m)"

abbreviation vu1RunCycles :: u32 where "vu1RunCycles \<equiv> 3000000"

definition vu1Finish :: "'d cop2_env \<Rightarrow> bool \<Rightarrow> 'd vus machine \<Rightarrow> 'd vus machine option" where
  "vu1Finish C add_cycles m =
     (let vu1cycles = vcycle (VU1 m)
      in Option.bind (if VI (VU0 m) REG_VPU_STAT AND 0x100 \<noteq> 0 then vu_Execute C 1 vu1RunCycles m else Some m) (\<lambda>m.
           let m = (if VI (VU0 m) REG_VPU_STAT AND 0x100 \<noteq> 0 then wVPU_STAT (\<lambda>x. x AND NOT 0x100) m else m)
           in Some (if add_cycles then m\<lparr>cycle := cycle m + (vcycle (VU1 m) - vu1cycles)\<rparr> else m)))"

definition vu1ExecMicro :: "'d cop2_env \<Rightarrow> u32 \<Rightarrow> 'd vus machine \<Rightarrow> 'd vus machine option" where
  "vu1ExecMicro C addr m =
     Option.bind (vu1Finish C False m) (\<lambda>m.
       let m = on_VU 1 (\<lambda>v. v\<lparr>vcycle := cycle m\<rparr>) m;
           m = wVPU_STAT (\<lambda>x. (x AND NOT 0xFF00) OR 0x0100) m;
           m = (if addr \<noteq> - 1 then on_VU 1 (wVI REG_TPC (addr AND 0x7FF)) m else m);
           m = on_VU 1 (\<lambda>v. vu_SetStartPC (push_bit 3 (VI v REG_TPC)) v) m
       in if \<not> INSTANT_VU1 (vuEnv C) then ExecuteBlock C 1 True m else vu_Execute C 1 vu1RunCycles m)"

section \<open>Loads, stores and moves\<close>

type_synonym 'd cop2_op = "'d cop2_env \<Rightarrow> 'd vus run \<Rightarrow> 'd vus run"

definition wVFq :: "5 word \<Rightarrow> VECTOR \<Rightarrow> VURegs \<Rightarrow> VURegs" where
  "wVFq r f v = v\<lparr>VF := (VF v)(r := f)\<rparr>"

definition LQC2 :: "'d cop2_op" where
  "LQC2 C x m =
     Option.bind (vu0Sync C m) (\<lambda>m.
       run_bind (Some (vtlb_memRead128 (eeMem (eeEnv C)) (eff_addr m) m)) (\<lambda>q m'.
         Some (Ok () (if fRt m \<noteq> 0 then on_VU 0 (wVFq (fRt m) (of_UQ q)) m' else m'))))"

definition SQC2 :: "'d cop2_op" where
  "SQC2 C x m =
     Option.bind (vu0Sync C m) (\<lambda>m. Some (vtlb_memWrite128 (eeMem (eeEnv C)) (eff_addr m) (UQ (VF (VU0 m) (fRt m))) m))"

text \<open>Synchronise, and with the interlock bit also wait for the program.\<close>

definition interlock :: "'d cop2_env \<Rightarrow> ('d vus machine \<Rightarrow> 'd vus machine option) \<Rightarrow> 'd vus machine \<Rightarrow> 'd vus machine option" where
  "interlock C wait m = Option.bind (vu0Sync C m) (\<lambda>m. if code m AND 1 \<noteq> 0 then wait m else Some m)"

definition QMFC2 :: "'d cop2_op" where
  "QMFC2 C x m =
     Option.bind (interlock C (vu0FinishMicro C) m) (\<lambda>m.
       Some (Ok () (if fRt m = 0 then m else wGPR (fRt m) (UQ (VF (VU0 m) (fRd m))) m)))"

definition QMTC2 :: "'d cop2_op" where
  "QMTC2 C x m =
     Option.bind (interlock C (vu0WaitMicro C) m) (\<lambda>m.
       Some (Ok () (if fRd m = 0 then m else on_VU 0 (wVFq (fRd m) (of_UQ (GPR m (fRt m)))) m)))"

definition CFC2 :: "'d cop2_op" where
  "CFC2 C x m =
     Option.bind (interlock C (vu0FinishMicro C) m) (\<lambda>m.
       Some (Ok () (
         if fRt m = 0 then m
         else if fRd m = REG_R then wUL (fRt m) 0 (VI (VU0 m) REG_R AND 0x7FFFFF) m
         else let w = VI (VU0 m) (fRd m)
              in wUL (fRt m) 1 (if w AND 0x80000000 \<noteq> 0 then 0xffffffff else 0) (wUL (fRt m) 0 w m))))"

definition CTC2_FBRST :: "'d cop2_env \<Rightarrow> u32 \<Rightarrow> 'd vus machine \<Rightarrow> 'd vus machine" where
  "CTC2_FBRST C w m =
     (let m = on_VU 0 (wVI REG_FBRST (w AND 0x0C0C)) m;
          m = (if w AND 0x2 \<noteq> 0 then vu0ResetRegs C m else m)
      in if w AND 0x200 \<noteq> 0 then vu1ResetRegs C m else m)"

definition CTC2 :: "'d cop2_op" where
  "CTC2 C x m =
     Option.bind (interlock C (vu0WaitMicro C) m) (\<lambda>m.
       let r = fRd m; w = UL 0 (GPR m (fRt m)) in
       if r = 0 \<or> r = REG_MAC_FLAG \<or> r = REG_TPC \<or> r = REG_VPU_STAT then Some (Ok () m)
       else if r = REG_R then Some (Ok () (on_VU 0 (wVI REG_R ((w AND 0x7FFFFF) OR 0x3F800000)) m))
       else if r = REG_FBRST then Some (Ok () (CTC2_FBRST C w m))
       else if r = REG_CMSAR1
       then Option.bind (vu1Finish C True m) (\<lambda>m.
              Option.bind (vu1ExecMicro C (ucast (US 0 (GPR m (fRt m)))) m) (\<lambda>m. Some (Ok () m)))
       else let m = (if r = REG_CLIP_FLAG then on_VU 0 (\<lambda>v. v\<lparr>clipflag := w\<rparr>) m else m)
            in Some (Ok () (on_VU 0 (wVI r w) m)))"

section \<open>Calls and branches\<close>

definition do_calls :: "'d vus machine option \<Rightarrow> (unit, 'd vus machine) outcome option" where
  "do_calls = map_option (Ok ())"

definition VCALLMS :: "'d cop2_op" where
  "VCALLMS C x m =
     do_calls (Option.bind (vu0FinishMicro C m) (\<lambda>m. vu0ExecMicro C (drop_bit 6 (code m) AND 0x7FFF) m))"

definition VCALLMSR :: "'d cop2_op" where
  "VCALLMSR C x m =
     do_calls (Option.bind (vu0FinishMicro C m) (\<lambda>m. vu0ExecMicro C (ucast (VIus REG_CMSAR0 (VU0 m))) m))"

definition CP2COND :: "'d vus machine \<Rightarrow> bool" where
  "CP2COND m \<longleftrightarrow> drop_bit 8 (VIus REG_VPU_STAT (VU0 m)) AND 1 = 1"

definition BC2F :: "'d cop2_op" where
  "BC2F C x m = (if \<not> CP2COND m then intDoBranch (eeEnv C) x (BranchTarget m) m else Some (Ok () m))"

definition BC2T :: "'d cop2_op" where
  "BC2T C x m = (if CP2COND m then intDoBranch (eeEnv C) x (BranchTarget m) m else Some (Ok () m))"

definition BC2FL :: "'d cop2_op" where
  "BC2FL C x m = (if \<not> CP2COND m then intDoBranch (eeEnv C) x (BranchTarget m) m else Some (Ok () (m\<lparr>pc := pc m + 4\<rparr>)))"

definition BC2TL :: "'d cop2_op" where
  "BC2TL C x m = (if CP2COND m then intDoBranch (eeEnv C) x (BranchTarget m) m else Some (Ok () (m\<lparr>pc := pc m + 4\<rparr>)))"

section \<open>Macro mode\<close>

text \<open>After an instruction its flags are made visible at once.\<close>

definition SYNCMSFLAGS :: "VURegs \<Rightarrow> VURegs" where
  "SYNCMSFLAGS v =
     wVI REG_MAC_FLAG (macflag v)
      (wVI REG_STATUS_FLAG ((VI v REG_STATUS_FLAG AND 0xFC0) OR (statusflag v AND 0xF) OR push_bit 6 (statusflag v AND 0xF)) v)"

definition SYNCCLIPFLAG :: "VURegs \<Rightarrow> VURegs" where
  "SYNCCLIPFLAG v = wVI REG_CLIP_FLAG (clipflag v) v"

definition SYNCSTATUSFLAG :: "VURegs \<Rightarrow> VURegs" where
  "SYNCSTATUSFLAG v =
     wVI REG_STATUS_FLAG ((VI v REG_STATUS_FLAG AND 0xFC0) OR (statusflag v AND 0xF) OR push_bit 6 (statusflag v AND 0xF)) v"

definition SYNCFDIV :: "VURegs \<Rightarrow> VURegs" where
  "SYNCFDIV v =
     wVI REG_STATUS_FLAG ((VI v REG_STATUS_FLAG AND 0x3CF) OR (statusflag v AND 0x30) OR push_bit 6 (statusflag v AND 0x30))
      (wVI REG_Q (vq v) v)"

type_synonym 'd macro = "'d cop2_env \<Rightarrow> 'd vus machine \<Rightarrow> 'd vus machine"

text \<open>A macro instruction runs on the main processor's thread without a change of the host's control register,
  that is, under the one of the floating-point unit.\<close>

definition V_plain :: "'d machine vu_mem \<Rightarrow> 'd macro" where
  "V_plain f C m = whole (f ((vu_world C)\<lparr>VUFPCR := \<lambda>k. FPUFPCR (eeEnv C)\<rparr>) 0 (units (on_VU 0 (\<lambda>v. v\<lparr>vcode := code m\<rparr>) m)))"

definition V_ms :: "'d machine vu_mem \<Rightarrow> 'd macro" where
  "V_ms f C m = on_VU 0 SYNCMSFLAGS (V_plain f C m)"

definition V_clip :: "'d machine vu_mem \<Rightarrow> 'd macro" where
  "V_clip f C m = on_VU 0 SYNCCLIPFLAG (V_plain f C m)"

definition V_status :: "'d machine vu_mem \<Rightarrow> 'd macro" where
  "V_status f C m = on_VU 0 SYNCSTATUSFLAG (V_plain f C m)"

definition V_fdiv :: "'d machine vu_mem \<Rightarrow> 'd macro" where
  "V_fdiv f C m = on_VU 0 SYNCFDIV (V_plain f C m)"

definition VABS :: "'d macro" where "VABS = V_plain (lift vuABS)"
definition VADD :: "'d macro" where "VADD = V_ms (lift vuADD)"
definition VADDi :: "'d macro" where "VADDi = V_ms (lift vuADDi)"
definition VADDq :: "'d macro" where "VADDq = V_ms (lift vuADDq)"
definition VADDx :: "'d macro" where "VADDx = V_ms (lift vuADDx)"
definition VADDy :: "'d macro" where "VADDy = V_ms (lift vuADDy)"
definition VADDz :: "'d macro" where "VADDz = V_ms (lift vuADDz)"
definition VADDw :: "'d macro" where "VADDw = V_ms (lift vuADDw)"
definition VADDA :: "'d macro" where "VADDA = V_ms (lift vuADDA)"
definition VADDAi :: "'d macro" where "VADDAi = V_ms (lift vuADDAi)"
definition VADDAq :: "'d macro" where "VADDAq = V_ms (lift vuADDAq)"
definition VADDAx :: "'d macro" where "VADDAx = V_ms (lift vuADDAx)"
definition VADDAy :: "'d macro" where "VADDAy = V_ms (lift vuADDAy)"
definition VADDAz :: "'d macro" where "VADDAz = V_ms (lift vuADDAz)"
definition VADDAw :: "'d macro" where "VADDAw = V_ms (lift vuADDAw)"
definition VSUB :: "'d macro" where "VSUB = V_ms (lift vuSUB)"
definition VSUBi :: "'d macro" where "VSUBi = V_ms (lift vuSUBi)"
definition VSUBq :: "'d macro" where "VSUBq = V_ms (lift vuSUBq)"
definition VSUBx :: "'d macro" where "VSUBx = V_ms (lift vuSUBx)"
definition VSUBy :: "'d macro" where "VSUBy = V_ms (lift vuSUBy)"
definition VSUBz :: "'d macro" where "VSUBz = V_ms (lift vuSUBz)"
definition VSUBw :: "'d macro" where "VSUBw = V_ms (lift vuSUBw)"
definition VSUBA :: "'d macro" where "VSUBA = V_ms (lift vuSUBA)"
definition VSUBAi :: "'d macro" where "VSUBAi = V_ms (lift vuSUBAi)"
definition VSUBAq :: "'d macro" where "VSUBAq = V_ms (lift vuSUBAq)"
definition VSUBAx :: "'d macro" where "VSUBAx = V_ms (lift vuSUBAx)"
definition VSUBAy :: "'d macro" where "VSUBAy = V_ms (lift vuSUBAy)"
definition VSUBAz :: "'d macro" where "VSUBAz = V_ms (lift vuSUBAz)"
definition VSUBAw :: "'d macro" where "VSUBAw = V_ms (lift vuSUBAw)"
definition VMUL :: "'d macro" where "VMUL = V_ms (lift vuMUL)"
definition VMULi :: "'d macro" where "VMULi = V_ms (lift vuMULi)"
definition VMULq :: "'d macro" where "VMULq = V_ms (lift vuMULq)"
definition VMULx :: "'d macro" where "VMULx = V_ms (lift vuMULx)"
definition VMULy :: "'d macro" where "VMULy = V_ms (lift vuMULy)"
definition VMULz :: "'d macro" where "VMULz = V_ms (lift vuMULz)"
definition VMULw :: "'d macro" where "VMULw = V_ms (lift vuMULw)"
definition VMULA :: "'d macro" where "VMULA = V_ms (lift vuMULA)"
definition VMULAi :: "'d macro" where "VMULAi = V_ms (lift vuMULAi)"
definition VMULAq :: "'d macro" where "VMULAq = V_ms (lift vuMULAq)"
definition VMULAx :: "'d macro" where "VMULAx = V_ms (lift vuMULAx)"
definition VMULAy :: "'d macro" where "VMULAy = V_ms (lift vuMULAy)"
definition VMULAz :: "'d macro" where "VMULAz = V_ms (lift vuMULAz)"
definition VMULAw :: "'d macro" where "VMULAw = V_ms (lift vuMULAw)"
definition VMADD :: "'d macro" where "VMADD = V_ms (lift vuMADD)"
definition VMADDi :: "'d macro" where "VMADDi = V_ms (lift vuMADDi)"
definition VMADDq :: "'d macro" where "VMADDq = V_ms (lift vuMADDq)"
definition VMADDx :: "'d macro" where "VMADDx = V_ms (lift vuMADDx)"
definition VMADDy :: "'d macro" where "VMADDy = V_ms (lift vuMADDy)"
definition VMADDz :: "'d macro" where "VMADDz = V_ms (lift vuMADDz)"
definition VMADDw :: "'d macro" where "VMADDw = V_ms (lift vuMADDw)"
definition VMADDA :: "'d macro" where "VMADDA = V_ms (lift vuMADDA)"
definition VMADDAi :: "'d macro" where "VMADDAi = V_ms (lift vuMADDAi)"
definition VMADDAq :: "'d macro" where "VMADDAq = V_ms (lift vuMADDAq)"
definition VMADDAx :: "'d macro" where "VMADDAx = V_ms (lift vuMADDAx)"
definition VMADDAy :: "'d macro" where "VMADDAy = V_ms (lift vuMADDAy)"
definition VMADDAz :: "'d macro" where "VMADDAz = V_ms (lift vuMADDAz)"
definition VMADDAw :: "'d macro" where "VMADDAw = V_ms (lift vuMADDAw)"
definition VMSUB :: "'d macro" where "VMSUB = V_ms (lift vuMSUB)"
definition VMSUBi :: "'d macro" where "VMSUBi = V_ms (lift vuMSUBi)"
definition VMSUBq :: "'d macro" where "VMSUBq = V_ms (lift vuMSUBq)"
definition VMSUBx :: "'d macro" where "VMSUBx = V_ms (lift vuMSUBx)"
definition VMSUBy :: "'d macro" where "VMSUBy = V_ms (lift vuMSUBy)"
definition VMSUBz :: "'d macro" where "VMSUBz = V_ms (lift vuMSUBz)"
definition VMSUBw :: "'d macro" where "VMSUBw = V_ms (lift vuMSUBw)"
definition VMSUBA :: "'d macro" where "VMSUBA = V_ms (lift vuMSUBA)"
definition VMSUBAi :: "'d macro" where "VMSUBAi = V_ms (lift vuMSUBAi)"
definition VMSUBAq :: "'d macro" where "VMSUBAq = V_ms (lift vuMSUBAq)"
definition VMSUBAx :: "'d macro" where "VMSUBAx = V_ms (lift vuMSUBAx)"
definition VMSUBAy :: "'d macro" where "VMSUBAy = V_ms (lift vuMSUBAy)"
definition VMSUBAz :: "'d macro" where "VMSUBAz = V_ms (lift vuMSUBAz)"
definition VMSUBAw :: "'d macro" where "VMSUBAw = V_ms (lift vuMSUBAw)"
definition VMAX :: "'d macro" where "VMAX = V_plain (lift vuMAX)"
definition VMAXi :: "'d macro" where "VMAXi = V_plain (lift vuMAXi)"
definition VMAXx :: "'d macro" where "VMAXx = V_plain (lift vuMAXx)"
definition VMAXy :: "'d macro" where "VMAXy = V_plain (lift vuMAXy)"
definition VMAXz :: "'d macro" where "VMAXz = V_plain (lift vuMAXz)"
definition VMAXw :: "'d macro" where "VMAXw = V_plain (lift vuMAXw)"
definition VMINI :: "'d macro" where "VMINI = V_plain (lift vuMINI)"
definition VMINIi :: "'d macro" where "VMINIi = V_plain (lift vuMINIi)"
definition VMINIx :: "'d macro" where "VMINIx = V_plain (lift vuMINIx)"
definition VMINIy :: "'d macro" where "VMINIy = V_plain (lift vuMINIy)"
definition VMINIz :: "'d macro" where "VMINIz = V_plain (lift vuMINIz)"
definition VMINIw :: "'d macro" where "VMINIw = V_plain (lift vuMINIw)"
definition VOPMULA :: "'d macro" where "VOPMULA = V_ms (lift vuOPMULA)"
definition VOPMSUB :: "'d macro" where "VOPMSUB = V_ms (lift vuOPMSUB)"
definition VNOP :: "'d macro" where "VNOP = V_plain (lift vuNOP)"
definition VFTOI0 :: "'d macro" where "VFTOI0 = V_plain (lift vuFTOI0)"
definition VFTOI4 :: "'d macro" where "VFTOI4 = V_plain (lift vuFTOI4)"
definition VFTOI12 :: "'d macro" where "VFTOI12 = V_plain (lift vuFTOI12)"
definition VFTOI15 :: "'d macro" where "VFTOI15 = V_plain (lift vuFTOI15)"
definition VITOF0 :: "'d macro" where "VITOF0 = V_plain (lift vuITOF0)"
definition VITOF4 :: "'d macro" where "VITOF4 = V_plain (lift vuITOF4)"
definition VITOF12 :: "'d macro" where "VITOF12 = V_plain (lift vuITOF12)"
definition VITOF15 :: "'d macro" where "VITOF15 = V_plain (lift vuITOF15)"
definition VCLIPw :: "'d macro" where "VCLIPw = V_clip (lift vuCLIP)"
definition VDIV :: "'d macro" where "VDIV = V_fdiv (lift vuDIV)"
definition VSQRT :: "'d macro" where "VSQRT = V_fdiv (lift vuSQRT)"
definition VRSQRT :: "'d macro" where "VRSQRT = V_fdiv (lift vuRSQRT)"
definition VIADD :: "'d macro" where "VIADD = V_plain (lift vuIADD)"
definition VIADDI :: "'d macro" where "VIADDI = V_plain (lift vuIADDI)"
definition VIADDIU :: "'d macro" where "VIADDIU = V_plain (lift vuIADDIU)"
definition VIAND :: "'d macro" where "VIAND = V_plain (lift vuIAND)"
definition VIOR :: "'d macro" where "VIOR = V_plain (lift vuIOR)"
definition VISUB :: "'d macro" where "VISUB = V_plain (lift vuISUB)"
definition VISUBIU :: "'d macro" where "VISUBIU = V_plain (lift vuISUBIU)"
definition VMOVE :: "'d macro" where "VMOVE = V_plain (lift vuMOVE)"
definition VMFIR :: "'d macro" where "VMFIR = V_plain (lift vuMFIR)"
definition VMTIR :: "'d macro" where "VMTIR = V_plain (lift vuMTIR)"
definition VMR32 :: "'d macro" where "VMR32 = V_plain (lift vuMR32)"
definition VLQ :: "'d macro" where "VLQ = V_plain vuLQ"
definition VLQD :: "'d macro" where "VLQD = V_plain vuLQD"
definition VLQI :: "'d macro" where "VLQI = V_plain vuLQI"
definition VSQ :: "'d macro" where "VSQ = V_plain vuSQ"
definition VSQD :: "'d macro" where "VSQD = V_plain vuSQD"
definition VSQI :: "'d macro" where "VSQI = V_plain vuSQI"
definition VILW :: "'d macro" where "VILW = V_plain vuILW"
definition VISW :: "'d macro" where "VISW = V_plain vuISW"
definition VILWR :: "'d macro" where "VILWR = V_plain vuILWR"
definition VISWR :: "'d macro" where "VISWR = V_plain vuISWR"
definition VRINIT :: "'d macro" where "VRINIT = V_plain (lift vuRINIT)"
definition VRGET :: "'d macro" where "VRGET = V_plain (lift vuRGET)"
definition VRNEXT :: "'d macro" where "VRNEXT = V_plain (lift vuRNEXT)"
definition VRXOR :: "'d macro" where "VRXOR = V_plain (lift vuRXOR)"
definition VWAITQ :: "'d macro" where "VWAITQ = V_plain (lift vuWAITQ)"
definition VFSAND :: "'d macro" where "VFSAND = V_plain (lift vuFSAND)"
definition VFSEQ :: "'d macro" where "VFSEQ = V_plain (lift vuFSEQ)"
definition VFSOR :: "'d macro" where "VFSOR = V_plain (lift vuFSOR)"
definition VFSSET :: "'d macro" where "VFSSET = V_status (lift vuFSSET)"
definition VFMAND :: "'d macro" where "VFMAND = V_plain (lift vuFMAND)"
definition VFMEQ :: "'d macro" where "VFMEQ = V_plain (lift vuFMEQ)"
definition VFMOR :: "'d macro" where "VFMOR = V_plain (lift vuFMOR)"
definition VFCAND :: "'d macro" where "VFCAND = V_plain (lift vuFCAND)"
definition VFCEQ :: "'d macro" where "VFCEQ = V_plain (lift vuFCEQ)"
definition VFCOR :: "'d macro" where "VFCOR = V_plain (lift vuFCOR)"
definition VFCSET :: "'d macro" where "VFCSET = V_clip (lift vuFCSET)"
definition VFCGET :: "'d macro" where "VFCGET = V_plain (lift vuFCGET)"
definition VXITOP :: "'d macro" where "VXITOP = V_plain vuXITOP"

section \<open>Tables\<close>

definition do_op :: "'d macro \<Rightarrow> 'd cop2_op" where
  "do_op f C x m = Some (Ok () (f C m))"

definition COP2_Unknown :: "'d cop2_op" where
  "COP2_Unknown C x m = Some (Ok () m)"

definition Int_COP2SPECIAL2PrintTable :: "'d cop2_op list" where
  "Int_COP2SPECIAL2PrintTable =
     [do_op VADDAx, do_op VADDAy, do_op VADDAz, do_op VADDAw, do_op VSUBAx, do_op VSUBAy, do_op VSUBAz, do_op VSUBAw,
      do_op VMADDAx, do_op VMADDAy, do_op VMADDAz, do_op VMADDAw, do_op VMSUBAx, do_op VMSUBAy, do_op VMSUBAz, do_op VMSUBAw,
      do_op VITOF0, do_op VITOF4, do_op VITOF12, do_op VITOF15, do_op VFTOI0, do_op VFTOI4, do_op VFTOI12, do_op VFTOI15,
      do_op VMULAx, do_op VMULAy, do_op VMULAz, do_op VMULAw, do_op VMULAq, do_op VABS, do_op VMULAi, do_op VCLIPw,
      do_op VADDAq, do_op VMADDAq, do_op VADDAi, do_op VMADDAi, do_op VSUBAq, do_op VMSUBAq, do_op VSUBAi, do_op VMSUBAi,
      do_op VADDA, do_op VMADDA, do_op VMULA, COP2_Unknown, do_op VSUBA, do_op VMSUBA, do_op VOPMULA, do_op VNOP,
      do_op VMOVE, do_op VMR32, COP2_Unknown, COP2_Unknown, do_op VLQI, do_op VSQI, do_op VLQD, do_op VSQD,
      do_op VDIV, do_op VSQRT, do_op VRSQRT, do_op VWAITQ, do_op VMTIR, do_op VMFIR, do_op VILWR, do_op VISWR,
      do_op VRNEXT, do_op VRGET, do_op VRINIT, do_op VRXOR] @
     replicate 60 COP2_Unknown"

definition COP2_SPECIAL2 :: "'d cop2_op" where
  "COP2_SPECIAL2 C x m =
     (Int_COP2SPECIAL2PrintTable ! unat ((code m AND 0x3) OR (drop_bit 4 (code m) AND 0x7c))) C x m"

definition Int_COP2SPECIAL1PrintTable :: "'d cop2_op list" where
  "Int_COP2SPECIAL1PrintTable =
     [do_op VADDx, do_op VADDy, do_op VADDz, do_op VADDw, do_op VSUBx, do_op VSUBy, do_op VSUBz, do_op VSUBw,
      do_op VMADDx, do_op VMADDy, do_op VMADDz, do_op VMADDw, do_op VMSUBx, do_op VMSUBy, do_op VMSUBz, do_op VMSUBw,
      do_op VMAXx, do_op VMAXy, do_op VMAXz, do_op VMAXw, do_op VMINIx, do_op VMINIy, do_op VMINIz, do_op VMINIw,
      do_op VMULx, do_op VMULy, do_op VMULz, do_op VMULw, do_op VMULq, do_op VMAXi, do_op VMULi, do_op VMINIi,
      do_op VADDq, do_op VMADDq, do_op VADDi, do_op VMADDi, do_op VSUBq, do_op VMSUBq, do_op VSUBi, do_op VMSUBi,
      do_op VADD, do_op VMADD, do_op VMUL, do_op VMAX, do_op VSUB, do_op VMSUB, do_op VOPMSUB, do_op VMINI,
      do_op VIADD, do_op VISUB, do_op VIADDI, COP2_Unknown, do_op VIAND, do_op VIOR, COP2_Unknown, COP2_Unknown,
      VCALLMS, VCALLMSR, COP2_Unknown, COP2_Unknown, COP2_SPECIAL2, COP2_SPECIAL2, COP2_SPECIAL2, COP2_SPECIAL2]"

definition COP2_SPECIAL :: "'d cop2_op" where
  "COP2_SPECIAL C x m =
     Option.bind (vu0FinishMicro C m) (\<lambda>m. (Int_COP2SPECIAL1PrintTable ! unat (code m AND 0x3F)) C x m)"

definition Int_COP2BC2PrintTable :: "'d cop2_op list" where
  "Int_COP2BC2PrintTable = [BC2F, BC2T, BC2FL, BC2TL] @ replicate 28 COP2_Unknown"

definition COP2_BC2 :: "'d cop2_op" where
  "COP2_BC2 C x m = (Int_COP2BC2PrintTable ! unat (fRt m)) C x m"

definition Int_COP2PrintTable :: "'d cop2_op list" where
  "Int_COP2PrintTable =
     [COP2_Unknown, QMFC2, CFC2, COP2_Unknown, COP2_Unknown, QMTC2, CTC2, COP2_Unknown, COP2_BC2] @
     replicate 7 COP2_Unknown @ replicate 16 COP2_SPECIAL"

definition COP2 :: "'d cop2_op" where
  "COP2 C x m = (Int_COP2PrintTable ! unat (fRs m)) C x m"

text \<open>The instructions of the vector units in the main processor's table, and the processor with them.\<close>

definition cop2_instr :: "'d cop2_op" where
  "cop2_instr C x m =
     (if drop_bit 26 (code m) = 0x36 then LQC2 C x m else if drop_bit 26 (code m) = 0x3E then SQC2 C x m else COP2 C x m)"

definition ee_with_vu :: "'d cop2_env \<Rightarrow> 'd vus ee_env" where
  "ee_with_vu C = (eeEnv C)\<lparr>coprocessor_op := cop2_instr C\<rparr>"

end
