(* ===== verification/VU_MacroProps.thy ===== *)
theory VU_MacroProps
  imports VU_Macro VU_Props
begin

text \<open>
  Properties of the main processor together with its vector units: register 0 stays zero through the
  instructions of VU0 too, synchronising with a program returns and catches up, values moved to VU0 and back
  are the same, and what macro mode does to the flags of divisions.
\<close>

section \<open>Register 0\<close>

lemmas macro_defs =
  VABS_def VADD_def VADDi_def VADDq_def VADDx_def VADDy_def VADDz_def VADDw_def VADDA_def VADDAi_def VADDAq_def
  VADDAx_def VADDAy_def VADDAz_def VADDAw_def VSUB_def VSUBi_def VSUBq_def VSUBx_def VSUBy_def VSUBz_def VSUBw_def
  VSUBA_def VSUBAi_def VSUBAq_def VSUBAx_def VSUBAy_def VSUBAz_def VSUBAw_def VMUL_def VMULi_def VMULq_def VMULx_def
  VMULy_def VMULz_def VMULw_def VMULA_def VMULAi_def VMULAq_def VMULAx_def VMULAy_def VMULAz_def VMULAw_def VMADD_def
  VMADDi_def VMADDq_def VMADDx_def VMADDy_def VMADDz_def VMADDw_def VMADDA_def VMADDAi_def VMADDAq_def VMADDAx_def
  VMADDAy_def VMADDAz_def VMADDAw_def VMSUB_def VMSUBi_def VMSUBq_def VMSUBx_def VMSUBy_def VMSUBz_def VMSUBw_def
  VMSUBA_def VMSUBAi_def VMSUBAq_def VMSUBAx_def VMSUBAy_def VMSUBAz_def VMSUBAw_def VMAX_def VMAXi_def VMAXx_def
  VMAXy_def VMAXz_def VMAXw_def VMINI_def VMINIi_def VMINIx_def VMINIy_def VMINIz_def VMINIw_def VOPMULA_def
  VOPMSUB_def VNOP_def VFTOI0_def VFTOI4_def VFTOI12_def VFTOI15_def VITOF0_def VITOF4_def VITOF12_def VITOF15_def
  VCLIPw_def VDIV_def VSQRT_def VRSQRT_def VIADD_def VIADDI_def VIADDIU_def VIAND_def VIOR_def VISUB_def VISUBIU_def
  VMOVE_def VMFIR_def VMTIR_def VMR32_def VLQ_def VLQD_def VLQI_def VSQ_def VSQD_def VSQI_def VILW_def VISW_def
  VILWR_def VISWR_def VRINIT_def VRGET_def VRNEXT_def VRXOR_def VWAITQ_def VFSAND_def VFSEQ_def VFSOR_def VFSSET_def
  VFMAND_def VFMEQ_def VFMOR_def VFCAND_def VFCEQ_def VFCOR_def VFCSET_def VFCGET_def VXITOP_def

text \<open>More states on which the interpreter returns do not change what a VU0 instruction does.\<close>

lemma op_slots:
  "do_op g C x = do_op g C y" "COP2_Unknown C x = COP2_Unknown C y" "VCALLMS C x = VCALLMS C y" "VCALLMSR C x = VCALLMSR C y"
  "QMFC2 C x = QMFC2 C y" "QMTC2 C x = QMTC2 C y" "CFC2 C x = CFC2 C y" "CTC2 C x = CTC2 C y" "LQC2 C x = LQC2 C y" "SQC2 C x = SQC2 C y"
  by (simp_all add: fun_eq_iff do_op_def COP2_Unknown_def VCALLMS_def VCALLMSR_def QMFC2_def QMTC2_def CFC2_def CTC2_def LQC2_def SQC2_def)

lemma SPECIAL2_bound: "unat (((c::u32) AND 0x3) OR (drop_bit 4 c AND 0x7c)) < 128"
proof -
  have "(c AND 0x3) OR (drop_bit 4 c AND 0x7c) = ((c AND 0x3) OR (drop_bit 4 c AND 0x7c)) AND 0x7f"
    by (simp add: bit.conj_disj_distrib2 and.assoc)
  also have "\<dots> \<le> 0x7f" by (rule word_and_le1)
  finally show ?thesis by (simp add: word_le_nat_alt)
qed

text \<open>What holds of every entry holds of what a table is looked up for.\<close>

lemma table_all: "list_all P t \<Longrightarrow> n < length t \<Longrightarrow> P (t ! n)"
  by (simp add: list_all_length)

definition slot_free :: "'d cop2_op \<Rightarrow> bool" where
  "slot_free f \<longleftrightarrow> (\<forall>C x y. f C x = f C y)"

lemma slot_free_simps [simp]: "slot_free (do_op g)" "slot_free COP2_Unknown" "slot_free VCALLMS" "slot_free VCALLMSR"
  unfolding slot_free_def using op_slots by blast+

lemma SPECIAL2_free [simp]: "slot_free (COP2_SPECIAL2 :: 'd cop2_op)"
proof -
  have "list_all slot_free (Int_COP2SPECIAL2PrintTable :: 'd cop2_op list)"
    by (simp add: Int_COP2SPECIAL2PrintTable_def list_all_replicate)
  then have "slot_free ((Int_COP2SPECIAL2PrintTable :: 'd cop2_op list) ! unat ((c AND 0x3) OR (drop_bit 4 c AND 0x7c)))" for c :: u32
    using SPECIAL2_bound [of c] by (intro table_all [of slot_free]) (simp_all add: Int_COP2SPECIAL2PrintTable_def)
  then show ?thesis by (simp add: slot_free_def fun_eq_iff COP2_SPECIAL2_def)
qed

lemma SPECIAL_free [simp]: "slot_free (COP2_SPECIAL :: 'd cop2_op)"
proof -
  have "list_all slot_free (Int_COP2SPECIAL1PrintTable :: 'd cop2_op list)" by (simp add: Int_COP2SPECIAL1PrintTable_def)
  then have "slot_free ((Int_COP2SPECIAL1PrintTable :: 'd cop2_op list) ! unat (c AND 0x3F))" for c :: u32
    using word_and_le1 [of c "0x3F"] by (intro table_all [of slot_free]) (simp_all add: Int_COP2SPECIAL1PrintTable_def word_le_nat_alt)
  then have "(Int_COP2SPECIAL1PrintTable ! unat (c AND 0x3F)) C x = (Int_COP2SPECIAL1PrintTable ! unat (c AND 0x3F)) C y"
    for c :: u32 and C :: "'d cop2_env" and x y unfolding slot_free_def by blast
  note f = fun_cong [OF this]
  have eq: "(\<lambda>m. (Int_COP2SPECIAL1PrintTable ! unat (code m AND 0x3F)) C x m) = (\<lambda>m. (Int_COP2SPECIAL1PrintTable ! unat (code m AND 0x3F)) C y m)"
    for C :: "'d cop2_env" and x y by (rule ext, rule f)
  have "COP2_SPECIAL C x m = COP2_SPECIAL C y m" for C :: "'d cop2_env" and x y m
    unfolding COP2_SPECIAL_def by (subst eq [of C x y]) (rule refl)
  then show ?thesis by (simp add: slot_free_def fun_eq_iff)
qed

definition op_le :: "'d cop2_op \<Rightarrow> bool" where
  "op_le f \<longleftrightarrow> (\<forall>C x y. run_le x y \<longrightarrow> run_le (f C x) (f C y))"

lemma run_leI: "(\<And>s r. f s = Some r \<Longrightarrow> g s = Some r) \<Longrightarrow> run_le f g"
  by (simp add: run_le_def)

lemma slot_branch: "intDoBranch E x tar s = Some r \<Longrightarrow> run_le x y \<Longrightarrow> intDoBranch E y tar s = Some r"
  by (rule run_leD [OF branch_le(2)])

lemma op_le_free: "slot_free f \<Longrightarrow> op_le f"
  by (metis slot_free_def op_le_def run_le_refl)

lemma op_le_simps [simp]:
  "op_le BC2F" "op_le BC2T" "op_le BC2FL" "op_le BC2TL" "op_le COP2_Unknown" "op_le QMFC2" "op_le QMTC2" "op_le CFC2" "op_le CTC2" "op_le LQC2" "op_le SQC2"
proof -
  show "op_le BC2F" "op_le BC2T" "op_le BC2FL" "op_le BC2TL"
    unfolding op_le_def
    by (intro allI impI run_leI; simp add: BC2F_def BC2T_def BC2FL_def BC2TL_def split: if_split_asm; erule (1) slot_branch)+
  show "op_le COP2_Unknown" "op_le QMFC2" "op_le QMTC2" "op_le CFC2" "op_le CTC2" "op_le LQC2" "op_le SQC2"
    by (rule op_le_free, unfold slot_free_def, use op_slots in blast)+
qed

lemma reg_index: "unat (n :: 5 word) < 32"
  using unsigned_less [of n, where 'a = nat] by simp

lemma COP2_le: "op_le (cop2_instr :: 'd cop2_op)"
proof -
  have "list_all op_le (Int_COP2BC2PrintTable :: 'd cop2_op list)" by (simp add: Int_COP2BC2PrintTable_def list_all_replicate)
  then have "op_le ((Int_COP2BC2PrintTable :: 'd cop2_op list) ! unat n)" for n :: "5 word"
    using reg_index [of n] by (intro table_all [of op_le]) (simp_all add: Int_COP2BC2PrintTable_def)
  then have "op_le (COP2_BC2 :: 'd cop2_op)" by (simp add: op_le_def run_le_def COP2_BC2_def)
  then have "list_all op_le (Int_COP2PrintTable :: 'd cop2_op list)" by (simp add: Int_COP2PrintTable_def list_all_replicate op_le_free)
  then have "op_le ((Int_COP2PrintTable :: 'd cop2_op list) ! unat n)" for n :: "5 word"
    using reg_index [of n] by (intro table_all [of op_le]) (simp_all add: Int_COP2PrintTable_def)
  moreover have "op_le (LQC2 :: 'd cop2_op)" "op_le (SQC2 :: 'd cop2_op)" by simp_all
  ultimately show ?thesis by (simp add: op_le_def run_le_def cop2_instr_def COP2_def)
qed

lemma ee_with_vu_le: "coprocessor_le (ee_with_vu C)"
proof -
  have "\<forall>x y. run_le x y \<longrightarrow> run_le (cop2_instr C x) (cop2_instr C y)" using COP2_le [unfolded op_le_def] by blast
  then show ?thesis by (simp add: coprocessor_le_def ee_with_vu_def)
qed

text \<open>Register 0 through everything, for an environment whose calls keep it.\<close>

definition zkeep :: "('d vus machine \<Rightarrow> 'd vus machine option) \<Rightarrow> bool" where
  "zkeep f \<longleftrightarrow> (\<forall>m t. f m = Some t \<longrightarrow> GPR t 0 = GPR m 0)"

lemma zkeepD: "zkeep f \<Longrightarrow> f m = Some t \<Longrightarrow> GPR t 0 = GPR m 0"
  by (simp add: zkeep_def)

locale cop2_r0 = r0_env "eeEnv C" + view: vu_outside "vu_world C" "\<lambda>m :: 'd machine. GPR m 0" for C :: "'d cop2_env" +
  assumes clear_r0: "GPR (clear_VEW C k m) 0 = GPR m 0"
begin

lemma on_VU_GPR [simp]: "GPR (on_VU k f m) = GPR m" "GPR (wVPU_STAT g m) = GPR m"
  by (simp_all add: on_VU_def wVPU_STAT_def)

lemma units_GPR [simp]: "GPR (vdev (units m)) = GPR m" "GPR (whole s) = GPR (vdev s)"
  by (simp_all add: units_def whole_def)

lemma Execute_r0: "zkeep (vu_Execute C k n)"
  using view.view_Execute by (auto simp: zkeep_def vu_Execute_def)

lemma ExecuteBlock_r0: "zkeep (ExecuteBlock C k b)"
  using Execute_r0 by (auto simp: zkeep_def ExecuteBlock_def Let_def split: if_splits)

lemma run_loop_r0:
  assumes "vu0run_loop D brk sync n m = Some t" "D = C"
  shows "GPR t 0 = GPR m 0"
  using assms
proof (induction D brk sync n m t rule: vu0run_loop.raw_induct [rotated, consumes 1])
  case (1 loop D brk sync n m t)
  then obtain u where u: "vu_Execute D 0 n m = Some u" by (auto simp: bind_eq_Some_conv)
  then have g: "GPR u 0 = GPR m 0" using zkeepD [OF Execute_r0] "1.prems" by simp
  show ?case
  proof (cases "t = u")
    case False
    then have "loop D brk sync n u = Some t" using "1.hyps" u by (auto split: if_splits)
    then show ?thesis using "1.IH" "1.prems" g by simp
  qed (use g in simp)
qed

lemma run_r0': "zkeep (vu0run C brk add sync)"
proof -
  have e: "zkeep (vu0run_end C add c)" for c
    using zkeepD [OF ExecuteBlock_r0] by (fastforce simp: zkeep_def vu0run_end_def bind_eq_Some_conv split: if_splits)
  show ?thesis
    using run_loop_r0 zkeepD [OF e]
    by (fastforce simp: zkeep_def vu0run_def Let_def bind_eq_Some_conv split: if_splits)
qed

lemma micro_r0: "zkeep (vu0WaitMicro C)" "zkeep (vu0FinishMicro C)" "zkeep (vu0Finish C)" "zkeep (vu0Sync C)"
  by (simp_all add: vu0WaitMicro_def vu0FinishMicro_def vu0Finish_def vu0Sync_def run_r0')

lemma exec_micro_r0: "zkeep (vu0ExecMicro C a)" "zkeep (vu1Finish C b)" "zkeep (vu1ExecMicro C a)"
proof -
  show "zkeep (vu0ExecMicro C a)"
    using zkeepD [OF ExecuteBlock_r0] zkeepD [OF micro_r0(3)]
    by (fastforce simp: zkeep_def vu0ExecMicro_def Let_def bind_eq_Some_conv split: if_splits)
  show f: "zkeep (vu1Finish C b)" for b
    using zkeepD [OF Execute_r0]
    by (fastforce simp: zkeep_def vu1Finish_def Let_def bind_eq_Some_conv split: if_splits)
  show "zkeep (vu1ExecMicro C a)"
    using zkeepD [OF ExecuteBlock_r0] zkeepD [OF Execute_r0] zkeepD [OF f]
    by (fastforce simp: zkeep_def vu1ExecMicro_def Let_def bind_eq_Some_conv split: if_splits)
qed

definition zop :: "'d cop2_op \<Rightarrow> bool" where
  "zop f \<longleftrightarrow> (\<forall>x. run_r0 x \<longrightarrow> run_r0 (f C x))"

lemma zopI:
  assumes "\<And>x s r. run_r0 x \<Longrightarrow> f C x s = Some r \<Longrightarrow> GPR (final r) 0 = GPR s 0"
  shows "zop f"
proof -
  have "run_r0 (f C x)" if "run_r0 x" for x
    unfolding run_r0_def [of "f C x"] using assms [OF that] by blast
  then show ?thesis by (simp add: zop_def)
qed

lemma BC2_zop: "zop BC2F" "zop BC2T" "zop BC2FL" "zop BC2TL"
proof -
  have b: "GPR (final r) 0 = GPR m 0" if "run_r0 x" "(if c then intDoBranch (eeEnv C) x t m else Some (Ok () u)) = Some r" "GPR u = GPR m"
    for c x t m u r
    using that run_r0D [OF doBranch_r0(2) [OF that(1)], of t m r] by (cases c) auto
  show "zop BC2F" "zop BC2T" "zop BC2FL" "zop BC2TL"
    unfolding BC2F_def BC2T_def BC2FL_def BC2TL_def by (rule zopI, erule (1) b, simp)+
qed

lemma call_zop: "zop VCALLMS" "zop VCALLMSR" "zop COP2_Unknown"
  by (intro zopI; auto simp: VCALLMS_def VCALLMSR_def COP2_Unknown_def do_calls_def bind_eq_Some_conv
      dest!: zkeepD [OF micro_r0(2)] zkeepD [OF exec_micro_r0(1)])+

lemma interlock_r0: "zkeep w \<Longrightarrow> zkeep (interlock C w)"
  by (auto simp: zkeep_def interlock_def bind_eq_Some_conv dest!: zkeepD [OF micro_r0(4)] split: if_splits)

lemmas lock_r0 = zkeepD [OF interlock_r0 [OF micro_r0(2)]] zkeepD [OF interlock_r0 [OF micro_r0(1)]]

lemma write_r0: "r \<noteq> 0 \<Longrightarrow> GPR (wGPR r q m) 0 = GPR m 0" "r \<noteq> 0 \<Longrightarrow> GPR (wUL r n w m) 0 = GPR m 0"
  by (simp_all add: wGPR_def wUL_def)

lemma move_zop: "zop QMFC2" "zop QMTC2" "zop CFC2"
  by (intro zopI; auto simp: QMFC2_def QMTC2_def CFC2_def write_r0 Let_def bind_eq_Some_conv dest!: lock_r0 split: if_splits)+

lemma reset_r0: "GPR (vu0ResetRegs C m) 0 = GPR m 0" "GPR (vu1ResetRegs C m) 0 = GPR m 0"
  by (simp_all add: vu0ResetRegs_def vu1ResetRegs_def clear_r0)

lemma CTC2_zop: "zop CTC2"
  by (rule zopI) (auto simp: CTC2_def CTC2_FBRST_def Let_def bind_eq_Some_conv reset_r0 split: if_splits
      dest!: lock_r0 zkeepD [OF exec_micro_r0(2)] zkeepD [OF exec_micro_r0(3)])

lemma mem_zop: "zop LQC2" "zop SQC2"
proof -
  have r: "GPR (final r) 0 = GPR m 0" if "run_bind (Some a) f = Some r" "GPR (final a) 0 = GPR m 0"
    "\<And>q t s. f q t = Some s \<Longrightarrow> GPR (final s) 0 = GPR t 0" for a f r and m :: "'d vus machine"
    using that by (cases a) auto
  show "zop LQC2"
    by (rule zopI) (auto simp: LQC2_def bind_eq_Some_conv vtlb_memRead128_def memRead_r0 elim!: r dest!: zkeepD [OF micro_r0(4)] split: if_splits)
  show "zop SQC2"
    by (rule zopI) (auto simp: SQC2_def bind_eq_Some_conv vtlb_memWrite128_def memWrite_r0 dest!: zkeepD [OF micro_r0(4)])
qed

lemma V_r0:
  assumes "\<And>F k s. vdev (f F k s) = vdev s"
  shows "GPR (V_plain f C m) 0 = GPR m 0"
  using assms by (simp add: V_plain_def)

lemma do_zop: "(\<And>m. GPR (g C m) 0 = GPR m 0) \<Longrightarrow> zop (do_op g)"
  by (rule zopI) (auto simp: do_op_def)

lemma lift_zop [simp]:
  "zop (do_op (V_plain (lift f)))" "zop (do_op (V_ms (lift f)))" "zop (do_op (V_clip (lift f)))" "zop (do_op (V_fdiv (lift f)))"
  "zop (do_op (V_plain vuLQI))" "zop (do_op (V_plain vuSQI))" "zop (do_op (V_plain vuLQD))" "zop (do_op (V_plain vuSQD))"
  "zop (do_op (V_plain vuILWR))" "zop (do_op (V_plain vuISWR))"
  by (rule do_zop, simp add: V_ms_def V_clip_def V_fdiv_def V_r0)+

lemma zop_lookup:
  assumes "\<And>m. zop (g m)" "\<And>x m. f C x m = g m C x m"
  shows "zop f"
proof (rule zopI)
  fix x s r assume x: "run_r0 x" and r: "f C x s = Some r"
  have "run_r0 (g s C x)" using assms(1) [of s] x by (simp add: zop_def)
  from run_r0D [OF this] r assms(2) show "GPR (final r) 0 = GPR s 0" by simp
qed

lemma SPECIAL2_zop: "zop COP2_SPECIAL2"
proof -
  have "list_all zop Int_COP2SPECIAL2PrintTable"
    by (simp add: Int_COP2SPECIAL2PrintTable_def macro_defs call_zop list_all_replicate)
  then have "zop (Int_COP2SPECIAL2PrintTable ! unat ((c AND 0x3) OR (drop_bit 4 c AND 0x7c)))" for c :: u32
    using SPECIAL2_bound [of c] by (intro table_all [of zop]) (simp_all add: Int_COP2SPECIAL2PrintTable_def)
  then show ?thesis by (rule zop_lookup) (rule COP2_SPECIAL2_def)
qed

lemma SPECIAL_zop: "zop COP2_SPECIAL"
proof -
  have "list_all zop Int_COP2SPECIAL1PrintTable"
    by (simp add: Int_COP2SPECIAL1PrintTable_def macro_defs call_zop SPECIAL2_zop)
  then have "zop (Int_COP2SPECIAL1PrintTable ! unat (c AND 0x3F))" for c :: u32
    using word_and_le1 [of c "0x3F"] by (intro table_all [of zop]) (simp_all add: Int_COP2SPECIAL1PrintTable_def word_le_nat_alt)
  then have "run_r0 ((Int_COP2SPECIAL1PrintTable ! unat (c AND 0x3F)) C x)" if "run_r0 x" for c :: u32 and x
    using that by (simp add: zop_def)
  from run_r0D [OF this] show ?thesis
    by (intro zopI) (auto simp: COP2_SPECIAL_def bind_eq_Some_conv dest!: zkeepD [OF micro_r0(2)])
qed

lemma cop2_zop: "zop cop2_instr"
proof -
  have "list_all zop Int_COP2BC2PrintTable" by (simp add: Int_COP2BC2PrintTable_def BC2_zop call_zop list_all_replicate)
  then have "zop (Int_COP2BC2PrintTable ! unat n)" for n :: "5 word"
    using reg_index [of n] by (intro table_all [of zop]) (simp_all add: Int_COP2BC2PrintTable_def)
  then have "zop COP2_BC2" by (rule zop_lookup) (rule COP2_BC2_def)
  then have "list_all zop Int_COP2PrintTable"
    by (simp add: Int_COP2PrintTable_def call_zop move_zop CTC2_zop SPECIAL_zop list_all_replicate)
  then have "zop (Int_COP2PrintTable ! unat n)" for n :: "5 word"
    using reg_index [of n] by (intro table_all [of zop]) (simp_all add: Int_COP2PrintTable_def)
  then have "zop COP2" by (rule zop_lookup) (rule COP2_def)
  with mem_zop show ?thesis
    by (intro zop_lookup [of "\<lambda>m. if drop_bit 26 (code m) = 0x36 then LQC2 else if drop_bit 26 (code m) = 0x3E then SQC2 else COP2" cop2_instr])
      (simp_all add: cop2_instr_def)
qed

text \<open>The laws of the main processor's environment hold with the units attached.\<close>

lemma units_r0_env: "r0_env (ee_with_vu C)"
  by unfold_locales
    (use hw_read_code hw_read_r0 hw_write_r0 EventTest_r0 syscall_r0 cop2_zop in \<open>simp_all add: ee_with_vu_def zop_def\<close>)

end

text \<open>Calls that do nothing around a processor with its units.\<close>

definition cop2_plain :: "unit cop2_env" where
  "cop2_plain = \<lparr>eeEnv = \<lparr>eeMem = \<lparr>CHECK_CACHE = False, hw_read = (\<lambda>_ _ _ s. Ok 0 s), hw_write = (\<lambda>_ _ _ _ s. Ok () s)\<rparr>,
     EECycleRate = 0, FPUFPCR = DEFAULT_FPU_FP_CONTROL_REGISTER, FPContract = False, WaitLoop = False, CpuIsInt = True,
     GoemonTlbHack = False, MainMem = 0x100000, EventTest = (\<lambda>s. Ok () s), dmac_CIS = (\<lambda>_. 0), dmac_CPC = (\<lambda>_. 0),
     syscall_hle = (\<lambda>s. Ok False s), coprocessor_op = (\<lambda>x s. Some (Ok () s))\<rparr>,
     vuEnv = env_gif (\<lambda>q d. d), EnableEE = False, clear_VEW = \<lambda>k m. m\<rparr>"

interpretation plain_units: cop2_r0 cop2_plain
  by unfold_locales (simp_all add: cop2_plain_def vu_world_def env_gif_def run_r0_def)

text \<open>Register 0 reads as zero in every state that the processor reaches with its units attached.\<close>

lemma r0_with_units:
  assumes "cop2_r0 C" "r0_zero s" "intExecute (ee_with_vu C) s t"
  shows "r0_zero t"
  using r0_env.intExecute_r0 [OF cop2_r0.units_r0_env [OF assms(1)] assms(3)] assms(2) by (simp add: r0_zero_def)

section \<open>Synchronising\<close>

text \<open>Synchronising with a program of unit 0 whose cycles are not scaled returns: the unit then has caught up with the
  main processor, the program has ended, or it has asked for the main processor.\<close>

lemma units_fields [simp]: "vu0 (units m) = VU0 m" "VU0 (whole s) = vu0 s"
  by (simp_all add: units_def whole_def)

lemma update_cycles_dev [simp]: "dev (intUpdateCPUCycles E m) = dev m"
  by (simp add: intUpdateCPUCycles_def Let_def)

lemma vu_world_ok: "env_ok (vu_world C) = env_ok (vuEnv C)" "vu0_cycle_rate (vu_world C) = vu0_cycle_rate (vuEnv C)"
  by (simp_all add: env_ok_def vu_world_def)

lemma vu0_Execute_macro:
  assumes "env_ok (vuEnv C)" "vu0_cycle_rate (vuEnv C) = (\<lambda>c. c)" "pipes_ok (VU0 m)" "unat (vcycle (VU0 m)) + unat n + 8410 < 2 ^ 64"
  shows "\<exists>t. vu_Execute C 0 n m = Some t \<and> run_ok n (VU0 m) (VU0 t) \<and>
    (unat n \<le> unat (vcycle (VU0 t)) - unat (vcycle (VU0 m)) \<or> VI (VU0 t) 29 AND 1 = 0 \<or> vflags (VU0 t) AND 2 \<noteq> 0)"
  using vu0_Execute_run [of "vu_world C" "units m" n] assms by (auto simp: vu_world_ok vu_Execute_def)

lemma vu0Sync_returns:
  fixes C :: "'d cop2_env" and m :: "'d vus machine"
  assumes "env_ok (vuEnv C)" "vu0_cycle_rate (vuEnv C) = (\<lambda>c. c)" "pipes_ok (VU0 m)" "unat (vcycle (VU0 m)) + 2 ^ 32 + 8410 < 2 ^ 64"
  defines "c \<equiv> cycle (if EnableEE C then m else intUpdateCPUCycles (eeEnv C) m)"
  defines "n \<equiv> ucast (c - vcycle (VU0 m)) :: u32"
  shows "\<exists>t. vu0Sync C m = Some t \<and> pipes_ok (VU0 t) \<and>
    (VI (VU0 m) 29 AND 1 \<noteq> 0 \<and> 0 \<le>s n \<longrightarrow>
       unat n \<le> unat (vcycle (VU0 t)) - unat (vcycle (VU0 m)) \<or> VI (VU0 t) 29 AND 1 = 0 \<or> vflags (VU0 t) AND 2 \<noteq> 0)"
proof (cases "VI (VU0 m) 29 AND 1 = 0")
  case True
  then show ?thesis using assms(3) by (simp add: vu0Sync_def vu0run_def)
next
  case run: False
  define u where "u = (if EnableEE C then m else intUpdateCPUCycles (eeEnv C) m)"
  have u: "dev u = dev m" "cycle u = c" by (simp_all add: u_def c_def)
  show ?thesis
  proof (cases "n <s 0")
    case True
    then have "vu0Sync C m = Some u" using run
      by (simp add: vu0Sync_def vu0run_def u_def [symmetric] Let_def u n_def)
    with True u assms(3) show ?thesis by (auto simp: word_sle_eq word_sless_alt)
  next
    case False
    have "unat n < 2 ^ 32" using unsigned_less [of n, where 'a = nat] by simp
    then obtain t where t: "vu_Execute C 0 n u = Some t" "run_ok n (VU0 u) (VU0 t)"
      "unat n \<le> unat (vcycle (VU0 t)) - unat (vcycle (VU0 u)) \<or> VI (VU0 t) 29 AND 1 = 0 \<or> vflags (VU0 t) AND 2 \<noteq> 0"
      using vu0_Execute_macro [OF assms(1,2), of u n] assms(3,4) by (auto simp: u)
    have "vu0run_loop C False True n u = Some t" using t(1) by (subst vu0run_loop.simps) simp
    then have "vu0Sync C m = Some t" using run False
      by (simp add: vu0Sync_def vu0run_def vu0run_end_def u_def [symmetric] Let_def u n_def [symmetric])
    then show ?thesis using t(2,3) by (auto simp: run_ok_def u)
  qed
qed

section \<open>Moves\<close>

lemma UQ_of_UQ [simp]: "UQ (of_UQ q) = q"
proof (rule bit_word_eqI)
  fix n assume n: "n < LENGTH(128)"
  show "bit (UQ (of_UQ q)) n = bit q n"
    using n by (cases "n < 32"; cases "n < 64"; cases "n < 96") (auto simp: UQ_def of_UQ_def lane_defs lane_def bit_simps not_less)
qed

text \<open>With no program running, a vector moved to unit 0 and back is the same.\<close>

lemma idle_interlock: "VI (VU0 m) 29 AND 1 = 0 \<Longrightarrow> interlock C (vu0run C a b c) m = Some m"
  by (simp add: interlock_def vu0Sync_def vu0run_def)

lemma moves_round_trip:
  assumes "VI (VU0 m) 29 AND 1 = 0" "fRd m \<noteq> 0"
  shows "\<exists>t. QMTC2 C x m = Some (Ok () t) \<and>
    (\<forall>c. fRd (t\<lparr>code := c\<rparr>) = fRd m \<and> fRt (t\<lparr>code := c\<rparr>) \<noteq> 0 \<longrightarrow>
      (\<exists>u. QMFC2 C x (t\<lparr>code := c\<rparr>) = Some (Ok () u) \<and> GPR u (fRt (t\<lparr>code := c\<rparr>)) = GPR m (fRt m)))"
proof -
  define t where "t = on_VU 0 (wVFq (fRd m) (of_UQ (GPR m (fRt m)))) m"
  have "QMTC2 C x m = Some (Ok () t)"
    using assms idle_interlock [OF assms(1), of C True True False] by (simp add: QMTC2_def vu0WaitMicro_def t_def)
  moreover have "QMFC2 C x (t\<lparr>code := c\<rparr>) = Some (Ok () (wGPR (fRt (t\<lparr>code := c\<rparr>)) (GPR m (fRt m)) (t\<lparr>code := c\<rparr>)))"
    if "fRd (t\<lparr>code := c\<rparr>) = fRd m" "fRt (t\<lparr>code := c\<rparr>) \<noteq> 0" for c
  proof -
    have "VI (VU0 (t\<lparr>code := c\<rparr>)) 29 AND 1 = 0" "VF (VU0 (t\<lparr>code := c\<rparr>)) (fRd m) = of_UQ (GPR m (fRt m))"
      using assms(1) by (simp_all add: t_def on_VU_def on_vu_def wVFq_def)
    then show ?thesis using that idle_interlock [of "t\<lparr>code := c\<rparr>" C False True False] by (simp add: QMFC2_def vu0FinishMicro_def)
  qed
  ultimately show ?thesis by (auto simp: wGPR_def)
qed

section \<open>Flags of divisions\<close>

text \<open>After a division of macro mode the sticky flags of divisions are those of this division alone: the ones that
  earlier divisions left are forgotten. Arithmetic keeps the sticky flags and clears the others.\<close>

lemma macro_division_flags:
  "VI (SYNCFDIV v) 16 AND 0xC30 = (statusflag v AND 0x30) OR push_bit 6 (statusflag v AND 0x30)"
  "VI (SYNCMSFLAGS v) 16 AND 0xC30 = VI v 16 AND 0xC00"
proof -
  show "VI (SYNCFDIV v) 16 AND 0xC30 = (statusflag v AND 0x30) OR push_bit 6 (statusflag v AND 0x30)"
    by (simp add: SYNCFDIV_def wVI_def bit.conj_disj_distrib2 and.assoc push_bit_and)
  show "VI (SYNCMSFLAGS v) 16 AND 0xC30 = VI v 16 AND 0xC00"
    by (simp add: SYNCMSFLAGS_def wVI_def bit.conj_disj_distrib2 and.assoc push_bit_and)
qed

end
