(* ===== verification/Spec2Isabelle.thy ===== *)
theory Spec2Isabelle
  imports EE_Interp IOP_Run VU_Props VU_MacroProps
begin

text \<open>
  Verification library for the PCSX2 core of the libretro port: the processors of the console as
  their interpreters define them. All paths are under \<^verbatim>\<open>src/\<close>.

  \<^bold>\<open>The program.\<close> The console's main processor, the Emotion Engine, executes guest instructions in
  \<^verbatim>\<open>pcsx2/Interpreter.cpp\<close>: fetch through the virtual memory of \<^verbatim>\<open>pcsx2/vtlb.cpp\<close>, decode by the
  tables of \<^verbatim>\<open>pcsx2/R5900OpcodeTables.cpp\<close>, and call one C++ function per instruction
  (\<^verbatim>\<open>R5900OpcodeImpl.cpp\<close>, \<^verbatim>\<open>MMI.cpp\<close>, \<^verbatim>\<open>COP0.cpp\<close>, \<^verbatim>\<open>FPU.cpp\<close>, \<^verbatim>\<open>Cache.cpp\<close>), all on the
  global registers \<^verbatim>\<open>cpuRegs\<close> and \<^verbatim>\<open>fpuRegs\<close>. Branches call the event test, which runs timers,
  DMA and the other processors. The recompilers generate host code from the same tables and fall
  back on the same functions. The second processor (IOP), an R3000A, has an interpreter of its own
  (\<^verbatim>\<open>R3000AInterpreter.cpp\<close>, \<^verbatim>\<open>R3000AOpcodeTables.cpp\<close>) on the registers \<^verbatim>\<open>psxRegs\<close> and the memory of
  \<^verbatim>\<open>IopMem.cpp\<close>; the main processor's event test runs it in slices (\<^verbatim>\<open>intExecuteBlock\<close>), and it
  tells the main processor about its next event (\<^verbatim>\<open>PSX_INT\<close>). The two vector units run programs from
  their own memories (\<^verbatim>\<open>VU0microInterp.cpp\<close>, \<^verbatim>\<open>VU1microInterp.cpp\<close>, \<^verbatim>\<open>VUops.cpp\<close>): every step executes an upper
  and a lower instruction, whose results travel through pipelines that delay flags and the results of
  divisions; unit 1 sends packets from its memory to the graphics interface.

  \<^bold>\<open>State and errors.\<close> \<open>EE_State\<close> holds the register record (\<^verbatim>\<open>struct cpuRegisters\<close>, general
  registers as 128-bit words with the lanes of \<^verbatim>\<open>GPR_reg\<close>), the instruction fields and register
  writes; \<open>EE_Machine\<close> extends it with the page tables, host memory as a byte map, the TLB, the data
  cache and the floating-point registers, and has the packed page table words. An instruction
  that may be abandoned (a TLB miss, an address error, the long jump of \<^verbatim>\<open>intExitExecution\<close>) returns
  \<open>Ok\<close> or \<open>Cancelled\<close> with the state at that point (\<open>outcome\<close> in \<open>Prelude\<close>, which also has lanes of
  words, saturation, and little-endian host memory). Integers keep their width as words; signed
  comparisons and shifts are written out as the source has them.

  \<^bold>\<open>Theories.\<close>
  \<^item> \<open>EE_Exceptions\<close> (\<^verbatim>\<open>R5900.cpp\<close>): exception entry, TLB misses, the arithmetic of the next event.
  \<^item> \<open>EE_ALU\<close> (\<^verbatim>\<open>R5900OpcodeImpl.cpp\<close>): integer instructions; trapping additions are exact, division
    and multiplication meet their specifications, shifts are arithmetic.
  \<^item> \<open>EE_MMI\<close> (\<^verbatim>\<open>MMI.cpp\<close>): multimedia instructions; the in-place lane loops equal simultaneous vector
    operations (locale \<open>vec_op\<close>, interpreted for each lane width), saturating instructions clamp the
    exact result, packing inverts unpacking, \<open>QFSRV\<close> is a funnel shift.
  \<^item> \<open>EE_Cache\<close> (\<^verbatim>\<open>Cache.cpp\<close>): tags, lines, replacement, accesses and the \<^verbatim>\<open>CACHE\<close> instruction. Seen
    through \<open>cache_view\<close> the cached machine is flat memory, evictions included.
  \<^item> \<open>VTLB\<close> (\<^verbatim>\<open>vtlb.cpp\<close>, \<^verbatim>\<open>vtlb.h\<close>, \<^verbatim>\<open>Memory.cpp\<close>): mapping operations, accessors, block copies; the packed
    tables refine an abstract page table, memory behaves as memory, unmapped accesses take the refill exception.
  \<^item> \<open>EE_COP0\<close> (\<^verbatim>\<open>COP0.cpp\<close>): status, configuration, performance counters, the TLB. The page table agrees
    with the architecture's lookup of a written entry, and the cached-entry arrays stay in bounds in
    every reachable TLB state (\<open>tlb_reach\<close>).
  \<^item> \<open>Host_Float\<close>: the host's single-precision arithmetic as the source configures it (rounding mode,
    denormals), executable on bit patterns, with what truncation means as lemmas. Results for NaN operands, which only
    the vector units with clamping off can see, are those of SSE.
  \<^item> \<open>EE_LoadStore\<close> (\<^verbatim>\<open>R5900OpcodeImpl.cpp\<close>, \<^verbatim>\<open>Interpreter.cpp\<close>): loads, stores, cycle accounting, and the
    environment record \<open>ee_env\<close>.
  \<^item> \<open>EE_FPU\<close> (\<^verbatim>\<open>FPU.cpp\<close>): the floating-point unit; arithmetic truncates, results stay normal. The interpreter
    divides under the same control register; the recompilers have one of their own for that.
  \<^item> \<open>EE_Interp\<close> (\<^verbatim>\<open>Interpreter.cpp\<close>, \<^verbatim>\<open>R5900OpcodeTables.cpp\<close>): fetch, opcode tables, jumps and branches
    with delay slots, one step, and the reachable states as the relation \<open>intExecute\<close>. Register 0 is
    zero in all of them, for every environment that satisfies the locale \<open>r0_env\<close>, interpreted on the
    environment \<open>ee_plain\<close>.
  \<^item> \<open>IOP_Mem\<close> (\<^verbatim>\<open>IopMem.cpp\<close>, \<^verbatim>\<open>IopMem.h\<close>): the state \<open>iop\<close> and environment \<open>iop_env\<close> of the second
    processor, its page tables, accesses and block accesses. After a reset main memory is mirrored
    and writable in every segment, and the boot memory is read-only for the processor.
  \<^item> \<open>IOP_Interp\<close> (\<^verbatim>\<open>R3000A.cpp\<close>, \<^verbatim>\<open>R3000AOpcodeTables.cpp\<close>, \<^verbatim>\<open>R3000AInterpreter.cpp\<close>): exceptions, events,
    instructions, tables, the block loop. Register 0 stays zero for every environment of the locale
    \<open>iop_laws\<close>, interpreted on \<open>iop_plain\<close>.
  \<^item> \<open>IOP_Run\<close> (the same files): the event test schedules the earliest event, cycles are charged
    without drift, and a slice ends.
  \<^item> \<open>VU_State\<close> (\<^verbatim>\<open>VU.h\<close>, \<^verbatim>\<open>VUops.h\<close>): the registers \<open>VURegs\<close> of a vector unit, the state \<open>vus\<close> of both units and
    what is outside them, the parameters \<open>vu_env\<close>. \<open>VU_Pipes\<close> (\<^verbatim>\<open>VUops.cpp\<close>): the rings of the floating-point and
    integer pipelines, division and elementary functions: retiring, stalling, entering, draining.
    \<open>VU_XGKick\<close> (\<^verbatim>\<open>VUops.cpp\<close>, \<^verbatim>\<open>Gif_Unit.h\<close>): the transfer to the graphics interface, which returns, and what a flush
    delivers.
  \<^item> \<open>VU_Upper\<close>, \<open>VU_Lower\<close> (\<^verbatim>\<open>VUops.cpp\<close>, \<^verbatim>\<open>VUflags.cpp\<close>): the instructions. \<open>VU_Regs\<close>: the descriptors of what each
    reads and writes. \<open>VU_Tables\<close>: the opcode tables of both.
  \<^item> \<open>VU_Interp\<close> (\<^verbatim>\<open>VU0microInterp.cpp\<close>, \<^verbatim>\<open>VU1microInterp.cpp\<close>): one step of each unit and the loops that run them.
  \<^item> \<open>VU_Frame\<close>: what the instructions leave alone. \<open>VU_Queue\<close>: the rings as lists of entries in the order of their
    start; \<open>VU_Safety\<close>, \<open>VU_Step\<close>, \<open>VU_Execute\<close>: the invariant \<open>pipes_ok\<close> through every part of a step, the bound on
    its cycles, the loops return. \<open>VU_Lanes\<close>: lanes at once. \<open>VU_Hazards\<close>: after the stalls the operands are
    ready. \<open>VU_Props\<close>: the properties, and a machine after reset to apply them to.
  \<^item> \<open>VU_Macro\<close> (\<^verbatim>\<open>VU0.cpp\<close>, \<^verbatim>\<open>COP2.cpp\<close>, \<^verbatim>\<open>VUmicro.cpp\<close>, \<^verbatim>\<open>VU0micro.cpp\<close>, \<^verbatim>\<open>VU1micro.cpp\<close>, the end of \<^verbatim>\<open>VUops.cpp\<close>): the
    main processor's instructions on VU0, macro mode, and starting and waiting for programs. The units are the
    device of the main processor's machine (\<open>units\<close>, \<open>whole\<close>), and \<open>ee_with_vu\<close> is the processor with them.
    \<open>VU_Dev\<close>: what the units leave alone outside them, as the locale \<open>vu_outside\<close>. \<open>VU_MacroProps\<close>: register 0 stays
    zero for the processor with its units (locale \<open>cop2_r0\<close>, interpreted on \<open>cop2_plain\<close>), synchronising returns,
    moves of quadwords are inverse, and what a division of macro mode leaves in the status flags.

  \<^bold>\<open>Loops and fuel.\<close> Loops over lanes, pages and entries are folds over index lists. A taken branch
  runs its delay slot by calling the interpreter again, so \<open>execI\<close> takes fuel, and \<open>execI_returns\<close>
  shows that one unit more than the number of nested branches is enough. \<open>vtlb_VMap_loop\<close> keeps the
  source's loop as a partial function, and \<open>vtlb_VMap_loop_returns\<close> shows when it ends. The scan of
  the wait-loop hack is given \<open>2 ^ 30\<close> steps, after which the address has come round. \<open>iop_execI\<close>
  takes fuel for delay slots likewise; \<open>run_to_branch\<close> and \<open>block_loop\<close> are partial functions, because
  a block without a taken branch does not end, and \<open>iop_slice_ends\<close> shows that slices return when
  blocks do. The loops of the vector units take fuel: \<open>vu1_Execute_returns\<close> shows that the number of requested
  cycles, which the definitions give them, is enough. The transfer loop is a partial function that
  \<open>vu_xgkick_returns\<close> shows to return. These theorems assume that the cycle counter, of 64 bits, does not wrap around during the run.

  \<^bold>\<open>Parameters.\<close> \<open>mem_env\<close>, \<open>ee_env\<close> and \<open>iop_env\<close> hold configuration values and the calls that leave
  the modelled part: device handlers by number and the register pages of the second processor, the
  event test, the DMA controller's status, the console and BIOS part of \<^verbatim>\<open>SYSCALL\<close>, the second
  processor's counters, event callbacks, geometry unit and BIOS call, and the instructions of VU0, which \<open>VU_Macro\<close> supplies: they may run the main processor's
  interpreter for a delay slot and need not return. Whether the compiler fuses a product with a sum, as the build allows
  (\<^verbatim>\<open>-ffp-contract=fast\<close>), is a parameter of both floating-point parts. \<open>vu_env\<close> holds
  the options and calls of the vector units: rounding, the interface positions, interrupts, the graphics
  interface, the main processor's cycle, three polynomials evaluated in double precision, and the contents of a descriptor
  the program leaves uninitialised for unknown instructions; \<open>env_ok\<close> asks that these name no pipeline and that
  transfers are parsed by tag, as the program's calls do.

  \<^bold>\<open>Not modelled.\<close> Console messages and logs; breakpoints; the boot phase of the main loop, which patches
  the loader; fastmem and the recompilers, which generate host code, and the copies of the flags they keep;
  the vector units' debugger and the thread of unit 1, VIF, GIF, SIF and the DMA controller, the counters of both processors, the
  second processor's DMA and geometry unit, the graphics synthesizer, sound, disc and other devices, and the front end.
\<close>

end
